(* ===== verification/Types_Encoding.thy ===== *)
theory Types_Encoding
  imports Prelude
begin

text \<open>
  The Objective-C type encodings: \<open>include/iCDump/ObjC/TypesEncoding.hpp\<close> and
  \<open>src/ObjC/TypesEncoding.cpp\<close>.

  The iterator \<open>it\<close> into \<open>encoded\<close> is modelled by the characters that are still to be read,
  so \<open>it == std::end(encoded)\<close> is the empty list, \<open>*it\<close> its head and \<open>++it\<close> its tail.
  A \<open>std::unique_ptr<Type>\<close> result is an option, \<open>None\<close> for \<open>nullptr\<close>. The recursive readers take
  fuel; their outer option is \<open>None\<close> exactly when it runs out, and \<open>decode_fuel\<close> of the input is
  always enough (\<open>process_total\<close>). Log messages are not modelled.
\<close>

section \<open>Types\<close>

datatype OBJC_TYPES =
    OT_UNKNOWN
  | OT_CHAR | OT_INT | OT_SHORT | OT_LONG | OT_LONG_LONG
  | OT_UNSIGNED_CHAR | OT_UNSIGNED_INT | OT_UNSIGNED_SHORT | OT_UNSIGNED_LONG
  | OT_UNSIGNED_LONG_LONG
  | OT_FLOAT | OT_DOUBLE | OT_BOOL | OT_VOID | OT_CSTRING
  | OT_OBJECT | OT_CLASS | OT_SELECTOR | OT_ARRAY | OT_STRUCT | OT_UNION | OT_BIT_FIELD
  | OT_POINTER | OT_BLOCK

datatype OBJC_TYPE_SPECIFIERS =
    TS_UNKNOWN | TS_CONST | TS_IN | TS_IN_OUT | TS_OUT | TS_BY_COPY | TS_BY_REF | TS_ONE_WAY
  | TS_ATOMIC | TS_COMPLEX

text \<open>
  The class hierarchy under \<open>struct Type\<close>: one constructor per subclass, with its members. The
  member \<open>specifiers\<close> of \<open>Type\<close> is written by no code of the program and left out. The element
  type of an array and the type of a field may be \<open>nullptr\<close>; the target of a pointer may not.
\<close>

datatype objc_type =
    PrimitiveTy OBJC_TYPES
  | SelectorTy
  | UnknownTy
  | ClassTy
  | BlockTy
  | ObjectTy string
  | PointerTy objc_type
  | ArrayTy u64 "objc_type option"
  | StructTy string "AttrTy list"
  | UnionTy string "AttrTy list"
  | BitFieldTy u64
and AttrTy = AttrTy (attr_name: string) (attr_type: "objc_type option")

text \<open>The member \<open>type\<close> of \<open>struct Type\<close>, as the constructors initialise it.\<close>

fun type_kind :: "objc_type \<Rightarrow> OBJC_TYPES" where
  "type_kind (PrimitiveTy k) = k"
| "type_kind SelectorTy = OT_SELECTOR"
| "type_kind UnknownTy = OT_UNKNOWN"
| "type_kind ClassTy = OT_CLASS"
| "type_kind BlockTy = OT_BLOCK"
| "type_kind (ObjectTy _) = OT_OBJECT"
| "type_kind (PointerTy _) = OT_POINTER"
| "type_kind (ArrayTy _ _) = OT_ARRAY"
| "type_kind (StructTy _ _) = OT_STRUCT"
| "type_kind (UnionTy _ _) = OT_UNION"
| "type_kind (BitFieldTy _) = OT_BIT_FIELD"

text \<open>\<open>PrimitiveTy::classof\<close>: the enumerators from \<open>CHAR\<close> to \<open>CSTRING\<close>.\<close>

definition primitive_kinds :: "OBJC_TYPES list" where
  "primitive_kinds =
     [OT_CHAR, OT_INT, OT_SHORT, OT_LONG, OT_LONG_LONG, OT_UNSIGNED_CHAR, OT_UNSIGNED_INT,
      OT_UNSIGNED_SHORT, OT_UNSIGNED_LONG, OT_UNSIGNED_LONG_LONG, OT_FLOAT, OT_DOUBLE, OT_BOOL,
      OT_VOID, OT_CSTRING]"

definition PrimitiveTy_classof :: "objc_type \<Rightarrow> bool" where
  "PrimitiveTy_classof t \<longleftrightarrow> type_kind t \<in> set primitive_kinds"

fun to_string :: "OBJC_TYPES \<Rightarrow> string" where
  "to_string OT_CHAR = ''CHAR''"
| "to_string OT_INT = ''INT''"
| "to_string OT_SHORT = ''SHORT''"
| "to_string OT_LONG = ''LONG''"
| "to_string OT_LONG_LONG = ''LONG_LONG''"
| "to_string OT_UNSIGNED_CHAR = ''UNSIGNED_CHAR''"
| "to_string OT_UNSIGNED_INT = ''UNSIGNED_INT''"
| "to_string OT_UNSIGNED_SHORT = ''UNSIGNED_SHORT''"
| "to_string OT_UNSIGNED_LONG = ''UNSIGNED_LONG''"
| "to_string OT_UNSIGNED_LONG_LONG = ''UNSIGNED_LONG_LONG''"
| "to_string OT_FLOAT = ''FLOAT''"
| "to_string OT_DOUBLE = ''DOUBLE''"
| "to_string OT_BOOL = ''BOOL''"
| "to_string OT_VOID = ''VOID''"
| "to_string OT_CSTRING = ''CSTRING''"
| "to_string OT_OBJECT = ''OBJECT''"
| "to_string OT_CLASS = ''CLASS''"
| "to_string OT_SELECTOR = ''SELECTOR''"
| "to_string OT_ARRAY = ''ARRAY''"
| "to_string OT_STRUCT = ''STRUCT''"
| "to_string OT_UNION = ''UNION''"
| "to_string OT_BIT_FIELD = ''BIT_FIELD''"
| "to_string OT_POINTER = ''POINTER''"
| "to_string OT_BLOCK = ''BLOCK''"
| "to_string OT_UNKNOWN = ''UNKNOWN''"

section \<open>Readers of tokens\<close>

definition skip_digits :: "string \<Rightarrow> string" where
  "skip_digits it = dropWhile is_digit it"

text \<open>\<open>it != std::end(encoded) && *it == d\<close>, and the step over such a character.\<close>

definition skip_char :: "char \<Rightarrow> string \<Rightarrow> string" where
  "skip_char d it = (case it of c # it' \<Rightarrow> if c = d then it' else it | [] \<Rightarrow> it)"

definition starts_with :: "char \<Rightarrow> string \<Rightarrow> bool" where
  "starts_with d it = (case it of c # _ \<Rightarrow> c = d | [] \<Rightarrow> False)"

text \<open>An optional \<open>'?'\<close> in front of a structure's or a union's name is dropped.\<close>

definition skip_anonymous :: "string \<Rightarrow> string" where
  "skip_anonymous it = skip_char (CHR ''?'') it"

text \<open>An optional name between double quotes; the closing quote may be missing.\<close>

abbreviation "quote \<equiv> CHR 0x22"

definition read_opt_name :: "string \<Rightarrow> string \<times> string" where
  "read_opt_name it =
     (if \<not> starts_with quote it then ([], it)
      else (takeWhile (\<lambda>c. c \<noteq> quote) (tl it),
            skip_char quote (dropWhile (\<lambda>c. c \<noteq> quote) (tl it))))"

text \<open>
  \<open>read_str_number\<close> assigns (\<open>n = *it++\<close>) where appending was meant, so \<open>n\<close> holds the last digit
  that was read.
\<close>

fun read_str_number_loop :: "string \<Rightarrow> string \<Rightarrow> string \<times> string" where
  "read_str_number_loop n [] = (n, [])"
| "read_str_number_loop n (c # it) =
     (if is_digit c then read_str_number_loop [c] it else (n, c # it))"

definition read_str_number :: "string \<Rightarrow> string \<times> string" where
  "read_str_number it = read_str_number_loop [] it"

text \<open>\<open>std::strtoull\<close> in base 10 on a string of digits: the value, clamped to the 64-bit maximum.\<close>

definition strtoull :: "string \<Rightarrow> u64" where
  "strtoull s = word_of_nat (min UINT64_MAX (dec_value (takeWhile is_digit s)))"

definition process_specifier :: "string \<Rightarrow> OBJC_TYPE_SPECIFIERS \<times> string" where
  "process_specifier it =
     (case it of
        [] \<Rightarrow> (TS_UNKNOWN, it)
      | c # it' \<Rightarrow>
          if c = CHR ''r'' then (TS_CONST, it')
          else if c = CHR ''n'' then (TS_IN, it')
          else if c = CHR ''N'' then (TS_IN_OUT, it')
          else if c = CHR ''o'' then (TS_OUT, it')
          else if c = CHR ''O'' then (TS_BY_COPY, it')
          else if c = CHR ''R'' then (TS_BY_REF, it')
          else if c = CHR ''V'' then (TS_ONE_WAY, it')
          else if c = CHR ''A'' then (TS_ATOMIC, it')
          else if c = CHR ''j'' then (TS_COMPLEX, it')
          else (TS_UNKNOWN, it))"

text \<open>The \<open>do ... while\<close> loop of \<open>process\<close> that reads specifiers and drops them.\<close>

function skip_specifiers :: "string \<Rightarrow> string" where
  "skip_specifiers it =
     (let (spec, it') = process_specifier it
      in if it' \<noteq> [] \<and> spec \<noteq> TS_UNKNOWN then skip_specifiers it' else it')"
  by pat_completeness auto
termination
  by (relation "measure length") (auto simp: process_specifier_def split: list.splits if_splits)

declare skip_specifiers.simps [simp del]

definition process_bitfield :: "string \<Rightarrow> objc_type option \<times> string" where
  "process_bitfield it =
     (let (num_str, it') = read_str_number it
      in if num_str = [] then (None, it') else (Some (BitFieldTy (strtoull num_str)), it'))"

section \<open>The recursive reader\<close>

text \<open>
  \<open>primitive_of_char\<close> is the part of the \<open>switch\<close> of \<open>process\<close> that returns a \<open>PrimitiveTy\<close>.
\<close>

definition primitive_of_char :: "char \<Rightarrow> OBJC_TYPES option" where
  "primitive_of_char c =
     (if c = CHR ''c'' then Some OT_CHAR
      else if c = CHR ''i'' then Some OT_INT
      else if c = CHR ''s'' then Some OT_SHORT
      else if c = CHR ''l'' then Some OT_LONG
      else if c = CHR ''q'' then Some OT_LONG_LONG
      else if c = CHR ''C'' then Some OT_UNSIGNED_CHAR
      else if c = CHR ''I'' then Some OT_UNSIGNED_INT
      else if c = CHR ''S'' then Some OT_UNSIGNED_SHORT
      else if c = CHR ''L'' then Some OT_UNSIGNED_LONG
      else if c = CHR ''Q'' then Some OT_UNSIGNED_LONG_LONG
      else if c = CHR ''f'' then Some OT_FLOAT
      else if c = CHR ''d'' then Some OT_DOUBLE
      else if c = CHR ''B'' then Some OT_BOOL
      else if c = CHR ''v'' then Some OT_VOID
      else if c = CHR ''*'' then Some OT_CSTRING
      else None)"

text \<open>
  Each \<open>_step\<close> is the body of one function of the source over the functions it calls;
  \<open>process\<close> and its companions tie the knot.
  \<open>process_fields\<close> is the \<open>while\<close> loop over the fields that \<open>process_structure\<close> and
  \<open>process_union\<close> share up to the closing delimiter; \<open>process_elements\<close> the loop of
  \<open>process_array\<close>, which keeps the last element type.
\<close>

definition process_step ::
  "(string \<Rightarrow> (objc_type option \<times> string) option) \<Rightarrow> (string \<Rightarrow> (objc_type option \<times> string) option) \<Rightarrow>
   (string \<Rightarrow> (objc_type option \<times> string) option) \<Rightarrow> (string \<Rightarrow> (objc_type option \<times> string) option) \<Rightarrow>
   string \<Rightarrow> (objc_type option \<times> string) option" where
  "process_step rec_array rec_structure rec_union rec it =
     (case skip_digits it of
        [] \<Rightarrow> Some (None, [])
      | d # ds \<Rightarrow>
       (case skip_specifiers (d # ds) of
          [] \<Rightarrow> Some (None, [])
        | c # it1 \<Rightarrow>
            (case primitive_of_char c of
               Some k \<Rightarrow> Some (Some (PrimitiveTy k), it1)
             | None \<Rightarrow>
                 if c = CHR ''#'' then Some (Some ClassTy, it1)
                 else if c = CHR '':'' then Some (Some SelectorTy, it1)
                 else if c = CHR ''['' then rec_array it1
                 else if c = CHR ''{'' then rec_structure it1
                 else if c = CHR ''('' then rec_union it1
                 else if c = CHR ''b'' then Some (process_bitfield it1)
                 else if c = CHR ''?'' then Some (Some UnknownTy, it1)
                 else if c = CHR ''^'' then
                   (if starts_with (CHR ''?'') it1
                    then Some (Some (PointerTy (PrimitiveTy OT_VOID)), tl it1)
                    else do {
                      (ptr_type, it2) \<leftarrow> rec it1;
                      Some (map_option PointerTy ptr_type, it2)
                    })
                 else if c = CHR ''@'' then
                   (if starts_with (CHR ''?'') it1
                    then Some (Some BlockTy, tl it1)
                    else let (name, it2) = read_opt_name it1 in Some (Some (ObjectTy name), it2))
                 else Some (None, it1))))"

definition structure_step ::
  "(char \<Rightarrow> string \<Rightarrow> (AttrTy list \<times> string) option) \<Rightarrow> string \<Rightarrow> (objc_type option \<times> string) option" where
  "structure_step rec_fields it =
     (let it1 = skip_anonymous it;
          name_char = (\<lambda>c. c \<noteq> CHR ''='' \<and> c \<noteq> CHR ''}'');
          struct_name = takeWhile name_char it1;
          it2 = dropWhile name_char it1
      in if starts_with (CHR ''}'') it2 then Some (Some (StructTy struct_name []), tl it2)
         else
           let it3 = skip_char (CHR ''='') it2
           in if starts_with (CHR ''}'') it3 then Some (Some (StructTy struct_name []), tl it3)
              else do {
                (attributes, it4) \<leftarrow> rec_fields (CHR ''}'') it3;
                if starts_with (CHR ''}'') it4
                then Some (Some (StructTy struct_name attributes), tl it4)
                else Some (None, it4)
              })"

definition union_step ::
  "(char \<Rightarrow> string \<Rightarrow> (AttrTy list \<times> string) option) \<Rightarrow> string \<Rightarrow> (objc_type option \<times> string) option" where
  "union_step rec_fields it =
     (let it1 = skip_anonymous it;
          name_char = (\<lambda>c. c \<noteq> CHR ''='');
          union_name = takeWhile name_char it1;
          it3 = skip_char (CHR ''='') (dropWhile name_char it1)
      in if starts_with (CHR '')'') it3 then Some (Some (UnionTy union_name []), tl it3)
         else do {
           (attributes, it4) \<leftarrow> rec_fields (CHR '')'') it3;
           if starts_with (CHR '')'') it4
           then Some (Some (UnionTy union_name attributes), tl it4)
           else Some (None, it4)
         })"

definition array_step ::
  "(objc_type option \<Rightarrow> string \<Rightarrow> (objc_type option \<times> string) option) \<Rightarrow> string \<Rightarrow>
   (objc_type option \<times> string) option" where
  "array_step rec_elements it =
     (let (array_size_str, it1) = read_str_number it
      in if array_size_str = [] then Some (None, it1)
         else do {
           (underlying_type, it2) \<leftarrow> rec_elements None it1;
           if starts_with (CHR '']'') it2
           then Some (Some (ArrayTy (strtoull array_size_str) underlying_type), tl it2)
           else Some (None, it2)
         })"

function process :: "nat \<Rightarrow> string \<Rightarrow> (objc_type option \<times> string) option"
  and process_structure :: "nat \<Rightarrow> string \<Rightarrow> (objc_type option \<times> string) option"
  and process_union :: "nat \<Rightarrow> string \<Rightarrow> (objc_type option \<times> string) option"
  and process_array :: "nat \<Rightarrow> string \<Rightarrow> (objc_type option \<times> string) option"
  and process_fields :: "nat \<Rightarrow> char \<Rightarrow> string \<Rightarrow> (AttrTy list \<times> string) option"
  and process_elements :: "nat \<Rightarrow> objc_type option \<Rightarrow> string \<Rightarrow> (objc_type option \<times> string) option"
where
  "process 0 it = None"
| "process (Suc n) it =
     process_step (process_array n) (process_structure n) (process_union n) (process n) it"
| "process_structure 0 it = None"
| "process_structure (Suc n) it = structure_step (process_fields n) it"
| "process_union 0 it = None"
| "process_union (Suc n) it = union_step (process_fields n) it"
| "process_array 0 it = None"
| "process_array (Suc n) it = array_step (process_elements n) it"
| "process_fields 0 delim it = None"
| "process_fields (Suc n) delim it =
     (if it = [] \<or> starts_with delim it then Some ([], it)
      else let (name, it1) = read_opt_name it
           in do {
             (field_type, it2) \<leftarrow> process n it1;
             (attributes, it3) \<leftarrow> process_fields n delim it2;
             Some (AttrTy name field_type # attributes, it3)
           })"
| "process_elements 0 underlying_type it = None"
| "process_elements (Suc n) underlying_type it =
     (if it = [] \<or> starts_with (CHR '']'') it then Some (underlying_type, it)
      else do {
        (t, it1) \<leftarrow> process n it;
        process_elements n t it1
      })"
  by pat_completeness auto
termination
  by (relation "measure (\<lambda>x. case x of
       Inl (Inl (n, _)) \<Rightarrow> n | Inl (Inr (Inl (n, _))) \<Rightarrow> n | Inl (Inr (Inr (n, _))) \<Rightarrow> n
     | Inr (Inl (n, _)) \<Rightarrow> n | Inr (Inr (Inl (n, _))) \<Rightarrow> n | Inr (Inr (Inr (n, _))) \<Rightarrow> n)") auto

definition decode_fuel :: "string \<Rightarrow> nat" where
  "decode_fuel it = 3 * length it + 3"

text \<open>The loop of \<open>decode_type\<close>: a specifier, then a type, until the end of the input.\<close>

fun decode_loop :: "nat \<Rightarrow> string \<Rightarrow> objc_type list option" where
  "decode_loop 0 it = None"
| "decode_loop (Suc n) it =
     (if it = [] then Some []
      else do {
        let (specifier, it1) = process_specifier it;
        (decoded, it2) \<leftarrow> process n it1;
        types \<leftarrow> decode_loop n it2;
        Some (case decoded of None \<Rightarrow> types | Some t \<Rightarrow> t # types)
      })"

definition decode_type :: "string \<Rightarrow> objc_type list option" where
  "decode_type encoded = decode_loop (decode_fuel encoded) encoded"

section \<open>Progress and termination\<close>

text \<open>
  \<open>reads k m it\<close>: the reader \<open>m\<close> run on \<open>it\<close> returns, and leaves at least \<open>k\<close> characters fewer.
\<close>

definition reads :: "nat \<Rightarrow> ('a \<times> string) option \<Rightarrow> string \<Rightarrow> bool" where
  "reads k m it \<longleftrightarrow> (\<exists>r it'. m = Some (r, it') \<and> length it' + k \<le> length it)"

lemma readsI [intro]: "length it' + k \<le> length it \<Longrightarrow> reads k (Some (r, it')) it"
  by (simp add: reads_def)

lemma readsE:
  assumes "reads k m it"
  obtains r it' where "m = Some (r, it')" and "length it' + k \<le> length it"
  using assms by (auto simp: reads_def)

lemma reads_if:
  "(c \<Longrightarrow> reads k m it) \<Longrightarrow> (\<not> c \<Longrightarrow> reads k m' it) \<Longrightarrow> reads k (if c then m else m') it"
  by simp

lemma length_skip_char: "length (skip_char d it) \<le> length it"
  by (cases it) (simp_all add: skip_char_def)

lemma length_skip_anonymous: "length (skip_anonymous it) \<le> length it"
  by (simp add: skip_anonymous_def length_skip_char)

lemma skip_char_dropWhile_le: "length (skip_char d (dropWhile P it)) \<le> length it"
  by (meson length_dropWhile_le length_skip_char le_trans)

lemma starts_with_length: "starts_with d it \<Longrightarrow> length (tl it) < length it"
  by (cases it) (simp_all add: starts_with_def)

lemma length_read_opt_name: "read_opt_name it = (name, it') \<Longrightarrow> length it' \<le> length it"
  using skip_char_dropWhile_le [of quote "\<lambda>c. c \<noteq> quote" "tl it"]
  by (simp add: read_opt_name_def split: if_splits)

lemma reads_1: "reads 0 m it' \<Longrightarrow> length it' < length it \<Longrightarrow> reads 1 m it"
  by (auto simp: reads_def)

lemma length_process_specifier: "process_specifier it = (t, it') \<Longrightarrow> length it' \<le> length it"
  by (auto simp: process_specifier_def split: list.splits if_splits)

lemma length_skip_specifiers: "length (skip_specifiers it) \<le> length it"
proof (induction it rule: skip_specifiers.induct)
  case (1 it)
  obtain spec it' where ps: "process_specifier it = (spec, it')" by fastforce
  show ?case
  proof (cases "it' \<noteq> [] \<and> spec \<noteq> TS_UNKNOWN")
    case True
    with "1" ps have "length (skip_specifiers it') \<le> length it'" by simp
    with True ps length_process_specifier [OF ps] show ?thesis
      by (subst skip_specifiers.simps) simp
  next
    case False
    with ps length_process_specifier [OF ps] show ?thesis
      by (subst skip_specifiers.simps) auto
  qed
qed

lemma length_read_str_number: "read_str_number it = (n, it') \<Longrightarrow> length it' \<le> length it"
proof -
  have "read_str_number_loop m it = (n, it') \<Longrightarrow> length it' \<le> length it" for m
    by (induction m it rule: read_str_number_loop.induct) (auto split: if_splits)
  then show "read_str_number it = (n, it') \<Longrightarrow> length it' \<le> length it"
    by (simp add: read_str_number_def)
qed

lemma length_process_bitfield: "process_bitfield it = (r, it') \<Longrightarrow> length it' \<le> length it"
  by (auto simp: process_bitfield_def dest: length_read_str_number split: prod.splits if_splits)

lemmas reader_lengths =
  length_process_specifier length_skip_specifiers length_read_opt_name length_read_str_number
  length_process_bitfield length_skip_anonymous length_skip_char

lemma structure_step_reads:
  assumes "\<And>d x. length x \<le> length it \<Longrightarrow> reads 0 (F d x) x"
  shows "reads 0 (structure_step F it) it"
proof -
  define P where "P = (\<lambda>c. c \<noteq> CHR ''='' \<and> c \<noteq> CHR ''}'')"
  define it2 where "it2 = dropWhile P (skip_anonymous it)"
  define it3 where "it3 = skip_char (CHR ''='') it2"
  have l2: "length it2 \<le> length it" and l3: "length it3 \<le> length it"
    unfolding it3_def it2_def
    by (meson length_dropWhile_le length_skip_anonymous length_skip_char le_trans)+
  obtain as it4 where f: "F (CHR ''}'') it3 = Some (as, it4)" and l4: "length it4 \<le> length it3"
    using assms [OF l3, of "CHR ''}''"] by (auto elim: readsE)
  show ?thesis
    unfolding structure_step_def Let_def
    using l2 l3 l4
    by (simp add: f flip: P_def it2_def it3_def) (auto simp: reads_def)
qed

lemma union_step_reads:
  assumes "\<And>d x. length x \<le> length it \<Longrightarrow> reads 0 (F d x) x"
  shows "reads 0 (union_step F it) it"
proof -
  define it3 where "it3 = skip_char (CHR ''='') (dropWhile (\<lambda>c. c \<noteq> CHR ''='') (skip_anonymous it))"
  have l3: "length it3 \<le> length it"
    unfolding it3_def by (meson length_skip_anonymous skip_char_dropWhile_le le_trans)
  obtain as it4 where f: "F (CHR '')'') it3 = Some (as, it4)" and l4: "length it4 \<le> length it3"
    using assms [OF l3, of "CHR '')''"] by (auto elim: readsE)
  show ?thesis
    unfolding union_step_def Let_def
    using l3 l4 by (simp add: f flip: it3_def) (auto simp: reads_def)
qed

lemma array_step_reads:
  assumes "\<And>u x. length x \<le> length it \<Longrightarrow> reads 0 (E u x) x"
  shows "reads 0 (array_step E it) it"
proof -
  obtain s it1 where rn: "read_str_number it = (s, it1)" by fastforce
  have l1: "length it1 \<le> length it" using rn by (rule length_read_str_number)
  obtain t it2 where "E None it1 = Some (t, it2)" and "length it2 \<le> length it1"
    using assms [OF l1, of None] by (auto elim: readsE)
  with rn l1 show ?thesis
    by (auto simp: array_step_def reads_def)
qed

lemma skip_digits_length: "skip_digits it = d # ds \<Longrightarrow> length (d # ds) \<le> length it"
  by (metis skip_digits_def length_dropWhile_le)

lemma process_step_reads:
  assumes "\<And>x. length x < length it \<Longrightarrow> reads 0 (A x) x"
    and "\<And>x. length x < length it \<Longrightarrow> reads 0 (S x) x"
    and "\<And>x. length x < length it \<Longrightarrow> reads 0 (U x) x"
    and "\<And>x. length x < length it \<Longrightarrow> reads 0 (P x) x"
  shows "reads (min 1 (length it)) (process_step A S U P it) it"
proof (cases "skip_digits it")
  case Nil
  then show ?thesis by (auto simp: process_step_def reads_def)
next
  case (Cons d ds)
  note len = skip_digits_length [OF Cons]
  show ?thesis
  proof (cases "skip_specifiers (d # ds)")
    case Nil
    with Cons len show ?thesis by (auto simp: process_step_def reads_def)
  next
    case (Cons c it1)
    have l1: "length it1 < length it"
      using len length_skip_specifiers [of "d # ds"] by (simp add: Cons)
    have tl1: "length (tl it1) < length it" using l1 by simp
    have A: "reads 1 (A it1) it" and S: "reads 1 (S it1) it" and U: "reads 1 (U it1) it"
      using assms(1-3) [OF l1] l1 by (blast intro: reads_1)+
    have P: "reads 1 (do { (ptr_type, it2) \<leftarrow> P it1; Some (map_option PointerTy ptr_type, it2) }) it"
      using assms(4) [OF l1] l1 by (auto simp: reads_def)
    have B: "reads 1 (Some (process_bitfield it1)) it"
      using length_process_bitfield [of it1] l1 by (cases "process_bitfield it1") fastforce
    have N: "reads 1 (let (name, it2) = read_opt_name it1 in Some (Some (ObjectTy name), it2)) it"
      using length_read_opt_name [of it1] l1 by (cases "read_opt_name it1") fastforce
    have R: "reads 1 (Some (t, it1)) it" and T: "reads 1 (Some (t, tl it1)) it" for t :: "objc_type option"
      using l1 tl1 by auto
    have "reads 1 (process_step A S U P it) it"
      unfolding process_step_def \<open>skip_digits it = d # ds\<close> Cons list.case
      by (cases "primitive_of_char c"; simp only: option.case)
        (intro reads_if A S U P B N R T)+
    then show ?thesis by (auto simp: reads_def)
  qed
qed

text \<open>
  With \<open>3 * length it + 1\<close> units of fuel, \<open>process\<close> returns and has read at least one character
  of a non-empty input; the other readers return as well.
\<close>

lemma process_reads:
  "3 * length it + 1 \<le> n \<Longrightarrow> reads (min 1 (length it)) (process n it) it"
  and "3 * length it + 3 \<le> n \<Longrightarrow> reads 0 (process_structure n it) it"
  and "3 * length it + 3 \<le> n \<Longrightarrow> reads 0 (process_union n it) it"
  and "3 * length it + 3 \<le> n \<Longrightarrow> reads 0 (process_array n it) it"
  and "3 * length it + 2 \<le> n \<Longrightarrow> reads 0 (process_fields n d it) it"
  and "3 * length it + 2 \<le> n \<Longrightarrow> reads 0 (process_elements n u it) it"
proof (induction n it and n it and n it and n it and n d it and n u it
    rule: process_process_structure_process_union_process_array_process_fields_process_elements.induct)
  case (2 n it)
  have "reads 0 (process n x) x" if "length x < length it" for x
  proof -
    from that 2 have "reads (min 1 (length x)) (process n x) x" by simp
    then show ?thesis by (auto simp: reads_def)
  qed
  with 2 show ?case
    unfolding process.simps by (intro process_step_reads) simp_all
next
  case (4 n it)
  show ?case
    unfolding process_structure.simps by (rule structure_step_reads) (use 4 in simp)
next
  case (6 n it)
  show ?case
    unfolding process_union.simps by (rule union_step_reads) (use 6 in simp)
next
  case (8 n it)
  show ?case
    unfolding process_array.simps by (rule array_step_reads) (use 8 in simp)
next
  case (10 n d it)
  show ?case
  proof (cases "it = [] \<or> starts_with d it")
    case False
    obtain name it1 where ro: "read_opt_name it = (name, it1)" by fastforce
    note l1 = length_read_opt_name [OF ro]
    have "reads (min 1 (length it1)) (process n it1) it1"
      using 10 False ro l1 by simp
    then obtain t it2 where t: "process n it1 = Some (t, it2)" and l2: "length it2 < length it"
      using l1 False by (cases it1) (auto elim!: readsE)
    then have "reads 0 (process_fields n d it2) it2"
      using 10 False ro by simp
    with False ro t l2 show ?thesis by (auto simp: reads_def)
  qed (auto simp: reads_def)
next
  case (12 n u it)
  show ?case
  proof (cases "it = [] \<or> starts_with (CHR '']'') it")
    case False
    then have "reads 1 (process n it) it"
      using 12 by (cases it) auto
    then obtain t it1 where t: "process n it = Some (t, it1)" and l: "length it1 < length it"
      by (auto elim: readsE)
    have "reads 0 (process_elements n t it1) it1"
      by (rule 12) (use False t l 12 in auto)
    with False t l show ?thesis by (auto simp: reads_def)
  qed (auto simp: reads_def)
qed simp_all

lemma decode_loop_total: "3 * length it + 2 \<le> n \<Longrightarrow> \<exists>ts. decode_loop n it = Some ts"
proof (induction n arbitrary: it)
  case (Suc n)
  show ?case
  proof (cases "it = []")
    case False
    obtain spec it1 where ps: "process_specifier it = (spec, it1)" by fastforce
    note l1 = length_process_specifier [OF ps]
    have "reads (min 1 (length it1)) (process n it1) it1"
      using Suc.prems l1 by (intro process_reads) linarith
    then obtain t it2 where t: "process n it1 = Some (t, it2)" and l2: "length it2 < length it"
      using l1 False by (cases it1) (auto elim!: readsE)
    from Suc.IH [of it2] l2 Suc.prems obtain ts where "decode_loop n it2 = Some ts" by auto
    with False ps t show ?thesis by simp
  qed simp
qed simp

section \<open>The encoding the reader is for\<close>

text \<open>
  A reference printer of types, after the rules of the \<open>@encode\<close> directive: one character for a
  primitive type, delimiters around arrays, structures and unions, quotes around the names of
  fields and classes. \<open>narrow\<close> is what the reader makes of a type: every array dimension and
  every bit-field width is cut to its last decimal digit.
\<close>

fun primitive_char :: "OBJC_TYPES \<Rightarrow> char" where
  "primitive_char OT_CHAR = CHR ''c''"
| "primitive_char OT_INT = CHR ''i''"
| "primitive_char OT_SHORT = CHR ''s''"
| "primitive_char OT_LONG = CHR ''l''"
| "primitive_char OT_LONG_LONG = CHR ''q''"
| "primitive_char OT_UNSIGNED_CHAR = CHR ''C''"
| "primitive_char OT_UNSIGNED_INT = CHR ''I''"
| "primitive_char OT_UNSIGNED_SHORT = CHR ''S''"
| "primitive_char OT_UNSIGNED_LONG = CHR ''L''"
| "primitive_char OT_UNSIGNED_LONG_LONG = CHR ''Q''"
| "primitive_char OT_FLOAT = CHR ''f''"
| "primitive_char OT_DOUBLE = CHR ''d''"
| "primitive_char OT_BOOL = CHR ''B''"
| "primitive_char OT_VOID = CHR ''v''"
| "primitive_char OT_CSTRING = CHR ''*''"
| "primitive_char _ = CHR ''?''"

definition quoted :: "string \<Rightarrow> string" where
  "quoted name = (if name = [] then [] else quote # name @ [quote])"

definition aggregate_name :: "string \<Rightarrow> string" where
  "aggregate_name name = (if name = [] then ''?'' else name)"

fun encode :: "objc_type \<Rightarrow> string" and encode_attr :: "AttrTy \<Rightarrow> string" where
  "encode (PrimitiveTy k) = [primitive_char k]"
| "encode SelectorTy = '':''"
| "encode UnknownTy = ''?''"
| "encode ClassTy = ''#''"
| "encode BlockTy = ''@?''"
| "encode (ObjectTy name) = CHR ''@'' # quoted name"
| "encode (PointerTy t) = CHR ''^'' # encode t"
| "encode (ArrayTy d t) =
     CHR ''['' # show_nat (unat d) @ (case t of None \<Rightarrow> [] | Some u \<Rightarrow> encode u) @ '']''"
| "encode (StructTy name fs) =
     CHR ''{'' # aggregate_name name @ CHR ''='' # concat (map encode_attr fs) @ ''}''"
| "encode (UnionTy name fs) =
     CHR ''('' # aggregate_name name @ CHR ''='' # concat (map encode_attr fs) @ '')''"
| "encode (BitFieldTy d) = CHR ''b'' # show_nat (unat d)"
| "encode_attr (AttrTy name t) = quoted name @ (case t of None \<Rightarrow> [] | Some u \<Rightarrow> encode u)"

fun narrow :: "objc_type \<Rightarrow> objc_type" and narrow_attr :: "AttrTy \<Rightarrow> AttrTy" where
  "narrow (PointerTy t) = PointerTy (narrow t)"
| "narrow (ArrayTy d t) = ArrayTy (d mod 10) (map_option narrow t)"
| "narrow (StructTy name fs) = StructTy name (map narrow_attr fs)"
| "narrow (UnionTy name fs) = UnionTy name (map narrow_attr fs)"
| "narrow (BitFieldTy d) = BitFieldTy (d mod 10)"
| "narrow t = t"
| "narrow_attr (AttrTy name t) = AttrTy name (map_option narrow t)"

text \<open>
  A type that ends in a bare \<open>'@'\<close> swallows a following quoted name or \<open>'?'\<close>, one that ends
  in a bit-field the digits that follow: \<open>follows t rest\<close> excludes these continuations.
\<close>

fun ends_bare :: "objc_type \<Rightarrow> bool" where
  "ends_bare (ObjectTy name) = (name = [])"
| "ends_bare (PointerTy t) = ends_bare t"
| "ends_bare _ = False"

fun ends_digits :: "objc_type \<Rightarrow> bool" where
  "ends_digits (BitFieldTy _) = True"
| "ends_digits (PointerTy t) = ends_digits t"
| "ends_digits _ = False"

definition follows :: "objc_type \<Rightarrow> string \<Rightarrow> bool" where
  "follows t rest \<longleftrightarrow>
     (ends_bare t \<longrightarrow> \<not> starts_with quote rest \<and> \<not> starts_with (CHR ''?'') rest) \<and>
     (ends_digits t \<longrightarrow> rest = [] \<or> \<not> is_digit (hd rest))"

fun separated :: "AttrTy list \<Rightarrow> bool" where
  "separated [] = True"
| "separated (f # fs) =
     (follows (the (attr_type f)) (concat (map encode_attr fs)) \<and> separated fs)"

text \<open>The types whose encoding can be read back.\<close>

fun encodable :: "objc_type \<Rightarrow> bool" and encodable_attr :: "AttrTy \<Rightarrow> bool" where
  "encodable (PrimitiveTy k) = (k \<in> set primitive_kinds)"
| "encodable (ObjectTy name) = (quote \<notin> set name)"
| "encodable (PointerTy t) = (t \<noteq> UnknownTy \<and> encodable t)"
| "encodable (ArrayTy d t) = (case t of None \<Rightarrow> True | Some u \<Rightarrow> encodable u)"
| "encodable (StructTy name fs) =
     ((\<forall>c \<in> set name. c \<noteq> CHR ''='' \<and> c \<noteq> CHR ''}'') \<and> \<not> starts_with (CHR ''?'') name \<and>
      list_all encodable_attr fs \<and> separated fs)"
| "encodable (UnionTy name fs) =
     ((\<forall>c \<in> set name. c \<noteq> CHR ''='') \<and> \<not> starts_with (CHR ''?'') name \<and>
      list_all encodable_attr fs \<and> separated fs)"
| "encodable _ = True"
| "encodable_attr (AttrTy name t) =
     (quote \<notin> set name \<and> (case t of None \<Rightarrow> False | Some u \<Rightarrow> encodable u))"

section \<open>Reading back an encoding\<close>

definition type_starts :: string where
  "type_starts = ''cislqCISLQfdBv*#:[{(b?^@''"

lemma type_start_not_digit: "c \<in> set type_starts \<Longrightarrow> \<not> is_digit c"
  by (auto simp: type_starts_def is_digit_def)

lemma type_start_no_specifier:
  "c \<in> set type_starts \<Longrightarrow> process_specifier (c # u) = (TS_UNKNOWN, c # u)"
  by (auto simp: type_starts_def process_specifier_def)

lemma type_start_delims:
  "c \<in> set type_starts \<Longrightarrow> c \<noteq> CHR ''}'' \<and> c \<noteq> CHR '')'' \<and> c \<noteq> CHR '']'' \<and> c \<noteq> quote"
  by (auto simp: type_starts_def)

lemma primitive_char_start: "k \<in> set primitive_kinds \<Longrightarrow> primitive_char k \<in> set type_starts"
  by (auto simp: primitive_kinds_def type_starts_def)

lemma primitive_of_primitive_char:
  "k \<in> set primitive_kinds \<Longrightarrow> primitive_of_char (primitive_char k) = Some k"
  by (auto simp: primitive_kinds_def primitive_of_char_def)

lemma encode_start: "encodable t \<Longrightarrow> \<exists>c u. encode t = c # u \<and> c \<in> set type_starts"
  by (cases t) (simp_all add: primitive_char_start, simp_all add: type_starts_def)

lemma skip_type_start:
  assumes "c \<in> set type_starts"
  shows "skip_digits (c # u) = c # u" and "skip_specifiers (c # u) = c # u"
  using type_start_not_digit [OF assms] type_start_no_specifier [OF assms]
  by (simp_all add: skip_digits_def skip_specifiers.simps)

lemma process_step_start:
  "c \<in> set type_starts \<Longrightarrow>
   process_step A S U P (c # u) =
     (case primitive_of_char c of
        Some k \<Rightarrow> Some (Some (PrimitiveTy k), u)
      | None \<Rightarrow>
          if c = CHR ''#'' then Some (Some ClassTy, u)
          else if c = CHR '':'' then Some (Some SelectorTy, u)
          else if c = CHR ''['' then A u
          else if c = CHR ''{'' then S u
          else if c = CHR ''('' then U u
          else if c = CHR ''b'' then Some (process_bitfield u)
          else if c = CHR ''?'' then Some (Some UnknownTy, u)
          else if c = CHR ''^'' then
            (if starts_with (CHR ''?'') u
             then Some (Some (PointerTy (PrimitiveTy OT_VOID)), tl u)
             else do { (p, v) \<leftarrow> P u; Some (map_option PointerTy p, v) })
          else if c = CHR ''@'' then
            (if starts_with (CHR ''?'') u
             then Some (Some BlockTy, tl u)
             else let (name, v) = read_opt_name u in Some (Some (ObjectTy name), v))
          else Some (None, u))"
  by (simp add: process_step_def skip_type_start)

lemmas process_starts =
  process_step_start [of "CHR ''#''"] process_step_start [of "CHR '':''"]
  process_step_start [of "CHR ''[''"] process_step_start [of "CHR ''{''"]
  process_step_start [of "CHR ''(''"] process_step_start [of "CHR ''b''"]
  process_step_start [of "CHR ''?''"] process_step_start [of "CHR ''^''"]
  process_step_start [of "CHR ''@''"]

lemma read_str_number_digits:
  assumes "\<forall>c \<in> set ds. is_digit c" and "ds \<noteq> []" and "rest = [] \<or> \<not> is_digit (hd rest)"
  shows "read_str_number (ds @ rest) = ([last ds], rest)"
proof -
  have "read_str_number_loop n (ds @ rest) = (if ds = [] then n else [last ds], rest)" for n
    using assms(1,3)
  proof (induction ds arbitrary: n)
    case Nil
    then show ?case by (cases rest) auto
  qed auto
  with assms(2) show ?thesis by (simp add: read_str_number_def)
qed

lemma strtoull_digit: "d < 10 \<Longrightarrow> strtoull [digit_char d] = word_of_nat d"
  by (simp add: strtoull_def min_def)

lemma read_dimension:
  assumes "rest = [] \<or> \<not> is_digit (hd rest)"
  shows "read_str_number (show_nat (unat (d :: u64)) @ rest) = ([digit_char (unat d mod 10)], rest)"
    and "strtoull [digit_char (unat d mod 10)] = d mod 10"
proof -
  show "read_str_number (show_nat (unat d) @ rest) = ([digit_char (unat d mod 10)], rest)"
    using assms show_nat_digits by (subst read_str_number_digits) (auto simp: last_show_nat)
  have "unat d mod 10 = unat (d mod 10)" by (simp add: unat_mod_distrib)
  moreover have "strtoull [digit_char (unat d mod 10)] = word_of_nat (unat d mod 10)"
    by (simp add: strtoull_digit)
  ultimately show "strtoull [digit_char (unat d mod 10)] = d mod 10"
    by simp
qed

lemma skip_char_Cons [simp]: "skip_char d (d # u) = u"
  by (simp add: skip_char_def)

lemma starts_with_Cons [simp]: "starts_with d (c # u) \<longleftrightarrow> c = d"
  by (simp add: starts_with_def)

lemma starts_with_Nil [simp]: "\<not> starts_with d []"
  by (simp add: starts_with_def)

lemma read_opt_name_quoted:
  assumes "quote \<notin> set name" and "name = [] \<Longrightarrow> \<not> starts_with quote rest"
  shows "read_opt_name (quoted name @ rest) = (name, rest)"
proof (cases "name = []")
  case False
  have "\<forall>c \<in> set name. c \<noteq> quote" using assms(1) by auto
  then show ?thesis
    by (simp add: False quoted_def read_opt_name_def takeWhile_append2 dropWhile_append2)
qed (use assms in \<open>simp add: quoted_def read_opt_name_def\<close>)

text \<open>The claim about one type: \<open>reads_back t\<close>.\<close>

definition reads_back :: "objc_type \<Rightarrow> bool" where
  "reads_back t \<longleftrightarrow>
     (\<forall>n rest. follows t rest \<longrightarrow> 3 * length (encode t @ rest) + 1 \<le> n \<longrightarrow>
        process n (encode t @ rest) = Some (Some (narrow t), rest))"

lemma reads_backD:
  "reads_back t \<Longrightarrow> follows t rest \<Longrightarrow> 3 * length (encode t @ rest) + 1 \<le> n \<Longrightarrow>
   process n (encode t @ rest) = Some (Some (narrow t), rest)"
  by (simp add: reads_back_def)

lemma reads_backI:
  assumes "\<And>n rest. follows t rest \<Longrightarrow> 3 * length (encode t @ rest) \<le> n \<Longrightarrow>
    process (Suc n) (encode t @ rest) = Some (Some (narrow t), rest)"
  shows "reads_back t"
  unfolding reads_back_def
proof (intro allI impI)
  fix n rest
  assume "follows t rest" and "3 * length (encode t @ rest) + 1 \<le> n"
  then show "process n (encode t @ rest) = Some (Some (narrow t), rest)"
    using assms by (cases n) auto
qed

lemma follows_delim:
  assumes "follows t u" and "d \<in> {CHR ''}'', CHR '')'', CHR '']''}"
  shows "follows t (u @ d # rest)"
  using assms by (cases u) (auto simp: follows_def is_digit_def)

lemma encode_attr_not_delim:
  assumes "encodable_attr f" and "d \<in> {CHR ''}'', CHR '')'', CHR '']''}"
  shows "encode_attr f \<noteq> [] \<and> \<not> starts_with d (encode_attr f @ u)"
proof (cases f)
  case (AttrTy name t)
  with assms(1) obtain v where t: "t = Some v" "encodable v" by (auto split: option.splits)
  obtain c w where "encode v = c # w" "c \<in> set type_starts" using encode_start [OF t(2)] by blast
  with assms(2) AttrTy t type_start_delims [of c] show ?thesis by (auto simp: quoted_def)
qed

lemma process_fields_reads_back:
  assumes "list_all encodable_attr fs" and "separated fs"
    and "\<And>name t. AttrTy name (Some t) \<in> set fs \<Longrightarrow> reads_back t"
    and d: "d \<in> {CHR ''}'', CHR '')'', CHR '']''}"
    and "3 * length (concat (map encode_attr fs) @ d # rest) + 2 \<le> n"
  shows "process_fields n d (concat (map encode_attr fs) @ d # rest) =
           Some (map narrow_attr fs, d # rest)"
  using assms(1,2,3,5)
proof (induction fs arbitrary: n)
  case Nil
  then show ?case by (cases n) auto
next
  case (Cons f fs)
  from Cons.prems(4) obtain m where n: "n = Suc m" by (cases n) auto
  obtain name t where f: "f = AttrTy name (Some t)" "encodable t" "quote \<notin> set name"
    using Cons.prems(1) by (cases f) (auto split: option.splits)
  obtain c w where cw: "encode t = c # w" "c \<in> set type_starts" using encode_start [OF f(2)] by blast
  let ?rest = "concat (map encode_attr fs) @ d # rest"
  have it: "concat (map encode_attr (f # fs)) @ d # rest = quoted name @ encode t @ ?rest"
    by (simp add: f)
  have nd: "\<not> (quoted name @ encode t @ ?rest = [] \<or> starts_with d (quoted name @ encode t @ ?rest))"
    using encode_attr_not_delim [of f d "?rest"] Cons.prems(1) d by (simp add: f)
  have name: "read_opt_name (quoted name @ encode t @ ?rest) = (name, encode t @ ?rest)"
    using f(3) cw type_start_delims [of c] by (intro read_opt_name_quoted) auto
  have rb: "reads_back t" using Cons.prems(3) [of name t] f by simp
  have fo: "follows t ?rest" using Cons.prems(2) d by (intro follows_delim) (simp_all add: f)
  have t: "process m (encode t @ ?rest) = Some (Some (narrow t), ?rest)"
    using Cons.prems(4) by (intro reads_backD [OF rb fo]) (simp add: f n)
  have fs: "process_fields m d ?rest = Some (map narrow_attr fs, d # rest)"
    using Cons.prems cw by (intro Cons.IH) (auto simp: f n)
  show ?case
    unfolding it n process_fields.simps using nd by (simp add: name t fs f)
qed

lemma aggregate_header:
  assumes "\<forall>c \<in> set name. P c" and "\<not> P (CHR ''='')" and "P (CHR ''?'')"
    and "\<not> starts_with (CHR ''?'') name"
  shows "takeWhile P (skip_anonymous (aggregate_name name @ CHR ''='' # u)) = name"
    and "dropWhile P (skip_anonymous (aggregate_name name @ CHR ''='' # u)) = CHR ''='' # u"
proof -
  have "skip_anonymous (aggregate_name name @ CHR ''='' # u) = name @ CHR ''='' # u"
    using assms(4)
    by (cases name) (auto simp: aggregate_name_def skip_anonymous_def skip_char_def)
  then show "takeWhile P (skip_anonymous (aggregate_name name @ CHR ''='' # u)) = name"
    and "dropWhile P (skip_anonymous (aggregate_name name @ CHR ''='' # u)) = CHR ''='' # u"
    using assms(1,2) by (simp_all add: takeWhile_append dropWhile_append)
qed

lemma structure_step_reads_back:
  assumes name: "\<forall>c \<in> set name. c \<noteq> CHR ''='' \<and> c \<noteq> CHR ''}''" "\<not> starts_with (CHR ''?'') name"
    and F: "F (CHR ''}'') (u @ CHR ''}'' # rest) = Some (fs, CHR ''}'' # rest)"
    and u: "starts_with (CHR ''}'') (u @ CHR ''}'' # rest) \<Longrightarrow> fs = [] \<and> u = []"
  shows "structure_step F (aggregate_name name @ CHR ''='' # u @ CHR ''}'' # rest) =
           Some (Some (StructTy name fs), rest)"
proof -
  let ?P = "\<lambda>c. c \<noteq> CHR ''='' \<and> c \<noteq> CHR ''}''"
  note h = aggregate_header [of name ?P "u @ CHR ''}'' # rest", OF name(1) _ _ name(2)]
  show ?thesis
    unfolding structure_step_def Let_def using h F u by auto
qed

lemma union_step_reads_back:
  assumes name: "\<forall>c \<in> set name. c \<noteq> CHR ''=''" "\<not> starts_with (CHR ''?'') name"
    and F: "F (CHR '')'') (u @ CHR '')'' # rest) = Some (fs, CHR '')'' # rest)"
    and u: "starts_with (CHR '')'') (u @ CHR '')'' # rest) \<Longrightarrow> fs = [] \<and> u = []"
  shows "union_step F (aggregate_name name @ CHR ''='' # u @ CHR '')'' # rest) =
           Some (Some (UnionTy name fs), rest)"
proof -
  let ?P = "\<lambda>c. c \<noteq> CHR ''=''"
  note h = aggregate_header [of name ?P "u @ CHR '')'' # rest", OF name(1) _ _ name(2)]
  show ?thesis
    unfolding union_step_def Let_def using h F u by auto
qed

lemma fields_start:
  assumes "list_all encodable_attr fs" and d: "d \<in> {CHR ''}'', CHR '')'', CHR '']''}"
    and "starts_with d (concat (map encode_attr fs) @ d # rest)"
  shows "fs = []"
proof (cases fs)
  case (Cons f gs)
  with encode_attr_not_delim [of f d "concat (map encode_attr gs) @ d # rest"] assms
  show ?thesis by auto
qed

lemma array_reads_back:
  assumes t: "case t of None \<Rightarrow> True | Some u \<Rightarrow> encodable u \<and> reads_back u"
    and n: "3 * length (encode (ArrayTy d t) @ rest) \<le> n"
  shows "process_array n (show_nat (unat d) @ (case t of None \<Rightarrow> [] | Some u \<Rightarrow> encode u) @ CHR '']'' # rest) =
           Some (Some (ArrayTy (d mod 10) (map_option narrow t)), rest)"
proof -
  from n obtain m where m: "n = Suc (Suc (Suc m))"
    by (cases n; cases "n - 1"; cases "n - 2") auto
  let ?u = "(case t of None \<Rightarrow> [] | Some u \<Rightarrow> encode u) @ CHR '']'' # rest"
  have nd: "?u = [] \<or> \<not> is_digit (hd ?u)"
  proof (cases t)
    case (Some u)
    then obtain c w where "encode u = c # w" "c \<in> set type_starts" using encode_start [of u] t by auto
    with Some type_start_not_digit show ?thesis by simp
  qed (simp add: is_digit_def)
  have E: "process_elements (Suc (Suc m)) None ?u = Some (map_option narrow t, CHR '']'' # rest)"
  proof (cases t)
    case (Some u)
    obtain c w where cw: "encode u = c # w" "c \<in> set type_starts" using encode_start [of u] t Some by auto
    have "follows u ([] @ CHR '']'' # rest)" by (rule follows_delim) (simp_all add: follows_def)
    then have "process (Suc m) (encode u @ CHR '']'' # rest) = Some (Some (narrow u), CHR '']'' # rest)"
      using t n Some m by (intro reads_backD) auto
    with Some cw type_start_delims [of c] show ?thesis by simp
  qed simp
  show ?thesis
    unfolding m process_array.simps array_step_def
    using read_dimension [OF nd, of d] E by simp
qed

lemma encodable_reads_back:
  "encodable t \<Longrightarrow> reads_back t"
  and "encodable_attr f \<Longrightarrow> (case attr_type f of None \<Rightarrow> True | Some t \<Rightarrow> reads_back t)"
proof (induction t and f rule: objc_type.induct AttrTy.induct)
  case (PrimitiveTy k)
  then show ?case
    by (intro reads_backI)
      (simp add: process_step_start primitive_char_start primitive_of_primitive_char)
next
  case SelectorTy
  then show ?case
    by (intro reads_backI) (simp add: process_starts type_starts_def primitive_of_char_def)
next
  case UnknownTy
  then show ?case
    by (intro reads_backI) (simp add: process_starts type_starts_def primitive_of_char_def)
next
  case ClassTy
  then show ?case
    by (intro reads_backI) (simp add: process_starts type_starts_def primitive_of_char_def)
next
  case BlockTy
  then show ?case
    by (intro reads_backI) (simp add: process_starts type_starts_def primitive_of_char_def)
next
  case (ObjectTy name)
  show ?case
  proof (rule reads_backI)
    fix n rest
    assume fo: "follows (ObjectTy name) rest"
    have "read_opt_name (quoted name @ rest) = (name, rest)"
      using ObjectTy fo by (intro read_opt_name_quoted) (auto simp: follows_def)
    moreover have "\<not> starts_with (CHR ''?'') (quoted name @ rest)"
      using fo by (auto simp: follows_def quoted_def)
    ultimately show "process (Suc n) (encode (ObjectTy name) @ rest) = Some (Some (narrow (ObjectTy name)), rest)"
      by (simp add: process_starts type_starts_def primitive_of_char_def)
  qed
next
  case (PointerTy t)
  show ?case
  proof (rule reads_backI)
    fix n rest
    assume fo: "follows (PointerTy t) rest" and n: "3 * length (encode (PointerTy t) @ rest) \<le> n"
    have P: "process n (encode t @ rest) = Some (Some (narrow t), rest)"
      using PointerTy fo n by (intro reads_backD) (auto simp: follows_def)
    have "\<not> starts_with (CHR ''?'') (encode t @ rest)"
      using PointerTy.prems by (cases t) (auto simp: primitive_kinds_def)
    with P show "process (Suc n) (encode (PointerTy t) @ rest) = Some (Some (narrow (PointerTy t)), rest)"
      by (simp add: process_starts type_starts_def primitive_of_char_def)
  qed
next
  case (ArrayTy d t)
  then have t: "case t of None \<Rightarrow> True | Some u \<Rightarrow> encodable u \<and> reads_back u"
    by (cases t) auto
  show ?case
    by (intro reads_backI)
      (simp add: process_starts type_starts_def primitive_of_char_def array_reads_back [OF t, simplified])
next
  case (StructTy name fs)
  have rb: "reads_back t" if "AttrTy a (Some t) \<in> set fs" for a t
    using StructTy that by (fastforce simp: list_all_iff)
  show ?case
  proof (rule reads_backI)
    fix n rest
    assume n: "3 * length (encode (StructTy name fs) @ rest) \<le> n"
    then obtain m where m: "n = Suc m" by (cases n) auto
    let ?u = "concat (map encode_attr fs)"
    have F: "process_fields m (CHR ''}'') (?u @ CHR ''}'' # rest) = Some (map narrow_attr fs, CHR ''}'' # rest)"
      using StructTy.prems n m rb by (intro process_fields_reads_back) auto
    have "process_structure n (aggregate_name name @ CHR ''='' # ?u @ CHR ''}'' # rest) =
            Some (Some (StructTy name (map narrow_attr fs)), rest)"
      unfolding m process_structure.simps
      using StructTy.prems fields_start [of fs "CHR ''}''" rest] by (intro structure_step_reads_back F) auto
    then show "process (Suc n) (encode (StructTy name fs) @ rest) = Some (Some (narrow (StructTy name fs)), rest)"
      by (simp add: process_starts type_starts_def primitive_of_char_def)
  qed
next
  case (UnionTy name fs)
  have rb: "reads_back t" if "AttrTy a (Some t) \<in> set fs" for a t
    using UnionTy that by (fastforce simp: list_all_iff)
  show ?case
  proof (rule reads_backI)
    fix n rest
    assume n: "3 * length (encode (UnionTy name fs) @ rest) \<le> n"
    then obtain m where m: "n = Suc m" by (cases n) auto
    let ?u = "concat (map encode_attr fs)"
    have F: "process_fields m (CHR '')'') (?u @ CHR '')'' # rest) = Some (map narrow_attr fs, CHR '')'' # rest)"
      using UnionTy.prems n m rb by (intro process_fields_reads_back) auto
    have "process_union n (aggregate_name name @ CHR ''='' # ?u @ CHR '')'' # rest) =
            Some (Some (UnionTy name (map narrow_attr fs)), rest)"
      unfolding m process_union.simps
      using UnionTy.prems fields_start [of fs "CHR '')''" rest] by (intro union_step_reads_back F) auto
    then show "process (Suc n) (encode (UnionTy name fs) @ rest) = Some (Some (narrow (UnionTy name fs)), rest)"
      by (simp add: process_starts type_starts_def primitive_of_char_def)
  qed
next
  case (BitFieldTy d)
  show ?case
  proof (rule reads_backI)
    fix n rest
    assume "follows (BitFieldTy d) rest"
    then have "process_bitfield (show_nat (unat d) @ rest) = (Some (BitFieldTy (d mod 10)), rest)"
      using read_dimension [of rest d] by (simp add: follows_def process_bitfield_def)
    then show "process (Suc n) (encode (BitFieldTy d) @ rest) = Some (Some (narrow (BitFieldTy d)), rest)"
      by (simp add: process_starts type_starts_def primitive_of_char_def)
  qed
next
  case (AttrTy name t)
  then show ?case by (cases t) auto
qed

section \<open>Signatures\<close>

text \<open>
  A method's encoding is a sequence of types, each with the specifiers in front of it and the
  offset of the argument in the frame behind it, as in \<open>Vv24@0:8@16\<close>.
\<close>

datatype sig_item = SigItem (item_specs: string) (item_type: objc_type) (item_offset: "nat option")

definition offset_string :: "nat option \<Rightarrow> string" where
  "offset_string off = (case off of None \<Rightarrow> [] | Some n \<Rightarrow> show_nat n)"

definition encode_item :: "sig_item \<Rightarrow> string" where
  "encode_item i = item_specs i @ encode (item_type i) @ offset_string (item_offset i)"

definition specifier_chars :: string where
  "specifier_chars = ''rnNoORVAj''"

fun encodable_sig :: "sig_item list \<Rightarrow> bool" where
  "encodable_sig [] = True"
| "encodable_sig (i # is) =
     (list_all (\<lambda>c. c \<in> set specifier_chars) (item_specs i) \<and> encodable (item_type i) \<and>
      follows (item_type i) (offset_string (item_offset i) @ concat (map encode_item is)) \<and>
      encodable_sig is)"

lemma specifier_char_not_digit: "c \<in> set specifier_chars \<Longrightarrow> \<not> is_digit c"
  by (auto simp: specifier_chars_def is_digit_def)

lemma process_specifier_char:
  "c \<in> set specifier_chars \<Longrightarrow> \<exists>s. process_specifier (c # u) = (s, u) \<and> s \<noteq> TS_UNKNOWN"
  by (auto simp: specifier_chars_def process_specifier_def)

lemma skip_specifiers_chars:
  assumes "list_all (\<lambda>c. c \<in> set specifier_chars) sp" and "c \<in> set type_starts"
  shows "skip_specifiers (sp @ c # u) = c # u"
  using assms(1)
proof (induction sp)
  case Nil
  then show ?case by (simp add: skip_type_start assms(2))
next
  case (Cons s sp)
  then obtain k where "process_specifier ((s # sp) @ c # u) = (k, sp @ c # u)" "k \<noteq> TS_UNKNOWN"
    using process_specifier_char [of s "sp @ c # u"] by auto
  with Cons show ?case by (subst skip_specifiers.simps) simp
qed

lemma offset_string_digits: "\<forall>c \<in> set (offset_string off). is_digit c"
  by (auto simp: offset_string_def dest: show_nat_digits split: option.splits)

lemma process_skips:
  assumes ds: "\<forall>c \<in> set ds. is_digit c" and sp: "list_all (\<lambda>c. c \<in> set specifier_chars) sp"
    and t: "encodable t" "follows t rest"
    and n: "3 * length (ds @ sp @ encode t @ rest) + 1 \<le> n"
  shows "process n (ds @ sp @ encode t @ rest) = Some (Some (narrow t), rest)"
proof -
  from n obtain m where m: "n = Suc m" by (cases n) auto
  obtain c w where cw: "encode t = c # w" "c \<in> set type_starts" using encode_start [OF t(1)] by blast
  have nd: "\<not> is_digit (hd (sp @ encode t @ rest))" and ne: "sp @ encode t @ rest \<noteq> []"
    using cw type_start_not_digit specifier_char_not_digit sp by (cases sp; simp)+
  have sd: "skip_digits (ds @ sp @ encode t @ rest) = sp @ encode t @ rest"
    unfolding skip_digits_def using ds nd ne
    by (simp add: dropWhile_append_all dropWhile_id)
  have "skip_specifiers (sp @ encode t @ rest) = encode t @ rest"
    using skip_specifiers_chars [OF sp cw(2)] cw by simp
  then have "process n (ds @ sp @ encode t @ rest) = process n (encode t @ rest)"
    using sd ne cw skip_type_start [OF cw(2)]
    by (cases "sp @ encode t @ rest") (simp_all add: m process_step_def)
  also have "\<dots> = Some (Some (narrow t), rest)"
    using n by (intro reads_backD encodable_reads_back t) simp
  finally show ?thesis .
qed

lemma process_digits_only:
  assumes "\<forall>c \<in> set ds. is_digit c"
  shows "process (Suc n) ds = Some (None, [])"
proof -
  have "skip_digits ds = []" using assms by (simp add: skip_digits_def)
  then show ?thesis by (simp add: process_step_def)
qed

lemma process_specifier_other:
  "c \<notin> set specifier_chars \<Longrightarrow> process_specifier (c # u) = (TS_UNKNOWN, c # u)"
  by (simp add: specifier_chars_def process_specifier_def)

lemma process_specifier_digit: "is_digit c \<Longrightarrow> process_specifier (c # u) = (TS_UNKNOWN, c # u)"
  using specifier_char_not_digit process_specifier_other by blast

lemma decode_loop_signature:
  assumes "encodable_sig its" and "\<forall>c \<in> set ds. is_digit c"
    and "3 * length (ds @ concat (map encode_item its)) + 2 \<le> n"
  shows "decode_loop n (ds @ concat (map encode_item its)) = Some (map (\<lambda>i. narrow (item_type i)) its)"
  using assms
proof (induction its arbitrary: ds n)
  case Nil
  then obtain m where m: "n = Suc (Suc m)" by (cases n; cases "n - 1") auto
  show ?case
  proof (cases ds)
    case (Cons d du)
    then have "process (Suc m) ds = Some (None, [])" using Nil by (intro process_digits_only) simp
    with Cons Nil m process_specifier_digit [of d du] show ?thesis by simp
  qed (simp add: m)
next
  case (Cons i its)
  obtain sp t off where i: "i = SigItem sp t off" by (cases i)
  let ?rest = "offset_string off @ concat (map encode_item its)"
  let ?it = "ds @ sp @ encode t @ ?rest"
  have it: "ds @ concat (map encode_item (i # its)) = ?it" by (simp add: i encode_item_def)
  from Cons.prems(3) obtain m where m: "n = Suc m" by (cases n) auto
  have sp: "list_all (\<lambda>c. c \<in> set specifier_chars) sp" and t: "encodable t" "follows t ?rest"
    and its: "encodable_sig its"
    using Cons.prems(1) by (simp_all add: i)
  obtain c w where cw: "encode t = c # w" "c \<in> set type_starts" using encode_start [OF t(1)] by blast
  have len: "3 * length ?it + 1 \<le> m" using Cons.prems(3) unfolding it m by simp
  have "\<exists>k ds' sp'. process_specifier ?it = (k, ds' @ sp' @ encode t @ ?rest) \<and>
      (\<forall>c \<in> set ds'. is_digit c) \<and> list_all (\<lambda>c. c \<in> set specifier_chars) sp' \<and>
      length (ds' @ sp') \<le> length (ds @ sp)"
  proof (cases ds)
    case (Cons d du)
    with Cons.prems(2) sp show ?thesis
      by (intro exI [of _ TS_UNKNOWN] exI [of _ ds] exI [of _ sp]) (simp add: process_specifier_digit)
  next
    case Nil
    show ?thesis
    proof (cases sp)
      case Nil
      with \<open>ds = []\<close> cw show ?thesis
        by (intro exI [of _ TS_UNKNOWN] exI [of _ "[]"]) (simp add: type_start_no_specifier)
    next
      case (Cons s sp')
      with sp have "s \<in> set specifier_chars" by simp
      then obtain k where "process_specifier (s # sp' @ encode t @ ?rest) = (k, sp' @ encode t @ ?rest)"
        using process_specifier_char by blast
      with Cons \<open>ds = []\<close> sp show ?thesis
        by (intro exI [of _ k] exI [of _ "[]"] exI [of _ sp']) simp
    qed
  qed
  then obtain k ds' sp' where ps: "process_specifier ?it = (k, ds' @ sp' @ encode t @ ?rest)"
    and ds': "\<forall>c \<in> set ds'. is_digit c" "list_all (\<lambda>c. c \<in> set specifier_chars) sp'"
    and le: "length (ds' @ sp') \<le> length (ds @ sp)" by blast
  have P: "process m (ds' @ sp' @ encode t @ ?rest) = Some (Some (narrow t), ?rest)"
    using len le by (intro process_skips ds' t) simp
  have L: "decode_loop m ?rest = Some (map (\<lambda>i. narrow (item_type i)) its)"
    using len cw by (intro Cons.IH its offset_string_digits) simp
  have "?it \<noteq> []" using cw by simp
  then show ?case unfolding it m decode_loop.simps by (simp add: ps P L i)
qed

section \<open>The table of type characters\<close>

definition OBJC_TYPES_ID :: "(char \<times> OBJC_TYPES) list" where
  "OBJC_TYPES_ID =
     [(CHR ''c'', OT_CHAR), (CHR ''i'', OT_INT), (CHR ''s'', OT_SHORT), (CHR ''l'', OT_LONG),
      (CHR ''q'', OT_LONG_LONG), (CHR ''C'', OT_UNSIGNED_CHAR), (CHR ''I'', OT_UNSIGNED_INT),
      (CHR ''S'', OT_UNSIGNED_SHORT), (CHR ''L'', OT_UNSIGNED_LONG),
      (CHR ''Q'', OT_UNSIGNED_LONG_LONG), (CHR ''f'', OT_FLOAT), (CHR ''d'', OT_DOUBLE),
      (CHR ''B'', OT_BOOL), (CHR ''v'', OT_VOID), (CHR ''*'', OT_CSTRING), (CHR ''@'', OT_OBJECT),
      (CHR ''#'', OT_CLASS), (CHR '':'', OT_SELECTOR), (CHR ''['', OT_ARRAY),
      (CHR ''{'', OT_STRUCT), (CHR ''('', OT_UNION), (CHR ''b'', OT_BIT_FIELD),
      (CHR ''^'', OT_POINTER), (CHR ''?'', OT_UNKNOWN)]"

lemma dom_OBJC_TYPES_ID: "map_of OBJC_TYPES_ID c = None \<longleftrightarrow> c \<notin> set type_starts"
  by (simp add: OBJC_TYPES_ID_def type_starts_def)

lemma table_primitive:
  "primitive_of_char c = Some k \<Longrightarrow> map_of OBJC_TYPES_ID c = Some k"
  by (simp add: primitive_of_char_def OBJC_TYPES_ID_def split: if_splits)

lemma table_other:
  "primitive_of_char c = None \<Longrightarrow> map_of OBJC_TYPES_ID c =
     (if c = CHR ''#'' then Some OT_CLASS
      else if c = CHR '':'' then Some OT_SELECTOR
      else if c = CHR ''['' then Some OT_ARRAY
      else if c = CHR ''{'' then Some OT_STRUCT
      else if c = CHR ''('' then Some OT_UNION
      else if c = CHR ''b'' then Some OT_BIT_FIELD
      else if c = CHR ''?'' then Some OT_UNKNOWN
      else if c = CHR ''^'' then Some OT_POINTER
      else if c = CHR ''@'' then Some OT_OBJECT
      else None)"
  by (simp add: primitive_of_char_def OBJC_TYPES_ID_def split: if_splits)

lemma process_array_kind: "process_array n it = Some (Some t, r) \<Longrightarrow> type_kind t = OT_ARRAY"
  by (cases n) (auto simp: array_step_def bind_eq_Some_conv split: prod.splits if_splits)

lemma process_structure_kind: "process_structure n it = Some (Some t, r) \<Longrightarrow> type_kind t = OT_STRUCT"
  by (cases n) (auto simp: structure_step_def Let_def bind_eq_Some_conv split: if_splits)

lemma process_union_kind: "process_union n it = Some (Some t, r) \<Longrightarrow> type_kind t = OT_UNION"
  by (cases n) (auto simp: union_step_def Let_def bind_eq_Some_conv split: if_splits)

lemma process_bitfield_kind: "process_bitfield it = (Some t, r) \<Longrightarrow> type_kind t = OT_BIT_FIELD"
  by (auto simp: process_bitfield_def split: prod.splits if_splits)

text \<open>The kinds whose encoding goes on after the first character.\<close>

definition composite_kinds :: "OBJC_TYPES set" where
  "composite_kinds = {OT_ARRAY, OT_STRUCT, OT_UNION, OT_BIT_FIELD, OT_POINTER, OT_OBJECT}"

lemma process_simple:
  assumes tab: "map_of OBJC_TYPES_ID c = Some k" and k: "k \<notin> composite_kinds"
  shows "\<exists>t. type_kind t = k \<and> (\<forall>n u. process (Suc n) (c # u) = Some (Some t, u))"
proof -
  have c: "c \<in> set type_starts" using tab dom_OBJC_TYPES_ID [of c] by (cases "c \<in> set type_starts") simp_all
  show ?thesis
  proof (cases "primitive_of_char c")
    case None
    then show ?thesis
      using tab k table_other [OF None] by (auto simp: composite_kinds_def process_step_start [OF c] split: if_splits)
  next
    case (Some j)
    then show ?thesis using tab table_primitive [OF Some] by (auto simp: process_step_start [OF c])
  qed
qed

lemma read_composites:
  "\<exists>t. process 3 ''[1]'' = Some (Some t, []) \<and> type_kind t = OT_ARRAY"
  "\<exists>t. process 3 ''{}'' = Some (Some t, []) \<and> type_kind t = OT_STRUCT"
  "\<exists>t. process 3 ''(=)'' = Some (Some t, []) \<and> type_kind t = OT_UNION"
  "\<exists>t. process 3 ''b1'' = Some (Some t, []) \<and> type_kind t = OT_BIT_FIELD"
  "\<exists>t. process 3 ''^i'' = Some (Some t, []) \<and> type_kind t = OT_POINTER"
  "\<exists>t. process 3 ''@'' = Some (Some t, []) \<and> type_kind t = OT_OBJECT"
  by (simp_all add: eval_nat_numeral process_step_def skip_digits_def is_digit_def skip_specifiers.simps
      process_specifier_def primitive_of_char_def array_step_def structure_step_def union_step_def process_bitfield_def
      read_str_number_def starts_with_def skip_char_def skip_anonymous_def read_opt_name_def)

lemma process_composite:
  assumes "map_of OBJC_TYPES_ID c = Some k" and "k \<in> composite_kinds"
  shows "\<exists>u t. process 3 (c # u) = Some (Some t, []) \<and> type_kind t = k"
  using assms read_composites by (auto simp: OBJC_TYPES_ID_def composite_kinds_def split: if_splits)

section \<open>Properties\<close>

text \<open>
  C1. Decoding an encoding always returns, whatever the input: the reader reads at least one
  character in every iteration of every loop, so the fuel the model allots never runs out.
\<close>

theorem decode_type_total: "\<exists>ts. decode_type encoded = Some ts"
  unfolding decode_type_def decode_fuel_def by (rule decode_loop_total) simp

text \<open>
  C2. Round trip of signatures: for any sequence of encodable types, with any specifiers in front
  of a type and any frame offset behind it, \<open>decode_type\<close> returns the types of the sequence in
  order, each with its array dimensions and bit-field widths cut to the last decimal digit.
\<close>

theorem decode_type_signature:
  assumes "encodable_sig its"
  shows "decode_type (concat (map encode_item its)) = Some (map (\<lambda>i. narrow (item_type i)) its)"
  using decode_loop_signature [OF assms, of "[]"]
  by (simp add: decode_type_def decode_fuel_def)

definition sample_signature :: "sig_item list" where
  "sample_signature =
     [SigItem ''V'' (PrimitiveTy OT_VOID) (Some 24), SigItem [] (ObjectTy []) (Some 0),
      SigItem [] SelectorTy (Some 8),
      SigItem ''r'' (PointerTy (StructTy ''P''
         [AttrTy ''x'' (Some (ArrayTy 16 (Some (PrimitiveTy OT_CHAR)))),
          AttrTy ''d'' (Some (ObjectTy ''NSData'')), AttrTy [] (Some (BitFieldTy 3))])) (Some 16)]"

theorem decode_type_signature_witness:
  "encodable_sig sample_signature \<and>
   decode_type (concat (map encode_item sample_signature)) =
     Some (map (\<lambda>i. narrow (item_type i)) sample_signature)"
proof -
  have ok: "encodable_sig sample_signature"
    by (simp add: sample_signature_def specifier_chars_def primitive_kinds_def follows_def
        is_digit_def offset_string_def quoted_def encode_item_def
        aggregate_name_def show_nat.simps)
  with decode_type_signature [OF ok] show ?thesis by simp
qed

text \<open>
  C3. The table \<open>OBJC_TYPES_ID\<close> of the header and the \<open>switch\<close> of \<open>process\<close> agree in both directions. A type read
  from an input that starts with a character of the table has the kind the table gives (or is the
  block type, spelt with the object's character). Every character of the table is read: one whose kind is not
  composite always gives the same type of this kind, whatever follows it, and for every character there is an
  input that is read to its end as a type of the kind. At a character outside the table (and neither a digit nor
  a specifier) the reader skips that one character and returns no type.
\<close>

theorem process_agrees_with_table:
  "(\<forall>n u t r k. map_of OBJC_TYPES_ID c = Some k \<and> process n (c # u) = Some (Some t, r) \<longrightarrow>
      type_kind t = k \<or> t = BlockTy \<and> k = OT_OBJECT) \<and>
   (\<forall>k. map_of OBJC_TYPES_ID c = Some k \<and> k \<notin> composite_kinds \<longrightarrow>
      (\<exists>t. type_kind t = k \<and> (\<forall>n u. process (Suc n) (c # u) = Some (Some t, u)))) \<and>
   (\<forall>k. map_of OBJC_TYPES_ID c = Some k \<longrightarrow>
      (\<exists>n u t. process n (c # u) = Some (Some t, []) \<and> type_kind t = k)) \<and>
   (\<forall>n u. map_of OBJC_TYPES_ID c = None \<and> \<not> is_digit c \<and> c \<notin> set specifier_chars \<longrightarrow>
      process (Suc n) (c # u) = Some (None, u))"
proof (intro conjI allI impI; (elim conjE)?)
  fix n u t r k
  assume tab: "map_of OBJC_TYPES_ID c = Some k" and p: "process n (c # u) = Some (Some t, r)"
  from p obtain m where m: "n = Suc m" by (cases n) auto
  have c: "c \<in> set type_starts" using tab dom_OBJC_TYPES_ID [of c] by (cases "c \<in> set type_starts") simp_all
  show "type_kind t = k \<or> t = BlockTy \<and> k = OT_OBJECT"
  proof (cases "primitive_of_char c")
    case None
    from p show ?thesis
      unfolding m process.simps process_step_start [OF c] None option.case
      using tab table_other [OF None]
      by (auto split: if_splits option.splits prod.splits simp: bind_eq_Some_conv
          dest: process_array_kind process_structure_kind process_union_kind process_bitfield_kind)
  next
    case (Some j)
    with p tab table_primitive [OF Some] show ?thesis
      by (auto simp: m process_step_start [OF c])
  qed
next
  fix k
  assume "map_of OBJC_TYPES_ID c = Some k" and "k \<notin> composite_kinds"
  then show "\<exists>t. type_kind t = k \<and> (\<forall>n u. process (Suc n) (c # u) = Some (Some t, u))" by (rule process_simple)
next
  fix k
  assume "map_of OBJC_TYPES_ID c = Some k"
  then show "\<exists>n u t. process n (c # u) = Some (Some t, []) \<and> type_kind t = k"
    using process_simple [of c k] process_composite [of c k] by (cases "k \<in> composite_kinds") blast+
next
  fix n u
  assume no: "map_of OBJC_TYPES_ID c = None" and nd: "\<not> is_digit c" and ns: "c \<notin> set specifier_chars"
  have np: "primitive_of_char c = None"
    using no table_primitive by (cases "primitive_of_char c") auto
  have "skip_digits (c # u) = c # u" and "skip_specifiers (c # u) = c # u"
    using nd process_specifier_other [OF ns] by (simp_all add: skip_digits_def skip_specifiers.simps)
  then show "process (Suc n) (c # u) = Some (None, u)"
    using no np table_other [OF np] by (simp add: process_step_def split: if_splits)
qed

theorem process_agrees_with_table_witness:
  "map_of OBJC_TYPES_ID (CHR ''#'') = Some OT_CLASS \<and> (\<exists>t. type_kind t = OT_CLASS \<and> process 1 ''#i'' = Some (Some t, ''i''))
   \<and> (\<exists>n u t. process n (CHR ''{'' # u) = Some (Some t, []) \<and> type_kind t = OT_STRUCT)
   \<and> process (Suc 0) ''xi'' = Some (None, ''i'')"
proof (intro conjI)
  show t: "map_of OBJC_TYPES_ID (CHR ''#'') = Some OT_CLASS" by (simp add: OBJC_TYPES_ID_def)
  have "OT_CLASS \<notin> composite_kinds" by (simp add: composite_kinds_def)
  then show "\<exists>t. type_kind t = OT_CLASS \<and> process 1 ''#i'' = Some (Some t, ''i'')"
    using process_agrees_with_table [of "CHR ''#''"] t unfolding One_nat_def by blast
  have "map_of OBJC_TYPES_ID (CHR ''{'') = Some OT_STRUCT" by (simp add: OBJC_TYPES_ID_def)
  then show "\<exists>n u t. process n (CHR ''{'' # u) = Some (Some t, []) \<and> type_kind t = OT_STRUCT"
    using process_agrees_with_table [of "CHR ''{''"] by blast
  have "map_of OBJC_TYPES_ID (CHR ''x'') = None \<and> \<not> is_digit (CHR ''x'') \<and> CHR ''x'' \<notin> set specifier_chars"
    by (simp add: OBJC_TYPES_ID_def is_digit_def specifier_chars_def)
  then show "process (Suc 0) ''xi'' = Some (None, ''i'')"
    using process_agrees_with_table [of "CHR ''x''"] by blast
qed

text \<open>
  C4. An opaque structure and an opaque union are not treated alike: \<open>{Name}\<close> is read as a
  structure without fields and the rest of the input is kept, but a union whose encoding has no
  \<open>'='\<close> after it takes everything up to the end of the input and yields no type.
\<close>

theorem opaque_aggregates:
  assumes "\<forall>c \<in> set name. c \<noteq> CHR ''='' \<and> c \<noteq> CHR ''}''" and "\<not> starts_with (CHR ''?'') name"
    and "CHR ''='' \<notin> set rest"
  shows "process (n + 3) (CHR ''{'' # name @ CHR ''}'' # rest) = Some (Some (StructTy name []), rest) \<and>
         process (n + 3) (CHR ''('' # name @ CHR '')'' # rest) = Some (None, [])"
proof
  have anon: "skip_anonymous (name @ d # rest) = name @ d # rest" if "d \<noteq> CHR ''?''" for d
    using assms(2) that by (cases name) (auto simp: skip_anonymous_def skip_char_def)
  have "process_structure (Suc (Suc n)) (name @ CHR ''}'' # rest) = Some (Some (StructTy name []), rest)"
    using assms(1) by (simp add: structure_step_def Let_def anon takeWhile_append dropWhile_append)
  then show "process (n + 3) (CHR ''{'' # name @ CHR ''}'' # rest) = Some (Some (StructTy name []), rest)"
    by (simp add: eval_nat_numeral process_starts type_starts_def primitive_of_char_def)
  have "dropWhile (\<lambda>c. c \<noteq> CHR ''='') (name @ CHR '')'' # rest) = []"
    using assms(1,3) by (auto simp: dropWhile_eq_Nil_conv)
  then have "skip_char (CHR ''='') (dropWhile (\<lambda>c. c \<noteq> CHR ''='') (skip_anonymous (name @ CHR '')'' # rest))) = []"
    by (subst anon) (simp_all only: skip_char_def list.case, simp)
  then have "process_union (Suc (Suc n)) (name @ CHR '')'' # rest) = Some (None, [])"
    by (simp add: union_step_def Let_def)
  then show "process (n + 3) (CHR ''('' # name @ CHR '')'' # rest) = Some (None, [])"
    by (simp add: eval_nat_numeral process_starts type_starts_def primitive_of_char_def)
qed

theorem opaque_aggregates_witness:
  "process 5 ''{Foo}i'' = Some (Some (StructTy ''Foo'' []), ''i'') \<and>
   process 5 ''(Foo)i'' = Some (None, [])"
  using opaque_aggregates [of "''Foo''" "''i''" 2] by simp

end
