(* ===== verification/Objc_Types.thy ===== *)
theory Objc_Types
  imports Prelude
begin

text \<open>
  The raw Objective-C runtime structures of \<open>include/iCDump/ObjC/Types.hpp\<close>: one record per
  \<open>struct\<close>, its size, and how its bytes are laid out (little-endian, the natural alignment of the
  64-bit targets). \<open>stream.peek<T>()\<close> copies \<open>sizeof(T)\<close> bytes into a \<open>T\<close>; here a \<open>_of_bytes\<close>
  function reads the fields back from these bytes.
\<close>

section \<open>Little-endian fields\<close>

fun le_nat :: "u8 list \<Rightarrow> nat" where
  "le_nat [] = 0"
| "le_nat (b # bs) = unat b + 256 * le_nat bs"

definition field32 :: "u8 list \<Rightarrow> nat \<Rightarrow> u32" where
  "field32 bs off = word_of_nat (le_nat (take 4 (drop off bs)))"

definition field64 :: "u8 list \<Rightarrow> nat \<Rightarrow> u64" where
  "field64 bs off = word_of_nat (le_nat (take 8 (drop off bs)))"

fun le_bytes :: "nat \<Rightarrow> nat \<Rightarrow> u8 list" where
  "le_bytes 0 v = []"
| "le_bytes (Suc n) v = word_of_nat v # le_bytes n (v div 256)"

lemma length_le_bytes [simp]: "length (le_bytes n v) = n"
  by (induction n arbitrary: v) auto

lemma le_nat_le_bytes: "le_nat (le_bytes n v) = v mod 256 ^ n"
proof (induction n arbitrary: v)
  case (Suc n)
  have "unat (word_of_nat v :: u8) = v mod 256" by (simp add: unat_of_nat)
  with Suc show ?case by (simp add: mod_mult2_eq)
qed simp

lemma le_nat_less: "le_nat bs < 256 ^ length bs"
proof (induction bs)
  case (Cons b bs)
  have "unat b < 256" using unsigned_less [of b] by simp
  then have "unat b + 256 * le_nat bs < 256 * (le_nat bs + 1)" by simp
  also have "\<dots> \<le> 256 * 256 ^ length bs" using Cons by (intro mult_left_mono) simp_all
  finally show ?case by simp
qed simp

section \<open>Tagged pointers\<close>

text \<open>
  \<open>PointerUnion<T1, T2>\<close>: the lowest bit of the value tells which of the two pointers it holds;
  both types have an alignment of at least 2.
\<close>

definition pu_pointer :: "u64 \<Rightarrow> u64" where
  "pu_pointer value = value AND NOT 1"

definition pu_tag :: "u64 \<Rightarrow> u64" where
  "pu_tag value = value AND 1"

definition pu_is_T1 :: "u64 \<Rightarrow> bool" where
  "pu_is_T1 value \<longleftrightarrow> pu_tag value = 0"

definition pu_is_T2 :: "u64 \<Rightarrow> bool" where
  "pu_is_T2 value \<longleftrightarrow> pu_tag value = 1"

section \<open>Lists of methods, properties and instance variables\<close>

text \<open>\<open>method_list_t\<close>, \<open>properties_list_t\<close> and \<open>ivars_list_t\<close> differ in their flag mask only.\<close>

record list_t =
  entsize_and_flags :: u32
  count :: u32

definition METHOD_LIST_FLAG_MASK :: u32 where "METHOD_LIST_FLAG_MASK = 0xffff0003"
definition IS_SMALL :: u32 where "IS_SMALL = 0x80000000"
definition LIST_FLAG_MASK :: u32 where "LIST_FLAG_MASK = 0"

definition method_list_entsize :: "list_t \<Rightarrow> u32" where
  "method_list_entsize l = entsize_and_flags l AND NOT METHOD_LIST_FLAG_MASK"

definition method_list_flags :: "list_t \<Rightarrow> u32" where
  "method_list_flags l = entsize_and_flags l AND METHOD_LIST_FLAG_MASK"

definition list_entsize :: "list_t \<Rightarrow> u32" where
  "list_entsize l = entsize_and_flags l AND NOT LIST_FLAG_MASK"

definition list_flags :: "list_t \<Rightarrow> u32" where
  "list_flags l = entsize_and_flags l AND LIST_FLAG_MASK"

text \<open>\<open>method_list->flags() & IS_SMALL\<close>, converted to \<open>bool\<close>.\<close>

definition list_is_small :: "list_t \<Rightarrow> bool" where
  "list_is_small l \<longleftrightarrow> method_list_flags l AND IS_SMALL \<noteq> 0"

definition sizeof_list_t :: nat where "sizeof_list_t = 8"

definition list_t_of_bytes :: "u8 list \<Rightarrow> list_t" where
  "list_t_of_bytes bs = \<lparr>entsize_and_flags = field32 bs 0, count = field32 bs 4\<rparr>"

text \<open>\<open>method_t<uintptr_t>\<close> and \<open>method_t<int32_t>\<close>; the latter's members are signed.\<close>

record big_method_t =
  bm_name :: u64
  bm_types :: u64
  bm_imp :: u64

record small_method_t =
  sm_name :: u32
  sm_types :: u32
  sm_imp :: u32

definition sizeof_big_method_t :: nat where "sizeof_big_method_t = 24"
definition sizeof_small_method_t :: nat where "sizeof_small_method_t = 12"
definition offsetof_small_types :: u64 where "offsetof_small_types = 4"

definition big_method_of_bytes :: "u8 list \<Rightarrow> big_method_t" where
  "big_method_of_bytes bs =
     \<lparr>bm_name = field64 bs 0, bm_types = field64 bs 8, bm_imp = field64 bs 16\<rparr>"

definition small_method_of_bytes :: "u8 list \<Rightarrow> small_method_t" where
  "small_method_of_bytes bs =
     \<lparr>sm_name = field32 bs 0, sm_types = field32 bs 4, sm_imp = field32 bs 8\<rparr>"

record property_t =
  rp_name :: u64
  rp_attributes :: u64

definition sizeof_property_t :: nat where "sizeof_property_t = 16"

definition property_of_bytes :: "u8 list \<Rightarrow> property_t" where
  "property_of_bytes bs = \<lparr>rp_name = field64 bs 0, rp_attributes = field64 bs 8\<rparr>"

record ivar_t =
  ri_offset :: u64
  ri_name :: u64
  ri_type :: u64
  ri_alignment_raw :: u32
  ri_size :: u32

definition sizeof_ivar_t :: nat where "sizeof_ivar_t = 32"

definition ivar_of_bytes :: "u8 list \<Rightarrow> ivar_t" where
  "ivar_of_bytes bs =
     \<lparr>ri_offset = field64 bs 0, ri_name = field64 bs 8, ri_type = field64 bs 16,
      ri_alignment_raw = field32 bs 24, ri_size = field32 bs 28\<rparr>"

section \<open>Protocols and classes\<close>

record protocol_t =
  rpr_isa :: u64
  rpr_mangled_name :: u64
  rpr_protocols :: u64
  rpr_instance_methods :: u64
  rpr_class_methods :: u64
  rpr_optional_instance_methods :: u64
  rpr_optional_class_methods :: u64
  rpr_instance_properties :: u64
  rpr_size :: u32
  rpr_flags :: u32

definition sizeof_protocol_t :: nat where "sizeof_protocol_t = 72"

definition protocol_of_bytes :: "u8 list \<Rightarrow> protocol_t" where
  "protocol_of_bytes bs =
     \<lparr>rpr_isa = field64 bs 0, rpr_mangled_name = field64 bs 8, rpr_protocols = field64 bs 16,
      rpr_instance_methods = field64 bs 24, rpr_class_methods = field64 bs 32,
      rpr_optional_instance_methods = field64 bs 40, rpr_optional_class_methods = field64 bs 48,
      rpr_instance_properties = field64 bs 56, rpr_size = field32 bs 64, rpr_flags = field32 bs 68\<rparr>"

text \<open>\<open>protocol_list_t\<close>: a 64-bit count.\<close>

definition sizeof_protocol_list_t :: nat where "sizeof_protocol_list_t = 8"

definition protocol_list_count :: "u8 list \<Rightarrow> u64" where
  "protocol_list_count bs = field64 bs 0"

text \<open>\<open>class_ro_t\<close>; the union of \<open>ivar_layout\<close> and \<open>non_metaclass\<close> is one field.\<close>

record class_ro_t =
  ro_flags :: u32
  ro_instance_start :: u32
  ro_instance_size :: u32
  ro_reserved :: u32
  ro_ivar_layout :: u64
  ro_name :: u64
  ro_base_method_list :: u64
  ro_base_protocols :: u64
  ro_ivars :: u64
  ro_weak_ivar_layout :: u64
  ro_base_properties :: u64

definition sizeof_class_ro_t :: nat where "sizeof_class_ro_t = 72"

definition class_ro_of_bytes :: "u8 list \<Rightarrow> class_ro_t" where
  "class_ro_of_bytes bs =
     \<lparr>ro_flags = field32 bs 0, ro_instance_start = field32 bs 4, ro_instance_size = field32 bs 8,
      ro_reserved = field32 bs 12, ro_ivar_layout = field64 bs 16, ro_name = field64 bs 24,
      ro_base_method_list = field64 bs 32, ro_base_protocols = field64 bs 40,
      ro_ivars = field64 bs 48, ro_weak_ivar_layout = field64 bs 56,
      ro_base_properties = field64 bs 64\<rparr>"

text \<open>
  \<open>objc_class_t\<close>: the super class pointer, the method cache (24 bytes) and the data bits, 40 bytes
  in all, as the \<open>static_assert\<close> of the header says.
\<close>

record objc_class_t =
  oc_super_class :: u64
  oc_bits :: u64

definition sizeof_cache_t :: nat where "sizeof_cache_t = 24"

definition sizeof_objc_class_t :: nat where "sizeof_objc_class_t = 8 + sizeof_cache_t + 8"

definition objc_class_of_bytes :: "u8 list \<Rightarrow> objc_class_t" where
  "objc_class_of_bytes bs =
     \<lparr>oc_super_class = field64 bs 0, oc_bits = field64 bs (8 + sizeof_cache_t)\<rparr>"

definition FAST_DATA_MASK :: u64 where "FAST_DATA_MASK = 0x00007ffffffffff8"

definition class_ro_ptr :: "u64 \<Rightarrow> u64" where
  "class_ro_ptr bits = bits AND FAST_DATA_MASK"

text \<open>
  \<open>class_ro_ptr2\<close> follows pointers of the process that runs the parser (the code dereferences them),
  so the host's memory is a parameter: \<open>host a\<close> is the 64-bit word at address \<open>a\<close>. The
  \<open>ro_or_rw_ext\<close> member of \<open>class_rw_t\<close> is at offset 8, the \<open>ro\<close> member of \<open>class_rw_ext_t\<close> at 0.
  The type test \<open>is<class_rw_ext_t>()\<close> compares with the second type of the union.
\<close>

definition class_rw_ro :: "(u64 \<Rightarrow> u64) \<Rightarrow> u64 \<Rightarrow> u64" where
  "class_rw_ro host rw =
     (let ro_or_rw_ext = host (rw + 8)
      in if pu_is_T2 ro_or_rw_ext then host (pu_pointer ro_or_rw_ext) else pu_pointer ro_or_rw_ext)"

definition class_ro_ptr2 :: "(u64 \<Rightarrow> u64) \<Rightarrow> u64 \<Rightarrow> u64" where
  "class_ro_ptr2 host bits = class_rw_ro host (class_ro_ptr bits)"

section \<open>Lemmas\<close>

lemma pu_tag_cases: "pu_tag v = 0 \<or> pu_tag v = 1"
  by (simp add: pu_tag_def and_one_eq mod_2_eq_odd)

lemma pu_exclusive: "pu_is_T1 v \<longleftrightarrow> \<not> pu_is_T2 v"
  using pu_tag_cases [of v] by (auto simp: pu_is_T1_def pu_is_T2_def)

lemma pu_pointer_even: "pu_pointer v AND 1 = 0"
  by (simp add: pu_pointer_def and.assoc)

lemma pu_decompose: "pu_pointer v OR pu_tag v = v"
  by (rule bit_word_eqI) (auto simp: pu_pointer_def pu_tag_def bit_simps)

lemma method_list_partition:
  "method_list_entsize l OR method_list_flags l = entsize_and_flags l"
  "method_list_entsize l AND method_list_flags l = 0"
  by (rule bit_word_eqI; auto simp: method_list_entsize_def method_list_flags_def bit_simps)+

lemma list_is_small_bit: "list_is_small l \<longleftrightarrow> bit (entsize_and_flags l) 31"
proof -
  have S: "METHOD_LIST_FLAG_MASK AND IS_SMALL = push_bit 31 1"
    by (simp add: METHOD_LIST_FLAG_MASK_def IS_SMALL_def)
  have "method_list_flags l AND IS_SMALL = entsize_and_flags l AND push_bit 31 1"
    by (simp only: method_list_flags_def and.assoc S)
  moreover have "entsize_and_flags l AND push_bit 31 1 \<noteq> 0 \<longleftrightarrow> bit (entsize_and_flags l) 31"
    by (simp only: and_exp_eq_0_iff_not_bit push_bit_of_1 simp_thms not_not)
  ultimately show ?thesis by (simp only: list_is_small_def)
qed

end
