(* ===== verification/Lief_Stream.thy ===== *)
theory Lief_Stream
  imports Objc_Types
begin

text \<open>
  The stream the parsers read from. The class \<open>LIEF::BinaryStream\<close> is not part of the repository:
  its operations are a parameter of the model, the record \<open>stream_ops\<close> over a type \<open>'s\<close> of stream
  states, and the behaviour the parsers rely on is the locale \<open>lief_stream\<close>. The one operation the
  repository implements, \<open>MachOStream::read_at\<close> (\<open>src/MachOStream.cpp\<close>), is modelled from the
  source; the locale is interpreted on the stream built on top of it.
\<close>

section \<open>The operations of a stream\<close>

text \<open>
  \<open>s_peek_at ops s a n\<close> is \<open>stream.peek<T>(a)\<close> for a \<open>T\<close> of \<open>n\<close> bytes, \<open>s_peek\<close> the one
  without an argument, \<open>s_read\<close> is \<open>stream.read<T>()\<close>.
\<close>

record 's stream_ops =
  s_pos :: "'s \<Rightarrow> u64"
  s_setpos :: "u64 \<Rightarrow> 's \<Rightarrow> 's"
  s_size :: "'s \<Rightarrow> u64"
  s_peek :: "'s \<Rightarrow> nat \<Rightarrow> u8 list option"
  s_peek_at :: "'s \<Rightarrow> u64 \<Rightarrow> nat \<Rightarrow> u8 list option"
  s_read :: "'s \<Rightarrow> nat \<Rightarrow> u8 list option \<times> 's"
  s_peek_string_at :: "'s \<Rightarrow> u64 \<Rightarrow> string option"

text \<open>A \<open>ScopedStream\<close>: the position is set on entry and put back when the scope ends.\<close>

definition scoped :: "'s stream_ops \<Rightarrow> u64 \<Rightarrow> ('s \<Rightarrow> 'r \<times> 's) \<Rightarrow> 's \<Rightarrow> 'r \<times> 's" where
  "scoped ops p body s = (let (r, s') = body (s_setpos ops p s) in (r, s_setpos ops (s_pos ops s) s'))"

locale lief_stream =
  fixes ops :: "'s stream_ops"
  assumes pos_setpos [simp]: "s_pos ops (s_setpos ops p s) = p"
    and setpos_setpos [simp]: "s_setpos ops p (s_setpos ops q s) = s_setpos ops p s"
    and setpos_pos [simp]: "s_setpos ops (s_pos ops s) s = s"
    and size_setpos [simp]: "s_size ops (s_setpos ops p s) = s_size ops s"
    and peek_at_setpos [simp]: "s_peek_at ops (s_setpos ops p s) = s_peek_at ops s"
    and string_setpos [simp]: "s_peek_string_at ops (s_setpos ops p s) = s_peek_string_at ops s"
    and peek_here: "s_peek ops s n = s_peek_at ops s (s_pos ops s) n"
    and peek_at_length: "s_peek_at ops s a n = Some bs \<Longrightarrow> length bs = n"
    and read_here: "s_read ops s n =
      (case s_peek ops s n of
         None \<Rightarrow> (None, s)
       | Some bs \<Rightarrow> (Some bs, s_setpos ops (s_pos ops s + word_of_nat n) s))"
begin

text \<open>
  \<open>moves s s'\<close>: the state \<open>s'\<close> is \<open>s\<close> with some position set.
\<close>

definition moves :: "'s \<Rightarrow> 's \<Rightarrow> bool" where
  "moves s s' \<longleftrightarrow> (\<exists>p. s' = s_setpos ops p s)"

lemma moves_refl [simp, intro]: "moves s s"
  unfolding moves_def by (metis setpos_pos)

lemma moves_setpos [simp, intro]: "moves s (s_setpos ops p s)"
  by (auto simp: moves_def)

lemma moves_trans [trans]: "moves s t \<Longrightarrow> moves t u \<Longrightarrow> moves s u"
  by (auto simp: moves_def)

lemma moves_restore: "moves s s' \<Longrightarrow> s_setpos ops (s_pos ops s) s' = s"
  by (auto simp: moves_def)

lemma moves_same:
  assumes "moves s s'"
  shows "s_peek_at ops s' = s_peek_at ops s" and "s_peek_string_at ops s' = s_peek_string_at ops s"
    and "s_size ops s' = s_size ops s"
  using assms by (auto simp: moves_def)

lemma moves_read: "s_read ops s n = (r, s') \<Longrightarrow> moves s s'"
  by (auto simp: read_here split: option.splits)

text \<open>The frame of a scope: whatever its body does to the position, it is undone.\<close>

lemma scoped_frame:
  assumes "\<And>t r t'. moves s t \<Longrightarrow> body t = (r, t') \<Longrightarrow> moves t t'"
  shows "scoped ops p body s = (fst (body (s_setpos ops p s)), s)"
proof -
  obtain r t' where b: "body (s_setpos ops p s) = (r, t')" by fastforce
  have "moves s t'" using moves_trans [OF moves_setpos assms [OF moves_setpos b]] .
  with b show ?thesis by (simp add: scoped_def moves_restore)
qed

end

section \<open>Mach-O binaries\<close>

text \<open>
  What the program uses of \<open>LIEF::MachO::Binary\<close>, again a parameter: its base addresses and the
  lookups of segments and sections.
\<close>

record segment =
  seg_virtual_address :: u64
  seg_content :: "u8 list"

record macho_binary =
  b_imagebase :: u64
  b_memory_base_address :: u64
  b_segment_from_virtual_address :: "u64 \<Rightarrow> segment option"
  b_get_section :: "string \<Rightarrow> string \<Rightarrow> u8 list option"

definition MachOStream_size :: u64 where
  "MachOStream_size = - 1"

text \<open>
  \<open>MachOStream::read_at\<close> returns a raw pointer: the segment it found and the offset into its
  content. Nothing in the function looks at \<open>size\<close> or at the length of the content.
\<close>

definition rebase :: "macho_binary \<Rightarrow> u64 \<Rightarrow> u64" where
  "rebase bin offset =
     (if b_memory_base_address bin > 0 \<and> offset > b_memory_base_address bin
      then offset - b_memory_base_address bin + b_imagebase bin else offset)"

definition MachOStream_read_at :: "macho_binary \<Rightarrow> u64 \<Rightarrow> u64 \<Rightarrow> (segment \<times> u64) option" where
  "MachOStream_read_at bin offset sz =
     (let r_offset = rebase bin offset
      in case b_segment_from_virtual_address bin r_offset of
           None \<Rightarrow> None
         | Some seg \<Rightarrow> Some (seg, r_offset - seg_virtual_address seg))"

section \<open>The stream over \<open>MachOStream::read_at\<close>\<close>

text \<open>
  The instance of the interface on the model's \<open>read_at\<close>: the state is the position, reading copies
  bytes from the pointer as far as the content goes, strings end at a zero byte.
\<close>

definition copy_bytes :: "segment \<times> u64 \<Rightarrow> nat \<Rightarrow> u8 list option" where
  "copy_bytes ptr n =
     (let (seg, delta) = ptr
      in if unat delta + n \<le> length (seg_content seg)
         then Some (take n (drop (unat delta) (seg_content seg))) else None)"

definition macho_peek_at :: "macho_binary \<Rightarrow> u64 \<Rightarrow> nat \<Rightarrow> u8 list option" where
  "macho_peek_at bin a n =
     Option.bind (MachOStream_read_at bin a (word_of_nat n)) (\<lambda>ptr. copy_bytes ptr n)"

definition char_of_byte :: "u8 \<Rightarrow> char" where
  "char_of_byte b = char_of (unat b)"

definition macho_string_at :: "macho_binary \<Rightarrow> u64 \<Rightarrow> string option" where
  "macho_string_at bin a =
     Option.bind (MachOStream_read_at bin a 1) (\<lambda>(seg, delta).
       let bs = drop (unat delta) (seg_content seg)
       in if 0 \<in> set bs then Some (map char_of_byte (takeWhile (\<lambda>b. b \<noteq> 0) bs)) else None)"

definition macho_ops :: "macho_binary \<Rightarrow> u64 stream_ops" where
  "macho_ops bin =
     \<lparr>s_pos = (\<lambda>p. p), s_setpos = (\<lambda>p _. p), s_size = (\<lambda>_. MachOStream_size),
      s_peek = macho_peek_at bin, s_peek_at = (\<lambda>_. macho_peek_at bin),
      s_read = (\<lambda>p n. case macho_peek_at bin p n of
                        None \<Rightarrow> (None, p) | Some bs \<Rightarrow> (Some bs, p + word_of_nat n)),
      s_peek_string_at = (\<lambda>_. macho_string_at bin)\<rparr>"

lemma macho_peek_at_length: "macho_peek_at bin a n = Some bs \<Longrightarrow> length bs = n"
  by (auto simp: macho_peek_at_def copy_bytes_def bind_eq_Some_conv split: if_splits)

interpretation macho: lief_stream "macho_ops bin" for bin
  by unfold_locales (auto simp: macho_ops_def dest: macho_peek_at_length split: option.splits)

text \<open>
  A byte array as a stream, the \<open>LIEF::SpanStream\<close> over a section's content.
\<close>

definition span_peek_at :: "u8 list \<Rightarrow> u64 \<Rightarrow> nat \<Rightarrow> u8 list option" where
  "span_peek_at bs a n = (if unat a + n \<le> length bs then Some (take n (drop (unat a) bs)) else None)"

definition span_ops :: "u8 list \<Rightarrow> u64 stream_ops" where
  "span_ops bs =
     \<lparr>s_pos = (\<lambda>p. p), s_setpos = (\<lambda>p _. p), s_size = (\<lambda>_. word_of_nat (length bs)),
      s_peek = span_peek_at bs, s_peek_at = (\<lambda>_. span_peek_at bs),
      s_read = (\<lambda>p n. case span_peek_at bs p n of
                        None \<Rightarrow> (None, p) | Some r \<Rightarrow> (Some r, p + word_of_nat n)),
      s_peek_string_at = (\<lambda>_ _. None)\<rparr>"

interpretation span: lief_stream "span_ops bs" for bs
  by unfold_locales (auto simp: span_ops_def span_peek_at_def split: option.splits if_splits)

end
