(* ===== verification/Objc_Entities.thy ===== *)
theory Objc_Entities
  imports Types_Encoding Lief_Stream
begin

text \<open>
  The entities that the parser reads from the stream: \<open>src/ObjC/Method.cpp\<close>, \<open>Property.cpp\<close>,
  \<open>IVar.cpp\<close> and \<open>Protocol.cpp\<close>, with their headers. A \<open>create\<close> function takes the stream's
  operations, the parser's image base and the stream state; it returns the entity, or \<open>None\<close> for
  \<open>nullptr\<close>. The functions that move the position return the stream state as well.
\<close>

section \<open>Pointers\<close>

text \<open>\<open>Parser::decode_ptr\<close>: the low 51 bits, rebased when they lie below the image base.\<close>

definition decode_ptr :: "u64 \<Rightarrow> u64 \<Rightarrow> u64" where
  "decode_ptr imagebase ptr =
     (let decoded = ptr AND (push_bit 51 1 - 1)
      in if imagebase > 0 \<and> decoded < imagebase then decoded + imagebase else decoded)"

text \<open>An \<open>int32_t\<close> converted to \<open>size_t\<close>: sign extension.\<close>

definition sext32 :: "u32 \<Rightarrow> u64" where
  "sext32 w = scast w"

text \<open>The value of a \<open>LIEF::result<std::string>\<close> moved into a string member, if there is one.\<close>

definition string_or_empty :: "string option \<Rightarrow> string" where
  "string_or_empty res = (case res of Some t \<Rightarrow> t | None \<Rightarrow> [])"

section \<open>Methods\<close>

record objc_method =
  m_name :: string
  m_mangled_type :: string
  m_addr :: u64
  m_is_instance :: bool

definition Method_create :: "'s stream_ops \<Rightarrow> u64 \<Rightarrow> bool \<Rightarrow> 's \<Rightarrow> objc_method option" where
  "Method_create ops imagebase is_small s =
     (if is_small then
        let pos = s_pos ops s
        in case s_peek ops s sizeof_small_method_t of
             None \<Rightarrow> None
           | Some bs \<Rightarrow>
               let raw_method = small_method_of_bytes bs;
                   name = (case s_peek_at ops s (pos + sext32 (sm_name raw_method)) 8 of
                             None \<Rightarrow> []
                           | Some str_ptr \<Rightarrow>
                               string_or_empty
                                 (s_peek_string_at ops s (decode_ptr imagebase (field64 str_ptr 0))));
                   mangled_type =
                     string_or_empty
                       (s_peek_string_at ops s
                          (pos + offsetof_small_types + sext32 (sm_types raw_method)))
               in Some \<lparr>m_name = name, m_mangled_type = mangled_type,
                        m_addr = sext32 (sm_imp raw_method), m_is_instance = True\<rparr>
      else
        case s_peek ops s sizeof_big_method_t of
          None \<Rightarrow> None
        | Some bs \<Rightarrow>
            let raw_method = big_method_of_bytes bs
            in Some \<lparr>m_name = string_or_empty
                        (s_peek_string_at ops s (decode_ptr imagebase (bm_name raw_method))),
                     m_mangled_type = string_or_empty
                        (s_peek_string_at ops s (decode_ptr imagebase (bm_types raw_method))),
                     m_addr = bm_imp raw_method, m_is_instance = True\<rparr>)"

record prototype_t =
  rtype :: "objc_type option"
  params :: "objc_type list"

text \<open>
  \<open>Method::prototype\<close>: the first decoded type is the return type. \<open>None\<close> would mean that decoding
  does not return (\<open>prototype_total\<close> excludes it).
\<close>

definition Method_prototype :: "objc_method \<Rightarrow> prototype_t option" where
  "Method_prototype m =
     Option.bind (decode_type (m_mangled_type m)) (\<lambda>types.
       Some (case types of
               [] \<Rightarrow> \<lparr>rtype = None, params = []\<rparr>
             | t # ts \<Rightarrow> \<lparr>rtype = Some t, params = ts\<rparr>))"

section \<open>Properties\<close>

record objc_property =
  p_name :: string
  p_attributes :: string

definition Property_create :: "'s stream_ops \<Rightarrow> u64 \<Rightarrow> 's \<Rightarrow> objc_property option" where
  "Property_create ops imagebase s =
     (case s_peek ops s sizeof_property_t of
        None \<Rightarrow> None
      | Some bs \<Rightarrow>
          let raw_prop = property_of_bytes bs
          in Some \<lparr>p_name = string_or_empty
                      (s_peek_string_at ops s (decode_ptr imagebase (rp_name raw_prop))),
                   p_attributes = string_or_empty
                      (s_peek_string_at ops s (decode_ptr imagebase (rp_attributes raw_prop)))\<rparr>)"

section \<open>Instance variables\<close>

record objc_ivar =
  iv_name :: string
  iv_mangled_type :: string

definition IVar_create :: "'s stream_ops \<Rightarrow> u64 \<Rightarrow> 's \<Rightarrow> objc_ivar option" where
  "IVar_create ops imagebase s =
     (case s_peek ops s sizeof_ivar_t of
        None \<Rightarrow> None
      | Some bs \<Rightarrow>
          let raw_ivar = ivar_of_bytes bs
          in Some \<lparr>iv_name = string_or_empty
                      (s_peek_string_at ops s (decode_ptr imagebase (ri_name raw_ivar))),
                   iv_mangled_type = string_or_empty
                      (s_peek_string_at ops s (decode_ptr imagebase (ri_type raw_ivar)))\<rparr>)"

text \<open>\<open>IVar::type\<close>; the outer option as in \<open>Method_prototype\<close>.\<close>

definition IVar_type :: "objc_ivar \<Rightarrow> objc_type option option" where
  "IVar_type v =
     (if iv_mangled_type v = [] then Some None
      else Option.bind (decode_type (iv_mangled_type v)) (\<lambda>types.
        Some (if length types \<noteq> 1 then None else Some (last types))))"

definition IVar_to_string :: "objc_ivar \<Rightarrow> string" where
  "IVar_to_string v = iv_mangled_type v @ '' '' @ iv_name v"

section \<open>Lists of entities\<close>

text \<open>
  The body of a \<open>for\<close> loop over the entries of a list: the position is set to the entry, the entry
  is created; \<open>entry_loop\<close> goes on to the next entry when that fails (protocols, instance variables,
  properties), \<open>entry_loop_break\<close> stops there (the base methods of a class).
\<close>

fun entry_loop ::
  "'s stream_ops \<Rightarrow> ('s \<Rightarrow> 'e option) \<Rightarrow> u64 \<Rightarrow> nat \<Rightarrow> nat list \<Rightarrow> 's \<Rightarrow> 'e list \<times> 's" where
  "entry_loop ops create addr sz [] s = ([], s)"
| "entry_loop ops create addr sz (i # ixs) s =
     (let s1 = s_setpos ops (addr + word_of_nat i * word_of_nat sz) s;
          (es, s2) = entry_loop ops create addr sz ixs s1
      in (case create s1 of None \<Rightarrow> es | Some e \<Rightarrow> e # es, s2))"

fun entry_loop_break ::
  "'s stream_ops \<Rightarrow> ('s \<Rightarrow> 'e option) \<Rightarrow> u64 \<Rightarrow> nat \<Rightarrow> nat list \<Rightarrow> 's \<Rightarrow> 'e list \<times> 's" where
  "entry_loop_break ops create addr sz [] s = ([], s)"
| "entry_loop_break ops create addr sz (i # ixs) s =
     (let s1 = s_setpos ops (addr + word_of_nat i * word_of_nat sz) s
      in case create s1 of
           None \<Rightarrow> ([], s1)
         | Some e \<Rightarrow>
             let (es, s2) = entry_loop_break ops create addr sz ixs s1 in (e # es, s2))"

definition sizeof_method :: "bool \<Rightarrow> nat" where
  "sizeof_method is_small = (if is_small then sizeof_small_method_t else sizeof_big_method_t)"

definition create_flagged :: "'s stream_ops \<Rightarrow> u64 \<Rightarrow> bool \<Rightarrow> bool \<Rightarrow> 's \<Rightarrow> objc_method option" where
  "create_flagged ops imagebase is_small inst s =
     map_option (\<lambda>m. m\<lparr>m_is_instance := inst\<rparr>) (Method_create ops imagebase is_small s)"

text \<open>
  The block of \<open>Protocol::create\<close> for one method list, and the block for the properties. A null
  pointer and an unreadable list give no entries.
\<close>

definition protocol_methods ::
  "'s stream_ops \<Rightarrow> u64 \<Rightarrow> bool \<Rightarrow> u64 \<Rightarrow> 's \<Rightarrow> objc_method list \<times> 's" where
  "protocol_methods ops imagebase inst ptr s =
     (if ptr = 0 then ([], s)
      else scoped ops (decode_ptr imagebase ptr) (\<lambda>s.
        case s_read ops s sizeof_list_t of
          (None, s1) \<Rightarrow> ([], s1)
        | (Some bs, s1) \<Rightarrow>
            let method_list = list_t_of_bytes bs;
                is_small = list_is_small method_list
            in entry_loop ops (create_flagged ops imagebase is_small inst) (s_pos ops s1)
                 (sizeof_method is_small) [0..<unat (count method_list)] s1) s)"

definition property_list :: "'s stream_ops \<Rightarrow> u64 \<Rightarrow> u64 \<Rightarrow> 's \<Rightarrow> objc_property list \<times> 's" where
  "property_list ops imagebase ptr s =
     (if ptr = 0 then ([], s)
      else scoped ops (decode_ptr imagebase ptr) (\<lambda>s.
        case s_read ops s sizeof_list_t of
          (None, s1) \<Rightarrow> ([], s1)
        | (Some bs, s1) \<Rightarrow>
            entry_loop ops (Property_create ops imagebase) (s_pos ops s1) sizeof_property_t
              [0..<unat (count (list_t_of_bytes bs))] s1) s)"

section \<open>Protocols\<close>

record objc_protocol =
  pr_mangled_name :: string
  pr_opt_methods :: "objc_method list"
  pr_required_methods :: "objc_method list"
  pr_properties :: "objc_property list"

definition Protocol_create :: "'s stream_ops \<Rightarrow> u64 \<Rightarrow> 's \<Rightarrow> objc_protocol option \<times> 's" where
  "Protocol_create ops imagebase s =
     (case s_peek ops s sizeof_protocol_t of
        None \<Rightarrow> (None, s)
      | Some bs \<Rightarrow>
          let raw_proto = protocol_of_bytes bs;
              mangled_name = string_or_empty
                (s_peek_string_at ops s (decode_ptr imagebase (rpr_mangled_name raw_proto)));
              (req_inst, s) = protocol_methods ops imagebase True (rpr_instance_methods raw_proto) s;
              (req_cls, s) = protocol_methods ops imagebase False (rpr_class_methods raw_proto) s;
              (opt_inst, s) =
                protocol_methods ops imagebase True (rpr_optional_instance_methods raw_proto) s;
              (opt_cls, s) =
                protocol_methods ops imagebase False (rpr_optional_class_methods raw_proto) s;
              (props, s) = property_list ops imagebase (rpr_instance_properties raw_proto) s
          in (Some \<lparr>pr_mangled_name = mangled_name, pr_opt_methods = opt_inst @ opt_cls,
                    pr_required_methods = req_inst @ req_cls, pr_properties = props\<rparr>, s))"

definition Protocol_to_string :: "objc_protocol \<Rightarrow> string" where
  "Protocol_to_string p = ''Mangled Name: '' @ pr_mangled_name p @ [CHR 0x0A]"

section \<open>What the loops and blocks compute\<close>

text \<open>
  The entry at index \<open>i\<close> of a list at \<open>addr\<close> is created with the stream positioned on it; the two
  loops collect these entries, in order.
\<close>

definition entry_at :: "'s stream_ops \<Rightarrow> ('s \<Rightarrow> 'e option) \<Rightarrow> u64 \<Rightarrow> nat \<Rightarrow> 's \<Rightarrow> nat \<Rightarrow> 'e option" where
  "entry_at ops create addr sz s i =
     create (s_setpos ops (addr + word_of_nat i * word_of_nat sz) s)"

definition protocol_entries :: "'s stream_ops \<Rightarrow> u64 \<Rightarrow> bool \<Rightarrow> u64 \<Rightarrow> 's \<Rightarrow> objc_method list" where
  "protocol_entries ops ib inst ptr s =
     (if ptr = 0 then []
      else case s_peek_at ops s (decode_ptr ib ptr) sizeof_list_t of
             None \<Rightarrow> []
           | Some bs \<Rightarrow>
               let l = list_t_of_bytes bs in
               List.map_filter
                 (entry_at ops (create_flagged ops ib (list_is_small l) inst)
                    (decode_ptr ib ptr + word_of_nat sizeof_list_t) (sizeof_method (list_is_small l)) s)
                 [0..<unat (count l)])"

definition property_entries :: "'s stream_ops \<Rightarrow> u64 \<Rightarrow> u64 \<Rightarrow> 's \<Rightarrow> objc_property list" where
  "property_entries ops ib ptr s =
     (if ptr = 0 then []
      else case s_peek_at ops s (decode_ptr ib ptr) sizeof_list_t of
             None \<Rightarrow> []
           | Some bs \<Rightarrow>
               List.map_filter
                 (entry_at ops (Property_create ops ib) (decode_ptr ib ptr + word_of_nat sizeof_list_t)
                    sizeof_property_t s)
                 [0..<unat (count (list_t_of_bytes bs))])"

text \<open>The protocol at the position of the stream, by random access.\<close>

definition protocol_view :: "'s stream_ops \<Rightarrow> u64 \<Rightarrow> 's \<Rightarrow> objc_protocol option" where
  "protocol_view ops ib s =
     map_option (\<lambda>bs. let raw = protocol_of_bytes bs in
       \<lparr>pr_mangled_name =
          (case s_peek_string_at ops s (decode_ptr ib (rpr_mangled_name raw)) of Some name \<Rightarrow> name | None \<Rightarrow> []),
        pr_opt_methods =
          protocol_entries ops ib True (rpr_optional_instance_methods raw) s
          @ protocol_entries ops ib False (rpr_optional_class_methods raw) s,
        pr_required_methods =
          protocol_entries ops ib True (rpr_instance_methods raw) s
          @ protocol_entries ops ib False (rpr_class_methods raw) s,
        pr_properties = property_entries ops ib (rpr_instance_properties raw) s\<rparr>)
     (s_peek ops s sizeof_protocol_t)"

primrec take_some :: "'e option list \<Rightarrow> 'e list" where
  "take_some [] = []"
| "take_some (x # xs) = (case x of None \<Rightarrow> [] | Some e \<Rightarrow> e # take_some xs)"

lemma take_some_length: "length (take_some xs) \<le> length xs"
  by (induction xs) (auto split: option.splits)

lemma take_some_nth: "i < length (take_some xs) \<Longrightarrow> xs ! i = Some (take_some xs ! i)"
  by (induction xs arbitrary: i) (auto simp: nth_Cons split: option.splits nat.splits)

context lief_stream
begin

lemma entry_at_moves [simp]:
  "entry_at ops create addr sz (s_setpos ops p s) = entry_at ops create addr sz s"
  by (simp add: entry_at_def fun_eq_iff)

lemma entry_loop_entries:
  "fst (entry_loop ops create addr sz ixs s) = List.map_filter (entry_at ops create addr sz s) ixs"
proof (induction ixs arbitrary: s)
  case (Cons i ixs)
  let ?s1 = "s_setpos ops (addr + word_of_nat i * word_of_nat sz) s"
  obtain es s2 where "entry_loop ops create addr sz ixs ?s1 = (es, s2)" by fastforce
  with Cons.IH [of ?s1] show ?case
    by (simp add: entry_at_def Let_def split: option.splits)
qed simp

lemma entry_loop_moves:
  "entry_loop ops create addr sz ixs s = (es, s') \<Longrightarrow> moves s s'"
proof (induction ixs arbitrary: s es s')
  case (Cons i ixs)
  let ?s1 = "s_setpos ops (addr + word_of_nat i * word_of_nat sz) s"
  obtain es1 where "entry_loop ops create addr sz ixs ?s1 = (es1, s')"
    using Cons.prems by (auto simp: Let_def split: prod.splits)
  then have "moves ?s1 s'" by (rule Cons.IH)
  then show ?case using moves_trans moves_setpos by blast
qed simp

lemma entry_loop_break_entries:
  "fst (entry_loop_break ops create addr sz ixs s)
     = take_some (map (entry_at ops create addr sz s) ixs)"
proof (induction ixs arbitrary: s)
  case (Cons i ixs)
  let ?s1 = "s_setpos ops (addr + word_of_nat i * word_of_nat sz) s"
  obtain es s2 where "entry_loop_break ops create addr sz ixs ?s1 = (es, s2)" by fastforce
  with Cons.IH [of ?s1] show ?case
    by (simp add: entry_at_def Let_def split: option.splits)
qed simp

lemma entry_loop_break_moves:
  "entry_loop_break ops create addr sz ixs s = (es, s') \<Longrightarrow> moves s s'"
proof (induction ixs arbitrary: s es s')
  case (Cons i ixs)
  let ?s1 = "s_setpos ops (addr + word_of_nat i * word_of_nat sz) s"
  show ?case
  proof (cases "create ?s1")
    case None
    then show ?thesis using Cons.prems by (auto simp: Let_def)
  next
    case (Some e)
    then obtain es1 where "entry_loop_break ops create addr sz ixs ?s1 = (es1, s')"
      using Cons.prems by (auto simp: Let_def split: prod.splits)
    then have "moves ?s1 s'" by (rule Cons.IH)
    then show ?thesis using moves_trans moves_setpos by blast
  qed
qed simp

text \<open>The entries of a list: the header is read, then every index up to its count is visited.\<close>

lemma header_loop_moves:
  assumes "(case s_read ops t n of (None, s1) \<Rightarrow> ([], s1) | (Some bs, s1) \<Rightarrow> loop bs s1) = (r, t')"
    and "\<And>bs s1 r t'. loop bs s1 = (r, t') \<Longrightarrow> moves s1 t'"
  shows "moves t t'"
proof -
  obtain x s1 where r: "s_read ops t n = (x, s1)" by fastforce
  have "moves t s1" by (rule moves_read [OF r])
  with assms r show ?thesis by (auto split: option.splits intro: moves_trans)
qed

lemma protocol_methods_frame: "snd (protocol_methods ops ib inst ptr s) = s"
proof (cases "ptr = 0")
  case False
  let ?body = "\<lambda>s. case s_read ops s sizeof_list_t of
        (None, s1) \<Rightarrow> ([], s1)
      | (Some bs, s1) \<Rightarrow>
          let method_list = list_t_of_bytes bs; is_small = list_is_small method_list
          in entry_loop ops (create_flagged ops ib is_small inst) (s_pos ops s1)
               (sizeof_method is_small) [0..<unat (count method_list)] s1"
  have "scoped ops (decode_ptr ib ptr) ?body s = (fst (?body (s_setpos ops (decode_ptr ib ptr) s)), s)"
    by (rule scoped_frame, erule header_loop_moves, unfold Let_def, erule entry_loop_moves)
  then show ?thesis using False by (simp add: protocol_methods_def)
qed (simp add: protocol_methods_def)

lemma property_list_frame: "snd (property_list ops ib ptr s) = s"
proof (cases "ptr = 0")
  case False
  let ?body = "\<lambda>s. case s_read ops s sizeof_list_t of
        (None, s1) \<Rightarrow> ([], s1)
      | (Some bs, s1) \<Rightarrow>
          entry_loop ops (Property_create ops ib) (s_pos ops s1) sizeof_property_t
            [0..<unat (count (list_t_of_bytes bs))] s1"
  have "scoped ops (decode_ptr ib ptr) ?body s = (fst (?body (s_setpos ops (decode_ptr ib ptr) s)), s)"
    by (rule scoped_frame, erule header_loop_moves, erule entry_loop_moves)
  then show ?thesis using False by (simp add: property_list_def)
qed (simp add: property_list_def)

lemma Protocol_create_frame: "snd (Protocol_create ops ib s) = s"
  using protocol_methods_frame property_list_frame
  by (simp add: Protocol_create_def Let_def split: option.splits prod.splits) (metis snd_conv)

lemma protocol_methods_entries:
  "fst (protocol_methods ops ib inst ptr s) = protocol_entries ops ib inst ptr s"
  by (simp add: protocol_methods_def protocol_entries_def scoped_def read_here peek_here
      entry_loop_entries Let_def split: option.splits prod.splits)
     (metis entry_loop_entries entry_at_moves fst_conv)

lemma protocol_methods_run:
  "protocol_methods ops ib inst ptr s = (protocol_entries ops ib inst ptr s, s)"
  using protocol_methods_entries protocol_methods_frame by (metis prod.collapse)

lemma property_list_run: "property_list ops ib ptr s = (property_entries ops ib ptr s, s)"
proof -
  have "fst (property_list ops ib ptr s) = property_entries ops ib ptr s"
    by (simp add: property_list_def property_entries_def scoped_def read_here peek_here
        entry_loop_entries Let_def split: option.splits prod.splits)
       (metis entry_loop_entries entry_at_moves fst_conv)
  then show ?thesis using property_list_frame by (metis prod.collapse)
qed

lemma Protocol_create_run: "Protocol_create ops ib s = (protocol_view ops ib s, s)"
  by (simp add: Protocol_create_def protocol_view_def protocol_methods_run property_list_run string_or_empty_def Let_def
      split: option.split)

end

section \<open>Pointers\<close>

lemma decode_mask: "unat (ptr AND (push_bit 51 1 - 1) :: u64) < 2 ^ 51"
proof -
  have "ptr AND (push_bit 51 1 - 1) = take_bit 51 ptr"
    by (simp add: take_bit_eq_mask mask_eq_exp_minus_1 push_bit_eq_mult)
  then show ?thesis using take_bit_nat_less_exp [of 51 "unat ptr"] by (simp add: unsigned_take_bit_eq)
qed

section \<open>Properties\<close>

text \<open>
  C13. \<open>Method::prototype\<close> always returns; for a method whose type string is the encoding of a
  return type and parameters it gives those types, the return type never missing.
\<close>

theorem prototype_of_signature:
  assumes "encodable_sig (ret # ps)" "m_mangled_type m = concat (map encode_item (ret # ps))"
  shows "Method_prototype m = Some \<lparr>rtype = Some (narrow (item_type ret)),
                                   params = map (\<lambda>i. narrow (item_type i)) ps\<rparr>"
proof -
  have "decode_type (m_mangled_type m) = Some (map (\<lambda>i. narrow (item_type i)) (ret # ps))"
    using decode_loop_signature [OF assms(1), of "[]"] assms(2)
    by (simp add: decode_type_def decode_fuel_def)
  then show ?thesis by (simp add: Method_prototype_def)
qed

definition sample_method :: objc_method where
  "sample_method = \<lparr>m_name = ''length'', m_mangled_type = ''Q16@0:8'', m_addr = 0, m_is_instance = True\<rparr>"

theorem prototype_of_signature_witness:
  "Method_prototype sample_method =
     Some \<lparr>rtype = Some (PrimitiveTy OT_UNSIGNED_LONG_LONG), params = [ObjectTy [], SelectorTy]\<rparr>"
proof -
  let ?ret = "SigItem [] (PrimitiveTy OT_UNSIGNED_LONG_LONG) (Some 16)"
  let ?ps = "[SigItem [] (ObjectTy []) (Some 0), SigItem [] SelectorTy (Some 8)]"
  have "encodable_sig (?ret # ?ps)"
    by (simp add: primitive_kinds_def follows_def is_digit_def offset_string_def encode_item_def
        show_nat.simps)
  moreover have "m_mangled_type sample_method = concat (map encode_item (?ret # ?ps))"
    by (simp add: sample_method_def encode_item_def offset_string_def show_nat.simps quoted_def)
  ultimately show ?thesis using prototype_of_signature [of ?ret ?ps] by simp
qed

text \<open>
  C14. \<open>Parser::decode_ptr\<close>, for an image base of at most \<open>2 ^ 50\<close>: the result lies between the image
  base and \<open>2 ^ 51\<close>, and decoding twice is decoding once.
\<close>

theorem decode_ptr_bounds:
  assumes "unat imagebase \<le> 2 ^ 50"
  shows "imagebase \<le> decode_ptr imagebase ptr \<and> unat (decode_ptr imagebase ptr) < 2 ^ 51
    \<and> decode_ptr imagebase (decode_ptr imagebase ptr) = decode_ptr imagebase ptr"
proof -
  let ?d = "ptr AND (push_bit 51 1 - 1) :: u64"
  have mask: "w AND (push_bit 51 1 - 1) = w" if "unat w < 2 ^ 51" for w :: u64
  proof -
    have "take_bit 51 w = w"
      using that by (simp add: word_unat_eq_iff unsigned_take_bit_eq take_bit_nat_eq_self)
    then show ?thesis by (simp add: take_bit_eq_mask mask_eq_exp_minus_1 push_bit_eq_mult)
  qed
  have d: "unat ?d < 2 ^ 51" by (rule decode_mask)
  have low: "unat (?d + imagebase) = unat ?d + unat imagebase" "unat (?d + imagebase) < 2 ^ 51"
    if "?d < imagebase"
  proof -
    have lt: "unat ?d < unat imagebase" using that by (simp only: word_less_nat_alt)
    then have "unat ?d + unat imagebase < 2 ^ LENGTH(64)" using assms by simp
    then show "unat (?d + imagebase) = unat ?d + unat imagebase" by (simp only: unat_add_lem)
    then show "unat (?d + imagebase) < 2 ^ 51" using lt assms by simp
  qed
  have b: "unat (decode_ptr imagebase ptr) < 2 ^ 51" and ge: "imagebase \<le> decode_ptr imagebase ptr"
    using d low by (auto simp: decode_ptr_def Let_def word_le_nat_alt word_less_nat_alt)
  have "decode_ptr imagebase (decode_ptr imagebase ptr) = decode_ptr imagebase ptr"
    using ge by (subst (1) decode_ptr_def) (simp only: Let_def mask [OF b], auto dest: leD)
  with b ge show ?thesis by blast
qed

theorem decode_ptr_bounds_witness:
  "(0x100000000 :: u64) \<le> decode_ptr 0x100000000 0x80000000004000
   \<and> unat (decode_ptr 0x100000000 0x80000000004000) < 2 ^ 51
   \<and> decode_ptr 0x100000000 0x80000000004000 = 0x100004000"
  using decode_ptr_bounds [of "0x100000000" "0x80000000004000"] by (simp add: decode_ptr_def)

text \<open>
  C15. \<open>Protocol::create\<close> leaves the stream where it was, over any stream that keeps its laws, and gives the
  protocol described by \<open>protocol_view\<close>, by address and with no stream position: its name; as optional and as
  required methods the readable entries of the two lists of instance methods, marked as such, then those of the
  lists of class methods; and as properties the readable entries of its list. It is null exactly when the
  structure cannot be read.
\<close>

theorem Protocol_create_spec:
  assumes "lief_stream ops"
  shows "snd (Protocol_create ops ib s) = s \<and> fst (Protocol_create ops ib s) = protocol_view ops ib s"
  by (simp add: lief_stream.Protocol_create_run [OF assms])

text \<open>A protocol with a required instance method, an optional class method and a property.\<close>

definition protocol_image :: "u8 list" where
  "protocol_image =
     replicate 8 0 @ le_bytes 8 136 @ replicate 8 0 @ le_bytes 8 72 @ replicate 16 0 @ le_bytes 8 104 @ le_bytes 8 138
     @ replicate 8 0
     @ le_bytes 4 24 @ le_bytes 4 1 @ le_bytes 8 0 @ le_bytes 8 0 @ le_bytes 8 7
     @ le_bytes 4 24 @ le_bytes 4 1 @ le_bytes 8 136 @ le_bytes 8 0 @ le_bytes 8 9
     @ [80, 0]
     @ le_bytes 4 16 @ le_bytes 4 1 @ le_bytes 8 136 @ le_bytes 8 0"

definition protocol_binary :: macho_binary where
  "protocol_binary =
     \<lparr>b_imagebase = 0, b_memory_base_address = 0,
      b_segment_from_virtual_address =
        (\<lambda>a. if unat a < length protocol_image
             then Some \<lparr>seg_virtual_address = 0, seg_content = protocol_image\<rparr> else None),
      b_get_section = (\<lambda>seg name. None)\<rparr>"

theorem Protocol_create_spec_witness:
  "fst (Protocol_create (macho_ops protocol_binary) 0 0) =
     Some \<lparr>pr_mangled_name = ''P'',
           pr_opt_methods = [\<lparr>m_name = ''P'', m_mangled_type = [], m_addr = 9, m_is_instance = False\<rparr>],
           pr_required_methods = [\<lparr>m_name = [], m_mangled_type = [], m_addr = 7, m_is_instance = True\<rparr>],
           pr_properties = [\<lparr>p_name = ''P'', p_attributes = []\<rparr>]\<rparr>"
proof -
  have "protocol_view (macho_ops protocol_binary) 0 0 =
     Some \<lparr>pr_mangled_name = ''P'',
           pr_opt_methods = [\<lparr>m_name = ''P'', m_mangled_type = [], m_addr = 9, m_is_instance = False\<rparr>],
           pr_required_methods = [\<lparr>m_name = [], m_mangled_type = [], m_addr = 7, m_is_instance = True\<rparr>],
           pr_properties = [\<lparr>p_name = ''P'', p_attributes = []\<rparr>]\<rparr>"
    by code_simp
  then show ?thesis using Protocol_create_spec [OF macho.lief_stream_axioms, of protocol_binary 0 0] by simp
qed

end
