(* ===== verification/Objc_Parser.thy ===== *)
theory Objc_Parser
  imports Objc_Entities
begin

text \<open>
  The parser of the Objective-C metadata: \<open>src/ObjC/Class.cpp\<close> (\<open>Class::create\<close>),
  \<open>src/ObjC/Parser.cpp\<close>, \<open>src/ObjC/Metadata.cpp\<close> and the entry point in \<open>src/iCDump.cpp\<close>.

  The parser owns the metadata under construction; \<open>Protocol *\<close> pointers are indices into the list
  of protocols, \<open>Class *\<close> pointers indices into the list of classes. The code's state is the record
  \<open>parser\<close>; every operation returns the updated one. \<open>Class_create\<close> recurses through the super
  class pointers, and nothing in the code bounds this, so it carries a fuel and \<open>None\<close> stands for
  a run that has not returned.

  \<open>class_view\<close> is the specification: it describes the class at an address by random access into
  the image, with no stream position and no parser state.
\<close>

section \<open>Data\<close>

record 'p objc_class =
  cl_flags :: u32
  cl_name :: string
  cl_instance_start :: u32
  cl_instance_size :: u32
  cl_reserved :: u32
  cl_protocols :: "'p list"
  cl_methods :: "objc_method list"
  cl_ivars :: "objc_ivar list"
  cl_properties :: "objc_property list"

record metadata =
  md_classes :: "nat objc_class list"
  md_classes_lookup :: "string \<rightharpoonup> nat"
  md_protocols :: "objc_protocol list"
  md_protocol_lookup :: "string \<rightharpoonup> nat"

record 's parser =
  ps_stream :: 's
  ps_metadata :: metadata
  ps_protocols :: "u64 \<rightharpoonup> nat"

text \<open>
  What the parser is given: the stream over the binary, the binary, a stream for the content of a
  section (\<open>LIEF::SpanStream\<close>), and the memory of the host process.
\<close>

record ('s, 'l) parser_env =
  e_ops :: "'s stream_ops"
  e_stream :: 's
  e_list_ops :: "u8 list \<Rightarrow> 'l stream_ops"
  e_list :: "u8 list \<Rightarrow> 'l"
  e_bin :: macho_binary
  e_host :: "u64 \<Rightarrow> u64"

abbreviation e_decode :: "('s, 'l) parser_env \<Rightarrow> u64 \<Rightarrow> u64" where
  "e_decode env \<equiv> decode_ptr (b_imagebase (e_bin env))"

definition META :: u32 where "META = 1"

definition is_meta :: "u32 \<Rightarrow> bool" where
  "is_meta flags \<longleftrightarrow> flags AND META \<noteq> 0"

definition run_stream :: "('s \<Rightarrow> 'r \<times> 's) \<Rightarrow> 's parser \<Rightarrow> 'r \<times> 's parser" where
  "run_stream f ps = (let (r, s') = f (ps_stream ps) in (r, ps\<lparr>ps_stream := s'\<rparr>))"

definition scoped_parser ::
  "'s stream_ops \<Rightarrow> u64 \<Rightarrow> ('s parser \<Rightarrow> 'r \<times> 's parser) \<Rightarrow> 's parser \<Rightarrow> 'r \<times> 's parser" where
  "scoped_parser ops p body ps =
     (let (r, ps') = body (ps\<lparr>ps_stream := s_setpos ops p (ps_stream ps)\<rparr>)
      in (r, ps'\<lparr>ps_stream := s_setpos ops (s_pos ops (ps_stream ps)) (ps_stream ps')\<rparr>))"

section \<open>Protocols of the parser\<close>

definition add_protocol :: "objc_protocol \<Rightarrow> metadata \<Rightarrow> metadata" where
  "add_protocol proto md =
     md\<lparr>md_protocol_lookup := (md_protocol_lookup md)(pr_mangled_name proto \<mapsto> length (md_protocols md)),
        md_protocols := md_protocols md @ [proto]\<rparr>"

definition get_or_create_protocol ::
  "('s, 'l) parser_env \<Rightarrow> u64 \<Rightarrow> 's parser \<Rightarrow> nat option \<times> 's parser" where
  "get_or_create_protocol env offset ps =
     (case ps_protocols ps offset of
        Some i \<Rightarrow> (Some i, ps)
      | None \<Rightarrow>
          scoped_parser (e_ops env) offset (\<lambda>ps.
            case run_stream (Protocol_create (e_ops env) (b_imagebase (e_bin env))) ps of
              (None, ps) \<Rightarrow> (None, ps)
            | (Some proto, ps) \<Rightarrow>
                (Some (length (md_protocols (ps_metadata ps))),
                 ps\<lparr>ps_metadata := add_protocol proto (ps_metadata ps)\<rparr>)) ps)"

section \<open>\<open>Class::create\<close>\<close>

text \<open>The reads at the head of the function: the class, its \<open>class_ro_t\<close> and its name.\<close>

definition Class_head ::
  "('s, 'l) parser_env \<Rightarrow> 's \<Rightarrow> (objc_class_t \<times> class_ro_t \<times> string) option" where
  "Class_head env s =
     (case s_peek (e_ops env) s sizeof_objc_class_t of
        None \<Rightarrow> None
      | Some bs \<Rightarrow>
          let cls_obj = objc_class_of_bytes bs;
              cls_ro_ptr = e_decode env (class_ro_ptr (oc_bits cls_obj));
              raw_ro_cls =
                (case s_peek_at (e_ops env) s cls_ro_ptr sizeof_class_ro_t of
                   Some ro \<Rightarrow> Some ro
                 | None \<Rightarrow>
                     if b_memory_base_address (e_bin env) > 0
                     then s_peek_at (e_ops env) s (class_ro_ptr2 (e_host env) (oc_bits cls_obj))
                            sizeof_class_ro_t
                     else None)
          in case raw_ro_cls of
               None \<Rightarrow> None
             | Some ro_bs \<Rightarrow>
                 let ro = class_ro_of_bytes ro_bs
                 in case s_peek_string_at (e_ops env) s (e_decode env (ro_name ro)) of
                      None \<Rightarrow> None
                    | Some name \<Rightarrow> Some (cls_obj, ro, name))"

text \<open>The address at which the super class is created, if it is.\<close>

definition super_location :: "('s, 'l) parser_env \<Rightarrow> objc_class_t \<Rightarrow> u64 \<Rightarrow> u64 option" where
  "super_location env cls_obj pos =
     (if oc_super_class cls_obj \<noteq> 0 \<and> e_decode env (oc_super_class cls_obj) \<noteq> pos
      then Some (e_decode env (oc_super_class cls_obj)) else None)"

definition base_methods ::
  "('s, 'l) parser_env \<Rightarrow> bool \<Rightarrow> u64 \<Rightarrow> 's \<Rightarrow> objc_method list \<times> 's" where
  "base_methods env inst ptr s =
     (if ptr = 0 then ([], s)
      else scoped (e_ops env) (e_decode env ptr) (\<lambda>s.
        case s_read (e_ops env) s sizeof_list_t of
          (None, s1) \<Rightarrow> ([], s1)
        | (Some bs, s1) \<Rightarrow>
            let method_list = list_t_of_bytes bs;
                is_small = list_is_small method_list
            in entry_loop_break (e_ops env)
                 (create_flagged (e_ops env) (b_imagebase (e_bin env)) is_small inst)
                 (s_pos (e_ops env) s1) (sizeof_method is_small)
                 [0..<unat (count method_list)] s1) s)"

fun base_protocols_loop ::
  "('s, 'l) parser_env \<Rightarrow> nat \<Rightarrow> 's parser \<Rightarrow> nat list \<times> 's parser" where
  "base_protocols_loop env 0 ps = ([], ps)"
| "base_protocols_loop env (Suc n) ps =
     (case s_read (e_ops env) (ps_stream ps) 8 of
        (None, s1) \<Rightarrow> ([], ps\<lparr>ps_stream := s1\<rparr>)
      | (Some bs, s1) \<Rightarrow>
          let (r, ps2) = get_or_create_protocol env (e_decode env (field64 bs 0))
                           (ps\<lparr>ps_stream := s1\<rparr>);
              (ixs, ps3) = base_protocols_loop env n ps2
          in (case r of None \<Rightarrow> ixs | Some i \<Rightarrow> i # ixs, ps3))"

definition base_protocols ::
  "('s, 'l) parser_env \<Rightarrow> u64 \<Rightarrow> 's parser \<Rightarrow> nat list \<times> 's parser" where
  "base_protocols env ptr ps =
     (if ptr = 0 then ([], ps)
      else scoped_parser (e_ops env) (e_decode env ptr) (\<lambda>ps.
        case s_read (e_ops env) (ps_stream ps) sizeof_protocol_list_t of
          (None, s1) \<Rightarrow> ([], ps\<lparr>ps_stream := s1\<rparr>)
        | (Some bs, s1) \<Rightarrow>
            base_protocols_loop env (unat (protocol_list_count bs)) (ps\<lparr>ps_stream := s1\<rparr>)) ps)"

definition ivar_list :: "('s, 'l) parser_env \<Rightarrow> u64 \<Rightarrow> 's \<Rightarrow> objc_ivar list \<times> 's" where
  "ivar_list env ptr s =
     (if ptr = 0 then ([], s)
      else scoped (e_ops env) (e_decode env ptr) (\<lambda>s.
        case s_read (e_ops env) s sizeof_list_t of
          (None, s1) \<Rightarrow> ([], s1)
        | (Some bs, s1) \<Rightarrow>
            entry_loop (e_ops env) (IVar_create (e_ops env) (b_imagebase (e_bin env)))
              (s_pos (e_ops env) s1) sizeof_ivar_t [0..<unat (count (list_t_of_bytes bs))] s1) s)"

text \<open>The rest of the function, once the methods of the super class are known.\<close>

definition Class_members ::
  "('s, 'l) parser_env \<Rightarrow> class_ro_t \<Rightarrow> string \<Rightarrow> objc_method list \<Rightarrow> 's parser
     \<Rightarrow> nat objc_class \<times> 's parser" where
  "Class_members env ro name super_methods ps =
     (let (methods, ps) =
            run_stream (base_methods env (\<not> is_meta (ro_flags ro)) (ro_base_method_list ro)) ps;
          (protocols, ps) = base_protocols env (ro_base_protocols ro) ps;
          (ivars, ps) = run_stream (ivar_list env (ro_ivars ro)) ps;
          (properties, ps) =
            run_stream (property_list (e_ops env) (b_imagebase (e_bin env)) (ro_base_properties ro)) ps
      in (\<lparr>cl_flags = ro_flags ro, cl_name = name, cl_instance_start = ro_instance_start ro,
           cl_instance_size = ro_instance_size ro, cl_reserved = ro_reserved ro,
           cl_protocols = protocols, cl_methods = super_methods @ methods,
           cl_ivars = ivars, cl_properties = properties\<rparr>, ps))"

definition moved_methods :: "'p objc_class option \<Rightarrow> objc_method list" where
  "moved_methods r =
     (case r of
        None \<Rightarrow> []
      | Some super_cls \<Rightarrow> map (\<lambda>m. m\<lparr>m_is_instance := False\<rparr>) (cl_methods super_cls))"

fun Class_create ::
  "('s, 'l) parser_env \<Rightarrow> nat \<Rightarrow> 's parser \<Rightarrow> (nat objc_class option \<times> 's parser) option" where
  "Class_create env 0 ps = None"
| "Class_create env (Suc fuel) ps =
     (case Class_head env (ps_stream ps) of
        None \<Rightarrow> Some (None, ps)
      | Some (cls_obj, ro, name) \<Rightarrow>
          (case super_location env cls_obj (s_pos (e_ops env) (ps_stream ps)) of
             None \<Rightarrow> let (c, ps') = Class_members env ro name [] ps in Some (Some c, ps')
           | Some p \<Rightarrow>
               (case Class_create env fuel
                       (ps\<lparr>ps_stream := s_setpos (e_ops env) p (ps_stream ps)\<rparr>) of
                  None \<Rightarrow> None
                | Some (r, ps1) \<Rightarrow>
                    let ps2 = ps1\<lparr>ps_stream :=
                          s_setpos (e_ops env) (s_pos (e_ops env) (ps_stream ps)) (ps_stream ps1)\<rparr>;
                        (c, ps') = Class_members env ro name (moved_methods r) ps2
                    in Some (Some c, ps'))))"

section \<open>\<open>Parser\<close>\<close>

definition get_objc_section :: "macho_binary \<Rightarrow> string \<Rightarrow> u8 list option" where
  "get_objc_section bin name =
     (case b_get_section bin ''__DATA'' name of
        Some sec \<Rightarrow> Some sec
      | None \<Rightarrow>
          (case b_get_section bin ''__DATA_CONST'' name of
             Some sec \<Rightarrow> Some sec
           | None \<Rightarrow> b_get_section bin ''__DATA_DIRTY'' name))"

definition process_protocol :: "('s, 'l) parser_env \<Rightarrow> u64 \<Rightarrow> 's parser \<Rightarrow> 's parser" where
  "process_protocol env location ps =
     snd (scoped_parser (e_ops env) location (\<lambda>ps.
       case run_stream (Protocol_create (e_ops env) (b_imagebase (e_bin env))) ps of
         (None, ps) \<Rightarrow> ((), ps)
       | (Some proto, ps) \<Rightarrow>
           ((), ps\<lparr>ps_protocols := (ps_protocols ps)(location \<mapsto> length (md_protocols (ps_metadata ps))),
                  ps_metadata := add_protocol proto (ps_metadata ps)\<rparr>)) ps)"

fun process_protocols_loop ::
  "('s, 'l) parser_env \<Rightarrow> 'l stream_ops \<Rightarrow> nat \<Rightarrow> 'l \<Rightarrow> 's parser \<Rightarrow> 's parser" where
  "process_protocols_loop env lops 0 protolist ps = ps"
| "process_protocols_loop env lops (Suc n) protolist ps =
     (case s_read lops protolist 8 of
        (None, _) \<Rightarrow> ps
      | (Some bs, protolist') \<Rightarrow>
          process_protocols_loop env lops n protolist'
            (process_protocol env (e_decode env (field64 bs 0)) ps))"

definition process_protocols :: "('s, 'l) parser_env \<Rightarrow> 's parser \<Rightarrow> 's parser" where
  "process_protocols env ps =
     (case get_objc_section (e_bin env) ''__objc_protolist'' of
        None \<Rightarrow> ps
      | Some content \<Rightarrow>
          let lops = e_list_ops env content; protolist = e_list env content
          in process_protocols_loop env lops (unat (s_size lops protolist div 8)) protolist ps)"

definition add_class :: "nat objc_class \<Rightarrow> metadata \<Rightarrow> metadata" where
  "add_class cls md =
     md\<lparr>md_classes_lookup := (md_classes_lookup md)(cl_name cls \<mapsto> length (md_classes md)),
        md_classes := md_classes md @ [cls]\<rparr>"

definition process_class :: "('s, 'l) parser_env \<Rightarrow> nat \<Rightarrow> u64 \<Rightarrow> 's parser \<Rightarrow> 's parser option" where
  "process_class env fuel location ps =
     (case Class_create env fuel
             (ps\<lparr>ps_stream := s_setpos (e_ops env) location (ps_stream ps)\<rparr>) of
        None \<Rightarrow> None
      | Some (r, ps1) \<Rightarrow>
          let ps2 = (case r of
                       None \<Rightarrow> ps1
                     | Some cls \<Rightarrow> ps1\<lparr>ps_metadata := add_class cls (ps_metadata ps1)\<rparr>)
          in Some (ps2\<lparr>ps_stream :=
               s_setpos (e_ops env) (s_pos (e_ops env) (ps_stream ps)) (ps_stream ps2)\<rparr>))"

fun process_classes_loop ::
  "('s, 'l) parser_env \<Rightarrow> nat \<Rightarrow> 'l stream_ops \<Rightarrow> nat \<Rightarrow> 'l \<Rightarrow> 's parser \<Rightarrow> 's parser option" where
  "process_classes_loop env fuel lops 0 classlist ps = Some ps"
| "process_classes_loop env fuel lops (Suc n) classlist ps =
     (case s_read lops classlist 8 of
        (None, _) \<Rightarrow> Some ps
      | (Some bs, classlist') \<Rightarrow>
          (case process_class env fuel (e_decode env (field64 bs 0)) ps of
             None \<Rightarrow> None
           | Some ps' \<Rightarrow> process_classes_loop env fuel lops n classlist' ps'))"

definition process_classes :: "('s, 'l) parser_env \<Rightarrow> nat \<Rightarrow> 's parser \<Rightarrow> 's parser option" where
  "process_classes env fuel ps =
     (case get_objc_section (e_bin env) ''__objc_classlist'' of
        None \<Rightarrow> Some ps
      | Some content \<Rightarrow>
          let lops = e_list_ops env content; classlist = e_list env content
          in process_classes_loop env fuel lops (unat (s_size lops classlist div 8)) classlist ps)"

definition empty_metadata :: metadata where
  "empty_metadata = \<lparr>md_classes = [], md_classes_lookup = (\<lambda>_. None),
                     md_protocols = [], md_protocol_lookup = (\<lambda>_. None)\<rparr>"

definition init_parser :: "('s, 'l) parser_env \<Rightarrow> 's parser" where
  "init_parser env = \<lparr>ps_stream = e_stream env, ps_metadata = empty_metadata, ps_protocols = (\<lambda>_. None)\<rparr>"

definition Parser_parse :: "('s, 'l) parser_env \<Rightarrow> nat \<Rightarrow> metadata option" where
  "Parser_parse env fuel =
     map_option ps_metadata (process_classes env fuel (process_protocols env (init_parser env)))"

section \<open>\<open>Metadata\<close> and the entry point\<close>

definition get_class :: "metadata \<Rightarrow> string \<Rightarrow> nat objc_class option" where
  "get_class md name =
     (case md_classes_lookup md name of Some i \<Rightarrow> Some (md_classes md ! i) | None \<Rightarrow> None)"

definition get_protocol :: "metadata \<Rightarrow> string \<Rightarrow> objc_protocol option" where
  "get_protocol md name =
     (case md_protocol_lookup md name of Some i \<Rightarrow> Some (md_protocols md ! i) | None \<Rightarrow> None)"

text \<open>The declarations are printed by the Clang AST generator, here two parameters.\<close>

definition Metadata_to_decl ::
  "(objc_protocol \<Rightarrow> string) \<Rightarrow> (nat objc_class \<Rightarrow> string) \<Rightarrow> metadata \<Rightarrow> string" where
  "Metadata_to_decl proto_decl cls_decl md =
     concat (map proto_decl (md_protocols md)) @ concat (map cls_decl (md_classes md))"

text \<open>
  \<open>ObjC::parse\<close>: the fat binary is a parameter, as its function \<open>take\<close>; \<open>None\<close> is a file that
  cannot be parsed or is empty, and a null result.
\<close>

datatype CPU_TYPES = CPU_TYPE_ARM64 | CPU_TYPE_X86_64

datatype ARCH = AUTO | AARCH64 | ARM | X86_64 | X86

definition ObjC_parse ::
  "('b \<Rightarrow> 'm) \<Rightarrow> (CPU_TYPES \<Rightarrow> 'b option) option \<Rightarrow> ARCH \<Rightarrow> 'm option" where
  "ObjC_parse parse_bin fat_bin arch =
     (case fat_bin of
        None \<Rightarrow> None
      | Some take_arch \<Rightarrow>
          (case take_arch CPU_TYPE_ARM64 of
             Some bin \<Rightarrow> Some (parse_bin bin)
           | None \<Rightarrow>
               (case take_arch CPU_TYPE_X86_64 of
                  Some bin \<Rightarrow> Some (parse_bin bin)
                | None \<Rightarrow> None)))"

section \<open>Specification\<close>

definition proto_at :: "('s, 'l) parser_env \<Rightarrow> 's \<Rightarrow> u64 \<Rightarrow> objc_protocol option" where
  "proto_at env s a = fst (Protocol_create (e_ops env) (b_imagebase (e_bin env)) (s_setpos (e_ops env) a s))"

definition methods_view :: "('s, 'l) parser_env \<Rightarrow> bool \<Rightarrow> u64 \<Rightarrow> 's \<Rightarrow> objc_method list" where
  "methods_view env inst ptr s =
     (if ptr = 0 then []
      else case s_peek_at (e_ops env) s (e_decode env ptr) sizeof_list_t of
             None \<Rightarrow> []
           | Some bs \<Rightarrow>
               let l = list_t_of_bytes bs
               in take_some (map
                    (entry_at (e_ops env)
                       (create_flagged (e_ops env) (b_imagebase (e_bin env)) (list_is_small l) inst)
                       (e_decode env ptr + word_of_nat sizeof_list_t)
                       (sizeof_method (list_is_small l)) s) [0..<unat (count l)]))"

definition entries_view ::
  "('s, 'l) parser_env \<Rightarrow> ('s \<Rightarrow> 'e option) \<Rightarrow> nat \<Rightarrow> u64 \<Rightarrow> 's \<Rightarrow> 'e list" where
  "entries_view env create sz ptr s =
     (if ptr = 0 then []
      else case s_peek_at (e_ops env) s (e_decode env ptr) sizeof_list_t of
             None \<Rightarrow> []
           | Some bs \<Rightarrow>
               List.map_filter
                 (entry_at (e_ops env) create (e_decode env ptr + word_of_nat sizeof_list_t) sz s)
                 [0..<unat (count (list_t_of_bytes bs))])"

definition pointer_at :: "('s, 'l) parser_env \<Rightarrow> 's \<Rightarrow> u64 \<Rightarrow> u64 option" where
  "pointer_at env s a = map_option (\<lambda>bs. e_decode env (field64 bs 0)) (s_peek_at (e_ops env) s a 8)"

definition pointer_array :: "('s, 'l) parser_env \<Rightarrow> 's \<Rightarrow> u64 \<Rightarrow> nat \<Rightarrow> u64 list" where
  "pointer_array env s a n = take_some (map (\<lambda>i. pointer_at env s (a + word_of_nat i * 8)) [0..<n])"

definition protocols_view :: "('s, 'l) parser_env \<Rightarrow> u64 \<Rightarrow> 's \<Rightarrow> objc_protocol list" where
  "protocols_view env ptr s =
     (if ptr = 0 then []
      else case s_peek_at (e_ops env) s (e_decode env ptr) sizeof_protocol_list_t of
             None \<Rightarrow> []
           | Some bs \<Rightarrow>
               List.map_filter (proto_at env s)
                 (pointer_array env s (e_decode env ptr + word_of_nat sizeof_protocol_list_t)
                    (unat (protocol_list_count bs))))"

text \<open>What a class takes over from its super class, which may be unreadable: its methods, as class methods.\<close>

definition as_class_method :: "objc_method \<Rightarrow> objc_method" where
  "as_class_method m =
     \<lparr>m_name = m_name m, m_mangled_type = m_mangled_type m, m_addr = m_addr m, m_is_instance = False\<rparr>"

definition as_class_methods :: "'p objc_class option \<Rightarrow> objc_method list" where
  "as_class_methods v = (case v of None \<Rightarrow> [] | Some c \<Rightarrow> map as_class_method (cl_methods c))"

fun class_view :: "('s, 'l) parser_env \<Rightarrow> nat \<Rightarrow> 's \<Rightarrow> u64 \<Rightarrow> objc_protocol objc_class option option" where
  "class_view env 0 s a = None"
| "class_view env (Suc fuel) s a =
     (case Class_head env (s_setpos (e_ops env) a s) of
        None \<Rightarrow> Some None
      | Some (cls_obj, ro, name) \<Rightarrow>
          Option.bind
            (case super_location env cls_obj a of
               None \<Rightarrow> Some []
             | Some p \<Rightarrow> map_option as_class_methods (class_view env fuel s p))
            (\<lambda>super_methods.
               Some (Some \<lparr>cl_flags = ro_flags ro, cl_name = name,
                 cl_instance_start = ro_instance_start ro, cl_instance_size = ro_instance_size ro,
                 cl_reserved = ro_reserved ro,
                 cl_protocols = protocols_view env (ro_base_protocols ro) s,
                 cl_methods = super_methods @
                   methods_view env (\<not> is_meta (ro_flags ro)) (ro_base_method_list ro) s,
                 cl_ivars = entries_view env (IVar_create (e_ops env) (b_imagebase (e_bin env)))
                   sizeof_ivar_t (ro_ivars ro) s,
                 cl_properties = entries_view env (Property_create (e_ops env) (b_imagebase (e_bin env)))
                   sizeof_property_t (ro_base_properties ro) s\<rparr>)))"

text \<open>The classes \<open>Class::create\<close> goes through: the super class of the class at an address.\<close>

definition super_link :: "('s, 'l) parser_env \<Rightarrow> 's \<Rightarrow> u64 \<Rightarrow> u64 option" where
  "super_link env s a =
     (case Class_head env (s_setpos (e_ops env) a s) of
        None \<Rightarrow> None
      | Some (cls_obj, ro, name) \<Rightarrow> super_location env cls_obj a)"

text \<open>The super classes that can be read, from a class up.\<close>

definition readable_class :: "('s, 'l) parser_env \<Rightarrow> 's \<Rightarrow> u64 \<Rightarrow> bool" where
  "readable_class env s a \<longleftrightarrow> Class_head env (s_setpos (e_ops env) a s) \<noteq> None"

primrec super_classes :: "('s, 'l) parser_env \<Rightarrow> 's \<Rightarrow> nat \<Rightarrow> u64 \<Rightarrow> u64 list" where
  "super_classes env s 0 a = []"
| "super_classes env s (Suc n) a =
     (case super_link env s a of
        None \<Rightarrow> []
      | Some p \<Rightarrow> if readable_class env s p then p # super_classes env s n p else [])"

definition own_methods :: "('s, 'l) parser_env \<Rightarrow> 's \<Rightarrow> u64 \<Rightarrow> objc_method list" where
  "own_methods env s a =
     (case Class_head env (s_setpos (e_ops env) a s) of
        None \<Rightarrow> []
      | Some (cls_obj, ro, name) \<Rightarrow> methods_view env (\<not> is_meta (ro_flags ro)) (ro_base_method_list ro) s)"

primrec super_chain :: "('s, 'l) parser_env \<Rightarrow> 's \<Rightarrow> nat \<Rightarrow> u64 \<Rightarrow> u64 option" where
  "super_chain env s 0 a = Some a"
| "super_chain env s (Suc n) a = Option.bind (super_link env s a) (super_chain env s n)"

text \<open>The class a parsed class stands for: its protocol pointers are followed.\<close>

definition resolve :: "objc_protocol list \<Rightarrow> nat objc_class \<Rightarrow> objc_protocol objc_class" where
  "resolve protos c =
     \<lparr>cl_flags = cl_flags c, cl_name = cl_name c, cl_instance_start = cl_instance_start c,
      cl_instance_size = cl_instance_size c, cl_reserved = cl_reserved c,
      cl_protocols = map (nth protos) (cl_protocols c), cl_methods = cl_methods c,
      cl_ivars = cl_ivars c, cl_properties = cl_properties c\<rparr>"

text \<open>The addresses in a section of pointers.\<close>

definition section_pointers :: "('s, 'l) parser_env \<Rightarrow> string \<Rightarrow> u64 list" where
  "section_pointers env name =
     (case get_objc_section (e_bin env) name of
        None \<Rightarrow> []
      | Some content \<Rightarrow>
          map (\<lambda>i. e_decode env (field64 (take 8 (drop (8 * i) content)) 0))
            [0..<unat (word_of_nat (length content) :: u64) div 8])"

text \<open>A table by name: a later entry replaces an earlier one.\<close>

definition index_table :: "('a \<Rightarrow> string) \<Rightarrow> 'a list \<Rightarrow> string \<rightharpoonup> nat" where
  "index_table key xs = map_of (rev (zip (map key xs) [0..<length xs]))"

definition metadata_ok :: "metadata \<Rightarrow> bool" where
  "metadata_ok md \<longleftrightarrow>
     md_classes_lookup md = index_table cl_name (md_classes md)
     \<and> md_protocol_lookup md = index_table pr_mangled_name (md_protocols md)
     \<and> (\<forall>c \<in> set (md_classes md). \<forall>i \<in> set (cl_protocols c). i < length (md_protocols md))"

definition parser_ok :: "('s, 'l) parser_env \<Rightarrow> 's parser \<Rightarrow> bool" where
  "parser_ok env ps \<longleftrightarrow>
     metadata_ok (ps_metadata ps)
     \<and> (\<forall>a i. ps_protocols ps a = Some i \<longrightarrow>
          i < length (md_protocols (ps_metadata ps))
          \<and> proto_at env (ps_stream ps) a = Some (md_protocols (ps_metadata ps) ! i))"

text \<open>What creating a class may do to the parser: more protocols, nothing else.\<close>

definition extends :: "'s parser \<Rightarrow> 's parser \<Rightarrow> bool" where
  "extends ps ps' \<longleftrightarrow>
     (\<exists>xs. md_protocols (ps_metadata ps') = md_protocols (ps_metadata ps) @ xs)
     \<and> md_classes (ps_metadata ps') = md_classes (ps_metadata ps)
     \<and> ps_protocols ps' = ps_protocols ps"

section \<open>Tables\<close>

primrec fold_opt :: "('x \<Rightarrow> 'p \<Rightarrow> 'p option) \<Rightarrow> 'x list \<Rightarrow> 'p \<Rightarrow> 'p option" where
  "fold_opt f [] ps = Some ps"
| "fold_opt f (x # xs) ps = Option.bind (f x ps) (fold_opt f xs)"

lemma index_table_Nil [simp]: "index_table key [] = (\<lambda>_. None)"
  by (simp add: index_table_def)

lemma index_table_snoc [simp]:
  "index_table key (xs @ [x]) = (index_table key xs)(key x \<mapsto> length xs)"
  by (simp add: index_table_def)

lemma index_table_find:
  "map_option (nth xs) (index_table key xs n) = List.find (\<lambda>x. key x = n) (rev xs)"
proof (induction xs rule: rev_induct)
  case (snoc x xs)
  have bound: "i < length xs" if "index_table key xs n = Some i" for i
    using map_of_SomeD [OF that [unfolded index_table_def]] by (auto dest: set_zip_rightD)
  show ?case
    using snoc.IH bound by (cases "index_table key xs n") (auto simp: nth_append)
qed simp

lemma stream_same [simp]: "ps\<lparr>ps_stream := ps_stream ps\<rparr> = ps"
  by (cases ps) simp

lemma extends_refl [simp]: "extends ps ps"
  by (simp add: extends_def)

lemma extends_trans [trans]: "extends ps qs \<Longrightarrow> extends qs rs \<Longrightarrow> extends ps rs"
  by (auto simp: extends_def)

lemma extends_stream [simp]:
  "extends (ps\<lparr>ps_stream := s\<rparr>) qs \<longleftrightarrow> extends ps qs"
  "extends ps (qs\<lparr>ps_stream := s\<rparr>) \<longleftrightarrow> extends ps qs"
  by (simp_all add: extends_def)

lemma extends_length: "extends ps qs \<Longrightarrow>
    length (md_protocols (ps_metadata ps)) \<le> length (md_protocols (ps_metadata qs))"
  by (auto simp: extends_def)

lemma extends_nth:
  "extends ps qs \<Longrightarrow> i < length (md_protocols (ps_metadata ps)) \<Longrightarrow>
    md_protocols (ps_metadata qs) ! i = md_protocols (ps_metadata ps) ! i"
  by (auto simp: extends_def nth_append)

lemma extends_map_nth:
  "extends ps qs \<Longrightarrow> \<forall>i \<in> set ixs. i < length (md_protocols (ps_metadata ps)) \<Longrightarrow>
    map (nth (md_protocols (ps_metadata qs))) ixs = map (nth (md_protocols (ps_metadata ps))) ixs"
  by (auto simp: extends_nth)

lemma metadata_ok_add_protocol:
  "metadata_ok md \<Longrightarrow> metadata_ok (add_protocol p md)"
  by (fastforce simp: metadata_ok_def add_protocol_def)

lemma metadata_ok_add_class:
  "metadata_ok md \<Longrightarrow> \<forall>i \<in> set (cl_protocols c). i < length (md_protocols md) \<Longrightarrow>
    metadata_ok (add_class c md)"
  by (auto simp: metadata_ok_def add_class_def)

lemma metadata_ok_empty: "metadata_ok empty_metadata"
  by (simp add: metadata_ok_def empty_metadata_def)

lemma class_view_None_iff: "class_view env f s a = None \<longleftrightarrow> super_chain env s f a \<noteq> None"
proof (induction f arbitrary: a)
  case (Suc f)
  show ?case
  proof (cases "Class_head env (s_setpos (e_ops env) a s)")
    case (Some h)
    obtain obj ro name where h: "h = (obj, ro, name)" by (cases h)
    show ?thesis
    proof (cases "super_location env obj a")
      case (Some p)
      then show ?thesis using Suc.IH [of p] \<open>Class_head _ _ = Some h\<close> h
        by (cases "class_view env f s p") (auto simp: super_link_def)
    qed (use Some h in \<open>simp add: super_link_def\<close>)
  qed (simp add: super_link_def)
qed simp

lemma super_chain_mono: "super_chain env s n a = None \<Longrightarrow> n \<le> m \<Longrightarrow> super_chain env s m a = None"
proof (induction n arbitrary: a m)
  case (Suc n)
  then obtain k where "m = Suc k" "n \<le> k" by (cases m) auto
  with Suc show ?case by (cases "super_link env s a") auto
qed simp

lemma those_None_iff: "those xs = None \<longleftrightarrow> None \<in> set xs"
  by (induction xs) (auto split: option.splits)

lemma resolve_extends:
  assumes "metadata_ok md" "c \<in> set (md_classes md)" "md_protocols md' = md_protocols md @ xs"
  shows "resolve (md_protocols md') c = resolve (md_protocols md) c"
  using assms by (auto simp: resolve_def metadata_ok_def nth_append)

section \<open>The parser's environment\<close>

text \<open>
  What the parser relies on: the laws of the stream over the binary and of the streams over
  sections, and that a section's stream starts at position 0 and gives the bytes of the section.
\<close>

locale objc_env = lief_stream "e_ops env" for env :: "('s, 'l) parser_env" +
  assumes list_stream: "lief_stream (e_list_ops env bs)"
    and list_start: "s_pos (e_list_ops env bs) (e_list env bs) = 0"
    and list_size: "s_size (e_list_ops env bs) (e_list env bs) = word_of_nat (length bs)"
    and list_peek: "s_peek_at (e_list_ops env bs) (e_list env bs) a n =
      (if unat a + n \<le> length bs then Some (take n (drop (unat a) bs)) else None)"
begin

lemma proto_at_setpos [simp]: "proto_at env (s_setpos (e_ops env) p s) = proto_at env s"
  by (simp add: proto_at_def fun_eq_iff)

lemma pointer_at_setpos [simp]: "pointer_at env (s_setpos (e_ops env) p s) = pointer_at env s"
  by (simp add: pointer_at_def fun_eq_iff)

lemma pointer_array_setpos [simp]:
  "pointer_array env (s_setpos (e_ops env) p s) = pointer_array env s"
  by (simp add: pointer_array_def fun_eq_iff)

lemma methods_view_setpos [simp]:
  "methods_view env inst ptr (s_setpos (e_ops env) p s) = methods_view env inst ptr s"
  by (simp add: methods_view_def Let_def split: option.split)

lemma entries_view_setpos [simp]:
  "entries_view env create sz ptr (s_setpos (e_ops env) p s) = entries_view env create sz ptr s"
  by (simp add: entries_view_def Let_def split: option.split)

lemma protocols_view_setpos [simp]:
  "protocols_view env ptr (s_setpos (e_ops env) p s) = protocols_view env ptr s"
  by (simp add: protocols_view_def Let_def split: option.split)

lemma class_view_setpos [simp]:
  "class_view env f (s_setpos (e_ops env) p s) a = class_view env f s a"
  by (induction f arbitrary: a) (simp_all split: option.splits)

lemma parser_ok_setpos [simp]:
  "parser_ok env (ps\<lparr>ps_stream := s_setpos (e_ops env) p (ps_stream ps)\<rparr>) = parser_ok env ps"
  by (simp add: parser_ok_def)


text \<open>Running a function of the stream that leaves it alone, and the scopes.\<close>

lemma run_frame: "snd (f (ps_stream ps)) = ps_stream ps \<Longrightarrow> run_stream f ps = (fst (f (ps_stream ps)), ps)"
  by (cases ps, cases "f (ps_stream ps)") (simp add: run_stream_def)

lemma create_protocol_run:
  "run_stream (Protocol_create (e_ops env) (b_imagebase (e_bin env)))
     (ps\<lparr>ps_stream := s_setpos (e_ops env) a (ps_stream ps)\<rparr>)
   = (proto_at env (ps_stream ps) a, ps\<lparr>ps_stream := s_setpos (e_ops env) a (ps_stream ps)\<rparr>)"
  by (subst run_frame) (simp_all add: Protocol_create_frame proto_at_def)

lemma base_methods_frame: "snd (base_methods env inst ptr s) = s"
proof (cases "ptr = 0")
  case False
  let ?body = "\<lambda>s. case s_read (e_ops env) s sizeof_list_t of
        (None, s1) \<Rightarrow> ([], s1)
      | (Some bs, s1) \<Rightarrow>
          let method_list = list_t_of_bytes bs; is_small = list_is_small method_list
          in entry_loop_break (e_ops env)
               (create_flagged (e_ops env) (b_imagebase (e_bin env)) is_small inst)
               (s_pos (e_ops env) s1) (sizeof_method is_small) [0..<unat (count method_list)] s1"
  have "scoped (e_ops env) (e_decode env ptr) ?body s
      = (fst (?body (s_setpos (e_ops env) (e_decode env ptr) s)), s)"
    by (rule scoped_frame, erule header_loop_moves, unfold Let_def, erule entry_loop_break_moves)
  then show ?thesis using False by (simp add: base_methods_def)
qed (simp add: base_methods_def)

lemma ivar_list_frame: "snd (ivar_list env ptr s) = s"
proof (cases "ptr = 0")
  case False
  let ?body = "\<lambda>s. case s_read (e_ops env) s sizeof_list_t of
        (None, s1) \<Rightarrow> ([], s1)
      | (Some bs, s1) \<Rightarrow>
          entry_loop (e_ops env) (IVar_create (e_ops env) (b_imagebase (e_bin env)))
            (s_pos (e_ops env) s1) sizeof_ivar_t [0..<unat (count (list_t_of_bytes bs))] s1"
  have "scoped (e_ops env) (e_decode env ptr) ?body s
      = (fst (?body (s_setpos (e_ops env) (e_decode env ptr) s)), s)"
    by (rule scoped_frame, erule header_loop_moves, erule entry_loop_moves)
  then show ?thesis using False by (simp add: ivar_list_def)
qed (simp add: ivar_list_def)

lemma fst_scoped: "fst (scoped (e_ops env) p body s) = fst (body (s_setpos (e_ops env) p s))"
  by (simp add: scoped_def split: prod.splits)

lemma base_methods_view: "fst (base_methods env inst ptr s) = methods_view env inst ptr s"
  by (simp add: base_methods_def methods_view_def fst_scoped read_here peek_here
      entry_loop_break_entries Let_def split: option.splits)

lemma ivar_list_view:
  "fst (ivar_list env ptr s) =
    entries_view env (IVar_create (e_ops env) (b_imagebase (e_bin env))) sizeof_ivar_t ptr s"
  by (simp add: ivar_list_def entries_view_def fst_scoped read_here peek_here
      entry_loop_entries Let_def split: option.splits)

lemma property_list_view:
  "fst (property_list (e_ops env) (b_imagebase (e_bin env)) ptr s) =
    entries_view env (Property_create (e_ops env) (b_imagebase (e_bin env))) sizeof_property_t ptr s"
  by (simp add: property_list_def entries_view_def fst_scoped read_here peek_here
      entry_loop_entries Let_def split: option.splits)

text \<open>
  \<open>get_or_create_protocol\<close>: the pointer it returns leads to the protocol at the address, whether it
  was found or created.
\<close>

lemma add_protocol_ok:
  assumes "parser_ok env ps" "proto_at env (ps_stream ps) a = Some p"
  shows "parser_ok env (ps\<lparr>ps_metadata := add_protocol p (ps_metadata ps)\<rparr>)"
    and "parser_ok env (ps\<lparr>ps_protocols := (ps_protocols ps)(a \<mapsto> length (md_protocols (ps_metadata ps))),
                           ps_metadata := add_protocol p (ps_metadata ps)\<rparr>)"
  using assms metadata_ok_add_protocol [of "ps_metadata ps" p]
  by (auto simp: parser_ok_def add_protocol_def nth_append less_Suc_eq)

lemma get_or_create_ok:
  assumes "parser_ok env ps" "get_or_create_protocol env a ps = (r, ps')"
  shows "parser_ok env ps'" "extends ps ps'" "ps_stream ps' = ps_stream ps"
    "r = Some i \<Longrightarrow> i < length (md_protocols (ps_metadata ps'))"
    "map_option (nth (md_protocols (ps_metadata ps'))) r = proto_at env (ps_stream ps) a"
proof -
  have *: "parser_ok env ps' \<and> extends ps ps' \<and> ps_stream ps' = ps_stream ps
     \<and> (\<forall>i. r = Some i \<longrightarrow> i < length (md_protocols (ps_metadata ps')))
     \<and> map_option (nth (md_protocols (ps_metadata ps'))) r = proto_at env (ps_stream ps) a"
  proof (cases "ps_protocols ps a")
    case None
    with assms add_protocol_ok(1) [OF assms(1), of a] show ?thesis
      by (auto simp: get_or_create_protocol_def scoped_parser_def create_protocol_run extends_def
          add_protocol_def split: option.splits)
  next
    case (Some i)
    with assms(2) have "ps' = ps" "r = Some i" by (simp_all add: get_or_create_protocol_def)
    with assms(1) Some show ?thesis by (simp add: parser_ok_def)
  qed
  then show "parser_ok env ps'" "extends ps ps'" "ps_stream ps' = ps_stream ps"
    "r = Some i \<Longrightarrow> i < length (md_protocols (ps_metadata ps'))"
    "map_option (nth (md_protocols (ps_metadata ps'))) r = proto_at env (ps_stream ps) a"
    by blast+
qed

lemma pointer_array_0 [simp]: "pointer_array env s a 0 = []"
  by (simp add: pointer_array_def)

lemma pointer_array_Suc:
  "pointer_array env s a (Suc n) =
    (case pointer_at env s a of None \<Rightarrow> [] | Some p \<Rightarrow> p # pointer_array env s (a + 8) n)"
proof -
  have "map (\<lambda>i. pointer_at env s (a + word_of_nat i * 8)) [0..<Suc n]
      = pointer_at env s a # map (\<lambda>i. pointer_at env s (a + 8 + word_of_nat i * 8)) [0..<n]"
    by (simp add: upt_conv_Cons map_Suc_upt [symmetric] algebra_simps del: upt_Suc)
  then show ?thesis
    by (simp add: pointer_array_def del: upt_Suc split: option.split)
qed


text \<open>What an operation that returns protocol pointers establishes.\<close>

definition pointers_ok :: "'s parser \<Rightarrow> nat list \<Rightarrow> 's parser \<Rightarrow> objc_protocol list \<Rightarrow> bool" where
  "pointers_ok ps ixs ps' protos \<longleftrightarrow>
     parser_ok env ps' \<and> extends ps ps' \<and> (\<exists>p. ps_stream ps' = s_setpos (e_ops env) p (ps_stream ps))
     \<and> (\<forall>i \<in> set ixs. i < length (md_protocols (ps_metadata ps')))
     \<and> map (nth (md_protocols (ps_metadata ps'))) ixs = protos"

lemma base_protocols_loop_ok:
  assumes "parser_ok env ps" "base_protocols_loop env n ps = (ixs, ps')"
  shows "pointers_ok ps ixs ps' (List.map_filter (proto_at env (ps_stream ps))
    (pointer_array env (ps_stream ps) (s_pos (e_ops env) (ps_stream ps)) n))"
  using assms
proof (induction n arbitrary: ps ixs)
  case 0
  then show ?case by (auto simp: pointers_ok_def intro: exI [of _ "s_pos (e_ops env) (ps_stream ps)"])
next
  case (Suc n)
  let ?s = "ps_stream ps" and ?pos = "s_pos (e_ops env) (ps_stream ps)"
  show ?case
  proof (cases "s_peek_at (e_ops env) ?s ?pos 8")
    case None
    with Suc.prems have "ixs = []" "ps' = ps\<lparr>ps_stream := ?s\<rparr>"
      by (simp_all add: read_here peek_here)
    then show ?thesis using None Suc.prems(1)
      by (auto simp: pointers_ok_def pointer_array_Suc pointer_at_def
          intro: exI [of _ "s_pos (e_ops env) (ps_stream ps)"])
  next
    case (Some bs)
    let ?a = "e_decode env (field64 bs 0)"
    let ?ps1 = "ps\<lparr>ps_stream := s_setpos (e_ops env) (?pos + 8) ?s\<rparr>"
    obtain r ps2 where g: "get_or_create_protocol env ?a ?ps1 = (r, ps2)" by fastforce
    obtain ixs3 where l: "base_protocols_loop env n ps2 = (ixs3, ps')"
      and ixs: "ixs = (case r of None \<Rightarrow> ixs3 | Some i \<Rightarrow> i # ixs3)"
      using Suc.prems Some g by (auto simp: read_here peek_here split: prod.splits)
    have ok1: "parser_ok env ?ps1" using Suc.prems by simp
    note goc = get_or_create_ok [OF ok1 g]
    note ih = Suc.IH [OF goc(1) l, unfolded pointers_ok_def]
    have r: "map_option (nth (md_protocols (ps_metadata ps'))) r = proto_at env ?s ?a"
      using goc(4,5) ih extends_nth [of ps2 ps'] by (cases r) auto
    have bound: "i < length (md_protocols (ps_metadata ps'))" if "r = Some i" for i
      using goc(4) [OF that] extends_length [of ps2 ps'] ih by fastforce
    show ?thesis
      using ih goc(2,3) r [symmetric] bound ixs Some unfolding pointers_ok_def
      by (cases r) (auto simp: pointer_array_Suc pointer_at_def intro: extends_trans)
  qed
qed

lemma base_protocols_ok:
  assumes "parser_ok env ps" "base_protocols env ptr ps = (ixs, ps')"
  shows "pointers_ok ps ixs ps' (protocols_view env ptr (ps_stream ps))"
    and "ps_stream ps' = ps_stream ps"
proof -
  let ?s = "ps_stream ps" and ?q = "e_decode env ptr"
  have "pointers_ok ps ixs ps' (protocols_view env ptr ?s) \<and> ps_stream ps' = ?s"
  proof (cases "ptr = 0 \<or> s_peek_at (e_ops env) ?s ?q sizeof_protocol_list_t = None")
    case True
    then have "ixs = [] \<and> ps' = ps\<lparr>ps_stream := ?s\<rparr>"
      using assms(2)
      by (cases ps) (auto simp: base_protocols_def scoped_parser_def read_here peek_here split: if_splits)
    then show ?thesis using True assms(1)
      by (auto simp: pointers_ok_def protocols_view_def
          intro: exI [of _ "s_pos (e_ops env) (ps_stream ps)"])
  next
    case False
    then obtain bs where bs: "s_peek_at (e_ops env) ?s ?q sizeof_protocol_list_t = Some bs" by auto
    let ?ps1 = "ps\<lparr>ps_stream := s_setpos (e_ops env) (?q + word_of_nat sizeof_protocol_list_t) ?s\<rparr>"
    obtain ps2 where l: "base_protocols_loop env (unat (protocol_list_count bs)) ?ps1 = (ixs, ps2)"
      and ps': "ps' = ps2\<lparr>ps_stream := s_setpos (e_ops env) (s_pos (e_ops env) ?s) (ps_stream ps2)\<rparr>"
      using assms(2) False bs
      by (auto simp: base_protocols_def scoped_parser_def read_here peek_here split: prod.splits)
    have ok: "parser_ok env ?ps1" using assms(1) by simp
    note lo = base_protocols_loop_ok [OF ok l, unfolded pointers_ok_def]
    then have st: "ps_stream ps' = ?s" using ps' by auto
    moreover have "parser_ok env ps'" using lo ps' by simp
    ultimately show ?thesis using lo ps' False bs
      by (auto simp: pointers_ok_def protocols_view_def
          intro: exI [of _ "s_pos (e_ops env) (ps_stream ps)"])
  qed
  then show "pointers_ok ps ixs ps' (protocols_view env ptr ?s)" "ps_stream ps' = ?s" by auto
qed


text \<open>Creating a class refines \<open>class_view\<close>.\<close>

definition class_ok :: "'s parser \<Rightarrow> nat objc_class option \<Rightarrow> 's parser \<Rightarrow> objc_protocol objc_class option \<Rightarrow> bool" where
  "class_ok ps r ps' v \<longleftrightarrow>
     parser_ok env ps' \<and> extends ps ps' \<and> ps_stream ps' = ps_stream ps
     \<and> (\<forall>c. r = Some c \<longrightarrow> (\<forall>i \<in> set (cl_protocols c). i < length (md_protocols (ps_metadata ps'))))
     \<and> map_option (resolve (md_protocols (ps_metadata ps'))) r = v"

definition members_view ::
  "class_ro_t \<Rightarrow> string \<Rightarrow> objc_method list \<Rightarrow> 's \<Rightarrow> objc_protocol objc_class" where
  "members_view ro name super_methods s =
     \<lparr>cl_flags = ro_flags ro, cl_name = name,
      cl_instance_start = ro_instance_start ro, cl_instance_size = ro_instance_size ro,
      cl_reserved = ro_reserved ro,
      cl_protocols = protocols_view env (ro_base_protocols ro) s,
      cl_methods = super_methods @
        methods_view env (\<not> is_meta (ro_flags ro)) (ro_base_method_list ro) s,
      cl_ivars = entries_view env (IVar_create (e_ops env) (b_imagebase (e_bin env)))
        sizeof_ivar_t (ro_ivars ro) s,
      cl_properties = entries_view env (Property_create (e_ops env) (b_imagebase (e_bin env)))
        sizeof_property_t (ro_base_properties ro) s\<rparr>"

lemma Class_members_ok:
  assumes "parser_ok env ps" "Class_members env ro name sms ps = (c, ps')"
  shows "class_ok ps (Some c) ps' (Some (members_view ro name sms (ps_stream ps)))"
proof -
  obtain ixs ps2 where b: "base_protocols env (ro_base_protocols ro) ps = (ixs, ps2)" by fastforce
  note p = base_protocols_ok [OF assms(1) b]
  have runs: "run_stream (base_methods env inst ptr) qs = (methods_view env inst ptr (ps_stream qs), qs)"
    "run_stream (ivar_list env ptr) qs =
       (entries_view env (IVar_create (e_ops env) (b_imagebase (e_bin env))) sizeof_ivar_t ptr (ps_stream qs), qs)"
    "run_stream (property_list (e_ops env) (b_imagebase (e_bin env)) ptr) qs =
       (entries_view env (Property_create (e_ops env) (b_imagebase (e_bin env))) sizeof_property_t ptr (ps_stream qs), qs)"
    for inst ptr and qs :: "'s parser"
    by (simp_all add: run_frame base_methods_frame ivar_list_frame property_list_frame
        base_methods_view ivar_list_view property_list_view)
  from p assms(2) b show ?thesis
    by (auto simp: Class_members_def runs class_ok_def pointers_ok_def resolve_def members_view_def)
qed

lemma class_view_Suc:
  "class_view env (Suc f) s a =
     (case Class_head env (s_setpos (e_ops env) a s) of
        None \<Rightarrow> Some None
      | Some (cls_obj, ro, name) \<Rightarrow>
          map_option (\<lambda>sms. Some (members_view ro name sms s))
            (case super_location env cls_obj a of
               None \<Rightarrow> Some []
             | Some p \<Rightarrow> map_option as_class_methods (class_view env f s p)))"
  by (simp add: members_view_def map_option_case split: option.splits)

lemma Class_create_ok:
  assumes "parser_ok env ps"
  shows "case class_view env f (ps_stream ps) (s_pos (e_ops env) (ps_stream ps)) of
      None \<Rightarrow> Class_create env f ps = None
    | Some v \<Rightarrow> \<exists>r ps'. Class_create env f ps = Some (r, ps') \<and> class_ok ps r ps' v"
  using assms
proof (induction f arbitrary: ps)
  case (Suc f)
  let ?s = "ps_stream ps" and ?pos = "s_pos (e_ops env) (ps_stream ps)"
  show ?case
  proof (cases "Class_head env ?s")
    case None
    then show ?thesis using Suc.prems by (simp add: class_ok_def)
  next
    case (Some h)
    then obtain obj ro name where h: "Class_head env ?s = Some (obj, ro, name)" by (cases h) auto
    show ?thesis
    proof (cases "super_location env obj ?pos")
      case None
      obtain c ps' where "Class_members env ro name [] ps = (c, ps')" by fastforce
      with Class_members_ok [OF Suc.prems this] h None show ?thesis
        by (simp add: class_view_Suc del: class_view.simps)
    next
      case (Some p)
      let ?ps0 = "ps\<lparr>ps_stream := s_setpos (e_ops env) p ?s\<rparr>"
      have ok0: "parser_ok env ?ps0" using Suc.prems by simp
      show ?thesis
      proof (cases "class_view env f ?s p")
        case None
        with Suc.IH [OF ok0] h Some show ?thesis
          by (simp add: class_view_Suc del: class_view.simps)
      next
        case (Some v)
        with Suc.IH [OF ok0] obtain r ps1 where
          c1: "Class_create env f ?ps0 = Some (r, ps1)" "class_ok ?ps0 r ps1 v" by auto
        let ?ps2 = "ps1\<lparr>ps_stream := s_setpos (e_ops env) ?pos (ps_stream ps1)\<rparr>"
        have st: "ps_stream ?ps2 = ?s" using c1(2) by (simp add: class_ok_def)
        have ok2: "parser_ok env ?ps2" using c1(2) parser_ok_setpos unfolding class_ok_def by blast
        obtain c ps' where m: "Class_members env ro name (moved_methods r) ?ps2 = (c, ps')" by fastforce
        note k = Class_members_ok [OF ok2 m, unfolded st]
        have "moved_methods r = as_class_methods v"
          using c1(2) by (auto simp: class_ok_def moved_methods_def as_class_methods_def as_class_method_def resolve_def
              split: option.splits)
        then have "class_ok ps (Some c) ps' (Some (members_view ro name (as_class_methods v) ?s))"
          using k c1(2) st extends_trans [of ps ps1 ps'] by (simp add: class_ok_def)
        then show ?thesis using h \<open>super_location env obj ?pos = Some p\<close> Some c1(1) m
          by (simp add: class_view_Suc del: class_view.simps)
      qed
    qed
  qed
qed simp


text \<open>The loops over the sections of pointers.\<close>

lemma list_read:
  fixes content :: "u8 list"
  defines "lops \<equiv> e_list_ops env content" and "l0 \<equiv> e_list env content"
  assumes k: "k < unat (word_of_nat (length content) :: u64) div 8"
  shows "s_read lops (s_setpos lops (8 * word_of_nat k) l0) 8
    = (Some (take 8 (drop (8 * k) content)), s_setpos lops (8 * word_of_nat (Suc k)) l0)"
proof -
  note l = list_stream [of content, folded lops_def]
  have le: "8 * k + 8 \<le> unat (word_of_nat (length content) :: u64)" using k by simp
  also have "\<dots> \<le> length content" by (simp add: unat_of_nat)
  finally have len: "8 * k + 8 \<le> length content" .
  have "unat (word_of_nat (length content) :: u64) < 2 ^ 64"
    using unsigned_less [of "word_of_nat (length content) :: u64"] by simp
  then have "8 * k < 2 ^ 64" using le by simp
  then have "unat (word_of_nat (8 * k) :: u64) = 8 * k"
    by (simp only: unat_of_nat take_bit_nat_eq_self len_bit0 len_num1 mult_1_right) (simp add: take_bit_nat_eq_self)
  then have u: "unat (8 * word_of_nat k :: u64) = 8 * k" by simp
  have "s_peek_at lops (s_setpos lops (8 * word_of_nat k) l0) (8 * word_of_nat k) 8
      = Some (take 8 (drop (8 * k) content))"
    using list_peek [of content "8 * word_of_nat k" 8] u len by (simp add: lops_def l0_def lief_stream.peek_at_setpos [OF list_stream])
  then show ?thesis
    by (simp add: lief_stream.read_here [OF l] lief_stream.peek_here [OF l] lief_stream.pos_setpos [OF l]
        lief_stream.setpos_setpos [OF l] algebra_simps)
qed

lemma process_protocols_loop_fold:
  fixes content :: "u8 list"
  defines "lops \<equiv> e_list_ops env content" and "l0 \<equiv> e_list env content"
  assumes "k + n \<le> unat (word_of_nat (length content) :: u64) div 8"
  shows "process_protocols_loop env lops n (s_setpos lops (8 * word_of_nat k) l0) ps
    = fold (process_protocol env)
        (map (\<lambda>i. e_decode env (field64 (take 8 (drop (8 * i) content)) 0)) [k..<k + n]) ps"
  using assms(3)
proof (induction n arbitrary: k ps)
  case (Suc n)
  then have r: "k < unat (word_of_nat (length content) :: u64) div 8" by simp
  show ?case using Suc.IH [of "Suc k"] Suc.prems
    by (simp add: list_read [OF r, folded lops_def l0_def] upt_conv_Cons del: upt_Suc)
qed simp

lemma process_classes_loop_fold:
  fixes content :: "u8 list"
  defines "lops \<equiv> e_list_ops env content" and "l0 \<equiv> e_list env content"
  assumes "k + n \<le> unat (word_of_nat (length content) :: u64) div 8"
  shows "process_classes_loop env f lops n (s_setpos lops (8 * word_of_nat k) l0) ps
    = fold_opt (process_class env f)
        (map (\<lambda>i. e_decode env (field64 (take 8 (drop (8 * i) content)) 0)) [k..<k + n]) ps"
  using assms(3)
proof (induction n arbitrary: k ps)
  case (Suc n)
  then have r: "k < unat (word_of_nat (length content) :: u64) div 8" by simp
  show ?case using Suc.IH [of "Suc k"] Suc.prems
    by (simp add: list_read [OF r, folded lops_def l0_def] upt_conv_Cons del: upt_Suc
        split: option.splits)
qed simp

lemma list_start': "s_setpos (e_list_ops env bs) 0 (e_list env bs) = e_list env bs"
  using lief_stream.setpos_pos [OF list_stream, of bs "e_list env bs"] by (simp add: list_start)

lemma process_protocols_fold:
  "process_protocols env ps = fold (process_protocol env) (section_pointers env ''__objc_protolist'') ps"
  using process_protocols_loop_fold [of 0 _ _ ps]
  by (auto simp: process_protocols_def section_pointers_def list_size list_start' unat_div
      split: option.split)

lemma process_classes_fold:
  "process_classes env f ps = fold_opt (process_class env f) (section_pointers env ''__objc_classlist'') ps"
  using process_classes_loop_fold [of 0 _ _ f ps]
  by (auto simp: process_classes_def section_pointers_def list_size list_start' unat_div
      split: option.split)

lemma process_protocol_ok:
  assumes "parser_ok env ps"
  shows "parser_ok env (process_protocol env a ps)"
    and "ps_stream (process_protocol env a ps) = ps_stream ps"
    and "md_classes (ps_metadata (process_protocol env a ps)) = md_classes (ps_metadata ps)"
    and "md_protocols (ps_metadata (process_protocol env a ps))
      = md_protocols (ps_metadata ps) @ List.map_filter (proto_at env (ps_stream ps)) [a]"
proof -
  have "parser_ok env (process_protocol env a ps)
    \<and> ps_stream (process_protocol env a ps) = ps_stream ps
    \<and> md_classes (ps_metadata (process_protocol env a ps)) = md_classes (ps_metadata ps)
    \<and> md_protocols (ps_metadata (process_protocol env a ps))
      = md_protocols (ps_metadata ps) @ List.map_filter (proto_at env (ps_stream ps)) [a]"
  proof (cases "proto_at env (ps_stream ps) a")
    case None
    then have "process_protocol env a ps = ps"
      by (simp add: process_protocol_def scoped_parser_def create_protocol_run)
    then show ?thesis using assms None by simp
  next
    case (Some p)
    have "process_protocol env a ps =
      ps\<lparr>ps_protocols := (ps_protocols ps)(a \<mapsto> length (md_protocols (ps_metadata ps))),
         ps_metadata := add_protocol p (ps_metadata ps)\<rparr>"
      using Some
      by (simp add: process_protocol_def scoped_parser_def create_protocol_run)
    with add_protocol_ok(2) [OF assms Some] Some show ?thesis
      by (simp add: add_protocol_def)
  qed
  then show "parser_ok env (process_protocol env a ps)"
    "ps_stream (process_protocol env a ps) = ps_stream ps"
    "md_classes (ps_metadata (process_protocol env a ps)) = md_classes (ps_metadata ps)"
    "md_protocols (ps_metadata (process_protocol env a ps))
      = md_protocols (ps_metadata ps) @ List.map_filter (proto_at env (ps_stream ps)) [a]" by blast+
qed

lemma fold_protocols_ok:
  assumes "parser_ok env ps"
  shows "parser_ok env (fold (process_protocol env) as ps)
    \<and> ps_stream (fold (process_protocol env) as ps) = ps_stream ps
    \<and> md_classes (ps_metadata (fold (process_protocol env) as ps)) = md_classes (ps_metadata ps)
    \<and> md_protocols (ps_metadata (fold (process_protocol env) as ps))
      = md_protocols (ps_metadata ps) @ List.map_filter (proto_at env (ps_stream ps)) as"
  using assms
proof (induction as arbitrary: ps)
  case (Cons a as)
  note p = process_protocol_ok [OF Cons.prems, of a]
  show ?case using Cons.IH [OF p(1)] p(2-4)
    by (simp split: option.splits)
qed simp


text \<open>Classes: the parsed classes, with their pointers followed, are the specified ones.\<close>

abbreviation "resolved ps \<equiv> map (resolve (md_protocols (ps_metadata ps))) (md_classes (ps_metadata ps))"

definition more_protocols :: "'s parser \<Rightarrow> 's parser \<Rightarrow> bool" where
  "more_protocols ps ps' \<longleftrightarrow>
     (\<exists>xs. md_protocols (ps_metadata ps') = md_protocols (ps_metadata ps) @ xs)"

lemma process_class_ok:
  assumes "parser_ok env ps"
  shows "case class_view env f (ps_stream ps) a of
      None \<Rightarrow> process_class env f a ps = None
    | Some v \<Rightarrow> \<exists>ps'. process_class env f a ps = Some ps' \<and> parser_ok env ps'
        \<and> ps_stream ps' = ps_stream ps \<and> more_protocols ps ps'
        \<and> resolved ps' = resolved ps @ List.map_filter (\<lambda>v. v) [v]"
proof -
  let ?ps0 = "ps\<lparr>ps_stream := s_setpos (e_ops env) a (ps_stream ps)\<rparr>"
  have ok0: "parser_ok env ?ps0" using assms by simp
  show ?thesis
  proof (cases "class_view env f (ps_stream ps) a")
    case None
    with Class_create_ok [OF ok0, of f] show ?thesis by (simp add: process_class_def)
  next
    case (Some v)
    with Class_create_ok [OF ok0, of f] obtain r ps1 where
      c: "Class_create env f ?ps0 = Some (r, ps1)" "class_ok ?ps0 r ps1 v" by auto
    have ok: "parser_ok env ps1" and st: "ps_stream ps1 = s_setpos (e_ops env) a (ps_stream ps)"
      and cl: "md_classes (ps_metadata ps1) = md_classes (ps_metadata ps)"
      and v: "v = map_option (resolve (md_protocols (ps_metadata ps1))) r"
      using c(2) by (auto simp: class_ok_def extends_def)
    obtain xs where xs: "md_protocols (ps_metadata ps1) = md_protocols (ps_metadata ps) @ xs"
      using c(2) by (auto simp: class_ok_def extends_def)
    have old: "resolved ps1 = resolved ps"
      using assms resolve_extends [OF _ _ xs] cl unfolding parser_ok_def by simp
    let ?md = "case r of None \<Rightarrow> ps_metadata ps1 | Some c \<Rightarrow> add_class c (ps_metadata ps1)"
    have p: "process_class env f a ps = Some (ps1\<lparr>ps_metadata := ?md, ps_stream := ps_stream ps\<rparr>)"
      using c(1) st by (cases r) (simp_all add: process_class_def)
    have md: "metadata_ok ?md" "md_protocols ?md = md_protocols (ps_metadata ps1)"
      using ok c(2) metadata_ok_add_class [of "ps_metadata ps1"]
      by (auto simp: class_ok_def parser_ok_def split: option.splits) (simp_all add: add_class_def)
    show ?thesis
      using Some p md ok st xs old v cl
      by (cases r) (auto simp: parser_ok_def more_protocols_def add_class_def)
  qed
qed

lemma fold_classes_ok:
  assumes "parser_ok env ps"
  shows "case those (map (class_view env f (ps_stream ps)) as) of
      None \<Rightarrow> fold_opt (process_class env f) as ps = None
    | Some vs \<Rightarrow> \<exists>ps'. fold_opt (process_class env f) as ps = Some ps' \<and> parser_ok env ps'
        \<and> more_protocols ps ps' \<and> resolved ps' = resolved ps @ List.map_filter (\<lambda>v. v) vs"
  using assms
proof (induction as arbitrary: ps)
  case Nil
  then show ?case by (simp add: more_protocols_def)
next
  case (Cons a as)
  show ?case
  proof (cases "class_view env f (ps_stream ps) a")
    case None
    with process_class_ok [OF Cons.prems, of f a] show ?thesis by simp
  next
    case (Some v)
    with process_class_ok [OF Cons.prems, of f a] obtain ps1 where
      1: "process_class env f a ps = Some ps1" "parser_ok env ps1" "ps_stream ps1 = ps_stream ps"
        "more_protocols ps ps1" "resolved ps1 = resolved ps @ List.map_filter (\<lambda>v. v) [v]" by auto
    show ?thesis using Cons.IH [OF 1(2)] 1 Some
      by (cases v) (auto simp: more_protocols_def split: option.splits)
  qed
qed

lemma init_ok: "parser_ok env (init_parser env)"
  by (simp add: parser_ok_def init_parser_def metadata_ok_empty)

lemma parse_ok:
  "case those (map (class_view env f (e_stream env)) (section_pointers env ''__objc_classlist'')) of
      None \<Rightarrow> Parser_parse env f = None
    | Some vs \<Rightarrow> \<exists>md xs. Parser_parse env f = Some md \<and> metadata_ok md
        \<and> md_protocols md =
            List.map_filter (proto_at env (e_stream env)) (section_pointers env ''__objc_protolist'') @ xs
        \<and> map (resolve (md_protocols md)) (md_classes md) = List.map_filter (\<lambda>v. v) vs"
proof -
  let ?ps = "process_protocols env (init_parser env)"
  note p = fold_protocols_ok [OF init_ok, of "section_pointers env ''__objc_protolist''",
      folded process_protocols_fold]
  have st: "ps_stream ?ps = e_stream env" using p by (simp add: init_parser_def)
  have pr: "md_protocols (ps_metadata ?ps)
      = List.map_filter (proto_at env (e_stream env)) (section_pointers env ''__objc_protolist'')"
    and cl: "md_classes (ps_metadata ?ps) = []"
    using p by (simp_all add: init_parser_def empty_metadata_def)
  have ok: "parser_ok env ?ps" using p by simp
  show ?thesis
    using fold_classes_ok [OF ok, of f "section_pointers env ''__objc_classlist''", folded process_classes_fold] pr cl
    by (auto simp: Parser_parse_def st more_protocols_def parser_ok_def split: option.splits)
qed

lemma parse_None_iff:
  "Parser_parse env f = None \<longleftrightarrow>
    (\<exists>a \<in> set (section_pointers env ''__objc_classlist''). super_chain env (e_stream env) f a \<noteq> None)"
proof -
  have "Parser_parse env f = None \<longleftrightarrow>
      those (map (class_view env f (e_stream env)) (section_pointers env ''__objc_classlist'')) = None"
    using parse_ok [of f] by (auto split: option.splits)
  also have "\<dots> \<longleftrightarrow> (\<exists>a \<in> set (section_pointers env ''__objc_classlist'').
      class_view env f (e_stream env) a = None)"
    by (simp add: those_None_iff image_iff eq_commute [of None])
  finally show ?thesis by (simp only: class_view_None_iff)
qed

end

end
