(* ===== verification/Objc_Metadata.thy ===== *)
theory Objc_Metadata
  imports Objc_Parser
begin

text \<open>
  The environment of the parser built on \<open>MachOStream\<close>, sample images on it, and the properties of
  the Objective-C parser: what \<open>Parser::parse\<close> returns and when it does.
\<close>

section \<open>The environment over a Mach-O binary\<close>

definition macho_env :: "macho_binary \<Rightarrow> (u64 \<Rightarrow> u64) \<Rightarrow> (u64, u64) parser_env" where
  "macho_env bin host =
     \<lparr>e_ops = macho_ops bin, e_stream = 0, e_list_ops = span_ops, e_list = (\<lambda>_. 0),
      e_bin = bin, e_host = host\<rparr>"

interpretation macho_parser: objc_env "macho_env bin host" for bin host
  by (intro objc_env.intro objc_env_axioms.intro)
    (simp_all add: macho_env_def macho.lief_stream_axioms span.lief_stream_axioms,
     simp_all add: span_ops_def span_peek_at_def)

section \<open>Sample images\<close>

text \<open>
  One segment at address 0 and the two sections of pointers. In the first image a class \<open>A\<close> conforms
  to the protocol \<open>P\<close>, which is not in the protocol list; in the second the \<open>isa\<close> pointers of two
  classes form a cycle.
\<close>

definition image_binary :: "u8 list \<Rightarrow> nat list \<Rightarrow> macho_binary" where
  "image_binary content classlist =
     \<lparr>b_imagebase = 0, b_memory_base_address = 0,
      b_segment_from_virtual_address =
        (\<lambda>a. if unat a < length content
             then Some \<lparr>seg_virtual_address = 0, seg_content = content\<rparr> else None),
      b_get_section = (\<lambda>seg name.
        if seg = ''__DATA_CONST'' \<and> name = ''__objc_classlist''
        then Some (concat (map (le_bytes 8) classlist)) else None)\<rparr>"

definition raw_class :: "nat \<Rightarrow> nat \<Rightarrow> u8 list" where
  "raw_class isa ro = le_bytes 8 isa @ replicate 24 0 @ le_bytes 8 ro"

definition raw_class_ro :: "nat \<Rightarrow> nat \<Rightarrow> nat \<Rightarrow> u8 list" where
  "raw_class_ro flags name protos =
     le_bytes 4 flags @ replicate 20 0 @ le_bytes 8 name @ replicate 8 0 @ le_bytes 8 protos
     @ replicate 24 0"

definition sample_content :: "u8 list" where
  "sample_content =
     raw_class 0 40
     @ raw_class_ro 2 112 120
     @ [65, 0, 0, 0, 0, 0, 0, 0]
     @ le_bytes 8 1 @ le_bytes 8 136
     @ replicate 8 0 @ le_bytes 8 208 @ replicate 56 0
     @ [80, 0]"

definition sample_env :: "(u64, u64) parser_env" where
  "sample_env = macho_env (image_binary sample_content [0]) (\<lambda>_. 0)"

definition cyclic_content :: "u8 list" where
  "cyclic_content =
     replicate 8 0 @ raw_class 48 88 @ raw_class 8 88 @ raw_class_ro 0 160 0 @ [65, 0]"

definition cyclic_env :: "(u64, u64) parser_env" where
  "cyclic_env = macho_env (image_binary cyclic_content [8, 48]) (\<lambda>_. 0)"

lemma sample_objc_env: "objc_env sample_env" "objc_env cyclic_env"
  unfolding sample_env_def cyclic_env_def by (rule macho_parser.objc_env_axioms)+

lemma sample_parse:
  "map_option (\<lambda>md. (map cl_name (md_classes md), map cl_protocols (md_classes md),
      map pr_mangled_name (md_protocols md))) (Parser_parse sample_env 1) = Some ([''A''], [[0]], [''P''])"
  by code_simp

lemma cyclic_links: "super_link cyclic_env 0 8 = Some 48" "super_link cyclic_env 0 48 = Some 8"
  by code_simp+

lemma cyclic_section: "section_pointers cyclic_env ''__objc_classlist'' = [8, 48]"
  by code_simp

section \<open>Properties of the parser\<close>

lemma those_Some_mem: "those (map f xs) = Some vs \<Longrightarrow> v \<in> set vs \<Longrightarrow> \<exists>x \<in> set xs. f x = Some v"
  by (induction xs arbitrary: vs) (auto split: option.splits)

text \<open>
  C5. Refinement. Over any stream that keeps its laws, the classes \<open>Parser::parse\<close> returns are, with
  their protocol pointers followed, exactly the classes described by \<open>class_view\<close> at the addresses
  of \<open>__objc_classlist\<close>, in order, unreadable ones left out; it returns exactly when all these
  descriptions are defined. No position of the stream and no state of the parser leaks into a class:
  neither which protocols were cached nor the order of the reads.
\<close>

theorem parse_refines:
  assumes "objc_env env"
  shows "map_option (\<lambda>md. map (resolve (md_protocols md)) (md_classes md)) (Parser_parse env fuel)
    = map_option (List.map_filter (\<lambda>v. v))
        (those (map (class_view env fuel (e_stream env)) (section_pointers env ''__objc_classlist'')))"
  using objc_env.parse_ok [OF assms, of fuel] by (auto split: option.splits)

theorem parse_refines_witness:
  "map_option (\<lambda>md. map cl_name (map (resolve (md_protocols md)) (md_classes md))) (Parser_parse sample_env 1)
     = Some [''A'']
   \<and> map_option (\<lambda>md. map (resolve (md_protocols md)) (md_classes md)) (Parser_parse sample_env 1)
     = map_option (List.map_filter (\<lambda>v. v))
        (those (map (class_view sample_env 1 (e_stream sample_env))
          (section_pointers sample_env ''__objc_classlist'')))"
  using parse_refines [OF sample_objc_env(1), of 1] sample_parse
  by (auto simp: resolve_def)

text \<open>
  C6. Invariant. The metadata that \<open>Parser::parse\<close> returns is consistent: both lookup tables are the
  ones of its lists (the last entry with a name wins), every protocol pointer of a class is valid,
  and the protocol list starts with the readable protocols of \<open>__objc_protolist\<close>, in order.
\<close>

theorem parse_metadata_ok:
  assumes "objc_env env" "Parser_parse env fuel = Some md"
  shows "metadata_ok md \<and>
    (\<exists>extra. md_protocols md =
       List.map_filter (proto_at env (e_stream env)) (section_pointers env ''__objc_protolist'') @ extra)"
  using objc_env.parse_ok [OF assms(1), of fuel] assms(2) by (auto split: option.splits)

theorem parse_metadata_ok_witness:
  "\<exists>md. Parser_parse sample_env 1 = Some md \<and> metadata_ok md \<and> map pr_mangled_name (md_protocols md) = [''P'']"
  using parse_metadata_ok [OF sample_objc_env(1)] sample_parse by auto

lemma index_table_get:
  "(case index_table key xs n of Some i \<Rightarrow> Some (xs ! i) | None \<Rightarrow> None) = List.find (\<lambda>x. key x = n) (rev xs)"
  using index_table_find [of xs key n] by (auto split: option.splits)

text \<open>
  C7. \<open>Metadata::get_class\<close> and \<open>get_protocol\<close> on a parsed image return the last class or protocol
  with the name, and null exactly when there is none.
\<close>

theorem parse_lookup:
  assumes "objc_env env" "Parser_parse env fuel = Some md"
  shows "get_class md name = List.find (\<lambda>c. cl_name c = name) (rev (md_classes md))
    \<and> get_protocol md name = List.find (\<lambda>p. pr_mangled_name p = name) (rev (md_protocols md))"
proof -
  have "metadata_ok md" using objc_env.parse_ok [OF assms(1), of fuel] assms(2) by (auto split: option.splits)
  then show ?thesis
    by (simp add: get_class_def get_protocol_def metadata_ok_def index_table_get)
qed

theorem parse_lookup_witness:
  "\<exists>md. Parser_parse sample_env 1 = Some md \<and> map_option cl_name (get_class md ''A'') = Some ''A''
     \<and> get_protocol md ''A'' = None"
  using parse_lookup [OF sample_objc_env(1), of 1] sample_parse
  by (auto simp: map_eq_Cons_conv)

text \<open>
  C8. Termination. The parser returns exactly when the chain of super class pointers from every
  listed class ends; the fuel that is enough is the length of the longest chain.
\<close>

theorem parse_returns_iff:
  assumes "objc_env env"
  shows "(Parser_parse env fuel \<noteq> None \<longleftrightarrow>
      (\<forall>a \<in> set (section_pointers env ''__objc_classlist''). super_chain env (e_stream env) fuel a = None))
    \<and> ((\<exists>n. Parser_parse env n \<noteq> None) \<longleftrightarrow>
      (\<forall>a \<in> set (section_pointers env ''__objc_classlist''). \<exists>n. super_chain env (e_stream env) n a = None))"
proof -
  have iff: "Parser_parse env n \<noteq> None \<longleftrightarrow>
      (\<forall>a \<in> set (section_pointers env ''__objc_classlist''). super_chain env (e_stream env) n a = None)" for n
    by (simp add: objc_env.parse_None_iff [OF assms])
  have uniform: "\<exists>n. \<forall>a \<in> set as. super_chain env (e_stream env) n a = None"
    if "\<forall>a \<in> set as. \<exists>n. super_chain env (e_stream env) n a = None" for as
    using that
  proof (induction as)
    case (Cons a as)
    then obtain n m where "super_chain env (e_stream env) n a = None"
      "\<forall>b \<in> set as. super_chain env (e_stream env) m b = None" by auto
    then show ?case by (intro exI [of _ "max n m"]) (auto intro: super_chain_mono)
  qed simp
  show ?thesis
    using iff uniform [of "section_pointers env ''__objc_classlist''"] by blast
qed

theorem parse_returns_iff_witness: "Parser_parse sample_env 1 \<noteq> None"
proof -
  have "super_chain sample_env (e_stream sample_env) 1 0 = None"
    and "section_pointers sample_env ''__objc_classlist'' = [0]" by code_simp+
  then show ?thesis using parse_returns_iff [OF sample_objc_env(1), of 1] by simp
qed

text \<open>
  In particular, an image that lists a class whose super classes come back to it is never parsed: \<open>Class::create\<close>
  tests only whether a class is its own super class.
\<close>

lemma super_chain_add:
  "super_chain env s (m + n) a = Option.bind (super_chain env s m a) (super_chain env s n)"
  by (induction m arbitrary: a) (auto split: bind_splits)

lemma parse_cyclic_diverges:
  assumes "objc_env env" and "a \<in> set (section_pointers env ''__objc_classlist'')"
    and cycle: "super_chain env (e_stream env) n a = Some a" "0 < n"
  shows "Parser_parse env fuel = None"
proof -
  have "super_chain env (e_stream env) (k * n) a = Some a" for k
    by (induction k) (simp_all add: super_chain_add cycle(1))
  then have "super_chain env (e_stream env) fuel a \<noteq> None"
    using super_chain_mono [of env "e_stream env" fuel a "fuel * n"] cycle(2) by fastforce
  then show ?thesis using objc_env.parse_None_iff [OF assms(1)] assms(2) by blast
qed

lemma cyclic_image_diverges: "Parser_parse cyclic_env fuel = None"
proof (rule parse_cyclic_diverges [OF sample_objc_env(2)])
  show "8 \<in> set (section_pointers cyclic_env ''__objc_classlist'')" by (simp add: cyclic_section)
  show "super_chain cyclic_env (e_stream cyclic_env) (Suc 1) 8 = Some 8"
    by (simp add: cyclic_env_def macho_env_def cyclic_links [unfolded cyclic_env_def macho_env_def])
qed simp

text \<open>
  C10. \<open>Parser::get_or_create_protocol\<close>: the stream is where it was, the classes and the table by
  address are untouched, existing protocols keep their place, and the pointer it returns leads to the
  protocol at the address; it is null exactly when there is none that can be read.
\<close>

theorem get_or_create_protocol_spec:
  assumes "objc_env env" "parser_ok env ps" "get_or_create_protocol env a ps = (r, ps')"
  shows "parser_ok env ps' \<and> extends ps ps' \<and> ps_stream ps' = ps_stream ps
    \<and> map_option (nth (md_protocols (ps_metadata ps'))) r = proto_at env (ps_stream ps) a"
  using objc_env.get_or_create_ok [OF assms] by simp

lemma sample_protocol:
  "map_option pr_mangled_name (proto_at sample_env 0 136) = Some ''P''"
  by code_simp

lemma sample_init_ok: "parser_ok sample_env (init_parser sample_env)" "ps_stream (init_parser sample_env) = 0"
  using objc_env.init_ok [OF sample_objc_env(1)]
  by (simp_all add: init_parser_def) (simp add: sample_env_def macho_env_def)

theorem get_or_create_protocol_spec_witness:
  "\<exists>r ps'. get_or_create_protocol sample_env 136 (init_parser sample_env) = (Some r, ps')
     \<and> pr_mangled_name (md_protocols (ps_metadata ps') ! r) = ''P''"
proof -
  obtain r ps' where g: "get_or_create_protocol sample_env 136 (init_parser sample_env) = (r, ps')"
    by fastforce
  show ?thesis
    using get_or_create_protocol_spec [OF sample_objc_env(1) sample_init_ok(1) g] sample_protocol g
    by (cases r) (auto simp: sample_init_ok)
qed

context objc_env
begin

lemma get_or_create_fresh:
  assumes "ps_protocols ps a = None" "proto_at env (ps_stream ps) a = Some p"
  shows "get_or_create_protocol env a ps
    = (Some (length (md_protocols (ps_metadata ps))), ps\<lparr>ps_metadata := add_protocol p (ps_metadata ps)\<rparr>)"
  using assms by (simp add: get_or_create_protocol_def scoped_parser_def create_protocol_run)

end

text \<open>
  C11. What \<open>get_or_create_protocol\<close> creates is not entered into the table by address: asked twice for
  the same protocol it makes two, and the lookup by name follows the second.
\<close>

theorem get_or_create_duplicates:
  assumes "objc_env env" "ps_protocols ps a = None" "proto_at env (ps_stream ps) a = Some p"
  shows "let n = length (md_protocols (ps_metadata ps));
             (r1, ps1) = get_or_create_protocol env a ps;
             (r2, ps2) = get_or_create_protocol env a ps1
         in r1 = Some n \<and> r2 = Some (n + 1)
            \<and> md_protocols (ps_metadata ps2) = md_protocols (ps_metadata ps) @ [p, p]
            \<and> md_protocol_lookup (ps_metadata ps2) (pr_mangled_name p) = Some (n + 1)"
proof -
  let ?ps1 = "ps\<lparr>ps_metadata := add_protocol p (ps_metadata ps)\<rparr>"
  show ?thesis
    using objc_env.get_or_create_fresh [OF assms] objc_env.get_or_create_fresh [OF assms(1), of ?ps1 a p] assms(2,3)
    by (simp add: add_protocol_def)
qed

theorem get_or_create_duplicates_witness:
  "\<exists>p. pr_mangled_name p = ''P'' \<and>
     md_protocols (ps_metadata (snd (get_or_create_protocol sample_env 136
       (snd (get_or_create_protocol sample_env 136 (init_parser sample_env)))))) = [p, p]"
proof -
  obtain p where p: "proto_at sample_env 0 136 = Some p" "pr_mangled_name p = ''P''"
    using sample_protocol by auto
  have "ps_protocols (init_parser sample_env) 136 = None"
    "md_protocols (ps_metadata (init_parser sample_env)) = []"
    by (simp_all add: init_parser_def empty_metadata_def)
  then show ?thesis
    using get_or_create_duplicates [OF sample_objc_env(1), of "init_parser sample_env" 136 p] p
    by (auto simp: Let_def sample_init_ok split: prod.splits)
qed

lemma take_some_set: "x \<in> set (take_some xs) \<Longrightarrow> Some x \<in> set xs"
  by (induction xs) (auto split: option.splits)

lemma create_flagged_flag: "Some m = create_flagged ops ib small inst s \<Longrightarrow> m_is_instance m = inst"
  by (cases "Method_create ops ib small s") (simp_all add: create_flagged_def)

lemma methods_view_flag: "m \<in> set (methods_view env inst ptr s) \<Longrightarrow> m_is_instance m = inst"
  by (auto simp: methods_view_def Let_def entry_at_def
      dest!: take_some_set create_flagged_flag split: if_splits option.splits)

lemma class_view_methods:
  "class_view env f s a = Some v \<Longrightarrow>
    (v = None \<longleftrightarrow> \<not> readable_class env s a) \<and>
    (\<forall>c. v = Some c \<longrightarrow>
      cl_methods c = map as_class_method (concat (map (own_methods env s) (rev (super_classes env s f a))))
        @ own_methods env s a \<and>
      (\<forall>m \<in> set (own_methods env s a). m_is_instance m = (\<not> is_meta (cl_flags c))))"
proof (induction f arbitrary: a v)
  case (Suc f)
  have twice: "as_class_method (as_class_method m) = as_class_method m" for m by (simp add: as_class_method_def)
  show ?case
  proof (cases "Class_head env (s_setpos (e_ops env) a s)")
    case None
    then show ?thesis using Suc.prems by (simp add: readable_class_def)
  next
    case (Some h)
    then obtain obj ro name where h: "Class_head env (s_setpos (e_ops env) a s) = Some (obj, ro, name)" by (cases h) auto
    then have own: "own_methods env s a = methods_view env (\<not> is_meta (ro_flags ro)) (ro_base_method_list ro) s"
      and link: "super_link env s a = super_location env obj a"
      by (simp_all add: own_methods_def super_link_def)
    show ?thesis
    proof (cases "super_location env obj a")
      case None
      then show ?thesis using Suc.prems h
        by (auto simp: own link readable_class_def methods_view_flag)
    next
      case (Some p)
      with Suc.prems h obtain w where w: "class_view env f s p = Some w" by (cases "class_view env f s p") auto
      then show ?thesis using Suc.IH [OF w] Suc.prems h Some
        by (cases w) (auto simp: own link as_class_methods_def twice readable_class_def methods_view_flag)
    qed
  qed
qed simp

lemma those_list_all2: "those (map f xs) = Some vs \<Longrightarrow> list_all2 (\<lambda>x v. f x = Some v) xs vs"
  by (induction xs arbitrary: vs) (auto split: option.splits)

lemma filtered_views:
  assumes "list_all2 (\<lambda>a v. V a = Some v) as vs"
    and "\<And>a v. V a = Some v \<Longrightarrow> (v = None \<longleftrightarrow> \<not> r a) \<and> (\<forall>c. v = Some c \<longrightarrow> P a c)"
  shows "list_all2 P (filter r as) (List.map_filter (\<lambda>v. v) vs)"
  using assms(1) by (induction rule: list_all2_induct) (use assms(2) in \<open>auto split: option.split\<close>)

text \<open>
  C12. The methods of the parsed classes, in the order of \<open>__objc_classlist\<close>: a class has the methods of all its
  super classes that can be read, those of the outermost first and all of them as class methods, and then the
  entries of its own list, which are instance methods unless the class is a metaclass.
\<close>

theorem parse_methods:
  assumes "objc_env env" "Parser_parse env fuel = Some md"
  shows "list_all2
    (\<lambda>a c. cl_methods c =
         map as_class_method (concat (map (own_methods env (e_stream env)) (rev (super_classes env (e_stream env) fuel a))))
         @ own_methods env (e_stream env) a
       \<and> (\<forall>m \<in> set (own_methods env (e_stream env) a). m_is_instance m = (\<not> is_meta (cl_flags c))))
    (filter (readable_class env (e_stream env)) (section_pointers env ''__objc_classlist''))
    (md_classes md)"
proof -
  obtain vs where vs: "those (map (class_view env fuel (e_stream env))
        (section_pointers env ''__objc_classlist'')) = Some vs"
    and md: "map (resolve (md_protocols md)) (md_classes md) = List.map_filter (\<lambda>v. v) vs"
    using objc_env.parse_ok [OF assms(1), of fuel] assms(2) by (auto split: option.splits)
  from filtered_views [OF those_list_all2 [OF vs] class_view_methods, folded md]
  show ?thesis by (simp add: list_all2_map2 resolve_def)
qed

text \<open>A class with a super class; both have a method.\<close>

definition raw_method_list :: "nat \<Rightarrow> nat \<Rightarrow> u8 list" where
  "raw_method_list name imp =
     le_bytes 4 24 @ le_bytes 4 1 @ le_bytes 8 name @ le_bytes 8 (name + 1) @ le_bytes 8 imp"

definition inheriting_content :: "u8 list" where
  "inheriting_content =
     raw_class 40 80 @ raw_class 0 152
     @ le_bytes 4 0 @ replicate 20 0 @ le_bytes 8 224 @ le_bytes 8 228 @ replicate 32 0
     @ le_bytes 4 0 @ replicate 20 0 @ le_bytes 8 226 @ le_bytes 8 260 @ replicate 32 0
     @ [65, 0, 66, 0] @ raw_method_list 224 7 @ raw_method_list 226 9"

definition inheriting_env :: "(u64, u64) parser_env" where
  "inheriting_env = macho_env (image_binary inheriting_content [0]) (\<lambda>_. 0)"

theorem parse_methods_witness:
  "map_option (\<lambda>md. map cl_methods (md_classes md)) (Parser_parse inheriting_env 2) =
     Some [[\<lparr>m_name = ''B'', m_mangled_type = [], m_addr = 9, m_is_instance = False\<rparr>,
            \<lparr>m_name = ''A'', m_mangled_type = [], m_addr = 7, m_is_instance = True\<rparr>]]"
proof -
  have env: "objc_env inheriting_env" unfolding inheriting_env_def by (rule macho_parser.objc_env_axioms)
  have start: "e_stream inheriting_env = 0" by (simp add: inheriting_env_def macho_env_def)
  have own: "own_methods inheriting_env 0 0 = [\<lparr>m_name = ''A'', m_mangled_type = [], m_addr = 7, m_is_instance = True\<rparr>]"
    "own_methods inheriting_env 0 40 = [\<lparr>m_name = ''B'', m_mangled_type = [], m_addr = 9, m_is_instance = True\<rparr>]"
    by code_simp+
  have listed: "section_pointers inheriting_env ''__objc_classlist'' = [0]" by code_simp
  have "super_classes inheriting_env 0 2 0 = [40]" "readable_class inheriting_env 0 0" by code_simp+
  moreover have "super_chain inheriting_env 0 2 0 = None" by code_simp
  then have "Parser_parse inheriting_env 2 \<noteq> None"
    using objc_env.parse_None_iff [OF env, of 2] by (simp add: listed start)
  then obtain md where "Parser_parse inheriting_env 2 = Some md" by blast
  ultimately show ?thesis
    using parse_methods [OF env, of 2 md] own by (auto simp: listed start as_class_method_def list_all2_Cons1)
qed

end
