(* ===== verification/Mangling_Chars.thy ===== *)
theory Mangling_Chars
  imports Prelude
begin

text \<open>
  The character classes and tables of the Swift mangling: the inline functions at the head of
  \<open>include/swift/Demangling/ManglingUtils.h\<close>, the functions of
  \<open>lib/Demangling/ManglingUtils.cpp\<close> on operators and standard types, and the table
  \<open>StandardTypesMangling.def\<close> they expand.
\<close>

section \<open>Character classes\<close>

definition isLowerLetter :: "char \<Rightarrow> bool" where
  "isLowerLetter ch \<longleftrightarrow> ord (CHR ''a'') \<le> ord ch \<and> ord ch \<le> ord (CHR ''z'')"

definition isUpperLetter :: "char \<Rightarrow> bool" where
  "isUpperLetter ch \<longleftrightarrow> ord (CHR ''A'') \<le> ord ch \<and> ord ch \<le> ord (CHR ''Z'')"

definition isDigit :: "char \<Rightarrow> bool" where
  "isDigit ch \<longleftrightarrow> ord (CHR ''0'') \<le> ord ch \<and> ord ch \<le> ord (CHR ''9'')"

definition isLetter :: "char \<Rightarrow> bool" where
  "isLetter ch \<longleftrightarrow> isLowerLetter ch \<or> isUpperLetter ch"

definition isWordStart :: "char \<Rightarrow> bool" where
  "isWordStart ch \<longleftrightarrow> \<not> isDigit ch \<and> ch \<noteq> CHR ''_'' \<and> ch \<noteq> CHR 0x00"

definition isWordEnd :: "char \<Rightarrow> char \<Rightarrow> bool" where
  "isWordEnd ch prevCh \<longleftrightarrow>
     ch = CHR ''_'' \<or> ch = CHR 0x00 \<or> \<not> isUpperLetter prevCh \<and> isUpperLetter ch"

definition isValidSymbolChar :: "char \<Rightarrow> bool" where
  "isValidSymbolChar ch \<longleftrightarrow> isLetter ch \<or> isDigit ch \<or> ch = CHR ''_'' \<or> ch = CHR ''$''"

declare isLowerLetter_def [char_class] isUpperLetter_def [char_class] isDigit_def [char_class]
  isLetter_def [char_class] isWordStart_def [char_class] isWordEnd_def [char_class]
  isValidSymbolChar_def [char_class]

definition isNonAscii :: "string \<Rightarrow> bool" where
  "isNonAscii str \<longleftrightarrow> list_ex (\<lambda>c. ord c \<ge> 128) str"

definition needsPunycodeEncoding :: "string \<Rightarrow> bool" where
  "needsPunycodeEncoding str \<longleftrightarrow> list_ex (\<lambda>c. \<not> isValidSymbolChar c) str"

section \<open>Operators\<close>

definition operator_chars :: "(char \<times> char) list" where
  "operator_chars =
     [(CHR ''&'', CHR ''a''),
      (CHR ''@'', CHR ''c''),
      (CHR ''/'', CHR ''d''),
      (CHR ''='', CHR ''e''),
      (CHR ''>'', CHR ''g''),
      (CHR ''<'', CHR ''l''),
      (CHR ''*'', CHR ''m''),
      (CHR ''!'', CHR ''n''),
      (CHR ''|'', CHR ''o''),
      (CHR ''+'', CHR ''p''),
      (CHR ''?'', CHR ''q''),
      (CHR ''%'', CHR ''r''),
      (CHR ''-'', CHR ''s''),
      (CHR ''~'', CHR ''t''),
      (CHR ''^'', CHR ''x''),
      (CHR ''.'', CHR ''z'')]"

definition translateOperatorChar :: "char \<Rightarrow> char" where
  "translateOperatorChar op = (case map_of operator_chars op of Some c \<Rightarrow> c | None \<Rightarrow> op)"

definition translateOperator :: "string \<Rightarrow> string" where
  "translateOperator Op = map translateOperatorChar Op"

section \<open>Standard types\<close>

text \<open>\<open>StandardTypesMangling.def\<close>, in its order: the kind, the mangling and the name of each type.\<close>

datatype type_kind_t = TK_Structure | TK_Enum | TK_Protocol | TK_Class

definition standard_types :: "(type_kind_t \<times> char \<times> string) list" where
  "standard_types =
    [(TK_Structure, CHR ''A'', ''AutoreleasingUnsafeMutablePointer''),
     (TK_Structure, CHR ''a'', ''Array''),
     (TK_Structure, CHR ''b'', ''Bool''),
     (TK_Structure, CHR ''D'', ''Dictionary''),
     (TK_Structure, CHR ''d'', ''Double''),
     (TK_Structure, CHR ''f'', ''Float''),
     (TK_Structure, CHR ''h'', ''Set''),
     (TK_Structure, CHR ''I'', ''DefaultIndices''),
     (TK_Structure, CHR ''i'', ''Int''),
     (TK_Structure, CHR ''J'', ''Character''),
     (TK_Structure, CHR ''N'', ''ClosedRange''),
     (TK_Structure, CHR ''n'', ''Range''),
     (TK_Structure, CHR ''O'', ''ObjectIdentifier''),
     (TK_Structure, CHR ''P'', ''UnsafePointer''),
     (TK_Structure, CHR ''p'', ''UnsafeMutablePointer''),
     (TK_Structure, CHR ''R'', ''UnsafeBufferPointer''),
     (TK_Structure, CHR ''r'', ''UnsafeMutableBufferPointer''),
     (TK_Structure, CHR ''S'', ''String''),
     (TK_Structure, CHR ''s'', ''Substring''),
     (TK_Structure, CHR ''u'', ''UInt''),
     (TK_Structure, CHR ''V'', ''UnsafeRawPointer''),
     (TK_Structure, CHR ''v'', ''UnsafeMutableRawPointer''),
     (TK_Structure, CHR ''W'', ''UnsafeRawBufferPointer''),
     (TK_Structure, CHR ''w'', ''UnsafeMutableRawBufferPointer''),
     (TK_Enum, CHR ''q'', ''Optional''),
     (TK_Protocol, CHR ''B'', ''BinaryFloatingPoint''),
     (TK_Protocol, CHR ''E'', ''Encodable''),
     (TK_Protocol, CHR ''e'', ''Decodable''),
     (TK_Protocol, CHR ''F'', ''FloatingPoint''),
     (TK_Protocol, CHR ''G'', ''RandomNumberGenerator''),
     (TK_Protocol, CHR ''H'', ''Hashable''),
     (TK_Protocol, CHR ''j'', ''Numeric''),
     (TK_Protocol, CHR ''K'', ''BidirectionalCollection''),
     (TK_Protocol, CHR ''k'', ''RandomAccessCollection''),
     (TK_Protocol, CHR ''L'', ''Comparable''),
     (TK_Protocol, CHR ''l'', ''Collection''),
     (TK_Protocol, CHR ''M'', ''MutableCollection''),
     (TK_Protocol, CHR ''m'', ''RangeReplaceableCollection''),
     (TK_Protocol, CHR ''Q'', ''Equatable''),
     (TK_Protocol, CHR ''T'', ''Sequence''),
     (TK_Protocol, CHR ''t'', ''IteratorProtocol''),
     (TK_Protocol, CHR ''U'', ''UnsignedInteger''),
     (TK_Protocol, CHR ''X'', ''RangeExpression''),
     (TK_Protocol, CHR ''x'', ''Strideable''),
     (TK_Protocol, CHR ''Y'', ''RawRepresentable''),
     (TK_Protocol, CHR ''y'', ''StringProtocol''),
     (TK_Protocol, CHR ''Z'', ''SignedInteger''),
     (TK_Protocol, CHR ''z'', ''BinaryInteger'')]"

definition concurrency_types :: "(type_kind_t \<times> char \<times> string) list" where
  "concurrency_types =
    [(TK_Protocol, CHR ''A'', ''Actor''),
     (TK_Structure, CHR ''C'', ''CheckedContinuation''),
     (TK_Structure, CHR ''c'', ''UnsafeContinuation''),
     (TK_Structure, CHR ''E'', ''CancellationError''),
     (TK_Structure, CHR ''e'', ''UnownedSerialExecutor''),
     (TK_Protocol, CHR ''F'', ''Executor''),
     (TK_Protocol, CHR ''f'', ''SerialExecutor''),
     (TK_Structure, CHR ''G'', ''TaskGroup''),
     (TK_Structure, CHR ''g'', ''ThrowingTaskGroup''),
     (TK_Protocol, CHR ''I'', ''AsyncIteratorProtocol''),
     (TK_Protocol, CHR ''i'', ''AsyncSequence''),
     (TK_Structure, CHR ''J'', ''UnownedJob''),
     (TK_Class, CHR ''M'', ''MainActor''),
     (TK_Structure, CHR ''P'', ''TaskPriority''),
     (TK_Structure, CHR ''S'', ''AsyncStream''),
     (TK_Structure, CHR ''s'', ''AsyncThrowingStream''),
     (TK_Structure, CHR ''T'', ''Task''),
     (TK_Structure, CHR ''t'', ''UnsafeCurrentTask'')]"

definition getStandardTypeSubst :: "string \<Rightarrow> bool \<Rightarrow> string option" where
  "getStandardTypeSubst TypeName allowConcurrencyManglings =
     (case List.find (\<lambda>(_, _, t). t = TypeName) standard_types of
        Some (_, c, _) \<Rightarrow> Some [c]
      | None \<Rightarrow>
          if allowConcurrencyManglings
          then (case List.find (\<lambda>(_, _, t). t = TypeName) concurrency_types of
                  Some (_, c, _) \<Rightarrow> Some [CHR ''c'', c]
                | None \<Rightarrow> None)
          else None)"

section \<open>Lemmas\<close>

lemma isDigit_is_digit: "isDigit = is_digit"
  by (simp add: fun_eq_iff isDigit_def is_digit_def)

lemma valid_symbol_ascii: "isValidSymbolChar c \<Longrightarrow> ord c < 128"
  by (auto simp: char_class)

lemma needsPunycodeEncoding_iff: "\<not> needsPunycodeEncoding s \<longleftrightarrow> (\<forall>c \<in> set s. isValidSymbolChar c)"
  by (simp add: needsPunycodeEncoding_def list_ex_iff)

lemma distinct_manglings:
  "distinct (map (\<lambda>(_, c, _). c) standard_types)" "distinct (map (\<lambda>(_, _, t). t) standard_types)"
  "distinct (map (\<lambda>(_, c, _). c) concurrency_types)" "distinct (map (\<lambda>(_, _, t). t) concurrency_types)"
  by (simp_all add: standard_types_def concurrency_types_def)

end
