(* ===== verification/Punycode.thy ===== *)
theory Punycode
  imports Mangling_Chars
begin

text \<open>
  Punycode and the conversions between UTF-8 and code points:
  \<open>lib/Demangling/Punycode.cpp\<close> of the Swift demangler. Code points and the C++ \<open>int\<close> variables are
  natural numbers; every quantity of the code is non-negative, and the limits the code tests are
  written out with \<open>int_max\<close>. \<open>None\<close> is the result \<open>false\<close>.
\<close>

section \<open>Parameters\<close>

abbreviation "int_max \<equiv> (2147483647 :: nat)"

definition base :: nat where "base = 36"
definition tmin :: nat where "tmin = 1"
definition tmax :: nat where "tmax = 26"
definition skew :: nat where "skew = 38"
definition damp :: nat where "damp = 700"
definition initial_bias :: nat where "initial_bias = 72"
definition initial_n :: nat where "initial_n = 128"
definition delimiter :: char where "delimiter = CHR ''_''"

lemmas parameters = base_def tmin_def tmax_def skew_def damp_def initial_bias_def initial_n_def

definition digit_value :: "nat \<Rightarrow> char" where
  "digit_value digit = (if digit < 26 then char_of (97 + digit) else char_of (65 + digit - 26))"

definition digit_index :: "char \<Rightarrow> nat option" where
  "digit_index c =
     (if ord (CHR ''a'') \<le> ord c \<and> ord c \<le> ord (CHR ''z'') then Some (ord c - 97)
      else if ord (CHR ''A'') \<le> ord c \<and> ord c \<le> ord (CHR ''J'') then Some (ord c - 65 + 26)
      else None)"

definition isValidUnicodeScalar :: "nat \<Rightarrow> bool" where
  "isValidUnicodeScalar S \<longleftrightarrow> S < 0xD880 \<or> 0xE000 \<le> S \<and> S \<le> 0x10FFFF"

section \<open>Bias adaptation\<close>

function adapt_loop :: "nat \<Rightarrow> nat \<Rightarrow> nat \<times> nat" where
  "adapt_loop delta k =
     (if delta > ((base - tmin) * tmax) div 2 then adapt_loop (delta div (base - tmin)) (k + base)
      else (delta, k))"
  by pat_completeness auto
termination by (relation "measure fst") (auto simp: parameters)

declare adapt_loop.simps [simp del]

definition adapt :: "nat \<Rightarrow> nat \<Rightarrow> bool \<Rightarrow> nat" where
  "adapt delta numpoints firsttime =
     (let delta = (if firsttime then delta div damp else delta div 2);
          delta = delta + delta div numpoints;
          (delta, k) = adapt_loop delta 0
      in k + ((base - tmin + 1) * delta) div (delta + skew))"

definition threshold :: "nat \<Rightarrow> nat \<Rightarrow> nat" where
  "threshold k bias = (if k \<le> bias then tmin else if k \<ge> bias + tmax then tmax else k - bias)"

section \<open>Decoding\<close>

text \<open>The inner loop of \<open>decodePunycode\<close>: a number of variable length, added to \<open>i\<close>.\<close>

fun decode_digits :: "nat \<Rightarrow> nat \<Rightarrow> nat \<Rightarrow> nat \<Rightarrow> string \<Rightarrow> (nat \<times> string) option" where
  "decode_digits bias i w k [] = None"
| "decode_digits bias i w k (codePoint # InputPunycode) =
     (case digit_index codePoint of
        None \<Rightarrow> None
      | Some digit \<Rightarrow>
          if digit > (int_max - i) div w then None
          else
            let i = i + digit * w;
                t = threshold k bias
            in if digit < t then Some (i, InputPunycode)
               else if w > int_max div (base - t) then None
               else decode_digits bias i (w * (base - t)) (k + base) InputPunycode)"

lemma decode_digits_shorter: "decode_digits bias i w k s = Some (j, r) \<Longrightarrow> length r < length s"
  by (induction bias i w k s rule: decode_digits.induct)
    (auto simp: Let_def intro: less_SucI split: option.splits if_splits)

function decode_loop :: "nat \<Rightarrow> nat \<Rightarrow> nat \<Rightarrow> nat list \<Rightarrow> string \<Rightarrow> nat list option" where
  "decode_loop n i bias out InputPunycode =
     (if InputPunycode = [] then Some out
      else case decode_digits bias i 1 base InputPunycode of
             None \<Rightarrow> None
           | Some (i', rest) \<Rightarrow>
               let bias = adapt (i' - i) (length out + 1) (i = 0)
               in if i' div (length out + 1) > int_max - n then None
                  else
                    let n = n + i' div (length out + 1);
                        i = i' mod (length out + 1)
                    in if n < 0x80 then None
                       else decode_loop n (i + 1) bias (take i out @ n # drop i out) rest)"
  by pat_completeness auto
termination by (relation "measure (\<lambda>(n, i, bias, out, s). length s)") (auto dest: decode_digits_shorter)

declare decode_loop.simps [simp del]

definition after_last :: "char \<Rightarrow> string \<Rightarrow> string" where
  "after_last d s = rev (takeWhile (\<lambda>c. c \<noteq> d) (rev s))"

definition before_last :: "char \<Rightarrow> string \<Rightarrow> string" where
  "before_last d s = take (length s - length (after_last d s) - 1) s"

definition decodePunycode :: "string \<Rightarrow> nat list option" where
  "decodePunycode InputPunycode =
     (if delimiter \<in> set InputPunycode then
        if list_ex (\<lambda>c. ord c > 0x7F) (before_last delimiter InputPunycode) then None
        else decode_loop initial_n 0 initial_bias (map ord (before_last delimiter InputPunycode))
               (after_last delimiter InputPunycode)
      else decode_loop initial_n 0 initial_bias [] InputPunycode)"

section \<open>Encoding\<close>

function encode_digits :: "nat \<Rightarrow> nat \<Rightarrow> nat \<Rightarrow> string" where
  "encode_digits bias k q =
     (let t = threshold k bias
      in if q < t then [digit_value q]
         else digit_value (t + (q - t) mod (base - t)) # encode_digits bias (k + base) ((q - t) div (base - t)))"
  by pat_completeness auto
termination
proof (relation "measure (\<lambda>(bias, k, q). q)")
  fix bias k q t :: nat
  assume t: "t = threshold k bias" "\<not> q < t"
  then have "1 \<le> t" "t \<le> q" by (auto simp: threshold_def parameters split: if_splits)
  then have "(q - t) div (base - t) < q" by (meson diff_less div_le_dividend le_less_trans less_le_trans zero_less_one)
  then show "((bias, k + base, (q - t) div (base - t)), bias, k, q) \<in> measure (\<lambda>(bias, k, q). q)" by simp
qed simp

declare encode_digits.simps [simp del]

definition min_code_point :: "nat \<Rightarrow> nat list \<Rightarrow> nat" where
  "min_code_point n cs =
     foldl (\<lambda>m codePoint. if n \<le> codePoint \<and> codePoint < m then codePoint else m) 0x10FFFF cs"

text \<open>
  The inner loop over the code points: the state is \<open>delta\<close>, \<open>bias\<close>, \<open>h\<close> and the output; \<open>b\<close> is the
  number of basic code points.
\<close>

fun encode_inner :: "nat \<Rightarrow> nat \<Rightarrow> nat list \<Rightarrow> nat \<Rightarrow> nat \<Rightarrow> nat \<Rightarrow> (nat \<times> nat \<times> nat \<times> string) option" where
  "encode_inner b n [] delta bias h = Some (delta, bias, h, [])"
| "encode_inner b n (c # cs) delta bias h =
     (if c < n \<and> delta = int_max then None
      else
        let delta = (if c < n then delta + 1 else delta)
        in if c = n then
             Option.bind (encode_inner b n cs 0 (adapt delta (h + 1) (h = b)) (h + 1))
               (\<lambda>(delta', bias', h', out). Some (delta', bias', h', encode_digits bias base delta @ out))
           else encode_inner b n cs delta bias h)"

text \<open>The outer loop, with a fuel; the outer \<open>None\<close> is a run that has not ended.\<close>

fun encode_outer ::
  "nat \<Rightarrow> nat \<Rightarrow> nat list \<Rightarrow> nat \<Rightarrow> nat \<Rightarrow> nat \<Rightarrow> nat \<Rightarrow> string option option" where
  "encode_outer 0 b cs n delta bias h = (if h < length cs then None else Some (Some []))"
| "encode_outer (Suc fuel) b cs n delta bias h =
     (if \<not> h < length cs then Some (Some [])
      else
        let m = min_code_point n cs
        in if (m - n) > (int_max - delta) div (h + 1) then Some None
           else
             case encode_inner b m cs (delta + (m - n) * (h + 1)) bias h of
               None \<Rightarrow> Some None
             | Some (delta, bias, h, out) \<Rightarrow>
                 map_option (map_option (\<lambda>r. out @ r))
                   (encode_outer fuel b cs (m + 1) (delta + 1) bias h))"

definition basic :: "nat list \<Rightarrow> nat list" where
  "basic cs = filter (\<lambda>c. c < 0x80) cs"

definition encodePunycode :: "nat list \<Rightarrow> string option option" where
  "encodePunycode InputCodePoints =
     (if list_ex (\<lambda>c. \<not> isValidUnicodeScalar c) InputCodePoints then Some None
      else
        let h = length (basic InputCodePoints);
            out = map char_of (basic InputCodePoints) @ (if h > 0 then [delimiter] else [])
        in map_option (map_option (\<lambda>r. out @ r))
             (encode_outer (length InputCodePoints) h InputCodePoints initial_n 0 initial_bias h))"

section \<open>Digits\<close>

lemma digit_index_value [simp]: "d < 36 \<Longrightarrow> digit_index (digit_value d) = Some d"
  by (auto simp: digit_index_def digit_value_def)

lemma digit_value_not_delimiter: "d < 36 \<Longrightarrow> digit_value d \<noteq> delimiter"
  by (simp add: char_eq_ord digit_value_def delimiter_def)

lemma threshold_bounds: "1 \<le> threshold k bias" "threshold k bias \<le> 26"
  by (auto simp: threshold_def parameters)

lemma digit_bound: "threshold k bias + q mod (base - threshold k bias) < 36"
proof -
  have "q mod (36 - threshold k bias) < 36 - threshold k bias"
    using threshold_bounds(2) [of k bias] by (intro mod_less_divisor) simp
  then show ?thesis by (simp add: base_def)
qed

lemma encode_digits_no_delimiter: "delimiter \<notin> set (encode_digits bias k q)"
proof (induction bias k q rule: encode_digits.induct)
  case (1 bias k q)
  let ?t = "threshold k bias"
  show ?case
    using threshold_bounds [of k bias] 1 digit_value_not_delimiter [of q]
      digit_value_not_delimiter [OF digit_bound [of k bias "q - ?t"]]
    by (subst encode_digits.simps) (auto simp: Let_def)
qed

text \<open>
  The weights of the decoder: as long as the threshold has been 1 the weight is a power of 35, and
  after a threshold above 1 all later ones are 26.
\<close>

definition weight_ok :: "nat \<Rightarrow> nat \<Rightarrow> nat \<Rightarrow> bool" where
  "weight_ok bias k w \<longleftrightarrow> w > 0 \<and> ((\<exists>j. w = 35 ^ j) \<or> k \<ge> bias + tmax)"

lemma weight_ok_step:
  assumes "weight_ok bias k w"
  shows "weight_ok bias (k + base) (w * (base - threshold k bias))"
  using assms threshold_bounds(2) [of k bias]
  by (auto simp: weight_ok_def threshold_def parameters intro: exI [of _ "Suc _"])

lemma weight_no_overflow:
  assumes w: "weight_ok bias k w" and "threshold k bias * w \<le> v" "v < 35 ^ 6"
  shows "w * (base - threshold k bias) \<le> int_max"
proof (cases "k \<ge> bias + tmax")
  case True
  then show ?thesis using assms by (simp add: threshold_def parameters split: if_splits)
next
  case False
  then obtain j where j: "w = 35 ^ j" using w by (auto simp: weight_ok_def)
  have "w \<le> threshold k bias * w" using threshold_bounds(1) [of k bias] by simp
  then have "w < 35 ^ 6" using assms(2,3) by (rule le_less_trans [OF le_trans])
  then have "(35::nat) ^ j < 35 ^ 6" by (simp only: j)
  then have "j < 6" by (rule power_less_imp_less_exp [rotated]) simp
  then have "j \<le> 5" by simp
  then have "(35::nat) ^ j \<le> 35 ^ 5" by (rule power_increasing) simp
  then have "w * (base - threshold k bias) \<le> 35 ^ 5 * 35"
    unfolding j using threshold_bounds(1) [of k bias] by (intro mult_le_mono) (simp_all add: base_def)
  then show ?thesis by simp
qed

lemma decode_encode_digits:
  assumes "weight_ok bias k w" "i + q * w < 35 ^ 6"
  shows "decode_digits bias i w k (encode_digits bias k q @ rest) = Some (i + q * w, rest)"
  using assms
proof (induction bias k q arbitrary: i w rule: encode_digits.induct)
  case (1 bias k q)
  let ?t = "threshold k bias"
  have w: "w > 0" using 1 by (simp add: weight_ok_def)
  show ?case
  proof (cases "q < ?t")
    case True
    then have "q < 36" using threshold_bounds(2) [of k bias] by simp
    moreover have "q \<le> (int_max - i) div w" using "1.prems"(2) w
      by (simp add: less_eq_div_iff_mult_less_eq)
    ultimately show ?thesis using True by (subst encode_digits.simps) (simp add: Let_def)
  next
    case False
    define d where "d = ?t + (q - ?t) mod (base - ?t)"
    define q' where "q' = (q - ?t) div (base - ?t)"
    have d36: "d < 36" unfolding d_def by (rule digit_bound)
    have q: "q = d + q' * (base - ?t)"
      using False div_mult_mod_eq [of "q - ?t" "base - ?t"] unfolding d_def q'_def by linarith
    have sum: "i + d * w + q' * (w * (base - ?t)) = i + q * w"
      by (simp add: q algebra_simps)
    then have v: "i + d * w < 35 ^ 6" using "1.prems"(2) by linarith
    have "?t * w \<le> d * w" unfolding d_def by simp
    then have "?t * w \<le> i + d * w" by (rule trans_le_add2)
    then have nw: "w * (base - ?t) \<le> int_max" using "1.prems"(1) v by (intro weight_no_overflow)
    have pos: "base - ?t > 0" using threshold_bounds(2) [of k bias] by (simp add: base_def)
    have "w \<le> int_max div (base - ?t)" using nw pos by (simp add: less_eq_div_iff_mult_less_eq)
    moreover have "d \<le> (int_max - i) div w" using v w by (simp add: less_eq_div_iff_mult_less_eq)
    moreover have "\<not> d < ?t" by (simp add: d_def)
    moreover have "decode_digits bias (i + d * w) (w * (base - ?t)) (k + base)
        (encode_digits bias (k + base) q' @ rest) = Some (i + q * w, rest)"
      using "1.IH" [OF refl False] weight_ok_step [OF "1.prems"(1)] "1.prems"(2) unfolding q'_def [symmetric] sum [symmetric]
      by (metis sum)
    ultimately show ?thesis using False d36
      by (subst encode_digits.simps) (simp add: Let_def d_def [symmetric] q'_def [symmetric])
  qed
qed

section \<open>The smallest code point left\<close>

lemma min_code_point_spec:
  fixes n :: nat
  shows "foldl (\<lambda>m c. if n \<le> c \<and> c < m then c else m) m0 cs = r \<Longrightarrow>
    r \<le> m0 \<and> (r = m0 \<or> r \<in> set cs \<and> n \<le> r) \<and> (\<forall>c \<in> set cs. n \<le> c \<longrightarrow> r \<le> c)"
proof (induction cs arbitrary: m0)
  case (Cons c cs)
  show ?case
    using Cons.IH [of "if n \<le> c \<and> c < m0 then c else m0"] Cons.prems
    by (auto split: if_splits)
qed auto

lemma min_code_point:
  assumes "c \<in> set cs" "n \<le> c" "\<forall>c \<in> set cs. c \<le> 0x10FFFF"
  shows "min_code_point n cs \<in> set cs" "n \<le> min_code_point n cs"
    "\<forall>c \<in> set cs. n \<le> c \<longrightarrow> min_code_point n cs \<le> c"
proof -
  let ?r = "min_code_point n cs"
  have r: "?r \<le> 0x10FFFF \<and> (?r = 0x10FFFF \<or> ?r \<in> set cs \<and> n \<le> ?r) \<and> (\<forall>c \<in> set cs. n \<le> c \<longrightarrow> ?r \<le> c)"
    by (rule min_code_point_spec) (simp add: min_code_point_def)
  then have rc: "?r \<le> c" "c \<le> 0x10FFFF" using assms by auto
  have "?r \<in> set cs \<and> n \<le> ?r"
  proof (cases "?r = 0x10FFFF")
    case True
    with rc have "c = ?r" by simp
    with assms show ?thesis by simp
  qed (use r in simp)
  then show "?r \<in> set cs" "n \<le> ?r" "\<forall>c \<in> set cs. n \<le> c \<longrightarrow> ?r \<le> c"
    using r by auto
qed

lemma filter_less_min:
  fixes n :: nat
  assumes "\<forall>c \<in> set cs. n \<le> c \<longrightarrow> m \<le> c" "n \<le> m"
  shows "filter (\<lambda>c. c < n) cs = filter (\<lambda>c. c < m) cs"
  using assms by (intro filter_cong) auto

section \<open>The encoder and the decoder in step\<close>

text \<open>
  When the encoder has gone through the code points \<open>ys\<close> at the value \<open>n\<close> with \<open>zs\<close> to come, the
  decoder has built \<open>half n ys zs\<close>; the encoder's \<open>delta\<close> is the distance from the decoder's state
  \<open>(nd, i)\<close> to the value \<open>n\<close> at the current position.
\<close>

definition half :: "nat \<Rightarrow> nat list \<Rightarrow> nat list \<Rightarrow> nat list" where
  "half n ys zs = filter (\<lambda>c. c \<le> n) ys @ filter (\<lambda>c. c < n) zs"

definition in_step :: "nat \<Rightarrow> nat \<Rightarrow> nat list \<Rightarrow> nat list \<Rightarrow> nat \<Rightarrow> nat \<Rightarrow> nat \<Rightarrow> bool" where
  "in_step b n ys zs nd i delta \<longleftrightarrow>
     initial_n \<le> nd \<and> nd \<le> n \<and> b \<le> length (half n ys zs) \<and> (i = 0 \<longleftrightarrow> length (half n ys zs) = b)
     \<and> delta + i = (n - nd) * (length (half n ys zs) + 1) + length (filter (\<lambda>c. c \<le> n) ys)"

abbreviation "max_points \<equiv> (1649 :: nat)"

lemma distance_bound:
  assumes "n \<le> 0x10FFFF" "initial_n \<le> nd" "h \<le> max_points" "p \<le> h"
  shows "(n - nd) * h + p < 35 ^ 6" "(n - nd) * (h + 1) + p < int_max"
proof -
  have nd: "n - nd \<le> 0x10FFFF - 128" using assms by (simp add: initial_n_def)
  have "(n - nd) * h \<le> (0x10FFFF - 128) * max_points" using nd assms by (intro mult_le_mono)
  then show "(n - nd) * h + p < 35 ^ 6" using assms by simp
  have "(n - nd) * (h + 1) \<le> (0x10FFFF - 128) * (max_points + 1)" using nd assms by (intro mult_le_mono) simp_all
  then show "(n - nd) * (h + 1) + p < int_max" using assms by simp
qed

text \<open>One code point is written by the encoder and inserted by the decoder.\<close>

lemma decode_insert:
  assumes "in_step b n ys (n # zs) nd i delta" "n \<le> 0x10FFFF" "length (ys @ n # zs) \<le> max_points"
  defines "out \<equiv> half n ys (n # zs)"
  shows "decode_loop nd i bias out (encode_digits bias base delta @ rest)
      = decode_loop n (Suc (length (filter (\<lambda>c. c \<le> n) ys))) (adapt delta (length out + 1) (length out = b))
          (half n (ys @ [n]) zs) rest"
proof -
  let ?p = "length (filter (\<lambda>c. c \<le> n) ys)"
  have st: "initial_n \<le> nd" "nd \<le> n" "(i = 0) = (length out = b)" "delta + i = (n - nd) * (length out + 1) + ?p"
    using assms(1) by (simp_all add: in_step_def out_def)
  have p: "?p \<le> length out" by (simp add: out_def half_def)
  have len: "length out + 1 \<le> max_points"
    using assms(3) add_mono [OF length_filter_le [of "\<lambda>c. c \<le> n" ys] length_filter_le [of "\<lambda>c. c < n" zs]]
    by (simp add: out_def half_def)
  have v: "i + delta * 1 < 35 ^ 6"
    using distance_bound(1) [OF assms(2) st(1) len, of ?p] p st(4) by (simp add: add.commute)
  have dd: "decode_digits bias i 1 base (encode_digits bias base delta @ rest) = Some (i + delta, rest)"
    using decode_encode_digits [OF _ v, of bias base rest] by (simp add: weight_ok_def exI [of _ 0])
  have q: "(i + delta) div (length out + 1) = n - nd" "(i + delta) mod (length out + 1) = ?p"
  proof -
    have e: "i + delta = (n - nd) * (length out + 1) + ?p" using st(4) by simp
    show "(i + delta) div (length out + 1) = n - nd" unfolding e using p by (subst div_mult_self3) simp_all
    show "(i + delta) mod (length out + 1) = ?p" unfolding e using p by (subst mod_mult_self3) simp
  qed
  have ne: "encode_digits bias base delta \<noteq> []" by (subst encode_digits.simps) (simp add: Let_def)
  have ins: "take ?p out @ n # drop ?p out = half n (ys @ [n]) zs" by (simp add: out_def half_def)
  have "n - nd \<le> int_max - nd" using assms(2) by simp
  moreover have "\<not> n < 0x80" using st by (simp add: initial_n_def)
  ultimately show ?thesis
    using ne st(2,3) by (subst decode_loop.simps) (simp add: dd [simplified] q [simplified] Let_def ins not_less)
qed

lemma half_snoc:
  "c < n \<Longrightarrow> half n (ys @ [c]) zs = half n ys (c # zs)"
  "c > n \<Longrightarrow> half n (ys @ [c]) zs = half n ys (c # zs)"
  "length (half n (ys @ [n]) zs) = length (half n ys (n # zs)) + 1"
  by (simp_all add: half_def)

lemma half_length: "length (half n ys zs) \<le> length (ys @ zs)"
  unfolding half_def by (simp add: add_mono)

text \<open>The inner loop of the encoder: it succeeds, and the decoder keeps in step with its output.\<close>

lemma encode_inner_in_step:
  assumes "in_step b n ys zs nd i delta" "n \<le> 0x10FFFF" "length (ys @ zs) \<le> max_points"
  shows "\<exists>delta' bias' out nd' i'.
      encode_inner b n zs delta bias (length (half n ys zs))
        = Some (delta', bias', length (half n (ys @ zs) []), out)
      \<and> in_step b n (ys @ zs) [] nd' i' delta' \<and> delimiter \<notin> set out
      \<and> (\<forall>rest. decode_loop nd i bias (half n ys zs) (out @ rest)
            = decode_loop nd' i' bias' (half n (ys @ zs) []) rest)"
  using assms
proof (induction zs arbitrary: ys nd i delta bias)
  case Nil
  then show ?case by (intro exI [of _ delta] exI [of _ bias] exI [of _ "[]"] exI [of _ nd] exI [of _ i]) simp
next
  case (Cons c zs)
  have len: "length ((ys @ [c]) @ zs) \<le> max_points" using Cons.prems(3) by simp
  have st: "initial_n \<le> nd" "nd \<le> n" "b \<le> length (half n ys (c # zs))" "(i = 0) = (length (half n ys (c # zs)) = b)"
    "delta + i = (n - nd) * (length (half n ys (c # zs)) + 1) + length (filter (\<lambda>c. c \<le> n) ys)"
    using Cons.prems(1) by (simp_all add: in_step_def)
  consider "c < n" | "c = n" | "c > n" by linarith
  then show ?case
  proof cases
    case 1
    have "length (half n ys (c # zs)) \<le> max_points" using half_length [of n ys "c # zs"] len by simp
    moreover have "length (filter (\<lambda>c. c \<le> n) ys) \<le> length (half n ys (c # zs))" by (simp add: half_def)
    ultimately have "delta + i < int_max"
      using distance_bound(2) [OF Cons.prems(2) st(1)] st(5) by simp
    moreover have "in_step b n (ys @ [c]) zs nd i (delta + 1)"
      using st 1 by (simp add: in_step_def half_snoc)
    ultimately show ?thesis
      using Cons.IH [of "ys @ [c]" nd i "delta + 1" bias] Cons.prems(2) len 1 by (simp add: half_snoc)
  next
    case 2
    let ?i = "Suc (length (filter (\<lambda>c. c \<le> n) ys))"
    let ?bias = "adapt delta (length (half n ys (n # zs)) + 1) (length (half n ys (n # zs)) = b)"
    have "in_step b n (ys @ [c]) zs n ?i 0"
      using st 2 by (simp add: in_step_def half_snoc(3))
    then obtain delta' bias' out nd' i' where ih:
      "encode_inner b n zs 0 ?bias (length (half n ys (n # zs)) + 1)
        = Some (delta', bias', length (half n (ys @ n # zs) []), out)"
      "in_step b n (ys @ n # zs) [] nd' i' delta'" "delimiter \<notin> set out"
      "\<forall>rest. decode_loop n ?i ?bias (half n (ys @ [n]) zs) (out @ rest)
            = decode_loop nd' i' bias' (half n (ys @ n # zs) []) rest"
      using Cons.IH [of "ys @ [c]" n ?i 0 ?bias] Cons.prems(2) len 2 by (auto simp: half_snoc(3))
    have "decode_loop nd i bias (half n ys (n # zs)) (encode_digits bias base delta @ out @ rest)
        = decode_loop nd' i' bias' (half n (ys @ n # zs) []) rest" for rest
      using decode_insert [of b n ys zs nd i delta bias "out @ rest"] Cons.prems 2 ih(4) by simp
    then show ?thesis using ih(1-3) 2 encode_digits_no_delimiter [of bias base delta]
      by (intro exI [of _ delta'] exI [of _ bias'] exI [of _ "encode_digits bias base delta @ out"]
          exI [of _ nd'] exI [of _ i']) simp
  next
    case 3
    have "in_step b n (ys @ [c]) zs nd i delta"
      using st 3 by (simp add: in_step_def half_snoc)
    then show ?thesis
      using Cons.IH [of "ys @ [c]" nd i delta bias] Cons.prems(2) len 3 by (simp add: half_snoc)
  qed
qed

text \<open>The outer loop: it returns within its fuel, and what it writes decodes to the rest.\<close>

lemma half_all: "half n cs [] = filter (\<lambda>c. c < n + 1) cs"
  by (auto simp: half_def intro: filter_cong)

lemma half_none: "half n [] cs = filter (\<lambda>c. c < n) cs"
  by (simp add: half_def)

definition between :: "nat \<Rightarrow> nat list \<Rightarrow> nat \<Rightarrow> nat \<Rightarrow> nat \<Rightarrow> nat \<Rightarrow> bool" where
  "between b cs n nd i delta \<longleftrightarrow>
     initial_n \<le> nd \<and> nd \<le> n \<and> b \<le> length (filter (\<lambda>c. c < n) cs)
     \<and> (i = 0 \<longleftrightarrow> length (filter (\<lambda>c. c < n) cs) = b)
     \<and> delta + i = (n - nd) * (length (filter (\<lambda>c. c < n) cs) + 1)"

lemma between_in_step:
  assumes "between b cs n nd i delta" "n \<le> m" "filter (\<lambda>c. c < n) cs = filter (\<lambda>c. c < m) cs"
  shows "in_step b m [] cs nd i (delta + (m - n) * (length (filter (\<lambda>c. c < n) cs) + 1))"
proof -
  obtain x y where "n = nd + x" "m = n + y"
    using assms(1,2) by (auto simp: between_def dest!: le_Suc_ex)
  then show ?thesis
    using assms(1) unfolding in_step_def between_def half_none assms(3) by (auto simp: algebra_simps)
qed

lemma in_step_between:
  assumes "in_step b m cs [] nd i delta"
  shows "between b cs (m + 1) nd i (delta + 1)"
proof -
  have "length (filter (\<lambda>c. c \<le> m) cs) = length (filter (\<lambda>c. c < m + 1) cs)"
    by (simp add: less_Suc_eq_le)
  moreover obtain x where "m = nd + x" using assms by (auto simp: in_step_def dest!: le_Suc_ex)
  ultimately show ?thesis
    using assms unfolding in_step_def between_def half_all by (auto simp: algebra_simps)
qed

text \<open>Every round of the outer loop writes the code points equal to the smallest one left.\<close>

lemma filter_less_all:
  fixes n :: nat
  shows "\<not> length (filter (\<lambda>c. c < n) cs) < length cs \<longleftrightarrow> (\<forall>c \<in> set cs. c < n)"
  using length_filter_le [of "\<lambda>c. c < n" cs]
  by (metis filter_id_conv length_filter_less linorder_not_less le_neq_implies_less)

lemma filter_less_grows:
  fixes m :: nat
  assumes "m \<in> set cs"
  shows "length (filter (\<lambda>c. c < m) cs) < length (filter (\<lambda>c. c < m + 1) cs)"
proof -
  have "filter (\<lambda>c. c < m) cs = filter (\<lambda>c. c < m) (filter (\<lambda>c. c < m + 1) cs)"
    by (auto intro: filter_cong)
  moreover have "m \<in> set (filter (\<lambda>c. c < m + 1) cs)" using assms by simp
  ultimately show ?thesis by (metis length_filter_less less_irrefl)
qed

lemma encode_outer_in_step:
  assumes "between b cs n nd i delta" "\<forall>c \<in> set cs. c \<le> 0x10FFFF" "length cs \<le> max_points"
    and "length cs \<le> fuel + length (filter (\<lambda>c. c < n) cs)"
  shows "\<exists>out. encode_outer fuel b cs n delta bias (length (filter (\<lambda>c. c < n) cs)) = Some (Some out)
    \<and> delimiter \<notin> set out \<and> decode_loop nd i bias (filter (\<lambda>c. c < n) cs) out = Some cs"
  using assms
proof (induction fuel arbitrary: n nd i delta bias)
  case 0
  then have "filter (\<lambda>c. c < n) cs = cs" by (simp add: filter_id_conv filter_less_all [symmetric])
  then show ?case by (simp add: decode_loop.simps)
next
  case (Suc fuel)
  let ?h = "length (filter (\<lambda>c. c < n) cs)"
  show ?case
  proof (cases "?h < length cs")
    case False
    then have "filter (\<lambda>c. c < n) cs = cs" by (simp add: filter_id_conv filter_less_all [symmetric])
    then show ?thesis by (simp add: decode_loop.simps)
  next
    case True
    then obtain c where c: "c \<in> set cs" "n \<le> c" using filter_less_all [of n cs] by auto
    define m where "m = min_code_point n cs"
    note m = min_code_point [OF c Suc.prems(2), folded m_def]
    have f: "filter (\<lambda>c. c < n) cs = filter (\<lambda>c. c < m) cs" by (rule filter_less_min [OF m(3,2)])
    note st = between_in_step [OF Suc.prems(1) m(2) f]
    have m10: "m \<le> 0x10FFFF" using m(1) Suc.prems(2) by blast
    have nd: "initial_n \<le> nd" using Suc.prems(1) by (simp add: between_def)
    have "delta + (m - n) * (?h + 1) + i = (m - nd) * (?h + 1)"
      using st by (simp only: in_step_def half_none f) simp
    moreover have "(m - nd) * (?h + 1) + 0 < int_max"
      using Suc.prems(3) True by (intro distance_bound(2) [OF m10 nd]) simp_all
    ultimately have "delta + (m - n) * (?h + 1) < int_max" by linarith
    then have "(m - n) * (?h + 1) \<le> int_max - delta" by linarith
    then have ok: "m - n \<le> (int_max - delta) div (?h + 1)"
      by (simp only: less_eq_div_iff_mult_less_eq zero_less_Suc Suc_eq_plus1 [symmetric])
    obtain delta' bias' out nd' i' where inner:
      "encode_inner b m cs (delta + (m - n) * (?h + 1)) bias ?h
        = Some (delta', bias', length (filter (\<lambda>c. c < m + 1) cs), out)"
      "in_step b m cs [] nd' i' delta'" "delimiter \<notin> set out"
      "\<And>rest. decode_loop nd i bias (filter (\<lambda>c. c < n) cs) (out @ rest)
            = decode_loop nd' i' bias' (filter (\<lambda>c. c < m + 1) cs) rest"
      using encode_inner_in_step [OF st m10, of bias] Suc.prems(3)
      by (simp only: append_Nil half_all half_none f [symmetric]) blast
    have fuel: "length cs \<le> fuel + length (filter (\<lambda>c. c < m + 1) cs)"
      using Suc.prems(4) filter_less_grows [OF m(1)] f by simp
    from Suc.IH [OF in_step_between [OF inner(2)] Suc.prems(2,3) fuel, of bias'] obtain out' where
      "encode_outer fuel b cs (m + 1) (delta' + 1) bias' (length (filter (\<lambda>c. c < m + 1) cs)) = Some (Some out')"
      "delimiter \<notin> set out'" "decode_loop nd' i' bias' (filter (\<lambda>c. c < m + 1) cs) out' = Some cs" by blast
    with inner True ok show ?thesis
      by (intro exI [of _ "out @ out'"]) (simp add: m_def [symmetric] Let_def)
  qed
qed

section \<open>Round trip of code points\<close>

lemma after_last_append:
  "d \<notin> set t \<Longrightarrow> after_last d (s @ d # t) = t" "d \<notin> set t \<Longrightarrow> before_last d (s @ d # t) = s"
proof -
  assume "d \<notin> set t"
  then have "takeWhile (\<lambda>c. c \<noteq> d) (rev t @ d # rev s) = rev t"
    by (subst takeWhile_append2) auto
  then show "after_last d (s @ d # t) = t" by (simp add: after_last_def)
  then show "before_last d (s @ d # t) = s" by (simp add: before_last_def)
qed

lemma encodePunycode_decodes:
  assumes "\<forall>c \<in> set cs. isValidUnicodeScalar c" "length cs \<le> max_points"
  shows "\<exists>s. encodePunycode cs = Some (Some s) \<and> decodePunycode s = Some cs"
proof -
  let ?b = "length (basic cs)"
  have basic: "filter (\<lambda>c. c < initial_n) cs = basic cs" by (simp add: basic_def initial_n_def)
  have "between ?b cs initial_n initial_n 0 0" by (simp add: between_def basic)
  moreover have "\<forall>c \<in> set cs. c \<le> 0x10FFFF" using assms(1) by (auto simp: isValidUnicodeScalar_def)
  ultimately obtain out where out: "encode_outer (length cs) ?b cs initial_n 0 initial_bias ?b = Some (Some out)"
    "delimiter \<notin> set out" "decode_loop initial_n 0 initial_bias (basic cs) out = Some cs"
    using encode_outer_in_step [of ?b cs initial_n initial_n 0 0 "length cs" initial_bias] assms(2)
    by (auto simp: basic)
  let ?s = "map char_of (basic cs) @ (if ?b > 0 then [delimiter] else []) @ out"
  have enc: "encodePunycode cs = Some (Some ?s)"
    using assms(1) out(1) by (simp add: encodePunycode_def Let_def list_ex_iff)
  have ascii: "map ord (map char_of (basic cs) :: string) = basic cs"
    by (rule map_idI [THEN trans [OF map_map]]) (simp add: basic_def)
  have "decodePunycode ?s = Some cs"
  proof (cases "basic cs = []")
    case True
    then show ?thesis using out by (simp add: decodePunycode_def)
  next
    case False
    then have s: "?s = map char_of (basic cs) @ delimiter # out" by simp
    have "\<not> list_ex (\<lambda>c. ord c > 0x7F) (map char_of (basic cs))"
      by (auto simp: list_ex_iff basic_def)
    then show ?thesis
      unfolding s decodePunycode_def after_last_append [OF out(2)] ascii using out(3) by simp
  qed
  with enc show ?thesis by blast
qed

section \<open>UTF-8\<close>

text \<open>The bytes of a code point, as \<open>encodeToUTF8\<close> computes them: the last byte first.\<close>

definition low_byte :: "nat \<Rightarrow> nat" where
  "low_byte S = (S OR 0x80) AND 0xBF"

definition utf8_bytes :: "nat \<Rightarrow> nat list" where
  "utf8_bytes S =
     (if S < 0x80 then [S]
      else if S < 0x800 then [drop_bit 6 S OR 0xC0, low_byte S]
      else if S < 0x10000 then
        [drop_bit 6 (drop_bit 6 S) OR 0xE0, low_byte (drop_bit 6 S), low_byte S]
      else
        [drop_bit 6 (drop_bit 6 (drop_bit 6 S)) OR 0xF0, low_byte (drop_bit 6 (drop_bit 6 S)),
         low_byte (drop_bit 6 S), low_byte S])"

definition unmapped :: "nat \<Rightarrow> nat" where
  "unmapped S = (if S \<ge> 0xD800 \<and> S < 0xD880 then S - 0xD800 else S)"

fun encodeToUTF8 :: "nat list \<Rightarrow> string option" where
  "encodeToUTF8 [] = Some []"
| "encodeToUTF8 (S # Scalars) =
     (if \<not> isValidUnicodeScalar S then None
      else map_option (\<lambda>rest. map char_of (utf8_bytes (unmapped S)) @ rest) (encodeToUTF8 Scalars))"

definition decodePunycodeUTF8 :: "string \<Rightarrow> string option" where
  "decodePunycodeUTF8 InputPunycode = Option.bind (decodePunycode InputPunycode) encodeToUTF8"

definition isContinuationByte :: "nat \<Rightarrow> bool" where
  "isContinuationByte unit \<longleftrightarrow> unit AND 0xC0 = 0x80"

definition low_bits :: "nat \<Rightarrow> nat" where
  "low_bits b = b AND 0x3F"

text \<open>One code point is read off the front: its value and the rest.\<close>

definition convert_step :: "bool \<Rightarrow> char \<Rightarrow> string \<Rightarrow> (nat \<times> string) option" where
  "convert_step mapNonSymbolChars c ptr =
     (let first = ord c
      in if first < 0x80 then
           Some (if isValidSymbolChar c \<or> \<not> mapNonSymbolChars then first else first + 0xD800, ptr)
         else if first < 0xC0 then None
         else if first < 0xE0 then
           (case ptr of
              second # rest \<Rightarrow>
                if \<not> isContinuationByte (ord second) then None
                else Some (push_bit 6 (first AND 0x1F) OR low_bits (ord second), rest)
            | _ \<Rightarrow> None)
         else if first < 0xF0 then
           (case ptr of
              second # third # rest \<Rightarrow>
                if \<not> isContinuationByte (ord second) \<or> \<not> isContinuationByte (ord third) then None
                else Some (push_bit 12 (first AND 0xF) OR push_bit 6 (low_bits (ord second))
                           OR low_bits (ord third), rest)
            | _ \<Rightarrow> None)
         else if first < 0xF8 then
           (case ptr of
              second # third # fourth # rest \<Rightarrow>
                if \<not> isContinuationByte (ord second) \<or> \<not> isContinuationByte (ord third)
                   \<or> \<not> isContinuationByte (ord fourth) then None
                else Some (push_bit 18 (first AND 0x7) OR push_bit 12 (low_bits (ord second))
                           OR push_bit 6 (low_bits (ord third)) OR low_bits (ord fourth), rest)
            | _ \<Rightarrow> None)
         else None)"

lemma convert_step_shorter: "convert_step m c s = Some (cp, r) \<Longrightarrow> length r \<le> length s"
  by (auto simp: convert_step_def Let_def split: if_splits list.splits)

function convertUTF8toUTF32 :: "bool \<Rightarrow> string \<Rightarrow> nat list option" where
  "convertUTF8toUTF32 mapNonSymbolChars [] = Some []"
| "convertUTF8toUTF32 mapNonSymbolChars (c # ptr) =
     (case convert_step mapNonSymbolChars c ptr of
        None \<Rightarrow> None
      | Some (code_point, rest) \<Rightarrow>
          if \<not> isValidUnicodeScalar code_point then None
          else map_option (\<lambda>cs. code_point # cs) (convertUTF8toUTF32 mapNonSymbolChars rest))"
  by pat_completeness auto
termination by (relation "measure (\<lambda>(m, s). length s)") (auto dest: convert_step_shorter)

definition encodePunycodeUTF8 :: "string \<Rightarrow> bool \<Rightarrow> string option option" where
  "encodePunycodeUTF8 InputUTF8 mapNonSymbolChars =
     (case convertUTF8toUTF32 mapNonSymbolChars InputUTF8 of
        None \<Rightarrow> Some None
      | Some InputCodePoints \<Rightarrow> encodePunycode InputCodePoints)"

section \<open>Round trip of UTF-8\<close>

lemma bit_bytes:
  "bit (0x80 :: nat) n \<longleftrightarrow> n = 7"
  "bit (0xBF :: nat) n \<longleftrightarrow> n < 6 \<or> n = 7"
  "bit (0xC0 :: nat) n \<longleftrightarrow> n = 6 \<or> n = 7"
proof -
  have e: "(0x80 :: nat) = push_bit 7 1" "(0xBF :: nat) = mask 6 OR push_bit 7 1"
    "(0xC0 :: nat) = push_bit 6 1 OR push_bit 7 1"
    by (simp_all add: mask_eq_exp_minus_1)
  show "bit (0x80 :: nat) n \<longleftrightarrow> n = 7" "bit (0xBF :: nat) n \<longleftrightarrow> n < 6 \<or> n = 7"
    "bit (0xC0 :: nat) n \<longleftrightarrow> n = 6 \<or> n = 7"
    unfolding e bit_or_iff bit_push_bit_iff bit_mask_iff bit_1_iff by auto
qed

lemma low_byte_eq: "low_byte S = take_bit 6 S + 0x80"
proof -
  have "low_byte S = take_bit 6 S OR 0x80"
    by (rule bit_eqI) (auto simp: low_byte_def bit_or_iff bit_and_iff bit_take_bit_iff bit_bytes)
  also have "\<dots> = take_bit 6 S + 0x80"
    by (rule disjunctive_add [symmetric]) (auto simp: bit_take_bit_iff bit_bytes)
  finally show ?thesis .
qed

lemma and_masks:
  "b AND 0x3F = b mod (64 :: nat)" "b AND 0x1F = b mod (32 :: nat)"
  "b AND 0xF = b mod (16 :: nat)" "b AND 0x7 = b mod (8 :: nat)"
  using take_bit_eq_mask [of 6 b] take_bit_eq_mask [of 5 b] take_bit_eq_mask [of 4 b]
    take_bit_eq_mask [of 3 b]
  by (simp_all add: mask_eq_exp_minus_1 take_bit_eq_mod)

lemma low_bits_eq: "low_bits b = b mod 64"
  by (simp add: low_bits_def and_masks)

lemma low_byte_less: "low_byte S < 256" "0x80 \<le> low_byte S"
  using take_bit_nat_less_exp [of 6 S] by (simp_all add: low_byte_eq)

lemma low_byte_continuation: "isContinuationByte (low_byte S)"
proof -
  have "low_byte S AND 0xC0 = 0x80"
    by (rule bit_eqI) (auto simp: low_byte_def bit_or_iff bit_and_iff bit_bytes)
  then show ?thesis by (simp add: isContinuationByte_def)
qed

lemma low_bits_low_byte: "low_bits (low_byte S) = S mod 64"
  using mod_mult_self2 [of "S mod 64" 64 2] by (simp add: low_bits_eq low_byte_eq take_bit_eq_mod)

lemma push_or: "y < 2 ^ n \<Longrightarrow> push_bit n x OR y = x * 2 ^ n + (y :: nat)"
proof -
  assume "y < 2 ^ n"
  then have "take_bit n y = y" by (simp add: take_bit_nat_eq_self)
  then have "bit y m \<Longrightarrow> m < n" for m by (metis bit_take_bit_iff)
  then have "push_bit n x OR y = push_bit n x + y"
    by (intro disjunctive_add [symmetric]) (auto simp: bit_push_bit_iff not_less [symmetric])
  then show ?thesis by (simp add: push_bit_eq_mult)
qed

text \<open>The first bytes: the length marks and the remaining bits do not meet.\<close>

lemma first_bytes:
  "x < 32 \<Longrightarrow> x OR 0xC0 = x + (0xC0 :: nat)" "x < 16 \<Longrightarrow> x OR 0xE0 = x + (0xE0 :: nat)"
  "x < 8 \<Longrightarrow> x OR 0xF0 = x + (0xF0 :: nat)"
  using push_or [of x 5 6] push_or [of x 4 14] push_or [of x 3 30] by (simp_all add: or.commute)

lemma first_low:
  "x < 32 \<Longrightarrow> (x + 0xC0) AND 0x1F = (x :: nat)" "x < 16 \<Longrightarrow> (x + 0xE0) AND 0xF = (x :: nat)"
  "x < 8 \<Longrightarrow> (x + 0xF0) AND 0x7 = (x :: nat)"
  using mod_mult_self2 [of x 32 6] mod_mult_self2 [of x 16 14] mod_mult_self2 [of x 8 30]
  by (simp_all add: and_masks)

lemma sextets:
  "push_bit 6 (S div 64) OR S mod 64 = (S :: nat)"
  "push_bit 12 (S div 4096) OR push_bit 6 (S div 64 mod 64) OR S mod 64 = S"
  "push_bit 18 (S div 262144) OR push_bit 12 (S div 4096 mod 64) OR push_bit 6 (S div 64 mod 64) OR S mod 64 = S"
proof -
  have d: "S div 4096 = S div 64 div 64" "S div 262144 = S div 64 div 64 div 64"
    by (simp_all add: div_mult2_eq [symmetric])
  have one: "push_bit 6 (x div 64) OR x mod 64 = x" for x :: nat
    by (subst push_or) (simp_all)
  have two: "push_bit 6 (push_bit n (x div 64) OR push_bit k (y mod 64)) = push_bit (n + 6) (x div 64) OR push_bit (k + 6) (y mod 64)"
    for x y n k :: nat by (simp add: push_bit_or add.commute)
  show "push_bit 6 (S div 64) OR S mod 64 = S" by (rule one)
  then show s2: "push_bit 12 (S div 4096) OR push_bit 6 (S div 64 mod 64) OR S mod 64 = S"
    using one [of "S div 64"] one [of S] two [of 6 "S div 64" 0 "S div 64"] by (simp add: d or.assoc)
  have "push_bit 12 (S div 64 div 4096) OR push_bit 6 (S div 64 div 64 mod 64) OR S div 64 mod 64 = S div 64"
    using one [of "S div 64 div 64"] one [of "S div 64"] two [of 6 "S div 64 div 64" 0 "S div 64 div 64"]
    by (simp add: div_mult2_eq [symmetric] or.assoc)
  then have "push_bit 6 (push_bit 12 (S div 262144) OR push_bit 6 (S div 4096 mod 64) OR S div 64 mod 64) = push_bit 6 (S div 64)"
    by (simp add: div_mult2_eq [symmetric])
  then have e: "push_bit 6 (S div 64)
      = push_bit 18 (S div 262144) OR push_bit 12 (S div 4096 mod 64) OR push_bit 6 (S div 64 mod 64)"
    by (simp add: push_bit_or)
  show "push_bit 18 (S div 262144) OR push_bit 12 (S div 4096 mod 64) OR push_bit 6 (S div 64 mod 64) OR S mod 64 = S"
    using one [of S] unfolding e by (simp only: or.assoc)
qed

lemma utf8_step:
  assumes "S \<le> 0x10FFFF"
  shows "\<exists>c cs. map char_of (utf8_bytes S) = c # cs \<and>
    convert_step m c (cs @ rest) = Some (if S < 0x80 \<and> m \<and> \<not> isValidSymbolChar (char_of S) then S + 0xD800 else S, rest)"
proof -
  have d: "S div 64 div 64 = S div 4096" "S div 4096 div 64 = S div 262144"
    by (simp_all add: div_mult2_eq [symmetric])
  note steps = utf8_bytes_def convert_step_def Let_def low_byte_continuation low_byte_less
    low_bits_low_byte drop_bit_eq_div d first_low sextets
  consider "S < 0x80" | "0x80 \<le> S" "S < 0x800" | "0x800 \<le> S" "S < 0x10000" | "0x10000 \<le> S" by linarith
  then show ?thesis
  proof cases
    case 1
    then show ?thesis by (simp add: utf8_bytes_def convert_step_def)
  next
    case 2
    then have x: "S div 64 < 32" by simp
    show ?thesis using 2 x by (simp add: steps first_bytes(1) [OF x])
  next
    case 3
    then have x: "S div 4096 < 16" by simp
    show ?thesis using 3 x by (simp add: steps first_bytes(2) [OF x])
  next
    case 4
    then have x: "S div 262144 < 8" using assms by simp
    show ?thesis using 4 x by (simp add: steps first_bytes(3) [OF x])
  qed
qed

text \<open>
  Code points that a string of characters stands for: valid ones, without the surrogates that the
  encoder uses for ASCII characters that are no symbol characters.
\<close>

definition plain_scalar :: "nat \<Rightarrow> bool" where
  "plain_scalar S \<longleftrightarrow> isValidUnicodeScalar S \<and> (S < 0xD800 \<or> 0xD880 \<le> S)"

definition mapped :: "bool \<Rightarrow> nat \<Rightarrow> nat" where
  "mapped m S = (if S < 0x80 \<and> m \<and> \<not> isValidSymbolChar (char_of S) then S + 0xD800 else S)"

definition utf8 :: "nat list \<Rightarrow> string" where
  "utf8 cs = concat (map (\<lambda>S. map char_of (utf8_bytes S)) cs)"

lemma mapped_valid: "plain_scalar S \<Longrightarrow> isValidUnicodeScalar (mapped m S)"
  by (auto simp: plain_scalar_def mapped_def isValidUnicodeScalar_def)

lemma unmapped_mapped: "plain_scalar S \<Longrightarrow> unmapped (mapped m S) = S"
  by (auto simp: plain_scalar_def mapped_def unmapped_def)

lemma convert_utf8:
  "list_all plain_scalar cs \<Longrightarrow> convertUTF8toUTF32 m (utf8 cs) = Some (map (mapped m) cs)"
proof (induction cs)
  case (Cons S cs)
  then have "S \<le> 0x10FFFF" by (auto simp: plain_scalar_def isValidUnicodeScalar_def)
  then obtain c bs where "map char_of (utf8_bytes S) = c # bs"
    "convert_step m c (bs @ utf8 cs) = Some (mapped m S, utf8 cs)"
    using utf8_step [of S m "utf8 cs"] by (auto simp: mapped_def)
  with Cons show ?case by (simp add: utf8_def mapped_valid)
qed (simp add: utf8_def)

lemma encode_utf8:
  "list_all plain_scalar cs \<Longrightarrow> encodeToUTF8 (map (mapped m) cs) = Some (utf8 cs)"
  by (induction cs) (simp_all add: utf8_def mapped_valid unmapped_mapped)

section \<open>Properties\<close>

text \<open>
  C16. Punycode round trip: encoding up to 1649 valid code points always returns and succeeds, and
  decoding the result gives the code points back. (The bound keeps the weights of the decoder
  within an \<open>int\<close>: 0x10FFFF * 1649 is below 35 to the sixth.)
\<close>

theorem punycode_roundtrip:
  assumes "\<forall>c \<in> set cs. isValidUnicodeScalar c" "length cs \<le> max_points"
  shows "\<exists>s. encodePunycode cs = Some (Some s) \<and> decodePunycode s = Some cs"
  using assms by (rule encodePunycode_decodes)

theorem punycode_roundtrip_witness:
  "\<exists>s. encodePunycode [0x66, 0xFC, 0x10FFFF, 0x5F, 0xE9] = Some (Some s)
     \<and> decodePunycode s = Some [0x66, 0xFC, 0x10FFFF, 0x5F, 0xE9]"
  using punycode_roundtrip [of "[0x66, 0xFC, 0x10FFFF, 0x5F, 0xE9]"]
  by (simp add: isValidUnicodeScalar_def)

section \<open>The length of the output\<close>

lemma encode_digits_length: "q < 10 ^ n \<Longrightarrow> length (encode_digits bias k q) \<le> Suc n"
proof (induction n arbitrary: k q)
  case 0
  then show ?case using threshold_bounds(1) [of k bias] by (simp add: encode_digits.simps [of bias k 0] Let_def)
next
  case (Suc n)
  let ?t = "threshold k bias"
  have "q - ?t < 10 ^ n * 10" using Suc.prems by simp
  also have "\<dots> \<le> 10 ^ n * (base - ?t)"
    using threshold_bounds(2) [of k bias] by (intro mult_le_mono) (simp_all add: base_def)
  finally have "q - ?t < 10 ^ n * (base - ?t)" .
  then have "(q - ?t) div (base - ?t) < 10 ^ n" by (rule less_mult_imp_div_less)
  from Suc.IH [OF this] show ?case by (simp add: encode_digits.simps [of bias k q] Let_def)
qed

lemma encode_inner_length:
  assumes "encode_inner b n cs delta bias h = Some (delta', bias', h', out)" "delta \<le> D" "D + length cs < 10 ^ 10"
  shows "delta' \<le> D + length cs \<and> length out \<le> 11 * length cs"
  using assms
proof (induction b n cs delta bias h arbitrary: delta' bias' h' out D rule: encode_inner.induct)
  case (2 b n c cs delta bias h)
  let ?delta = "if c < n then delta + 1 else delta"
  have D: "?delta \<le> D + 1" "0 \<le> D + 1" "D + 1 + length cs < 10 ^ 10" using "2.prems"(2,3) by simp_all
  show ?case
  proof (cases "c = n")
    case True
    then obtain r where r: "encode_inner b n cs 0 (adapt delta (h + 1) (h = b)) (h + 1) = Some (delta', bias', h', r)"
      "out = encode_digits bias base delta @ r"
      using "2.prems"(1) by (auto simp: Let_def bind_eq_Some_conv)
    have "length (encode_digits bias base delta) \<le> Suc 10"
      by (rule encode_digits_length) (use "2.prems"(2,3) in simp)
    then show ?thesis using "2.IH"(1) [of ?delta delta' bias' h' r "D + 1"] D r True by auto
  next
    case False
    then show ?thesis
      using "2.IH"(2) [of ?delta delta' bias' h' out "D + 1"] "2.prems"(1) D by (auto simp: Let_def split: if_splits)
  qed
qed simp

lemma encode_outer_length:
  assumes "encode_outer fuel b cs n delta bias h = Some (Some out)" "delta \<le> D" "int_max \<le> D"
    and "D + fuel * (length cs + 1) < 10 ^ 10"
  shows "length out \<le> fuel * (11 * length cs)"
  using assms
proof (induction fuel b cs n delta bias h arbitrary: out D rule: encode_outer.induct)
  case (2 fuel b cs n delta bias h)
  show ?case
  proof (cases "h < length cs")
    case True
    define m where "m = min_code_point n cs"
    have m: "\<not> (m - n) > (int_max - delta) div (h + 1)"
      using "2.prems"(1) True by (auto simp: m_def Let_def split: if_splits)
    then obtain delta' bias' h' o1 where inner:
      "encode_inner b m cs (delta + (m - n) * (h + 1)) bias h = Some (delta', bias', h', o1)"
      using "2.prems"(1) True by (fastforce simp: m_def Let_def split: option.splits prod.splits)
    then obtain o2 where o2: "encode_outer fuel b cs (m + 1) (delta' + 1) bias' h' = Some (Some o2)" "out = o1 @ o2"
      using "2.prems"(1) True m by (auto simp: m_def Let_def)
    have "(m - n) * (h + 1) \<le> int_max - delta"
      using m by (simp add: not_less less_eq_div_iff_mult_less_eq del: mult_Suc_right)
    then have "delta + (m - n) * (h + 1) \<le> D" using "2.prems"(2,3) by linarith
    then have "delta' \<le> D + length cs" "length o1 \<le> 11 * length cs"
      using encode_inner_length [OF inner, of D] "2.prems"(4) by simp_all
    moreover from this have "length o2 \<le> fuel * (11 * length cs)"
      using "2.IH" [OF _ m_def m inner refl refl refl, of o2 "D + length cs + 1"] True o2(1) "2.prems"(3,4) by simp
    ultimately show ?thesis by (simp add: o2(2))
  qed (use 2 in simp)
qed (simp split: if_splits)

lemma encodePunycode_length:
  assumes "encodePunycode cs = Some (Some s)" "length cs \<le> max_points"
  shows "length s \<le> int_max"
proof -
  let ?h = "length (basic cs)"
  obtain out where out: "encode_outer (length cs) ?h cs initial_n 0 initial_bias ?h = Some (Some out)"
    "length s \<le> ?h + 1 + length out"
    using assms(1) by (auto simp: encodePunycode_def Let_def split: if_splits)
  have "length cs * (length cs + 1) \<le> max_points * (max_points + 1)" using assms(2) by (intro mult_le_mono) simp_all
  then have "length out \<le> length cs * (11 * length cs)"
    using encode_outer_length [OF out(1), of int_max] by (simp add: parameters)
  also have "\<dots> \<le> max_points * (11 * max_points)" using assms(2) by (intro mult_le_mono) simp_all
  finally have "length out \<le> 1649 * (11 * 1649)" .
  moreover have "?h \<le> 1649" using length_filter_le [of _ cs] assms(2) unfolding basic_def by (rule order_trans)
  ultimately show ?thesis using out(2) by linarith
qed

section \<open>Round trip of strings\<close>

lemma encodePunycodeUTF8_decodes:
  assumes "list_all plain_scalar cs" "length cs \<le> max_points"
  shows "\<exists>s. encodePunycodeUTF8 (utf8 cs) m = Some (Some s) \<and> decodePunycodeUTF8 s = Some (utf8 cs)
    \<and> length s \<le> int_max"
proof -
  have "\<forall>c \<in> set (map (mapped m) cs). isValidUnicodeScalar c"
    using assms(1) mapped_valid by (auto simp: list_all_iff)
  then obtain s where "encodePunycode (map (mapped m) cs) = Some (Some s)"
    "decodePunycode s = Some (map (mapped m) cs)"
    using encodePunycode_decodes [of "map (mapped m) cs"] assms(2) by auto
  then show ?thesis
    using assms encodePunycode_length [of "map (mapped m) cs" s]
    by (simp add: encodePunycodeUTF8_def decodePunycodeUTF8_def convert_utf8 encode_utf8)
qed

text \<open>
  C17. The same for strings: an identifier in UTF-8, punycoded with its non-symbol characters mapped,
  decodes to itself.
\<close>

theorem punycode_utf8_roundtrip:
  assumes "list_all plain_scalar cs" "length cs \<le> max_points"
  shows "\<exists>s. encodePunycodeUTF8 (utf8 cs) m = Some (Some s) \<and> decodePunycodeUTF8 s = Some (utf8 cs)"
  using encodePunycodeUTF8_decodes [OF assms] by blast

theorem punycode_utf8_roundtrip_witness:
  "utf8 [0x61, 0x2D, 0x3B1] = [CHR ''a'', CHR ''-'', char_of (0xCE :: nat), char_of (0xB1 :: nat)] \<and>
   (\<exists>s. encodePunycodeUTF8 (utf8 [0x61, 0x2D, 0x3B1]) True = Some (Some s)
     \<and> decodePunycodeUTF8 s = Some (utf8 [0x61, 0x2D, 0x3B1]))"
proof
  show "utf8 [0x61, 0x2D, 0x3B1] = [CHR ''a'', CHR ''-'', char_of (0xCE :: nat), char_of (0xB1 :: nat)]"
    by code_simp
  show "\<exists>s. encodePunycodeUTF8 (utf8 [0x61, 0x2D, 0x3B1]) True = Some (Some s)
     \<and> decodePunycodeUTF8 s = Some (utf8 [0x61, 0x2D, 0x3B1])"
    by (rule punycode_utf8_roundtrip) (simp_all add: plain_scalar_def isValidUnicodeScalar_def)
qed

end
