(* ===== verification/Demangle_Nodes.thy ===== *)
theory Demangle_Nodes
  imports Mangling_Chars
begin

text \<open>
  The nodes of the demangling tree: the node kinds of
  \<open>include/swift/Demangling/DemangleNodes.def\<close>, the class \<open>Node\<close> of \<open>Demangle.h\<close> with its member
  functions from \<open>lib/Demangling/Demangler.cpp\<close>, and the predicates on kinds.

  \<open>Node::Kind\<close> is an enumeration of 16 bits, numbered in the order of the \<open>.def\<close> file; the model
  keeps the number and names it (\<open>K_Type\<close> for \<open>Node::Kind::Type\<close>), and \<open>node_kinds\<close> is the file
  itself: the name of every kind and whether it is a context, with the three kinds of reference
  storage that it takes from \<open>swift/AST/ReferenceStorage.def\<close> in their place.
\<close>

section \<open>Kinds\<close>

datatype Kind = Kind (kind_number: nat)

definition node_kinds_1 :: "(string \<times> bool) list" where
  "node_kinds_1 =
     [(''Allocator'', True), (''AnonymousContext'', True), (''AnyProtocolConformanceList'', False),
     (''ArgumentTuple'', False), (''AssociatedType'', False), (''AssociatedTypeRef'', False),
     (''AssociatedTypeMetadataAccessor'', False), (''DefaultAssociatedTypeMetadataAccessor'', False),
     (''AssociatedTypeWitnessTableAccessor'', False), (''BaseWitnessTableAccessor'', False),
     (''AutoClosureType'', False), (''BoundGenericClass'', False), (''BoundGenericEnum'', False),
     (''BoundGenericStructure'', False), (''BoundGenericProtocol'', False),
     (''BoundGenericOtherNominalType'', False), (''BoundGenericTypeAlias'', False),
     (''BoundGenericFunction'', False), (''BuiltinTypeName'', False), (''CFunctionPointer'', False),
     (''ClangType'', False), (''Class'', True), (''ClassMetadataBaseOffset'', False),
     (''ConcreteProtocolConformance'', False), (''Constructor'', True),
     (''CoroutineContinuationPrototype'', False), (''Deallocator'', True), (''DeclContext'', False),
     (''DefaultArgumentInitializer'', True), (''DependentAssociatedConformance'', False),
     (''DependentAssociatedTypeRef'', False), (''DependentGenericConformanceRequirement'', False),
     (''DependentGenericParamCount'', False), (''DependentGenericParamType'', False),
     (''DependentGenericSameTypeRequirement'', False),
     (''DependentGenericLayoutRequirement'', False), (''DependentGenericSignature'', False),
     (''DependentGenericType'', False), (''DependentMemberType'', False),
     (''DependentPseudogenericSignature'', False), (''DependentProtocolConformanceRoot'', False),
     (''DependentProtocolConformanceInherited'', False),
     (''DependentProtocolConformanceAssociated'', False), (''Destructor'', True), (''DidSet'', True),
     (''Directness'', False), (''DistributedThunk'', False), (''DistributedMethodAccessor'', False),
     (''DynamicAttribute'', False), (''DirectMethodReferenceAttribute'', False),
     (''DynamicSelf'', False), (''DynamicallyReplaceableFunctionImpl'', False),
     (''DynamicallyReplaceableFunctionKey'', False), (''DynamicallyReplaceableFunctionVar'', False),
     (''Enum'', True), (''EnumCase'', False), (''ErrorType'', False),
     (''EscapingAutoClosureType'', False), (''NoEscapeFunctionType'', False),
     (''ConcurrentFunctionType'', False), (''GlobalActorFunctionType'', False),
     (''DifferentiableFunctionType'', False), (''ExistentialMetatype'', False),
     (''ExplicitClosure'', True), (''Extension'', True), (''FieldOffset'', False),
     (''FullTypeMetadata'', False), (''Function'', True),
     (''FunctionSignatureSpecialization'', False), (''FunctionSignatureSpecializationParam'', False),
     (''FunctionSignatureSpecializationReturn'', False),
     (''FunctionSignatureSpecializationParamKind'', False),
     (''FunctionSignatureSpecializationParamPayload'', False), (''FunctionType'', False),
     (''GenericPartialSpecialization'', False),
     (''GenericPartialSpecializationNotReAbstracted'', False),
     (''GenericProtocolWitnessTable'', False),
     (''GenericProtocolWitnessTableInstantiationFunction'', False),
     (''ResilientProtocolWitnessTable'', False), (''GenericSpecialization'', False),
     (''GenericSpecializationNotReAbstracted'', False),
     (''GenericSpecializationInResilienceDomain'', False), (''GenericSpecializationParam'', False),
     (''GenericSpecializationPrespecialized'', False), (''InlinedGenericFunction'', False),
     (''GenericTypeMetadataPattern'', False), (''Getter'', True), (''Global'', False),
     (''GlobalGetter'', True), (''Identifier'', False), (''Index'', False),
     (''IVarInitializer'', True), (''IVarDestroyer'', True), (''ImplEscaping'', False),
     (''ImplConvention'', False), (''ImplDifferentiabilityKind'', False),
     (''ImplParameterResultDifferentiability'', False), (''ImplFunctionAttribute'', False)]"

definition node_kinds_2 :: "(string \<times> bool) list" where
  "node_kinds_2 =
     [(''ImplFunctionConvention'', False), (''ImplFunctionConventionName'', False),
     (''ImplFunctionType'', False), (''ImplInvocationSubstitutions'', False),
     (''ImplicitClosure'', True), (''ImplParameter'', False), (''ImplPatternSubstitutions'', False),
     (''ImplResult'', False), (''ImplYield'', False), (''ImplErrorResult'', False),
     (''InOut'', False), (''InfixOperator'', False), (''Initializer'', True), (''Isolated'', False),
     (''KeyPathGetterThunkHelper'', False), (''KeyPathSetterThunkHelper'', False),
     (''KeyPathEqualsThunkHelper'', False), (''KeyPathHashThunkHelper'', False),
     (''LazyProtocolWitnessTableAccessor'', False),
     (''LazyProtocolWitnessTableCacheVariable'', False), (''LocalDeclName'', False),
     (''MaterializeForSet'', True), (''MergedFunction'', False), (''Metatype'', False),
     (''MetatypeRepresentation'', False), (''Metaclass'', False), (''MethodLookupFunction'', False),
     (''ObjCMetadataUpdateFunction'', False), (''ObjCResilientClassStub'', False),
     (''FullObjCResilientClassStub'', False), (''ModifyAccessor'', True), (''Module'', True),
     (''NativeOwningAddressor'', True), (''NativeOwningMutableAddressor'', True),
     (''NativePinningAddressor'', True), (''NativePinningMutableAddressor'', True),
     (''NominalTypeDescriptor'', False), (''NominalTypeDescriptorRecord'', False),
     (''NonObjCAttribute'', False), (''Number'', False), (''ObjCAsyncCompletionHandlerImpl'', False),
     (''PredefinedObjCAsyncCompletionHandlerImpl'', False), (''ObjCAttribute'', False),
     (''ObjCBlock'', False), (''EscapingObjCBlock'', False), (''OtherNominalType'', True),
     (''OwningAddressor'', True), (''OwningMutableAddressor'', True),
     (''PartialApplyForwarder'', False), (''PartialApplyObjCForwarder'', False),
     (''PostfixOperator'', False), (''PrefixOperator'', False), (''PrivateDeclName'', False),
     (''PropertyDescriptor'', False), (''PropertyWrapperBackingInitializer'', True),
     (''PropertyWrapperInitFromProjectedValue'', True), (''Protocol'', True),
     (''ProtocolSymbolicReference'', True), (''ProtocolConformance'', False),
     (''ProtocolConformanceRefInTypeModule'', False),
     (''ProtocolConformanceRefInProtocolModule'', False),
     (''ProtocolConformanceRefInOtherModule'', False), (''ProtocolDescriptor'', False),
     (''ProtocolDescriptorRecord'', False), (''ProtocolConformanceDescriptor'', False),
     (''ProtocolConformanceDescriptorRecord'', False), (''ProtocolList'', False),
     (''ProtocolListWithClass'', False), (''ProtocolListWithAnyObject'', False),
     (''ProtocolSelfConformanceDescriptor'', False), (''ProtocolSelfConformanceWitness'', False),
     (''ProtocolSelfConformanceWitnessTable'', False), (''ProtocolWitness'', False),
     (''ProtocolWitnessTable'', False), (''ProtocolWitnessTableAccessor'', False),
     (''ProtocolWitnessTablePattern'', False), (''ReabstractionThunk'', False),
     (''ReabstractionThunkHelper'', False), (''ReabstractionThunkHelperWithSelf'', False),
     (''ReabstractionThunkHelperWithGlobalActor'', False), (''ReadAccessor'', True),
     (''RelatedEntityDeclName'', False), (''RetroactiveConformance'', False),
     (''ReturnType'', False), (''Shared'', False), (''Owned'', False), (''SILBoxType'', False),
     (''SILBoxTypeWithLayout'', False), (''SILBoxLayout'', False), (''SILBoxMutableField'', False),
     (''SILBoxImmutableField'', False), (''Setter'', True), (''SpecializationPassID'', False),
     (''IsSerialized'', False), (''Static'', True), (''Structure'', True), (''Subscript'', True),
     (''Suffix'', False)]"

definition node_kinds_3 :: "(string \<times> bool) list" where
  "node_kinds_3 =
     [(''ThinFunctionType'', False), (''Tuple'', False), (''TupleElement'', False),
     (''TupleElementName'', False), (''Type'', False), (''TypeSymbolicReference'', True),
     (''TypeAlias'', True), (''TypeList'', False), (''TypeMangling'', False),
     (''TypeMetadata'', False), (''TypeMetadataAccessFunction'', False),
     (''TypeMetadataCompletionFunction'', False), (''TypeMetadataInstantiationCache'', False),
     (''TypeMetadataInstantiationFunction'', False),
     (''TypeMetadataSingletonInitializationCache'', False), (''TypeMetadataDemanglingCache'', False),
     (''TypeMetadataLazyCache'', False), (''UncurriedFunctionType'', False),
     (''UnknownIndex'', False),
     (''Weak'', False), (''Unowned'', False), (''Unmanaged'', False), (''UnsafeAddressor'', True), (''UnsafeMutableAddressor'', True),
     (''ValueWitness'', False), (''ValueWitnessTable'', False), (''Variable'', True),
     (''VTableThunk'', False), (''VTableAttribute'', False), (''WillSet'', True),
     (''ReflectionMetadataBuiltinDescriptor'', False),
     (''ReflectionMetadataFieldDescriptor'', False),
     (''ReflectionMetadataAssocTypeDescriptor'', False),
     (''ReflectionMetadataSuperclassDescriptor'', False), (''GenericTypeParamDecl'', False),
     (''CurryThunk'', False), (''DispatchThunk'', False), (''MethodDescriptor'', False),
     (''ProtocolRequirementsBaseDescriptor'', False), (''AssociatedConformanceDescriptor'', False),
     (''DefaultAssociatedConformanceAccessor'', False), (''BaseConformanceDescriptor'', False),
     (''AssociatedTypeDescriptor'', False), (''AsyncAnnotation'', False),
     (''ThrowsAnnotation'', False), (''EmptyList'', False), (''FirstElementMarker'', False),
     (''VariadicMarker'', False), (''OutlinedBridgedMethod'', False), (''OutlinedCopy'', False),
     (''OutlinedConsume'', False), (''OutlinedRetain'', False), (''OutlinedRelease'', False),
     (''OutlinedInitializeWithTake'', False), (''OutlinedInitializeWithCopy'', False),
     (''OutlinedAssignWithTake'', False), (''OutlinedAssignWithCopy'', False),
     (''OutlinedDestroy'', False), (''OutlinedVariable'', False), (''AssocTypePath'', False),
     (''LabelList'', False), (''ModuleDescriptor'', False), (''ExtensionDescriptor'', False),
     (''AnonymousDescriptor'', False), (''AssociatedTypeGenericParamRef'', False),
     (''SugaredOptional'', False), (''SugaredArray'', False), (''SugaredDictionary'', False),
     (''SugaredParen'', False), (''AccessorFunctionReference'', False), (''OpaqueType'', False),
     (''OpaqueTypeDescriptorSymbolicReference'', False), (''OpaqueTypeDescriptor'', False),
     (''OpaqueTypeDescriptorRecord'', False), (''OpaqueTypeDescriptorAccessor'', False),
     (''OpaqueTypeDescriptorAccessorImpl'', False), (''OpaqueTypeDescriptorAccessorKey'', False),
     (''OpaqueTypeDescriptorAccessorVar'', False), (''OpaqueReturnType'', False),
     (''OpaqueReturnTypeOf'', True), (''CanonicalSpecializedGenericMetaclass'', False),
     (''CanonicalSpecializedGenericTypeMetadataAccessFunction'', False),
     (''MetadataInstantiationCache'', False),
     (''NoncanonicalSpecializedGenericTypeMetadata'', False),
     (''NoncanonicalSpecializedGenericTypeMetadataCache'', False),
     (''GlobalVariableOnceFunction'', False), (''GlobalVariableOnceToken'', False),
     (''GlobalVariableOnceDeclList'', False),
     (''CanonicalPrespecializedGenericTypeCachingOnceToken'', False),
     (''AsyncFunctionPointer'', False), (''AutoDiffFunction'', True),
     (''AutoDiffFunctionKind'', False), (''AutoDiffSelfReorderingReabstractionThunk'', False),
     (''AutoDiffSubsetParametersThunk'', False), (''AutoDiffDerivativeVTableThunk'', False),
     (''DifferentiabilityWitness'', False), (''NoDerivative'', False), (''IndexSubset'', False),
     (''AsyncAwaitResumePartialFunction'', False), (''AsyncSuspendResumePartialFunction'', False),
     (''AccessibleFunctionRecord'', False)]"

definition node_kinds :: "(string \<times> bool) list" where
  "node_kinds = node_kinds_1 @ node_kinds_2 @ node_kinds_3"

abbreviation "K_Allocator \<equiv> Kind 0"
abbreviation "K_AnonymousContext \<equiv> Kind 1"
abbreviation "K_AnyProtocolConformanceList \<equiv> Kind 2"
abbreviation "K_ArgumentTuple \<equiv> Kind 3"
abbreviation "K_AssociatedType \<equiv> Kind 4"
abbreviation "K_AssociatedTypeRef \<equiv> Kind 5"
abbreviation "K_AssociatedTypeMetadataAccessor \<equiv> Kind 6"
abbreviation "K_DefaultAssociatedTypeMetadataAccessor \<equiv> Kind 7"
abbreviation "K_AssociatedTypeWitnessTableAccessor \<equiv> Kind 8"
abbreviation "K_BaseWitnessTableAccessor \<equiv> Kind 9"
abbreviation "K_AutoClosureType \<equiv> Kind 10"
abbreviation "K_BoundGenericClass \<equiv> Kind 11"
abbreviation "K_BoundGenericEnum \<equiv> Kind 12"
abbreviation "K_BoundGenericStructure \<equiv> Kind 13"
abbreviation "K_BoundGenericProtocol \<equiv> Kind 14"
abbreviation "K_BoundGenericOtherNominalType \<equiv> Kind 15"
abbreviation "K_BoundGenericTypeAlias \<equiv> Kind 16"
abbreviation "K_BoundGenericFunction \<equiv> Kind 17"
abbreviation "K_BuiltinTypeName \<equiv> Kind 18"
abbreviation "K_CFunctionPointer \<equiv> Kind 19"
abbreviation "K_ClangType \<equiv> Kind 20"
abbreviation "K_Class \<equiv> Kind 21"
abbreviation "K_ClassMetadataBaseOffset \<equiv> Kind 22"
abbreviation "K_ConcreteProtocolConformance \<equiv> Kind 23"
abbreviation "K_Constructor \<equiv> Kind 24"
abbreviation "K_CoroutineContinuationPrototype \<equiv> Kind 25"
abbreviation "K_Deallocator \<equiv> Kind 26"
abbreviation "K_DeclContext \<equiv> Kind 27"
abbreviation "K_DefaultArgumentInitializer \<equiv> Kind 28"
abbreviation "K_DependentAssociatedConformance \<equiv> Kind 29"
abbreviation "K_DependentAssociatedTypeRef \<equiv> Kind 30"
abbreviation "K_DependentGenericConformanceRequirement \<equiv> Kind 31"
abbreviation "K_DependentGenericParamCount \<equiv> Kind 32"
abbreviation "K_DependentGenericParamType \<equiv> Kind 33"
abbreviation "K_DependentGenericSameTypeRequirement \<equiv> Kind 34"
abbreviation "K_DependentGenericLayoutRequirement \<equiv> Kind 35"
abbreviation "K_DependentGenericSignature \<equiv> Kind 36"
abbreviation "K_DependentGenericType \<equiv> Kind 37"
abbreviation "K_DependentMemberType \<equiv> Kind 38"
abbreviation "K_DependentPseudogenericSignature \<equiv> Kind 39"
abbreviation "K_DependentProtocolConformanceRoot \<equiv> Kind 40"
abbreviation "K_DependentProtocolConformanceInherited \<equiv> Kind 41"
abbreviation "K_DependentProtocolConformanceAssociated \<equiv> Kind 42"
abbreviation "K_Destructor \<equiv> Kind 43"
abbreviation "K_DidSet \<equiv> Kind 44"
abbreviation "K_Directness \<equiv> Kind 45"
abbreviation "K_DistributedThunk \<equiv> Kind 46"
abbreviation "K_DistributedMethodAccessor \<equiv> Kind 47"
abbreviation "K_DynamicAttribute \<equiv> Kind 48"
abbreviation "K_DirectMethodReferenceAttribute \<equiv> Kind 49"
abbreviation "K_DynamicSelf \<equiv> Kind 50"
abbreviation "K_DynamicallyReplaceableFunctionImpl \<equiv> Kind 51"
abbreviation "K_DynamicallyReplaceableFunctionKey \<equiv> Kind 52"
abbreviation "K_DynamicallyReplaceableFunctionVar \<equiv> Kind 53"
abbreviation "K_Enum \<equiv> Kind 54"
abbreviation "K_EnumCase \<equiv> Kind 55"
abbreviation "K_ErrorType \<equiv> Kind 56"
abbreviation "K_EscapingAutoClosureType \<equiv> Kind 57"
abbreviation "K_NoEscapeFunctionType \<equiv> Kind 58"
abbreviation "K_ConcurrentFunctionType \<equiv> Kind 59"
abbreviation "K_GlobalActorFunctionType \<equiv> Kind 60"
abbreviation "K_DifferentiableFunctionType \<equiv> Kind 61"
abbreviation "K_ExistentialMetatype \<equiv> Kind 62"
abbreviation "K_ExplicitClosure \<equiv> Kind 63"
abbreviation "K_Extension \<equiv> Kind 64"
abbreviation "K_FieldOffset \<equiv> Kind 65"
abbreviation "K_FullTypeMetadata \<equiv> Kind 66"
abbreviation "K_Function \<equiv> Kind 67"
abbreviation "K_FunctionSignatureSpecialization \<equiv> Kind 68"
abbreviation "K_FunctionSignatureSpecializationParam \<equiv> Kind 69"
abbreviation "K_FunctionSignatureSpecializationReturn \<equiv> Kind 70"
abbreviation "K_FunctionSignatureSpecializationParamKind \<equiv> Kind 71"
abbreviation "K_FunctionSignatureSpecializationParamPayload \<equiv> Kind 72"
abbreviation "K_FunctionType \<equiv> Kind 73"
abbreviation "K_GenericPartialSpecialization \<equiv> Kind 74"
abbreviation "K_GenericPartialSpecializationNotReAbstracted \<equiv> Kind 75"
abbreviation "K_GenericProtocolWitnessTable \<equiv> Kind 76"
abbreviation "K_GenericProtocolWitnessTableInstantiationFunction \<equiv> Kind 77"
abbreviation "K_ResilientProtocolWitnessTable \<equiv> Kind 78"
abbreviation "K_GenericSpecialization \<equiv> Kind 79"
abbreviation "K_GenericSpecializationNotReAbstracted \<equiv> Kind 80"
abbreviation "K_GenericSpecializationInResilienceDomain \<equiv> Kind 81"
abbreviation "K_GenericSpecializationParam \<equiv> Kind 82"
abbreviation "K_GenericSpecializationPrespecialized \<equiv> Kind 83"
abbreviation "K_InlinedGenericFunction \<equiv> Kind 84"
abbreviation "K_GenericTypeMetadataPattern \<equiv> Kind 85"
abbreviation "K_Getter \<equiv> Kind 86"
abbreviation "K_Global \<equiv> Kind 87"
abbreviation "K_GlobalGetter \<equiv> Kind 88"
abbreviation "K_Identifier \<equiv> Kind 89"
abbreviation "K_Index \<equiv> Kind 90"
abbreviation "K_IVarInitializer \<equiv> Kind 91"
abbreviation "K_IVarDestroyer \<equiv> Kind 92"
abbreviation "K_ImplEscaping \<equiv> Kind 93"
abbreviation "K_ImplConvention \<equiv> Kind 94"
abbreviation "K_ImplDifferentiabilityKind \<equiv> Kind 95"
abbreviation "K_ImplParameterResultDifferentiability \<equiv> Kind 96"
abbreviation "K_ImplFunctionAttribute \<equiv> Kind 97"
abbreviation "K_ImplFunctionConvention \<equiv> Kind 98"
abbreviation "K_ImplFunctionConventionName \<equiv> Kind 99"
abbreviation "K_ImplFunctionType \<equiv> Kind 100"
abbreviation "K_ImplInvocationSubstitutions \<equiv> Kind 101"
abbreviation "K_ImplicitClosure \<equiv> Kind 102"
abbreviation "K_ImplParameter \<equiv> Kind 103"
abbreviation "K_ImplPatternSubstitutions \<equiv> Kind 104"
abbreviation "K_ImplResult \<equiv> Kind 105"
abbreviation "K_ImplYield \<equiv> Kind 106"
abbreviation "K_ImplErrorResult \<equiv> Kind 107"
abbreviation "K_InOut \<equiv> Kind 108"
abbreviation "K_InfixOperator \<equiv> Kind 109"
abbreviation "K_Initializer \<equiv> Kind 110"
abbreviation "K_Isolated \<equiv> Kind 111"
abbreviation "K_KeyPathGetterThunkHelper \<equiv> Kind 112"
abbreviation "K_KeyPathSetterThunkHelper \<equiv> Kind 113"
abbreviation "K_KeyPathEqualsThunkHelper \<equiv> Kind 114"
abbreviation "K_KeyPathHashThunkHelper \<equiv> Kind 115"
abbreviation "K_LazyProtocolWitnessTableAccessor \<equiv> Kind 116"
abbreviation "K_LazyProtocolWitnessTableCacheVariable \<equiv> Kind 117"
abbreviation "K_LocalDeclName \<equiv> Kind 118"
abbreviation "K_MaterializeForSet \<equiv> Kind 119"
abbreviation "K_MergedFunction \<equiv> Kind 120"
abbreviation "K_Metatype \<equiv> Kind 121"
abbreviation "K_MetatypeRepresentation \<equiv> Kind 122"
abbreviation "K_Metaclass \<equiv> Kind 123"
abbreviation "K_MethodLookupFunction \<equiv> Kind 124"
abbreviation "K_ObjCMetadataUpdateFunction \<equiv> Kind 125"
abbreviation "K_ObjCResilientClassStub \<equiv> Kind 126"
abbreviation "K_FullObjCResilientClassStub \<equiv> Kind 127"
abbreviation "K_ModifyAccessor \<equiv> Kind 128"
abbreviation "K_Module \<equiv> Kind 129"
abbreviation "K_NativeOwningAddressor \<equiv> Kind 130"
abbreviation "K_NativeOwningMutableAddressor \<equiv> Kind 131"
abbreviation "K_NativePinningAddressor \<equiv> Kind 132"
abbreviation "K_NativePinningMutableAddressor \<equiv> Kind 133"
abbreviation "K_NominalTypeDescriptor \<equiv> Kind 134"
abbreviation "K_NominalTypeDescriptorRecord \<equiv> Kind 135"
abbreviation "K_NonObjCAttribute \<equiv> Kind 136"
abbreviation "K_Number \<equiv> Kind 137"
abbreviation "K_ObjCAsyncCompletionHandlerImpl \<equiv> Kind 138"
abbreviation "K_PredefinedObjCAsyncCompletionHandlerImpl \<equiv> Kind 139"
abbreviation "K_ObjCAttribute \<equiv> Kind 140"
abbreviation "K_ObjCBlock \<equiv> Kind 141"
abbreviation "K_EscapingObjCBlock \<equiv> Kind 142"
abbreviation "K_OtherNominalType \<equiv> Kind 143"
abbreviation "K_OwningAddressor \<equiv> Kind 144"
abbreviation "K_OwningMutableAddressor \<equiv> Kind 145"
abbreviation "K_PartialApplyForwarder \<equiv> Kind 146"
abbreviation "K_PartialApplyObjCForwarder \<equiv> Kind 147"
abbreviation "K_PostfixOperator \<equiv> Kind 148"
abbreviation "K_PrefixOperator \<equiv> Kind 149"
abbreviation "K_PrivateDeclName \<equiv> Kind 150"
abbreviation "K_PropertyDescriptor \<equiv> Kind 151"
abbreviation "K_PropertyWrapperBackingInitializer \<equiv> Kind 152"
abbreviation "K_PropertyWrapperInitFromProjectedValue \<equiv> Kind 153"
abbreviation "K_Protocol \<equiv> Kind 154"
abbreviation "K_ProtocolSymbolicReference \<equiv> Kind 155"
abbreviation "K_ProtocolConformance \<equiv> Kind 156"
abbreviation "K_ProtocolConformanceRefInTypeModule \<equiv> Kind 157"
abbreviation "K_ProtocolConformanceRefInProtocolModule \<equiv> Kind 158"
abbreviation "K_ProtocolConformanceRefInOtherModule \<equiv> Kind 159"
abbreviation "K_ProtocolDescriptor \<equiv> Kind 160"
abbreviation "K_ProtocolDescriptorRecord \<equiv> Kind 161"
abbreviation "K_ProtocolConformanceDescriptor \<equiv> Kind 162"
abbreviation "K_ProtocolConformanceDescriptorRecord \<equiv> Kind 163"
abbreviation "K_ProtocolList \<equiv> Kind 164"
abbreviation "K_ProtocolListWithClass \<equiv> Kind 165"
abbreviation "K_ProtocolListWithAnyObject \<equiv> Kind 166"
abbreviation "K_ProtocolSelfConformanceDescriptor \<equiv> Kind 167"
abbreviation "K_ProtocolSelfConformanceWitness \<equiv> Kind 168"
abbreviation "K_ProtocolSelfConformanceWitnessTable \<equiv> Kind 169"
abbreviation "K_ProtocolWitness \<equiv> Kind 170"
abbreviation "K_ProtocolWitnessTable \<equiv> Kind 171"
abbreviation "K_ProtocolWitnessTableAccessor \<equiv> Kind 172"
abbreviation "K_ProtocolWitnessTablePattern \<equiv> Kind 173"
abbreviation "K_ReabstractionThunk \<equiv> Kind 174"
abbreviation "K_ReabstractionThunkHelper \<equiv> Kind 175"
abbreviation "K_ReabstractionThunkHelperWithSelf \<equiv> Kind 176"
abbreviation "K_ReabstractionThunkHelperWithGlobalActor \<equiv> Kind 177"
abbreviation "K_ReadAccessor \<equiv> Kind 178"
abbreviation "K_RelatedEntityDeclName \<equiv> Kind 179"
abbreviation "K_RetroactiveConformance \<equiv> Kind 180"
abbreviation "K_ReturnType \<equiv> Kind 181"
abbreviation "K_Shared \<equiv> Kind 182"
abbreviation "K_Owned \<equiv> Kind 183"
abbreviation "K_SILBoxType \<equiv> Kind 184"
abbreviation "K_SILBoxTypeWithLayout \<equiv> Kind 185"
abbreviation "K_SILBoxLayout \<equiv> Kind 186"
abbreviation "K_SILBoxMutableField \<equiv> Kind 187"
abbreviation "K_SILBoxImmutableField \<equiv> Kind 188"
abbreviation "K_Setter \<equiv> Kind 189"
abbreviation "K_SpecializationPassID \<equiv> Kind 190"
abbreviation "K_IsSerialized \<equiv> Kind 191"
abbreviation "K_Static \<equiv> Kind 192"
abbreviation "K_Structure \<equiv> Kind 193"
abbreviation "K_Subscript \<equiv> Kind 194"
abbreviation "K_Suffix \<equiv> Kind 195"
abbreviation "K_ThinFunctionType \<equiv> Kind 196"
abbreviation "K_Tuple \<equiv> Kind 197"
abbreviation "K_TupleElement \<equiv> Kind 198"
abbreviation "K_TupleElementName \<equiv> Kind 199"
abbreviation "K_Type \<equiv> Kind 200"
abbreviation "K_TypeSymbolicReference \<equiv> Kind 201"
abbreviation "K_TypeAlias \<equiv> Kind 202"
abbreviation "K_TypeList \<equiv> Kind 203"
abbreviation "K_TypeMangling \<equiv> Kind 204"
abbreviation "K_TypeMetadata \<equiv> Kind 205"
abbreviation "K_TypeMetadataAccessFunction \<equiv> Kind 206"
abbreviation "K_TypeMetadataCompletionFunction \<equiv> Kind 207"
abbreviation "K_TypeMetadataInstantiationCache \<equiv> Kind 208"
abbreviation "K_TypeMetadataInstantiationFunction \<equiv> Kind 209"
abbreviation "K_TypeMetadataSingletonInitializationCache \<equiv> Kind 210"
abbreviation "K_TypeMetadataDemanglingCache \<equiv> Kind 211"
abbreviation "K_TypeMetadataLazyCache \<equiv> Kind 212"
abbreviation "K_UncurriedFunctionType \<equiv> Kind 213"
abbreviation "K_UnknownIndex \<equiv> Kind 214"
abbreviation "K_Weak \<equiv> Kind 215"
abbreviation "K_Unowned \<equiv> Kind 216"
abbreviation "K_Unmanaged \<equiv> Kind 217"
abbreviation "K_UnsafeAddressor \<equiv> Kind 218"
abbreviation "K_UnsafeMutableAddressor \<equiv> Kind 219"
abbreviation "K_ValueWitness \<equiv> Kind 220"
abbreviation "K_ValueWitnessTable \<equiv> Kind 221"
abbreviation "K_Variable \<equiv> Kind 222"
abbreviation "K_VTableThunk \<equiv> Kind 223"
abbreviation "K_VTableAttribute \<equiv> Kind 224"
abbreviation "K_WillSet \<equiv> Kind 225"
abbreviation "K_ReflectionMetadataBuiltinDescriptor \<equiv> Kind 226"
abbreviation "K_ReflectionMetadataFieldDescriptor \<equiv> Kind 227"
abbreviation "K_ReflectionMetadataAssocTypeDescriptor \<equiv> Kind 228"
abbreviation "K_ReflectionMetadataSuperclassDescriptor \<equiv> Kind 229"
abbreviation "K_GenericTypeParamDecl \<equiv> Kind 230"
abbreviation "K_CurryThunk \<equiv> Kind 231"
abbreviation "K_DispatchThunk \<equiv> Kind 232"
abbreviation "K_MethodDescriptor \<equiv> Kind 233"
abbreviation "K_ProtocolRequirementsBaseDescriptor \<equiv> Kind 234"
abbreviation "K_AssociatedConformanceDescriptor \<equiv> Kind 235"
abbreviation "K_DefaultAssociatedConformanceAccessor \<equiv> Kind 236"
abbreviation "K_BaseConformanceDescriptor \<equiv> Kind 237"
abbreviation "K_AssociatedTypeDescriptor \<equiv> Kind 238"
abbreviation "K_AsyncAnnotation \<equiv> Kind 239"
abbreviation "K_ThrowsAnnotation \<equiv> Kind 240"
abbreviation "K_EmptyList \<equiv> Kind 241"
abbreviation "K_FirstElementMarker \<equiv> Kind 242"
abbreviation "K_VariadicMarker \<equiv> Kind 243"
abbreviation "K_OutlinedBridgedMethod \<equiv> Kind 244"
abbreviation "K_OutlinedCopy \<equiv> Kind 245"
abbreviation "K_OutlinedConsume \<equiv> Kind 246"
abbreviation "K_OutlinedRetain \<equiv> Kind 247"
abbreviation "K_OutlinedRelease \<equiv> Kind 248"
abbreviation "K_OutlinedInitializeWithTake \<equiv> Kind 249"
abbreviation "K_OutlinedInitializeWithCopy \<equiv> Kind 250"
abbreviation "K_OutlinedAssignWithTake \<equiv> Kind 251"
abbreviation "K_OutlinedAssignWithCopy \<equiv> Kind 252"
abbreviation "K_OutlinedDestroy \<equiv> Kind 253"
abbreviation "K_OutlinedVariable \<equiv> Kind 254"
abbreviation "K_AssocTypePath \<equiv> Kind 255"
abbreviation "K_LabelList \<equiv> Kind 256"
abbreviation "K_ModuleDescriptor \<equiv> Kind 257"
abbreviation "K_ExtensionDescriptor \<equiv> Kind 258"
abbreviation "K_AnonymousDescriptor \<equiv> Kind 259"
abbreviation "K_AssociatedTypeGenericParamRef \<equiv> Kind 260"
abbreviation "K_SugaredOptional \<equiv> Kind 261"
abbreviation "K_SugaredArray \<equiv> Kind 262"
abbreviation "K_SugaredDictionary \<equiv> Kind 263"
abbreviation "K_SugaredParen \<equiv> Kind 264"
abbreviation "K_AccessorFunctionReference \<equiv> Kind 265"
abbreviation "K_OpaqueType \<equiv> Kind 266"
abbreviation "K_OpaqueTypeDescriptorSymbolicReference \<equiv> Kind 267"
abbreviation "K_OpaqueTypeDescriptor \<equiv> Kind 268"
abbreviation "K_OpaqueTypeDescriptorRecord \<equiv> Kind 269"
abbreviation "K_OpaqueTypeDescriptorAccessor \<equiv> Kind 270"
abbreviation "K_OpaqueTypeDescriptorAccessorImpl \<equiv> Kind 271"
abbreviation "K_OpaqueTypeDescriptorAccessorKey \<equiv> Kind 272"
abbreviation "K_OpaqueTypeDescriptorAccessorVar \<equiv> Kind 273"
abbreviation "K_OpaqueReturnType \<equiv> Kind 274"
abbreviation "K_OpaqueReturnTypeOf \<equiv> Kind 275"
abbreviation "K_CanonicalSpecializedGenericMetaclass \<equiv> Kind 276"
abbreviation "K_CanonicalSpecializedGenericTypeMetadataAccessFunction \<equiv> Kind 277"
abbreviation "K_MetadataInstantiationCache \<equiv> Kind 278"
abbreviation "K_NoncanonicalSpecializedGenericTypeMetadata \<equiv> Kind 279"
abbreviation "K_NoncanonicalSpecializedGenericTypeMetadataCache \<equiv> Kind 280"
abbreviation "K_GlobalVariableOnceFunction \<equiv> Kind 281"
abbreviation "K_GlobalVariableOnceToken \<equiv> Kind 282"
abbreviation "K_GlobalVariableOnceDeclList \<equiv> Kind 283"
abbreviation "K_CanonicalPrespecializedGenericTypeCachingOnceToken \<equiv> Kind 284"
abbreviation "K_AsyncFunctionPointer \<equiv> Kind 285"
abbreviation "K_AutoDiffFunction \<equiv> Kind 286"
abbreviation "K_AutoDiffFunctionKind \<equiv> Kind 287"
abbreviation "K_AutoDiffSelfReorderingReabstractionThunk \<equiv> Kind 288"
abbreviation "K_AutoDiffSubsetParametersThunk \<equiv> Kind 289"
abbreviation "K_AutoDiffDerivativeVTableThunk \<equiv> Kind 290"
abbreviation "K_DifferentiabilityWitness \<equiv> Kind 291"
abbreviation "K_NoDerivative \<equiv> Kind 292"
abbreviation "K_IndexSubset \<equiv> Kind 293"
abbreviation "K_AsyncAwaitResumePartialFunction \<equiv> Kind 294"
abbreviation "K_AsyncSuspendResumePartialFunction \<equiv> Kind 295"
abbreviation "K_AccessibleFunctionRecord \<equiv> Kind 296"

text \<open>\<open>isContext\<close> lists the \<open>CONTEXT_NODE\<close> entries.\<close>

definition context_kinds :: "Kind list" where
  "context_kinds =
     [K_Allocator, K_AnonymousContext, K_Class, K_Constructor, K_Deallocator,
     K_DefaultArgumentInitializer, K_Destructor, K_DidSet, K_Enum, K_ExplicitClosure, K_Extension,
     K_Function, K_Getter, K_GlobalGetter, K_IVarInitializer, K_IVarDestroyer, K_ImplicitClosure,
     K_Initializer, K_MaterializeForSet, K_ModifyAccessor, K_Module, K_NativeOwningAddressor,
     K_NativeOwningMutableAddressor, K_NativePinningAddressor, K_NativePinningMutableAddressor,
     K_OtherNominalType, K_OwningAddressor, K_OwningMutableAddressor,
     K_PropertyWrapperBackingInitializer, K_PropertyWrapperInitFromProjectedValue, K_Protocol,
     K_ProtocolSymbolicReference, K_ReadAccessor, K_Setter, K_Static, K_Structure, K_Subscript,
     K_TypeSymbolicReference, K_TypeAlias, K_UnsafeAddressor, K_UnsafeMutableAddressor, K_Variable,
     K_WillSet, K_OpaqueReturnTypeOf, K_AutoDiffFunction]"

definition isContext :: "Kind \<Rightarrow> bool" where
  "isContext kind \<longleftrightarrow> kind \<in> set context_kinds"

definition isDeclName :: "Kind \<Rightarrow> bool" where
  "isDeclName kind \<longleftrightarrow>
     kind \<in> {K_Identifier, K_LocalDeclName, K_PrivateDeclName, K_RelatedEntityDeclName,
             K_PrefixOperator, K_PostfixOperator, K_InfixOperator, K_TypeSymbolicReference,
             K_ProtocolSymbolicReference}"

definition isAnyGeneric :: "Kind \<Rightarrow> bool" where
  "isAnyGeneric kind \<longleftrightarrow>
     kind \<in> {K_Structure, K_Class, K_Enum, K_Protocol, K_ProtocolSymbolicReference,
             K_OtherNominalType, K_TypeAlias, K_TypeSymbolicReference}"

definition isEntity :: "Kind \<Rightarrow> bool" where
  "isEntity kind \<longleftrightarrow> kind = K_Type \<or> isContext kind"

definition isRequirement :: "Kind \<Rightarrow> bool" where
  "isRequirement kind \<longleftrightarrow>
     kind \<in> {K_DependentGenericSameTypeRequirement, K_DependentGenericLayoutRequirement,
             K_DependentGenericConformanceRequirement}"

definition function_attrs :: "Kind list" where
  "function_attrs =
     [K_FunctionSignatureSpecialization, K_GenericSpecialization,
     K_GenericSpecializationPrespecialized, K_InlinedGenericFunction,
     K_GenericSpecializationNotReAbstracted, K_GenericPartialSpecialization,
     K_GenericPartialSpecializationNotReAbstracted, K_GenericSpecializationInResilienceDomain,
     K_ObjCAttribute, K_NonObjCAttribute, K_DynamicAttribute, K_DirectMethodReferenceAttribute,
     K_VTableAttribute, K_PartialApplyForwarder, K_PartialApplyObjCForwarder, K_OutlinedVariable,
     K_OutlinedBridgedMethod, K_MergedFunction, K_DistributedThunk, K_DistributedMethodAccessor,
     K_DynamicallyReplaceableFunctionImpl, K_DynamicallyReplaceableFunctionKey,
     K_DynamicallyReplaceableFunctionVar, K_AsyncFunctionPointer, K_AsyncAwaitResumePartialFunction,
     K_AsyncSuspendResumePartialFunction, K_AccessibleFunctionRecord]"

definition isFunctionAttr :: "Kind \<Rightarrow> bool" where
  "isFunctionAttr kind \<longleftrightarrow> kind \<in> set function_attrs"

definition nodeConsumesGenericArgs :: "Kind \<Rightarrow> bool" where
  "nodeConsumesGenericArgs kind \<longleftrightarrow>
     kind \<notin> {K_Variable, K_Subscript, K_ImplicitClosure, K_ExplicitClosure,
             K_DefaultArgumentInitializer, K_Initializer, K_PropertyWrapperBackingInitializer,
             K_PropertyWrapperInitFromProjectedValue, K_Static}"

section \<open>Nodes\<close>

text \<open>
  A node has a kind and a payload: no payload or children (\<open>Node\<close>; one, two and many children are
  stored differently by the code, with the same meaning), a text or an index. Nodes are values here.
  The code changes a node in place only while it is building it, before anything else points to it; the one
  exception is in \<open>demangleBoundGenericType\<close> and is described there (\<open>Demangler_Generics\<close>). The nodes that a
  resolver of symbolic references returns are taken to be its own as well.
\<close>

datatype node = Node Kind "node list" | TextNode Kind string | IndexNode Kind u64

fun getKind :: "node \<Rightarrow> Kind" where
  "getKind (Node k _) = k"
| "getKind (TextNode k _) = k"
| "getKind (IndexNode k _) = k"

fun hasText :: "node \<Rightarrow> bool" where
  "hasText (TextNode _ _) = True"
| "hasText _ = False"

fun hasIndex :: "node \<Rightarrow> bool" where
  "hasIndex (IndexNode _ _) = True"
| "hasIndex _ = False"

fun getChildren :: "node \<Rightarrow> node list" where
  "getChildren (Node _ cs) = cs"
| "getChildren _ = []"

definition getNumChildren :: "node \<Rightarrow> nat" where
  "getNumChildren n = length (getChildren n)"

definition getChild :: "node \<Rightarrow> nat \<Rightarrow> node option" where
  "getChild n i = (if i \<ge> getNumChildren n then None else Some (getChildren n ! i))"

definition getFirstChild :: "node \<Rightarrow> node option" where
  "getFirstChild n = getChild n 0"

text \<open>The member function \<open>Node::addChild\<close>; on a node with a text or an index it only asserts.\<close>

fun Node_addChild :: "node \<Rightarrow> node \<Rightarrow> node" where
  "Node_addChild (Node k cs) c = Node k (cs @ [c])"
| "Node_addChild n c = n"

fun removeChildAt :: "node \<Rightarrow> nat \<Rightarrow> node" where
  "removeChildAt (Node k cs) i = Node k (take i cs @ drop (i + 1) cs)"
| "removeChildAt n i = n"

fun reverseChildren :: "node \<Rightarrow> nat \<Rightarrow> node" where
  "reverseChildren (Node k cs) StartingAt = Node k (take StartingAt cs @ rev (drop StartingAt cs))"
| "reverseChildren n StartingAt = n"

text \<open>Replacing a child that the code reaches through its pointer.\<close>

fun setChild :: "node \<Rightarrow> nat \<Rightarrow> node \<Rightarrow> node" where
  "setChild (Node k cs) i c = Node k (cs[i := c])"
| "setChild n i c = n"

section \<open>Building nodes\<close>

text \<open>
  The helpers of \<open>Demangler\<close> that build nodes. A null pointer is \<open>None\<close>. \<open>addChild\<close> returns the
  parent; where the code ignores that result, the parent keeps its value if the child is null:
  \<open>addChild_to\<close>.
\<close>

definition createNode :: "Kind \<Rightarrow> node" where
  "createNode k = Node k []"

definition addChild :: "node option \<Rightarrow> node option \<Rightarrow> node option" where
  "addChild Parent Child =
     (case (Parent, Child) of (Some p, Some c) \<Rightarrow> Some (Node_addChild p c) | _ \<Rightarrow> None)"

definition addChild_to :: "node option \<Rightarrow> node option \<Rightarrow> node option" where
  "addChild_to Parent Child =
     (case (Parent, Child) of (Some p, Some c) \<Rightarrow> Some (Node_addChild p c) | _ \<Rightarrow> Parent)"

definition createWithChild :: "Kind \<Rightarrow> node option \<Rightarrow> node option" where
  "createWithChild kind Child = map_option (\<lambda>c. Node kind [c]) Child"

definition createType :: "node option \<Rightarrow> node option" where
  "createType Child = createWithChild K_Type Child"

text \<open>The three overloads of \<open>createWithChildren\<close>: null as soon as one of the children is.\<close>

definition createWithChildren :: "Kind \<Rightarrow> node option list \<Rightarrow> node option" where
  "createWithChildren kind cs = (if None \<in> set cs then None else Some (Node kind (map the cs)))"

fun changeKind_node :: "node \<Rightarrow> Kind \<Rightarrow> node" where
  "changeKind_node (TextNode _ t) NewKind = TextNode NewKind t"
| "changeKind_node (IndexNode _ i) NewKind = IndexNode NewKind i"
| "changeKind_node (Node _ cs) NewKind = Node NewKind cs"

definition changeKind :: "node option \<Rightarrow> Kind \<Rightarrow> node option" where
  "changeKind nd NewKind = map_option (\<lambda>n. changeKind_node n NewKind) nd"

section \<open>What a type node stands for\<close>

text \<open>
  \<open>isAliasNode\<close> and its siblings look through nested \<open>Type\<close> nodes; \<open>None\<close> is a null pointer that is
  followed, at a \<open>Type\<close> node without a child.
\<close>

fun type_kind_of :: "node \<Rightarrow> Kind option" where
  "type_kind_of (Node k cs) =
     (if k = K_Type then (case cs of [] \<Rightarrow> None | c # _ \<Rightarrow> type_kind_of c) else Some k)"
| "type_kind_of (TextNode k _) = (if k = K_Type then None else Some k)"
| "type_kind_of (IndexNode k _) = (if k = K_Type then None else Some k)"

definition isAliasNode :: "node \<Rightarrow> bool option" where
  "isAliasNode n = map_option (\<lambda>k. k = K_TypeAlias) (type_kind_of n)"

definition isClassNode :: "node \<Rightarrow> bool option" where
  "isClassNode n = map_option (\<lambda>k. k \<in> {K_Class, K_BoundGenericClass}) (type_kind_of n)"

definition isEnumNode :: "node \<Rightarrow> bool option" where
  "isEnumNode n = map_option (\<lambda>k. k \<in> {K_Enum, K_BoundGenericEnum}) (type_kind_of n)"

definition isProtocolNode :: "node \<Rightarrow> bool option" where
  "isProtocolNode n = map_option (\<lambda>k. k \<in> {K_Protocol, K_ProtocolSymbolicReference}) (type_kind_of n)"

definition isStructNode :: "node \<Rightarrow> bool option" where
  "isStructNode n = map_option (\<lambda>k. k \<in> {K_Structure, K_BoundGenericStructure}) (type_kind_of n)"

section \<open>Prefixes of mangled names\<close>

definition startswith :: "string \<Rightarrow> string \<Rightarrow> bool" where
  "startswith s p \<longleftrightarrow> take (length p) s = p"

definition mangling_prefixes :: "string list" where
  "mangling_prefixes = [''_T0'', ''$S'', ''_$S'', ''$s'', ''_$s'']"

definition getManglingPrefixLength :: "string \<Rightarrow> nat" where
  "getManglingPrefixLength mangledName =
     (case List.find (startswith mangledName) mangling_prefixes of
        Some prefix \<Rightarrow> length prefix
      | None \<Rightarrow> 0)"

definition isOldFunctionTypeMangling :: "string \<Rightarrow> bool" where
  "isOldFunctionTypeMangling mangledName \<longleftrightarrow> startswith mangledName ''_T''"

definition isSwiftSymbol :: "string \<Rightarrow> bool" where
  "isSwiftSymbol mangledName \<longleftrightarrow>
     isOldFunctionTypeMangling mangledName \<or> getManglingPrefixLength mangledName \<noteq> 0"

definition dropSwiftManglingPrefix :: "string \<Rightarrow> string" where
  "dropSwiftManglingPrefix mangledName = drop (getManglingPrefixLength mangledName) mangledName"

definition isObjCSymbol :: "string \<Rightarrow> bool" where
  "isObjCSymbol mangledName =
     (let nameWithoutPrefix = dropSwiftManglingPrefix mangledName
      in startswith nameWithoutPrefix ''So'' \<or> startswith nameWithoutPrefix ''SC'')"

text \<open>
  \<open>makeSymbolicMangledNameStringRef\<close>: the length of the name at a pointer, where a byte from 1 to 23
  is followed by 4 bytes and one from 24 to 31 by 8 bytes of a reference, which may be zero. The
  memory from the pointer on is a byte list; \<open>None\<close> is a read past its end.
\<close>

function symbolic_name_length :: "u8 list \<Rightarrow> nat option" where
  "symbolic_name_length mem =
     (case mem of
        [] \<Rightarrow> None
      | b # _ \<Rightarrow>
          if b = 0 then Some 0
          else
            let skip = (if unat b \<ge> 1 \<and> unat b \<le> 0x17 then 4
                        else if unat b \<ge> 0x18 \<and> unat b \<le> 0x1F then 8 else 0)
            in map_option (\<lambda>n. n + skip + 1) (symbolic_name_length (drop (skip + 1) mem)))"
  by pat_completeness auto
termination by (relation "measure length") auto

section \<open>Lemmas\<close>

text \<open>
  The kinds that \<open>isContext\<close> lists are the \<open>CONTEXT_NODE\<close> entries of the file: \<open>contexts_from n es\<close>
  are those of the entries \<open>es\<close> of the table, which are numbered from \<open>n\<close>.
\<close>

fun contexts_from :: "nat \<Rightarrow> (string \<times> bool) list \<Rightarrow> Kind list" where
  "contexts_from n [] = []"
| "contexts_from n ((_, c) # es) =
     (if c then Kind n # contexts_from (n + 1) es else contexts_from (n + 1) es)"

lemma contexts_from_append:
  "contexts_from n (es @ fs) = contexts_from n es @ contexts_from (n + length es) fs"
  by (induction n es rule: contexts_from.induct) simp_all

lemma contexts_1:
  "contexts_from 0 node_kinds_1 =
     [K_Allocator, K_AnonymousContext, K_Class, K_Constructor, K_Deallocator,
      K_DefaultArgumentInitializer, K_Destructor, K_DidSet, K_Enum, K_ExplicitClosure,
      K_Extension, K_Function, K_Getter, K_GlobalGetter, K_IVarInitializer, K_IVarDestroyer]"
  by (simp add: node_kinds_1_def del: One_nat_def)

lemma length_node_kinds_1: "length node_kinds_1 = 98"
  by (simp add: node_kinds_1_def)

lemma contexts_2:
  "contexts_from 98 node_kinds_2 =
     [K_ImplicitClosure, K_Initializer, K_MaterializeForSet, K_ModifyAccessor, K_Module,
      K_NativeOwningAddressor, K_NativeOwningMutableAddressor, K_NativePinningAddressor,
      K_NativePinningMutableAddressor, K_OtherNominalType, K_OwningAddressor,
      K_OwningMutableAddressor, K_PropertyWrapperBackingInitializer,
      K_PropertyWrapperInitFromProjectedValue, K_Protocol, K_ProtocolSymbolicReference,
      K_ReadAccessor, K_Setter, K_Static, K_Structure, K_Subscript]"
  by (simp add: node_kinds_2_def del: One_nat_def)

lemma length_node_kinds_2: "length node_kinds_2 = 98"
  by (simp add: node_kinds_2_def)

lemma contexts_3:
  "contexts_from 196 node_kinds_3 =
     [K_TypeSymbolicReference, K_TypeAlias, K_UnsafeAddressor, K_UnsafeMutableAddressor,
      K_Variable, K_WillSet, K_OpaqueReturnTypeOf, K_AutoDiffFunction]"
  by (simp add: node_kinds_3_def del: One_nat_def)

lemma length_node_kinds_3: "length node_kinds_3 = 101"
  by (simp add: node_kinds_3_def)

lemma node_kinds_contexts: "contexts_from 0 node_kinds = context_kinds"
  using contexts_1 contexts_2 contexts_3
  by (simp add: node_kinds_def contexts_from_append length_node_kinds_1 length_node_kinds_2
      context_kinds_def)

lemma getKind_changeKind [simp]: "getKind (changeKind_node n k) = k"
  by (cases n) simp_all

lemma getKind_addChild [simp]: "getKind (Node_addChild n c) = getKind n"
  by (cases n) simp_all

end
