(* ===== verification/Demangler_Monad.thy ===== *)
theory Demangler_Monad
  imports Punycode Demangle_Nodes "HOL-Library.State_Monad" "HOL-Library.Sublist"
begin

text \<open>
  The state of the class \<open>Demangler\<close> (\<open>include/swift/Demangling/Demangler.h\<close>) and the inline member
  functions that move it: reading the text, the stack of nodes and the list of substitutions. An
  operation of the demangler is a value of the state monad; a null \<open>NodePointer\<close> is \<open>None\<close>.

  \<open>NodeStack\<close> has its top first, \<open>Substitutions\<close> is in the order of its indices and \<open>Words\<close> holds the
  \<open>NumWords\<close> recorded words. The field \<open>Stuck\<close> is not a field of the code: it becomes true where the
  code fails an assertion, follows a null pointer, reads the text of a node without one or changes a node that
  others point to, and where a loop of the model has used up its fuel; from then on the state says nothing about
  the code.
\<close>

section \<open>The state\<close>

datatype SymbolicReferenceKind = SRK_Context | SRK_AccessorFunctionReference

datatype Directness = Direct | Indirect

text \<open>
  The callback that resolves symbolic references gets the kind, the directness, the relative offset
  and the address of the reference, here its position in the text.
\<close>

type_synonym symbolic_resolver =
  "SymbolicReferenceKind \<Rightarrow> Directness \<Rightarrow> 32 word \<Rightarrow> nat \<Rightarrow> node option"

record dem =
  Text :: string
  Pos :: nat
  IsOldFunctionTypeMangling :: bool
  NodeStack :: "node list"
  Substitutions :: "node list"
  Words :: "string list"
  SymbolicReferenceResolver :: "symbolic_resolver option"
  Stuck :: bool

type_synonym 'a dm = "(dem, 'a) state"

abbreviation ret :: "'a \<Rightarrow> 'a dm" where
  "ret \<equiv> State_Monad.return"

abbreviation null :: "'a option dm" where
  "null \<equiv> ret None"

abbreviation MaxNumWords :: nat where
  "MaxNumWords \<equiv> 26"

text \<open>An \<open>int\<close> of the code after an operation that may overflow: 32 bits, two's complement.\<close>

definition int32 :: "int \<Rightarrow> int" where
  "int32 n = (n + 2 ^ 31) mod 2 ^ 32 - 2 ^ 31"

section \<open>Reading\<close>

definition read_state :: "(dem \<Rightarrow> 'a) \<Rightarrow> 'a dm" where
  "read_state f = State (\<lambda>s. (f s, s))"

definition update_state :: "(dem \<Rightarrow> dem) \<Rightarrow> unit dm" where
  "update_state f = State (\<lambda>s. ((), f s))"

definition stuck :: "'a \<Rightarrow> 'a dm" where
  "stuck x = State (\<lambda>s. (x, s\<lparr>Stuck := True\<rparr>))"

definition char_at :: "dem \<Rightarrow> char" where
  "char_at s = (if Pos s \<ge> length (Text s) then CHR 0x00 else Text s ! Pos s)"

definition peekChar :: "char dm" where
  "peekChar = read_state char_at"

definition nextChar :: "char dm" where
  "nextChar = State (\<lambda>s.
     if Pos s \<ge> length (Text s) then (CHR 0x00, s) else (Text s ! Pos s, s\<lparr>Pos := Pos s + 1\<rparr>))"

definition nextIf :: "char \<Rightarrow> bool dm" where
  "nextIf c = State (\<lambda>s. if char_at s \<noteq> c then (False, s) else (True, s\<lparr>Pos := Pos s + 1\<rparr>))"

definition nextIf_string :: "string \<Rightarrow> bool dm" where
  "nextIf_string str = State (\<lambda>s.
     if startswith (drop (Pos s) (Text s)) str then (True, s\<lparr>Pos := Pos s + length str\<rparr>)
     else (False, s))"

definition pushBack :: "unit dm" where
  "pushBack = State (\<lambda>s. if Pos s = 0 then ((), s\<lparr>Stuck := True\<rparr>) else ((), s\<lparr>Pos := Pos s - 1\<rparr>))"

definition consumeAll :: "string dm" where
  "consumeAll = State (\<lambda>s. (drop (Pos s) (Text s), s\<lparr>Pos := length (Text s)\<rparr>))"

text \<open>The number of characters left, the fuel of the loops that read at least one in each round.\<close>

definition remaining :: "dem \<Rightarrow> nat" where
  "remaining s = length (Text s) - Pos s"

section \<open>The stack and the substitutions\<close>

definition pushNode :: "node \<Rightarrow> unit dm" where
  "pushNode Nd = update_state (\<lambda>s. s\<lparr>NodeStack := Nd # NodeStack s\<rparr>)"

definition popNode :: "node option dm" where
  "popNode = State (\<lambda>s.
     case NodeStack s of [] \<Rightarrow> (None, s) | Nd # rest \<Rightarrow> (Some Nd, s\<lparr>NodeStack := rest\<rparr>))"

text \<open>The overload with a predicate on the kind, and the one with a kind.\<close>

definition popNode_if :: "(Kind \<Rightarrow> bool) \<Rightarrow> node option dm" where
  "popNode_if pred = State (\<lambda>s.
     case NodeStack s of
       [] \<Rightarrow> (None, s)
     | Nd # rest \<Rightarrow> if pred (getKind Nd) then (Some Nd, s\<lparr>NodeStack := rest\<rparr>) else (None, s))"

definition popNode_kind :: "Kind \<Rightarrow> node option dm" where
  "popNode_kind kind = popNode_if (\<lambda>k. k = kind)"

text \<open>A loop \<open>while (Nd = popNode(pred))\<close> pops the nodes of the longest run, topmost first.\<close>

definition popNodes_while :: "(Kind \<Rightarrow> bool) \<Rightarrow> node list dm" where
  "popNodes_while pred = State (\<lambda>s.
     (takeWhile (\<lambda>Nd. pred (getKind Nd)) (NodeStack s),
      s\<lparr>NodeStack := dropWhile (\<lambda>Nd. pred (getKind Nd)) (NodeStack s)\<rparr>))"

definition addSubstitution :: "node option \<Rightarrow> unit dm" where
  "addSubstitution Nd =
     (case Nd of
        None \<Rightarrow> ret ()
      | Some n \<Rightarrow> update_state (\<lambda>s. s\<lparr>Substitutions := Substitutions s @ [n]\<rparr>))"

definition createWithPoppedType :: "Kind \<Rightarrow> node option dm" where
  "createWithPoppedType kind = do { Ty \<leftarrow> popNode_kind K_Type; ret (createWithChild kind Ty) }"

text \<open>Reading the text or the index of a node, or following a pointer, that must be there.\<close>

definition getText :: "node \<Rightarrow> string dm" where
  "getText n = (case n of TextNode _ t \<Rightarrow> ret t | _ \<Rightarrow> stuck [])"

definition getIndex :: "node \<Rightarrow> u64 dm" where
  "getIndex n = (case n of IndexNode _ i \<Rightarrow> ret i | _ \<Rightarrow> stuck 0)"

definition deref :: "node option \<Rightarrow> node dm" where
  "deref p = (case p of Some n \<Rightarrow> ret n | None \<Rightarrow> stuck (createNode K_Suffix))"

section \<open>Running\<close>

named_theorems dm_run \<open>the effect of the primitives on a state\<close>

lemma run_read_state [dm_run]: "run_state (read_state f) s = (f s, s)"
  by (simp add: read_state_def)

lemma run_update_state [dm_run]: "run_state (update_state f) s = ((), f s)"
  by (simp add: update_state_def)

lemma run_stuck [dm_run]: "run_state (stuck x) s = (x, s\<lparr>Stuck := True\<rparr>)"
  by (simp add: stuck_def)

lemma run_peekChar [dm_run]: "run_state peekChar s = (char_at s, s)"
  by (simp add: peekChar_def dm_run)

lemma run_nextChar [dm_run]:
  "run_state nextChar s = (char_at s, if Pos s \<ge> length (Text s) then s else s\<lparr>Pos := Pos s + 1\<rparr>)"
  by (simp add: nextChar_def char_at_def)

lemma run_nextIf [dm_run]:
  "run_state (nextIf c) s = (char_at s = c, if char_at s = c then s\<lparr>Pos := Pos s + 1\<rparr> else s)"
  by (simp add: nextIf_def)

lemma run_nextIf_string [dm_run]:
  "run_state (nextIf_string str) s =
     (startswith (drop (Pos s) (Text s)) str,
      if startswith (drop (Pos s) (Text s)) str then s\<lparr>Pos := Pos s + length str\<rparr> else s)"
  by (simp add: nextIf_string_def)

lemma run_pushBack [dm_run]:
  "run_state pushBack s = ((), if Pos s = 0 then s\<lparr>Stuck := True\<rparr> else s\<lparr>Pos := Pos s - 1\<rparr>)"
  by (simp add: pushBack_def)

lemma run_consumeAll [dm_run]:
  "run_state consumeAll s = (drop (Pos s) (Text s), s\<lparr>Pos := length (Text s)\<rparr>)"
  by (simp add: consumeAll_def)

lemma run_pushNode [dm_run]: "run_state (pushNode n) s = ((), s\<lparr>NodeStack := n # NodeStack s\<rparr>)"
  by (simp add: pushNode_def dm_run)

lemma run_popNode [dm_run]:
  "run_state popNode s =
     (case NodeStack s of [] \<Rightarrow> (None, s) | Nd # rest \<Rightarrow> (Some Nd, s\<lparr>NodeStack := rest\<rparr>))"
  by (simp add: popNode_def)

lemma run_popNode_if [dm_run]:
  "run_state (popNode_if pred) s =
     (case NodeStack s of
        [] \<Rightarrow> (None, s)
      | Nd # rest \<Rightarrow> if pred (getKind Nd) then (Some Nd, s\<lparr>NodeStack := rest\<rparr>) else (None, s))"
  by (simp add: popNode_if_def)

lemma run_popNode_kind [dm_run]:
  "run_state (popNode_kind kind) s =
     (case NodeStack s of
        [] \<Rightarrow> (None, s)
      | Nd # rest \<Rightarrow> if getKind Nd = kind then (Some Nd, s\<lparr>NodeStack := rest\<rparr>) else (None, s))"
  by (simp add: popNode_kind_def dm_run)

lemma run_popNodes_while [dm_run]:
  "run_state (popNodes_while pred) s =
     (takeWhile (\<lambda>Nd. pred (getKind Nd)) (NodeStack s),
      s\<lparr>NodeStack := dropWhile (\<lambda>Nd. pred (getKind Nd)) (NodeStack s)\<rparr>)"
  by (simp add: popNodes_while_def)

lemma run_addSubstitution [dm_run]:
  "run_state (addSubstitution Nd) s =
     ((), case Nd of None \<Rightarrow> s | Some n \<Rightarrow> s\<lparr>Substitutions := Substitutions s @ [n]\<rparr>)"
  by (simp add: addSubstitution_def dm_run split: option.split)

lemma run_getText [dm_run]:
  "run_state (getText n) s = (case n of TextNode _ t \<Rightarrow> (t, s) | _ \<Rightarrow> ([], s\<lparr>Stuck := True\<rparr>))"
  by (simp add: getText_def dm_run split: node.split)

lemma run_getIndex [dm_run]:
  "run_state (getIndex n) s = (case n of IndexNode _ i \<Rightarrow> (i, s) | _ \<Rightarrow> (0, s\<lparr>Stuck := True\<rparr>))"
  by (simp add: getIndex_def dm_run split: node.split)

lemma run_deref [dm_run]:
  "run_state (deref p) s =
     (case p of Some n \<Rightarrow> (n, s) | None \<Rightarrow> (createNode K_Suffix, s\<lparr>Stuck := True\<rparr>))"
  by (simp add: deref_def dm_run split: option.split)

end
