(* ===== verification/Demangler_Text.thy ===== *)
theory Demangler_Text
  imports Demangler_Monad
begin

text \<open>
  The operations of \<open>Demangler.cpp\<close> on the text: numbers and indices, substitutions, identifiers and
  operators, symbolic references, and popping a context or a type from the stack.

  A \<open>switch\<close> is a chain of \<open>if\<close>s in the order of the source. The loops that read the text take fuel,
  one more than the number of characters left; \<open>Demangler_Loops\<close> shows that it never runs out.
\<close>

section \<open>Numbers\<close>

text \<open>The loop of \<open>demangleNatural\<close> over the text; the result comes with the number of digits read.\<close>

fun natural_loop :: "int \<Rightarrow> string \<Rightarrow> int \<times> nat" where
  "natural_loop num [] = (num, 0)"
| "natural_loop num (c # cs) =
     (if \<not> isDigit c then (num, 0)
      else
        let newNum = int32 (10 * num + (int (ord c) - int (ord (CHR ''0''))))
        in if newNum < num then (-1000, 0)
           else let (r, n) = natural_loop newNum cs in (r, n + 1))"

definition demangleNatural :: "int dm" where
  "demangleNatural = do {
     c \<leftarrow> peekChar;
     if \<not> isDigit c then ret (-1000)
     else do {
       rest \<leftarrow> read_state (\<lambda>s. drop (Pos s) (Text s));
       let (num, n) = natural_loop 0 rest;
       update_state (\<lambda>s. s\<lparr>Pos := Pos s + n\<rparr>);
       ret num
     }
   }"

definition demangleIndex :: "int dm" where
  "demangleIndex = do {
     zero \<leftarrow> nextIf (CHR ''_'');
     if zero then ret 0
     else do {
       num \<leftarrow> demangleNatural;
       if num \<ge> 0 then do {
         u \<leftarrow> nextIf (CHR ''_'');
         if u then ret (int32 (num + 1)) else ret (-1000)
       }
       else ret (-1000)
     }
   }"

definition demangleIndexAsNode :: "node option dm" where
  "demangleIndexAsNode = do {
     Idx \<leftarrow> demangleIndex;
     if Idx \<ge> 0 then ret (Some (IndexNode K_Number (word_of_int Idx))) else null
   }"

section \<open>Substitutions\<close>

abbreviation MaxRepeatCount :: int where
  "MaxRepeatCount \<equiv> 2048"

definition pushMultiSubstitutions :: "int \<Rightarrow> nat \<Rightarrow> node option dm" where
  "pushMultiSubstitutions RepeatCount SubstIdx = do {
     substs \<leftarrow> read_state Substitutions;
     if SubstIdx \<ge> length substs then null
     else if RepeatCount > MaxRepeatCount then null
     else do {
       let Nd = substs ! SubstIdx;
       update_state (\<lambda>s. s\<lparr>NodeStack := replicate (nat (RepeatCount - 1)) Nd @ NodeStack s\<rparr>);
       ret (Some Nd)
     }
   }"

fun multi_substitutions_loop :: "nat \<Rightarrow> int \<Rightarrow> node option dm" where
  "multi_substitutions_loop 0 RepeatCount = stuck None"
| "multi_substitutions_loop (Suc fuel) RepeatCount = do {
     c \<leftarrow> nextChar;
     if c = CHR 0x00 then null
     else if isLowerLetter c then do {
       Nd \<leftarrow> pushMultiSubstitutions RepeatCount (ord c - ord (CHR ''a''));
       case Nd of
         None \<Rightarrow> null
       | Some n \<Rightarrow> do { pushNode n; multi_substitutions_loop fuel (-1) }
     }
     else if isUpperLetter c then pushMultiSubstitutions RepeatCount (ord c - ord (CHR ''A''))
     else if c = CHR ''_'' then do {
       let Idx = unat (word_of_int (RepeatCount + 27) :: 32 word);
       substs \<leftarrow> read_state Substitutions;
       if Idx \<ge> length substs then null else ret (Some (substs ! Idx))
     }
     else do {
       pushBack;
       RepeatCount \<leftarrow> demangleNatural;
       if RepeatCount < 0 then null else multi_substitutions_loop fuel RepeatCount
     }
   }"

definition demangleMultiSubstitutions :: "node option dm" where
  "demangleMultiSubstitutions = do {
     n \<leftarrow> read_state remaining;
     multi_substitutions_loop (n + 1) (-1)
   }"

definition STDLIB_NAME :: string where "STDLIB_NAME = ''Swift''"
definition MANGLING_MODULE_OBJC :: string where "MANGLING_MODULE_OBJC = ''__C''"
definition MANGLING_MODULE_CLANG_IMPORTER :: string where
  "MANGLING_MODULE_CLANG_IMPORTER = ''__C_Synthesized''"

definition createSwiftType :: "Kind \<Rightarrow> string \<Rightarrow> node option" where
  "createSwiftType typeKind name =
     createType (createWithChildren typeKind
       [Some (TextNode K_Module STDLIB_NAME), Some (TextNode K_Identifier name)])"

fun standard_kind :: "type_kind_t \<Rightarrow> Kind" where
  "standard_kind TK_Structure = K_Structure"
| "standard_kind TK_Enum = K_Enum"
| "standard_kind TK_Protocol = K_Protocol"
| "standard_kind TK_Class = K_Class"

definition createStandardSubstitution :: "char \<Rightarrow> bool \<Rightarrow> node option" where
  "createStandardSubstitution Subst SecondLevel =
     (case List.find (\<lambda>(_, c, _). c = Subst)
             (if SecondLevel then concurrency_types else standard_types) of
        Some (k, _, name) \<Rightarrow> createSwiftType (standard_kind k) name
      | None \<Rightarrow> None)"

definition demangleStandardSubstitution :: "node option dm" where
  "demangleStandardSubstitution = do {
     c \<leftarrow> nextChar;
     if c = CHR ''o'' then ret (Some (TextNode K_Module MANGLING_MODULE_OBJC))
     else if c = CHR ''C'' then ret (Some (TextNode K_Module MANGLING_MODULE_CLANG_IMPORTER))
     else if c = CHR ''g'' then do {
       Ty \<leftarrow> popNode_kind K_Type;
       let OptionalTy = createType (createWithChildren K_BoundGenericEnum
         [createSwiftType K_Enum ''Optional'', createWithChild K_TypeList Ty]);
       addSubstitution OptionalTy;
       ret OptionalTy
     }
     else do {
       pushBack;
       RepeatCount \<leftarrow> demangleNatural;
       if RepeatCount > MaxRepeatCount then null
       else do {
         secondLevelSubstitution \<leftarrow> nextIf (CHR ''c'');
         Subst \<leftarrow> nextChar;
         case createStandardSubstitution Subst secondLevelSubstitution of
           None \<Rightarrow> null
         | Some Nd \<Rightarrow> do {
             update_state (\<lambda>s. s\<lparr>NodeStack := replicate (nat (RepeatCount - 1)) Nd @ NodeStack s\<rparr>);
             ret (Some Nd)
           }
       }
     }
   }"

section \<open>Identifiers\<close>

text \<open>
  The words of a slice of an identifier: the loop over \<open>Idx\<close> with \<open>wordStartPos\<close>, where the characters
  from \<open>wordStartPos\<close> on are the current word and the end of the slice reads as a null character.
\<close>

fun slice_words :: "string option \<Rightarrow> string \<Rightarrow> string list" where
  "slice_words None [] = []"
| "slice_words (Some w) [] = (if length w \<ge> 2 then [w] else [])"
| "slice_words None (c # cs) = slice_words (if isWordStart c then Some [c] else None) cs"
| "slice_words (Some w) (c # cs) =
     (if isWordEnd c (last w)
      then (if length w \<ge> 2 then [w] else []) @ slice_words (if isWordStart c then Some [c] else None) cs
      else slice_words (Some (w @ [c])) cs)"

definition record_words :: "string \<Rightarrow> unit dm" where
  "record_words Slice = update_state (\<lambda>s.
     s\<lparr>Words := Words s @ take (MaxNumWords - length (Words s)) (slice_words None Slice)\<rparr>)"

text \<open>The inner loop over word substitutions: \<open>hasWordSubsts\<close> and the identifier so far, or null.\<close>

fun word_substitutions :: "nat \<Rightarrow> bool \<Rightarrow> string \<Rightarrow> (bool \<times> string) option dm" where
  "word_substitutions 0 hasWordSubsts Identifier = stuck None"
| "word_substitutions (Suc fuel) hasWordSubsts Identifier = do {
     c \<leftarrow> peekChar;
     if hasWordSubsts \<and> isLetter c then do {
       c \<leftarrow> nextChar;
       let WordIdx = (if isLowerLetter c then ord c - ord (CHR ''a'') else ord c - ord (CHR ''A''));
       words \<leftarrow> read_state Words;
       if WordIdx \<ge> length words then null
       else word_substitutions fuel (isLowerLetter c) (Identifier @ words ! WordIdx)
     }
     else ret (Some (hasWordSubsts, Identifier))
   }"

text \<open>What follows the length of a piece of the identifier: the piece, decoded if it is punycoded.\<close>

definition identifier_slice :: "bool \<Rightarrow> nat \<Rightarrow> string option dm" where
  "identifier_slice isPunycoded numChars = do {
     tooLong \<leftarrow> read_state (\<lambda>s. Pos s + numChars > length (Text s));
     if tooLong then null
     else do {
       Slice \<leftarrow> read_state (\<lambda>s. take numChars (drop (Pos s) (Text s)));
       if isPunycoded then
         (case decodePunycodeUTF8 Slice of
            None \<Rightarrow> null
          | Some PunycodedString \<Rightarrow> do {
              update_state (\<lambda>s. s\<lparr>Pos := Pos s + numChars\<rparr>);
              ret (Some PunycodedString)
            })
       else do {
         record_words Slice;
         update_state (\<lambda>s. s\<lparr>Pos := Pos s + numChars\<rparr>);
         ret (Some Slice)
       }
     }
   }"

fun identifier_loop :: "nat \<Rightarrow> bool \<Rightarrow> bool \<Rightarrow> string \<Rightarrow> string option dm" where
  "identifier_loop 0 isPunycoded hasWordSubsts Identifier = stuck None"
| "identifier_loop (Suc fuel) isPunycoded hasWordSubsts Identifier = do {
     n \<leftarrow> read_state remaining;
     r \<leftarrow> word_substitutions (n + 1) hasWordSubsts Identifier;
     case r of
       None \<Rightarrow> null
     | Some (hasWordSubsts, Identifier) \<Rightarrow> do {
         zero \<leftarrow> nextIf (CHR ''0'');
         if zero then ret (Some Identifier)
         else do {
           numChars \<leftarrow> demangleNatural;
           if numChars \<le> 0 then null
           else do {
             (if isPunycoded then nextIf (CHR ''_'') else ret False);
             piece \<leftarrow> identifier_slice isPunycoded (nat numChars);
             case piece of
               None \<Rightarrow> null
             | Some p \<Rightarrow>
                 if hasWordSubsts then identifier_loop fuel isPunycoded True (Identifier @ p)
                 else ret (Some (Identifier @ p))
           }
         }
       }
   }"

definition demangleIdentifier :: "node option dm" where
  "demangleIdentifier = do {
     c \<leftarrow> peekChar;
     if \<not> isDigit c then null
     else do {
       (hasWordSubsts, isPunycoded) \<leftarrow>
         (if c = CHR ''0'' then do {
            nextChar;
            c2 \<leftarrow> peekChar;
            if c2 = CHR ''0'' then do { nextChar; ret (False, True) } else ret (True, False)
          }
          else ret (False, False));
       n \<leftarrow> read_state remaining;
       r \<leftarrow> identifier_loop (n + 1) isPunycoded hasWordSubsts [];
       case r of
         None \<Rightarrow> null
       | Some Identifier \<Rightarrow>
           if Identifier = [] then null
           else do {
             let Ident = Some (TextNode K_Identifier Identifier);
             addSubstitution Ident;
             ret Ident
           }
     }
   }"

section \<open>Operators and local names\<close>

definition op_char_table :: string where
  "op_char_table = ''& @/= >    <*!|+?%-~   ^ .''"

text \<open>A character with its top bit set is a negative \<open>signed char\<close>.\<close>

definition operator_char :: "char \<Rightarrow> char option" where
  "operator_char c =
     (if ord c \<ge> 128 then Some c
      else if \<not> isLowerLetter c then None
      else let o' = op_char_table ! (ord c - ord (CHR ''a'')) in if o' = CHR '' '' then None else Some o')"

definition demangleOperatorIdentifier :: "node option dm" where
  "demangleOperatorIdentifier = do {
     Ident \<leftarrow> popNode_kind K_Identifier;
     case Ident of
       None \<Rightarrow> null
     | Some i \<Rightarrow> do {
         t \<leftarrow> getText i;
         case those (map operator_char t) of
           None \<Rightarrow> null
         | Some OpStr \<Rightarrow> do {
             c \<leftarrow> nextChar;
             if c = CHR ''i'' then ret (Some (TextNode K_InfixOperator OpStr))
             else if c = CHR ''p'' then ret (Some (TextNode K_PrefixOperator OpStr))
             else if c = CHR ''P'' then ret (Some (TextNode K_PostfixOperator OpStr))
             else null
           }
       }
   }"

definition is_related_entity :: "char \<Rightarrow> bool" where
  "is_related_entity c \<longleftrightarrow>
     ord (CHR ''a'') \<le> ord c \<and> ord c \<le> ord (CHR ''j'')
     \<or> ord (CHR ''A'') \<le> ord c \<and> ord c \<le> ord (CHR ''J'')"

definition demangleLocalIdentifier :: "node option dm" where
  "demangleLocalIdentifier = do {
     private \<leftarrow> nextIf (CHR ''L'');
     if private then do {
       discriminator \<leftarrow> popNode_kind K_Identifier;
       name \<leftarrow> popNode_if isDeclName;
       ret (createWithChildren K_PrivateDeclName [discriminator, name])
     }
     else do {
       unnamed \<leftarrow> nextIf (CHR ''l'');
       if unnamed then do {
         discriminator \<leftarrow> popNode_kind K_Identifier;
         ret (createWithChild K_PrivateDeclName discriminator)
       }
       else do {
         c \<leftarrow> peekChar;
         if is_related_entity c then do {
           relatedEntityKind \<leftarrow> nextChar;
           let kindNd = Some (TextNode K_Identifier [relatedEntityKind]);
           name \<leftarrow> popNode;
           let result = addChild_to (Some (createNode K_RelatedEntityDeclName)) kindNd;
           ret (addChild result name)
         }
         else do {
           discriminator \<leftarrow> demangleIndexAsNode;
           name \<leftarrow> popNode_if isDeclName;
           ret (createWithChildren K_LocalDeclName [discriminator, name])
         }
       }
     }
   }"

section \<open>Contexts and types on the stack\<close>

definition popModule :: "node option dm" where
  "popModule = do {
     Ident \<leftarrow> popNode_kind K_Identifier;
     case Ident of
       Some i \<Rightarrow> ret (changeKind (Some i) K_Module)
     | None \<Rightarrow> popNode_kind K_Module
   }"

definition popContext :: "node option dm" where
  "popContext = do {
     Mod \<leftarrow> popModule;
     case Mod of
       Some m \<Rightarrow> ret (Some m)
     | None \<Rightarrow> do {
         Ty \<leftarrow> popNode_kind K_Type;
         case Ty of
           Some t \<Rightarrow>
             if getNumChildren t \<noteq> 1 then null
             else do {
               Child \<leftarrow> deref (getFirstChild t);
               if \<not> isContext (getKind Child) then null else ret (Some Child)
             }
         | None \<Rightarrow> popNode_if isContext
       }
   }"

definition popTypeAndGetChild :: "node option dm" where
  "popTypeAndGetChild = do {
     Ty \<leftarrow> popNode_kind K_Type;
     case Ty of
       None \<Rightarrow> null
     | Some t \<Rightarrow> if getNumChildren t \<noteq> 1 then null else ret (getFirstChild t)
   }"

definition popTypeAndGetAnyGeneric :: "node option dm" where
  "popTypeAndGetAnyGeneric = do {
     Child \<leftarrow> popTypeAndGetChild;
     case Child of
       Some c \<Rightarrow> if isAnyGeneric (getKind c) then ret (Some c) else null
     | None \<Rightarrow> null
   }"

section \<open>Symbolic references\<close>

text \<open>The four bytes after the kind, in the machine's (little-endian) order.\<close>

definition symbolic_value :: "string \<Rightarrow> 32 word" where
  "symbolic_value bs = word_of_nat (foldr (\<lambda>c n. ord c + 256 * n) bs 0)"

definition symbolic_kind :: "nat \<Rightarrow> (SymbolicReferenceKind \<times> Directness) option" where
  "symbolic_kind rawKind =
     (if rawKind = 1 then Some (SRK_Context, Direct)
      else if rawKind = 2 then Some (SRK_Context, Indirect)
      else if rawKind = 9 then Some (SRK_AccessorFunctionReference, Direct)
      else None)"

definition demangleSymbolicReference :: "nat \<Rightarrow> node option dm" where
  "demangleSymbolicReference rawKind = do {
     short \<leftarrow> read_state (\<lambda>s. Pos s + 4 > length (Text s));
     if short then null
     else do {
       (at, value) \<leftarrow> read_state (\<lambda>s. (Pos s, symbolic_value (take 4 (drop (Pos s) (Text s)))));
       update_state (\<lambda>s. s\<lparr>Pos := Pos s + 4\<rparr>);
       case symbolic_kind rawKind of
         None \<Rightarrow> null
       | Some (kind, direct) \<Rightarrow> do {
           resolver \<leftarrow> read_state SymbolicReferenceResolver;
           let resolved = (case resolver of Some f \<Rightarrow> f kind direct value at | None \<Rightarrow> None);
           case resolved of
             None \<Rightarrow> null
           | Some r \<Rightarrow> do {
               (if kind = SRK_Context \<and> getKind r \<noteq> K_OpaqueTypeDescriptorSymbolicReference
                   \<and> getKind r \<noteq> K_OpaqueReturnTypeOf
                then addSubstitution resolved else ret ());
               ret resolved
             }
         }
     }
   }"

end
