(* ===== verification/Demangler_Types.thy ===== *)
theory Demangler_Types
  imports Demangler_Text
begin

text \<open>
  Types and entities on the node stack (\<open>Demangler.cpp\<close>): builtin types, nominal types and extensions,
  function types with their parameters and labels, tuples, type lists, protocols and protocol
  conformances.

  A loop that pops nodes takes fuel, one more than the height of the stack.
\<close>

section \<open>Builtin types\<close>

definition BUILTIN_TYPE_NAME_PREFIX :: string where
  "BUILTIN_TYPE_NAME_PREFIX = ''Builtin.''"

definition maxTypeSize :: int where "maxTypeSize = 4096"

text \<open>The \<open>case\<close>s that only name a type.\<close>

definition builtin_names :: "(char \<times> string) list" where
  "builtin_names =
     [(CHR ''b'', ''BridgeObject''),
      (CHR ''B'', ''UnsafeValueBuffer''),
      (CHR ''e'', ''Executor''),
      (CHR ''I'', ''IntLiteral''),
      (CHR ''O'', ''UnknownObject''),
      (CHR ''o'', ''NativeObject''),
      (CHR ''p'', ''RawPointer''),
      (CHR ''j'', ''Job''),
      (CHR ''D'', ''DefaultActorStorage''),
      (CHR ''c'', ''RawUnsafeContinuation''),
      (CHR ''t'', ''SILToken''),
      (CHR ''w'', ''Word'')]"

definition builtin_name :: "string \<Rightarrow> node" where
  "builtin_name n = TextNode K_BuiltinTypeName (BUILTIN_TYPE_NAME_PREFIX @ n)"

definition builtin_sized :: "string \<Rightarrow> node option dm" where
  "builtin_sized name = do {
     index \<leftarrow> demangleIndex;
     let size = index - 1;
     if size \<le> 0 \<or> size > maxTypeSize then null
     else ret (createType (Some (builtin_name (name @ show_nat (nat size)))))
   }"

definition builtin_vector :: "node option dm" where
  "builtin_vector = do {
     index \<leftarrow> demangleIndex;
     let elts = index - 1;
     if elts \<le> 0 \<or> elts > maxTypeSize then null
     else do {
       EltType \<leftarrow> popTypeAndGetChild;
       case EltType of
         None \<Rightarrow> null
       | Some e \<Rightarrow>
           if getKind e \<noteq> K_BuiltinTypeName then null
           else do {
             t \<leftarrow> getText e;
             if \<not> startswith t BUILTIN_TYPE_NAME_PREFIX then null
             else ret (createType (Some (builtin_name
                    (''Vec'' @ show_nat (nat elts) @ ''x'' @ drop (length BUILTIN_TYPE_NAME_PREFIX) t))))
           }
     }
   }"

definition demangleBuiltinType :: "node option dm" where
  "demangleBuiltinType = do {
     c \<leftarrow> nextChar;
     if c = CHR ''f'' then builtin_sized ''FPIEEE''
     else if c = CHR ''i'' then builtin_sized ''Int''
     else if c = CHR ''v'' then builtin_vector
     else
       (case map_of builtin_names c of
          Some n \<Rightarrow> ret (createType (Some (builtin_name n)))
        | None \<Rightarrow> null)
   }"

section \<open>Nominal types and extensions\<close>

definition demangleAnyGenericType :: "Kind \<Rightarrow> node option dm" where
  "demangleAnyGenericType kind = do {
     Name \<leftarrow> popNode_if isDeclName;
     Ctx \<leftarrow> popContext;
     let NTy = createType (createWithChildren kind [Ctx, Name]);
     addSubstitution NTy;
     ret NTy
   }"

definition demangleExtensionContext :: "node option dm" where
  "demangleExtensionContext = do {
     GenSig \<leftarrow> popNode_kind K_DependentGenericSignature;
     Module \<leftarrow> popModule;
     Type \<leftarrow> popTypeAndGetAnyGeneric;
     let Ext = createWithChildren K_Extension [Module, Type];
     ret (if GenSig \<noteq> None then addChild Ext GenSig else Ext)
   }"

section \<open>Function types\<close>

definition demangleClangType :: "node option dm" where
  "demangleClangType = do {
     numChars \<leftarrow> demangleNatural;
     tooLong \<leftarrow> read_state (\<lambda>s. int (Pos s) + numChars > int (length (Text s)));
     if numChars \<le> 0 \<or> tooLong then null
     else do {
       mangledClangType \<leftarrow> read_state (\<lambda>s. take (nat numChars) (drop (Pos s) (Text s)));
       update_state (\<lambda>s. s\<lparr>Pos := Pos s + nat numChars\<rparr>);
       ret (Some (TextNode K_ClangType mangledClangType))
     }
   }"

definition popFunctionParams :: "Kind \<Rightarrow> node option dm" where
  "popFunctionParams kind = do {
     empty \<leftarrow> popNode_kind K_EmptyList;
     ParamsType \<leftarrow> (if empty \<noteq> None then ret (createType (Some (createNode K_Tuple)))
                   else popNode_kind K_Type);
     ret (createWithChild kind ParamsType)
   }"

definition popFunctionType :: "Kind \<Rightarrow> bool \<Rightarrow> node option dm" where
  "popFunctionType kind hasClangType = do {
     let FuncType = Some (createNode kind);
     ClangType \<leftarrow> (if hasClangType then demangleClangType else null);
     let FuncType = addChild_to FuncType ClangType;
     globalActor \<leftarrow> popNode_kind K_GlobalActorFunctionType;
     let FuncType = addChild_to FuncType globalActor;
     differentiable \<leftarrow> popNode_kind K_DifferentiableFunctionType;
     let FuncType = addChild_to FuncType differentiable;
     throws \<leftarrow> popNode_kind K_ThrowsAnnotation;
     let FuncType = addChild_to FuncType throws;
     concurrent \<leftarrow> popNode_kind K_ConcurrentFunctionType;
     let FuncType = addChild_to FuncType concurrent;
     async \<leftarrow> popNode_kind K_AsyncAnnotation;
     let FuncType = addChild_to FuncType async;
     args \<leftarrow> popFunctionParams K_ArgumentTuple;
     let FuncType = addChild FuncType args;
     result \<leftarrow> popFunctionParams K_ReturnType;
     let FuncType = addChild FuncType result;
     ret (createType FuncType)
   }"

subsection \<open>Labels\<close>

definition skip_child :: "Kind \<Rightarrow> node \<Rightarrow> nat \<Rightarrow> nat dm" where
  "skip_child kind FuncType i = do {
     c \<leftarrow> deref (getChild FuncType i);
     ret (if getKind c = kind then i + 1 else i)
   }"

text \<open>\<open>getLabel\<close> for the old function types: the label is taken out of the parameter.\<close>

definition old_label :: "node \<Rightarrow> (node \<times> node) dm" where
  "old_label Param =
     (case List.find (\<lambda>i. getKind (getChildren Param ! i) = K_TupleElementName)
             [0..<getNumChildren Param] of
        Some i \<Rightarrow> do {
          t \<leftarrow> getText (getChildren Param ! i);
          ret (TextNode K_Identifier t, removeChildAt Param i)
        }
      | None \<Rightarrow> ret (createNode K_FirstElementMarker, Param))"

fun pop_labels :: "nat \<Rightarrow> node list option dm" where
  "pop_labels 0 = ret (Some [])"
| "pop_labels (Suc n) = do {
     Label \<leftarrow> popNode;
     case Label of
       None \<Rightarrow> null
     | Some l \<Rightarrow>
         if getKind l \<noteq> K_Identifier \<and> getKind l \<noteq> K_FirstElementMarker then null
         else do { ls \<leftarrow> pop_labels n; ret (map_option (\<lambda>ls. l # ls) ls) }
   }"

definition label_list :: "node list \<Rightarrow> node" where
  "label_list ls =
     (if list_ex (\<lambda>l. getKind l \<noteq> K_FirstElementMarker) ls then Node K_LabelList ls
      else createNode K_LabelList)"

fun set_path :: "node \<Rightarrow> nat list \<Rightarrow> node \<Rightarrow> node" where
  "set_path n [] x = x"
| "set_path n (i # is) x = setChild n i (set_path (getChildren n ! i) is x)"

text \<open>
  The labels of the parameters \<open>Params\<close> at a path in \<open>Type\<close>, and \<open>Type\<close> itself, which loses the labels
  that are read from it.
\<close>

definition read_labels :: "node \<Rightarrow> nat list \<Rightarrow> node \<Rightarrow> (node option \<times> node) dm" where
  "read_labels Type path Params = do {
     old \<leftarrow> read_state IsOldFunctionTypeMangling;
     let NumParams = (if getKind Params = K_Tuple then getNumChildren Params else 1);
     if NumParams = 0 then ret (None, Type)
     else if old then
       if getKind Params \<noteq> K_Tuple then ret (Some (createNode K_LabelList), Type)
       else do {
         lps \<leftarrow> traverse_list old_label (getChildren Params);
         ret (Some (label_list (map fst lps)), set_path Type path (Node K_Tuple (map snd lps)))
       }
     else do {
       ls \<leftarrow> pop_labels NumParams;
       ret (map_option (\<lambda>ls. label_list (rev ls)) ls, Type)
     }
   }"

definition popFunctionParamLabels :: "node option \<Rightarrow> (node option \<times> node option) dm" where
  "popFunctionParamLabels Type = do {
     old \<leftarrow> read_state IsOldFunctionTypeMangling;
     empty \<leftarrow> (if \<not> old then popNode_kind K_EmptyList else null);
     if empty \<noteq> None then ret (Some (createNode K_LabelList), Type)
     else
       (case Type of
          None \<Rightarrow> ret (None, Type)
        | Some ty \<Rightarrow>
            if getKind ty \<noteq> K_Type then ret (None, Type)
            else do {
              FuncType \<leftarrow> deref (getFirstChild ty);
              (FuncType, path) \<leftarrow>
                (if getKind FuncType = K_DependentGenericType then do {
                   c \<leftarrow> deref (getChild FuncType 1);
                   f \<leftarrow> deref (getFirstChild c);
                   ret (f, [0, 1, 0])
                 }
                 else ret (FuncType, [0]));
              if getKind FuncType \<noteq> K_FunctionType \<and> getKind FuncType \<noteq> K_NoEscapeFunctionType
              then ret (None, Type)
              else do {
                i \<leftarrow> skip_child K_GlobalActorFunctionType FuncType 0;
                i \<leftarrow> skip_child K_DifferentiableFunctionType FuncType i;
                i \<leftarrow> skip_child K_ThrowsAnnotation FuncType i;
                i \<leftarrow> skip_child K_ConcurrentFunctionType FuncType i;
                i \<leftarrow> skip_child K_AsyncAnnotation FuncType i;
                ParameterType \<leftarrow> deref (getChild FuncType i);
                if getKind ParameterType \<noteq> K_ArgumentTuple then stuck (None, Type)
                else do {
                  ParamsType \<leftarrow> deref (getFirstChild ParameterType);
                  if getKind ParamsType \<noteq> K_Type then stuck (None, Type)
                  else do {
                    Params \<leftarrow> deref (getFirstChild ParamsType);
                    (LabelList, ty') \<leftarrow> read_labels ty (path @ [i, 0, 0]) Params;
                    ret (LabelList, Some ty')
                  }
                }
              }
            })
   }"

definition demanglePlainFunction :: "node option dm" where
  "demanglePlainFunction = do {
     GenSig \<leftarrow> popNode_kind K_DependentGenericSignature;
     Type \<leftarrow> popFunctionType K_FunctionType False;
     (LabelList, Type) \<leftarrow> popFunctionParamLabels Type;
     let Type = (if GenSig \<noteq> None
                 then createType (createWithChildren K_DependentGenericType [GenSig, Type]) else Type);
     Name \<leftarrow> popNode_if isDeclName;
     Ctx \<leftarrow> popContext;
     ret (if LabelList \<noteq> None then createWithChildren K_Function [Ctx, Name, LabelList, Type]
          else createWithChildren K_Function [Ctx, Name, Type])
   }"

definition demangleTypeMangling :: "node option dm" where
  "demangleTypeMangling = do {
     Type \<leftarrow> popNode_kind K_Type;
     (LabelList, Type) \<leftarrow> popFunctionParamLabels Type;
     let TypeMangling = addChild_to (Some (createNode K_TypeMangling)) LabelList;
     ret (addChild TypeMangling Type)
   }"

section \<open>Tuples and type lists\<close>

fun tuple_loop :: "nat \<Rightarrow> node \<Rightarrow> node option dm" where
  "tuple_loop 0 Root = stuck None"
| "tuple_loop (Suc fuel) Root = do {
     marker \<leftarrow> popNode_kind K_FirstElementMarker;
     variadic \<leftarrow> popNode_kind K_VariadicMarker;
     let TupleElmt = (case variadic of
       Some v \<Rightarrow> Node_addChild (createNode K_TupleElement) v | None \<Rightarrow> createNode K_TupleElement);
     Ident \<leftarrow> popNode_kind K_Identifier;
     TupleElmt \<leftarrow>
       (case Ident of
          Some i \<Rightarrow> do { t \<leftarrow> getText i; ret (Node_addChild TupleElmt (TextNode K_TupleElementName t)) }
        | None \<Rightarrow> ret TupleElmt);
     Ty \<leftarrow> popNode_kind K_Type;
     case Ty of
       None \<Rightarrow> null
     | Some t \<Rightarrow> do {
         let Root = Node_addChild Root (Node_addChild TupleElmt t);
         if marker \<noteq> None then ret (Some (reverseChildren Root 0)) else tuple_loop fuel Root
       }
   }"

definition popTuple :: "node option dm" where
  "popTuple = do {
     empty \<leftarrow> popNode_kind K_EmptyList;
     n \<leftarrow> read_state (\<lambda>s. length (NodeStack s));
     Root \<leftarrow> (if empty \<noteq> None then ret (Some (createNode K_Tuple))
              else tuple_loop (n + 1) (createNode K_Tuple));
     ret (createType Root)
   }"

fun type_list_loop :: "nat \<Rightarrow> node \<Rightarrow> node option dm" where
  "type_list_loop 0 Root = stuck None"
| "type_list_loop (Suc fuel) Root = do {
     marker \<leftarrow> popNode_kind K_FirstElementMarker;
     Ty \<leftarrow> popNode_kind K_Type;
     case Ty of
       None \<Rightarrow> null
     | Some t \<Rightarrow> do {
         let Root = Node_addChild Root t;
         if marker \<noteq> None then ret (Some (reverseChildren Root 0)) else type_list_loop fuel Root
       }
   }"

definition popTypeList :: "node option dm" where
  "popTypeList = do {
     empty \<leftarrow> popNode_kind K_EmptyList;
     n \<leftarrow> read_state (\<lambda>s. length (NodeStack s));
     if empty \<noteq> None then ret (Some (createNode K_TypeList))
     else type_list_loop (n + 1) (createNode K_TypeList)
   }"

section \<open>Protocols and conformances\<close>

definition popProtocol :: "node option dm" where
  "popProtocol = do {
     Type \<leftarrow> popNode_kind K_Type;
     case Type of
       Some ty \<Rightarrow>
         if getNumChildren ty < 1 then null
         else
           (case isProtocolNode ty of
              None \<Rightarrow> stuck None
            | Some b \<Rightarrow> if \<not> b then null else ret (Some ty))
     | None \<Rightarrow> do {
         SymbolicRef \<leftarrow> popNode_kind K_ProtocolSymbolicReference;
         case SymbolicRef of
           Some r \<Rightarrow> ret (Some r)
         | None \<Rightarrow> do {
             Name \<leftarrow> popNode_if isDeclName;
             Ctx \<leftarrow> popContext;
             let Proto = createWithChildren K_Protocol [Ctx, Name];
             ret (createType Proto)
           }
       }
   }"

definition isAnyProtocolConformance :: "Kind \<Rightarrow> bool" where
  "isAnyProtocolConformance kind \<longleftrightarrow>
     kind \<in> {K_ConcreteProtocolConformance, K_DependentProtocolConformanceRoot,
             K_DependentProtocolConformanceInherited, K_DependentProtocolConformanceAssociated}"

definition popAnyProtocolConformance :: "node option dm" where
  "popAnyProtocolConformance = popNode_if isAnyProtocolConformance"

fun conformance_list_loop :: "nat \<Rightarrow> node \<Rightarrow> node option dm" where
  "conformance_list_loop 0 conformanceList = stuck None"
| "conformance_list_loop (Suc fuel) conformanceList = do {
     marker \<leftarrow> popNode_kind K_FirstElementMarker;
     anyConformance \<leftarrow> popAnyProtocolConformance;
     case anyConformance of
       None \<Rightarrow> null
     | Some c \<Rightarrow> do {
         let conformanceList = Node_addChild conformanceList c;
         if marker \<noteq> None then ret (Some (reverseChildren conformanceList 0))
         else conformance_list_loop fuel conformanceList
       }
   }"

definition popAnyProtocolConformanceList :: "node option dm" where
  "popAnyProtocolConformanceList = do {
     empty \<leftarrow> popNode_kind K_EmptyList;
     n \<leftarrow> read_state (\<lambda>s. length (NodeStack s));
     if empty \<noteq> None then ret (Some (createNode K_AnyProtocolConformanceList))
     else conformance_list_loop (n + 1) (createNode K_AnyProtocolConformanceList)
   }"

definition demangleRetroactiveProtocolConformanceRef :: "node option dm" where
  "demangleRetroactiveProtocolConformanceRef = do {
     module \<leftarrow> popModule;
     proto \<leftarrow> popProtocol;
     ret (createWithChildren K_ProtocolConformanceRefInOtherModule [proto, module])
   }"

definition demangleConcreteProtocolConformance :: "node option dm" where
  "demangleConcreteProtocolConformance = do {
     conditionalConformanceList \<leftarrow> popAnyProtocolConformanceList;
     conformanceRef \<leftarrow> popNode_kind K_ProtocolConformanceRefInTypeModule;
     conformanceRef \<leftarrow> (if conformanceRef \<noteq> None then ret conformanceRef
                       else popNode_kind K_ProtocolConformanceRefInProtocolModule);
     conformanceRef \<leftarrow> (if conformanceRef \<noteq> None then ret conformanceRef
                       else demangleRetroactiveProtocolConformanceRef);
     type \<leftarrow> popNode_kind K_Type;
     ret (createWithChildren K_ConcreteProtocolConformance
            [type, conformanceRef, conditionalConformanceList])
   }"

definition isDependentProtocolConformance :: "Kind \<Rightarrow> bool" where
  "isDependentProtocolConformance kind \<longleftrightarrow>
     kind \<in> {K_DependentProtocolConformanceRoot, K_DependentProtocolConformanceInherited,
             K_DependentProtocolConformanceAssociated}"

definition popDependentProtocolConformance :: "node option dm" where
  "popDependentProtocolConformance = popNode_if isDependentProtocolConformance"

definition demangleDependentConformanceIndex :: "node option dm" where
  "demangleDependentConformanceIndex = do {
     index \<leftarrow> demangleIndex;
     if index \<le> 0 then null
     else if index = 1 then ret (Some (createNode K_UnknownIndex))
     else ret (Some (IndexNode K_Index (word_of_int (index - 2))))
   }"

definition demangleDependentProtocolConformanceRoot :: "node option dm" where
  "demangleDependentProtocolConformanceRoot = do {
     index \<leftarrow> demangleDependentConformanceIndex;
     protocol \<leftarrow> popProtocol;
     dependentType \<leftarrow> popNode_kind K_Type;
     ret (createWithChildren K_DependentProtocolConformanceRoot [dependentType, protocol, index])
   }"

definition demangleDependentProtocolConformanceInherited :: "node option dm" where
  "demangleDependentProtocolConformanceInherited = do {
     index \<leftarrow> demangleDependentConformanceIndex;
     protocol \<leftarrow> popProtocol;
     nested \<leftarrow> popDependentProtocolConformance;
     ret (createWithChildren K_DependentProtocolConformanceInherited [nested, protocol, index])
   }"

definition popDependentAssociatedConformance :: "node option dm" where
  "popDependentAssociatedConformance = do {
     protocol \<leftarrow> popProtocol;
     dependentType \<leftarrow> popNode_kind K_Type;
     ret (createWithChildren K_DependentAssociatedConformance [dependentType, protocol])
   }"

definition demangleDependentProtocolConformanceAssociated :: "node option dm" where
  "demangleDependentProtocolConformanceAssociated = do {
     index \<leftarrow> demangleDependentConformanceIndex;
     associatedConformance \<leftarrow> popDependentAssociatedConformance;
     nested \<leftarrow> popDependentProtocolConformance;
     ret (createWithChildren K_DependentProtocolConformanceAssociated
            [nested, associatedConformance, index])
   }"

definition demangleRetroactiveConformance :: "node option dm" where
  "demangleRetroactiveConformance = do {
     index \<leftarrow> demangleIndexAsNode;
     conformance \<leftarrow> popAnyProtocolConformance;
     ret (createWithChildren K_RetroactiveConformance [index, conformance])
   }"

end
