(* ===== verification/Demangler_Generics.thy ===== *)
theory Demangler_Generics
  imports Demangler_Types
begin

text \<open>
  Bound generic types and lowered function types (\<open>Demangler.cpp\<close>): the lists of generic arguments on
  the stack, their distribution over the contexts of a nominal type, and \<open>demangleImplFunctionType\<close>.
\<close>

section \<open>Bound generic types\<close>

text \<open>The endless loop of \<open>demangleBoundGenerics\<close>: the type lists, or \<open>None\<close> for \<open>return false\<close>.\<close>

fun type_lists_loop :: "nat \<Rightarrow> node list option dm" where
  "type_lists_loop 0 = stuck None"
| "type_lists_loop (Suc fuel) = do {
     tys \<leftarrow> popNodes_while (\<lambda>k. k = K_Type);
     let TList = reverseChildren (Node K_TypeList tys) 0;
     empty \<leftarrow> popNode_kind K_EmptyList;
     if empty \<noteq> None then ret (Some [TList])
     else do {
       marker \<leftarrow> popNode_kind K_FirstElementMarker;
       if marker = None then null
       else do { rest \<leftarrow> type_lists_loop fuel; ret (map_option (\<lambda>ls. TList # ls) rest) }
     }
   }"

text \<open>The type lists and the retroactive conformances, which may be null.\<close>

definition demangleBoundGenerics :: "(node list \<times> node option) option dm" where
  "demangleBoundGenerics = do {
     cs \<leftarrow> popNodes_while (\<lambda>k. k = K_RetroactiveConformance);
     let RetroactiveConformances =
       (if cs = [] then None else Some (reverseChildren (Node K_TypeList cs) 0));
     n \<leftarrow> read_state (\<lambda>s. length (NodeStack s));
     TypeListList \<leftarrow> type_lists_loop (n + 1);
     ret (map_option (\<lambda>ls. (ls, RetroactiveConformances)) TypeListList)
   }"

lemma size_getChildren: "c \<in> set (getChildren n) \<Longrightarrow> size c < size n"
  by (cases n) (auto simp: less_Suc_eq_le intro: size_list_estimation')

lemma size_getChild: "getChild n i = Some c \<Longrightarrow> size c < size n"
  by (rule size_getChildren) (auto simp: getChild_def getNumChildren_def split: if_splits)

definition bound_generic_kinds :: "(Kind \<times> Kind) list" where
  "bound_generic_kinds =
     [(K_Class, K_BoundGenericClass),
      (K_Structure, K_BoundGenericStructure),
      (K_Enum, K_BoundGenericEnum),
      (K_Protocol, K_BoundGenericProtocol),
      (K_OtherNominalType, K_BoundGenericOtherNominalType),
      (K_TypeAlias, K_BoundGenericTypeAlias)]"

text \<open>The last part of \<open>demangleBoundGenericArgs\<close>: the arguments of this level are applied.\<close>

definition apply_generic_args :: "node \<Rightarrow> node \<Rightarrow> node option" where
  "apply_generic_args Nominal args =
     (if getNumChildren args = 0 then Some Nominal
      else if getKind Nominal \<in> {K_Function, K_Constructor}
      then createWithChildren K_BoundGenericFunction [Some Nominal, Some args]
      else
        (case map_of bound_generic_kinds (getKind Nominal) of
           Some kind \<Rightarrow> createWithChildren kind [createType (Some Nominal), Some args]
         | None \<Rightarrow> None))"

function demangleBoundGenericArgs :: "node \<Rightarrow> node list \<Rightarrow> nat \<Rightarrow> node option" where
  "demangleBoundGenericArgs Nominal TypeLists TypeListIdx =
     (if TypeListIdx \<ge> length TypeLists then None
      else if getKind Nominal \<in> {K_TypeSymbolicReference, K_ProtocolSymbolicReference} then
        createWithChildren K_BoundGenericOtherNominalType
          [createType (Some Nominal),
           Some (Node K_TypeList (concat (map getChildren (rev (drop TypeListIdx TypeLists)))))]
      else
        (case getChildren Nominal of
           [] \<Rightarrow> None
         | Context # others \<Rightarrow>
             let consumesGenericArgs = nodeConsumesGenericArgs (getKind Nominal);
                 args = TypeLists ! TypeListIdx;
                 Idx = (if consumesGenericArgs then TypeListIdx + 1 else TypeListIdx);
                 NewNominal =
                   (if Idx < length TypeLists then
                      let BoundParent =
                        (if getKind Context = K_Extension then
                           let Ext = createWithChildren K_Extension
                             [getFirstChild Context,
                              (case getChild Context 1 of
                                 None \<Rightarrow> None
                               | Some ty \<Rightarrow> demangleBoundGenericArgs ty TypeLists Idx)]
                           in if getNumChildren Context = 3 then addChild_to Ext (getChild Context 2)
                              else Ext
                         else demangleBoundGenericArgs Context TypeLists Idx)
                      in map_option (\<lambda>P. Node (getKind Nominal) (P # others)) BoundParent
                    else Some Nominal)
             in case NewNominal of
                  None \<Rightarrow> None
                | Some N \<Rightarrow> if \<not> consumesGenericArgs then Some N else apply_generic_args N args))"
  by pat_completeness auto
termination
proof (relation "measure (\<lambda>(n, _, _). size n)", goal_cases)
  case (2 Nominal TypeLists i Context others _ _ Idx ty)
  then have "size ty < size Context" "size Context < size Nominal"
    by (auto intro: size_getChildren size_getChild)
  then show ?case by simp
qed (auto intro: size_getChildren)

declare demangleBoundGenericArgs.simps [simp del]

text \<open>
  With one list and no arguments in it, \<open>demangleBoundGenericArgs\<close> returns the nominal type itself. If there are
  retroactive conformances, the code then adds them to this node, although the type and a substitution point to it;
  a conformance of the type itself even closes a cycle. A tree of the model has no pointers and no cycles, so that
  the run is stuck there.
\<close>

definition returns_nominal :: "node \<Rightarrow> node list \<Rightarrow> bool" where
  "returns_nominal Nominal TypeLists \<longleftrightarrow>
     getKind Nominal \<notin> {K_TypeSymbolicReference, K_ProtocolSymbolicReference}
     \<and> nodeConsumesGenericArgs (getKind Nominal) \<and> length TypeLists = 1 \<and> getNumChildren (hd TypeLists) = 0"

lemma returned_nominal:
  "returns_nominal Nominal TypeLists \<Longrightarrow> demangleBoundGenericArgs Nominal TypeLists 0 = Some BoundNode \<Longrightarrow>
    BoundNode = Nominal"
  by (cases TypeLists) (auto simp: returns_nominal_def demangleBoundGenericArgs.simps [of Nominal] apply_generic_args_def
      split: list.splits)

definition demangleBoundGenericType :: "node option dm" where
  "demangleBoundGenericType = do {
     generics \<leftarrow> demangleBoundGenerics;
     case generics of
       None \<Rightarrow> null
     | Some (TypeListList, RetroactiveConformances) \<Rightarrow> do {
         Nominal \<leftarrow> popTypeAndGetAnyGeneric;
         case Nominal of
           None \<Rightarrow> null
         | Some N \<Rightarrow>
             (case demangleBoundGenericArgs N TypeListList 0 of
                None \<Rightarrow> null
              | Some BoundNode \<Rightarrow> do {
                  (if RetroactiveConformances \<noteq> None \<and> returns_nominal N TypeListList then stuck () else ret ());
                  let NTy = createType (addChild_to (Some BoundNode) RetroactiveConformances);
                  addSubstitution NTy;
                  ret NTy
                })
       }
   }"

section \<open>Lowered function types\<close>

definition param_conventions :: "(char \<times> string) list" where
  "param_conventions =
     [(CHR ''i'', ''@in''),
      (CHR ''c'', ''@in_constant''),
      (CHR ''l'', ''@inout''),
      (CHR ''b'', ''@inout_aliasable''),
      (CHR ''n'', ''@in_guaranteed''),
      (CHR ''x'', ''@owned''),
      (CHR ''g'', ''@guaranteed''),
      (CHR ''e'', ''@deallocating''),
      (CHR ''y'', ''@unowned'')]"

definition result_conventions :: "(char \<times> string) list" where
  "result_conventions =
     [(CHR ''r'', ''@out''),
      (CHR ''o'', ''@owned''),
      (CHR ''d'', ''@unowned''),
      (CHR ''u'', ''@unowned_inner_pointer''),
      (CHR ''a'', ''@autoreleased'')]"

definition impl_convention :: "(char \<times> string) list \<Rightarrow> Kind \<Rightarrow> node option dm" where
  "impl_convention table ConvKind = do {
     c \<leftarrow> nextChar;
     case map_of table c of
       None \<Rightarrow> do { pushBack; null }
     | Some attr \<Rightarrow> ret (createWithChild ConvKind (Some (TextNode K_ImplConvention attr)))
   }"

definition demangleImplParamConvention :: "Kind \<Rightarrow> node option dm" where
  "demangleImplParamConvention = impl_convention param_conventions"

definition demangleImplResultConvention :: "Kind \<Rightarrow> node option dm" where
  "demangleImplResultConvention = impl_convention result_conventions"

definition demangleImplParameterResultDifferentiability :: "node option dm" where
  "demangleImplParameterResultDifferentiability = do {
     w \<leftarrow> nextIf (CHR ''w'');
     ret (Some (TextNode K_ImplParameterResultDifferentiability (if w then ''@noDerivative'' else [])))
   }"

text \<open>
  The substitutions of a lowered function type, after \<open>s\<close> and after \<open>I\<close>: the node with the single list
  of types and the conformances. Outer \<open>None\<close> is an early return of null.
\<close>

definition impl_substitutions :: "Kind \<Rightarrow> bool \<Rightarrow> node option dm" where
  "impl_substitutions kind hasSignature = do {
     generics \<leftarrow> demangleBoundGenerics;
     case generics of
       None \<Rightarrow> null
     | Some (substs, RetroConformances) \<Rightarrow> do {
         sig \<leftarrow> (if hasSignature then popNode_kind K_DependentGenericSignature else null);
         if hasSignature \<and> sig = None then null
         else if length substs \<noteq> 1 then stuck None
         else ret (addChild_to (addChild (addChild_to (Some (createNode kind)) sig)
                                  (Some (substs ! 0))) RetroConformances)
       }
   }"

definition impl_opt_substitutions :: "char \<Rightarrow> Kind \<Rightarrow> bool \<Rightarrow> node \<Rightarrow> node option dm" where
  "impl_opt_substitutions c kind hasSignature type = do {
     b \<leftarrow> nextIf c;
     if b then do {
       subsNode \<leftarrow> impl_substitutions kind hasSignature;
       ret (addChild (Some type) subsNode)
     }
     else ret (Some type)
   }"

definition callee_conventions :: "(char \<times> string) list" where
  "callee_conventions =
     [(CHR ''y'', ''@callee_unowned''),
      (CHR ''g'', ''@callee_guaranteed''),
      (CHR ''x'', ''@callee_owned''),
      (CHR ''t'', ''@convention(thin)'')]"

definition function_conventions :: "(char \<times> string) list" where
  "function_conventions =
     [(CHR ''B'', ''block''),
      (CHR ''C'', ''c''),
      (CHR ''M'', ''method''),
      (CHR ''O'', ''objc_method''),
      (CHR ''K'', ''closure''),
      (CHR ''W'', ''witness_method'')]"

text \<open>The function convention, and whether a Clang type follows.\<close>

definition impl_function_convention :: "(string option \<times> bool) dm" where
  "impl_function_convention = do {
     c \<leftarrow> nextChar;
     if c = CHR ''z'' then do {
       c2 \<leftarrow> nextChar;
       if c2 = CHR ''B'' then ret (Some ''block'', True)
       else if c2 = CHR ''C'' then ret (Some ''c'', True)
       else do { pushBack; pushBack; ret (None, False) }
     }
     else
       (case map_of function_conventions c of
          Some FConv \<Rightarrow> ret (Some FConv, False)
        | None \<Rightarrow> do { pushBack; ret (None, False) })
   }"

definition impl_add_convention :: "node \<Rightarrow> node dm" where
  "impl_add_convention type = do {
     (FConv, hasClangType) \<leftarrow> impl_function_convention;
     case FConv of
       None \<Rightarrow> ret type
     | Some name \<Rightarrow> do {
         let FAttrNode = Node K_ImplFunctionConvention [TextNode K_ImplFunctionConventionName name];
         FAttrNode \<leftarrow>
           (if hasClangType then do {
              ct \<leftarrow> demangleClangType;
              c \<leftarrow> deref ct;
              ret (Node_addChild FAttrNode c)
            }
            else ret FAttrNode);
         ret (Node_addChild type FAttrNode)
       }
   }"

definition impl_attribute :: "char \<Rightarrow> string \<Rightarrow> node \<Rightarrow> node dm" where
  "impl_attribute c attr type = do {
     b \<leftarrow> nextIf c;
     ret (if b then Node_addChild type (TextNode K_ImplFunctionAttribute attr) else type)
   }"

definition impl_coroutine :: "node \<Rightarrow> node dm" where
  "impl_coroutine type = do {
     a \<leftarrow> nextIf (CHR ''A'');
     if a then ret (Node_addChild type (TextNode K_ImplFunctionAttribute ''@yield_once''))
     else impl_attribute (CHR ''G'') ''@yield_many'' type
   }"

text \<open>The loops over parameters and results: the nodes they add to \<open>type\<close>, in order.\<close>

fun impl_conventions_loop :: "nat \<Rightarrow> node option dm \<Rightarrow> node list dm" where
  "impl_conventions_loop 0 convention = stuck []"
| "impl_conventions_loop (Suc fuel) convention = do {
     Param \<leftarrow> convention;
     case Param of
       None \<Rightarrow> ret []
     | Some p \<Rightarrow> do {
         Diff \<leftarrow> demangleImplParameterResultDifferentiability;
         rest \<leftarrow> impl_conventions_loop fuel convention;
         ret (the (addChild_to (Some p) Diff) # rest)
       }
   }"

fun impl_yields_loop :: "nat \<Rightarrow> node list option dm" where
  "impl_yields_loop 0 = stuck None"
| "impl_yields_loop (Suc fuel) = do {
     y \<leftarrow> nextIf (CHR ''Y'');
     if \<not> y then ret (Some [])
     else do {
       YieldResult \<leftarrow> demangleImplParamConvention K_ImplYield;
       case YieldResult of
         None \<Rightarrow> null
       | Some r \<Rightarrow> do { rest \<leftarrow> impl_yields_loop fuel; ret (map_option (\<lambda>rs. r # rs) rest) }
     }
   }"

text \<open>The last loop: the child \<open>n - Idx - 1\<close> of \<open>type\<close>, which has \<open>n\<close> children, gets a popped type.\<close>

fun impl_types_loop :: "nat list \<Rightarrow> node \<Rightarrow> node option dm" where
  "impl_types_loop [] type = ret (Some type)"
| "impl_types_loop (Idx # Idxs) type = do {
     ConvTy \<leftarrow> popNode_kind K_Type;
     case ConvTy of
       None \<Rightarrow> null
     | Some t \<Rightarrow> do {
         let i = getNumChildren type - Idx - 1;
         c \<leftarrow> deref (getChild type i);
         impl_types_loop Idxs (setChild type i (Node_addChild c t))
       }
   }"

text \<open>From the parameters on.\<close>

definition impl_params_and_results :: "node \<Rightarrow> node option dm" where
  "impl_params_and_results type = do {
     n \<leftarrow> read_state remaining;
     ps \<leftarrow> impl_conventions_loop (n + 1) (demangleImplParamConvention K_ImplParameter);
     n \<leftarrow> read_state remaining;
     rs \<leftarrow> impl_conventions_loop (n + 1) (demangleImplResultConvention K_ImplResult);
     n \<leftarrow> read_state remaining;
     ys \<leftarrow> impl_yields_loop (n + 1);
     case ys of
       None \<Rightarrow> null
     | Some ys \<Rightarrow> do {
         z \<leftarrow> nextIf (CHR ''z'');
         ErrorResult \<leftarrow> (if z then demangleImplResultConvention K_ImplErrorResult else null);
         if z \<and> ErrorResult = None then null
         else do {
           u \<leftarrow> nextIf (CHR ''_'');
           if \<not> u then null
           else do {
             let added = ps @ rs @ ys @ (case ErrorResult of Some e \<Rightarrow> [e] | None \<Rightarrow> []);
             type \<leftarrow> impl_types_loop [0..<length added] (foldl Node_addChild type added);
             ret (createType type)
           }
         }
       }
   }"

definition is_differentiability_kind :: "char \<Rightarrow> bool" where
  "is_differentiability_kind c \<longleftrightarrow> c \<in> {CHR ''d'', CHR ''l'', CHR ''f'', CHR ''r''}"

definition impl_differentiability :: "node \<Rightarrow> node dm" where
  "impl_differentiability type = do {
     c \<leftarrow> peekChar;
     if is_differentiability_kind c then do {
       c \<leftarrow> nextChar;
       ret (Node_addChild type (IndexNode K_ImplDifferentiabilityKind (word_of_nat (ord c))))
     }
     else ret type
   }"

definition demangleImplFunctionType :: "node option dm" where
  "demangleImplFunctionType = do {
     type \<leftarrow> impl_opt_substitutions (CHR ''s'') K_ImplPatternSubstitutions True
               (createNode K_ImplFunctionType);
     case type of None \<Rightarrow> null | Some type \<Rightarrow> do {
     type \<leftarrow> impl_opt_substitutions (CHR ''I'') K_ImplInvocationSubstitutions False type;
     case type of None \<Rightarrow> null | Some type \<Rightarrow> do {
       GenSig \<leftarrow> popNode_kind K_DependentGenericSignature;
       pseudo \<leftarrow> (if GenSig \<noteq> None then nextIf (CHR ''P'') else ret False);
       let GenSig = (if pseudo then changeKind GenSig K_DependentPseudogenericSignature else GenSig);
       escaping \<leftarrow> nextIf (CHR ''e'');
       let type = (if escaping then Node_addChild type (createNode K_ImplEscaping) else type);
       type \<leftarrow> impl_differentiability type;
       c \<leftarrow> nextChar;
       case map_of callee_conventions c of
         None \<Rightarrow> null
       | Some CAttr \<Rightarrow> do {
           let type = Node_addChild type (TextNode K_ImplConvention CAttr);
           type \<leftarrow> impl_add_convention type;
           type \<leftarrow> impl_coroutine type;
           type \<leftarrow> impl_attribute (CHR ''h'') ''@Sendable'' type;
           type \<leftarrow> impl_attribute (CHR ''H'') ''@async'' type;
           impl_params_and_results (the (addChild_to (Some type) GenSig))
         }
     }}
   }"

end
