(* ===== verification/Demangler_Dependent.thy ===== *)
theory Demangler_Dependent
  imports Demangler_Generics
begin

text \<open>
  Dependent types and what refers to them (\<open>Demangler.cpp\<close>): generic parameters and associated types,
  archetypes and opaque types, protocol conformances, generic signatures and requirements, and the
  metadata symbols of \<open>demangleMetatype\<close>.
\<close>

section \<open>Generic parameters and associated types\<close>

definition getDependentGenericParamType :: "int \<Rightarrow> int \<Rightarrow> node option" where
  "getDependentGenericParamType depth index =
     (if depth < 0 \<or> index < 0 then None
      else Some (Node K_DependentGenericParamType
        [IndexNode K_Index (word_of_int depth), IndexNode K_Index (word_of_int index)]))"

definition demangleGenericParamIndex :: "node option dm" where
  "demangleGenericParamIndex = do {
     d \<leftarrow> nextIf (CHR ''d'');
     if d then do {
       i \<leftarrow> demangleIndex;
       let depth = int32 (i + 1);
       index \<leftarrow> demangleIndex;
       ret (getDependentGenericParamType depth index)
     }
     else do {
       z \<leftarrow> nextIf (CHR ''z'');
       if z then ret (getDependentGenericParamType 0 0)
       else do {
         i \<leftarrow> demangleIndex;
         ret (getDependentGenericParamType 0 (int32 (i + 1)))
       }
     }
   }"

definition popAssocTypeName :: "node option dm" where
  "popAssocTypeName = do {
     Proto \<leftarrow> popNode_kind K_Type;
     isProtocol \<leftarrow>
       (case Proto of
          None \<Rightarrow> ret True
        | Some p \<Rightarrow> (case isProtocolNode p of Some b \<Rightarrow> ret b | None \<Rightarrow> stuck False));
     if \<not> isProtocol then null
     else do {
       Proto \<leftarrow> (if Proto \<noteq> None then ret Proto else popNode_kind K_ProtocolSymbolicReference);
       Id \<leftarrow> popNode_kind K_Identifier;
       let AssocTy = createWithChild K_DependentAssociatedTypeRef Id;
       ret (addChild_to AssocTy Proto)
     }
   }"

text \<open>The loop that pops the names of a path of associated types, the last one first.\<close>

fun assoc_names_loop :: "nat \<Rightarrow> node list option dm" where
  "assoc_names_loop 0 = stuck None"
| "assoc_names_loop (Suc fuel) = do {
     marker \<leftarrow> popNode_kind K_FirstElementMarker;
     AssocTyName \<leftarrow> popAssocTypeName;
     case AssocTyName of
       None \<Rightarrow> null
     | Some a \<Rightarrow>
         if marker \<noteq> None then ret (Some [a])
         else do { rest \<leftarrow> assoc_names_loop fuel; ret (map_option (\<lambda>as. a # as) rest) }
   }"

definition popAssocTypePath :: "node option dm" where
  "popAssocTypePath = do {
     n \<leftarrow> read_state (\<lambda>s. length (NodeStack s));
     names \<leftarrow> assoc_names_loop (n + 1);
     ret (map_option (\<lambda>as. reverseChildren (Node K_AssocTypePath as) 0) names)
   }"

definition base_type :: "node option \<Rightarrow> node option dm" where
  "base_type Base = (if Base \<noteq> None then ret (createType Base) else popNode_kind K_Type)"

definition demangleAssociatedTypeSimple :: "node option \<Rightarrow> node option dm" where
  "demangleAssociatedTypeSimple Base = do {
     ATName \<leftarrow> popAssocTypeName;
     BaseTy \<leftarrow> base_type Base;
     ret (createType (createWithChildren K_DependentMemberType [BaseTy, ATName]))
   }"

definition member_type :: "node option \<Rightarrow> node \<Rightarrow> node option" where
  "member_type BaseTy AssocTy =
     (let depTy = addChild (Some (createNode K_DependentMemberType)) BaseTy
      in createType (addChild depTy (Some AssocTy)))"

definition demangleAssociatedTypeCompound :: "node option \<Rightarrow> node option dm" where
  "demangleAssociatedTypeCompound Base = do {
     n \<leftarrow> read_state (\<lambda>s. length (NodeStack s));
     AssocTyNames \<leftarrow> assoc_names_loop (n + 1);
     case AssocTyNames of
       None \<Rightarrow> null
     | Some names \<Rightarrow> do {
         BaseTy \<leftarrow> base_type Base;
         ret (foldl member_type BaseTy (rev names))
       }
   }"

section \<open>Archetypes\<close>

definition with_substitution :: "node option dm \<Rightarrow> node option dm" where
  "with_substitution m = do { T \<leftarrow> m; addSubstitution T; ret T }"

definition demangleOpaqueType :: "node option dm" where
  "demangleOpaqueType = do {
     index \<leftarrow> demangleIndex;
     generics \<leftarrow> demangleBoundGenerics;
     case generics of
       None \<Rightarrow> null
     | Some (boundGenericArgs, retroactiveConformances) \<Rightarrow> do {
         Name \<leftarrow> popNode;
         case Name of
           None \<Rightarrow> null
         | Some n \<Rightarrow> do {
             let opaque = Node K_OpaqueType [n, IndexNode K_Index (word_of_int index)];
             let boundGenerics = Node K_TypeList (rev boundGenericArgs);
             let opaque = Node_addChild opaque boundGenerics;
             let opaqueTy = createType (addChild_to (Some opaque) retroactiveConformances);
             addSubstitution opaqueTy;
             ret opaqueTy
           }
       }
   }"

definition demangleArchetype :: "node option dm" where
  "demangleArchetype = do {
     c \<leftarrow> nextChar;
     if c = CHR ''a'' then do {
       Ident \<leftarrow> popNode_kind K_Identifier;
       ArcheTy \<leftarrow> popTypeAndGetChild;
       let AssocTy = createType (createWithChildren K_AssociatedTypeRef [ArcheTy, Ident]);
       addSubstitution AssocTy;
       ret AssocTy
     }
     else if c = CHR ''O'' then do {
       definingContext \<leftarrow> popContext;
       ret (createWithChild K_OpaqueReturnTypeOf definingContext)
     }
     else if c = CHR ''o'' then demangleOpaqueType
     else if c = CHR ''r'' then ret (createType (Some (createNode K_OpaqueReturnType)))
     else if c = CHR ''x'' then with_substitution (demangleAssociatedTypeSimple None)
     else if c = CHR ''X'' then with_substitution (demangleAssociatedTypeCompound None)
     else if c = CHR ''y'' then with_substitution (do {
       Base \<leftarrow> demangleGenericParamIndex;
       demangleAssociatedTypeSimple Base
     })
     else if c = CHR ''Y'' then with_substitution (do {
       Base \<leftarrow> demangleGenericParamIndex;
       demangleAssociatedTypeCompound Base
     })
     else if c = CHR ''z'' then
       with_substitution (demangleAssociatedTypeSimple (getDependentGenericParamType 0 0))
     else if c = CHR ''Z'' then
       with_substitution (demangleAssociatedTypeCompound (getDependentGenericParamType 0 0))
     else null
   }"

section \<open>Protocol conformances\<close>

definition popProtocolConformance :: "node option dm" where
  "popProtocolConformance = do {
     GenSig \<leftarrow> popNode_kind K_DependentGenericSignature;
     Module \<leftarrow> popModule;
     Proto \<leftarrow> popProtocol;
     Type \<leftarrow> popNode_kind K_Type;
     (Ident, Type) \<leftarrow>
       (if Type \<noteq> None then ret (None, Type)
        else do {
          Ident \<leftarrow> popNode_kind K_Identifier;
          Type \<leftarrow> popNode_kind K_Type;
          ret (Ident, Type)
        });
     let Type = (if GenSig \<noteq> None
                 then createType (createWithChildren K_DependentGenericType [GenSig, Type]) else Type);
     let Conf = createWithChildren K_ProtocolConformance [Type, Proto, Module];
     ret (addChild_to Conf Ident)
   }"

definition conformance_child :: "Kind \<Rightarrow> node option dm" where
  "conformance_child kind = do { Conf \<leftarrow> popProtocolConformance; ret (createWithChild kind Conf) }"

definition protocol_child :: "Kind \<Rightarrow> node option dm" where
  "protocol_child kind = do { Proto \<leftarrow> popProtocol; ret (createWithChild kind Proto) }"

definition node_child :: "Kind \<Rightarrow> node option dm" where
  "node_child kind = do { Nd \<leftarrow> popNode; ret (createWithChild kind Nd) }"

definition entity_child :: "Kind \<Rightarrow> node option dm" where
  "entity_child kind = do { Nd \<leftarrow> popNode_if isEntity; ret (createWithChild kind Nd) }"

section \<open>Metadata\<close>

definition demanglePrivateContextDescriptor :: "node option dm" where
  "demanglePrivateContextDescriptor = do {
     c \<leftarrow> nextChar;
     if c = CHR ''E'' then do {
       Extension \<leftarrow> popContext;
       ret (createWithChild K_ExtensionDescriptor Extension)
     }
     else if c = CHR ''M'' then do {
       Module \<leftarrow> popModule;
       ret (createWithChild K_ModuleDescriptor Module)
     }
     else if c = CHR ''Y'' then do {
       Discriminator \<leftarrow> popNode;
       if Discriminator = None then null
       else do {
         Context \<leftarrow> popContext;
         ret (createWithChildren K_AnonymousDescriptor [Context, Discriminator])
       }
     }
     else if c = CHR ''X'' then do {
       Context \<leftarrow> popContext;
       ret (createWithChild K_AnonymousDescriptor Context)
     }
     else if c = CHR ''A'' then do {
       path \<leftarrow> popAssocTypePath;
       if path = None then null
       else do {
         base \<leftarrow> popNode_kind K_Type;
         ret (createWithChildren K_AssociatedTypeGenericParamRef [base, path])
       }
     }
     else null
   }"

text \<open>The \<open>case\<close>s of \<open>demangleMetatype\<close> that wrap a popped type, and those that wrap any popped node.\<close>

definition metatype_of_type :: "(char \<times> Kind) list" where
  "metatype_of_type =
     [(CHR ''a'', K_TypeMetadataAccessFunction),
      (CHR ''b'', K_CanonicalSpecializedGenericTypeMetadataAccessFunction),
      (CHR ''B'', K_ReflectionMetadataBuiltinDescriptor),
      (CHR ''D'', K_TypeMetadataDemanglingCache),
      (CHR ''f'', K_FullTypeMetadata),
      (CHR ''F'', K_ReflectionMetadataFieldDescriptor),
      (CHR ''i'', K_TypeMetadataInstantiationFunction),
      (CHR ''I'', K_TypeMetadataInstantiationCache),
      (CHR ''l'', K_TypeMetadataSingletonInitializationCache),
      (CHR ''L'', K_TypeMetadataLazyCache),
      (CHR ''m'', K_Metaclass),
      (CHR ''M'', K_CanonicalSpecializedGenericMetaclass),
      (CHR ''n'', K_NominalTypeDescriptor),
      (CHR ''N'', K_NoncanonicalSpecializedGenericTypeMetadata),
      (CHR ''o'', K_ClassMetadataBaseOffset),
      (CHR ''P'', K_GenericTypeMetadataPattern),
      (CHR ''r'', K_TypeMetadataCompletionFunction),
      (CHR ''s'', K_ObjCResilientClassStub),
      (CHR ''t'', K_FullObjCResilientClassStub),
      (CHR ''u'', K_MethodLookupFunction),
      (CHR ''U'', K_ObjCMetadataUpdateFunction),
      (CHR ''z'', K_CanonicalPrespecializedGenericTypeCachingOnceToken)]"

definition metatype_of_node :: "(char \<times> Kind) list" where
  "metatype_of_node =
     [(CHR ''g'', K_OpaqueTypeDescriptorAccessor),
      (CHR ''h'', K_OpaqueTypeDescriptorAccessorImpl),
      (CHR ''j'', K_OpaqueTypeDescriptorAccessorKey),
      (CHR ''J'', K_NoncanonicalSpecializedGenericTypeMetadataCache),
      (CHR ''k'', K_OpaqueTypeDescriptorAccessorVar),
      (CHR ''K'', K_MetadataInstantiationCache),
      (CHR ''Q'', K_OpaqueTypeDescriptor)]"

definition metatype_superclass :: "node option dm" where
  "metatype_superclass = do {
     Ty \<leftarrow> popNode_kind K_Type;
     case Ty of
       None \<Rightarrow> null
     | Some t \<Rightarrow> do {
         c \<leftarrow> deref (getChild t 0);
         if \<not> isAnyGeneric (getKind c) then null
         else ret (createWithChild K_ReflectionMetadataSuperclassDescriptor (Some c))
       }
   }"

definition demangleMetatype :: "node option dm" where
  "demangleMetatype = do {
     c \<leftarrow> nextChar;
     case map_of metatype_of_type c of
       Some kind \<Rightarrow> createWithPoppedType kind
     | None \<Rightarrow>
     (case map_of metatype_of_node c of
        Some kind \<Rightarrow> node_child kind
      | None \<Rightarrow>
          if c = CHR ''A'' then conformance_child K_ReflectionMetadataAssocTypeDescriptor
          else if c = CHR ''c'' then conformance_child K_ProtocolConformanceDescriptor
          else if c = CHR ''C'' then metatype_superclass
          else if c = CHR ''p'' then protocol_child K_ProtocolDescriptor
          else if c = CHR ''S'' then protocol_child K_ProtocolSelfConformanceDescriptor
          else if c = CHR ''V'' then entity_child K_PropertyDescriptor
          else if c = CHR ''X'' then demanglePrivateContextDescriptor
          else null)
   }"

section \<open>Generic signatures and requirements\<close>

fun param_counts_loop :: "nat \<Rightarrow> node list option dm" where
  "param_counts_loop 0 = stuck None"
| "param_counts_loop (Suc fuel) = do {
     l \<leftarrow> nextIf (CHR ''l'');
     if l then ret (Some [])
     else do {
       z \<leftarrow> nextIf (CHR ''z'');
       count \<leftarrow> (if z then ret 0 else do { i \<leftarrow> demangleIndex; ret (int32 (i + 1)) });
       if count < 0 then null
       else do {
         rest \<leftarrow> param_counts_loop fuel;
         ret (map_option (\<lambda>cs. IndexNode K_DependentGenericParamCount (word_of_int count) # cs) rest)
       }
     }
   }"

definition demangleGenericSignature :: "bool \<Rightarrow> node option dm" where
  "demangleGenericSignature hasParamCounts = do {
     n \<leftarrow> read_state remaining;
     counts \<leftarrow> (if hasParamCounts then param_counts_loop (n + 1)
               else ret (Some [IndexNode K_DependentGenericParamCount 1]));
     case counts of
       None \<Rightarrow> null
     | Some cs \<Rightarrow> do {
         Reqs \<leftarrow> popNodes_while isRequirement;
         let Sig = Node K_DependentGenericSignature (cs @ Reqs);
         ret (Some (reverseChildren Sig (length cs)))
       }
   }"

datatype requirement_type = RT_Generic | RT_Assoc | RT_CompoundAssoc | RT_Substitution

datatype requirement_constraint = RC_Protocol | RC_BaseClass | RC_SameType | RC_Layout

definition requirement_codes :: "(char \<times> requirement_constraint \<times> requirement_type) list" where
  "requirement_codes =
     [(CHR ''c'', RC_BaseClass, RT_Assoc),
      (CHR ''C'', RC_BaseClass, RT_CompoundAssoc),
      (CHR ''b'', RC_BaseClass, RT_Generic),
      (CHR ''B'', RC_BaseClass, RT_Substitution),
      (CHR ''t'', RC_SameType, RT_Assoc),
      (CHR ''T'', RC_SameType, RT_CompoundAssoc),
      (CHR ''s'', RC_SameType, RT_Generic),
      (CHR ''S'', RC_SameType, RT_Substitution),
      (CHR ''m'', RC_Layout, RT_Assoc),
      (CHR ''M'', RC_Layout, RT_CompoundAssoc),
      (CHR ''l'', RC_Layout, RT_Generic),
      (CHR ''L'', RC_Layout, RT_Substitution),
      (CHR ''p'', RC_Protocol, RT_Assoc),
      (CHR ''P'', RC_Protocol, RT_CompoundAssoc),
      (CHR ''Q'', RC_Protocol, RT_Substitution)]"

definition requirement_code :: "(requirement_constraint \<times> requirement_type) dm" where
  "requirement_code = do {
     c \<leftarrow> nextChar;
     case map_of requirement_codes c of
       Some r \<Rightarrow> ret r
     | None \<Rightarrow> do { pushBack; ret (RC_Protocol, RT_Generic) }
   }"

fun constrained_type :: "requirement_type \<Rightarrow> node option dm" where
  "constrained_type RT_Generic = do { P \<leftarrow> demangleGenericParamIndex; ret (createType P) }"
| "constrained_type RT_Assoc =
     with_substitution (do { P \<leftarrow> demangleGenericParamIndex; demangleAssociatedTypeSimple P })"
| "constrained_type RT_CompoundAssoc =
     with_substitution (do { P \<leftarrow> demangleGenericParamIndex; demangleAssociatedTypeCompound P })"
| "constrained_type RT_Substitution = popNode_kind K_Type"

definition layout_names :: string where
  "layout_names = ''URNCDT''"

text \<open>A layout constraint is its letter, for \<open>E\<close>, \<open>e\<close>, \<open>M\<close> and \<open>m\<close> with a size, for \<open>E\<close> and \<open>M\<close> also
  with an alignment.\<close>

definition layout_requirement :: "node option \<Rightarrow> node option dm" where
  "layout_requirement ConstrTy = do {
     c \<leftarrow> nextChar;
     let LayoutRequirement = createWithChildren K_DependentGenericLayoutRequirement
       [ConstrTy, Some (TextNode K_Identifier [c])];
     if c \<in> set layout_names then ret LayoutRequirement
     else if c \<in> {CHR ''E'', CHR ''e'', CHR ''M'', CHR ''m''} then do {
       size \<leftarrow> demangleIndexAsNode;
       if size = None then null
       else do {
         alignment \<leftarrow> (if c \<in> {CHR ''E'', CHR ''M''} then demangleIndexAsNode else null);
         ret (addChild_to (addChild_to LayoutRequirement size) alignment)
       }
     }
     else null
   }"

definition demangleGenericRequirement :: "node option dm" where
  "demangleGenericRequirement = do {
     (ConstraintKind, TypeKind) \<leftarrow> requirement_code;
     ConstrTy \<leftarrow> constrained_type TypeKind;
     case ConstraintKind of
       RC_Protocol \<Rightarrow> do {
         P \<leftarrow> popProtocol;
         ret (createWithChildren K_DependentGenericConformanceRequirement [ConstrTy, P])
       }
     | RC_BaseClass \<Rightarrow> do {
         Ty \<leftarrow> popNode_kind K_Type;
         ret (createWithChildren K_DependentGenericConformanceRequirement [ConstrTy, Ty])
       }
     | RC_SameType \<Rightarrow> do {
         Ty \<leftarrow> popNode_kind K_Type;
         ret (createWithChildren K_DependentGenericSameTypeRequirement [ConstrTy, Ty])
       }
     | RC_Layout \<Rightarrow> layout_requirement ConstrTy
   }"

definition demangleGenericType :: "node option dm" where
  "demangleGenericType = do {
     GenSig \<leftarrow> popNode_kind K_DependentGenericSignature;
     Ty \<leftarrow> popNode_kind K_Type;
     ret (createType (createWithChildren K_DependentGenericType [GenSig, Ty]))
   }"

end
