(* ===== verification/Demangler_Entities.thy ===== *)
theory Demangler_Entities
  imports Demangler_Dependent
begin

text \<open>
  Entities and special types (\<open>Demangler.cpp\<close>): variables, subscripts, constructors, closures and their
  accessors, the types of \<open>demangleSpecialType\<close>, protocol lists, value witnesses and the witness symbols
  of \<open>demangleWitness\<close>.
\<close>

section \<open>Accessors and entities\<close>

definition accessor_kinds :: "(char \<times> Kind) list" where
  "accessor_kinds =
     [(CHR ''m'', K_MaterializeForSet),
      (CHR ''s'', K_Setter),
      (CHR ''g'', K_Getter),
      (CHR ''G'', K_GlobalGetter),
      (CHR ''w'', K_WillSet),
      (CHR ''W'', K_DidSet),
      (CHR ''r'', K_ReadAccessor),
      (CHR ''M'', K_ModifyAccessor)]"

definition mutable_addressors :: "(char \<times> Kind) list" where
  "mutable_addressors =
     [(CHR ''O'', K_OwningMutableAddressor),
      (CHR ''o'', K_NativeOwningMutableAddressor),
      (CHR ''P'', K_NativePinningMutableAddressor),
      (CHR ''u'', K_UnsafeMutableAddressor)]"

definition addressors :: "(char \<times> Kind) list" where
  "addressors =
     [(CHR ''O'', K_OwningAddressor),
      (CHR ''o'', K_NativeOwningAddressor),
      (CHR ''p'', K_NativePinningAddressor),
      (CHR ''u'', K_UnsafeAddressor)]"

definition addressor_of :: "(char \<times> Kind) list \<Rightarrow> node option \<Rightarrow> node option dm" where
  "addressor_of table ChildNode = do {
     c \<leftarrow> nextChar;
     case map_of table c of
       Some kind \<Rightarrow> ret (createWithChild kind ChildNode)
     | None \<Rightarrow> null
   }"

definition demangleAccessor :: "node option \<Rightarrow> node option dm" where
  "demangleAccessor ChildNode = do {
     c \<leftarrow> nextChar;
     case map_of accessor_kinds c of
       Some kind \<Rightarrow> ret (createWithChild kind ChildNode)
     | None \<Rightarrow>
         if c = CHR ''a'' then addressor_of mutable_addressors ChildNode
         else if c = CHR ''l'' then addressor_of addressors ChildNode
         else if c = CHR ''p'' then ret ChildNode
         else null
   }"

definition demangleEntity :: "Kind \<Rightarrow> node option dm" where
  "demangleEntity kind = do {
     Type \<leftarrow> popNode_kind K_Type;
     (LabelList, Type) \<leftarrow> popFunctionParamLabels Type;
     Name \<leftarrow> popNode_if isDeclName;
     Context \<leftarrow> popContext;
     ret (if LabelList \<noteq> None then createWithChildren kind [Context, Name, LabelList, Type]
          else createWithChildren kind [Context, Name, Type])
   }"

definition demangleVariable :: "node option dm" where
  "demangleVariable = do {
     Variable \<leftarrow> demangleEntity K_Variable;
     demangleAccessor Variable
   }"

definition demangleSubscript :: "node option dm" where
  "demangleSubscript = do {
     PrivateName \<leftarrow> popNode_kind K_PrivateDeclName;
     Type \<leftarrow> popNode_kind K_Type;
     (LabelList, Type) \<leftarrow> popFunctionParamLabels Type;
     Context \<leftarrow> popContext;
     if Type = None then null
     else do {
       let Subscript = addChild (Some (createNode K_Subscript)) Context;
       let Subscript = addChild_to Subscript LabelList;
       let Subscript = addChild Subscript Type;
       let Subscript = addChild_to Subscript PrivateName;
       demangleAccessor Subscript
     }
   }"

datatype entity_args = EA_None | EA_TypeAndMaybePrivateName | EA_TypeAndIndex | EA_Index

definition entity_codes :: "(char \<times> entity_args \<times> Kind) list" where
  "entity_codes =
     [(CHR ''D'', EA_None, K_Deallocator),
      (CHR ''d'', EA_None, K_Destructor),
      (CHR ''E'', EA_None, K_IVarDestroyer),
      (CHR ''e'', EA_None, K_IVarInitializer),
      (CHR ''i'', EA_None, K_Initializer),
      (CHR ''C'', EA_TypeAndMaybePrivateName, K_Allocator),
      (CHR ''c'', EA_TypeAndMaybePrivateName, K_Constructor),
      (CHR ''U'', EA_TypeAndIndex, K_ExplicitClosure),
      (CHR ''u'', EA_TypeAndIndex, K_ImplicitClosure),
      (CHR ''A'', EA_Index, K_DefaultArgumentInitializer),
      (CHR ''P'', EA_None, K_PropertyWrapperBackingInitializer),
      (CHR ''W'', EA_None, K_PropertyWrapperInitFromProjectedValue)]"

text \<open>The name or index, the type and the labels of a function entity.\<close>

fun entity_arguments :: "entity_args \<Rightarrow> (node option \<times> node option \<times> node option) dm" where
  "entity_arguments EA_None = ret (None, None, None)"
| "entity_arguments EA_TypeAndMaybePrivateName = do {
     Name \<leftarrow> popNode_kind K_PrivateDeclName;
     ParamType \<leftarrow> popNode_kind K_Type;
     (LabelList, ParamType) \<leftarrow> popFunctionParamLabels ParamType;
     ret (Name, ParamType, LabelList)
   }"
| "entity_arguments EA_TypeAndIndex = do {
     Index \<leftarrow> demangleIndexAsNode;
     ParamType \<leftarrow> popNode_kind K_Type;
     ret (Index, ParamType, None)
   }"
| "entity_arguments EA_Index = do {
     Index \<leftarrow> demangleIndexAsNode;
     ret (Index, None, None)
   }"

fun entity_node ::
  "entity_args \<Rightarrow> node option \<Rightarrow> node option \<Rightarrow> node option \<Rightarrow> node option \<Rightarrow> node option" where
  "entity_node EA_None Entity NameOrIndex ParamType LabelList = Entity"
| "entity_node EA_Index Entity NameOrIndex ParamType LabelList = addChild Entity NameOrIndex"
| "entity_node EA_TypeAndMaybePrivateName Entity NameOrIndex ParamType LabelList =
     addChild_to (addChild (addChild_to Entity LabelList) ParamType) NameOrIndex"
| "entity_node EA_TypeAndIndex Entity NameOrIndex ParamType LabelList =
     addChild (addChild Entity NameOrIndex) ParamType"

definition demangleFunctionEntity :: "node option dm" where
  "demangleFunctionEntity = do {
     c \<leftarrow> nextChar;
     if c = CHR ''p'' then demangleEntity K_GenericTypeParamDecl
     else
       (case map_of entity_codes c of
          None \<Rightarrow> null
        | Some (Args, kind) \<Rightarrow> do {
            (NameOrIndex, ParamType, LabelList) \<leftarrow> entity_arguments Args;
            Ctx \<leftarrow> popContext;
            ret (entity_node Args (createWithChild kind Ctx) NameOrIndex ParamType LabelList)
          })
   }"

section \<open>Protocol lists\<close>

fun protocol_list_loop :: "nat \<Rightarrow> node \<Rightarrow> node option dm" where
  "protocol_list_loop 0 TypeList = stuck None"
| "protocol_list_loop (Suc fuel) TypeList = do {
     marker \<leftarrow> popNode_kind K_FirstElementMarker;
     Proto \<leftarrow> popProtocol;
     case Proto of
       None \<Rightarrow> null
     | Some p \<Rightarrow> do {
         let TypeList = Node_addChild TypeList p;
         if marker \<noteq> None then ret (Some (reverseChildren TypeList 0))
         else protocol_list_loop fuel TypeList
       }
   }"

definition demangleProtocolList :: "node option dm" where
  "demangleProtocolList = do {
     empty \<leftarrow> popNode_kind K_EmptyList;
     n \<leftarrow> read_state (\<lambda>s. length (NodeStack s));
     TypeList \<leftarrow> (if empty \<noteq> None then ret (Some (createNode K_TypeList))
                 else protocol_list_loop (n + 1) (createNode K_TypeList));
     ret (createWithChild K_ProtocolList TypeList)
   }"

definition demangleProtocolListType :: "node option dm" where
  "demangleProtocolListType = do {
     ProtoList \<leftarrow> demangleProtocolList;
     ret (createType ProtoList)
   }"

section \<open>Special types\<close>

definition demangleMetatypeRepresentation :: "node option dm" where
  "demangleMetatypeRepresentation = do {
     c \<leftarrow> nextChar;
     if c = CHR ''t'' then ret (Some (TextNode K_MetatypeRepresentation ''@thin''))
     else if c = CHR ''T'' then ret (Some (TextNode K_MetatypeRepresentation ''@thick''))
     else if c = CHR ''o'' then ret (Some (TextNode K_MetatypeRepresentation ''@objc_metatype''))
     else null
   }"

definition special_function_types :: "(char \<times> Kind) list" where
  "special_function_types =
     [(CHR ''E'', K_NoEscapeFunctionType),
      (CHR ''A'', K_EscapingAutoClosureType),
      (CHR ''f'', K_ThinFunctionType),
      (CHR ''K'', K_AutoClosureType),
      (CHR ''U'', K_UncurriedFunctionType),
      (CHR ''L'', K_EscapingObjCBlock),
      (CHR ''B'', K_ObjCBlock),
      (CHR ''C'', K_CFunctionPointer)]"

definition special_type_wrappers :: "(char \<times> Kind) list" where
  "special_type_wrappers =
     [(CHR ''o'', K_Unowned),
      (CHR ''u'', K_Unmanaged),
      (CHR ''w'', K_Weak),
      (CHR ''b'', K_SILBoxType),
      (CHR ''D'', K_DynamicSelf),
      (CHR ''p'', K_ExistentialMetatype)]"

definition sugared_wrappers :: "(char \<times> Kind) list" where
  "sugared_wrappers =
     [(CHR ''q'', K_SugaredOptional), (CHR ''a'', K_SugaredArray), (CHR ''p'', K_SugaredParen)]"

definition wrap_type :: "Kind \<Rightarrow> node option dm" where
  "wrap_type kind = do { Ty \<leftarrow> popNode_kind K_Type; ret (createType (createWithChild kind Ty)) }"

definition metatype_with_representation :: "Kind \<Rightarrow> node option dm" where
  "metatype_with_representation kind = do {
     MTR \<leftarrow> demangleMetatypeRepresentation;
     Type \<leftarrow> popNode_kind K_Type;
     ret (createType (createWithChildren kind [MTR, Type]))
   }"

text \<open>A field of a box layout: an \<open>inout\<close> type is a mutable field.\<close>

definition box_field :: "node \<Rightarrow> node dm" where
  "box_field fieldType = do {
     c \<leftarrow> deref (getChild fieldType 0);
     if getKind c = K_InOut then do {
       ft \<leftarrow> deref (createType (getChild c 0));
       ret (Node K_SILBoxMutableField [ft])
     }
     else ret (Node K_SILBoxImmutableField [fieldType])
   }"

definition demangleBoxType :: "bool \<Rightarrow> node option dm" where
  "demangleBoxType generic = do {
     signature \<leftarrow> (if generic then popNode_kind K_DependentGenericSignature else null);
     if generic \<and> signature = None then null
     else do {
       genericArgs \<leftarrow> (if generic then popTypeList else null);
       if generic \<and> genericArgs = None then null
       else do {
         fieldTypes \<leftarrow> popTypeList;
         case fieldTypes of
           None \<Rightarrow> null
         | Some fts \<Rightarrow> do {
             fields \<leftarrow> traverse_list box_field (getChildren fts);
             let boxTy = Some (Node K_SILBoxTypeWithLayout [Node K_SILBoxLayout fields]);
             ret (createType (addChild_to (addChild_to boxTy signature) genericArgs))
           }
       }
     }
   }"

definition demangleAnonymousContext :: "node option dm" where
  "demangleAnonymousContext = do {
     types \<leftarrow> popTypeList;
     name \<leftarrow> popNode_kind K_Identifier;
     parent \<leftarrow> popContext;
     let anon = addChild (Some (createNode K_AnonymousContext)) name;
     let anon = addChild anon parent;
     ret (addChild anon types)
   }"

definition demangleSugaredType :: "node option dm" where
  "demangleSugaredType = do {
     c \<leftarrow> nextChar;
     case map_of sugared_wrappers c of
       Some kind \<Rightarrow> wrap_type kind
     | None \<Rightarrow>
         if c = CHR ''D'' then do {
           value \<leftarrow> popNode_kind K_Type;
           key \<leftarrow> popNode_kind K_Type;
           ret (createType (createWithChildren K_SugaredDictionary [key, value]))
         }
         else null
   }"

definition demangleClangFunctionType :: "node option dm" where
  "demangleClangFunctionType = do {
     cchar \<leftarrow> nextChar;
     if cchar = CHR ''B'' then popFunctionType K_ObjCBlock True
     else if cchar = CHR ''C'' then popFunctionType K_CFunctionPointer True
     else null
   }"

definition demangleSpecialType :: "node option dm" where
  "demangleSpecialType = do {
     specialChar \<leftarrow> nextChar;
     case map_of special_function_types specialChar of
       Some kind \<Rightarrow> popFunctionType kind False
     | None \<Rightarrow>
     (case map_of special_type_wrappers specialChar of
        Some kind \<Rightarrow> wrap_type kind
      | None \<Rightarrow>
          if specialChar = CHR ''z'' then demangleClangFunctionType
          else if specialChar = CHR ''M'' then metatype_with_representation K_Metatype
          else if specialChar = CHR ''m'' then metatype_with_representation K_ExistentialMetatype
          else if specialChar = CHR ''c'' then do {
            Superclass \<leftarrow> popNode_kind K_Type;
            Protocols \<leftarrow> demangleProtocolList;
            ret (createType (createWithChildren K_ProtocolListWithClass [Protocols, Superclass]))
          }
          else if specialChar = CHR ''l'' then do {
            Protocols \<leftarrow> demangleProtocolList;
            ret (createType (createWithChild K_ProtocolListWithAnyObject Protocols))
          }
          else if specialChar = CHR ''X'' then demangleBoxType True
          else if specialChar = CHR ''x'' then demangleBoxType False
          else if specialChar = CHR ''Y'' then demangleAnyGenericType K_OtherNominalType
          else if specialChar = CHR ''Z'' then demangleAnonymousContext
          else if specialChar = CHR ''e'' then ret (createType (Some (createNode K_ErrorType)))
          else if specialChar = CHR ''S'' then demangleSugaredType
          else null)
   }"

section \<open>Index subsets and differentiability\<close>

text \<open>The loop of \<open>demangleIndexSubset\<close> reads the longest run of \<open>S\<close> and \<open>U\<close>.\<close>

definition demangleIndexSubset :: "node option dm" where
  "demangleIndexSubset = do {
     str \<leftarrow> read_state (\<lambda>s. takeWhile (\<lambda>c. c = CHR ''S'' \<or> c = CHR ''U'') (drop (Pos s) (Text s)));
     update_state (\<lambda>s. s\<lparr>Pos := Pos s + length str\<rparr>);
     ret (if str = [] then None else Some (TextNode K_IndexSubset str))
   }"

definition demangleDifferentiableFunctionType :: "node option dm" where
  "demangleDifferentiableFunctionType = do {
     c \<leftarrow> nextChar;
     if is_differentiability_kind c
     then ret (Some (IndexNode K_DifferentiableFunctionType (word_of_nat (ord c))))
     else null
   }"

definition demangleDifferentiabilityWitness :: "node option dm" where
  "demangleDifferentiabilityWitness = do {
     optionalGenSig \<leftarrow> popNode_kind K_DependentGenericSignature;
     nodes \<leftarrow> popNodes_while (\<lambda>_. True);
     let result = reverseChildren (Node K_DifferentiabilityWitness nodes) 0;
     c \<leftarrow> nextChar;
     if \<not> is_differentiability_kind c then null
     else do {
       let result = addChild (Some result) (Some (IndexNode K_Index (word_of_nat (ord c))));
       params \<leftarrow> demangleIndexSubset;
       let result = addChild result params;
       p \<leftarrow> nextIf (CHR ''p'');
       if \<not> p then null
       else do {
         results \<leftarrow> demangleIndexSubset;
         let result = addChild result results;
         r \<leftarrow> nextIf (CHR ''r'');
         if \<not> r then null else ret (addChild_to result optionalGenSig)
       }
     }
   }"

section \<open>Witnesses\<close>

text \<open>\<open>ValueWitnessMangling.def\<close>: the code and the name of the value witnesses, in order.\<close>

definition value_witnesses :: "(string \<times> string) list" where
  "value_witnesses =
     [(''al'', ''AllocateBuffer''),
      (''ca'', ''AssignWithCopy''),
      (''ta'', ''AssignWithTake''),
      (''de'', ''DeallocateBuffer''),
      (''xx'', ''Destroy''),
      (''XX'', ''DestroyBuffer''),
      (''Xx'', ''DestroyArray''),
      (''CP'', ''InitializeBufferWithCopyOfBuffer''),
      (''Cp'', ''InitializeBufferWithCopy''),
      (''cp'', ''InitializeWithCopy''),
      (''Tk'', ''InitializeBufferWithTake''),
      (''tk'', ''InitializeWithTake''),
      (''pr'', ''ProjectBuffer''),
      (''TK'', ''InitializeBufferWithTakeOfBuffer''),
      (''Cc'', ''InitializeArrayWithCopy''),
      (''Tt'', ''InitializeArrayWithTakeFrontToBack''),
      (''tT'', ''InitializeArrayWithTakeBackToFront''),
      (''xs'', ''StoreExtraInhabitant''),
      (''xg'', ''GetExtraInhabitantIndex''),
      (''ug'', ''GetEnumTag''),
      (''up'', ''DestructiveProjectEnumData''),
      (''ui'', ''DestructiveInjectEnumTag''),
      (''et'', ''GetEnumTagSinglePayload''),
      (''st'', ''StoreEnumTagSinglePayload'')]"

text \<open>The position in the table, or \<open>-1\<close>.\<close>

fun table_index :: "string \<Rightarrow> (string \<times> string) list \<Rightarrow> int" where
  "table_index CodeStr [] = -1"
| "table_index CodeStr ((m, _) # es) =
     (if CodeStr = m then 0
      else let i = table_index CodeStr es in if i < 0 then -1 else i + 1)"

definition decodeValueWitnessKind :: "string \<Rightarrow> int" where
  "decodeValueWitnessKind CodeStr = table_index CodeStr value_witnesses"

definition demangleValueWitness :: "node option dm" where
  "demangleValueWitness = do {
     c0 \<leftarrow> nextChar;
     c1 \<leftarrow> nextChar;
     let kind = decodeValueWitnessKind [c0, c1];
     if kind < 0 then null
     else do {
       let VW = addChild_to (Some (createNode K_ValueWitness)) (Some (IndexNode K_Index (word_of_int kind)));
       Ty \<leftarrow> popNode_kind K_Type;
       ret (addChild VW Ty)
     }
   }"

definition witness_of_conformance :: "(char \<times> Kind) list" where
  "witness_of_conformance =
     [(CHR ''P'', K_ProtocolWitnessTable),
      (CHR ''p'', K_ProtocolWitnessTablePattern),
      (CHR ''G'', K_GenericProtocolWitnessTable),
      (CHR ''I'', K_GenericProtocolWitnessTableInstantiationFunction),
      (CHR ''r'', K_ResilientProtocolWitnessTable),
      (CHR ''a'', K_ProtocolWitnessTableAccessor)]"

definition outlined_kinds :: "(char \<times> Kind) list" where
  "outlined_kinds =
     [(CHR ''y'', K_OutlinedCopy),
      (CHR ''e'', K_OutlinedConsume),
      (CHR ''r'', K_OutlinedRetain),
      (CHR ''s'', K_OutlinedRelease),
      (CHR ''b'', K_OutlinedInitializeWithTake),
      (CHR ''c'', K_OutlinedInitializeWithCopy),
      (CHR ''d'', K_OutlinedAssignWithTake),
      (CHR ''f'', K_OutlinedAssignWithCopy),
      (CHR ''h'', K_OutlinedDestroy)]"

definition demangleOutlined :: "node option dm" where
  "demangleOutlined = do {
     c \<leftarrow> nextChar;
     case map_of outlined_kinds c of
       None \<Rightarrow> null
     | Some kind \<Rightarrow> do {
         sig \<leftarrow> popNode_kind K_DependentGenericSignature;
         Ty \<leftarrow> popNode_kind K_Type;
         ret (if sig \<noteq> None then createWithChildren kind [Ty, sig] else createWithChild kind Ty)
       }
   }"

fun once_vars_loop :: "nat \<Rightarrow> node list option dm" where
  "once_vars_loop 0 = stuck None"
| "once_vars_loop (Suc fuel) = do {
     marker \<leftarrow> popNode_kind K_FirstElementMarker;
     if marker = None then ret (Some [])
     else do {
       identifier \<leftarrow> popNode_if isDeclName;
       case identifier of
         None \<Rightarrow> null
       | Some i \<Rightarrow> do { rest \<leftarrow> once_vars_loop fuel; ret (map_option (\<lambda>is. i # is) rest) }
     }
   }"

definition demangleGlobalOnce :: "Kind \<Rightarrow> node option dm" where
  "demangleGlobalOnce kind = do {
     n \<leftarrow> read_state (\<lambda>s. length (NodeStack s));
     vars \<leftarrow> once_vars_loop (n + 1);
     case vars of
       None \<Rightarrow> null
     | Some vs \<Rightarrow> do {
         context \<leftarrow> popContext;
         ret (createWithChildren kind [context, Some (Node K_GlobalVariableOnceDeclList (rev vs))])
       }
   }"

definition demangleFieldOffset :: "node option dm" where
  "demangleFieldOffset = do {
     c \<leftarrow> nextChar;
     if c \<noteq> CHR ''d'' \<and> c \<noteq> CHR ''i'' then null
     else do {
       let directness = (if c = CHR ''d'' then 0 else 1);
       Entity \<leftarrow> popNode_if isEntity;
       ret (createWithChildren K_FieldOffset [Some (IndexNode K_Directness directness), Entity])
     }
   }"

definition lazy_witness :: "Kind \<Rightarrow> node option dm" where
  "lazy_witness kind = do {
     Conf \<leftarrow> popProtocolConformance;
     Type \<leftarrow> popNode_kind K_Type;
     ret (createWithChildren kind [Type, Conf])
   }"

definition demangleWitness :: "node option dm" where
  "demangleWitness = do {
     c \<leftarrow> nextChar;
     case map_of witness_of_conformance c of
       Some kind \<Rightarrow> conformance_child kind
     | None \<Rightarrow>
         if c = CHR ''C'' then entity_child K_EnumCase
         else if c = CHR ''V'' then createWithPoppedType K_ValueWitnessTable
         else if c = CHR ''v'' then demangleFieldOffset
         else if c = CHR ''S'' then protocol_child K_ProtocolSelfConformanceWitnessTable
         else if c = CHR ''l'' then lazy_witness K_LazyProtocolWitnessTableAccessor
         else if c = CHR ''L'' then lazy_witness K_LazyProtocolWitnessTableCacheVariable
         else if c = CHR ''t'' then do {
           Name \<leftarrow> popNode_if isDeclName;
           Conf \<leftarrow> popProtocolConformance;
           ret (createWithChildren K_AssociatedTypeMetadataAccessor [Conf, Name])
         }
         else if c = CHR ''T'' then do {
           ProtoTy \<leftarrow> popNode_kind K_Type;
           ConformingType \<leftarrow> popAssocTypePath;
           Conf \<leftarrow> popProtocolConformance;
           ret (createWithChildren K_AssociatedTypeWitnessTableAccessor
                  [Conf, ConformingType, ProtoTy])
         }
         else if c = CHR ''b'' then do {
           ProtoTy \<leftarrow> popNode_kind K_Type;
           Conf \<leftarrow> popProtocolConformance;
           ret (createWithChildren K_BaseWitnessTableAccessor [Conf, ProtoTy])
         }
         else if c = CHR ''O'' then demangleOutlined
         else if c = CHR ''Z'' then demangleGlobalOnce K_GlobalVariableOnceFunction
         else if c = CHR ''z'' then demangleGlobalOnce K_GlobalVariableOnceToken
         else if c = CHR ''J'' then demangleDifferentiabilityWitness
         else null
   }"

end
