(* ===== verification/Demangler_Thunks.thy ===== *)
theory Demangler_Thunks
  imports Demangler_Entities
begin

text \<open>
  Thunks and specializations (\<open>Demangler.cpp\<close>): \<open>demangleThunkOrSpecialization\<close> with the generic and
  function signature specializations, the key path and async thunks and the auto-differentiation
  thunks it dispatches to.
\<close>

section \<open>Auto-differentiation\<close>

definition demangleAutoDiffFunctionKind :: "node option dm" where
  "demangleAutoDiffFunctionKind = do {
     kind \<leftarrow> nextChar;
     if kind \<noteq> CHR ''f'' \<and> kind \<noteq> CHR ''r'' \<and> kind \<noteq> CHR ''d'' \<and> kind \<noteq> CHR ''p'' then null
     else ret (Some (IndexNode K_AutoDiffFunctionKind (word_of_nat (ord kind))))
   }"

text \<open>The end of the thunks: the kind, then two index subsets with a \<open>p\<close> and an \<open>r\<close> behind them.\<close>

definition autodiff_kind_and_subsets :: "node \<Rightarrow> node option option dm" where
  "autodiff_kind_and_subsets result = do {
     kind \<leftarrow> demangleAutoDiffFunctionKind;
     let result = addChild (Some result) kind;
     params \<leftarrow> demangleIndexSubset;
     let result = addChild result params;
     p \<leftarrow> nextIf (CHR ''p'');
     if \<not> p then null
     else do {
       results \<leftarrow> demangleIndexSubset;
       let result = addChild result results;
       r \<leftarrow> nextIf (CHR ''r'');
       if \<not> r then null else ret (Some result)
     }
   }"

definition demangleAutoDiffFunctionOrSimpleThunk :: "Kind \<Rightarrow> node option dm" where
  "demangleAutoDiffFunctionOrSimpleThunk nodeKind = do {
     nodes \<leftarrow> popNodes_while (\<lambda>_. True);
     r \<leftarrow> autodiff_kind_and_subsets (reverseChildren (Node nodeKind nodes) 0);
     case r of None \<Rightarrow> null | Some result \<Rightarrow> ret result
   }"

definition demangleAutoDiffSubsetParametersThunk :: "node option dm" where
  "demangleAutoDiffSubsetParametersThunk = do {
     nodes \<leftarrow> popNodes_while (\<lambda>_. True);
     r \<leftarrow> autodiff_kind_and_subsets (reverseChildren (Node K_AutoDiffSubsetParametersThunk nodes) 0);
     case r of
       None \<Rightarrow> null
     | Some result \<Rightarrow> do {
         toParams \<leftarrow> demangleIndexSubset;
         let result = addChild result toParams;
         p \<leftarrow> nextIf (CHR ''P'');
         if \<not> p then null else ret result
       }
   }"

definition demangleAutoDiffSelfReorderingReabstractionThunk :: "node option dm" where
  "demangleAutoDiffSelfReorderingReabstractionThunk = do {
     sig \<leftarrow> popNode_kind K_DependentGenericSignature;
     let result = addChild_to (Some (createNode K_AutoDiffSelfReorderingReabstractionThunk)) sig;
     from' \<leftarrow> popNode_kind K_Type;
     let result = addChild result from';
     to \<leftarrow> popNode_kind K_Type;
     let result = addChild result to;
     let result = map_option (\<lambda>r. reverseChildren r 0) result;
     kind \<leftarrow> demangleAutoDiffFunctionKind;
     ret (addChild result kind)
   }"

section \<open>Specializations\<close>

definition demangleSpecAttributes :: "Kind \<Rightarrow> node option dm" where
  "demangleSpecAttributes SpecKind = do {
     isSerialized \<leftarrow> nextIf (CHR ''q'');
     c \<leftarrow> nextChar;
     let PassID = int (ord c) - int (ord (CHR ''0''));
     if PassID < 0 \<or> PassID > 9 then null
     else ret (Some (Node SpecKind
       ((if isSerialized then [createNode K_IsSerialized] else [])
        @ [IndexNode K_SpecializationPassID (word_of_int PassID)])))
   }"

definition demangleGenericSpecialization :: "Kind \<Rightarrow> node option dm" where
  "demangleGenericSpecialization SpecKind = do {
     Spec \<leftarrow> demangleSpecAttributes SpecKind;
     case Spec of
       None \<Rightarrow> null
     | Some spec \<Rightarrow> do {
         TyList \<leftarrow> popTypeList;
         ret (map_option (\<lambda>l. foldl Node_addChild spec
           (map (\<lambda>Ty. Node K_GenericSpecializationParam [Ty]) (getChildren l))) TyList)
       }
   }"

definition demanglePartialSpecialization :: "Kind \<Rightarrow> node option dm" where
  "demanglePartialSpecialization SpecKind = do {
     Spec \<leftarrow> demangleSpecAttributes SpecKind;
     Ty \<leftarrow> popNode_kind K_Type;
     let Param = createWithChild K_GenericSpecializationParam Ty;
     ret (addChild Spec Param)
   }"

subsection \<open>Parameters of function specializations\<close>

text \<open>The enumeration \<open>FunctionSigSpecializationParamKind\<close> of \<open>Demangle.h\<close>.\<close>

definition FSS_ConstantPropFunction :: u64 where "FSS_ConstantPropFunction = 0"
definition FSS_ConstantPropGlobal :: u64 where "FSS_ConstantPropGlobal = 1"
definition FSS_ConstantPropInteger :: u64 where "FSS_ConstantPropInteger = 2"
definition FSS_ConstantPropFloat :: u64 where "FSS_ConstantPropFloat = 3"
definition FSS_ConstantPropString :: u64 where "FSS_ConstantPropString = 4"
definition FSS_ClosureProp :: u64 where "FSS_ClosureProp = 5"
definition FSS_BoxToValue :: u64 where "FSS_BoxToValue = 6"
definition FSS_BoxToStack :: u64 where "FSS_BoxToStack = 7"
definition FSS_Dead :: u64 where "FSS_Dead = 64"
definition FSS_OwnedToGuaranteed :: u64 where "FSS_OwnedToGuaranteed = 128"
definition FSS_SROA :: u64 where "FSS_SROA = 256"
definition FSS_GuaranteedToOwned :: u64 where "FSS_GuaranteedToOwned = 512"
definition FSS_ExistentialToGeneric :: u64 where "FSS_ExistentialToGeneric = 1024"

definition param_kind :: "u64 \<Rightarrow> node" where
  "param_kind v = IndexNode K_FunctionSignatureSpecializationParamKind v"

definition param_payload :: "string \<Rightarrow> node" where
  "param_payload t = TextNode K_FunctionSignatureSpecializationParamPayload t"

definition addFuncSpecParamNumber :: "node \<Rightarrow> u64 \<Rightarrow> node option dm" where
  "addFuncSpecParamNumber Param kind = do {
     let Param = Node_addChild Param (param_kind kind);
     Str \<leftarrow> read_state (\<lambda>s. takeWhile isDigit (drop (Pos s) (Text s)));
     update_state (\<lambda>s. s\<lparr>Pos := Pos s + length Str\<rparr>);
     ret (if Str = [] then None else Some (Node_addChild Param (param_payload Str)))
   }"

text \<open>The option flags: each letter that follows, in this order, adds its bit.\<close>

fun spec_flags :: "(char \<times> u64) list \<Rightarrow> u64 \<Rightarrow> u64 dm" where
  "spec_flags [] value = ret value"
| "spec_flags ((c, flag) # fs) value = do {
     b \<leftarrow> nextIf c;
     spec_flags fs (if b then or value flag else value)
   }"

definition flags_param :: "node \<Rightarrow> (char \<times> u64) list \<Rightarrow> u64 \<Rightarrow> node option dm" where
  "flags_param Param fs value = do {
     v \<leftarrow> spec_flags fs value;
     ret (Some (Node_addChild Param (param_kind v)))
   }"

definition string_encodings :: "(char \<times> string) list" where
  "string_encodings = [(CHR ''b'', ''u8''), (CHR ''w'', ''u16''), (CHR ''c'', ''objc'')]"

definition constant_param :: "node \<Rightarrow> node option dm" where
  "constant_param Param = do {
     c \<leftarrow> nextChar;
     if c = CHR ''f'' then ret (Some (Node_addChild Param (param_kind FSS_ConstantPropFunction)))
     else if c = CHR ''g'' then ret (Some (Node_addChild Param (param_kind FSS_ConstantPropGlobal)))
     else if c = CHR ''i'' then addFuncSpecParamNumber Param FSS_ConstantPropInteger
     else if c = CHR ''d'' then addFuncSpecParamNumber Param FSS_ConstantPropFloat
     else if c = CHR ''s'' then do {
       e \<leftarrow> nextChar;
       case map_of string_encodings e of
         None \<Rightarrow> null
       | Some Encoding \<Rightarrow>
           ret (Some (Node_addChild (Node_addChild Param (param_kind FSS_ConstantPropString))
                  (param_payload Encoding)))
     }
     else null
   }"

definition demangleFuncSpecParam :: "Kind \<Rightarrow> node option dm" where
  "demangleFuncSpecParam kind = do {
     let Param = createNode kind;
     c \<leftarrow> nextChar;
     if c = CHR ''n'' then ret (Some Param)
     else if c = CHR ''c'' then ret (Some (Node_addChild Param (param_kind FSS_ClosureProp)))
     else if c = CHR ''p'' then constant_param Param
     else if c = CHR ''e'' then
       flags_param Param [(CHR ''D'', FSS_Dead), (CHR ''G'', FSS_OwnedToGuaranteed),
         (CHR ''O'', FSS_GuaranteedToOwned), (CHR ''X'', FSS_SROA)] FSS_ExistentialToGeneric
     else if c = CHR ''d'' then
       flags_param Param [(CHR ''G'', FSS_OwnedToGuaranteed), (CHR ''O'', FSS_GuaranteedToOwned),
         (CHR ''X'', FSS_SROA)] FSS_Dead
     else if c = CHR ''g'' then flags_param Param [(CHR ''X'', FSS_SROA)] FSS_OwnedToGuaranteed
     else if c = CHR ''o'' then flags_param Param [(CHR ''X'', FSS_SROA)] FSS_GuaranteedToOwned
     else if c = CHR ''x'' then ret (Some (Node_addChild Param (param_kind FSS_SROA)))
     else if c = CHR ''i'' then ret (Some (Node_addChild Param (param_kind FSS_BoxToValue)))
     else if c = CHR ''s'' then ret (Some (Node_addChild Param (param_kind FSS_BoxToStack)))
     else null
   }"

text \<open>The loop over the parameters, up to \<open>_\<close>: \<open>Spec\<close> becomes null with a parameter that is null.\<close>

fun spec_params_loop :: "nat \<Rightarrow> node option \<Rightarrow> node option dm" where
  "spec_params_loop 0 Spec = stuck None"
| "spec_params_loop (Suc fuel) Spec =
     (if Spec = None then null
      else do {
        u \<leftarrow> nextIf (CHR ''_'');
        if u then ret Spec
        else do {
          Param \<leftarrow> demangleFuncSpecParam K_FunctionSignatureSpecializationParam;
          spec_params_loop fuel (addChild Spec Param)
        }
      })"

text \<open>What the last loop adds to one parameter: its types, for a closure, and its name.\<close>

definition spec_param_operands :: "node \<Rightarrow> u64 \<Rightarrow> node option dm" where
  "spec_param_operands Param ParamKind = do {
     let FixedChildren = getNumChildren Param;
     Tys \<leftarrow> (if ParamKind = FSS_ClosureProp then popNodes_while (\<lambda>k. k = K_Type) else ret []);
     Ty \<leftarrow> popNode_kind K_Type;
     if Ty \<noteq> None then null
     else do {
       Name \<leftarrow> popNode_kind K_Identifier;
       case Name of
         None \<Rightarrow> null
       | Some n \<Rightarrow> do {
           t \<leftarrow> getText n;
           let t' = (if ParamKind = FSS_ConstantPropString \<and> t \<noteq> [] \<and> hd t = CHR ''_'' then tl t else t);
           ret (Some (reverseChildren
             (Node_addChild (foldl Node_addChild Param Tys) (param_payload t')) FixedChildren))
         }
     }
   }"

definition spec_param_step :: "node \<Rightarrow> node option dm" where
  "spec_param_step Param =
     (if getKind Param \<noteq> K_FunctionSignatureSpecializationParam then ret (Some Param)
      else if getNumChildren Param = 0 then ret (Some Param)
      else do {
        KindNd \<leftarrow> deref (getFirstChild Param);
        ParamKind \<leftarrow> getIndex KindNd;
        if ParamKind \<in> {FSS_ConstantPropFunction, FSS_ConstantPropGlobal, FSS_ConstantPropString,
                        FSS_ClosureProp}
        then spec_param_operands Param ParamKind
        else ret (Some Param)
      })"

text \<open>The loop over the children of \<open>Spec\<close> from the last to the first.\<close>

fun spec_operands_loop :: "node list \<Rightarrow> node list option dm" where
  "spec_operands_loop [] = ret (Some [])"
| "spec_operands_loop (Param # Params) = do {
     P \<leftarrow> spec_param_step Param;
     case P of
       None \<Rightarrow> null
     | Some p \<Rightarrow> do { rest \<leftarrow> spec_operands_loop Params; ret (map_option (\<lambda>ps. p # ps) rest) }
   }"

definition demangleFunctionSpecialization :: "node option dm" where
  "demangleFunctionSpecialization = do {
     Spec \<leftarrow> demangleSpecAttributes K_FunctionSignatureSpecialization;
     n \<leftarrow> read_state remaining;
     Spec \<leftarrow> spec_params_loop (n + 2) Spec;
     noReturn \<leftarrow> nextIf (CHR ''n'');
     Spec \<leftarrow> (if noReturn then ret Spec
             else do {
               R \<leftarrow> demangleFuncSpecParam K_FunctionSignatureSpecializationReturn;
               ret (addChild Spec R)
             });
     case Spec of
       None \<Rightarrow> null
     | Some spec \<Rightarrow> do {
         ps \<leftarrow> spec_operands_loop (rev (getChildren spec));
         ret (map_option (\<lambda>ps. Node (getKind spec) (rev ps)) ps)
       }
   }"

subsection \<open>Bridged methods\<close>

fun bridged_params_loop :: "nat \<Rightarrow> string \<Rightarrow> string dm" where
  "bridged_params_loop 0 Str = stuck []"
| "bridged_params_loop (Suc fuel) Str = do {
     u \<leftarrow> nextIf (CHR ''_'');
     if u then ret Str
     else do {
       c \<leftarrow> nextChar;
       if c \<noteq> CHR ''n'' \<and> c \<noteq> CHR ''b'' \<and> c \<noteq> CHR ''g'' then ret []
       else bridged_params_loop fuel (Str @ [c])
     }
   }"

definition demangleBridgedMethodParams :: "string dm" where
  "demangleBridgedMethodParams = do {
     u \<leftarrow> nextIf (CHR ''_'');
     if u then ret []
     else do {
       kind \<leftarrow> nextChar;
       if kind \<notin> {CHR ''p'', CHR ''a'', CHR ''m''} then ret []
       else do {
         n \<leftarrow> read_state remaining;
         bridged_params_loop (n + 1) [kind]
       }
     }
   }"

section \<open>Thunks\<close>

definition demangleCompletionHandler :: "Kind \<Rightarrow> node option dm" where
  "demangleCompletionHandler kind = do {
     flagMode \<leftarrow> demangleIndexAsNode;
     sig \<leftarrow> popNode_kind K_DependentGenericSignature;
     resultType \<leftarrow> popNode_kind K_Type;
     implType \<leftarrow> popNode_kind K_Type;
     ret (addChild_to (createWithChildren kind [implType, resultType, flagMode]) sig)
   }"

definition demangleReabstractionThunk :: "Kind \<Rightarrow> node option dm" where
  "demangleReabstractionThunk kind = do {
     GenSig \<leftarrow> popNode_kind K_DependentGenericSignature;
     let Thunk = addChild_to (Some (createNode kind)) GenSig;
     self \<leftarrow> (if kind = K_ReabstractionThunkHelperWithSelf then popNode_kind K_Type else null);
     let Thunk = addChild_to Thunk self;
     a \<leftarrow> popNode_kind K_Type;
     let Thunk = addChild_to Thunk a;
     b \<leftarrow> popNode_kind K_Type;
     ret (addChild_to Thunk b)
   }"

definition serialized_mark :: "bool \<Rightarrow> node list" where
  "serialized_mark isSerialized = (if isSerialized then [createNode K_IsSerialized] else [])"

definition demangleKeyPathThunk :: "Kind \<Rightarrow> node option dm" where
  "demangleKeyPathThunk nodeKind = do {
     isSerialized \<leftarrow> nextIf (CHR ''q'');
     first \<leftarrow> popNode;
     case first of
       None \<Rightarrow> null
     | Some f \<Rightarrow>
         if getKind f \<noteq> K_Type then null
         else do {
           more \<leftarrow> popNodes_while (\<lambda>k. k = K_Type);
           nd \<leftarrow> popNode;
           let types = rev (f # more);
           case nd of
             None \<Rightarrow> null
           | Some n \<Rightarrow>
               if getKind n = K_DependentGenericSignature then do {
                 decl \<leftarrow> popNode;
                 ret (map_option (\<lambda>d. Node nodeKind ([d, n] @ types @ serialized_mark isSerialized)) decl)
               }
               else ret (Some (Node nodeKind ([n] @ types @ serialized_mark isSerialized)))
         }
   }"

definition demangleKeyPathComparison :: "Kind \<Rightarrow> node option dm" where
  "demangleKeyPathComparison nodeKind = do {
     isSerialized \<leftarrow> nextIf (CHR ''q'');
     first \<leftarrow> popNode;
     case first of
       None \<Rightarrow> null
     | Some f \<Rightarrow>
         if getKind f \<noteq> K_DependentGenericSignature \<and> getKind f \<noteq> K_Type then null
         else do {
           more \<leftarrow> popNodes_while (\<lambda>k. k = K_Type);
           other \<leftarrow> popNode;
           if other \<noteq> None then null
           else
             let (genericSig, types) =
                   (if getKind f = K_DependentGenericSignature then ([f], more) else ([], f # more))
             in ret (Some (Node nodeKind (rev types @ genericSig @ serialized_mark isSerialized)))
         }
   }"

definition demangleGlobalActorThunk :: "node option dm" where
  "demangleGlobalActorThunk = do {
     globalActor \<leftarrow> popNode_kind K_Type;
     if globalActor = None then null
     else do {
       reabstraction \<leftarrow> popNode;
       ret (createWithChildren K_ReabstractionThunkHelperWithGlobalActor [reabstraction, globalActor])
     }
   }"

definition demangleAssociatedConformance :: "Kind \<Rightarrow> node option dm" where
  "demangleAssociatedConformance kind = do {
     requirementTy \<leftarrow> popProtocol;
     conformingType \<leftarrow> popAssocTypePath;
     protoTy \<leftarrow> popNode_kind K_Type;
     ret (createWithChildren kind [protoTy, conformingType, requirementTy])
   }"

definition demangleAutoDiffThunk :: "node option dm" where
  "demangleAutoDiffThunk = do {
     c \<leftarrow> peekChar;
     if c = CHR ''S'' then do { nextChar; demangleAutoDiffSubsetParametersThunk }
     else if c = CHR ''O'' then do { nextChar; demangleAutoDiffSelfReorderingReabstractionThunk }
     else if c = CHR ''V'' then do {
       nextChar;
       demangleAutoDiffFunctionOrSimpleThunk K_AutoDiffDerivativeVTableThunk
     }
     else demangleAutoDiffFunctionOrSimpleThunk K_AutoDiffFunction
   }"

text \<open>The \<open>case\<close>s of \<open>demangleThunkOrSpecialization\<close> that are a single node.\<close>

definition thunk_attributes :: "(char \<times> Kind) list" where
  "thunk_attributes =
     [(CHR ''o'', K_ObjCAttribute),
      (CHR ''O'', K_NonObjCAttribute),
      (CHR ''D'', K_DynamicAttribute),
      (CHR ''d'', K_DirectMethodReferenceAttribute),
      (CHR ''E'', K_DistributedThunk),
      (CHR ''F'', K_DistributedMethodAccessor),
      (CHR ''a'', K_PartialApplyObjCForwarder),
      (CHR ''A'', K_PartialApplyForwarder),
      (CHR ''m'', K_MergedFunction),
      (CHR ''X'', K_DynamicallyReplaceableFunctionVar),
      (CHR ''x'', K_DynamicallyReplaceableFunctionKey),
      (CHR ''I'', K_DynamicallyReplaceableFunctionImpl),
      (CHR ''u'', K_AsyncFunctionPointer)]"

definition thunks_of_entity :: "(char \<times> Kind) list" where
  "thunks_of_entity =
     [(CHR ''c'', K_CurryThunk),
      (CHR ''j'', K_DispatchThunk),
      (CHR ''q'', K_MethodDescriptor),
      (CHR ''S'', K_ProtocolSelfConformanceWitness)]"

definition generic_specializations :: "(char \<times> Kind) list" where
  "generic_specializations =
     [(CHR ''g'', K_GenericSpecialization),
      (CHR ''G'', K_GenericSpecializationNotReAbstracted),
      (CHR ''B'', K_GenericSpecializationInResilienceDomain),
      (CHR ''s'', K_GenericSpecializationPrespecialized),
      (CHR ''i'', K_InlinedGenericFunction)]"

definition demangleThunk :: "char \<Rightarrow> node option dm" where
  "demangleThunk c =
     (if c = CHR ''Q'' \<or> c = CHR ''Y'' then do {
        discriminator \<leftarrow> demangleIndexAsNode;
        ret (createWithChild (if c = CHR ''Q'' then K_AsyncAwaitResumePartialFunction
                              else K_AsyncSuspendResumePartialFunction) discriminator)
      }
      else if c = CHR ''C'' then createWithPoppedType K_CoroutineContinuationPrototype
      else if c = CHR ''z'' then demangleCompletionHandler K_ObjCAsyncCompletionHandlerImpl
      else if c = CHR ''Z'' then demangleCompletionHandler K_PredefinedObjCAsyncCompletionHandlerImpl
      else if c = CHR ''V'' then do {
        Base \<leftarrow> popNode_if isEntity;
        Derived \<leftarrow> popNode_if isEntity;
        ret (createWithChildren K_VTableThunk [Derived, Base])
      }
      else if c = CHR ''W'' then do {
        Entity \<leftarrow> popNode_if isEntity;
        Conf \<leftarrow> popProtocolConformance;
        ret (createWithChildren K_ProtocolWitness [Conf, Entity])
      }
      else if c = CHR ''R'' then demangleReabstractionThunk K_ReabstractionThunkHelper
      else if c = CHR ''y'' then demangleReabstractionThunk K_ReabstractionThunkHelperWithSelf
      else if c = CHR ''r'' then demangleReabstractionThunk K_ReabstractionThunk
      else if c = CHR ''K'' then demangleKeyPathThunk K_KeyPathGetterThunkHelper
      else if c = CHR ''k'' then demangleKeyPathThunk K_KeyPathSetterThunkHelper
      else if c = CHR ''l'' then do {
        assocTypeName \<leftarrow> popAssocTypeName;
        ret (createWithChild K_AssociatedTypeDescriptor assocTypeName)
      }
      else if c = CHR ''L'' then protocol_child K_ProtocolRequirementsBaseDescriptor
      else if c = CHR ''M'' then do {
        assocTypeName \<leftarrow> popAssocTypeName;
        ret (createWithChild K_DefaultAssociatedTypeMetadataAccessor assocTypeName)
      }
      else if c = CHR ''n'' then demangleAssociatedConformance K_AssociatedConformanceDescriptor
      else if c = CHR ''N'' then demangleAssociatedConformance K_DefaultAssociatedConformanceAccessor
      else if c = CHR ''b'' then do {
        requirementTy \<leftarrow> popProtocol;
        protoTy \<leftarrow> popNode_kind K_Type;
        ret (createWithChildren K_BaseConformanceDescriptor [protoTy, requirementTy])
      }
      else if c = CHR ''H'' then demangleKeyPathComparison K_KeyPathEqualsThunkHelper
      else if c = CHR ''h'' then demangleKeyPathComparison K_KeyPathHashThunkHelper
      else if c = CHR ''v'' then do {
        Idx \<leftarrow> demangleIndex;
        ret (if Idx < 0 then None else Some (IndexNode K_OutlinedVariable (word_of_int Idx)))
      }
      else if c = CHR ''e'' then do {
        Params \<leftarrow> demangleBridgedMethodParams;
        ret (if Params = [] then None else Some (TextNode K_OutlinedBridgedMethod Params))
      }
      else if c = CHR ''U'' then demangleGlobalActorThunk
      else if c = CHR ''J'' then demangleAutoDiffThunk
      else null)"

definition demangleThunkOrSpecialization :: "node option dm" where
  "demangleThunkOrSpecialization = do {
     c \<leftarrow> nextChar;
     case map_of thunk_attributes c of
       Some kind \<Rightarrow> ret (Some (createNode kind))
     | None \<Rightarrow>
     (case map_of thunks_of_entity c of
        Some kind \<Rightarrow> entity_child kind
      | None \<Rightarrow>
      (case map_of generic_specializations c of
         Some kind \<Rightarrow> demangleGenericSpecialization kind
       | None \<Rightarrow>
           if c = CHR ''p'' then demanglePartialSpecialization K_GenericPartialSpecialization
           else if c = CHR ''P'' then
             demanglePartialSpecialization K_GenericPartialSpecializationNotReAbstracted
           else if c = CHR ''f'' then demangleFunctionSpecialization
           else demangleThunk c))
   }"

end
