(* ===== verification/Demangler.thy ===== *)
theory Demangler
  imports Demangler_Thunks
begin

text \<open>
  The operators of the mangling and the entry points of the demangler (\<open>Demangler.cpp\<close>):
  \<open>demangleOperator\<close>, the loop \<open>parseAndPushNodes\<close>, \<open>demangleSymbol\<close> and \<open>demangleType\<close>.
\<close>

section \<open>Operators\<close>

definition demangleTypeAnnotation :: "node option dm" where
  "demangleTypeAnnotation = do {
     c2 \<leftarrow> nextChar;
     if c2 = CHR ''a'' then ret (Some (createNode K_AsyncAnnotation))
     else if c2 = CHR ''b'' then ret (Some (createNode K_ConcurrentFunctionType))
     else if c2 = CHR ''c'' then do {
       Child \<leftarrow> popTypeAndGetChild;
       ret (createWithChild K_GlobalActorFunctionType Child)
     }
     else if c2 = CHR ''i'' then do {
       Child \<leftarrow> popTypeAndGetChild;
       ret (createType (createWithChild K_Isolated Child))
     }
     else if c2 = CHR ''j'' then demangleDifferentiableFunctionType
     else if c2 = CHR ''k'' then do {
       Child \<leftarrow> popTypeAndGetChild;
       ret (createType (createWithChild K_NoDerivative Child))
     }
     else null
   }"

definition demangleConformanceOperator :: "node option dm" where
  "demangleConformanceOperator = do {
     c2 \<leftarrow> nextChar;
     if c2 = CHR ''A'' then demangleDependentProtocolConformanceAssociated
     else if c2 = CHR ''C'' then demangleConcreteProtocolConformance
     else if c2 = CHR ''D'' then demangleDependentProtocolConformanceRoot
     else if c2 = CHR ''I'' then demangleDependentProtocolConformanceInherited
     else if c2 = CHR ''P'' then protocol_child K_ProtocolConformanceRefInTypeModule
     else if c2 = CHR ''p'' then protocol_child K_ProtocolConformanceRefInProtocolModule
     else if c2 = CHR ''c'' then conformance_child K_ProtocolConformanceDescriptorRecord
     else if c2 = CHR ''n'' then createWithPoppedType K_NominalTypeDescriptorRecord
     else if c2 = CHR ''o'' then node_child K_OpaqueTypeDescriptorRecord
     else if c2 = CHR ''r'' then protocol_child K_ProtocolDescriptorRecord
     else if c2 = CHR ''F'' then ret (Some (createNode K_AccessibleFunctionRecord))
     else do { pushBack; pushBack; demangleIdentifier }
   }"

text \<open>Operators that wrap the child of a popped type in a node and a type.\<close>

definition wrap_type_child :: "Kind \<Rightarrow> node option dm" where
  "wrap_type_child kind = do {
     Child \<leftarrow> popTypeAndGetChild;
     ret (createType (createWithChild kind Child))
   }"

text \<open>The \<open>case\<close>s with an upper case letter, and those with a lower case letter or a sign.\<close>

definition upper_operator :: "char \<Rightarrow> node option dm" where
  "upper_operator c =
     (if c = CHR ''A'' then demangleMultiSubstitutions
      else if c = CHR ''B'' then demangleBuiltinType
      else if c = CHR ''C'' then demangleAnyGenericType K_Class
      else if c = CHR ''D'' then demangleTypeMangling
      else if c = CHR ''E'' then demangleExtensionContext
      else if c = CHR ''F'' then demanglePlainFunction
      else if c = CHR ''G'' then demangleBoundGenericType
      else if c = CHR ''H'' then demangleConformanceOperator
      else if c = CHR ''I'' then demangleImplFunctionType
      else if c = CHR ''K'' then ret (Some (createNode K_ThrowsAnnotation))
      else if c = CHR ''L'' then demangleLocalIdentifier
      else if c = CHR ''M'' then demangleMetatype
      else if c = CHR ''N'' then createWithPoppedType K_TypeMetadata
      else if c = CHR ''O'' then demangleAnyGenericType K_Enum
      else if c = CHR ''P'' then demangleAnyGenericType K_Protocol
      else if c = CHR ''Q'' then demangleArchetype
      else if c = CHR ''R'' then demangleGenericRequirement
      else if c = CHR ''S'' then demangleStandardSubstitution
      else if c = CHR ''T'' then demangleThunkOrSpecialization
      else if c = CHR ''V'' then demangleAnyGenericType K_Structure
      else if c = CHR ''W'' then demangleWitness
      else if c = CHR ''X'' then demangleSpecialType
      else if c = CHR ''Y'' then demangleTypeAnnotation
      else if c = CHR ''Z'' then entity_child K_Static
      else do { pushBack; demangleIdentifier })"

definition other_operator :: "char \<Rightarrow> node option dm" where
  "other_operator c =
     (if c = CHR ''a'' then demangleAnyGenericType K_TypeAlias
      else if c = CHR ''c'' then popFunctionType K_FunctionType False
      else if c = CHR ''d'' then ret (Some (createNode K_VariadicMarker))
      else if c = CHR ''f'' then demangleFunctionEntity
      else if c = CHR ''g'' then demangleRetroactiveConformance
      else if c = CHR ''h'' then wrap_type_child K_Shared
      else if c = CHR ''i'' then demangleSubscript
      else if c = CHR ''l'' then demangleGenericSignature False
      else if c = CHR ''m'' then wrap_type K_Metatype
      else if c = CHR ''n'' then wrap_type_child K_Owned
      else if c = CHR ''o'' then demangleOperatorIdentifier
      else if c = CHR ''p'' then demangleProtocolListType
      else if c = CHR ''q'' then do { P \<leftarrow> demangleGenericParamIndex; ret (createType P) }
      else if c = CHR ''r'' then demangleGenericSignature True
      else if c = CHR ''s'' then ret (Some (TextNode K_Module STDLIB_NAME))
      else if c = CHR ''t'' then popTuple
      else if c = CHR ''u'' then demangleGenericType
      else if c = CHR ''v'' then demangleVariable
      else if c = CHR ''w'' then demangleValueWitness
      else if c = CHR ''x'' then ret (createType (getDependentGenericParamType 0 0))
      else if c = CHR ''y'' then ret (Some (createNode K_EmptyList))
      else if c = CHR ''z'' then wrap_type_child K_InOut
      else if c = CHR ''_'' then ret (Some (createNode K_FirstElementMarker))
      else if c = CHR ''.'' then do {
        pushBack;
        suffix \<leftarrow> consumeAll;
        ret (Some (TextNode K_Suffix suffix))
      }
      else do { pushBack; demangleIdentifier })"

text \<open>Padding bytes are skipped before the operator is read.\<close>

definition skip_padding :: "unit dm" where
  "skip_padding = update_state (\<lambda>s.
     s\<lparr>Pos := Pos s + length (takeWhile (\<lambda>c. c = CHR 0xFF) (drop (Pos s) (Text s)))\<rparr>)"

definition demangleOperator :: "node option dm" where
  "demangleOperator = do {
     skip_padding;
     c \<leftarrow> nextChar;
     if 1 \<le> ord c \<and> ord c \<le> 12 then demangleSymbolicReference (ord c)
     else if isUpperLetter c then upper_operator c
     else other_operator c
   }"

section \<open>Parsing a mangled name\<close>

fun parse_loop :: "nat \<Rightarrow> bool dm" where
  "parse_loop 0 = stuck False"
| "parse_loop (Suc fuel) = do {
     more \<leftarrow> read_state (\<lambda>s. Pos s < length (Text s));
     if \<not> more then ret True
     else do {
       Nd \<leftarrow> demangleOperator;
       case Nd of
         None \<Rightarrow> ret False
       | Some n \<Rightarrow> do { pushNode n; parse_loop fuel }
     }
   }"

definition parseAndPushNodes :: "bool dm" where
  "parseAndPushNodes = do {
     n \<leftarrow> read_state remaining;
     parse_loop (n + 1)
   }"

text \<open>
  \<open>DemangleInitRAII\<close>: a job starts with an empty stack, no substitutions and no words at the start of its
  text, and what it replaced is put back at its end. \<open>IsOldFunctionTypeMangling\<close> is neither reset nor put
  back, and of the words only their number is: the array keeps the words of the job where it has written
  them. (A resolver is a function of its argument here, so that jobs do not nest inside a job.)
\<close>

definition overwritten :: "string list \<Rightarrow> string list \<Rightarrow> string list" where
  "overwritten saved new = take (length saved) (new @ drop (length new) saved)"

definition with_job :: "string \<Rightarrow> symbolic_resolver option \<Rightarrow> 'a dm \<Rightarrow> 'a dm" where
  "with_job MangledName resolver job = State (\<lambda>s.
     let (r, s') = run_state job (s\<lparr>Text := MangledName, Pos := 0, NodeStack := [],
           Substitutions := [], Words := [], SymbolicReferenceResolver := resolver\<rparr>)
     in (r, s'\<lparr>Text := Text s, Pos := Pos s, NodeStack := NodeStack s,
           Substitutions := Substitutions s, Words := overwritten (Words s) (Words s'),
           SymbolicReferenceResolver := SymbolicReferenceResolver s\<rparr>))"

text \<open>
  The children of the top level node: the function attributes, topmost first, where what follows a
  partial apply forwarder goes below it, then the stack from the bottom.
\<close>

fun attach_nodes :: "node \<Rightarrow> node list \<Rightarrow> node list \<Rightarrow> node" where
  "attach_nodes Parent [] stack = foldl Node_addChild Parent stack"
| "attach_nodes Parent (FuncAttr # attrs) stack =
     (if getKind FuncAttr \<in> {K_PartialApplyForwarder, K_PartialApplyObjCForwarder}
      then Node_addChild Parent (attach_nodes FuncAttr attrs stack)
      else attach_nodes (Node_addChild Parent FuncAttr) attrs stack)"

definition top_level_node :: "node \<Rightarrow> node dm" where
  "top_level_node Nd = (if getKind Nd = K_Type then deref (getFirstChild Nd) else ret Nd)"

definition build_topLevel :: "node option dm" where
  "build_topLevel = do {
     attrs \<leftarrow> popNodes_while isFunctionAttr;
     stack \<leftarrow> read_state (\<lambda>s. rev (NodeStack s));
     nodes \<leftarrow> traverse_list top_level_node stack;
     let topLevel = attach_nodes (createNode K_Global) attrs nodes;
     ret (if getNumChildren topLevel = 0 then None else Some topLevel)
   }"

text \<open>The demangler of the old mangling is the parameter \<open>demangleOldSymbolAsNode\<close>.\<close>

definition demangleSymbol ::
  "(string \<Rightarrow> node option) \<Rightarrow> string \<Rightarrow> symbolic_resolver option \<Rightarrow> node option dm" where
  "demangleSymbol demangleOldSymbolAsNode MangledName resolver =
     with_job MangledName resolver (do {
       old \<leftarrow> nextIf_string ''_Tt'';
       if old then ret (demangleOldSymbolAsNode MangledName)
       else
         let PrefixLength = getManglingPrefixLength MangledName
         in if PrefixLength = 0 then null
            else do {
              update_state (\<lambda>s.
                s\<lparr>IsOldFunctionTypeMangling := isOldFunctionTypeMangling MangledName,
                  Pos := Pos s + PrefixLength\<rparr>);
              ok \<leftarrow> parseAndPushNodes;
              if \<not> ok then null else build_topLevel
            }
     })"

definition demangleType :: "string \<Rightarrow> symbolic_resolver option \<Rightarrow> node option dm" where
  "demangleType MangledName resolver =
     with_job MangledName resolver (do {
       parseAndPushNodes;
       Result \<leftarrow> popNode;
       ret (Some (case Result of Some r \<Rightarrow> r | None \<Rightarrow> TextNode K_Suffix MangledName))
     })"

definition new_demangler :: dem where
  "new_demangler = \<lparr>Text = [], Pos = 0, IsOldFunctionTypeMangling = False, NodeStack = [],
     Substitutions = [], Words = [], SymbolicReferenceResolver = None, Stuck = False\<rparr>"

end
