(* ===== verification/Demangler_Frame.thy ===== *)
theory Demangler_Frame
  imports Demangler
begin

text \<open>
  What every operation of the demangler does to its state. The locale \<open>dm_relation\<close> fixes a relation
  between the state before and after an operation that is reflexive, transitive and keeps up with the
  changes the operations are made of: the position moves forward inside the text, the stack changes,
  substitutions and words are appended. Every operation that does not call \<open>pushBack\<close> then stays within
  the relation, and with \<open>dm_relation_back\<close>, which also allows one step back, every operation.
\<close>

named_theorems within \<open>operations that stay within a relation\<close>

section \<open>Relations between states\<close>

locale dm_relation =
  fixes R :: "dem \<Rightarrow> dem \<Rightarrow> bool"
  assumes R_refl: "R s s"
    and R_trans: "R s t \<Longrightarrow> R t u \<Longrightarrow> R s u"
    and R_advance: "n \<le> length (Text s) - Pos s \<Longrightarrow> R s (s\<lparr>Pos := Pos s + n\<rparr>)"
    and R_stack: "R s (s\<lparr>NodeStack := ns\<rparr>)"
    and R_substitutions: "R s (s\<lparr>Substitutions := Substitutions s @ ns\<rparr>)"
    and R_words: "R s (s\<lparr>Words := Words s @ take (MaxNumWords - length (Words s)) ws\<rparr>)"
    and R_to_end: "R s (s\<lparr>Pos := length (Text s)\<rparr>)"
    and R_stuck: "R s (s\<lparr>Stuck := True\<rparr>)"

locale dm_relation_back = dm_relation +
  assumes R_back: "Pos s \<noteq> 0 \<Longrightarrow> R s (s\<lparr>Pos := Pos s - 1\<rparr>)"

context dm_relation
begin

abbreviation within :: "'a dm \<Rightarrow> bool" where
  "within \<equiv> state_io_rel R"

lemma withinI: "(\<And>s. R s (snd (run_state m s))) \<Longrightarrow> within m"
  by (simp add: state_io_rel_def)

lemma withinD: "within m \<Longrightarrow> R s (snd (run_state m s))"
  by (simp add: state_io_rel_def)

lemma within_ret [within]: "within (ret x)"
  by (simp add: state_io_rel_def R_refl)

lemma within_bind [within]:
  "within m \<Longrightarrow> (\<And>x. within (f x)) \<Longrightarrow> within (State_Monad.bind m f)"
  by (auto simp: state_io_rel_def split: prod.splits) (metis R_trans snd_conv)

lemma within_if [within]: "within m \<Longrightarrow> within n \<Longrightarrow> within (if b then m else n)"
  by simp

lemma within_option [within]:
  "within m \<Longrightarrow> (\<And>y. within (f y)) \<Longrightarrow> within (case x of None \<Rightarrow> m | Some y \<Rightarrow> f y)"
  by (cases x) simp_all

lemma within_prod [within]: "(\<And>a b. within (f a b)) \<Longrightarrow> within (case p of (a, b) \<Rightarrow> f a b)"
  by (cases p) simp

lemma within_constraint [within]:
  "within a \<Longrightarrow> within b \<Longrightarrow> within c \<Longrightarrow> within d
    \<Longrightarrow> within (case x of RC_Protocol \<Rightarrow> a | RC_BaseClass \<Rightarrow> b | RC_SameType \<Rightarrow> c | RC_Layout \<Rightarrow> d)"
  by (cases x) simp_all

lemma within_let [within]: "(\<And>y. within (f y)) \<Longrightarrow> within (let y = x in f y)"
  by simp

lemma within_traverse [within]: "(\<And>x. within (f x)) \<Longrightarrow> within (traverse_list f xs)"
  by (induction xs) (auto intro!: within)

section \<open>The primitives\<close>

lemma R_advance_1: "Pos s < length (Text s) \<Longrightarrow> R s (s\<lparr>Pos := Suc (Pos s)\<rparr>)"
  using R_advance [of 1 s] by simp

lemma R_cong: "R s s' \<Longrightarrow> s' = s'' \<Longrightarrow> R s s''"
  by simp

lemma within_read_state [within]: "within (read_state f)"
  by (rule withinI) (simp add: dm_run R_refl)

lemma within_stuck [within]: "within (stuck x)"
  by (rule withinI) (simp add: dm_run R_stuck)

lemma within_peekChar [within]: "within peekChar"
  by (rule withinI) (simp add: dm_run R_refl)

lemma within_nextChar [within]: "within nextChar"
  by (rule withinI) (simp add: dm_run R_refl R_advance_1)

lemma within_nextIf [within]: "c \<noteq> CHR 0x00 \<Longrightarrow> within (nextIf c)"
  by (rule withinI) (auto simp: dm_run R_refl R_advance_1 char_at_def)

lemma within_consumeAll [within]: "within consumeAll"
  by (rule withinI) (simp add: dm_run R_to_end)

lemma within_stack_update [within]: "within (update_state (\<lambda>s. s\<lparr>NodeStack := f s\<rparr>))"
  by (rule withinI) (simp add: dm_run R_stack)

lemma within_pushNode [within]: "within (pushNode n)"
  by (simp add: pushNode_def within)

lemma within_popNode [within]: "within popNode"
  by (rule withinI) (simp add: dm_run R_refl R_stack split: list.split)

lemma within_popNode_if [within]: "within (popNode_if p)"
  by (rule withinI) (simp add: dm_run R_refl R_stack split: list.split)

lemma within_popNode_kind [within]: "within (popNode_kind k)"
  by (simp add: popNode_kind_def within)

lemma within_popNodes_while [within]: "within (popNodes_while p)"
  by (rule withinI) (simp add: dm_run R_stack)

lemma within_addSubstitution [within]: "within (addSubstitution n)"
  by (rule withinI) (simp add: dm_run R_refl R_substitutions split: option.split)

lemma within_createWithPoppedType [within]: "within (createWithPoppedType k)"
  unfolding createWithPoppedType_def by (intro within)

lemma within_getText [within]: "within (getText n)"
  by (cases n) (simp_all add: getText_def within)

lemma within_getIndex [within]: "within (getIndex n)"
  by (cases n) (simp_all add: getIndex_def within)

lemma within_deref [within]: "within (deref p)"
  by (cases p) (simp_all add: deref_def within)

section \<open>Operations that move the position themselves\<close>

lemma natural_loop_length: "snd (natural_loop num cs) \<le> length cs"
  by (induction num cs rule: natural_loop.induct) (auto simp: Let_def split: prod.splits)

lemma within_demangleNatural [within]: "within demangleNatural"
proof (rule withinI)
  fix s :: dem
  obtain num n where l: "natural_loop 0 (drop (Pos s) (Text s)) = (num, n)" by fastforce
  then have "n \<le> length (Text s) - Pos s"
    using natural_loop_length [of 0 "drop (Pos s) (Text s)"] by simp
  then show "R s (snd (run_state demangleNatural s))"
    by (simp add: demangleNatural_def dm_run l R_refl R_advance)
qed

lemma R_skip: "R s (s\<lparr>Pos := Pos s + length (takeWhile p (drop (Pos s) (Text s)))\<rparr>)"
  by (rule R_advance) (metis length_drop length_takeWhile_le)

lemma within_demangleIndexSubset [within]: "within demangleIndexSubset"
  by (rule withinI) (simp add: demangleIndexSubset_def dm_run R_skip)

lemma within_addFuncSpecParamNumber [within]: "within (addFuncSpecParamNumber p k)"
  by (rule withinI) (simp add: addFuncSpecParamNumber_def dm_run R_skip)

lemma within_skip_padding [within]: "within skip_padding"
  by (rule withinI) (simp add: skip_padding_def dm_run R_skip)

lemma within_pushMultiSubstitutions [within]: "within (pushMultiSubstitutions r i)"
  unfolding pushMultiSubstitutions_def by (intro within)

lemma within_record_words [within]: "within (record_words w)"
  by (rule withinI) (simp add: record_words_def dm_run R_words)

lemma within_identifier_slice [within]: "within (identifier_slice p n)"
proof (rule withinI)
  fix s :: dem
  show "R s (snd (run_state (identifier_slice p n) s))"
  proof (cases "Pos s + n > length (Text s)")
    case False
    let ?ws = "take (MaxNumWords - length (Words s)) (slice_words None (take n (drop (Pos s) (Text s))))"
    have "R (s\<lparr>Words := Words s @ ?ws\<rparr>) (s\<lparr>Words := Words s @ ?ws, Pos := Pos s + n\<rparr>)"
      using R_advance [of n "s\<lparr>Words := Words s @ ?ws\<rparr>"] False by simp
    from R_trans [OF R_words this] False show ?thesis
      by (auto simp: identifier_slice_def record_words_def dm_run R_refl intro: R_advance
          split: option.split)
  qed (simp add: identifier_slice_def dm_run R_refl)
qed

lemma within_demangleClangType [within]: "within demangleClangType"
proof (rule withinI)
  fix s :: dem
  obtain num s' where n: "run_state demangleNatural s = (num, s')" by fastforce
  then have "R s s'" using withinD [OF within_demangleNatural, of s] by simp
  then show "R s (snd (run_state demangleClangType s))"
    by (auto simp: demangleClangType_def n dm_run intro!: R_trans [of s s'] R_advance)
qed

lemma within_demangleSymbolicReference [within]: "within (demangleSymbolicReference k)"
proof (rule withinI)
  fix s :: dem
  have a: "R s (s\<lparr>Pos := Pos s + 4\<rparr>)" if "Pos s + 4 \<le> length (Text s)"
    using that by (intro R_advance) simp
  have "R s (s\<lparr>Pos := Pos s + 4, Substitutions := Substitutions s @ [n]\<rparr>)"
    if "Pos s + 4 \<le> length (Text s)" for n
    using R_trans [OF a R_substitutions] that by simp
  with a show "R s (snd (run_state (demangleSymbolicReference k) s))"
    by (auto simp: demangleSymbolicReference_def dm_run R_refl Let_def split: option.splits prod.splits)
qed

section \<open>All operations without \<open>pushBack\<close>\<close>

lemma within_word_substitutions [within]: "within (word_substitutions fuel hasWordSubsts Identifier)"
proof (induction fuel arbitrary: hasWordSubsts Identifier)
  case (Suc fuel)
  show ?case unfolding word_substitutions.simps by (intro within Suc.IH; simp)
qed (simp add: within)

lemma within_pop_labels [within]: "within (pop_labels fuel)"
proof (induction fuel)
  case (Suc fuel)
  show ?case unfolding pop_labels.simps by (intro within Suc.IH; simp)
qed (simp add: within)

lemma within_tuple_loop [within]: "within (tuple_loop fuel Root)"
proof (induction fuel arbitrary: Root)
  case (Suc fuel)
  show ?case unfolding tuple_loop.simps by (intro within Suc.IH; simp)
qed (simp add: within)

lemma within_type_list_loop [within]: "within (type_list_loop fuel Root)"
proof (induction fuel arbitrary: Root)
  case (Suc fuel)
  show ?case unfolding type_list_loop.simps by (intro within Suc.IH; simp)
qed (simp add: within)

lemma within_type_lists_loop [within]: "within (type_lists_loop fuel)"
proof (induction fuel)
  case (Suc fuel)
  show ?case unfolding type_lists_loop.simps by (intro within Suc.IH; simp)
qed (simp add: within)

lemma within_impl_attribute [within]: "c \<noteq> CHR 0x00 \<Longrightarrow> within (impl_attribute c attr type)"
  unfolding impl_attribute_def by (intro within)

lemma within_impl_types_loop [within]: "within (impl_types_loop Idxs type)"
proof (induction Idxs arbitrary: type)
  case (Cons i js)
  show ?case unfolding impl_types_loop.simps by (intro within Cons.IH)
qed (simp add: within)

lemma within_with_substitution [within]: "within m \<Longrightarrow> within (with_substitution m)"
  unfolding with_substitution_def by (intro within)

lemma within_once_vars_loop [within]: "within (once_vars_loop fuel)"
proof (induction fuel)
  case (Suc fuel)
  show ?case unfolding once_vars_loop.simps by (intro within Suc.IH; simp)
qed (simp add: within)

lemma within_spec_flags [within]:
  "list_all (\<lambda>(c, _). c \<noteq> CHR 0x00) fs \<Longrightarrow> within (spec_flags fs value)"
proof (induction fs arbitrary: "value")
  case (Cons f fs)
  then show ?case by (cases f) (auto intro!: within Cons.IH)
qed (simp add: within)

lemma within_bridged_params_loop [within]: "within (bridged_params_loop fuel Str)"
proof (induction fuel arbitrary: Str)
  case (Suc fuel)
  show ?case unfolding bridged_params_loop.simps by (intro within Suc.IH; simp)
qed (simp add: within)

lemma within_ops_1 [within]:
  "within demangleIndex" "within demangleOperatorIdentifier" "within popModule"
  "within popTypeAndGetChild"
  unfolding demangleIndex_def demangleOperatorIdentifier_def popModule_def
    popTypeAndGetChild_def
  by (intro within; simp)+

lemma within_ops_2 [within]:
  "within (popFunctionParams x1)" "within (skip_child x2 x3 x4)" "within (old_label x5)"
  "within popAnyProtocolConformance" "within popDependentProtocolConformance"
  unfolding popFunctionParams_def skip_child_def old_label_def
    popAnyProtocolConformance_def popDependentProtocolConformance_def
  by (intro within; simp)+

lemma within_ops_3 [within]:
  "within demangleImplParameterResultDifferentiability" "within (impl_differentiability x1)"
  unfolding demangleImplParameterResultDifferentiability_def impl_differentiability_def
  by (intro within; simp)+

lemma within_ops_4 [within]:
  "within popAssocTypeName" "within (base_type x1)" "within (node_child x2)"
  "within (entity_child x3)" "within metatype_superclass" "within demangleGenericType"
  unfolding popAssocTypeName_def base_type_def node_child_def entity_child_def
    metatype_superclass_def demangleGenericType_def
  by (intro within; simp)+

lemma within_ops_5 [within]:
  "within (addressor_of x1 x2)" "within demangleMetatypeRepresentation"
  "within (wrap_type x3)" "within (box_field x4)" "within demangleDifferentiableFunctionType"
  "within demangleDifferentiabilityWitness" "within demangleValueWitness"
  "within demangleOutlined" "within demangleFieldOffset"
  unfolding addressor_of_def demangleMetatypeRepresentation_def wrap_type_def
    box_field_def demangleDifferentiableFunctionType_def
    demangleDifferentiabilityWitness_def demangleValueWitness_def demangleOutlined_def
    demangleFieldOffset_def
  by (intro within; simp)+

lemma within_ops_6 [within]:
  "within demangleAutoDiffFunctionKind" "within (demangleSpecAttributes x1)"
  "within (constant_param x2)" "within (spec_param_operands x3 x4)"
  "within (demangleReabstractionThunk x5)" "within (demangleKeyPathThunk x6)"
  "within (demangleKeyPathComparison x7)" "within demangleGlobalActorThunk"
  unfolding demangleAutoDiffFunctionKind_def demangleSpecAttributes_def constant_param_def
    spec_param_operands_def demangleReabstractionThunk_def demangleKeyPathThunk_def
    demangleKeyPathComparison_def demangleGlobalActorThunk_def
  by (intro within; simp)+

lemma within_ops_7 [within]:
  "within (top_level_node x1)"
  unfolding top_level_node_def
  by (intro within; simp)+

lemma within_identifier_loop [within]: "within (identifier_loop fuel isPunycoded hasWordSubsts Identifier)"
proof (induction fuel arbitrary: isPunycoded hasWordSubsts Identifier)
  case (Suc fuel)
  show ?case unfolding identifier_loop.simps by (intro within Suc.IH; simp)
qed (simp add: within)

lemma within_conformance_list_loop [within]: "within (conformance_list_loop fuel conformanceList)"
proof (induction fuel arbitrary: conformanceList)
  case (Suc fuel)
  show ?case unfolding conformance_list_loop.simps by (intro within Suc.IH; simp)
qed (simp add: within)

lemma within_impl_conventions_loop [within]:
  "within convention \<Longrightarrow> within (impl_conventions_loop fuel convention)"
proof (induction fuel)
  case (Suc fuel)
  then show ?case unfolding impl_conventions_loop.simps by (intro within Suc.IH)
qed (simp add: within)

lemma within_assoc_names_loop [within]: "within (assoc_names_loop fuel)"
proof (induction fuel)
  case (Suc fuel)
  show ?case unfolding assoc_names_loop.simps by (intro within Suc.IH; simp)
qed (simp add: within)

lemma within_param_counts_loop [within]: "within (param_counts_loop fuel)"
proof (induction fuel)
  case (Suc fuel)
  show ?case unfolding param_counts_loop.simps by (intro within Suc.IH; simp)
qed (simp add: within)

lemma within_flags_param [within]:
  "list_all (\<lambda>(c, _). c \<noteq> CHR 0x00) fs \<Longrightarrow> within (flags_param Param fs value)"
  unfolding flags_param_def by (intro within)

lemma within_ops_8 [within]:
  "within demangleIndexAsNode" "within popContext" "within popTypeAndGetAnyGeneric"
  unfolding demangleIndexAsNode_def popContext_def popTypeAndGetAnyGeneric_def
  by (intro within; simp)+

lemma within_ops_9 [within]:
  "within (builtin_sized x1)" "within builtin_vector" "within (popFunctionType x2 x3)"
  "within (read_labels x4 x5 x6)" "within popTuple" "within popTypeList"
  "within demangleDependentConformanceIndex"
  unfolding builtin_sized_def builtin_vector_def popFunctionType_def read_labels_def
    popTuple_def popTypeList_def demangleDependentConformanceIndex_def
  by (intro within; simp)+

lemma within_ops_10 [within]:
  "within demangleBoundGenerics" "within (impl_coroutine x1)"
  unfolding demangleBoundGenerics_def impl_coroutine_def
  by (intro within; simp)+

lemma within_ops_11 [within]:
  "within demangleGenericParamIndex" "within (demangleAssociatedTypeSimple x1)"
  unfolding demangleGenericParamIndex_def demangleAssociatedTypeSimple_def
  by (intro within; simp)+

lemma within_ops_12 [within]:
  "within (demangleAccessor x1)" "within (metatype_with_representation x2)"
  "within demangleSugaredType"
  unfolding demangleAccessor_def metatype_with_representation_def demangleSugaredType_def
  by (intro within; simp)+

lemma within_ops_13 [within]:
  "within (autodiff_kind_and_subsets x1)"
  "within demangleAutoDiffSelfReorderingReabstractionThunk"
  "within (demanglePartialSpecialization x2)" "within (spec_param_step x3)"
  "within demangleBridgedMethodParams"
  unfolding autodiff_kind_and_subsets_def
    demangleAutoDiffSelfReorderingReabstractionThunk_def demanglePartialSpecialization_def
    spec_param_step_def demangleBridgedMethodParams_def
  by (intro within; simp)+

lemma within_ops_14 [within]:
  "within demangleTypeAnnotation" "within (wrap_type_child x1)" "within build_topLevel"
  unfolding demangleTypeAnnotation_def wrap_type_child_def build_topLevel_def
  by (intro within; simp)+

lemma within_spec_operands_loop [within]: "within (spec_operands_loop ps)"
proof (induction ps)
  case (Cons p ps)
  show ?case unfolding spec_operands_loop.simps by (intro within Cons.IH)
qed (simp add: within)

lemma within_ops_15 [within]:
  "within demangleIdentifier" "within demangleLocalIdentifier"
  unfolding demangleIdentifier_def demangleLocalIdentifier_def
  by (intro within; simp)+

lemma within_ops_16 [within]:
  "within demangleBuiltinType" "within (demangleAnyGenericType x1)"
  "within demangleExtensionContext" "within (popFunctionParamLabels x2)" "within popProtocol"
  "within popAnyProtocolConformanceList" "within demangleRetroactiveConformance"
  unfolding demangleBuiltinType_def demangleAnyGenericType_def
    demangleExtensionContext_def popFunctionParamLabels_def popProtocol_def
    popAnyProtocolConformanceList_def demangleRetroactiveConformance_def
  by (intro within; simp)+

lemma within_ops_17 [within]:
  "within demangleBoundGenericType" "within (impl_substitutions x1 x2)"
  unfolding demangleBoundGenericType_def impl_substitutions_def
  by (intro within; simp)+

lemma within_ops_18 [within]:
  "within popAssocTypePath" "within (demangleAssociatedTypeCompound x1)"
  "within demangleOpaqueType" "within (demangleGenericSignature x2)"
  "within (layout_requirement x3)"
  unfolding popAssocTypePath_def demangleAssociatedTypeCompound_def demangleOpaqueType_def
    demangleGenericSignature_def layout_requirement_def
  by (intro within; simp)+

lemma within_ops_19 [within]:
  "within (demangleBoxType x1)" "within demangleAnonymousContext"
  "within demangleClangFunctionType" "within (demangleGlobalOnce x2)"
  unfolding demangleBoxType_def demangleAnonymousContext_def demangleClangFunctionType_def
    demangleGlobalOnce_def
  by (intro within; simp)+

lemma within_ops_20 [within]:
  "within (demangleAutoDiffFunctionOrSimpleThunk x1)"
  "within demangleAutoDiffSubsetParametersThunk" "within (demangleGenericSpecialization x2)"
  "within (demangleFuncSpecParam x3)" "within (demangleCompletionHandler x4)"
  unfolding demangleAutoDiffFunctionOrSimpleThunk_def
    demangleAutoDiffSubsetParametersThunk_def demangleGenericSpecialization_def
    demangleFuncSpecParam_def demangleCompletionHandler_def
  by (intro within; simp)+

lemma within_impl_opt_substitutions [within]:
  "c \<noteq> CHR 0x00 \<Longrightarrow> within (impl_opt_substitutions c kind b type)"
  unfolding impl_opt_substitutions_def by (intro within)

lemma within_constrained_type [within]: "within (constrained_type t)"
  by (cases t) (auto intro!: within)

lemma within_entity_arguments [within]: "within (entity_arguments a)"
  by (cases a) (auto intro!: within)

lemma within_protocol_list_loop [within]: "within (protocol_list_loop fuel TypeList)"
proof (induction fuel arbitrary: TypeList)
  case (Suc fuel)
  show ?case unfolding protocol_list_loop.simps by (intro within Suc.IH; simp)
qed (simp add: within)

lemma within_spec_params_loop [within]: "within (spec_params_loop fuel Spec)"
proof (induction fuel arbitrary: Spec)
  case (Suc fuel)
  show ?case unfolding spec_params_loop.simps by (intro within Suc.IH; simp)
qed (simp add: within)

lemma within_ops_21 [within]:
  "within demanglePlainFunction" "within demangleTypeMangling"
  "within demangleRetroactiveProtocolConformanceRef"
  "within demangleDependentProtocolConformanceRoot"
  "within demangleDependentProtocolConformanceInherited"
  "within popDependentAssociatedConformance"
  unfolding demanglePlainFunction_def demangleTypeMangling_def
    demangleRetroactiveProtocolConformanceRef_def
    demangleDependentProtocolConformanceRoot_def
    demangleDependentProtocolConformanceInherited_def
    popDependentAssociatedConformance_def
  by (intro within; simp)+

lemma within_ops_22 [within]:
  "within demangleArchetype" "within popProtocolConformance" "within (protocol_child x1)"
  "within demanglePrivateContextDescriptor"
  unfolding demangleArchetype_def popProtocolConformance_def protocol_child_def
    demanglePrivateContextDescriptor_def
  by (intro within; simp)+

lemma within_ops_23 [within]:
  "within (demangleEntity x1)" "within demangleSubscript"
  unfolding demangleEntity_def demangleSubscript_def
  by (intro within; simp)+

lemma within_ops_24 [within]:
  "within (demangleAssociatedConformance x1)" "within demangleAutoDiffThunk"
  unfolding demangleAssociatedConformance_def demangleAutoDiffThunk_def
  by (intro within; simp)+

lemma within_ops_25 [within]:
  "within demangleConcreteProtocolConformance"
  "within demangleDependentProtocolConformanceAssociated"
  unfolding demangleConcreteProtocolConformance_def
    demangleDependentProtocolConformanceAssociated_def
  by (intro within; simp)+

lemma within_ops_26 [within]:
  "within (conformance_child x1)"
  unfolding conformance_child_def
  by (intro within; simp)+

lemma within_ops_27 [within]:
  "within demangleVariable" "within demangleFunctionEntity" "within demangleProtocolList"
  "within (lazy_witness x1)"
  unfolding demangleVariable_def demangleFunctionEntity_def demangleProtocolList_def
    lazy_witness_def
  by (intro within; simp)+

lemma within_ops_28 [within]:
  "within demangleFunctionSpecialization" "within (demangleThunk x1)"
  unfolding demangleFunctionSpecialization_def demangleThunk_def
  by (intro within; simp)+

lemma within_ops_29 [within]:
  "within demangleMetatype"
  unfolding demangleMetatype_def
  by (intro within; simp)+

lemma within_ops_30 [within]:
  "within demangleProtocolListType" "within demangleSpecialType" "within demangleWitness"
  unfolding demangleProtocolListType_def demangleSpecialType_def demangleWitness_def
  by (intro within; simp)+

lemma within_ops_31 [within]:
  "within demangleThunkOrSpecialization"
  unfolding demangleThunkOrSpecialization_def
  by (intro within; simp)+


end

section \<open>Operations with \<open>pushBack\<close>\<close>

context dm_relation_back
begin

lemma within_pushBack [within]: "within pushBack"
  by (rule withinI) (use R_back in \<open>auto simp: dm_run R_stuck\<close>)

lemma within_multi_substitutions_loop [within]: "within (multi_substitutions_loop fuel RepeatCount)"
proof (induction fuel arbitrary: RepeatCount)
  case (Suc fuel)
  show ?case unfolding multi_substitutions_loop.simps by (intro within Suc.IH; simp)
qed (simp add: within)

lemma within_ops_32 [within]:
  "within demangleStandardSubstitution"
  unfolding demangleStandardSubstitution_def
  by (intro within; simp)+

lemma within_ops_33 [within]:
  "within (impl_convention x1 x2)" "within impl_function_convention"
  unfolding impl_convention_def impl_function_convention_def
  by (intro within; simp)+

lemma within_ops_34 [within]:
  "within requirement_code"
  unfolding requirement_code_def
  by (intro within; simp)+

lemma within_ops_35 [within]:
  "within demangleConformanceOperator" "within (other_operator x1)"
  unfolding demangleConformanceOperator_def other_operator_def
  by (intro within; simp)+

lemma within_ops_36 [within]:
  "within demangleMultiSubstitutions"
  unfolding demangleMultiSubstitutions_def
  by (intro within; simp)+

lemma within_ops_37 [within]:
  "within (demangleImplParamConvention x1)" "within (demangleImplResultConvention x2)"
  "within (impl_add_convention x3)"
  unfolding demangleImplParamConvention_def demangleImplResultConvention_def
    impl_add_convention_def
  by (intro within; simp)+

lemma within_ops_38 [within]:
  "within demangleGenericRequirement"
  unfolding demangleGenericRequirement_def
  by (intro within; simp)+

lemma within_impl_yields_loop [within]: "within (impl_yields_loop fuel)"
proof (induction fuel)
  case (Suc fuel)
  show ?case unfolding impl_yields_loop.simps by (intro within Suc.IH; simp)
qed (simp add: within)

lemma within_ops_39 [within]:
  "within (impl_params_and_results x1)"
  unfolding impl_params_and_results_def
  by (intro within; simp)+

lemma within_ops_40 [within]:
  "within demangleImplFunctionType"
  unfolding demangleImplFunctionType_def
  by (intro within; simp)+

lemma within_ops_41 [within]:
  "within (upper_operator x1)"
  unfolding upper_operator_def
  by (intro within; simp)+

lemma within_ops_42 [within]:
  "within demangleOperator"
  unfolding demangleOperator_def
  by (intro within; simp)+

lemma within_parse_loop [within]: "within (parse_loop fuel)"
proof (induction fuel)
  case (Suc fuel)
  show ?case unfolding parse_loop.simps by (intro within Suc.IH; simp)
qed (simp add: within)

lemma within_ops_43 [within]:
  "within parseAndPushNodes"
  unfolding parseAndPushNodes_def
  by (intro within; simp)+


end

section \<open>The relations of the demangler\<close>

text \<open>
  What every operation keeps: the text, the mode and the resolver do not change; substitutions and
  words are only appended, the words up to \<open>MaxNumWords\<close>; a position inside the text stays there.
\<close>

definition frame :: "dem \<Rightarrow> dem \<Rightarrow> bool" where
  "frame s s' \<longleftrightarrow>
     Text s' = Text s \<and> IsOldFunctionTypeMangling s' = IsOldFunctionTypeMangling s
     \<and> SymbolicReferenceResolver s' = SymbolicReferenceResolver s
     \<and> prefix (Substitutions s) (Substitutions s') \<and> prefix (Words s) (Words s')
     \<and> (length (Words s) \<le> MaxNumWords \<longrightarrow> length (Words s') \<le> MaxNumWords)
     \<and> (Pos s \<le> length (Text s) \<longrightarrow> Pos s' \<le> length (Text s)) \<and> (Stuck s \<longrightarrow> Stuck s')"

text \<open>What those without \<open>pushBack\<close> also keep: the position does not move back.\<close>

definition forward :: "dem \<Rightarrow> dem \<Rightarrow> bool" where
  "forward s s' \<longleftrightarrow> frame s s' \<and> (Pos s \<le> length (Text s) \<longrightarrow> Pos s \<le> Pos s')"

text \<open>And lowered function types: at the end of the text they may go back by up to two characters.\<close>

definition near :: "dem \<Rightarrow> dem \<Rightarrow> bool" where
  "near s s' \<longleftrightarrow> frame s s' \<and> (Pos s \<le> length (Text s) \<longrightarrow> min (Pos s) (length (Text s) - 2) \<le> Pos s')"

lemma frameD:
  assumes "frame s s'"
  shows "Text s' = Text s" "Pos s \<le> length (Text s) \<Longrightarrow> Pos s' \<le> length (Text s)" "Stuck s \<Longrightarrow> Stuck s'"
  using assms by (simp_all add: frame_def)

lemma frame_trans:
  assumes f: "frame s t" and g: "frame t u"
  shows "frame s u"
proof -
  have t: "Text t = Text s" "Text u = Text t" using f g by (simp_all add: frame_def)
  have p: "prefix (Substitutions s) (Substitutions t)" "prefix (Substitutions t) (Substitutions u)"
    "prefix (Words s) (Words t)" "prefix (Words t) (Words u)"
    using f g by (simp_all add: frame_def)
  have i: "length (Words s) \<le> MaxNumWords \<Longrightarrow> length (Words u) \<le> MaxNumWords"
    "Pos s \<le> length (Text s) \<Longrightarrow> Pos u \<le> length (Text s)" "Stuck s \<Longrightarrow> Stuck u"
    using f g by (simp_all add: frame_def)
  have c: "IsOldFunctionTypeMangling u = IsOldFunctionTypeMangling s"
    "SymbolicReferenceResolver u = SymbolicReferenceResolver s"
    using f g by (simp_all add: frame_def)
  show ?thesis
    unfolding frame_def using t i c prefix_order.order_trans [OF p(1,2)] prefix_order.order_trans [OF p(3,4)]
    by (intro conjI impI) simp_all
qed

lemma forward_trans: "forward s t \<Longrightarrow> forward t u \<Longrightarrow> forward s u"
  unfolding forward_def by (elim conjE, intro conjI, erule (1) frame_trans) (auto simp: frameD)

lemma near_trans: "near s t \<Longrightarrow> near t u \<Longrightarrow> near s u"
  unfolding near_def by (elim conjE, intro conjI, erule (1) frame_trans) (auto simp: frameD)

lemma frame_refl: "frame s s"
  by (simp add: frame_def)

lemma frame_changes: 
  "n \<le> length (Text s) - Pos s \<Longrightarrow> frame s (s\<lparr>Pos := Pos s + n\<rparr>)"
  "frame s (s\<lparr>NodeStack := ns\<rparr>)"
  "frame s (s\<lparr>Substitutions := Substitutions s @ ns\<rparr>)"
  "frame s (s\<lparr>Words := Words s @ take (MaxNumWords - length (Words s)) ws\<rparr>)"
  "frame s (s\<lparr>Pos := length (Text s)\<rparr>)"
  "frame s (s\<lparr>Stuck := True\<rparr>)"
  "frame s (s\<lparr>Pos := Pos s - 1\<rparr>)"
  by (simp_all add: frame_def) arith+

interpretation frame: dm_relation_back frame
  by (unfold_locales, rule frame_refl, erule (1) frame_trans) (simp_all only: frame_changes)

interpretation forward: dm_relation forward
  by (unfold_locales, simp add: forward_def frame_refl, erule (1) forward_trans)
    (simp_all add: forward_def frame_changes)

interpretation near: dm_relation near
  by (unfold_locales, simp add: near_def frame_refl, erule (1) near_trans)
    (simp_all add: near_def frame_changes, arith+)

end
