(* ===== verification/Demangler_Progress.thy ===== *)
theory Demangler_Progress
  imports Demangler_Frame
begin

text \<open>
  Every operator that succeeds moves the position forward, so that the loop over the operators ends.
  Most operations never move back (\<open>forward\<close>). Those that call \<open>pushBack\<close> may: at the end of the text
  nothing was read, and they read characters again that were read before. They are followed
  separately.
\<close>

section \<open>Moving forward by a number of characters\<close>

lemma forwardD:
  assumes "forward s s'" "Pos s \<le> length (Text s)"
  shows "Pos s \<le> Pos s'" "Pos s' \<le> length (Text s')" "Text s' = Text s"
  using assms by (simp_all add: forward_def frame_def)

lemma forward_run:
  assumes "state_io_rel forward m" "run_state m s = (x, s')" "Pos s \<le> length (Text s)"
  shows "Pos s \<le> Pos s'" "Pos s' \<le> length (Text s')" "Text s' = Text s"
proof -
  have f: "forward s s'" using assms(1,2) by (metis state_io_rel_def snd_conv)
  show "Pos s \<le> Pos s'" "Pos s' \<le> length (Text s')" "Text s' = Text s"
    by (rule forwardD [OF f assms(3)])+
qed

text \<open>
  The progress of an operation that succeeds is measured from a start, the position or, for lowered
  function types, the position up to two characters before the end.
\<close>

definition gains_from :: "(dem \<Rightarrow> nat) \<Rightarrow> nat \<Rightarrow> 'a option dm \<Rightarrow> bool" where
  "gains_from start k m \<longleftrightarrow> (\<forall>s. Pos s \<le> length (Text s) \<longrightarrow> fst (run_state m s) \<noteq> None
     \<longrightarrow> start s + k \<le> Pos (snd (run_state m s)))"

abbreviation gains :: "nat \<Rightarrow> 'a option dm \<Rightarrow> bool" where
  "gains \<equiv> gains_from Pos"

named_theorems gains \<open>operations that move forward when they succeed\<close>

lemma gainsI:
  assumes "\<And>s x s'. \<lbrakk>Pos s \<le> length (Text s); run_state m s = (Some x, s')\<rbrakk> \<Longrightarrow> start s + k \<le> Pos s'"
  shows "gains_from start k m"
  unfolding gains_from_def using assms by (metis option.exhaust prod.collapse)

lemma gainsD:
  "gains_from start k m \<Longrightarrow> run_state m s = (Some x, s') \<Longrightarrow> Pos s \<le> length (Text s) \<Longrightarrow> start s + k \<le> Pos s'"
  by (auto simp: gains_from_def)

lemma gains_null [gains]: "gains_from start k null"
  by (simp add: gains_from_def)

lemma gains_stuck [gains]: "gains_from start k (stuck None)"
  by (simp add: gains_from_def dm_run)

lemma gains_mono: "gains_from start n m \<Longrightarrow> k \<le> n \<Longrightarrow> gains_from start k m"
  by (fastforce simp: gains_from_def)

lemma gains_if [gains]:
  "(b \<Longrightarrow> gains_from start k m) \<Longrightarrow> (\<not> b \<Longrightarrow> gains_from start k n)
    \<Longrightarrow> gains_from start k (if b then m else n)"
  by simp

lemma gains_option [gains]:
  "(x = None \<Longrightarrow> gains_from start k m) \<Longrightarrow> (\<And>y. x = Some y \<Longrightarrow> gains_from start k (f y))
    \<Longrightarrow> gains_from start k (case x of None \<Rightarrow> m | Some y \<Rightarrow> f y)"
  by (cases x) simp_all

lemma gains_prod [gains]:
  "(\<And>a b. p = (a, b) \<Longrightarrow> gains_from start k (f a b)) \<Longrightarrow> gains_from start k (case p of (a, b) \<Rightarrow> f a b)"
  by (cases p) simp

lemma gains_let [gains]: "(\<And>y. gains_from start k (f y)) \<Longrightarrow> gains_from start k (let y = x in f y)"
  by simp

locale dm_progress = dm_relation +
  fixes start :: "dem \<Rightarrow> nat"
  assumes R_inside: "R s s' \<Longrightarrow> Pos s \<le> length (Text s) \<Longrightarrow> Pos s' \<le> length (Text s')"
    and R_base: "R s s' \<Longrightarrow> Pos s \<le> length (Text s) \<Longrightarrow> start s \<le> start s'"
    and base_Pos: "start s \<le> Pos s"

context dm_progress
begin

lemma gains_within: "within m \<Longrightarrow> gains_from start 0 m"
proof (rule gainsI)
  fix s x s'
  assume "within m" "Pos s \<le> length (Text s)" "run_state m s = (Some x, s')"
  then show "start s + 0 \<le> Pos s'"
    using withinD [of m s] R_base [of s s'] base_Pos [of s'] by simp
qed

lemma gains_bind [gains]:
  assumes "within m" "\<And>x. gains_from start k (f x)"
  shows "gains_from start k (State_Monad.bind m f)"
proof (rule gainsI)
  fix s y s'
  assume p: "Pos s \<le> length (Text s)" and r: "run_state (State_Monad.bind m f) s = (Some y, s')"
  obtain x t where t: "run_state m s = (x, t)" by fastforce
  then have st: "R s t" using withinD [OF assms(1), of s] by simp
  have "run_state (f x) t = (Some y, s')" using r t by simp
  from gainsD [OF assms(2) this R_inside [OF st p]] show "start s + k \<le> Pos s'"
    using R_base [OF st p] by simp
qed

lemma gains_nextIf:
  assumes "state_io_rel forward m" "gains_from start 1 n" "c \<noteq> CHR 0x00"
  shows "gains_from start 1 (State_Monad.bind (nextIf c) (\<lambda>b. if b then m else n))"
proof (rule gainsI)
  fix s y s'
  assume p: "Pos s \<le> length (Text s)"
    and r: "run_state (State_Monad.bind (nextIf c) (\<lambda>b. if b then m else n)) s = (Some y, s')"
  show "start s + 1 \<le> Pos s'"
  proof (cases "char_at s = c")
    case True
    then have "Pos s < length (Text s)" using assms(3) by (auto simp: char_at_def split: if_splits)
    then show ?thesis
      using True r base_Pos [of s] forward_run [OF assms(1), of "s\<lparr>Pos := Pos s + 1\<rparr>" "Some y" s']
      by (simp add: dm_run)
  next
    case False
    then show ?thesis using r gainsD [OF assms(2) _ p] by (simp add: dm_run)
  qed
qed

end

interpretation forward_progress: dm_progress forward Pos
  by unfold_locales (simp_all add: forward_def frame_def)

text \<open>The start for lowered function types.\<close>

definition near_base :: "dem \<Rightarrow> nat" where
  "near_base s = min (Pos s) (length (Text s) - 2)"

lemma nearD:
  assumes "near s s'" "Pos s \<le> length (Text s)"
  shows "near_base s \<le> Pos s'" "Pos s' \<le> length (Text s')" "Text s' = Text s"
  using assms by (simp_all add: near_def frame_def near_base_def)

interpretation near_progress: dm_progress near near_base
  by unfold_locales (auto simp: near_base_def dest: nearD)

lemma gains_bind_option:
  assumes "gains k m" "\<And>y. state_io_rel forward (f y)" "state_io_rel forward m"
  shows "gains k (State_Monad.bind m (\<lambda>x. case x of None \<Rightarrow> null | Some y \<Rightarrow> f y))"
proof (rule gainsI)
  fix s y s'
  assume p: "Pos s \<le> length (Text s)"
    and r: "run_state (State_Monad.bind m (\<lambda>x. case x of None \<Rightarrow> null | Some y \<Rightarrow> f y)) s = (Some y, s')"
  then obtain x t where t: "run_state m s = (Some x, t)" and "run_state (f x) t = (Some y, s')"
    by (auto split: prod.splits option.splits)
  then show "Pos s + k \<le> Pos s'"
    using gainsD [OF assms(1) t p] forward_run [OF assms(2)] forward_run [OF assms(3) t p] by fastforce
qed

section \<open>Identifiers\<close>

lemma gains_identifier_slice: "gains n (identifier_slice p n)"
  by (rule gainsI) (auto simp: identifier_slice_def record_words_def dm_run split: if_splits option.splits)

lemma gains_identifier_loop: "gains 1 (identifier_loop fuel p h i)"
proof (cases fuel)
  case (Suc n)
  have "gains 1 (identifier_slice p (nat numChars))" if "\<not> numChars \<le> 0" for numChars
    using that by (intro gains_mono [OF gains_identifier_slice]) simp
  then show ?thesis
    unfolding Suc identifier_loop.simps
    by (intro gains within forward_progress.gains_nextIf gains_bind_option; simp)
qed (simp add: gains)

lemma natural_loop_digit:
  assumes "isDigit c" "natural_loop 0 (c # cs) = (num, n)" "0 \<le> num"
  shows "0 < n"
  using assms by (auto simp: Let_def split: if_splits prod.splits)

lemma char_at_drop: "char_at s \<noteq> CHR 0x00 \<Longrightarrow> drop (Pos s) (Text s) = char_at s # drop (Suc (Pos s)) (Text s)"
  by (auto simp: char_at_def Cons_nth_drop_Suc split: if_splits)

lemma gains_demangleNatural:
  assumes "run_state demangleNatural s = (num, s')" "0 \<le> num"
  shows "Pos s + 1 \<le> Pos s'"
proof -
  have d: "isDigit (char_at s)" using assms by (auto simp: demangleNatural_def dm_run split: if_splits)
  then have "char_at s \<noteq> CHR 0x00" by (auto simp: isDigit_def)
  from char_at_drop [OF this] show ?thesis
    using assms d natural_loop_digit [OF d]
    by (fastforce simp: demangleNatural_def dm_run Suc_le_eq simp del: natural_loop.simps split: prod.splits)
qed

lemma gains_identifier_loop_digit:
  assumes "run_state (identifier_loop fuel False False i) s = (Some x, s')"
    "char_at s \<noteq> CHR ''0''" "Pos s \<le> length (Text s)"
  shows "Pos s + 2 \<le> Pos s'"
proof -
  obtain n where n: "fuel = Suc n" using assms(1) by (cases fuel) (auto simp: dm_run)
  obtain num t where t: "run_state demangleNatural s = (num, t)" by fastforce
  have num: "0 < num" and slice: "run_state (do {
        piece \<leftarrow> identifier_slice False (nat num);
        case piece of None \<Rightarrow> null | Some p \<Rightarrow> ret (Some (i @ p)) }) t = (Some x, s')"
    using assms(1,2) by (auto simp: n dm_run t split: if_splits prod.splits)
  have "gains (nat num) (do {
        piece \<leftarrow> identifier_slice False (nat num);
        case piece of None \<Rightarrow> null | Some p \<Rightarrow> ret (Some (i @ p)) })"
    by (intro gains_bind_option gains_identifier_slice within)
  from gainsD [OF this slice] show ?thesis
    using num gains_demangleNatural [OF t] num forward_run [OF forward.within_demangleNatural t assms(3)]
    by simp
qed

lemma gains_demangleIdentifier: "gains 2 demangleIdentifier"
proof (rule gainsI)
  fix s y s'
  assume p: "Pos s \<le> length (Text s)" and r: "run_state demangleIdentifier s = (Some y, s')"
  have d: "isDigit (char_at s)" using r by (auto simp: demangleIdentifier_def dm_run split: if_splits)
  then have lt: "Pos s < length (Text s)" by (auto simp: char_at_def isDigit_def split: if_splits)
  show "Pos s + 2 \<le> Pos s'"
  proof (cases "char_at s = CHR ''0''")
    case True
    let ?rest = "\<lambda>h p'. do {
       n \<leftarrow> read_state remaining;
       r \<leftarrow> identifier_loop (n + 1) p' h [];
       case r of
         None \<Rightarrow> null
       | Some Identifier \<Rightarrow>
           if Identifier = [] then null
           else do {
             let Ident = Some (TextNode K_Identifier Identifier);
             addSubstitution Ident;
             ret Ident
           } }"
    have g: "gains 1 (?rest h p')" for h p'
      by (intro gains within gains_bind_option gains_identifier_loop; simp)
    let ?s1 = "s\<lparr>Pos := Pos s + 1\<rparr>"
    have "gains 1 (do { c2 \<leftarrow> peekChar;
        (h, p') \<leftarrow> (if c2 = CHR ''0'' then do { nextChar; ret (False, True) } else ret (True, False));
        ?rest h p' })"
      by (intro gains within g)
    moreover have "run_state (do { c2 \<leftarrow> peekChar;
        (h, p') \<leftarrow> (if c2 = CHR ''0'' then do { nextChar; ret (False, True) } else ret (True, False));
        ?rest h p' }) ?s1 = (Some y, s')"
      using r d True lt by (simp add: demangleIdentifier_def dm_run Let_def split: if_splits prod.splits)
    ultimately show ?thesis using gainsD lt by fastforce
  next
    case False
    with r d obtain x t where x: "run_state (identifier_loop (remaining s + 1) False False []) s = (Some x, t)"
      and "s' = t\<lparr>Substitutions := Substitutions t @ [TextNode K_Identifier x]\<rparr>"
      by (auto simp: demangleIdentifier_def dm_run Let_def split: if_splits prod.splits option.splits)
    then show ?thesis using gains_identifier_loop_digit [OF x False p] by simp
  qed
qed

section \<open>Operators that may read a character again\<close>

lemma run_back: "Pos s < length (Text s) \<Longrightarrow> run_state pushBack (s\<lparr>Pos := Suc (Pos s)\<rparr>) = ((), s)"
  by (simp add: dm_run)

lemma forward_advance: "Pos s < length (Text s) \<Longrightarrow> forward s (s\<lparr>Pos := Suc (Pos s)\<rparr>)"
  by (rule forward.R_advance_1)

text \<open>An operation that reads a character and goes on from there, or from before it.\<close>

lemma forward_nextChar:
  assumes "state_io_rel forward (f (CHR 0x00))"
    and "\<And>s. Pos s < length (Text s) \<Longrightarrow> char_at s \<noteq> CHR 0x00 \<Longrightarrow>
      forward s (snd (run_state (f (char_at s)) (s\<lparr>Pos := Suc (Pos s)\<rparr>)))"
  shows "state_io_rel forward (State_Monad.bind nextChar f)"
proof (rule forward.withinI)
  fix s :: dem
  show "forward s (snd (run_state (State_Monad.bind nextChar f) s))"
  proof (cases "Pos s < length (Text s)")
    case True
    have "forward s (snd (run_state (f (CHR 0x00)) (s\<lparr>Pos := Suc (Pos s)\<rparr>)))"
      using forward.R_trans [OF forward_advance [OF True] forward.withinD [OF assms(1)]] .
    then show ?thesis using assms(2) [OF True] True by (cases "char_at s = CHR 0x00") (simp_all add: dm_run)
  next
    case False
    then have "char_at s = CHR 0x00" by (simp add: char_at_def)
    then show ?thesis using False forward.withinD [OF assms(1), of s] by (simp add: dm_run)
  qed
qed

lemma forward_after: "Pos s < length (Text s) \<Longrightarrow> state_io_rel forward m
    \<Longrightarrow> forward s (snd (run_state m (s\<lparr>Pos := Suc (Pos s)\<rparr>)))"
  by (rule forward.R_trans [OF forward_advance forward.withinD])

lemma forward_back: "Pos s < length (Text s) \<Longrightarrow> state_io_rel forward m
    \<Longrightarrow> forward s (snd (run_state (State_Monad.bind pushBack (\<lambda>_. m)) (s\<lparr>Pos := Suc (Pos s)\<rparr>)))"
  by (simp add: run_back forward.withinD)

lemma forward_multi_substitutions_loop: "state_io_rel forward (multi_substitutions_loop fuel r)"
proof (induction fuel arbitrary: r)
  case (Suc fuel)
  show ?case
    unfolding multi_substitutions_loop.simps
    by (rule forward_nextChar)
      (auto simp only: simp_thms if_True if_False intro!: forward_after forward_back within Suc.IH
        split: if_split)
qed (simp add: within)

lemma forward_demangleMultiSubstitutions: "state_io_rel forward demangleMultiSubstitutions"
  unfolding demangleMultiSubstitutions_def by (intro within forward_multi_substitutions_loop)

text \<open>A standard substitution at the end of the text reads its own \<open>S\<close> again.\<close>

lemma run_bind_nextChar: "Pos s < length (Text s) \<Longrightarrow>
    run_state (State_Monad.bind nextChar f) s = run_state (f (char_at s)) (s\<lparr>Pos := Suc (Pos s)\<rparr>)"
  by (simp add: dm_run)

lemma at_end:
  assumes "\<not> Pos s < length (Text s)" "Pos s \<le> length (Text s)" "Pos s \<noteq> 0"
  shows "char_at s = CHR 0x00" "Pos s = length (Text s)"
    "char_at (s\<lparr>Pos := Pos s - 1\<rparr>) = Text s ! (Pos s - 1)"
    "length (Text s) - Suc 0 < length (Text s)"
proof -
  have l: "length (Text s) - Suc 0 < length (Text s)" using assms by simp
  then have nl: "\<not> length (Text s) \<le> length (Text s) - Suc 0" by (simp only: not_le)
  from l show "char_at s = CHR 0x00" "Pos s = length (Text s)"
    "char_at (s\<lparr>Pos := Pos s - 1\<rparr>) = Text s ! (Pos s - 1)"
    "length (Text s) - Suc 0 < length (Text s)"
    using assms nl by (simp_all add: char_at_def)
qed

lemma standard_substitution_progress:
  assumes p: "Pos s \<le> length (Text s)" "Pos s \<noteq> 0" "Text s ! (Pos s - 1) = CHR ''S''"
  shows "Pos s \<le> Pos (snd (run_state demangleStandardSubstitution s))"
proof (cases "Pos s < length (Text s)")
  case True
  then have "forward s (snd (run_state demangleStandardSubstitution s))"
    unfolding demangleStandardSubstitution_def run_bind_nextChar [OF True]
    by (auto simp only: simp_thms if_True if_False intro!: forward_after forward_back within
        split: if_split)
  from forwardD [OF this p(1)] show ?thesis by simp
next
  case False
  note e = at_end [OF this p(1,2)] p(3)
  show ?thesis using e p
    by (simp add: demangleStandardSubstitution_def dm_run demangleNatural_def isDigit_def not_le
        split: option.split)
qed

text \<open>A requirement at the end of the text reads its own \<open>R\<close> again and fails.\<close>

lemma forward_requirement_code:
  assumes "Pos s < length (Text s)"
  shows "forward s (snd (run_state requirement_code s))"
  unfolding requirement_code_def run_bind_nextChar [OF assms]
  using assms by (cases "map_of requirement_codes (char_at s)")
    (simp_all add: forward_advance run_back forward.R_refl)

lemma demangleIndex_no_digit:
  assumes "char_at s \<noteq> CHR ''_''" "\<not> isDigit (char_at s)"
  shows "run_state demangleIndex s = (-1000, s)"
  using assms by (simp add: demangleIndex_def demangleNatural_def dm_run)

lemma requirement_progress:
  assumes p: "Pos s \<le> length (Text s)" "Pos s \<noteq> 0" "Text s ! (Pos s - 1) = CHR ''R''"
    and r: "run_state demangleGenericRequirement s = (Some y, s')"
  shows "Pos s \<le> Pos s'"
proof (cases "Pos s < length (Text s)")
  case True
  let ?f = "\<lambda>(ConstraintKind, TypeKind). do {
     ConstrTy \<leftarrow> constrained_type TypeKind;
     case ConstraintKind of
       RC_Protocol \<Rightarrow> do {
         P \<leftarrow> popProtocol;
         ret (createWithChildren K_DependentGenericConformanceRequirement [ConstrTy, P])
       }
     | RC_BaseClass \<Rightarrow> do {
         Ty \<leftarrow> popNode_kind K_Type;
         ret (createWithChildren K_DependentGenericConformanceRequirement [ConstrTy, Ty])
       }
     | RC_SameType \<Rightarrow> do {
         Ty \<leftarrow> popNode_kind K_Type;
         ret (createWithChildren K_DependentGenericSameTypeRequirement [ConstrTy, Ty])
       }
     | RC_Layout \<Rightarrow> layout_requirement ConstrTy
   }"
  have f: "state_io_rel forward (?f x)" for x
    by (intro within)
  obtain x t where t: "run_state requirement_code s = (x, t)" by fastforce
  then have "run_state (?f x) t = (Some y, s')"
    using r unfolding demangleGenericRequirement_def by simp
  then have "forward t s'" using forward.withinD [OF f, of t x] by simp
  then have "forward s s'"
    using forward_requirement_code [OF True] t by (metis forward_trans snd_conv)
  from forwardD [OF this p(1)] show ?thesis by simp
next
  case False
  note e = at_end [OF this p(1,2)] p(3)
  have "fst (run_state demangleGenericRequirement s) = None"
    using e p by (simp add: demangleGenericRequirement_def requirement_code_def requirement_codes_def dm_run
        demangleGenericParamIndex_def demangleIndex_no_digit isDigit_def getDependentGenericParamType_def
        int32_def createType_def createWithChild_def createWithChildren_def split: prod.split)
  then show ?thesis by (simp add: r)
qed

section \<open>Lowered function types\<close>

lemma near_impl_convention: "state_io_rel near (impl_convention table kind)"
proof (rule near.withinI)
  fix s :: dem
  show "near s (snd (run_state (impl_convention table kind) s))"
  proof (cases "Pos s < length (Text s)")
    case True
    then show ?thesis
      unfolding impl_convention_def run_bind_nextChar [OF True]
      by (cases "map_of table (char_at s)") (simp_all add: near.R_advance_1 run_back near.R_refl)
  next
    case False
    then show ?thesis
      using frame_changes(7) [of s]
      by (cases "map_of table (CHR 0x00)")
        (auto simp: impl_convention_def char_at_def dm_run near_def frame_changes frame_refl)
  qed
qed

lemma near_conventions:
  "state_io_rel near (demangleImplParamConvention k)" "state_io_rel near (demangleImplResultConvention k)"
  by (simp_all add: demangleImplParamConvention_def demangleImplResultConvention_def near_impl_convention)

lemma frame_two_back: "frame s (s\<lparr>Pos := Pos s - 2\<rparr>)" "frame s (s\<lparr>Pos := Pos s - 1\<rparr>)"
  by (simp_all add: frame_def) arith+

lemma near_impl_function_convention: "state_io_rel near impl_function_convention"
proof (rule near.withinI)
  fix s :: dem
  have "frame s (snd (run_state impl_function_convention s))"
    by (rule frame.withinD) (rule within)
  moreover have "near_base s \<le> Pos (snd (run_state impl_function_convention s))" if "Pos s \<le> length (Text s)"
    using that by (auto simp: impl_function_convention_def dm_run near_base_def split: option.splits)
  ultimately show "near s (snd (run_state impl_function_convention s))"
    by (simp add: near_def near_base_def)
qed

lemma near_impl_add_convention: "state_io_rel near (impl_add_convention type)"
  unfolding impl_add_convention_def by (intro within near_impl_function_convention)

lemma near_impl_yields_loop: "state_io_rel near (impl_yields_loop fuel)"
proof (induction fuel)
  case (Suc fuel)
  show ?case unfolding impl_yields_loop.simps by (intro within near_conventions Suc.IH; simp)
qed (simp add: within)

lemma impl_params_and_results_gains: "gains_from near_base 1 (impl_params_and_results type)"
proof -
  have e: "gains_from near_base 1 (do { u \<leftarrow> nextIf (CHR ''_''); if \<not> u then null else m })"
    if "state_io_rel forward m" for m :: "node option dm"
  proof -
    have "(\<lambda>u. if \<not> u then null else m) = (\<lambda>u. if u then m else null)" by auto
    then show ?thesis using near_progress.gains_nextIf [OF that gains_null] by simp
  qed
  show ?thesis
    unfolding impl_params_and_results_def
    by (intro gains within near_conventions near_impl_yields_loop e; simp)
qed

lemma gains_demangleImplFunctionType: "gains_from near_base 1 demangleImplFunctionType"
  unfolding demangleImplFunctionType_def
  by (intro gains within near_impl_add_convention impl_params_and_results_gains; simp)

lemma demangleImplFunctionType_end:
  assumes "char_at s = CHR 0x00"
  shows "fst (run_state demangleImplFunctionType s) = None"
proof -
  have keep: "char_at (s\<lparr>NodeStack := st\<rparr>) = CHR 0x00" for st
    using assms by (auto simp: char_at_def)
  show ?thesis
    using assms keep
    by (cases "NodeStack s")
      (simp_all add: demangleImplFunctionType_def impl_opt_substitutions_def dm_run Let_def
        impl_differentiability_def is_differentiability_kind_def callee_conventions_def)
qed

section \<open>Operators\<close>

text \<open>An operation that, run from \<open>s\<close>, does not end before the position of \<open>s\<close> when it succeeds.\<close>

definition stays :: "dem \<Rightarrow> 'a option dm \<Rightarrow> bool" where
  "stays s m \<longleftrightarrow> (fst (run_state m s) \<noteq> None \<longrightarrow> Pos s \<le> Pos (snd (run_state m s)))"

lemma stays_if: "(b \<Longrightarrow> stays s m) \<Longrightarrow> (\<not> b \<Longrightarrow> stays s n) \<Longrightarrow> stays s (if b then m else n)"
  by simp

lemma stays_forward: "Pos s \<le> length (Text s) \<Longrightarrow> state_io_rel forward m \<Longrightarrow> stays s m"
  unfolding stays_def by (metis forwardD(1) forward.withinD)

lemma staysI: "(\<And>y s'. run_state m s = (Some y, s') \<Longrightarrow> Pos s \<le> Pos s') \<Longrightarrow> stays s m"
  unfolding stays_def by (metis option.exhaust prod.collapse)

lemma demangleIdentifier_no_digit: "\<not> isDigit (char_at s) \<Longrightarrow> run_state demangleIdentifier s = (None, s)"
  by (simp add: demangleIdentifier_def dm_run)

lemma stays_standard_substitution:
  assumes "Pos s \<le> length (Text s)" "Pos s \<noteq> 0" "Text s ! (Pos s - 1) = CHR ''S''"
  shows "stays s demangleStandardSubstitution"
  using standard_substitution_progress [OF assms] by (simp add: stays_def)

lemma stays_requirement:
  assumes "Pos s \<le> length (Text s)" "Pos s \<noteq> 0" "Text s ! (Pos s - 1) = CHR ''R''"
  shows "stays s demangleGenericRequirement"
  by (rule staysI) (rule requirement_progress [OF assms])

lemma stays_impl:
  assumes "Pos s \<le> length (Text s)"
  shows "stays s demangleImplFunctionType"
proof (cases "Pos s < length (Text s)")
  case True
  show ?thesis
    by (rule staysI) (use gainsD [OF gains_demangleImplFunctionType] assms True in
        \<open>fastforce simp: near_base_def\<close>)
next
  case False
  then show ?thesis by (simp add: stays_def demangleImplFunctionType_end char_at_def)
qed

lemma stays_pushBack_identifier:
  assumes "Pos s \<le> length (Text s)"
  shows "stays s (do { pushBack; demangleIdentifier })"
proof (rule staysI)
  fix y s'
  assume r: "run_state (do { pushBack; demangleIdentifier }) s = (Some y, s')"
  show "Pos s \<le> Pos s'"
  proof (cases "Pos s = 0")
    case False
    then have "run_state demangleIdentifier (s\<lparr>Pos := Pos s - 1\<rparr>) = (Some y, s')"
      using r by (simp add: dm_run)
    from gainsD [OF gains_demangleIdentifier this] show ?thesis using assms by (simp add: le_diff_conv)
  qed simp
qed

lemma stays_conformance_operator:
  assumes p: "Pos s \<le> length (Text s)" "Pos s \<noteq> 0" "Text s ! (Pos s - 1) = CHR ''H''"
  shows "stays s demangleConformanceOperator"
proof (cases "Pos s < length (Text s)")
  case True
  let ?s = "s\<lparr>Pos := Suc (Pos s)\<rparr>"
  let ?h = "s\<lparr>Pos := Pos s - 1\<rparr>"
  have h: "char_at ?h = CHR ''H''" using p True by (auto simp: char_at_def)
  define P :: "node option dm \<Rightarrow> bool"
    where "P m \<longleftrightarrow> (fst (run_state m ?s) \<noteq> None \<longrightarrow> Pos s \<le> Pos (snd (run_state m ?s)))" for m
  have P_if: "P m \<Longrightarrow> P n \<Longrightarrow> P (if b then m else n)" for m n b
    by simp
  have ok: "P m" if "state_io_rel forward m" for m
    using forwardD(1) [OF forward_after [OF True that] p(1)] by (simp add: P_def)
  show ?thesis
    unfolding stays_def demangleConformanceOperator_def run_bind_nextChar [OF True] P_def [symmetric]
    apply (intro P_if)
    apply (rule ok, (intro within; fail))+
    using p(2) h by (simp add: P_def dm_run demangleIdentifier_no_digit isDigit_def)
next
  case False
  note nolt = this and e = at_end [OF this p(1,2)] p(3)
  show ?thesis
  proof (rule staysI)
    fix y s'
    assume r: "run_state demangleConformanceOperator s = (Some y, s')"
    let ?h = "s\<lparr>Pos := Pos s - 1\<rparr>"
    have h: "run_state (do { pushBack; demangleIdentifier }) ?h = (Some y, s')"
      using r nolt e(1) p(2) by (simp add: demangleConformanceOperator_def dm_run)
    show "Pos s \<le> Pos s'"
    proof (cases "Pos ?h = 0")
      case True
      then have "run_state demangleIdentifier (?h\<lparr>Stuck := True\<rparr>) = (Some y, s')"
        using h by (simp add: dm_run)
      moreover have "char_at (?h\<lparr>Stuck := True\<rparr>) = CHR ''H''" using e by (simp add: char_at_def)
      ultimately show ?thesis
        using demangleIdentifier_no_digit [of "?h\<lparr>Stuck := True\<rparr>"] by (simp add: isDigit_def)
    next
      case False
      then have "run_state demangleIdentifier (s\<lparr>Pos := Pos s - 2\<rparr>) = (Some y, s')"
        using h p(2) by (simp add: dm_run numeral_2_eq_2)
      from gainsD [OF gains_demangleIdentifier this] show ?thesis using p(1) False by (simp add: le_diff_conv)
    qed
  qed
qed

lemma stays_upper_operator:
  assumes "Pos s \<le> length (Text s)" "Pos s \<noteq> 0" "Text s ! (Pos s - 1) = c"
  shows "stays s (upper_operator c)"
  unfolding upper_operator_def using assms
  by (intro stays_if)
    (simp_all add: stays_standard_substitution stays_requirement stays_impl stays_pushBack_identifier
      stays_conformance_operator stays_forward within forward_demangleMultiSubstitutions)

lemma stays_suffix:
  assumes "Pos s \<le> length (Text s)"
  shows "stays s (do { pushBack; suffix \<leftarrow> consumeAll; ret (Some (TextNode K_Suffix suffix)) })"
  using assms by (simp add: stays_def dm_run)

lemma stays_other_operator:
  assumes "Pos s \<le> length (Text s)"
  shows "stays s (other_operator c)"
  unfolding other_operator_def using assms
  by (intro stays_if) (simp_all add: stays_pushBack_identifier stays_suffix stays_forward within)

lemma demangleOperator_progress:
  assumes p: "Pos s < length (Text s)" and r: "run_state demangleOperator s = (Some n, s')"
  shows "Pos s < Pos s'"
proof -
  obtain t where t: "run_state skip_padding s = ((), t)"
    by (metis old.unit.exhaust prod.collapse)
  have st: "Pos s \<le> Pos t" "Pos t \<le> length (Text t)" "Text t = Text s"
    using forward_run [OF forward.within_skip_padding t] p by simp_all
  show ?thesis
  proof (cases "Pos t < length (Text t)")
    case True
    let ?u = "t\<lparr>Pos := Suc (Pos t)\<rparr>" and ?c = "char_at t"
    let ?m = "if 1 \<le> ord ?c \<and> ord ?c \<le> 12 then demangleSymbolicReference (ord ?c)
       else if isUpperLetter ?c then upper_operator ?c else other_operator ?c"
    have c: "Text ?u ! (Pos ?u - 1) = ?c" using True by (simp add: char_at_def)
    have "run_state ?m ?u = (Some n, s')" using r True t by (simp add: demangleOperator_def dm_run)
    moreover have "stays ?u ?m"
      using True stays_upper_operator [OF _ _ c]
      by (intro stays_if) (simp_all add: stays_other_operator stays_forward within)
    ultimately show ?thesis using st by (simp add: stays_def)
  next
    case False
    then have c: "char_at t = CHR 0x00" by (simp add: char_at_def)
    have "run_state (other_operator (CHR 0x00)) t = (Some n, s')"
      using r t False c by (simp add: demangleOperator_def dm_run isUpperLetter_def)
    then have "Pos t \<le> Pos s'" using stays_other_operator [OF st(2), of "CHR 0x00"] by (simp add: stays_def)
    then show ?thesis using p st False by simp
  qed
qed

end
