(* ===== verification/Demangler_Loops.thy ===== *)
theory Demangler_Loops
  imports Demangler_Progress
begin

text \<open>
  The fuel of the demangler's loops never runs out. The locale \<open>fuel_loop\<close> fixes a loop with fuel and a
  measure of the state that every round makes smaller; then two runs with more fuel than the measure
  agree, in particular any run with the fuel that the operation starts the loop with. The loops that
  read the text are measured by the characters left, those that pop nodes by the height of the stack.
\<close>

section \<open>Loops with fuel\<close>

locale fuel_loop =
  fixes loop :: "nat \<Rightarrow> 'x \<Rightarrow> 'a dm" and left :: "'x \<Rightarrow> dem \<Rightarrow> nat" and inv :: "dem \<Rightarrow> bool"
  assumes round:
    "\<lbrakk>inv s; \<And>y t. \<lbrakk>inv t; left y t < left x s\<rbrakk> \<Longrightarrow> run_state (loop n y) t = run_state (loop m y) t\<rbrakk>
      \<Longrightarrow> run_state (loop (Suc n) x) s = run_state (loop (Suc m) x) s"
begin

lemma enough_fuel:
  "inv s \<Longrightarrow> left x s < n \<Longrightarrow> left x s < m \<Longrightarrow> run_state (loop n x) s = run_state (loop m x) s"
proof (induction n arbitrary: m x s)
  case (Suc n)
  then obtain k where k: "m = Suc k" by (cases m) auto
  show ?case
    unfolding k
  proof (rule round)
    fix y t
    assume "inv t" "left y t < left x s"
    then show "run_state (loop n y) t = run_state (loop k y) t"
      using Suc.IH [of t y k] Suc.prems(2,3) k by simp
  qed (rule Suc.prems(1))
qed simp

end

text \<open>Loops without arguments.\<close>

abbreviation no_argument :: "(nat \<Rightarrow> 'a dm) \<Rightarrow> nat \<Rightarrow> unit \<Rightarrow> 'a dm" where
  "no_argument loop \<equiv> \<lambda>n _. loop n"

abbreviation inside :: "dem \<Rightarrow> bool" where
  "inside s \<equiv> Pos s \<le> length (Text s)"

abbreviation height :: "dem \<Rightarrow> nat" where
  "height s \<equiv> length (NodeStack s)"

lemma run_bind_cong:
  "(\<And>x t. run_state m s = (x, t) \<Longrightarrow> run_state (f x) t = run_state (g x) t)
    \<Longrightarrow> run_state (State_Monad.bind m f) s = run_state (State_Monad.bind m g) s"
  by (cases "run_state m s") simp

text \<open>A state that an operation reaches after one or more characters.\<close>

lemma fewer_left:
  assumes "inside s" "inside t" "Text t = Text s" "Pos s < Pos t"
  shows "remaining t < remaining s"
  using assms by (simp add: remaining_def)

lemma remaining_step: "Pos s < length (Text s) \<Longrightarrow> remaining (s\<lparr>Pos := Suc (Pos s)\<rparr>) < remaining s"
  by (simp add: remaining_def)

section \<open>The loops over the stack\<close>

interpretation tuple: fuel_loop tuple_loop "\<lambda>_. height" "\<lambda>_. True"
  by unfold_locales
    (simp add: dm_run Let_def split: list.split option.split node.split)

interpretation type_list: fuel_loop type_list_loop "\<lambda>_. height" "\<lambda>_. True"
  by unfold_locales (simp add: dm_run Let_def split: list.split option.split)

interpretation conformance_list: fuel_loop conformance_list_loop "\<lambda>_. height" "\<lambda>_. True"
  by unfold_locales (simp add: dm_run Let_def popAnyProtocolConformance_def split: list.split option.split)

interpretation once_vars: fuel_loop "no_argument once_vars_loop" "\<lambda>_. height" "\<lambda>_. True"
  by unfold_locales (simp add: dm_run Let_def split: list.split option.split)

lemma dropWhile_shorter: "dropWhile p xs = y # ys \<Longrightarrow> length ys < length xs"
  using length_dropWhile_le [of p xs] by simp

interpretation type_lists: fuel_loop "no_argument type_lists_loop" "\<lambda>_. height" "\<lambda>_. True"
  by unfold_locales (auto simp: dm_run Let_def dest: dropWhile_shorter split: list.split option.split)

lemma popped_height:
  assumes "run_state (popNode_kind k) s = (x, t)"
  shows "height t \<le> height s" "x \<noteq> None \<Longrightarrow> height t < height s"
  using assms by (auto simp: dm_run split: list.splits if_splits)

lemma popAssocTypeName_height:
  assumes "run_state popAssocTypeName s = (Some x, t)"
  shows "height t < height s"
  using assms
  by (auto simp: popAssocTypeName_def dm_run Let_def createWithChild_def addChild_to_def
      split: list.splits option.splits if_splits)

lemma popProtocol_height:
  assumes "run_state popProtocol s = (Some x, t)"
  shows "height t < height s"
  using assms
  by (auto simp: popProtocol_def popContext_def popModule_def dm_run Let_def createWithChildren_def
      createType_def createWithChild_def
      split: list.splits option.splits if_splits)

text \<open>Loops whose round pops something, perhaps a marker, and goes on if that was there.\<close>

lemma marked_round:
  assumes "\<And>t y u. run_state m t = (Some y, u) \<Longrightarrow> height u < height t"
    and "\<And>x y t. height t < height s \<Longrightarrow> run_state (f x y) t = run_state (g x y) t"
  shows "run_state (do {
      x \<leftarrow> popNode_kind k; y \<leftarrow> m; case y of None \<Rightarrow> null | Some y \<Rightarrow> f x y }) s
    = run_state (do {
      x \<leftarrow> popNode_kind k; y \<leftarrow> m; case y of None \<Rightarrow> null | Some y \<Rightarrow> g x y }) s"
proof (intro run_bind_cong)
  fix x t y u
  assume "run_state (popNode_kind k) s = (x, t)" "run_state m t = (y, u)"
  then show "run_state (case y of None \<Rightarrow> null | Some y \<Rightarrow> f x y) u
      = run_state (case y of None \<Rightarrow> null | Some y \<Rightarrow> g x y) u"
    using popped_height(1) assms by (fastforce split: option.split)
qed

interpretation assoc_names: fuel_loop "no_argument assoc_names_loop" "\<lambda>_. height" "\<lambda>_. True"
proof (unfold_locales, goal_cases)
  case (1 s n m x)
  show ?case
    unfolding assoc_names_loop.simps
    by (rule marked_round [OF popAssocTypeName_height]) (use 1(2) in simp_all)
qed

interpretation protocol_list: fuel_loop protocol_list_loop "\<lambda>_. height" "\<lambda>_. True"
proof (unfold_locales, goal_cases)
  case (1 s n m x)
  show ?case
    unfolding protocol_list_loop.simps
    by (rule marked_round [OF popProtocol_height]) (use 1(2) in \<open>simp_all add: Let_def\<close>)
qed

section \<open>The loops over the text\<close>

lemma after_nextIf:
  assumes "inside s" "run_state (nextIf c) s = (b, t)" "c \<noteq> CHR 0x00"
  shows "inside t" "remaining t \<le> remaining s" "b \<Longrightarrow> remaining t < remaining s" "\<not> b \<Longrightarrow> t = s"
  using assms by (auto simp: dm_run remaining_def char_at_def split: if_splits)

lemma after_forward:
  assumes "inside s" "run_state m s = (x, t)" "state_io_rel forward m"
  shows "inside t" "remaining t \<le> remaining s"
  using forward_run [OF assms(3,2,1)] by (simp_all add: remaining_def)

lemma after_natural:
  assumes "inside s" "run_state demangleNatural s = (num, t)"
  shows "inside t" "remaining t \<le> remaining s" "0 \<le> num \<Longrightarrow> remaining t < remaining s"
  using after_forward [OF assms forward.within_demangleNatural] gains_demangleNatural [OF assms(2)]
    forward_run(3) [OF forward.within_demangleNatural assms(2,1)]
  by (simp_all add: remaining_def)

lemma after_index:
  assumes "inside s" "run_state demangleIndex s = (i, t)" "i \<noteq> -1000"
  shows "remaining t < remaining s"
proof (cases "char_at s = CHR ''_''")
  case True
  then show ?thesis
    using assms by (auto simp: demangleIndex_def dm_run remaining_def char_at_def split: if_splits)
next
  case False
  obtain num u where u: "run_state demangleNatural s = (num, u)" by fastforce
  show ?thesis
    using False assms(2,3) after_natural [OF assms(1) u] after_nextIf [of u "CHR ''_''"]
    by (fastforce simp: demangleIndex_def dm_run u split: if_splits)
qed

interpretation multi_substitutions: fuel_loop multi_substitutions_loop "\<lambda>_. remaining" inside
proof (unfold_locales, goal_cases)
  case (1 s x n m)
  note eq = 1(2)
  show ?case
  proof (cases "Pos s < length (Text s) \<and> char_at s \<noteq> CHR 0x00")
    case True
    let ?s = "s\<lparr>Pos := Suc (Pos s)\<rparr>"
    let ?c = "ord (char_at s) - ord (CHR ''a'')"
    have r: "inside ?s" "remaining ?s < remaining s" using True remaining_step by simp_all
    obtain Nd t where t: "run_state (pushMultiSubstitutions x ?c) ?s = (Nd, t)" by fastforce
    have "inside t" "remaining t \<le> remaining ?s"
      by (rule after_forward [OF r(1) t]; intro within)+
    then have "run_state (multi_substitutions_loop n (-1)) (t\<lparr>NodeStack := y # NodeStack t\<rparr>)
        = run_state (multi_substitutions_loop m (-1)) (t\<lparr>NodeStack := y # NodeStack t\<rparr>)" for y
      using r by (intro eq) (simp_all add: remaining_def)
    moreover obtain num u where u: "run_state demangleNatural s = (num, u)" by fastforce
    moreover have "run_state (multi_substitutions_loop n num) u = run_state (multi_substitutions_loop m num) u"
      if "\<not> num < 0"
      using that after_natural [OF 1(1) u] by (intro eq) simp_all
    ultimately show ?thesis
      using True t by (simp add: dm_run split: option.split)
  next
    case False
    then have "char_at s = CHR 0x00" by (auto simp: char_at_def)
    then show ?thesis by (simp add: dm_run)
  qed
qed

interpretation word_substitutions: fuel_loop "\<lambda>n (h, i). word_substitutions n h i" "\<lambda>_. remaining" inside
proof (unfold_locales, goal_cases)
  case (1 s x n m)
  obtain h i where x: "x = (h, i)" by fastforce
  show ?case
  proof (cases "h \<and> isLetter (char_at s)")
    case True
    then have lt: "Pos s < length (Text s)"
      by (auto simp: char_at_def isLetter_def isLowerLetter_def isUpperLetter_def split: if_splits)
    then have "run_state (word_substitutions n h' i') (s\<lparr>Pos := Suc (Pos s)\<rparr>)
        = run_state (word_substitutions m h' i') (s\<lparr>Pos := Suc (Pos s)\<rparr>)" for h' i'
      using 1(2) [of "s\<lparr>Pos := Suc (Pos s)\<rparr>" "(h', i')"] remaining_step [OF lt] by simp
    then show ?thesis using True lt by (simp add: x dm_run Let_def)
  qed (auto simp: x dm_run)
qed

interpretation bridged_params: fuel_loop bridged_params_loop "\<lambda>_. remaining" inside
proof (unfold_locales, goal_cases)
  case (1 s x n m)
  show ?case
  proof (cases "Pos s < length (Text s)")
    case True
    then show ?thesis using 1(2) [OF _ remaining_step [OF True]] by (simp add: dm_run)
  next
    case False
    then have "char_at s = CHR 0x00" by (simp add: char_at_def)
    then show ?thesis by (simp add: dm_run)
  qed
qed

interpretation param_counts: fuel_loop "no_argument param_counts_loop" "\<lambda>_. remaining" inside
proof (unfold_locales, goal_cases)
  case (1 s x n m)
  obtain i t where t: "run_state demangleIndex s = (i, t)" by fastforce
  have "inside t" by (rule after_forward [OF 1(1) t]; intro within)
  have eq: "run_state (param_counts_loop n) t = run_state (param_counts_loop m) t" if "i \<noteq> -1000"
    using 1(2) [OF \<open>inside t\<close> after_index [OF 1(1) t that]] .
  have z: "run_state (param_counts_loop n) (s\<lparr>Pos := Suc (Pos s)\<rparr>)
      = run_state (param_counts_loop m) (s\<lparr>Pos := Suc (Pos s)\<rparr>)" if "Pos s < length (Text s)"
    using 1(2) [OF _ remaining_step [OF that]] that by simp
  have end_of_text: "Pos s < length (Text s)" if "char_at s = CHR ''z''"
    using that by (auto simp: char_at_def split: if_splits)
  show ?case
    using eq z end_of_text t by (cases "i = -1000") (auto simp: dm_run int32_def split: prod.split)
qed

lemma convention_read:
  assumes "run_state m s = (Some x, t)" "inside s"
    and "m = demangleImplParamConvention k \<or> m = demangleImplResultConvention k"
  shows "inside t" "remaining t < remaining s"
proof -
  have "char_at s \<noteq> CHR 0x00"
    using assms by (auto simp: demangleImplParamConvention_def demangleImplResultConvention_def
        impl_convention_def param_conventions_def result_conventions_def dm_run split: if_splits)
  then have p: "Pos s < length (Text s)" by (auto simp: char_at_def split: if_splits)
  have "t = s\<lparr>Pos := Suc (Pos s)\<rparr>"
    using assms p by (auto simp: demangleImplParamConvention_def demangleImplResultConvention_def
        impl_convention_def dm_run split: option.splits)
  then show "inside t" "remaining t < remaining s" using p remaining_step by simp_all
qed

lemma conventions_round:
  assumes c: "c = demangleImplParamConvention k \<or> c = demangleImplResultConvention k" and s: "inside s"
    and eq: "\<And>t. \<lbrakk>inside t; remaining t < remaining s\<rbrakk>
      \<Longrightarrow> run_state (impl_conventions_loop n c) t = run_state (impl_conventions_loop m c) t"
  shows "run_state (impl_conventions_loop (Suc n) c) s = run_state (impl_conventions_loop (Suc m) c) s"
proof -
  obtain Param t where t: "run_state c s = (Param, t)" by fastforce
  obtain Diff u where u: "run_state demangleImplParameterResultDifferentiability t = (Diff, u)" by fastforce
  have "run_state (impl_conventions_loop n c) u = run_state (impl_conventions_loop m c) u" if "Param = Some p" for p
  proof -
    have i: "inside t" "remaining t < remaining s" using convention_read [OF _ s c] t that by auto
    have "inside u" "remaining u \<le> remaining t"
      by (rule after_forward [OF i(1) u]; intro within)+
    with i(2) show ?thesis by (intro eq) simp_all
  qed
  then show ?thesis using t u by (simp split: option.split)
qed

interpretation impl_parameters: fuel_loop
    "no_argument (\<lambda>n. impl_conventions_loop n (demangleImplParamConvention K_ImplParameter))"
    "\<lambda>_. remaining" inside
  by unfold_locales (rule conventions_round; blast)

interpretation impl_results: fuel_loop
    "no_argument (\<lambda>n. impl_conventions_loop n (demangleImplResultConvention K_ImplResult))"
    "\<lambda>_. remaining" inside
  by unfold_locales (rule conventions_round; blast)

interpretation impl_yields: fuel_loop "no_argument impl_yields_loop" "\<lambda>_. remaining" inside
proof (unfold_locales, goal_cases)
  case (1 s x n m)
  let ?s = "s\<lparr>Pos := Suc (Pos s)\<rparr>"
  obtain r t where t: "run_state (demangleImplParamConvention K_ImplYield) ?s = (r, t)" by fastforce
  have eq: "run_state (impl_yields_loop n) t = run_state (impl_yields_loop m) t"
    if "char_at s = CHR ''Y''" "r = Some y" for y
  proof -
    have p: "Pos s < length (Text s)" using that(1) by (auto simp: char_at_def split: if_splits)
    then have "inside t" "remaining t < remaining ?s"
      using convention_read [of _ ?s y t] t that(2) by auto
    then show ?thesis using remaining_step [OF p] by (intro 1(2)) simp_all
  qed
  show ?case using eq t by (auto simp: dm_run split: option.split)
qed

lemma forward_rest:
  assumes "m = State_Monad.bind nextChar f" "\<And>c. state_io_rel forward (f c)"
    and "Pos s < length (Text s)" "run_state m s = (x, t)"
  shows "forward (s\<lparr>Pos := Suc (Pos s)\<rparr>) t"
  using forward.withinD [OF assms(2), of "s\<lparr>Pos := Suc (Pos s)\<rparr>" "char_at s"] assms(3,4)
  by (simp add: assms(1) dm_run)

lemma func_spec_param_read:
  assumes "run_state (demangleFuncSpecParam k) s = (Some x, t)" "inside s"
  shows "inside t" "remaining t < remaining s"
proof -
  have p: "Pos s < length (Text s)"
  proof (rule ccontr)
    assume "\<not> Pos s < length (Text s)"
    then have "char_at s = CHR 0x00" by (simp add: char_at_def)
    then show False using assms(1) by (simp add: demangleFuncSpecParam_def dm_run Let_def)
  qed
  have "forward (s\<lparr>Pos := Suc (Pos s)\<rparr>) t"
    by (rule forward_rest [OF demangleFuncSpecParam_def [unfolded Let_def] _ p assms(1)]) (intro within; simp)
  then show "inside t" "remaining t < remaining s"
    using p remaining_step [OF p] forwardD [of "s\<lparr>Pos := Suc (Pos s)\<rparr>" t]
    by (simp_all add: remaining_def)
qed

interpretation spec_params: fuel_loop spec_params_loop
    "\<lambda>Spec s. remaining s + (if Spec = None then 0 else 1)" inside
proof (unfold_locales, goal_cases)
  case (1 s x n m)
  obtain Param t where t: "run_state (demangleFuncSpecParam K_FunctionSignatureSpecializationParam) s = (Param, t)"
    by fastforce
  have "run_state (spec_params_loop n (addChild x Param)) t = run_state (spec_params_loop m (addChild x Param)) t"
    if "x \<noteq> None"
  proof (rule 1(2))
    show "inside t" by (rule after_forward [OF 1(1) t]; intro within)
    have "remaining t \<le> remaining s" by (rule after_forward [OF 1(1) t]; intro within)
    then show "remaining t + (if addChild x Param = None then 0 else 1) < remaining s + (if x = None then 0 else 1)"
      using that func_spec_param_read [of _ s _ t] t 1(1)
      by (cases Param; cases x) (simp_all add: addChild_def)
  qed
  then show ?case using t by (simp add: dm_run)
qed

text \<open>The rest of a round of the loop over the pieces of an identifier.\<close>

lemma identifier_rest:
  assumes u: "inside u"
    and eq: "\<And>i t. \<lbrakk>inside t; remaining t < remaining u\<rbrakk> \<Longrightarrow> run_state (f i) t = run_state (g i) t"
  shows "run_state (do {
       numChars \<leftarrow> demangleNatural;
       if numChars \<le> 0 then null
       else do {
         (if p then nextIf (CHR ''_'') else ret False);
         piece \<leftarrow> identifier_slice p (nat numChars);
         case piece of None \<Rightarrow> null | Some y \<Rightarrow> if h then f (i @ y) else ret (Some (i @ y))
       } }) u
     = run_state (do {
       numChars \<leftarrow> demangleNatural;
       if numChars \<le> 0 then null
       else do {
         (if p then nextIf (CHR ''_'') else ret False);
         piece \<leftarrow> identifier_slice p (nat numChars);
         case piece of None \<Rightarrow> null | Some y \<Rightarrow> if h then g (i @ y) else ret (Some (i @ y))
       } }) u"
proof -
  obtain num v where v: "run_state demangleNatural u = (num, v)" by fastforce
  note i = after_natural [OF u v]
  obtain b w where w: "run_state (if p then nextIf (CHR ''_'') else ret False) v = (b, w)" by fastforce
  have j: "inside w" "remaining w \<le> remaining v"
    by (rule after_forward [OF i(1) w]; intro within; simp)+
  obtain piece t where t: "run_state (identifier_slice p (nat num)) w = (piece, t)" by fastforce
  have k: "inside t" "remaining t \<le> remaining w"
    by (rule after_forward [OF j(1) t]; intro within)+
  show ?thesis
    using i j k by (auto simp: v w t split: option.split intro!: eq)
qed

interpretation identifiers: fuel_loop "\<lambda>n (p, h, i). identifier_loop n p h i" "\<lambda>_. remaining" inside
proof (unfold_locales, goal_cases)
  case (1 s x n m)
  obtain p h i where x: "x = (p, h, i)" by (cases x) auto
  obtain r u where u: "run_state (word_substitutions (remaining s + 1) h i) s = (r, u)" by fastforce
  have j: "inside u" "remaining u \<le> remaining s"
    by (rule after_forward [OF 1(1) u]; intro within)+
  have "run_state (identifier_loop n p True i') t = run_state (identifier_loop m p True i') t"
    if "inside t" "remaining t < remaining u" for i' t
    using 1(2) [of t "(p, True, i')"] that j(2) by simp
  note rest = identifier_rest [OF j(1), where f = "identifier_loop n p True" and g = "identifier_loop m p True",
      OF this]
  show ?case
  proof (cases r)
    case None
    then show ?thesis using u by (simp add: x dm_run del: word_substitutions.simps)
  next
    case (Some hi)
    obtain h' i' where "hi = (h', i')" by fastforce
    then show ?thesis
      using u Some rest [where h = h' and i = i'] by (simp add: x run_read_state run_nextIf del: word_substitutions.simps)
  qed
qed

interpretation operators: fuel_loop "no_argument parse_loop" "\<lambda>_. remaining" inside
proof (unfold_locales, goal_cases)
  case (1 s x n m)
  show ?case
  proof (cases "Pos s < length (Text s)")
    case True
    obtain Nd t where t: "run_state demangleOperator s = (Nd, t)" by fastforce
    have f: "inside t" "Text t = Text s"
      using frameD [of s t] frame.withinD [of demangleOperator s] 1(1) t by (simp_all add: within)
    have "run_state (parse_loop n) (t\<lparr>NodeStack := y # NodeStack t\<rparr>)
        = run_state (parse_loop m) (t\<lparr>NodeStack := y # NodeStack t\<rparr>)" if "Nd = Some y" for y
      using that f demangleOperator_progress [OF True, of y t] t True
      by (intro 1(2)) (simp_all add: remaining_def)
    then show ?thesis using t by (simp add: dm_run split: option.split)
  qed (simp add: dm_run)
qed

end
