(* ===== verification/Demangler_Steps.thy ===== *)
theory Demangler_Steps
  imports Demangler_Loops
begin

text \<open>
  The demangler as a state machine: a step runs one operator and pushes its node. The loop
  \<open>parseAndPushNodes\<close> is the run of the machine to the end of the text, every step moves forward, and
  the invariants of the state hold in every reachable state. The entry points put the state of the
  enclosing job back.
\<close>

section \<open>Steps and runs\<close>

inductive operator_step :: "dem \<Rightarrow> dem \<Rightarrow> bool" where
  operator: "\<lbrakk>Pos s < length (Text s); run_state demangleOperator s = (Some n, t)\<rbrakk>
    \<Longrightarrow> operator_step s (t\<lparr>NodeStack := n # NodeStack t\<rparr>)"

inductive operator_steps :: "nat \<Rightarrow> dem \<Rightarrow> dem \<Rightarrow> bool" where
  none: "operator_steps 0 s s"
| step: "\<lbrakk>operator_step s t; operator_steps k t u\<rbrakk> \<Longrightarrow> operator_steps (Suc k) s u"

inductive_cases operator_stepE: "operator_step s t"
inductive_cases operator_stepsE: "operator_steps k s t"

lemma operator_step_frame:
  assumes "operator_step s t" "inside s"
  shows "frame s t" "inside t" "Pos s < Pos t"
proof -
  obtain n u where lt: "Pos s < length (Text s)" and u: "run_state demangleOperator s = (Some n, u)"
    and t: "t = u\<lparr>NodeStack := n # NodeStack u\<rparr>"
    using assms(1) by (rule operator_stepE)
  have f: "frame s u" using frame.withinD [OF frame.within_ops_42, of s] u by simp
  show "frame s t" using frame_trans [OF f frame_changes(2)] t by simp
  then show "inside t" using frameD [of s t] assms(2) by simp
  show "Pos s < Pos t" using demangleOperator_progress [OF lt u] t by simp
qed

lemma operator_steps_frame:
  "operator_steps k s t \<Longrightarrow> inside s \<Longrightarrow> frame s t \<and> inside t \<and> k + Pos s \<le> Pos t"
proof (induction rule: operator_steps.induct)
  case (step s t k u)
  with operator_step_frame [OF step(1,4)] show ?case using frame_trans by fastforce
qed (simp add: frame_refl)

lemma operator_step_deterministic: "operator_step s t \<Longrightarrow> operator_step s u \<Longrightarrow> t = u"
  by (auto elim!: operator_stepE)

section \<open>The loop runs the machine\<close>

lemma parseAndPushNodes_at_end: "\<not> Pos s < length (Text s) \<Longrightarrow> run_state parseAndPushNodes s = (True, s)"
  by (simp add: parseAndPushNodes_def dm_run)

lemma parseAndPushNodes_step:
  assumes "inside s" "Pos s < length (Text s)"
  shows "run_state parseAndPushNodes s = (case run_state demangleOperator s of
      (None, t) \<Rightarrow> (False, t)
    | (Some n, t) \<Rightarrow> run_state parseAndPushNodes (t\<lparr>NodeStack := n # NodeStack t\<rparr>))"
proof -
  obtain r t where t: "run_state demangleOperator s = (r, t)" by fastforce
  have "run_state (parse_loop (remaining s)) (t\<lparr>NodeStack := n # NodeStack t\<rparr>)
      = run_state parseAndPushNodes (t\<lparr>NodeStack := n # NodeStack t\<rparr>)" if n: "r = Some n" for n
  proof -
    let ?t = "t\<lparr>NodeStack := n # NodeStack t\<rparr>"
    have "operator_step s ?t" using operator_step.operator [OF assms(2)] t n by simp
    from operator_step_frame [OF this assms(1)] have "inside ?t" "remaining ?t < remaining s"
      using fewer_left [OF assms(1), of ?t] frameD(1) by simp_all
    then show ?thesis
      using operators.enough_fuel [of ?t "remaining s" "remaining ?t + 1"]
      by (simp add: parseAndPushNodes_def dm_run del: parse_loop.simps)
  qed
  then show ?thesis
    using assms(2) t by (simp add: parseAndPushNodes_def dm_run split: option.split)
qed

text \<open>Every run can be continued to the end of the text or to an operator that fails.\<close>

lemma run_of_loop:
  assumes "inside s" "run_state parseAndPushNodes s = (b, t)"
  shows "\<exists>k u. operator_steps k s u \<and>
    (if b then t = u \<and> Pos u = length (Text u)
     else Pos u < length (Text u) \<and> run_state demangleOperator u = (None, t))"
  using assms
proof (induction "remaining s" arbitrary: s rule: less_induct)
  case less
  show ?case
  proof (cases "Pos s < length (Text s)")
    case False
    then show ?thesis
      using less.prems parseAndPushNodes_at_end [OF False] operator_steps.none [of s] by auto
  next
    case True
    obtain r u where u: "run_state demangleOperator s = (r, u)" by fastforce
    show ?thesis
    proof (cases r)
      case None
      then show ?thesis
        using less.prems parseAndPushNodes_step [OF less.prems(1) True] u True operator_steps.none [of s] by auto
    next
      case (Some n)
      let ?v = "u\<lparr>NodeStack := n # NodeStack u\<rparr>"
      have v: "operator_step s ?v" using operator_step.operator [OF True] u Some by simp
      note f = operator_step_frame [OF v less.prems(1)]
      have "run_state parseAndPushNodes ?v = (b, t)"
        using less.prems(2) parseAndPushNodes_step [OF less.prems(1) True] u Some by simp
      from less.hyps [OF fewer_left [OF less.prems(1) f(2) _ f(3)] f(2) this] frameD(1) [OF f(1)]
      show ?thesis using operator_steps.step [OF v] by blast
    qed
  qed
qed

lemma loop_of_run:
  assumes "operator_steps k s u" "inside s"
  shows "run_state parseAndPushNodes s = run_state parseAndPushNodes u"
  using assms
proof (induction rule: operator_steps.induct)
  case (step s t k u)
  from step.hyps(1) obtain n v where "Pos s < length (Text s)" "run_state demangleOperator s = (Some n, v)"
    "t = v\<lparr>NodeStack := n # NodeStack v\<rparr>"
    by (rule operator_stepE)
  then show ?case
    using step.IH operator_step_frame(2) [OF step.hyps(1) step.prems]
      parseAndPushNodes_step [OF step.prems] by simp
qed simp

section \<open>Properties\<close>

text \<open>
  C18: every step of the demangler moves forward. From a position inside the text there are at most as
  many steps as characters left, whatever the text, the stack and the substitutions hold.
\<close>

theorem operators_end:
  assumes "operator_steps k s t" "Pos s \<le> length (Text s)"
  shows "Pos s + k \<le> Pos t \<and> Pos t \<le> length (Text s) \<and> k \<le> length (Text s) - Pos s"
  using operator_steps_frame [OF assms] by (auto dest: frameD(1))

text \<open>
  C19: \<open>parseAndPushNodes\<close> is the run of the machine. It succeeds in a state exactly when the state is
  reached by operators that all succeed and the text is at its end, and it fails in a state exactly when
  an operator of such a run fails there. So it always returns, and its fuel never runs out.
\<close>

theorem parse_iff_steps:
  assumes "Pos s \<le> length (Text s)"
  shows "(run_state parseAndPushNodes s = (True, t)
      \<longleftrightarrow> (\<exists>k. operator_steps k s t) \<and> Pos t = length (Text s))
    \<and> (run_state parseAndPushNodes s = (False, t)
      \<longleftrightarrow> (\<exists>k u. operator_steps k s u \<and> Pos u < length (Text s) \<and> run_state demangleOperator u = (None, t)))"
proof (intro conjI)
  have same: "Text u = Text s" if "operator_steps k s u" for k u
    using operator_steps_frame [OF that assms] by (simp add: frameD)
  have a: "run_state parseAndPushNodes s = (True, t)"
    if "operator_steps k s t" "Pos t = length (Text s)" for k
    using loop_of_run [OF that(1) assms] parseAndPushNodes_at_end [of t] same [OF that(1)] that(2) by simp
  have b: "run_state parseAndPushNodes s = (False, t)"
    if "operator_steps k s u" "Pos u < length (Text s)" "run_state demangleOperator u = (None, t)" for k u
    using loop_of_run [OF that(1) assms] parseAndPushNodes_step [of u] same [OF that(1)] that(2,3)
      operator_steps_frame [OF that(1) assms] by simp
  show "run_state parseAndPushNodes s = (True, t)
      \<longleftrightarrow> (\<exists>k. operator_steps k s t) \<and> Pos t = length (Text s)"
    using a run_of_loop [OF assms, of True t] same by auto
  show "run_state parseAndPushNodes s = (False, t)
      \<longleftrightarrow> (\<exists>k u. operator_steps k s u \<and> Pos u < length (Text s) \<and> run_state demangleOperator u = (None, t))"
    using b run_of_loop [OF assms, of False t] same by (metis (full_types))
qed

text \<open>
  C20: what a run of operators keeps: the text, the mode and the resolver do not change, the substitutions
  and the words of a state are an initial part of those of any later state, there are never more words than
  the array holds, and the position stays inside the text. This is for runs that are not stuck at the end (and
  then were not stuck before): in the one place where the code adds a child to a node that an earlier
  substitution points to (\<open>demangleBoundGenericType\<close>), the run is stuck.
\<close>

theorem operators_keep:
  assumes "operator_steps k s t" "Pos s \<le> length (Text s)" "length (Words s) \<le> MaxNumWords" "\<not> Stuck t"
  shows "\<not> Stuck s \<and> Text t = Text s \<and> IsOldFunctionTypeMangling t = IsOldFunctionTypeMangling s
    \<and> SymbolicReferenceResolver t = SymbolicReferenceResolver s
    \<and> prefix (Substitutions s) (Substitutions t) \<and> prefix (Words s) (Words t)
    \<and> length (Words t) \<le> MaxNumWords \<and> Pos t \<le> length (Text t)"
  using operator_steps_frame [OF assms(1,2)] assms(2-4) by (auto simp: frame_def)

text \<open>The witnesses run the machine on the mangling \<open>y_\<close>.\<close>

definition small_job :: dem where
  "small_job = new_demangler\<lparr>Text := ''y_''\<rparr>"

definition small_end :: dem where
  "small_end = small_job\<lparr>Pos := 2, NodeStack := [createNode K_FirstElementMarker, createNode K_EmptyList]\<rparr>"

lemma small_steps: "operator_steps 2 small_job small_end"
proof -
  let ?middle = "small_job\<lparr>Pos := 1, NodeStack := [createNode K_EmptyList]\<rparr>"
  have "run_state demangleOperator small_job = (Some (createNode K_EmptyList), small_job\<lparr>Pos := 1\<rparr>)"
    "run_state demangleOperator ?middle = (Some (createNode K_FirstElementMarker), ?middle\<lparr>Pos := 2\<rparr>)"
    by (simp_all add: demangleOperator_def skip_padding_def dm_run char_at_def isUpperLetter_def
        other_operator_def small_job_def new_demangler_def)
  then have "operator_step small_job ?middle" "operator_step ?middle small_end"
    using operator_step.operator [of small_job] operator_step.operator [of ?middle]
    by (simp_all add: small_end_def small_job_def new_demangler_def)
  from operator_steps.step [OF this(1) operator_steps.step [OF this(2) operator_steps.none]]
  show ?thesis by (simp add: numeral_2_eq_2)
qed

lemma small_facts:
  "Pos small_job = 0" "length (Text small_job) = 2" "Pos small_end = 2" "length (Words small_job) \<le> MaxNumWords"
  "\<not> Stuck small_end"
  by (simp_all add: small_job_def small_end_def new_demangler_def)

theorem operators_end_witness:
  "Pos small_job + 2 \<le> Pos small_end \<and> Pos small_end \<le> length (Text small_job)
    \<and> 2 \<le> length (Text small_job) - Pos small_job"
  by (rule operators_end [OF small_steps]) (simp only: small_facts le0)

theorem parse_iff_steps_witness: "run_state parseAndPushNodes small_job = (True, small_end)"
proof -
  have "Pos small_job \<le> length (Text small_job)" by (simp only: small_facts le0)
  from parse_iff_steps [OF this, of small_end] show ?thesis using small_steps small_facts by metis
qed

theorem operators_keep_witness:
  "\<not> Stuck small_job \<and> Text small_end = Text small_job \<and> IsOldFunctionTypeMangling small_end = IsOldFunctionTypeMangling small_job
    \<and> SymbolicReferenceResolver small_end = SymbolicReferenceResolver small_job
    \<and> prefix (Substitutions small_job) (Substitutions small_end) \<and> prefix (Words small_job) (Words small_end)
    \<and> length (Words small_end) \<le> MaxNumWords \<and> Pos small_end \<le> length (Text small_end)"
  by (rule operators_keep [OF small_steps]) (simp_all only: small_facts le0 not_False_eq_True)

end
