(* ===== verification/Demangler_Jobs.thy ===== *)
theory Demangler_Jobs
  imports Demangler_Steps
begin

text \<open>
  The entry points \<open>demangleSymbol\<close> and \<open>demangleType\<close>: what they return, what they leave of the state of
  an enclosing job, and what they do not put back.
\<close>

section \<open>Jobs\<close>

text \<open>The fields that \<open>DemangleInitRAII\<close> saves: of the words it is their number.\<close>

definition same_job :: "dem \<Rightarrow> dem \<Rightarrow> bool" where
  "same_job s s' \<longleftrightarrow> Text s' = Text s \<and> Pos s' = Pos s \<and> NodeStack s' = NodeStack s
     \<and> Substitutions s' = Substitutions s \<and> length (Words s') = length (Words s)
     \<and> SymbolicReferenceResolver s' = SymbolicReferenceResolver s"

lemma length_overwritten: "length (overwritten saved new) = length saved"
  by (simp add: overwritten_def min_def)

lemma with_job_same: "same_job s (snd (run_state (with_job name resolver job) s))"
  by (simp add: with_job_def same_job_def length_overwritten split: prod.split)

lemma with_job_result:
  "fst (run_state (with_job name resolver job) s) = fst (run_state job (s\<lparr>Text := name, Pos := 0,
     NodeStack := [], Substitutions := [], Words := [], SymbolicReferenceResolver := resolver\<rparr>))"
  by (simp add: with_job_def split: prod.split)

lemma with_job_mode:
  "IsOldFunctionTypeMangling (snd (run_state (with_job name resolver job) s)) =
     IsOldFunctionTypeMangling (snd (run_state job (s\<lparr>Text := name, Pos := 0,
     NodeStack := [], Substitutions := [], Words := [], SymbolicReferenceResolver := resolver\<rparr>)))"
  by (simp add: with_job_def split: prod.split)

lemma kind_foldl_addChild: "getKind (foldl Node_addChild n ns) = getKind n"
  by (induction ns arbitrary: n) simp_all

lemma kind_attach_nodes: "getKind (attach_nodes n attrs stack) = getKind n"
  by (induction n attrs stack rule: attach_nodes.induct) (simp_all add: kind_foldl_addChild)

lemma build_topLevel_result:
  assumes "run_state build_topLevel s = (Some n, t)"
  shows "getKind n = K_Global \<and> 0 < getNumChildren n"
  using assms
  by (auto simp: build_topLevel_def dm_run kind_attach_nodes createNode_def Let_def split: prod.splits if_splits)

text \<open>The part of \<open>demangleSymbol\<close> after the check for the prefix of the old mangling.\<close>

definition symbol_job :: "string \<Rightarrow> node option dm" where
  "symbol_job name = do {
     update_state (\<lambda>s.
       s\<lparr>IsOldFunctionTypeMangling := isOldFunctionTypeMangling name,
         Pos := Pos s + getManglingPrefixLength name\<rparr>);
     ok \<leftarrow> parseAndPushNodes;
     if \<not> ok then null else build_topLevel
   }"

lemma symbol_job_result: "run_state (symbol_job name) s = (Some n, t) \<Longrightarrow> getKind n = K_Global \<and> 0 < getNumChildren n"
  by (auto simp: symbol_job_def dm_run split: prod.splits if_splits dest: build_topLevel_result)

lemma within_build_topLevel: "frame.within build_topLevel"
  unfolding build_topLevel_def top_level_node_def by (intro within)

lemma symbol_job_mode:
  "IsOldFunctionTypeMangling (snd (run_state (symbol_job name) s)) = isOldFunctionTypeMangling name"
proof -
  let ?rest = "do { ok \<leftarrow> parseAndPushNodes; if \<not> ok then null else build_topLevel }"
  have w: "frame.within ?rest" by (intro within within_build_topLevel)
  let ?s = "s\<lparr>IsOldFunctionTypeMangling := isOldFunctionTypeMangling name,
      Pos := Pos s + getManglingPrefixLength name\<rparr>"
  have "frame ?s (snd (run_state ?rest ?s))" by (rule frame.withinD [OF w])
  then have "IsOldFunctionTypeMangling (snd (run_state ?rest ?s)) = isOldFunctionTypeMangling name"
    by (simp add: frame_def)
  then show ?thesis by (simp add: symbol_job_def run_update_state)
qed

lemma demangleSymbol_cases:
  "run_state (demangleSymbol old name resolver) s = run_state (with_job name resolver
     (if startswith name ''_Tt'' then do { nextIf_string ''_Tt''; ret (old name) }
      else if getManglingPrefixLength name = 0 then null
      else symbol_job name)) s"
  by (simp add: demangleSymbol_def with_job_def dm_run symbol_job_def Let_def)

section \<open>Properties\<close>

text \<open>
  C21: \<open>demangleSymbol\<close> leaves the job it interrupts as it was, up to its words. A name without a mangling prefix has no
  demangling, and where there is one, for a name that is not of the old mangling, it is a \<open>Global\<close>
  node with at least one child.
\<close>

theorem demangleSymbol_result:
  "same_job s (snd (run_state (demangleSymbol old name resolver) s))
   \<and> (startswith name ''_Tt'' \<longrightarrow> fst (run_state (demangleSymbol old name resolver) s) = old name)
   \<and> (\<not> startswith name ''_Tt'' \<and> getManglingPrefixLength name = 0
       \<longrightarrow> fst (run_state (demangleSymbol old name resolver) s) = None)
   \<and> (\<forall>n. \<not> startswith name ''_Tt'' \<and> fst (run_state (demangleSymbol old name resolver) s) = Some n
       \<longrightarrow> getKind n = K_Global \<and> 0 < getNumChildren n)"
proof (intro conjI allI impI)
  show "same_job s (snd (run_state (demangleSymbol old name resolver) s))"
    by (simp add: demangleSymbol_def with_job_same)
  fix n
  assume "\<not> startswith name ''_Tt'' \<and> fst (run_state (demangleSymbol old name resolver) s) = Some n"
  then have "fst (run_state (symbol_job name) (s\<lparr>Text := name, Pos := 0, NodeStack := [],
      Substitutions := [], Words := [], SymbolicReferenceResolver := resolver\<rparr>)) = Some n"
    by (simp add: demangleSymbol_cases with_job_result split: if_splits)
  then have "getKind n = K_Global \<and> 0 < getNumChildren n"
    by (metis symbol_job_result prod.collapse)
  then show "getKind n = K_Global" "0 < getNumChildren n" by simp_all
qed (simp_all add: demangleSymbol_cases with_job_result dm_run)

text \<open>
  C22: \<open>demangleType\<close> never returns a null node and leaves the job it interrupts, up to its words, and
  the mode as they were.
\<close>

theorem demangleType_result:
  "fst (run_state (demangleType name resolver) s) \<noteq> None
   \<and> same_job s (snd (run_state (demangleType name resolver) s))
   \<and> IsOldFunctionTypeMangling (snd (run_state (demangleType name resolver) s)) = IsOldFunctionTypeMangling s"
proof (intro conjI)
  let ?job = "do {
      parseAndPushNodes;
      Result \<leftarrow> popNode;
      ret (Some (case Result of Some r \<Rightarrow> r | None \<Rightarrow> TextNode K_Suffix name)) }"
  let ?s = "s\<lparr>Text := name, Pos := 0, NodeStack := [],
      Substitutions := [], Words := [], SymbolicReferenceResolver := resolver\<rparr>"
  have "frame ?s (snd (run_state ?job ?s))" by (rule frame.withinD) (intro within)
  then show "IsOldFunctionTypeMangling (snd (run_state (demangleType name resolver) s)) = IsOldFunctionTypeMangling s"
    by (simp add: demangleType_def with_job_mode frame_def)
  show "fst (run_state (demangleType name resolver) s) \<noteq> None"
    by (simp add: demangleType_def with_job_result split: prod.split)
qed (simp add: demangleType_def with_job_same)

text \<open>
  C23: the mode is not put back. After a symbol with a mangling prefix it is that of the symbol, also for
  the next type, whose mangling says nothing about it: the function \<open>main.f(x:)\<close> is then read as the
  function \<open>x\<close> of a module \<open>f\<close>. Nor are the words: those of the symbol stand where the interrupted job had
  recorded its own.
\<close>

theorem mode_leaks:
  "(\<not> startswith name ''_Tt'' \<and> getManglingPrefixLength name \<noteq> 0
     \<longrightarrow> IsOldFunctionTypeMangling (snd (run_state (demangleSymbol old name resolver) s))
       = isOldFunctionTypeMangling name)
   \<and> (let f = ''4main1f1xySi_tF'' in
       map_option getFirstChild (fst (run_state (demangleType f None) new_demangler))
         = Some (Some (TextNode K_Module ''main''))
       \<and> map_option getFirstChild (fst (run_state (do {
           demangleSymbol (\<lambda>_. None) ''_T0Si'' None; demangleType f None }) new_demangler))
         = Some (Some (TextNode K_Module ''f'')))
   \<and> Words (snd (run_state (demangleSymbol (\<lambda>_. None) ''$s4Main'' None)
         (new_demangler\<lparr>Words := [''Some'', ''Word'']\<rparr>))) = [''Main'', ''Word'']"
proof (intro conjI impI)
  assume "\<not> startswith name ''_Tt'' \<and> getManglingPrefixLength name \<noteq> 0"
  then show "IsOldFunctionTypeMangling (snd (run_state (demangleSymbol old name resolver) s))
      = isOldFunctionTypeMangling name"
    by (simp add: demangleSymbol_cases with_job_mode symbol_job_mode)
qed (code_simp+)

theorem demangleSymbol_result_witness:
  "getKind (Node K_Global [Node K_Structure [TextNode K_Module ''Swift'', TextNode K_Identifier ''Int'']]) = K_Global"
proof -
  let ?n = "Node K_Global [Node K_Structure [TextNode K_Module ''Swift'', TextNode K_Identifier ''Int'']]"
  have r: "fst (run_state (demangleSymbol (\<lambda>_. None) ''$sSi'' None) new_demangler) = Some ?n"
    by code_simp
  have p: "\<not> startswith ''$sSi'' ''_Tt''" by code_simp
  show ?thesis
    using demangleSymbol_result [of new_demangler "\<lambda>_. None" "''$sSi''" None] r p by blast
qed

theorem mode_leaks_witness:
  "IsOldFunctionTypeMangling (snd (run_state (demangleSymbol (\<lambda>_. None) ''_T0Si'' None) new_demangler))"
proof -
  have p: "\<not> startswith ''_T0Si'' ''_Tt'' \<and> getManglingPrefixLength ''_T0Si'' \<noteq> 0" by code_simp
  have o: "isOldFunctionTypeMangling ''_T0Si''" by code_simp
  show ?thesis
    using mode_leaks [of "''_T0Si''" "\<lambda>_. None" None new_demangler] p o by blast
qed

end
