(* ===== verification/Mangling_Utils.thy ===== *)
theory Mangling_Utils
  imports Punycode
begin

text \<open>
  The mangling utilities shared by the mangler and the remangler, in
  \<open>include/swift/Demangling/ManglingUtils.h\<close>: \<open>mangleIdentifier\<close> with its word substitutions, and the
  class \<open>SubstitutionMerging\<close>; from \<open>Remangler.cpp\<close> the numbers of indices. The record \<open>mangler\<close> holds what
  the template parameter \<open>Mangler\<close> must provide.

  Then what \<open>mangleIdentifier\<close> writes: its two passes, over the words of the identifier and over the
  substitutions found, are followed on the identifier cut into words and the characters between them.
\<close>

section \<open>State\<close>

record SubstitutionWord =
  w_start :: nat
  w_length :: nat

record WordReplacement =
  StringPos :: nat
  WordIdx :: int

record mangler =
  Buffer :: string
  MWords :: "SubstitutionWord list"
  SubstWordsInIdent :: "WordReplacement list"
  UsePunycode :: bool

abbreviation MangledWords :: nat where
  "MangledWords \<equiv> 26"

section \<open>Identifiers\<close>

definition existingWord :: "string \<Rightarrow> SubstitutionWord \<Rightarrow> string" where
  "existingWord Str w = take (w_length w) (drop (w_start w) Str)"

definition lookupWord :: "string \<Rightarrow> string \<Rightarrow> SubstitutionWord list \<Rightarrow> nat \<Rightarrow> nat \<Rightarrow> int" where
  "lookupWord Word Str ws FromWordIdx ToWordIdx =
     (case List.find (\<lambda>Idx. Word = existingWord Str (ws ! Idx)) [FromWordIdx..<ToWordIdx] of
        Some Idx \<Rightarrow> int Idx
      | None \<Rightarrow> -1)"

text \<open>The body of the first loop where a word from \<open>wordStartPos\<close> to \<open>Pos\<close> has ended.\<close>

definition end_word :: "string \<Rightarrow> nat \<Rightarrow> nat \<Rightarrow> nat \<Rightarrow> mangler \<Rightarrow> mangler" where
  "end_word ident WordsInBuffer wordStartPos Pos M =
     (let wordLen = Pos - wordStartPos;
          Word = take wordLen (drop wordStartPos ident);
          i = lookupWord Word (Buffer M) (MWords M) 0 WordsInBuffer;
          i = (if i < 0 then lookupWord Word ident (MWords M) WordsInBuffer (length (MWords M)) else i)
      in if i \<ge> 0
         then M\<lparr>SubstWordsInIdent := SubstWordsInIdent M @ [\<lparr>StringPos = wordStartPos, WordIdx = i\<rparr>]\<rparr>
         else if wordLen \<ge> 2 \<and> length (MWords M) < MangledWords
         then M\<lparr>MWords := MWords M @ [\<lparr>w_start = wordStartPos, w_length = wordLen\<rparr>]\<rparr>
         else M)"

text \<open>\<open>None\<close> for the word's start is \<open>NotInsideWord\<close>.\<close>

definition scan_step :: "string \<Rightarrow> nat \<Rightarrow> nat \<Rightarrow> mangler \<times> nat option \<Rightarrow> mangler \<times> nat option" where
  "scan_step ident WordsInBuffer Pos st =
     (let (M, wordStartPos) = st;
          ch = (if Pos < length ident then ident ! Pos else CHR 0x00);
          (M, wordStartPos) =
            (case wordStartPos of
               Some p \<Rightarrow>
                 if isWordEnd ch (ident ! (Pos - 1)) then (end_word ident WordsInBuffer p Pos M, None)
                 else (M, Some p)
             | None \<Rightarrow> (M, None))
      in (M, if wordStartPos = None \<and> isWordStart ch then Some Pos else wordStartPos))"

definition scan_words :: "string \<Rightarrow> mangler \<Rightarrow> mangler" where
  "scan_words ident M = fst (fold (scan_step ident (length (MWords M))) [0..<Suc (length ident)] (M, None))"

text \<open>One round of the inner loop that writes a sub-string; \<open>first\<close> holds in its first round.\<close>

definition emit_char :: "string \<Rightarrow> nat \<Rightarrow> nat \<Rightarrow> mangler \<times> nat \<Rightarrow> mangler \<times> nat" where
  "emit_char ident From Pos st =
     (let (M, WordsInBuffer) = st;
          (M, WordsInBuffer) =
            (if WordsInBuffer < length (MWords M) \<and> w_start (MWords M ! WordsInBuffer) = Pos
             then (M\<lparr>MWords := (MWords M)[WordsInBuffer :=
                       (MWords M ! WordsInBuffer)\<lparr>w_start := length (Buffer M)\<rparr>]\<rparr>, WordsInBuffer + 1)
             else (M, WordsInBuffer));
          first = (Pos = From)
      in (M\<lparr>Buffer := Buffer M @ [if first \<and> isDigit (ident ! Pos) then CHR ''X'' else ident ! Pos]\<rparr>,
          WordsInBuffer))"

definition emit_substring :: "string \<Rightarrow> nat \<Rightarrow> nat \<Rightarrow> mangler \<times> nat \<Rightarrow> mangler \<times> nat" where
  "emit_substring ident Pos End st =
     (if Pos < End
      then fold (emit_char ident Pos) [Pos..<End]
             (case st of (M, WordsInBuffer) \<Rightarrow> (M\<lparr>Buffer := Buffer M @ show_nat (End - Pos)\<rparr>, WordsInBuffer))
      else st)"

text \<open>One round of the last loop.\<close>

definition emit_replacement :: "string \<Rightarrow> nat \<Rightarrow> mangler \<times> nat \<times> nat \<Rightarrow> mangler \<times> nat \<times> nat" where
  "emit_replacement ident Idx st =
     (let (M, WordsInBuffer, Pos) = st;
          Repl = SubstWordsInIdent M ! Idx;
          End = length (SubstWordsInIdent M);
          (M, WordsInBuffer) = emit_substring ident Pos (StringPos Repl) (M, WordsInBuffer);
          Pos = max Pos (StringPos Repl)
      in if WordIdx Repl \<ge> 0
         then let i = nat (WordIdx Repl);
                  Pos = Pos + w_length (MWords M ! i)
              in if Idx + 2 < End
                 then (M\<lparr>Buffer := Buffer M @ [char_of (i + ord (CHR ''a''))]\<rparr>, WordsInBuffer, Pos)
                 else (M\<lparr>Buffer := Buffer M @ char_of (i + ord (CHR ''A''))
                         # (if Pos = length ident then ''0'' else [])\<rparr>, WordsInBuffer, Pos)
         else (M, WordsInBuffer, Pos))"

text \<open>
  Where the conversion to punycode fails the code reads the first character of an empty string: this
  is \<open>None\<close>.
\<close>

definition mangleIdentifier :: "string \<Rightarrow> mangler \<Rightarrow> mangler option" where
  "mangleIdentifier ident M =
     (let WordsInBuffer = length (MWords M)
      in if UsePunycode M \<and> needsPunycodeEncoding ident
         then (case encodePunycodeUTF8 ident True of
                 Some (Some pcIdent) \<Rightarrow>
                   if pcIdent = [] then None
                   else Some (M\<lparr>Buffer := Buffer M @ ''00'' @ show_nat (length pcIdent)
                     @ (if isDigit (hd pcIdent) \<or> hd pcIdent = CHR ''_'' then ''_'' else []) @ pcIdent\<rparr>)
               | _ \<Rightarrow> None)
         else
           let M = scan_words ident M;
               M = (if SubstWordsInIdent M \<noteq> [] then M\<lparr>Buffer := Buffer M @ ''0''\<rparr> else M);
               M = M\<lparr>SubstWordsInIdent := SubstWordsInIdent M @ [\<lparr>StringPos = length ident, WordIdx = -1\<rparr>]\<rparr>;
               (M, _, _) = fold (emit_replacement ident) [0..<length (SubstWordsInIdent M)] (M, WordsInBuffer, 0)
           in Some (M\<lparr>SubstWordsInIdent := []\<rparr>))"

section \<open>Substitutions\<close>

record SubstitutionMerging =
  lastSubstPosition :: nat
  lastSubstSize :: nat
  lastNumSubsts :: nat
  lastSubstIsStandardSubst :: bool

definition merging_clear :: "SubstitutionMerging \<Rightarrow> SubstitutionMerging" where
  "merging_clear S = S\<lparr>lastNumSubsts := 0\<rparr>"

definition take_back :: "nat \<Rightarrow> string \<Rightarrow> string" where
  "take_back n str = drop (length str - n) str"

text \<open>The result, the buffer and the state of the class; the asserts are on what the caller passes.\<close>

definition tryMergeSubst ::
  "string \<Rightarrow> bool \<Rightarrow> string \<Rightarrow> SubstitutionMerging \<Rightarrow> bool \<times> string \<times> SubstitutionMerging" where
  "tryMergeSubst Subst isStandardSubst BufferStr S =
     (let lastSubst = dropWhile isDigit (take_back (lastSubstSize S) BufferStr);
          new = S\<lparr>lastSubstPosition := length BufferStr + 1, lastSubstSize := length Subst,
                  lastNumSubsts := 1, lastSubstIsStandardSubst := isStandardSubst\<rparr>
      in if lastNumSubsts S > 0 \<and> lastNumSubsts S < 2048
            \<and> length BufferStr = lastSubstPosition S + lastSubstSize S
            \<and> lastSubstIsStandardSubst S = isStandardSubst
         then
           if lastSubst \<noteq> Subst \<and> \<not> isStandardSubst
           then (True,
                 take (length BufferStr - 1) BufferStr
                   @ char_of (ord (last lastSubst) - ord (CHR ''A'') + ord (CHR ''a'')) # Subst,
                 S\<lparr>lastSubstPosition := length BufferStr, lastNumSubsts := 1, lastSubstSize := 1\<rparr>)
           else if lastSubst = Subst
           then let n = lastNumSubsts S + 1;
                    B = take (lastSubstPosition S) BufferStr @ show_nat n @ Subst
                in (True, B, S\<lparr>lastNumSubsts := n, lastSubstSize := length B - lastSubstPosition S\<rparr>)
           else (False, BufferStr, new)
         else (False, BufferStr, new))"

text \<open>What the callers of \<open>tryMergeSubst\<close> do with it: the rest of \<open>trySubstitution\<close> from an index on.\<close>

definition mangleIndex :: "nat \<Rightarrow> string" where
  "mangleIndex v = (if v = 0 then ''_'' else show_nat (v - 1) @ ''_'')"

definition mangle_substitution :: "nat \<Rightarrow> string \<Rightarrow> SubstitutionMerging \<Rightarrow> string \<times> SubstitutionMerging" where
  "mangle_substitution Idx BufferStr S =
     (if Idx \<ge> 26 then (BufferStr @ ''A'' @ mangleIndex (Idx - 26), S)
      else
        let Subst = [char_of (Idx + ord (CHR ''A''))];
            (merged, B, S) = tryMergeSubst Subst False BufferStr S
        in (if merged then B else B @ ''A'' @ Subst, S))"

end
