(* ===== verification/Demangler_Numbers.thy ===== *)
theory Demangler_Numbers
  imports Demangler_Loops Mangling_Utils
begin

text \<open>
  What the demangler reads of the numbers, indices, operators and standard types that the mangler
  writes. Numbers are \<open>int\<close>s of 32 bits: the check for overflow catches some that are too large.
\<close>

section \<open>Numbers\<close>

abbreviation value_from :: "nat \<Rightarrow> string \<Rightarrow> nat" where
  "value_from n cs \<equiv> foldl (\<lambda>n c. 10 * n + digit_val c) n cs"

lemma value_from_mono: "n \<le> value_from n cs"
proof (induction cs arbitrary: n)
  case (Cons c cs)
  show ?case using Cons [of "10 * n + digit_val c"] by simp
qed simp

lemma int32_small: "0 \<le> n \<Longrightarrow> n \<le> INT_MAX \<Longrightarrow> int32 n = n"
  by (simp add: int32_def)

lemma digit_val_int: "isDigit c \<Longrightarrow> int (ord c) - int (ord (CHR ''0'')) = int (digit_val c)"
  by (auto simp: isDigit_def digit_val_def)

lemma natural_loop_digits:
  assumes "\<forall>c \<in> set cs. isDigit c" "rest = [] \<or> \<not> isDigit (hd rest)" "int (value_from n cs) \<le> INT_MAX"
  shows "natural_loop (int n) (cs @ rest) = (int (value_from n cs), length cs)"
  using assms
proof (induction cs arbitrary: n)
  case Nil
  then show ?case by (cases rest) simp_all
next
  case (Cons c cs)
  let ?n = "10 * n + digit_val c"
  have "int ?n \<le> INT_MAX" using Cons.prems(3) value_from_mono [of ?n cs] by simp
  then have "int32 (10 * int n + (int (ord c) - int (ord (CHR ''0'')))) = int ?n"
    using Cons.prems(1) int32_small [of "int ?n"] digit_val_int [of c] by simp
  moreover have "natural_loop (int ?n) (cs @ rest) = (int (value_from ?n cs), length cs)"
    by (rule Cons.IH) (use Cons.prems in simp_all)
  ultimately show ?case using Cons.prems(1) by (simp add: Let_def)
qed

lemma show_nat_isDigit: "c \<in> set (show_nat n) \<Longrightarrow> isDigit c"
  using show_nat_digits isDigit_is_digit by simp

lemma hd_show_nat: "isDigit (hd (show_nat n))"
  by (rule show_nat_isDigit [of _ n]) simp

text \<open>The character at the position, when what follows is known.\<close>

lemma at_text:
  assumes "drop (Pos s) (Text s) = xs @ rest" "xs \<noteq> []"
  shows "Pos s < length (Text s)" "char_at s = hd xs"
proof -
  show lt: "Pos s < length (Text s)"
    using assms by (metis append_is_Nil_conv drop_eq_Nil not_le)
  show "char_at s = hd xs" using lt assms by (simp add: char_at_def hd_drop_conv_nth [symmetric])
qed

lemma past_text:
  assumes "drop (Pos s) (Text s) = xs @ rest"
  shows "drop (Pos s + length xs) (Text s) = rest"
  using assms by (metis add.commute append_eq_conv_conj drop_drop)

lemma read_number:
  assumes "drop (Pos s) (Text s) = show_nat n @ rest" "rest = [] \<or> \<not> isDigit (hd rest)" "n \<le> 2147483647"
  shows "run_state demangleNatural s = (int n, s\<lparr>Pos := Pos s + length (show_nat n)\<rparr>)"
proof -
  have "isDigit (char_at s)" using at_text(2) [OF assms(1)] hd_show_nat by simp
  moreover have "natural_loop 0 (show_nat n @ rest) = (int n, length (show_nat n))"
    using natural_loop_digits [of "show_nat n" rest 0] show_nat_isDigit assms(2,3)
    by (simp add: dec_value_def [symmetric])
  ultimately show ?thesis using assms(1) by (simp add: demangleNatural_def dm_run)
qed

lemma read_index:
  assumes "drop (Pos s) (Text s) = mangleIndex n @ rest" "n \<le> 2147483647"
  shows "run_state demangleIndex s = (int n, s\<lparr>Pos := Pos s + length (mangleIndex n)\<rparr>)"
proof -
  have hd: "char_at s = hd (mangleIndex n)"
    using at_text(2) [OF assms(1)] by (simp add: mangleIndex_def)
  show ?thesis
  proof (cases n)
    case 0
    then show ?thesis using hd by (simp add: demangleIndex_def dm_run mangleIndex_def)
  next
    case (Suc m)
    let ?s = "s\<lparr>Pos := Pos s + length (show_nat m)\<rparr>"
    have t: "drop (Pos s) (Text s) = show_nat m @ CHR ''_'' # rest"
      using assms(1) Suc by (simp add: mangleIndex_def)
    have "char_at s \<noteq> CHR ''_''"
      using hd Suc hd_show_nat [of m] by (auto simp: mangleIndex_def isDigit_def)
    moreover have "run_state demangleNatural s = (int m, ?s)"
      by (rule read_number [OF t]) (use assms(2) Suc in \<open>simp_all add: isDigit_def\<close>)
    moreover have "char_at ?s = CHR ''_''"
      using at_text(2) [of ?s "''_''" rest] past_text [OF t] by simp
    ultimately show ?thesis
      using Suc assms(2) by (simp add: demangleIndex_def dm_run mangleIndex_def int32_small)
  qed
qed

section \<open>Standard types\<close>

lemma find_table:
  assumes "distinct (map f xs)" "x \<in> set xs"
  shows "List.find (\<lambda>y. f y = f x) xs = Some x"
  using assms by (induction xs) (auto simp: image_iff)

lemma special_letters:
  assumes "(k, c, name) \<in> set standard_types"
  shows "c \<notin> {CHR ''o'', CHR ''C'', CHR ''g'', CHR ''c''}" "\<not> isDigit c"
proof -
  have "list_all (\<lambda>(_, c, _). c \<notin> {CHR ''o'', CHR ''C'', CHR ''g'', CHR ''c''} \<and> \<not> isDigit c) standard_types"
    by code_simp
  then show "c \<notin> {CHR ''o'', CHR ''C'', CHR ''g'', CHR ''c''}" "\<not> isDigit c"
    using assms by (auto simp only: list_all_iff split: prod.splits)
qed

lemma concurrency_names:
  assumes "(k, c, name) \<in> set concurrency_types"
  shows "List.find (\<lambda>(_, _, t). t = name) standard_types = None"
proof -
  have "list_all (\<lambda>(_, _, name). List.find (\<lambda>(_, _, t). t = name) standard_types = None) concurrency_types"
    by code_simp
  then show ?thesis using assms by (auto simp only: list_all_iff split: prod.splits)
qed

lemma concurrency_letters:
  assumes "(k, c, name) \<in> set concurrency_types"
  shows "\<not> isDigit c"
proof -
  have "list_all (\<lambda>(_, c, _). \<not> isDigit c) concurrency_types" by code_simp
  then show ?thesis using assms by (auto simp only: list_all_iff split: prod.splits)
qed

lemma standard_type:
  assumes "(k, c, name) \<in> set standard_types"
  shows "getStandardTypeSubst name b = Some [c]"
    "createStandardSubstitution c False = createSwiftType (standard_kind k) name"
  using find_table [OF distinct_manglings(2) assms] find_table [OF distinct_manglings(1) assms]
  by (simp_all add: getStandardTypeSubst_def createStandardSubstitution_def case_prod_beta')

lemma concurrency_type:
  assumes "(k, c, name) \<in> set concurrency_types"
  shows "getStandardTypeSubst name True = Some [CHR ''c'', c]"
    "createStandardSubstitution c True = createSwiftType (standard_kind k) name"
  using find_table [OF distinct_manglings(4) assms] find_table [OF distinct_manglings(3) assms]
    concurrency_names [OF assms]
  by (simp_all add: getStandardTypeSubst_def createStandardSubstitution_def case_prod_beta')

text \<open>The repeat count that a merged substitution has.\<close>

definition repeat_count :: "nat \<Rightarrow> string" where
  "repeat_count n = (if n = 1 then [] else show_nat n)"

lemma read_repeat_count:
  assumes "drop (Pos s) (Text s) = repeat_count n @ c # rest" "\<not> isDigit c" "1 \<le> n" "n \<le> 2147483647"
  shows "\<exists>r. run_state demangleNatural s = (r, s\<lparr>Pos := Pos s + length (repeat_count n)\<rparr>)
    \<and> nat (r - 1) = n - 1 \<and> r \<le> int n"
proof (cases "n = 1")
  case True
  then have "char_at s = c" using assms(1) at_text(2) [of s "[c]" rest] by (simp add: repeat_count_def)
  then show ?thesis using True assms(2) by (simp add: demangleNatural_def dm_run repeat_count_def)
next
  case False
  then have t: "drop (Pos s) (Text s) = show_nat n @ c # rest" using assms(1) by (simp add: repeat_count_def)
  show ?thesis using read_number [OF t] assms(2-4) False by (simp add: repeat_count_def nat_diff_distrib)
qed

text \<open>Reading what follows the \<open>S\<close> of a standard substitution.\<close>

lemma read_standard:
  assumes t: "drop (Pos s) (Text s) = repeat_count n @ second @ c # rest" and n: "1 \<le> n" "n \<le> 2048"
    and s: "second = [] \<and> c \<notin> {CHR ''o'', CHR ''C'', CHR ''g'', CHR ''c''} \<or> second = ''c''" "\<not> isDigit c"
    and Nd: "createStandardSubstitution c (second = ''c'') = Some Nd"
  shows "run_state demangleStandardSubstitution s =
    (Some Nd, s\<lparr>Pos := Pos s + length (repeat_count n @ second @ [c]),
       NodeStack := replicate (n - 1) Nd @ NodeStack s\<rparr>)"
proof -
  let ?d = "hd (second @ [c])"
  have d: "\<not> isDigit ?d" "?d \<notin> {CHR ''o'', CHR ''C'', CHR ''g''}" using s by (auto simp: isDigit_def)
  obtain ds where ds: "second @ c # rest = ?d # ds" by (cases second) auto
  let ?s = "s\<lparr>Pos := Pos s + length (repeat_count n)\<rparr>"
  obtain r where r: "run_state demangleNatural s = (r, ?s)" "nat (r - 1) = n - 1" "r \<le> int n"
    using read_repeat_count [of s n ?d ds] t ds d n by auto
  have first: "Pos s < length (Text s)" "char_at s = hd (repeat_count n @ second @ [c])"
    using at_text [of s "repeat_count n @ second @ [c]" rest] t by simp_all
  have "char_at s \<notin> {CHR ''o'', CHR ''C'', CHR ''g''}"
    using first(2) d hd_show_nat [of n] by (cases "n = 1") (auto simp: repeat_count_def isDigit_def)
  moreover have after: "drop (Pos ?s) (Text ?s) = second @ c # rest" using past_text [OF t] by simp
  have "char_at ?s = ?d" using at_text(2) [OF after] ds
    by (metis append_Cons append_is_Nil_conv list.distinct(1) list.sel(1) at_text(2) [of ?s "[?d]" ds] append_Nil after)
  moreover have "Pos ?s + length second < length (Text ?s) \<and> Text ?s ! (Pos ?s + length second) = c"
    using at_text [of "?s\<lparr>Pos := Pos ?s + length second\<rparr>" "[c]" rest] past_text [OF after]
    by (simp add: char_at_def)
  ultimately show ?thesis
    using s first(1) r Nd n
    by (auto simp: demangleStandardSubstitution_def dm_run char_at_def add.assoc)
qed

section \<open>Operators\<close>

lemma operator_char_translate:
  assumes "c \<in> fst ` set operator_chars \<or> 128 \<le> ord c"
  shows "operator_char (translateOperatorChar c) = Some c"
proof (cases "c \<in> fst ` set operator_chars")
  case True
  have "list_all (\<lambda>(c, _). operator_char (translateOperatorChar c) = Some c) operator_chars"
    by code_simp
  then show ?thesis using True by (auto simp: list_all_iff)
next
  case False
  then have "map_of operator_chars c = None" by (simp add: map_of_eq_None_iff)
  then show ?thesis using False assms by (simp add: translateOperatorChar_def operator_char_def)
qed

lemma those_operator_chars:
  "\<forall>c \<in> set op. c \<in> fst ` set operator_chars \<or> 128 \<le> ord c
    \<Longrightarrow> those (map operator_char (translateOperator op)) = Some op"
  by (induction op) (simp_all add: translateOperator_def operator_char_translate)

section \<open>Bounds\<close>

lemma int32_bounds: "- (2 ^ 31) \<le> int32 n" "int32 n \<le> INT_MAX"
proof -
  have "0 \<le> (n + 2 ^ 31) mod 2 ^ 32" "(n + 2 ^ 31) mod 2 ^ 32 < 2 ^ 32" by simp_all
  then show "- (2 ^ 31) \<le> int32 n" "int32 n \<le> INT_MAX" unfolding int32_def by simp_all
qed

lemma natural_loop_bounds:
  "0 \<le> num \<Longrightarrow> num \<le> INT_MAX \<Longrightarrow> fst (natural_loop num cs) = -1000 \<or> fst (natural_loop num cs) \<in> {0..INT_MAX}"
proof (induction num cs rule: natural_loop.induct)
  case (2 num c cs)
  let ?n = "int32 (10 * num + (int (ord c) - int (ord (CHR ''0''))))"
  show ?case
  proof (cases "isDigit c \<and> num \<le> ?n")
    case True
    then have "fst (natural_loop num (c # cs)) = fst (natural_loop ?n cs)"
      by (simp add: Let_def not_less del: ord_Char split: prod.split)
    then show ?thesis using 2 True int32_bounds(2) by (simp del: ord_Char)
  next
    case False
    then show ?thesis using 2(2,3) by (auto simp: Let_def not_less)
  qed
qed simp

lemma demangleNatural_range:
  "fst (run_state demangleNatural s) = -1000 \<or> fst (run_state demangleNatural s) \<in> {0..INT_MAX}"
  using natural_loop_bounds [of 0 "drop (Pos s) (Text s)"]
  by (auto simp: demangleNatural_def dm_run split: prod.splits)

section \<open>Properties\<close>

text \<open>
  C24: numbers and indices up to \<open>INT_MAX\<close> as the mangler writes them are read back, and the position
  is then right behind them. A number must not be followed by a digit; an index ends with \<open>_\<close>.
\<close>

theorem numbers_roundtrip:
  assumes "n \<le> 2147483647"
  shows "(drop (Pos s) (Text s) = show_nat n @ rest \<and> (rest = [] \<or> \<not> isDigit (hd rest)) \<longrightarrow>
      run_state demangleNatural s = (int n, s\<lparr>Pos := Pos s + length (show_nat n)\<rparr>))
    \<and> (drop (Pos s) (Text s) = mangleIndex n @ rest \<longrightarrow>
      run_state demangleIndex s = (int n, s\<lparr>Pos := Pos s + length (mangleIndex n)\<rparr>))"
  using read_number read_index assms by blast

theorem numbers_roundtrip_witness:
  "run_state demangleIndex (new_demangler\<lparr>Text := ''A41_'', Pos := 1\<rparr>)
     = (42, new_demangler\<lparr>Text := ''A41_'', Pos := 4\<rparr>)"
proof -
  let ?s = "new_demangler\<lparr>Text := ''A41_'', Pos := 1\<rparr>"
  have "drop (Pos ?s) (Text ?s) = mangleIndex 42 @ []" by (simp add: mangleIndex_def show_nat.simps)
  with numbers_roundtrip [of 42 ?s "[]"] show ?thesis
    by (simp add: mangleIndex_def show_nat.simps new_demangler_def)
qed

text \<open>
  C25: every number read is -1000, for none, or at most \<open>INT_MAX\<close>. The check for overflow sees only some
  numbers that are too large: 2147483648 is refused and 9999999999 is read as 1410065407. And the
  addition after it in \<open>demangleIndex\<close> is not checked: the index after \<open>INT_MAX\<close> is the least \<open>int\<close>.
\<close>

theorem number_bounds:
  "(fst (run_state demangleNatural s) = -1000 \<or> fst (run_state demangleNatural s) \<in> {0..INT_MAX})
   \<and> fst (run_state demangleNatural (new_demangler\<lparr>Text := ''2147483648''\<rparr>)) = -1000
   \<and> fst (run_state demangleNatural (new_demangler\<lparr>Text := ''9999999999''\<rparr>)) = 1410065407
   \<and> fst (run_state demangleIndex (new_demangler\<lparr>Text := ''2147483647_''\<rparr>)) = -2147483648"
  by (intro conjI demangleNatural_range)
    (simp_all add: demangleNatural_def demangleIndex_def dm_run new_demangler_def char_at_def isDigit_def
      int32_def Let_def)

text \<open>
  C26: the standard substitutions that the mangler writes, with a repeat count where it has merged equal
  ones, are read as the type of that name, once as the result and for each further repetition on the stack.
\<close>

theorem standard_types_roundtrip:
  assumes "(k, c, name) \<in> set standard_types \<or> (k, c, name) \<in> set concurrency_types"
    and "getStandardTypeSubst name True = Some m"
    and "drop (Pos s) (Text s) = repeat_count n @ m @ rest" "1 \<le> n" "n \<le> 2048"
  shows "\<exists>Nd. createSwiftType (standard_kind k) name = Some Nd
    \<and> run_state demangleStandardSubstitution s =
       (Some Nd, s\<lparr>Pos := Pos s + length (repeat_count n @ m),
          NodeStack := replicate (n - 1) Nd @ NodeStack s\<rparr>)"
proof -
  obtain Nd where Nd: "createSwiftType (standard_kind k) name = Some Nd"
    by (simp add: createSwiftType_def createWithChildren_def createType_def createWithChild_def)
  show ?thesis
    using assms(1)
  proof
    assume k: "(k, c, name) \<in> set standard_types"
    then have "m = [c]" using standard_type(1) assms(2) by simp
    then show ?thesis
      using read_standard [of s n "[]" c rest Nd] standard_type(2) [OF k] special_letters [OF k] Nd assms
      by simp
  next
    assume k: "(k, c, name) \<in> set concurrency_types"
    then have "m = [CHR ''c'', c]" using concurrency_type(1) assms(2) by auto
    then show ?thesis
      using read_standard [of s n "''c''" c rest Nd] concurrency_type(2) [OF k] concurrency_letters [OF k] Nd assms
      by simp
  qed
qed

theorem standard_types_roundtrip_witness:
  "\<exists>Nd. createSwiftType K_Structure ''Int'' = Some Nd
    \<and> run_state demangleStandardSubstitution (new_demangler\<lparr>Text := ''S3i'', Pos := 1\<rparr>)
      = (Some Nd, new_demangler\<lparr>Text := ''S3i'', Pos := 3, NodeStack := [Nd, Nd]\<rparr>)"
proof -
  let ?s = "new_demangler\<lparr>Text := ''S3i'', Pos := 1\<rparr>"
  have m: "getStandardTypeSubst ''Int'' True = Some ''i''" by code_simp
  have t: "drop (Pos ?s) (Text ?s) = repeat_count 3 @ ''i'' @ []"
    by (simp add: repeat_count_def show_nat.simps)
  have "(TK_Structure, CHR ''i'', ''Int'') \<in> set standard_types" by (simp add: standard_types_def)
  from standard_types_roundtrip [OF disjI1 [OF this] m t] show ?thesis
    by (simp add: repeat_count_def show_nat.simps new_demangler_def numeral_2_eq_2 numeral_3_eq_3)
qed

text \<open>
  C27: the operator names that the mangler translates, made of operator characters and of bytes outside
  ASCII, are translated back, for each of the three fixities.
\<close>

theorem operators_roundtrip:
  assumes "\<forall>c \<in> set op. c \<in> fst ` set operator_chars \<or> 128 \<le> ord c"
    and "NodeStack s = TextNode K_Identifier (translateOperator op) # ns"
    and "drop (Pos s) (Text s) = c # rest"
    and "(c, kind) \<in> {(CHR ''i'', K_InfixOperator), (CHR ''p'', K_PrefixOperator), (CHR ''P'', K_PostfixOperator)}"
  shows "run_state demangleOperatorIdentifier s = (Some (TextNode kind op), s\<lparr>NodeStack := ns, Pos := Pos s + 1\<rparr>)"
  using assms at_text [of s "[c]" rest] those_operator_chars [OF assms(1)]
  by (auto simp: demangleOperatorIdentifier_def dm_run char_at_def)

theorem operators_roundtrip_witness:
  "run_state demangleOperatorIdentifier
     (new_demangler\<lparr>Text := ''oi'', Pos := 1, NodeStack := [TextNode K_Identifier ''ee'']\<rparr>)
   = (Some (TextNode K_InfixOperator ''==''), new_demangler\<lparr>Text := ''oi'', Pos := 2, NodeStack := []\<rparr>)"
proof -
  let ?s = "new_demangler\<lparr>Text := ''oi'', Pos := 1, NodeStack := [TextNode K_Identifier ''ee'']\<rparr>"
  have o: "\<forall>c \<in> set ''==''. c \<in> fst ` set operator_chars \<or> 128 \<le> ord c"
    by (simp add: operator_chars_def)
  have "NodeStack ?s = [TextNode K_Identifier (translateOperator ''=='')]"
    by (simp add: translateOperator_def translateOperatorChar_def operator_chars_def)
  from operators_roundtrip [OF o this, of "CHR ''i''" "[]" K_InfixOperator] show ?thesis
    by (simp add: new_demangler_def)
qed

end
