(* ===== verification/Mangling_Words.thy ===== *)
theory Mangling_Words
  imports Mangling_Utils Demangler_Loops
begin

text \<open>
  The words of an identifier. An identifier is cut into words and the single characters between them;
  both the mangler, which looks for the words it has seen before, and the demangler, which records the
  words of what it reads, go along this cut. \<open>runs\<close> says what is substituted: it is the specification
  that the two passes of \<open>mangleIdentifier\<close> implement and that the demangler reads back.
\<close>

section \<open>Cutting into words\<close>

datatype seg = N char | W string

fun seg_text :: "seg \<Rightarrow> string" where
  "seg_text (N c) = [c]"
| "seg_text (W w) = w"

definition segs_text :: "seg list \<Rightarrow> string" where
  "segs_text ss = concat (map seg_text ss)"

lemma segs_text_simps [simp]:
  "segs_text [] = []" "segs_text (s # ss) = seg_text s @ segs_text ss"
  "segs_text (ss @ ts) = segs_text ss @ segs_text ts"
  by (simp_all add: segs_text_def)

definition is_word :: "string \<Rightarrow> bool" where
  "is_word w \<longleftrightarrow> w \<noteq> [] \<and> isWordStart (hd w) \<and> (\<forall>i. Suc i < length w \<longrightarrow> \<not> isWordEnd (w ! Suc i) (w ! i))"

fun ok_segs :: "seg list \<Rightarrow> bool" where
  "ok_segs [] \<longleftrightarrow> True"
| "ok_segs (N c # r) \<longleftrightarrow> \<not> isWordStart c \<and> ok_segs r"
| "ok_segs (W w # r) \<longleftrightarrow> is_word w \<and> ok_segs r \<and> (r \<noteq> [] \<longrightarrow> isWordEnd (hd (segs_text r)) (last w))"

fun cut :: "string option \<Rightarrow> string \<Rightarrow> seg list" where
  "cut None [] = []"
| "cut (Some w) [] = [W w]"
| "cut None (c # cs) = (if isWordStart c then cut (Some [c]) cs else N c # cut None cs)"
| "cut (Some w) (c # cs) =
     (if isWordEnd c (last w)
      then W w # (if isWordStart c then cut (Some [c]) cs else N c # cut None cs)
      else cut (Some (w @ [c])) cs)"

lemma is_word_single: "isWordStart c \<Longrightarrow> is_word [c]"
  by (simp add: is_word_def)

lemma is_word_snoc: "is_word w \<Longrightarrow> \<not> isWordEnd c (last w) \<Longrightarrow> is_word (w @ [c])"
  by (auto simp: is_word_def nth_append last_conv_nth less_Suc_eq not_less)
    (metis diff_Suc_1 One_nat_def)

lemma cut_text: "segs_text (cut v cs) = (case v of None \<Rightarrow> [] | Some w \<Rightarrow> w) @ cs"
  by (induction v cs rule: cut.induct) simp_all

lemma cut_ok: "(case v of None \<Rightarrow> True | Some w \<Rightarrow> is_word w) \<Longrightarrow> ok_segs (cut v cs)"
  by (induction v cs rule: cut.induct) (auto simp: is_word_single is_word_snoc cut_text)

lemma ok_segs_append: "ok_segs (ss @ ts) \<Longrightarrow> ok_segs ss \<and> ok_segs ts"
proof (induction ss rule: ok_segs.induct)
  case (3 w r)
  have "hd (segs_text (r @ ts)) = hd (segs_text r)" if "r \<noteq> []"
  proof -
    have "segs_text r \<noteq> []"
      using that 3(2) by (cases r; cases "hd r") (auto simp: is_word_def)
    then show ?thesis by simp
  qed
  with 3 show ?case by auto
qed auto

fun long_words :: "seg list \<Rightarrow> string list" where
  "long_words [] = []"
| "long_words (N c # r) = long_words r"
| "long_words (W w # r) = (if 2 \<le> length w then [w] else []) @ long_words r"

lemma slice_words_inside:
  "v \<noteq> [] \<Longrightarrow> (\<forall>i. length v \<le> Suc i \<and> Suc i < length (v @ u) \<longrightarrow> \<not> isWordEnd ((v @ u) ! Suc i) ((v @ u) ! i))
    \<Longrightarrow> slice_words (Some v) (u @ cs) = slice_words (Some (v @ u)) cs"
proof (induction u arbitrary: v)
  case (Cons c u)
  have "\<not> isWordEnd c (last v)"
    using Cons.prems(2) [rule_format, of "length v - 1"] Cons.prems(1) by (simp add: nth_append last_conv_nth)
  moreover have "slice_words (Some (v @ [c])) (u @ cs) = slice_words (Some ((v @ [c]) @ u)) cs"
  proof (rule Cons.IH)
    show "\<forall>i. length (v @ [c]) \<le> Suc i \<and> Suc i < length ((v @ [c]) @ u)
        \<longrightarrow> \<not> isWordEnd (((v @ [c]) @ u) ! Suc i) (((v @ [c]) @ u) ! i)"
      using Cons.prems(2) by simp
  qed simp
  ultimately show ?case by simp
qed simp

lemma slice_words_word:
  assumes "is_word w"
  shows "slice_words None (w @ cs) = slice_words (Some w) cs"
proof -
  obtain c u where w: "w = c # u" using assms by (cases w) (auto simp: is_word_def)
  then show ?thesis
    using assms slice_words_inside [of "[c]" u cs] by (simp add: is_word_def)
qed

lemma slice_words_segs: "ok_segs ss \<Longrightarrow> slice_words None (segs_text ss) = long_words ss"
proof (induction ss rule: ok_segs.induct)
  case (3 w r)
  show ?case
  proof (cases "segs_text r")
    case Nil
    then have "long_words r = []" using 3 by simp
    then show ?thesis using 3(2) Nil by (simp add: slice_words_word [of w "[]", simplified])
  next
    case (Cons c cs)
    then have "isWordEnd c (last w)" using 3(2) by (cases r) auto
    then show ?thesis using 3 Cons slice_words_word [of w "c # cs"] by simp
  qed
qed simp_all

section \<open>What is substituted\<close>

text \<open>
  A run is a part of the identifier that is written out and the word substituted after it, with the index
  of the word. \<open>ws\<close> are the words known so far and \<open>acc\<close> is the part to be written out. The second
  result is what is written out at the end, the third are all the words known then.
\<close>

definition first_index :: "string \<Rightarrow> string list \<Rightarrow> nat option" where
  "first_index w ws = List.find (\<lambda>i. w = ws ! i) [0..<length ws]"

definition add_word :: "string \<Rightarrow> string list \<Rightarrow> string list" where
  "add_word w ws = (if 2 \<le> length w \<and> length ws < MangledWords then ws @ [w] else ws)"

type_synonym run = "seg list \<times> nat \<times> string"

fun runs :: "string list \<Rightarrow> seg list \<Rightarrow> seg list \<Rightarrow> run list \<times> seg list \<times> string list" where
  "runs ws acc [] = ([], acc, ws)"
| "runs ws acc (N c # r) = runs ws (acc @ [N c]) r"
| "runs ws acc (W w # r) =
     (case first_index w ws of
        Some i \<Rightarrow> (case runs ws [] r of (rs, t, ws') \<Rightarrow> ((acc, i, w) # rs, t, ws'))
      | None \<Rightarrow> runs (add_word w ws) (acc @ [W w]) r)"

lemma first_index_Some:
  assumes "first_index w ws = Some i"
  shows "i < length ws" "ws ! i = w"
  using assms by (auto simp: first_index_def find_Some_iff)

fun runs_text :: "run list \<Rightarrow> seg list \<Rightarrow> string" where
  "runs_text [] t = segs_text t"
| "runs_text ((a, i, w) # rs) t = segs_text a @ w @ runs_text rs t"

lemma runs_text: "runs ws acc ss = (rs, t, ws') \<Longrightarrow> runs_text rs t = segs_text acc @ segs_text ss"
  by (induction ws acc ss arbitrary: rs t ws' rule: runs.induct) (auto split: option.splits prod.splits)

text \<open>The words after a part is written out, as the demangler records them.\<close>

abbreviation extend :: "string list \<Rightarrow> string list \<Rightarrow> string list" where
  "extend ws ls \<equiv> ws @ take (MangledWords - length ws) ls"

fun ok_runs :: "string list \<Rightarrow> run list \<Rightarrow> seg list \<Rightarrow> string list \<Rightarrow> bool" where
  "ok_runs ws [] t ws' \<longleftrightarrow> ok_segs t \<and> ws' = extend ws (long_words t)"
| "ok_runs ws ((a, i, w) # rs) t ws' \<longleftrightarrow> ok_segs a \<and>
     (let ws1 = extend ws (long_words a)
      in i < length ws1 \<and> ws1 ! i = w \<and> length w > 0 \<and> ok_runs ws1 rs t ws')"

lemma long_words_append: "long_words (ss @ ts) = long_words ss @ long_words ts"
  by (induction ss rule: long_words.induct) simp_all

lemma extend_add_word:
  "length ws \<le> MangledWords \<Longrightarrow> add_word w (extend ws ls) = extend ws (ls @ (if 2 \<le> length w then [w] else []))"
  by (auto simp: add_word_def min_def)

lemma runs_ok:
  assumes "runs (extend ws0 (long_words acc)) acc ss = (rs, t, ws')" "ok_segs (acc @ ss)"
    and "length ws0 \<le> MangledWords"
  shows "ok_runs ws0 rs t ws'"
  using assms
proof (induction ss arbitrary: acc ws0 rs t ws')
  case Nil
  then show ?case by auto
next
  case (Cons s ss)
  show ?case
  proof (cases s)
    case (N c)
    then show ?thesis
      using Cons.prems Cons.IH [of ws0 "acc @ [N c]" rs t ws'] by (simp add: long_words_append)
  next
    case (W w)
    show ?thesis
    proof (cases "first_index w (extend ws0 (long_words acc))")
      case None
      then show ?thesis
        using W Cons.prems Cons.IH [of ws0 "acc @ [W w]" rs t ws']
        by (simp add: long_words_append extend_add_word)
    next
      case (Some i)
      let ?ws1 = "extend ws0 (long_words acc)"
      obtain rs' where r: "runs ?ws1 [] ss = (rs', t, ws')" "rs = (acc, i, w) # rs'"
        using Cons.prems(1) W Some by (auto split: prod.splits)
      have "ok_segs acc" "ok_segs (W w # ss)" using ok_segs_append [of acc "s # ss"] Cons.prems(2) W by simp_all
      moreover have "length ?ws1 \<le> MangledWords" using Cons.prems(3) by simp
      ultimately show ?thesis
        using Cons.IH [of ?ws1 "[]" rs' t ws'] r first_index_Some [OF Some]
        by (auto simp: is_word_def)
    qed
  qed
qed

section \<open>How runs are written\<close>

text \<open>How a list of runs is written, and the parts that can be read back.\<close>

definition written :: "seg list \<Rightarrow> string" where
  "written a = (if a = [] then [] else show_nat (length (segs_text a)) @ segs_text a)"

fun render :: "run list \<Rightarrow> seg list \<Rightarrow> string" where
  "render [] t = written t"
| "render ((a, i, w) # rs) t = written a @
     (if rs \<noteq> [] then char_of (i + ord (CHR ''a'')) # render rs t
      else char_of (i + ord (CHR ''A'')) # (if t = [] then ''0'' else written t))"

definition good_part :: "seg list \<Rightarrow> bool" where
  "good_part a \<longleftrightarrow> a = [] \<or>
     segs_text a \<noteq> [] \<and> \<not> isDigit (hd (segs_text a)) \<and> length (segs_text a) \<le> 2147483647"

fun good_runs :: "run list \<Rightarrow> seg list \<Rightarrow> bool" where
  "good_runs [] t \<longleftrightarrow> good_part t"
| "good_runs ((a, i, w) # rs) t \<longleftrightarrow> good_part a \<and> good_runs rs t"

end
