(* ===== verification/Identifier_Reading.thy ===== *)
theory Identifier_Reading
  imports Mangling_Words Demangler_Numbers
begin

text \<open>
  How \<open>demangleIdentifier\<close> reads an identifier that is written as a list of runs: each round of its loop
  copies words and reads one part, and the words it records are those of the parts read.
\<close>

section \<open>Steps of the loop\<close>

text \<open>The loop from a state on, with the fuel it needs there.\<close>

definition read_rest :: "bool \<Rightarrow> string \<Rightarrow> dem \<Rightarrow> string option \<times> dem" where
  "read_rest h i s = run_state (identifier_loop (remaining s + 1) False h i) s"

lemma read_rest_fuel:
  "inside s \<Longrightarrow> remaining s < n \<Longrightarrow> run_state (identifier_loop n False h i) s = read_rest h i s"
  using identifiers.enough_fuel [where s = s and n = n and m = "remaining s + 1" and x = "(False, h, i)"] by (simp add: read_rest_def)

lemma read_word:
  assumes "inside s" "isLetter (char_at s)"
    and "k = (if isLowerLetter (char_at s) then ord (char_at s) - ord (CHR ''a'') else ord (char_at s) - ord (CHR ''A''))"
    and "k < length (Words s)"
  shows "read_rest True i s = read_rest (isLowerLetter (char_at s)) (i @ Words s ! k) (s\<lparr>Pos := Suc (Pos s)\<rparr>)"
proof -
  let ?s = "s\<lparr>Pos := Suc (Pos s)\<rparr>"
  let ?h = "isLowerLetter (char_at s)" and ?i = "i @ Words s ! k"
  have lt: "Pos s < length (Text s)"
    using assms(2) by (auto simp: char_at_def isLetter_def isLowerLetter_def isUpperLetter_def split: if_splits)
  have "run_state (word_substitutions (remaining s + 1) True i) s
      = run_state (word_substitutions (remaining s) ?h ?i) ?s"
    using assms(2-4) lt by (simp add: dm_run Let_def)
  also have "\<dots> = run_state (word_substitutions (remaining ?s + 1) ?h ?i) ?s"
    using word_substitutions.enough_fuel
        [where s = ?s and n = "remaining s" and m = "remaining ?s + 1" and x = "(?h, ?i)"]
      remaining_step [OF lt] lt by simp
  finally have "run_state (identifier_loop (Suc (remaining s)) False True i) s
      = run_state (identifier_loop (Suc (remaining s)) False ?h ?i) ?s"
    by (simp add: run_read_state del: word_substitutions.simps)
  also have "\<dots> = read_rest ?h ?i ?s"
    using lt remaining_step [OF lt] by (intro read_rest_fuel) simp_all
  finally show ?thesis by (simp add: read_rest_def)
qed

lemma no_word:
  "\<not> (h \<and> isLetter (char_at s)) \<Longrightarrow> run_state (word_substitutions (Suc n) h i) s = (Some (h, i), s)"
  by (auto simp: dm_run)

lemma read_end:
  assumes "char_at s = CHR ''0''"
  shows "read_rest h i s = (Some i, s\<lparr>Pos := Suc (Pos s)\<rparr>)"
proof -
  have "\<not> isLetter (char_at s)" using assms by (simp add: isLetter_def isLowerLetter_def isUpperLetter_def)
  then show ?thesis
    using assms no_word [of h s "remaining s" i]
    by (simp add: read_rest_def run_read_state run_nextIf del: word_substitutions.simps)
qed

lemma show_nat_no_zero: "0 < n \<Longrightarrow> hd (show_nat n) \<noteq> CHR ''0''"
proof (induction n rule: show_nat.induct)
  case (1 n)
  show ?case
  proof (cases "n < 10")
    case True
    have "digit_char n = digit_char 0 \<longleftrightarrow> n = 0"
      using True digit_val_digit_char [of n] digit_val_digit_char [of 0] by (metis zero_less_numeral)
    then show ?thesis using True 1(2) by (simp add: show_nat.simps [of n])
  next
    case False
    then show ?thesis using 1(1) by (simp add: show_nat.simps [of n] hd_append)
  qed
qed

lemma part_inside: "drop p t = xs @ rest \<Longrightarrow> xs \<noteq> [] \<Longrightarrow> p + length xs \<le> length t"
  using length_drop [of p t] by (cases "p \<le> length t") auto

lemma read_part:
  assumes t: "drop (Pos s) (Text s) = show_nat (length part) @ part @ rest"
    and p: "part \<noteq> []" "\<not> isDigit (hd part)" "length part \<le> 2147483647"
  defines "s' \<equiv> s\<lparr>Words := extend (Words s) (slice_words None part),
      Pos := Pos s + length (show_nat (length part)) + length part\<rparr>"
  shows "read_rest h i s = (if h then read_rest True (i @ part) s' else (Some (i @ part), s'))"
proof -
  let ?n = "length part"
  let ?s = "s\<lparr>Pos := Pos s + length (show_nat ?n)\<rparr>"
  have lt: "Pos s < length (Text s)" and c: "char_at s = hd (show_nat ?n)"
    using at_text [OF t] by simp_all
  have d: "isDigit (char_at s)" "char_at s \<noteq> CHR ''0''"
    using c hd_show_nat show_nat_no_zero p(1) by simp_all
  then have nl: "\<not> isLetter (char_at s)"
    by (auto simp: isDigit_def isLetter_def isLowerLetter_def isUpperLetter_def)
  have num: "run_state demangleNatural s = (int ?n, ?s)"
    by (rule read_number [OF t]) (use p in \<open>simp_all add: hd_append\<close>)
  have t': "drop (Pos ?s) (Text ?s) = part @ rest" using past_text [OF t] by simp
  have ins: "Pos ?s + ?n \<le> length (Text ?s)"
    by (rule part_inside [OF t' p(1)])
  have slice: "run_state (identifier_slice False ?n) ?s = (Some part, s')"
    using ins t' by (simp add: identifier_slice_def record_words_def dm_run s'_def)
  have "read_rest h i s = (if h then run_state (identifier_loop (remaining s) False True (i @ part)) s'
      else (Some (i @ part), s'))"
    using d(2) p(1) no_word [of h s "remaining s" i] nl num slice
    by (simp add: read_rest_def run_read_state run_nextIf del: word_substitutions.simps)
  moreover have "run_state (identifier_loop (remaining s) False True (i @ part)) s' = read_rest True (i @ part) s'"
    using ins lt p(1) by (intro read_rest_fuel) (auto simp: s'_def remaining_def diff_less_mono2)
  ultimately show ?thesis by simp
qed

section \<open>Runs\<close>

lemma read_written:
  assumes "inside s" "drop (Pos s) (Text s) = written a @ rest" "a \<noteq> []" "good_part a" "ok_segs a"
  shows "read_rest h i s = (let s' = s\<lparr>Words := extend (Words s) (long_words a), Pos := Pos s + length (written a)\<rparr>
    in if h then read_rest True (i @ segs_text a) s' else (Some (i @ segs_text a), s'))"
  using read_part [of s "segs_text a" rest h i] assms slice_words_segs [OF assms(5)]
  by (simp add: written_def good_part_def Let_def add.assoc)

text \<open>A part that is followed by a word.\<close>

lemma read_optional:
  assumes "inside s" "drop (Pos s) (Text s) = written a @ rest" "good_part a" "ok_segs a"
  shows "read_rest True i s = read_rest True (i @ segs_text a)
    (s\<lparr>Words := extend (Words s) (long_words a), Pos := Pos s + length (written a)\<rparr>)"
proof (cases "a = []")
  case True
  then show ?thesis by (simp add: written_def)
next
  case False
  then show ?thesis using read_written [OF assms(1,2) False assms(3,4), of True i] by (simp add: Let_def)
qed

lemma word_letters:
  assumes "i < 26"
  shows "isLowerLetter (char_of (i + ord (CHR ''a'')))" "ord (char_of (i + ord (CHR ''a''))) - ord (CHR ''a'') = i"
    "isUpperLetter (char_of (i + ord (CHR ''A'')))" "ord (char_of (i + ord (CHR ''A''))) - ord (CHR ''A'') = i"
    "\<not> isLowerLetter (char_of (i + ord (CHR ''A'')))"
  using assms by (simp_all add: isLowerLetter_def isUpperLetter_def)

lemma read_runs:
  assumes "inside s" "drop (Pos s) (Text s) = render rs t @ rest" "rs \<noteq> []"
    and "ok_runs (Words s) rs t ws'" "good_runs rs t" "length (Words s) \<le> MaxNumWords"
  shows "read_rest True j s =
    (Some (j @ runs_text rs t), s\<lparr>Words := ws', Pos := Pos s + length (render rs t)\<rparr>)"
  using assms
proof (induction rs arbitrary: s j)
  case (Cons r rs)
  obtain a i w where r: "r = (a, i, w)" by (cases r) auto
  let ?ws = "extend (Words s) (long_words a)"
  let ?s1 = "s\<lparr>Words := ?ws, Pos := Pos s + length (written a)\<rparr>"
  let ?s2 = "?s1\<lparr>Pos := Suc (Pos ?s1)\<rparr>"
  obtain c cs where c: "render (r # rs) t = written a @ c # cs"
    "c = char_of (i + ord (if rs \<noteq> [] then CHR ''a'' else CHR ''A''))"
    "cs = (if rs \<noteq> [] then render rs t else if t = [] then ''0'' else written t)"
    by (simp add: r)
  have d: "drop (Pos s) (Text s) = written a @ (c # cs) @ rest" using Cons.prems(2) c(1) by simp
  have a: "good_part a" "ok_segs a" and w: "i < length ?ws" "?ws ! i = w" and ok: "ok_runs ?ws rs t ws'"
    and good: "good_runs rs t"
    using Cons.prems(4,5) by (simp_all add: r Let_def)
  have i: "i < 26" using w(1) Cons.prems(6) by simp
  have d1: "drop (Pos ?s1) (Text ?s1) = (c # cs) @ rest" using past_text [OF d] by simp
  have at: "Pos ?s1 < length (Text ?s1)" "char_at ?s1 = c" using at_text [OF d1] by simp_all
  have d2: "drop (Pos ?s2) (Text ?s2) = cs @ rest" using past_text [of ?s1 "[c]" "cs @ rest"] d1 by simp
  have word: "read_rest True (j @ segs_text a) ?s1 = read_rest (rs \<noteq> []) (j @ segs_text a @ w) ?s2"
  proof -
    have l: "isLetter c" "isLowerLetter c \<longleftrightarrow> rs \<noteq> []"
      "i = (if isLowerLetter c then ord c - ord (CHR ''a'') else ord c - ord (CHR ''A''))"
      using word_letters [OF i] unfolding c(2) isLetter_def by (auto simp del: ord_char_of ord_Char)
    have "read_rest True (j @ segs_text a) ?s1
        = read_rest (isLowerLetter (char_at ?s1)) ((j @ segs_text a) @ Words ?s1 ! i) (?s1\<lparr>Pos := Suc (Pos ?s1)\<rparr>)"
    proof (rule read_word)
      show "inside ?s1" using at(1) by simp
      show "isLetter (char_at ?s1)" unfolding at(2) by (rule l(1))
      show "i = (if isLowerLetter (char_at ?s1) then ord (char_at ?s1) - ord (CHR ''a'')
          else ord (char_at ?s1) - ord (CHR ''A''))" unfolding at(2) by (rule l(3))
      show "i < length (Words ?s1)" using w(1) by simp
    qed
    then show ?thesis unfolding at(2) l(2) using w(2) by simp
  qed
  have first: "read_rest True j s = read_rest (rs \<noteq> []) (j @ segs_text a @ w) ?s2"
    using read_optional [OF Cons.prems(1) d a, of j] word by simp
  show ?case
  proof (cases "rs = []")
    case False
    have "read_rest True (j @ segs_text a @ w) ?s2
        = (Some ((j @ segs_text a @ w) @ runs_text rs t), ?s2\<lparr>Words := ws', Pos := Pos ?s2 + length (render rs t)\<rparr>)"
      by (rule Cons.IH) (use False at d2 c(3) ok good Cons.prems(6) in simp_all)
    then show ?thesis using first False by (simp add: r)
  next
    case True
    have t: "ok_segs t" "ws' = extend ?ws (long_words t)" "good_part t" using ok good True by simp_all
    show ?thesis
    proof (cases "t = []")
      case True
      have "char_at ?s2 = CHR ''0''"
        using at_text(2) [of ?s2 "''0''" rest] d2 c(3) \<open>rs = []\<close> True by simp
      from read_end [OF this] show ?thesis
        using first \<open>rs = []\<close> True t(2) by (simp add: r)
    next
      case False
      have "inside ?s2" using at(1) by simp
      from read_written [OF this _ False t(3,1), of rest False] show ?thesis
        using first d2 c(3) \<open>rs = []\<close> False t(2) by (simp add: r Let_def)
    qed
  qed
qed simp

section \<open>Identifiers\<close>

text \<open>What \<open>demangleIdentifier\<close> does with the text that the loop gives.\<close>

definition with_identifier :: "string option \<times> dem \<Rightarrow> node option \<times> dem" where
  "with_identifier r = (case r of
       (None, s) \<Rightarrow> (None, s)
     | (Some i, s) \<Rightarrow> if i = [] then (None, s)
         else (Some (TextNode K_Identifier i), s\<lparr>Substitutions := Substitutions s @ [TextNode K_Identifier i]\<rparr>))"

lemma demangleIdentifier_run:
  assumes "isDigit (char_at s)"
  shows "run_state demangleIdentifier s =
    (if char_at s \<noteq> CHR ''0'' then with_identifier (read_rest False [] s)
     else
       let s1 = s\<lparr>Pos := Suc (Pos s)\<rparr>; s2 = s1\<lparr>Pos := Suc (Pos s1)\<rparr>
       in if char_at s1 \<noteq> CHR ''0'' then with_identifier (read_rest True [] s1)
          else with_identifier (run_state (identifier_loop (remaining s2 + 1) True False []) s2))"
proof -
  have lt: "Pos s < length (Text s)" using assms by (auto simp: char_at_def isDigit_def split: if_splits)
  have w: "run_state (case x of
         None \<Rightarrow> null
       | Some Identifier \<Rightarrow>
           if Identifier = [] then null
           else do {
             let Ident = Some (TextNode K_Identifier Identifier);
             addSubstitution Ident;
             ret Ident
           }) t = with_identifier (x, t)" for x t
    by (simp add: with_identifier_def Let_def dm_run split: option.split)
  let ?s1 = "s\<lparr>Pos := Suc (Pos s)\<rparr>"
  have "Pos ?s1 < length (Text ?s1)" if "char_at ?s1 = CHR ''0''"
    using that by (auto simp: char_at_def split: if_splits)
  then show ?thesis
    using assms lt
    by (auto simp: demangleIdentifier_def run_peekChar run_nextChar run_read_state w read_rest_def Let_def
        simp del: identifier_loop.simps split: prod.split)
qed

lemma read_identifier:
  assumes s: "inside s" "drop (Pos s) (Text s) = (if rs = [] then written t else CHR ''0'' # render rs t) @ rest"
    and runs: "ok_runs (Words s) rs t ws'" "good_runs rs t" "length (Words s) \<le> MaxNumWords" "runs_text rs t \<noteq> []"
  shows "run_state demangleIdentifier s =
    (Some (TextNode K_Identifier (runs_text rs t)),
     s\<lparr>Words := ws', Pos := Pos s + length (if rs = [] then written t else CHR ''0'' # render rs t),
       Substitutions := Substitutions s @ [TextNode K_Identifier (runs_text rs t)]\<rparr>)"
proof (cases "rs = []")
  case True
  then have t: "t \<noteq> []" "ok_segs t" "good_part t" "ws' = extend (Words s) (long_words t)"
    using runs by auto
  have d: "drop (Pos s) (Text s) = written t @ rest" using s(2) True by simp
  have "char_at s = hd (show_nat (length (segs_text t)))"
    using at_text(2) [OF d] t(1) by (simp add: written_def)
  then have "isDigit (char_at s)" "char_at s \<noteq> CHR ''0''"
    using hd_show_nat show_nat_no_zero [of "length (segs_text t)"] runs(4) True by simp_all
  then show ?thesis
    using demangleIdentifier_run [of s] read_written [OF s(1) d t(1,3,2), of False "[]"] True t(4) runs(4)
    by (simp add: with_identifier_def Let_def)
next
  case False
  let ?s = "s\<lparr>Pos := Suc (Pos s)\<rparr>"
  have d: "drop (Pos s) (Text s) = ''0'' @ render rs t @ rest" using s(2) False by simp
  have at: "char_at s = CHR ''0''" "Pos s < length (Text s)" using at_text [OF d] by simp_all
  have d1: "drop (Pos ?s) (Text ?s) = render rs t @ rest" using past_text [OF d] by simp
  obtain a i w rs' where r: "rs = (a, i, w) # rs'" using False by (cases rs) auto
  have "i < 26" using runs(1,3) by (auto simp: r Let_def)
  have first: "render rs t \<noteq> []" "hd (render rs t) \<noteq> CHR ''0''"
  proof -
    show "render rs t \<noteq> []" by (simp add: r)
    have "isLetter (char_of (i + ord (CHR ''a'')))" "isLetter (char_of (i + ord (CHR ''A'')))"
      using word_letters [OF \<open>i < 26\<close>] by (simp_all add: isLetter_def del: ord_char_of ord_Char)
    then have l: "char_of (i + ord (CHR ''a'')) \<noteq> CHR ''0''" "char_of (i + ord (CHR ''A'')) \<noteq> CHR ''0''"
      by (auto simp: isLetter_def isLowerLetter_def isUpperLetter_def simp del: ord_char_of)
    have "0 < length (segs_text a)" if "a \<noteq> []" using runs(2) that by (simp add: r good_part_def)
    then show "hd (render rs t) \<noteq> CHR ''0''"
      using show_nat_no_zero [of "length (segs_text a)"] l by (auto simp: r written_def simp del: ord_Char)
  qed
  have "char_at ?s = hd (render rs t)" using at_text(2) [OF d1 first(1)] .
  moreover have "read_rest True [] ?s =
      (Some ([] @ runs_text rs t), ?s\<lparr>Words := ws', Pos := Pos ?s + length (render rs t)\<rparr>)"
    by (rule read_runs) (use at(2) d1 False runs in simp_all)
  ultimately show ?thesis
    using demangleIdentifier_run [of s] at(1) first(2) False runs(4)
    by (simp add: with_identifier_def Let_def isDigit_def)
qed

end
