(* ===== verification/Identifier_Writing.thy ===== *)
theory Identifier_Writing
  imports Mangling_Words
begin

text \<open>
  What \<open>mangleIdentifier\<close> writes: its first pass finds the substitutions and new words of the runs of the
  identifier, its second pass writes the runs and moves the new words to where they stand in the buffer.
\<close>

section \<open>Looking up words\<close>

text \<open>The words a mangler knows in the first pass: the first \<open>k\<close> stand in the buffer, the others in the identifier.\<close>

definition known :: "string \<Rightarrow> nat \<Rightarrow> mangler \<Rightarrow> string list" where
  "known ident k M = map (existingWord (Buffer M)) (take k (MWords M)) @ map (existingWord ident) (drop k (MWords M))"

lemma known_nth:
  assumes "k \<le> length (MWords M)" "i < length (MWords M)"
  shows "known ident k M ! i = existingWord (if i < k then Buffer M else ident) (MWords M ! i)"
  using assms by (simp add: known_def nth_append)

lemma find_cong: "(\<And>x. x \<in> set xs \<Longrightarrow> f x = g x) \<Longrightarrow> List.find f xs = List.find g xs"
  by (induction xs) auto

lemma find_append: "List.find f (xs @ ys) = (case List.find f xs of Some x \<Rightarrow> Some x | None \<Rightarrow> List.find f ys)"
  by (induction xs) auto

lemma lookup_known:
  fixes w ident :: string
  assumes "k \<le> length (MWords M)"
  defines "i \<equiv> lookupWord w (Buffer M) (MWords M) 0 k"
  shows "(if i < 0 then lookupWord w ident (MWords M) k (length (MWords M)) else i) =
    (case first_index w (known ident k M) of Some i \<Rightarrow> int i | None \<Rightarrow> -1)"
proof -
  let ?n = "length (MWords M)"
  have "List.find (\<lambda>i. w = known ident k M ! i) [0..<k] =
      List.find (\<lambda>i. w = existingWord (Buffer M) (MWords M ! i)) [0..<k]"
    "List.find (\<lambda>i. w = known ident k M ! i) [k..<?n] =
      List.find (\<lambda>i. w = existingWord ident (MWords M ! i)) [k..<?n]"
    using assms(1) by (auto intro!: find_cong simp: known_nth)
  moreover have "length (known ident k M) = ?n" using assms(1) by (simp add: known_def)
  moreover have "[0..<?n] = [0..<k] @ [k..<?n]" using upt_add_eq_append [of 0 k "?n - k"] assms(1) by simp
  ultimately show ?thesis
    by (simp add: first_index_def lookupWord_def i_def find_append split: option.split)
qed

lemma end_word_known:
  assumes "k \<le> length (MWords M)"
  shows "end_word ident k p q M =
    (case first_index (take (q - p) (drop p ident)) (known ident k M) of
       Some i \<Rightarrow> M\<lparr>SubstWordsInIdent := SubstWordsInIdent M @ [\<lparr>StringPos = p, WordIdx = int i\<rparr>]\<rparr>
     | None \<Rightarrow>
         if 2 \<le> q - p \<and> length (MWords M) < MangledWords
         then M\<lparr>MWords := MWords M @ [\<lparr>w_start = p, w_length = q - p\<rparr>]\<rparr>
         else M)"
  unfolding end_word_def Let_def lookup_known [OF assms] by (simp split: option.split)

section \<open>The first pass\<close>

fun subs_at :: "nat \<Rightarrow> run list \<Rightarrow> WordReplacement list" where
  "subs_at p [] = []"
| "subs_at p ((a, i, w) # rs) =
     \<lparr>StringPos = p + length (segs_text a), WordIdx = int i\<rparr>
     # subs_at (p + length (segs_text a) + length w) rs"

fun words_at :: "nat \<Rightarrow> seg list \<Rightarrow> SubstitutionWord list" where
  "words_at p [] = []"
| "words_at p (N c # r) = words_at (p + 1) r"
| "words_at p (W w # r) =
     (if 2 \<le> length w then [\<lparr>w_start = p, w_length = length w\<rparr>] else []) @ words_at (p + length w) r"

fun new_words :: "nat \<Rightarrow> run list \<Rightarrow> seg list \<Rightarrow> SubstitutionWord list" where
  "new_words p [] t = words_at p t"
| "new_words p ((a, i, w) # rs) t = words_at p a @ new_words (p + length (segs_text a) + length w) rs t"

lemma words_at_append: "words_at p (a @ b) = words_at p a @ words_at (p + length (segs_text a)) b"
  by (induction p a rule: words_at.induct) (simp_all add: add.assoc)

lemma nth_between: "j < length w \<Longrightarrow> (pre @ w @ post) ! (length pre + j) = w ! j"
  by (simp add: nth_append)

lemma scan_inside_word:
  assumes "ident = pre @ w @ post" "is_word w" "0 < n" "n \<le> length w"
  shows "fold (scan_step ident k) [length pre..<length pre + n] (M, None) = (M, Some (length pre))"
  using assms(3,4)
proof (induction n)
  case (Suc n)
  let ?p = "length pre"
  show ?case
  proof (cases "n = 0")
    case True
    have "ident ! ?p = hd w" using assms(1,2) by (simp add: nth_append is_word_def hd_conv_nth)
    then show ?thesis using True assms(1,2) by (auto simp: scan_step_def is_word_def)
  next
    case False
    have i: "ident ! (?p + n) = w ! n" "ident ! (?p + n - 1) = w ! (n - 1)"
      using assms(1) Suc.prems False nth_between [of n w pre post] nth_between [of "n - 1" w pre post]
      by simp_all
    have "\<not> isWordEnd (w ! n) (w ! (n - 1))"
      using assms(2) Suc.prems False by (auto simp: is_word_def dest: spec [of _ "n - 1"])
    then show ?thesis
      using Suc.IH Suc.prems False i assms(1) by (simp add: scan_step_def)
  qed
qed simp

lemma scan_word:
  assumes "ident = pre @ w @ post" "is_word w" "post \<noteq> [] \<Longrightarrow> isWordEnd (hd post) (last w)"
  defines "q \<equiv> length pre + length w"
  shows "fold (scan_step ident k) [length pre..<Suc (length ident)] (M, None) =
    fold (scan_step ident k) [q..<Suc (length ident)] (end_word ident k (length pre) q M, None)"
proof -
  let ?p = "length pre"
  have w: "w \<noteq> []" using assms(2) by (simp add: is_word_def)
  have q: "?p \<le> q" "q \<le> length ident" using assms(1) by (simp_all add: q_def)
  have "[?p..<Suc (length ident)] = [?p..<q] @ [q..<Suc (length ident)]"
    using upt_add_eq_append [of ?p q "Suc (length ident) - q"] q by simp
  moreover have "fold (scan_step ident k) [?p..<q] (M, None) = (M, Some ?p)"
    using scan_inside_word [OF assms(1,2), of "length w"] w by (simp add: q_def)
  moreover have "scan_step ident k q (M, Some ?p) = scan_step ident k q (end_word ident k ?p q M, None)"
  proof -
    have "q - 1 = ?p + (length w - 1)" using w by (cases w) (simp_all add: q_def)
    then have "ident ! (q - 1) = last w"
      using assms(1) w nth_between [of "length w - 1" w pre post] by (simp only:) (simp add: last_conv_nth)
    moreover have "(if q < length ident then ident ! q else CHR 0x00) = (if post = [] then CHR 0x00 else hd post)"
      using assms(1) by (simp add: q_def nth_append hd_conv_nth)
    ultimately show ?thesis
      using assms(3) by (auto simp: scan_step_def isWordEnd_def Let_def)
  qed
  moreover have "[q..<Suc (length ident)] = q # [Suc q..<Suc (length ident)]"
    using q(2) by (simp add: upt_conv_Cons)
  ultimately show ?thesis by simp
qed

lemma take_snoc: "take n (xs @ [x]) = take n xs @ (if length xs < n then [x] else [])"
  by (cases "length xs < n") simp_all

text \<open>
  The invariant of the first pass: the new words are those of the runs before, \<open>done\<close>, and of the part
  \<open>acc\<close> that is pending since \<open>p\<close>, as many as the array holds.
\<close>

lemma scan_runs:
  assumes "runs (known ident k M) acc ss = (rs, t, ws')" "ident = pre @ segs_text acc @ segs_text ss"
    and "ok_segs ss" "k \<le> length (MWords M)" "k \<le> MangledWords"
    and "drop k (MWords M) = take (MangledWords - k) (before @ words_at (length pre) acc)"
  shows "\<exists>M'. fold (scan_step ident k) [length pre + length (segs_text acc)..<Suc (length ident)] (M, None) = (M', None)
    \<and> SubstWordsInIdent M' = SubstWordsInIdent M @ subs_at (length pre) rs
    \<and> MWords M' = take k (MWords M) @ take (MangledWords - k) (before @ new_words (length pre) rs t)
    \<and> Buffer M' = Buffer M \<and> UsePunycode M' = UsePunycode M"
  using assms
proof (induction ss arbitrary: acc M pre before rs t ws')
  case Nil
  then have "fold (scan_step ident k) [length pre + length (segs_text acc)..<Suc (length ident)] (M, None) = (M, None)"
    by (simp add: scan_step_def isWordStart_def)
  moreover have "MWords M = take k (MWords M) @ drop k (MWords M)" by simp
  ultimately show ?case using Nil by auto
next
  case (Cons s ss)
  let ?q = "length pre + length (segs_text acc)"
  show ?case
  proof (cases s)
    case (N c)
    have "?q < Suc (length ident)" using Cons.prems(2) by simp
    note upt_conv_Cons [OF this]
    moreover have "ident ! ?q = c" "?q < length ident"
      using Cons.prems(2) nth_between [of 0 "[c]" "pre @ segs_text acc" "segs_text ss"] by (simp_all add: N)
    then have "scan_step ident k ?q (M, None) = (M, None)"
      using Cons.prems(3) by (simp add: scan_step_def N)
    ultimately show ?thesis
      using Cons.IH [of M "acc @ [N c]" rs t ws' pre before] Cons.prems by (simp add: N words_at_append)
  next
    case (W w)
    have w: "is_word w" "0 < length w" "ok_segs ss" using Cons.prems(3) by (auto simp: W is_word_def)
    let ?E = "end_word ident k ?q (?q + length w) M"
    have i: "ident = (pre @ segs_text acc) @ w @ segs_text ss" using Cons.prems(2) by (simp add: W)
    have step: "fold (scan_step ident k) [?q..<Suc (length ident)] (M, None)
        = fold (scan_step ident k) [?q + length w..<Suc (length ident)] (?E, None)"
      using scan_word [OF i w(1)] Cons.prems(3) by (auto simp: W)
    have sub: "take (?q + length w - ?q) (drop ?q ident) = w" using i by simp
    note E = end_word_known [OF Cons.prems(4), of ident ?q "?q + length w", unfolded sub]
    show ?thesis
    proof (cases "first_index w (known ident k M)")
      case None
      have n: "length (MWords M) < MangledWords \<longleftrightarrow> length (before @ words_at (length pre) acc) < MangledWords - k"
        using arg_cong [OF Cons.prems(6), of length] Cons.prems(4,5) by auto
      have e: "existingWord ident \<lparr>w_start = ?q, w_length = length w\<rparr> = w"
        using i by (simp add: existingWord_def)
      have "known ident k ?E = add_word w (known ident k M)"
        using None Cons.prems(4) e by (simp add: E known_def add_word_def)
      moreover have "drop k (MWords ?E) = take (MangledWords - k) (before @ words_at (length pre) (acc @ [W w]))"
        using None Cons.prems(4,6) n
        by (simp add: E words_at_append take_snoc flip: append_assoc)
      moreover have "k \<le> length (MWords ?E)" "Buffer ?E = Buffer M" "SubstWordsInIdent ?E = SubstWordsInIdent M"
        "take k (MWords ?E) = take k (MWords M)" "UsePunycode ?E = UsePunycode M"
        using None Cons.prems(4) by (simp_all add: E)
      ultimately show ?thesis
        using Cons.IH [of ?E "acc @ [W w]" rs t ws' pre before] Cons.prems(1,2,5) w(3) None step
        by (simp add: W add.assoc)
    next
      case (Some i)
      obtain rs' where r: "runs (known ident k M) [] ss = (rs', t, ws')" "rs = (acc, i, w) # rs'"
        using Cons.prems(1) W Some by (auto split: prod.splits)
      have "known ident k ?E = known ident k M" "MWords ?E = MWords M" "Buffer ?E = Buffer M" "UsePunycode ?E = UsePunycode M"
        "SubstWordsInIdent ?E = SubstWordsInIdent M @ [\<lparr>StringPos = ?q, WordIdx = int i\<rparr>]"
        using Some by (simp_all add: E known_def)
      then show ?thesis
        using Cons.IH [of ?E "[]" rs' t ws' "pre @ segs_text acc @ w" "before @ words_at (length pre) acc"]
          Cons.prems(2,4-6) w(3) step r
        by (simp add: W add.assoc)
    qed
  qed
qed

section \<open>The second pass\<close>

text \<open>The first \<open>k\<close> words stand in the buffer.\<close>

definition in_buffer :: "mangler \<Rightarrow> nat \<Rightarrow> string list \<Rightarrow> bool" where
  "in_buffer M k ws \<longleftrightarrow> k \<le> length (MWords M) \<and> k \<le> MangledWords
     \<and> map (existingWord (Buffer M)) (take k (MWords M)) = ws
     \<and> (\<forall>x \<in> set (take k (MWords M)). w_start x + w_length x \<le> length (Buffer M))"

lemma in_buffer_length: "in_buffer M k ws \<Longrightarrow> length ws = k"
  by (auto simp: in_buffer_def)

lemma existingWord_append:
  assumes "w_start x + w_length x \<le> length b"
  shows "existingWord (b @ xs) x = existingWord b x"
proof -
  have "w_length x - (length b - w_start x) = 0" using assms by simp
  then show ?thesis by (simp add: existingWord_def)
qed

lemma in_buffer_append: "in_buffer M k ws \<Longrightarrow> in_buffer (M\<lparr>Buffer := Buffer M @ xs\<rparr>) k ws"
  by (auto simp: in_buffer_def existingWord_append intro!: trans_le_add1)

lemma in_buffer_new:
  assumes "in_buffer M k ws" "k < length (MWords M)" "k < MangledWords"
  defines "x \<equiv> (MWords M ! k)\<lparr>w_start := length (Buffer M)\<rparr>"
  assumes "w_length x = length w"
  shows "in_buffer (M\<lparr>MWords := (MWords M)[k := x], Buffer := Buffer M @ w\<rparr>) (Suc k) (ws @ [w])"
proof -
  have t: "take (Suc k) ((MWords M)[k := x]) = take k (MWords M) @ [x]"
    using assms(2) by (simp add: take_Suc_conv_app_nth)
  have o: "in_buffer (M\<lparr>Buffer := Buffer M @ w\<rparr>) k ws" by (rule in_buffer_append [OF assms(1)])
  have "existingWord (Buffer M @ w) x = w" using assms(5) by (simp add: existingWord_def x_def)
  then show ?thesis
    using o assms(2,3,5) unfolding in_buffer_def by (auto simp: t) (simp_all add: x_def)
qed

lemma emit_plain:
  assumes "length pre = q" "ident = pre @ xs @ post" "From \<le> q" "\<not> isDigit (ident ! From)"
    and "k < length (MWords M) \<Longrightarrow> q + length xs \<le> w_start (MWords M ! k)"
  shows "fold (emit_char ident From) [q..<q + length xs] (M, k) = (M\<lparr>Buffer := Buffer M @ xs\<rparr>, k)"
  using assms
proof (induction xs arbitrary: pre q M)
  case (Cons c xs)
  have "ident ! q = c" using Cons.prems(1,2) nth_between [of 0 "[c]" pre "xs @ post"] by simp
  then have "emit_char ident From q (M, k) = (M\<lparr>Buffer := Buffer M @ [c]\<rparr>, k)"
    using Cons.prems(4,5) by (auto simp: emit_char_def)
  moreover have "[q..<q + length (c # xs)] = q # [Suc q..<Suc q + length xs]"
    using upt_conv_Cons [of q "q + length (c # xs)"] by simp
  ultimately show ?case
    using Cons.IH [of "pre @ [c]" "Suc q" "M\<lparr>Buffer := Buffer M @ [c]\<rparr>"] Cons.prems by simp
qed simp

lemma emit_word:
  assumes "length pre = q" "ident = pre @ w @ post" "From \<le> q" "\<not> isDigit (ident ! From)" "w \<noteq> []"
    and "k < length (MWords M)" "w_start (MWords M ! k) = q"
    and "Suc k < length (MWords M) \<Longrightarrow> q + length w \<le> w_start (MWords M ! Suc k)"
  shows "fold (emit_char ident From) [q..<q + length w] (M, k) =
    (M\<lparr>MWords := (MWords M)[k := (MWords M ! k)\<lparr>w_start := length (Buffer M)\<rparr>], Buffer := Buffer M @ w\<rparr>, Suc k)"
proof -
  let ?M = "M\<lparr>MWords := (MWords M)[k := (MWords M ! k)\<lparr>w_start := length (Buffer M)\<rparr>]\<rparr>"
  have "w_start (MWords ?M ! Suc k) \<noteq> q" if "Suc k < length (MWords ?M)"
    using that assms(5,8) by (cases w) auto
  then have "emit_char ident From q (M, k) = emit_char ident From q (?M, Suc k)"
    using assms(6,7) by (auto simp: emit_char_def)
  moreover have "[q..<q + length w] = q # [Suc q..<q + length w]" using assms(5) by (simp add: upt_conv_Cons)
  moreover have "fold (emit_char ident From) [q..<q + length w] (?M, Suc k) = (?M\<lparr>Buffer := Buffer ?M @ w\<rparr>, Suc k)"
    by (rule emit_plain [OF assms(1-4)]) (use assms(8) in simp)
  ultimately show ?thesis by simp
qed

lemma words_at_from: "x \<in> set (words_at p a) \<Longrightarrow> p \<le> w_start x"
  by (induction p a rule: words_at.induct) (fastforce split: if_splits)+

lemma next_start:
  assumes "drop k xs = take n (words_at p a @ rest)" "k < length xs" "\<forall>x \<in> set rest. p \<le> w_start x"
  shows "p \<le> w_start (xs ! k)"
proof -
  have "xs ! k \<in> set (take n (words_at p a @ rest))"
    using assms(1,2) by (metis Cons_nth_drop_Suc list.set_intros(1))
  then have "xs ! k \<in> set (words_at p a @ rest)" by (rule in_set_takeD)
  then show ?thesis using assms(3) words_at_from by auto
qed

lemma emit_segs:
  assumes "length pre = q" "ident = pre @ segs_text a @ post" "From \<le> q" "\<not> isDigit (ident ! From)" "ok_segs a"
    and "in_buffer M k ws" "drop k (MWords M) = take (MangledWords - k) (words_at q a @ rest)"
    and "\<And>x. x \<in> set rest \<Longrightarrow> q + length (segs_text a) \<le> w_start x"
  shows "\<exists>M' k'. fold (emit_char ident From) [q..<q + length (segs_text a)] (M, k) = (M', k')
    \<and> Buffer M' = Buffer M @ segs_text a \<and> SubstWordsInIdent M' = SubstWordsInIdent M \<and> UsePunycode M' = UsePunycode M
    \<and> in_buffer M' k' (extend ws (long_words a)) \<and> drop k' (MWords M') = take (MangledWords - k') rest"
  using assms
proof (induction a arbitrary: pre q M k ws)
  case Nil
  then show ?case by (auto dest: in_buffer_length)
next
  case (Cons s a)
  let ?w = "seg_text s"
  have split: "[q..<q + length (segs_text (s # a))] = [q..<q + length ?w] @ [q + length ?w..<q + length ?w + length (segs_text a)]"
    using upt_add_eq_append [of q "q + length ?w" "length (segs_text a)"] by (simp add: add.assoc)
  have ok: "ok_segs a" using Cons.prems(5) by (cases s) simp_all
  have i: "ident = (pre @ ?w) @ segs_text a @ post" "length (pre @ ?w) = q + length ?w" "From \<le> q + length ?w"
    using Cons.prems(1-3) by simp_all
  note IH = Cons.IH [OF i(2,1,3) Cons.prems(4) ok]
  have ident: "ident = pre @ ?w @ (segs_text a @ post)" using Cons.prems(2) by simp
  show ?case
  proof (cases "\<exists>w. s = W w \<and> 2 \<le> length w \<and> k < MangledWords")
    case False
    let ?M = "M\<lparr>Buffer := Buffer M @ ?w\<rparr>"
    have rest: "drop k (MWords M) = take (MangledWords - k) (words_at (q + length ?w) a @ rest)"
      using False Cons.prems(6,7) by (cases s) (auto simp: in_buffer_def)
    have "fold (emit_char ident From) [q..<q + length ?w] (M, k) = (?M, k)"
    proof (rule emit_plain [OF Cons.prems(1) ident Cons.prems(3,4)])
      assume "k < length (MWords M)"
      from next_start [OF rest this] show "q + length ?w \<le> w_start (MWords M ! k)"
        using Cons.prems(8) by fastforce
    qed
    moreover have "extend ws (long_words (s # a)) = extend ws (long_words a)"
      using False Cons.prems(6) by (cases s) (auto simp: dest: in_buffer_length)
    ultimately show ?thesis
      using IH [of ?M k ws] in_buffer_append [OF Cons.prems(6)] rest Cons.prems(8) split by (simp add: add.assoc)
  next
    case True
    then obtain w where w: "s = W w" "2 \<le> length w" "k < MangledWords" by blast
    have d: "drop k (MWords M) = \<lparr>w_start = q, w_length = length w\<rparr>
        # take (MangledWords - Suc k) (words_at (q + length w) a @ rest)"
    proof -
      have "MangledWords - k = Suc (MangledWords - Suc k)" using w(3) by simp
      with Cons.prems(7) w(1,2) show ?thesis by (simp only:) simp
    qed
    then have k: "k < length (MWords M)" "MWords M ! k = \<lparr>w_start = q, w_length = length w\<rparr>"
      "drop (Suc k) (MWords M) = take (MangledWords - Suc k) (words_at (q + length w) a @ rest)"
      by (metis drop_eq_Nil list.distinct(1) not_le, metis nth_via_drop, metis drop_Suc drop_tl list.sel(3))
    let ?M = "M\<lparr>MWords := (MWords M)[k := (MWords M ! k)\<lparr>w_start := length (Buffer M)\<rparr>], Buffer := Buffer M @ w\<rparr>"
    have "fold (emit_char ident From) [q..<q + length w] (M, k) = (?M, Suc k)"
    proof (rule emit_word [OF Cons.prems(1) _ Cons.prems(3,4)])
      show "ident = pre @ w @ (segs_text a @ post)" using ident w(1) by simp
      assume "Suc k < length (MWords M)"
      from next_start [OF k(3) this] show "q + length w \<le> w_start (MWords M ! Suc k)"
        using Cons.prems(8) w(1) by fastforce
    qed (use w k in auto)
    moreover have "in_buffer ?M (Suc k) (ws @ [w])" by (rule in_buffer_new [OF Cons.prems(6) k(1) w(3)]) (simp add: k(2))
    moreover have "extend ws (long_words (s # a)) = extend (ws @ [w]) (long_words a)"
    proof -
      have "MangledWords - length ws = Suc (MangledWords - Suc (length ws))"
        using w(3) in_buffer_length [OF Cons.prems(6)] by simp
      then show ?thesis using w(1,2) by (simp only:) simp
    qed
    ultimately show ?thesis
      using IH [of ?M "Suc k" "ws @ [w]"] k(3) Cons.prems(8) split w(1) by (simp add: add.assoc)
  qed
qed

lemma emit_part:
  assumes "length pre = q" "ident = pre @ segs_text a @ post" "good_part a" "ok_segs a"
    and "in_buffer M k ws" "drop k (MWords M) = take (MangledWords - k) (words_at q a @ rest)"
    and "\<And>x. x \<in> set rest \<Longrightarrow> q + length (segs_text a) \<le> w_start x"
  shows "\<exists>M' k'. emit_substring ident q (q + length (segs_text a)) (M, k) = (M', k')
    \<and> Buffer M' = Buffer M @ written a \<and> SubstWordsInIdent M' = SubstWordsInIdent M \<and> UsePunycode M' = UsePunycode M
    \<and> in_buffer M' k' (extend ws (long_words a)) \<and> drop k' (MWords M') = take (MangledWords - k') rest"
proof (cases "a = []")
  case True
  then show ?thesis using assms(5,6) by (auto simp: emit_substring_def written_def dest: in_buffer_length)
next
  case False
  let ?M = "M\<lparr>Buffer := Buffer M @ show_nat (length (segs_text a))\<rparr>"
  have n: "segs_text a \<noteq> []" "\<not> isDigit (hd (segs_text a))" using False assms(3) by (simp_all add: good_part_def)
  then have "ident ! q = hd (segs_text a)"
    using assms(1,2) nth_between [of 0 "segs_text a" pre post] by (simp add: hd_conv_nth)
  then have d: "\<not> isDigit (ident ! q)" using n(2) by simp
  show ?thesis
    using emit_segs [OF assms(1,2) order.refl d assms(4) in_buffer_append [OF assms(5)],
      where rest = rest] assms(6,7) n(1) False
    by (simp add: emit_substring_def written_def)
qed

lemma new_words_from: "x \<in> set (new_words p rs t) \<Longrightarrow> p \<le> w_start x"
  by (induction p rs t rule: new_words.induct) (fastforce dest: words_at_from)+

lemma in_buffer_word:
  assumes "in_buffer M k ws" "i < length ws"
  shows "w_length (MWords M ! i) = length (ws ! i)"
proof -
  have k: "length ws = k" "i < length (MWords M)" using assms in_buffer_length by (auto simp: in_buffer_def)
  let ?x = "MWords M ! i"
  have "ws ! i = map (existingWord (Buffer M)) (take k (MWords M)) ! i" using assms(1) by (simp add: in_buffer_def)
  then have "ws ! i = existingWord (Buffer M) ?x" using assms(2) k by simp
  moreover have "?x \<in> set (take k (MWords M))"
    using assms(2) k by (auto simp: in_set_conv_nth intro!: exI [of _ i])
  ultimately show ?thesis using assms(1) by (auto simp: in_buffer_def existingWord_def)
qed

lemma emit_runs:
  assumes "length pre = q" "ident = pre @ runs_text rs t" "ok_runs ws rs t ws'" "good_runs rs t"
    and "in_buffer M k ws" "drop k (MWords M) = take (MangledWords - k) (new_words q rs t)"
    and "SubstWordsInIdent M = S" "drop j S = subs_at q rs @ [\<lparr>StringPos = length ident, WordIdx = -1\<rparr>]"
  shows "\<exists>M' k'. fold (emit_replacement ident) [j..<length S] (M, k, q) = (M', k', length ident)
    \<and> Buffer M' = Buffer M @ render rs t \<and> UsePunycode M' = UsePunycode M
    \<and> in_buffer M' k' ws' \<and> drop k' (MWords M') = []"
  using assms
proof (induction rs arbitrary: pre q M k ws j)
  case Nil
  have j: "j < length S" "length S = Suc j" "S ! j = \<lparr>StringPos = length ident, WordIdx = -1\<rparr>"
    using Nil.prems(8) by (metis append_Nil drop_eq_Nil list.distinct(1) not_le subs_at.simps(1),
      metis One_nat_def Suc_diff_le append_Nil diff_Suc_1 drop_eq_Nil length_drop list.distinct(1) list.size(3,4)
        nat_le_linear not_le add_0 le_add_diff_inverse plus_1_eq_Suc subs_at.simps(1) add.commute,
      metis append_Nil nth_via_drop subs_at.simps(1))
  have len: "length ident = q + length (segs_text t)" using Nil.prems(1,2) by simp
  show ?case
    using emit_part [of pre q ident t "[]" M k ws "[]"] Nil.prems j len
    by (auto simp: emit_replacement_def Let_def)
next
  case (Cons r rs)
  obtain a i w where r: "r = (a, i, w)" by (cases r) auto
  let ?p = "q + length (segs_text a)" and ?p' = "q + length (segs_text a) + length w"
  let ?ws = "extend ws (long_words a)"
  let ?dummy = "\<lparr>StringPos = length ident, WordIdx = -1\<rparr> :: WordReplacement"
  have ok: "ok_segs a" "i < length ?ws" "?ws ! i = w" "ok_runs ?ws rs t ws'" and good: "good_part a" "good_runs rs t"
    using Cons.prems(3,4) by (simp_all add: r Let_def)
  have S: "drop j S = \<lparr>StringPos = ?p, WordIdx = int i\<rparr> # subs_at ?p' rs @ [?dummy]"
    using Cons.prems(8) by (simp add: r)
  then have j: "j < length S" "S ! j = \<lparr>StringPos = ?p, WordIdx = int i\<rparr>" "drop (Suc j) S = subs_at ?p' rs @ [?dummy]"
    by (metis drop_eq_Nil list.distinct(1) not_le, metis nth_via_drop, metis drop_Suc drop_tl list.sel(3))
  have "length (subs_at n rs) = length rs" for n by (induction n rs rule: subs_at.induct) simp_all
  then have last: "Suc (Suc j) < length S \<longleftrightarrow> rs \<noteq> []"
    using arg_cong [OF j(3), of length] j(1) by (cases rs) auto
  obtain M1 k1 where e: "emit_substring ident q ?p (M, k) = (M1, k1)" "Buffer M1 = Buffer M @ written a"
    "SubstWordsInIdent M1 = S" "UsePunycode M1 = UsePunycode M" "in_buffer M1 k1 ?ws"
    "drop k1 (MWords M1) = take (MangledWords - k1) (new_words ?p' rs t)"
    using emit_part [of pre q ident a "w @ runs_text rs t" M k ws "new_words ?p' rs t"] Cons.prems ok(1) good(1)
      new_words_from [of _ ?p' rs t]
    by (fastforce simp: r)
  have wl: "w_length (MWords M1 ! i) = length w" using in_buffer_word [OF e(5) ok(2)] ok(3) by simp
  define out where "out = (if rs \<noteq> [] then [char_of (i + ord (CHR ''a''))]
      else char_of (i + ord (CHR ''A'')) # (if t = [] then ''0'' else []))"
  let ?M = "M1\<lparr>Buffer := Buffer M1 @ out\<rparr>"
  have "?p' = length ident \<longleftrightarrow> t = []" if "rs = []"
    using Cons.prems(1,2) good(2) that by (auto simp: r good_part_def)
  then have step: "emit_replacement ident j (M, k, q) = (?M, k1, ?p')"
    using j e(1,3) Cons.prems(7) last wl
    by (auto simp: emit_replacement_def Let_def out_def simp del: ord_Char)
  have "\<exists>M' k'. fold (emit_replacement ident) [Suc j..<length S] (?M, k1, ?p') = (M', k', length ident)
    \<and> Buffer M' = Buffer ?M @ render rs t \<and> UsePunycode M' = UsePunycode ?M
    \<and> in_buffer M' k' ws' \<and> drop k' (MWords M') = []"
    by (rule Cons.IH [of "pre @ segs_text a @ w"])
      (use Cons.prems(1,2) ok good e j(3) in_buffer_append [OF e(5)] in \<open>simp_all add: r\<close>)
  moreover have "[j..<length S] = j # [Suc j..<length S]" using j(1) by (simp add: upt_conv_Cons)
  moreover have "render (r # rs) t = written a @ out @ render rs t"
    by (simp add: r out_def written_def)
  ultimately show ?case using step e by auto
qed

end
