(* ===== verification/Identifier_Roundtrip.thy ===== *)
theory Identifier_Roundtrip
  imports Identifier_Reading Identifier_Writing
begin

text \<open>
  The contract between \<open>mangleIdentifier\<close> and \<open>demangleIdentifier\<close>: the mangler refers to words it has
  written before by their number, the demangler records the words of what it reads, and the two lists
  stay the same. What the one writes the other reads back, with any words in common.
\<close>

section \<open>The parts that are written\<close>

lemma segs_text_nonempty: "ok_segs a \<Longrightarrow> a \<noteq> [] \<Longrightarrow> segs_text a \<noteq> []"
  by (cases a; cases "hd a") (auto simp: is_word_def)

lemma runs_good:
  assumes "runs ws acc ss = (rs, t, ws')" "ok_segs (acc @ ss)"
    and "acc @ ss \<noteq> [] \<Longrightarrow> \<not> isDigit (hd (segs_text (acc @ ss)))" "length (segs_text (acc @ ss)) \<le> 2147483647"
  shows "good_runs rs t"
  using assms
proof (induction ws acc ss arbitrary: rs t ws' rule: runs.induct)
  case (1 ws acc)
  then show ?case using segs_text_nonempty by (auto simp: good_part_def)
next
  case (2 ws acc c r)
  then show ?case by simp
next
  case (3 ws acc w r)
  show ?case
  proof (cases "first_index w ws")
    case None
    then show ?thesis using 3 by simp
  next
    case (Some i)
    obtain rs' where r: "runs ws [] r = (rs', t, ws')" "rs = (acc, i, w) # rs'"
      using 3(3) Some by (auto split: prod.splits)
    have ok: "ok_segs acc" "ok_segs (W w # r)" using ok_segs_append 3(4) by blast+
    have "\<not> isDigit (hd (segs_text r))" if "r \<noteq> []"
      using ok(2) that by (auto simp: isWordEnd_def isDigit_def isUpperLetter_def)
    then have "good_runs rs' t" using 3(2) [OF Some r(1)] ok(2) 3(6) by simp
    moreover have "good_part acc"
      using segs_text_nonempty [OF ok(1)] 3(5,6) by (auto simp: good_part_def)
    ultimately show ?thesis by (simp add: r(2))
  qed
qed

section \<open>Both passes\<close>

text \<open>
  A mangler between two identifiers: the words, whose texts are \<open>ws\<close>, stand in the buffer.
\<close>

definition words_written :: "mangler \<Rightarrow> string list \<Rightarrow> bool" where
  "words_written M ws \<longleftrightarrow> in_buffer M (length (MWords M)) ws \<and> SubstWordsInIdent M = []"

lemma words_written_length: "words_written M ws \<Longrightarrow> length ws = length (MWords M) \<and> length ws \<le> MangledWords"
  by (auto simp: words_written_def in_buffer_def)

lemma in_buffer_more: "Buffer M' = Buffer M @ b \<Longrightarrow> MWords M' = MWords M \<Longrightarrow> in_buffer M k ws \<Longrightarrow> in_buffer M' k ws"
  using in_buffer_append [of M k ws b] by (simp add: in_buffer_def)

lemma mangleIdentifier_runs:
  assumes M: "words_written M ws" "\<not> (UsePunycode M \<and> needsPunycodeEncoding ident)"
    and ident: "ident \<noteq> []" "\<not> isDigit (hd ident)" "length ident \<le> 2147483647"
    and runs: "runs ws [] (cut None ident) = (rs, t, ws')"
  shows "\<exists>M'. mangleIdentifier ident M = Some M'
    \<and> Buffer M' = Buffer M @ (if rs = [] then written t else CHR ''0'' # render rs t)
    \<and> words_written M' ws' \<and> UsePunycode M' = UsePunycode M"
proof -
  let ?k = "length (MWords M)"
  let ?dummy = "\<lparr>StringPos = length ident, WordIdx = -1\<rparr> :: WordReplacement"
  have cut: "segs_text (cut None ident) = ident" "ok_segs (cut None ident)"
    using cut_text [of None ident] cut_ok [of None ident] by simp_all
  have k: "?k \<le> MangledWords" "length ws = ?k" using words_written_length [OF M(1)] by simp_all
  have known: "known ident ?k M = ws" using M(1) by (simp add: known_def words_written_def in_buffer_def)
  obtain M1 where s1: "scan_words ident M = M1" "SubstWordsInIdent M1 = subs_at 0 rs"
    "MWords M1 = MWords M @ take (MangledWords - ?k) (new_words 0 rs t)" "Buffer M1 = Buffer M"
    "UsePunycode M1 = UsePunycode M"
    using scan_runs [where ident = ident and k = "?k" and M = M and acc = "[]" and pre = "[]" and before = "[]"
        and ss = "cut None ident"] runs known cut k(1) M(1)
    by (auto simp: scan_words_def words_written_def)
  let ?b = "if SubstWordsInIdent M1 \<noteq> [] then ''0'' else []"
  define M2 where "M2 = M1\<lparr>Buffer := Buffer M1 @ ?b, SubstWordsInIdent := SubstWordsInIdent M1 @ [?dummy]\<rparr>"
  have rs: "SubstWordsInIdent M1 = [] \<longleftrightarrow> rs = []" using s1(2) by (cases rs) auto
  have "in_buffer M1 ?k ws" using M(1) s1(3,4) by (simp add: words_written_def in_buffer_def)
  then have s2: "in_buffer M2 ?k ws" "drop ?k (MWords M2) = take (MangledWords - ?k) (new_words 0 rs t)"
    using s1(3) in_buffer_more [of M2 M1 ?b ?k ws] by (simp_all add: M2_def)
  have ok: "ok_runs ws rs t ws'"
    using runs_ok [of ws "[]" "cut None ident" rs t ws'] runs cut(2) k by simp
  have good: "good_runs rs t"
    by (rule runs_good [OF runs]) (use ident cut in simp_all)
  have whole: "ident = [] @ runs_text rs t" using runs_text [OF runs] cut(1) by simp
  obtain M3 k3 where s3: "fold (emit_replacement ident) [0..<length (SubstWordsInIdent M2)] (M2, ?k, 0) = (M3, k3, length ident)"
    "Buffer M3 = Buffer M2 @ render rs t" "UsePunycode M3 = UsePunycode M2" "in_buffer M3 k3 ws'" "drop k3 (MWords M3) = []"
    using emit_runs [where j = 0 and S = "SubstWordsInIdent M2", OF _ whole ok good s2] by (auto simp: M2_def s1(2))
  have "mangleIdentifier ident M = Some (M3\<lparr>SubstWordsInIdent := []\<rparr>)"
    using M(2) s1(1) s3(1) by (auto simp: mangleIdentifier_def Let_def M2_def)
  moreover have "words_written (M3\<lparr>SubstWordsInIdent := []\<rparr>) ws'"
  proof -
    have "k3 = length (MWords M3)" using s3(4,5) by (simp add: in_buffer_def)
    then show ?thesis using s3(4) by (simp add: words_written_def in_buffer_def)
  qed
  moreover have "Buffer M3 = Buffer M @ (if rs = [] then written t else CHR ''0'' # render rs t)"
    using s3(2) s1(4) rs by (simp add: M2_def)
  ultimately show ?thesis using s3(3) s1(5) by (auto simp: M2_def)
qed

section \<open>Punycode\<close>

lemma read_punycoded:
  assumes u: "u = (if isDigit (hd pc) \<or> hd pc = CHR ''_'' then ''_'' else [])"
    and d: "drop (Pos s) (Text s) = ''00'' @ show_nat (length pc) @ u @ pc @ rest"
    and pc: "pc \<noteq> []" "length pc \<le> 2147483647" "decodePunycodeUTF8 pc = Some ident" "ident \<noteq> []"
  shows "run_state demangleIdentifier s =
    (Some (TextNode K_Identifier ident),
     s\<lparr>Pos := Pos s + length (''00'' @ show_nat (length pc) @ u @ pc),
       Substitutions := Substitutions s @ [TextNode K_Identifier ident]\<rparr>)"
proof -
  let ?n = "show_nat (length pc)"
  let ?s1 = "s\<lparr>Pos := Suc (Pos s)\<rparr>" and ?s2 = "s\<lparr>Pos := Suc (Suc (Pos s))\<rparr>"
  let ?s3 = "s\<lparr>Pos := Suc (Suc (Pos s)) + length ?n\<rparr>"
  let ?s4 = "s\<lparr>Pos := Suc (Suc (Pos s)) + length ?n + length u\<rparr>"
  have at: "char_at s = CHR ''0''" "Pos s < length (Text s)" using at_text [OF d] by simp_all
  have d1: "drop (Pos ?s1) (Text ?s1) = ''0'' @ ?n @ u @ pc @ rest" using past_text [of s "''0''"] d by simp
  have at1: "char_at ?s1 = CHR ''0''" using at_text [OF d1] by simp
  have d2: "drop (Pos ?s2) (Text ?s2) = ?n @ u @ pc @ rest" using past_text [OF d1] by simp
  have at2: "char_at ?s2 = hd ?n" using at_text [OF d2] by simp
  have z: "isDigit (char_at ?s2)" "char_at ?s2 \<noteq> CHR ''0''"
    using at2 hd_show_nat show_nat_no_zero pc(1) by simp_all
  have nd: "\<not> isDigit (hd (u @ pc @ rest))" using pc(1) by (auto simp: u isDigit_def)
  have num: "run_state demangleNatural ?s2 = (int (length pc), ?s3)"
    using read_number [OF d2] pc(1,2) nd by simp
  have d3: "drop (Pos ?s3) (Text ?s3) = u @ pc @ rest" using past_text [OF d2] by simp
  have at3: "char_at ?s3 = hd (u @ pc)" using at_text(2) [of ?s3 "u @ pc" rest] d3 pc(1) by simp
  then have next_u: "run_state (nextIf (CHR ''_'')) ?s3 = (u \<noteq> [], ?s4)" using pc(1) by (auto simp: u run_nextIf)
  have next_0: "run_state (nextIf (CHR ''0'')) ?s2 = (False, ?s2)" using z by (simp add: run_nextIf)
  have d4: "drop (Pos ?s4) (Text ?s4) = pc @ rest" using past_text [OF d3] by simp
  then have in4: "Pos ?s4 + length pc \<le> length (Text ?s4)"
    by (rule part_inside [OF _ pc(1)])
  have "run_state (identifier_slice True (length pc)) ?s4 = (Some ident, ?s4\<lparr>Pos := Pos ?s4 + length pc\<rparr>)"
    using in4 d4 pc(3) by (simp add: identifier_slice_def dm_run)
  then have "run_state (identifier_loop (remaining ?s2 + 1) True False []) ?s2
      = (Some ident, ?s4\<lparr>Pos := Pos ?s4 + length pc\<rparr>)"
    using num next_u next_0 pc(1) by (simp add: run_read_state no_word del: word_substitutions.simps)
  then show ?thesis
    using demangleIdentifier_run [of s] at at1 pc(4) by (simp add: with_identifier_def Let_def isDigit_def add.assoc)
qed

section \<open>The round trip\<close>

lemma identifier_reads_back:
  assumes M: "words_written M ws" "\<not> (UsePunycode M \<and> needsPunycodeEncoding ident)"
    and ident: "ident \<noteq> []" "\<not> isDigit (hd ident)" "length ident \<le> 2147483647"
  shows "\<exists>M' out ws'. mangleIdentifier ident M = Some M' \<and> Buffer M' = Buffer M @ out
    \<and> words_written M' ws' \<and> UsePunycode M' = UsePunycode M
    \<and> (\<forall>s rest. inside s \<longrightarrow> Words s = ws \<longrightarrow> drop (Pos s) (Text s) = out @ rest \<longrightarrow>
         run_state demangleIdentifier s =
           (Some (TextNode K_Identifier ident),
            s\<lparr>Words := ws', Pos := Pos s + length out,
              Substitutions := Substitutions s @ [TextNode K_Identifier ident]\<rparr>))"
proof -
  obtain rs t ws' where r: "runs ws [] (cut None ident) = (rs, t, ws')" by (cases "runs ws [] (cut None ident)") auto
  have cut: "segs_text (cut None ident) = ident" "ok_segs (cut None ident)"
    using cut_text [of None ident] cut_ok [of None ident] by simp_all
  have ws: "length ws \<le> MaxNumWords" using words_written_length [OF M(1)] by simp
  have ok: "ok_runs ws rs t ws'" using runs_ok [of ws "[]" "cut None ident"] r cut(2) ws by simp
  have good: "good_runs rs t" by (rule runs_good [OF r]) (use ident cut in simp_all)
  have whole: "runs_text rs t = ident" using runs_text [OF r] cut(1) by simp
  obtain M' where "mangleIdentifier ident M = Some M'" "words_written M' ws'" "UsePunycode M' = UsePunycode M"
    "Buffer M' = Buffer M @ (if rs = [] then written t else CHR ''0'' # render rs t)"
    using mangleIdentifier_runs [OF M ident r] by blast
  then show ?thesis
    using read_identifier [where rs = rs and t = t and ws' = ws'] ok good ws whole ident(1) by blast
qed

text \<open>
  C28: \<open>demangleIdentifier\<close> reads back what \<open>mangleIdentifier\<close> writes, whatever words of the identifier are
  substituted by words written before, when the demangler has recorded the words the mangler knows. After
  it the two know the same words again, so that this holds for one identifier after the other.
\<close>

theorem identifier_roundtrip:
  assumes "words_written M ws" "\<not> (UsePunycode M \<and> needsPunycodeEncoding ident)"
    and "ident \<noteq> []" "\<not> isDigit (hd ident)" "length ident \<le> 2147483647"
  shows "\<exists>M' out ws'. mangleIdentifier ident M = Some M' \<and> Buffer M' = Buffer M @ out
    \<and> words_written M' ws' \<and> UsePunycode M' = UsePunycode M
    \<and> (\<forall>s rest. inside s \<longrightarrow> Words s = ws \<longrightarrow> drop (Pos s) (Text s) = out @ rest \<longrightarrow>
         run_state demangleIdentifier s =
           (Some (TextNode K_Identifier ident),
            s\<lparr>Words := ws', Pos := Pos s + length out,
              Substitutions := Substitutions s @ [TextNode K_Identifier ident]\<rparr>))"
  using assms by (rule identifier_reads_back)

definition sample_mangler :: mangler where
  "sample_mangler = \<lparr>Buffer = ''s6MyItem'', MWords = [\<lparr>w_start = 2, w_length = 2\<rparr>, \<lparr>w_start = 4, w_length = 4\<rparr>],
     SubstWordsInIdent = [], UsePunycode = True\<rparr>"

theorem identifier_roundtrip_witness:
  "words_written sample_mangler [''My'', ''Item'']
   \<and> map_option Buffer (mangleIdentifier ''OurItemView'' sample_mangler) = Some ''s6MyItem03OurB4View''
   \<and> fst (run_state demangleIdentifier
       (new_demangler\<lparr>Text := ''03OurB4ViewV'', Words := [''My'', ''Item'']\<rparr>))
     = Some (TextNode K_Identifier ''OurItemView'')"
proof (intro conjI)
  show w: "words_written sample_mangler [''My'', ''Item'']"
    by (simp add: words_written_def in_buffer_def sample_mangler_def existingWord_def)
  show m: "map_option Buffer (mangleIdentifier ''OurItemView'' sample_mangler) = Some ''s6MyItem03OurB4View''"
    by code_simp
  have "\<not> needsPunycodeEncoding ''OurItemView''" by code_simp
  then obtain M' out ws' where m1: "mangleIdentifier ''OurItemView'' sample_mangler = Some M'"
    "Buffer M' = Buffer sample_mangler @ out"
    "\<forall>s rest. inside s \<longrightarrow> Words s = [''My'', ''Item''] \<longrightarrow> drop (Pos s) (Text s) = out @ rest \<longrightarrow>
       run_state demangleIdentifier s =
         (Some (TextNode K_Identifier ''OurItemView''),
          s\<lparr>Words := ws', Pos := Pos s + length out,
            Substitutions := Substitutions s @ [TextNode K_Identifier ''OurItemView'']\<rparr>)"
    using identifier_roundtrip [OF w, of "''OurItemView''"] by (auto simp: isDigit_def)
  have "out = ''03OurB4View''" using m1(1,2) m by (simp add: sample_mangler_def)
  then show "fst (run_state demangleIdentifier
       (new_demangler\<lparr>Text := ''03OurB4ViewV'', Words := [''My'', ''Item'']\<rparr>))
     = Some (TextNode K_Identifier ''OurItemView'')"
    using m1(3) [rule_format, of "new_demangler\<lparr>Text := ''03OurB4ViewV'', Words := [''My'', ''Item'']\<rparr>" "''V''"]
    by (simp add: new_demangler_def)
qed

text \<open>
  C29: an identifier in UTF-8 that is no symbol is punycoded by \<open>mangleIdentifier\<close>, and \<open>demangleIdentifier\<close>
  decodes it, without a change of the words of either.
\<close>

theorem punycoded_identifier_roundtrip:
  assumes "UsePunycode M" "needsPunycodeEncoding (utf8 cs)"
    and "list_all plain_scalar cs" "length cs \<le> max_points"
  shows "\<exists>out. mangleIdentifier (utf8 cs) M = Some (M\<lparr>Buffer := Buffer M @ out\<rparr>)
    \<and> (\<forall>s rest. drop (Pos s) (Text s) = out @ rest \<longrightarrow>
         run_state demangleIdentifier s =
           (Some (TextNode K_Identifier (utf8 cs)),
            s\<lparr>Pos := Pos s + length out,
              Substitutions := Substitutions s @ [TextNode K_Identifier (utf8 cs)]\<rparr>))"
proof -
  obtain pc where pc: "encodePunycodeUTF8 (utf8 cs) True = Some (Some pc)" "decodePunycodeUTF8 pc = Some (utf8 cs)"
    "length pc \<le> 2147483647"
    using encodePunycodeUTF8_decodes [OF assms(3,4)] by blast
  have ne: "utf8 cs \<noteq> []" using assms(2) by (auto simp: needsPunycodeEncoding_def)
  moreover have "decodePunycodeUTF8 [] = Some []" by code_simp
  ultimately have "pc \<noteq> []" using pc(2) by auto
  define u where "u = (if isDigit (hd pc) \<or> hd pc = CHR ''_'' then ''_'' else [])"
  let ?out = "''00'' @ show_nat (length pc) @ u @ pc"
  have "mangleIdentifier (utf8 cs) M = Some (M\<lparr>Buffer := Buffer M @ ?out\<rparr>)"
    using assms(1,2) pc(1) \<open>pc \<noteq> []\<close> by (simp add: mangleIdentifier_def u_def)
  moreover have "run_state demangleIdentifier s =
      (Some (TextNode K_Identifier (utf8 cs)),
       s\<lparr>Pos := Pos s + length ?out, Substitutions := Substitutions s @ [TextNode K_Identifier (utf8 cs)]\<rparr>)"
    if "drop (Pos s) (Text s) = ?out @ rest" for s rest
    using read_punycoded [OF u_def _ \<open>pc \<noteq> []\<close> pc(3,2) ne, of s rest] that by simp
  ultimately show ?thesis by blast
qed

theorem punycoded_identifier_roundtrip_witness:
  "\<exists>out. mangleIdentifier (utf8 [0x63, 0x61, 0x66, 0xE9]) sample_mangler
      = Some (sample_mangler\<lparr>Buffer := ''s6MyItem'' @ out\<rparr>)
    \<and> fst (run_state demangleIdentifier (new_demangler\<lparr>Text := out\<rparr>))
      = Some (TextNode K_Identifier (utf8 [0x63, 0x61, 0x66, 0xE9]))"
proof -
  let ?cs = "[0x63, 0x61, 0x66, 0xE9]"
  have "needsPunycodeEncoding (utf8 ?cs)" by code_simp
  moreover have "UsePunycode sample_mangler" "Buffer sample_mangler = ''s6MyItem''" by (simp_all add: sample_mangler_def)
  moreover have "list_all plain_scalar ?cs" by (simp add: plain_scalar_def isValidUnicodeScalar_def)
  ultimately obtain out where "mangleIdentifier (utf8 ?cs) sample_mangler
      = Some (sample_mangler\<lparr>Buffer := ''s6MyItem'' @ out\<rparr>)"
    "\<forall>s rest. drop (Pos s) (Text s) = out @ rest \<longrightarrow>
       run_state demangleIdentifier s =
         (Some (TextNode K_Identifier (utf8 ?cs)),
          s\<lparr>Pos := Pos s + length out, Substitutions := Substitutions s @ [TextNode K_Identifier (utf8 ?cs)]\<rparr>)"
    using punycoded_identifier_roundtrip [of sample_mangler ?cs] by auto
  moreover from this(2) [rule_format, of "new_demangler\<lparr>Text := out\<rparr>" "[]"]
  have "fst (run_state demangleIdentifier (new_demangler\<lparr>Text := out\<rparr>)) = Some (TextNode K_Identifier (utf8 ?cs))"
    by (simp add: new_demangler_def)
  ultimately show ?thesis by blast
qed

end
