(* ===== verification/Printer_Monad.thy ===== *)
theory Printer_Monad
  imports Demangler_Monad
begin

text \<open>
  The state of the class \<open>NodePrinter\<close> (\<open>lib/Demangling/NodePrinter.cpp\<close>) with its options
  (\<open>DemangleOptions\<close> in \<open>include/swift/Demangling/Demangle.h\<close>), and what it writes to its stream. The
  fields \<open>Broken\<close> and \<open>Dry\<close> are not the code's: the first becomes true where the code follows a null pointer, reads
  the text or the index of a node without one, or aborts; from then on the state says nothing about the
  code. The second would become true where the recursion of the model ran out of fuel (\<open>Printer_Facts\<close>).
\<close>

section \<open>Options\<close>

record DemangleOptions =
  SynthesizeSugarOnTypes :: bool
  QualifyEntities :: bool
  DisplayExtensionContexts :: bool
  DisplayUnmangledSuffix :: bool
  DisplayModuleNames :: bool
  DisplayGenericSpecializations :: bool
  DisplayProtocolConformances :: bool
  DisplayWhereClauses :: bool
  DisplayEntityTypes :: bool
  DisplayLocalNameContexts :: bool
  ShortenPartialApply :: bool
  ShortenThunk :: bool
  ShortenValueWitness :: bool
  ShortenArchetype :: bool
  ShowPrivateDiscriminators :: bool
  ShowFunctionArgumentTypes :: bool
  DisplayDebuggerGeneratedModule :: bool
  DisplayStdlibModule :: bool
  DisplayObjCModule :: bool
  PrintForTypeName :: bool
  ShowAsyncResumePartial :: bool
  HidingCurrentModule :: string
  GenericParameterName :: "nat \<Rightarrow> nat \<Rightarrow> string"

fun parameter_letters :: "nat \<Rightarrow> string" where
  "parameter_letters index =
     char_of (ord (CHR ''A'') + index mod 26) # (if index div 26 = 0 then [] else parameter_letters (index div 26))"

declare parameter_letters.simps [simp del]

definition genericParameterName :: "nat \<Rightarrow> nat \<Rightarrow> string" where
  "genericParameterName depth index =
     parameter_letters index @ (if depth \<noteq> 0 then show_nat depth else [])"

definition default_options :: DemangleOptions where
  "default_options = \<lparr>SynthesizeSugarOnTypes = False, QualifyEntities = True, DisplayExtensionContexts = True,
     DisplayUnmangledSuffix = True, DisplayModuleNames = True, DisplayGenericSpecializations = True,
     DisplayProtocolConformances = True, DisplayWhereClauses = True, DisplayEntityTypes = True,
     DisplayLocalNameContexts = True, ShortenPartialApply = False, ShortenThunk = False,
     ShortenValueWitness = False, ShortenArchetype = False, ShowPrivateDiscriminators = True,
     ShowFunctionArgumentTypes = True, DisplayDebuggerGeneratedModule = True, DisplayStdlibModule = True,
     DisplayObjCModule = True, PrintForTypeName = False, ShowAsyncResumePartial = True,
     HidingCurrentModule = [], GenericParameterName = genericParameterName\<rparr>"

definition SimplifiedUIDemangleOptions :: DemangleOptions where
  "SimplifiedUIDemangleOptions = default_options\<lparr>SynthesizeSugarOnTypes := True, QualifyEntities := True,
     DisplayExtensionContexts := False, DisplayUnmangledSuffix := False, DisplayModuleNames := False,
     DisplayGenericSpecializations := False, DisplayProtocolConformances := False,
     DisplayWhereClauses := False, DisplayEntityTypes := False, ShortenPartialApply := True,
     ShortenThunk := True, ShortenValueWitness := True, ShortenArchetype := True,
     ShowPrivateDiscriminators := False, ShowFunctionArgumentTypes := False\<rparr>"

section \<open>The printer\<close>

record printer =
  Stream :: string
  SpecializationPrefixPrinted :: bool
  isValid :: bool
  Broken :: bool
  Dry :: bool

type_synonym 'a pr = "(printer, 'a) state"

definition new_printer :: printer where
  "new_printer = \<lparr>Stream = [], SpecializationPrefixPrinted = False, isValid = True, Broken = False, Dry = False\<rparr>"

definition reading :: "(printer \<Rightarrow> 'a) \<Rightarrow> 'a pr" where
  "reading f = State (\<lambda>s. (f s, s))"

definition emit :: "string \<Rightarrow> unit pr" where
  "emit str = State (\<lambda>s. ((), s\<lparr>Stream := Stream s @ str\<rparr>))"

definition setInvalid :: "unit pr" where
  "setInvalid = State (\<lambda>s. ((), s\<lparr>isValid := False\<rparr>))"

definition set_prefix_printed :: "unit pr" where
  "set_prefix_printed = State (\<lambda>s. ((), s\<lparr>SpecializationPrefixPrinted := True\<rparr>))"

definition broken :: "'a \<Rightarrow> 'a pr" where
  "broken x = State (\<lambda>s. (x, s\<lparr>Broken := True\<rparr>))"

definition out_of_fuel :: "'a \<Rightarrow> 'a pr" where
  "out_of_fuel x = State (\<lambda>s. (x, s\<lparr>Dry := True\<rparr>))"

definition need :: "'a \<Rightarrow> 'a option \<Rightarrow> 'a pr" where
  "need dflt x = (case x of Some y \<Rightarrow> State_Monad.return y | None \<Rightarrow> broken dflt)"

text \<open>Following a pointer, and reading the text or the index of a node.\<close>

definition deref :: "node option \<Rightarrow> node pr" where
  "deref = need (Node K_EmptyList [])"

fun node_text :: "node \<Rightarrow> string option" where
  "node_text (TextNode k t) = Some t"
| "node_text n = None"

fun node_index :: "node \<Rightarrow> u64 option" where
  "node_index (IndexNode k i) = Some i"
| "node_index n = None"

definition getText :: "node \<Rightarrow> string pr" where
  "getText n = need [] (node_text n)"

definition getIndex :: "node \<Rightarrow> u64 pr" where
  "getIndex n = need 0 (node_index n)"

definition emit_text :: "node \<Rightarrow> unit pr" where
  "emit_text n = do { t \<leftarrow> getText n; emit t }"

definition show_u64 :: "u64 \<Rightarrow> string" where
  "show_u64 n = show_nat (unat n)"

definition emit_index :: "node \<Rightarrow> unit pr" where
  "emit_index n = do { i \<leftarrow> getIndex n; emit (show_u64 i) }"

definition hex_char :: "nat \<Rightarrow> char" where
  "hex_char d = (if d < 10 then char_of (ord (CHR ''0'') + d) else char_of (ord (CHR ''A'') + (d - 10)))"

fun show_hex :: "nat \<Rightarrow> string" where
  "show_hex n = (if n < 16 then [hex_char n] else show_hex (n div 16) @ [hex_char (n mod 16)])"

declare show_hex.simps [simp del]

definition writeHex :: "u64 \<Rightarrow> unit pr" where
  "writeHex n = emit (show_hex (unat n))"

section \<open>Quoted strings\<close>

definition quoted_char :: "char \<Rightarrow> string" where
  "quoted_char C =
     (if C = CHR 0x5C then [CHR 0x5C, CHR 0x5C]
      else if C = CHR 0x09 then [CHR 0x5C, CHR ''t'']
      else if C = CHR 0x0A then [CHR 0x5C, CHR ''n'']
      else if C = CHR 0x0D then [CHR 0x5C, CHR ''r'']
      else if C = CHR 0x22 then [CHR 0x5C, CHR 0x22]
      else if C = CHR 0x00 then [CHR 0x5C, CHR ''0'']
      else if ord C < 0x20 \<or> 0x7F \<le> ord C
      then [CHR 0x5C, CHR ''x'', hex_char (ord C div 16), hex_char (ord C mod 16)]
      else [C])"

definition QuotedString :: "string \<Rightarrow> string" where
  "QuotedString Value = CHR 0x22 # concat (map quoted_char Value) @ [CHR 0x22]"

end
