(* ===== verification/Old_Demangler.thy ===== *)
theory Old_Demangler
  imports Demangler_Thunks Printer_Monad
begin

text \<open>
  The demangler of the mangling before Swift 4 (\<open>lib/Demangling/OldDemangler.cpp\<close>), which the names of Swift
  classes in Objective-C metadata still use: the class \<open>NameSource\<close> and the leaves of the grammar of
  \<open>OldDemangler\<close>. Names that the demangler of the new mangling has too get the suffix \<open>_old\<close>.

  The state is what is left of the text and the substitutions. Two fields are not the code's:
  \<open>OldStuck\<close> becomes true where the code fails an assertion, and \<open>OldDry\<close> where a loop or the recursion of
  the model has used up its fuel, which never happens (\<open>Old_Progress\<close>). A loop takes at least one character
  in each round and has one round more than there are characters.
\<close>

section \<open>The state\<close>

record old =
  Mangled :: string
  OldSubstitutions :: "node list"
  OldStuck :: bool
  OldDry :: bool

type_synonym 'a om = "(old, 'a) state"

abbreviation give :: "'a \<Rightarrow> 'a om" where
  "give \<equiv> State_Monad.return"

abbreviation ok :: "'a \<Rightarrow> 'a option om" where
  "ok x \<equiv> give (Some x)"

abbreviation fails :: "'a option om" where
  "fails \<equiv> give None"

text \<open>A step of a production: where it fails the production does.\<close>

definition on :: "'a option om \<Rightarrow> ('a \<Rightarrow> 'b option om) \<Rightarrow> 'b option om" where
  "on m f = do { x \<leftarrow> m; case x of None \<Rightarrow> fails | Some y \<Rightarrow> f y }"

definition look :: "(old \<Rightarrow> 'a) \<Rightarrow> 'a om" where
  "look f = State (\<lambda>s. (f s, s))"

definition stuck_old :: "'a \<Rightarrow> 'a om" where
  "stuck_old x = State (\<lambda>s. (x, s\<lparr>OldStuck := True\<rparr>))"

definition dry :: "'a \<Rightarrow> 'a om" where
  "dry x = State (\<lambda>s. (x, s\<lparr>OldDry := True\<rparr>))"

definition add_substitution :: "node \<Rightarrow> unit om" where
  "add_substitution n = State (\<lambda>s. ((), s\<lparr>OldSubstitutions := OldSubstitutions s @ [n]\<rparr>))"

definition clear_substitutions :: "unit om" where
  "clear_substitutions = State (\<lambda>s. ((), s\<lparr>OldSubstitutions := []\<rparr>))"

text \<open>The class \<open>NameSource\<close>.\<close>

definition isEmpty :: "bool om" where
  "isEmpty = look (\<lambda>s. Mangled s = [])"

definition peek :: "char om" where
  "peek = look (\<lambda>s. case Mangled s of [] \<Rightarrow> CHR ''.'' | c # _ \<Rightarrow> c)"

definition next_old :: "char om" where
  "next_old = State (\<lambda>s. case Mangled s of [] \<Rightarrow> (CHR ''.'', s) | c # cs \<Rightarrow> (c, s\<lparr>Mangled := cs\<rparr>))"

definition advanceOffset :: "nat \<Rightarrow> unit om" where
  "advanceOffset n = State (\<lambda>s. ((), s\<lparr>Mangled := drop n (Mangled s)\<rparr>))"

definition nextIf_old :: "string \<Rightarrow> bool om" where
  "nextIf_old str = State (\<lambda>s.
     if startswith (Mangled s) str then (True, s\<lparr>Mangled := drop (length str) (Mangled s)\<rparr>) else (False, s))"

definition slice :: "nat \<Rightarrow> string om" where
  "slice n = look (\<lambda>s. take n (Mangled s))"

definition getString :: "string om" where
  "getString = State (\<lambda>s. (Mangled s, s\<lparr>Mangled := []\<rparr>))"

definition readUntil :: "char \<Rightarrow> string option om" where
  "readUntil c = State (\<lambda>s.
     (if c \<in> set (Mangled s) then Some (takeWhile (\<lambda>d. d \<noteq> c) (Mangled s)) else None,
      s\<lparr>Mangled := dropWhile (\<lambda>d. d \<noteq> c) (Mangled s)\<rparr>))"

definition fuel :: "nat om" where
  "fuel = look (\<lambda>s. length (Mangled s) + 1)"

text \<open>A chain of \<open>nextIf\<close>: what the first of the strings that follows stands for.\<close>

fun take_from :: "(string \<times> 'a) list \<Rightarrow> 'a option om" where
  "take_from [] = fails"
| "take_from ((str, x) # alternatives) = do {
     b \<leftarrow> nextIf_old str;
     if b then ok x else take_from alternatives
   }"

text \<open>The loops \<open>while (!Mangled.nextIf(c))\<close> that collect what \<open>item\<close> reads, and productions one after another.\<close>

fun until_loop :: "nat \<Rightarrow> string \<Rightarrow> node option om \<Rightarrow> node list \<Rightarrow> node list option om" where
  "until_loop 0 close item acc = dry None"
| "until_loop (Suc n) close item acc = do {
     b \<leftarrow> nextIf_old close;
     if b then ok acc else on item (\<lambda>x. until_loop n close item (acc @ [x]))
   }"

definition until_close :: "string \<Rightarrow> node option om \<Rightarrow> node list option om" where
  "until_close close item = do { n \<leftarrow> fuel; until_loop n close item [] }"

fun all_of :: "node option om list \<Rightarrow> node list option om" where
  "all_of [] = ok []"
| "all_of (m # ms) = on m (\<lambda>x. on (all_of ms) (\<lambda>xs. ok (x # xs)))"

definition build :: "Kind \<Rightarrow> node option om list \<Rightarrow> node option om" where
  "build kind ms = on (all_of ms) (\<lambda>children. ok (Node kind children))"

section \<open>Characters\<close>

definition isStartOfIdentifier :: "char \<Rightarrow> bool" where
  "isStartOfIdentifier c \<longleftrightarrow> isDigit c \<or> c = CHR ''o''"

definition isStartOfNominalType :: "char \<Rightarrow> bool" where
  "isStartOfNominalType c \<longleftrightarrow> c \<in> set ''CVO''"

definition isStartOfEntity :: "char \<Rightarrow> bool" where
  "isStartOfEntity c \<longleftrightarrow> c \<in> set ''FIvPsZ'' \<or> isStartOfNominalType c"

definition nominalTypeMarkerToNodeKind :: "char \<Rightarrow> Kind" where
  "nominalTypeMarkerToNodeKind c =
     (if c = CHR ''C'' then K_Class
      else if c = CHR ''V'' then K_Structure
      else if c = CHR ''O'' then K_Enum
      else K_Identifier)"

section \<open>Numbers\<close>

definition demangleDirectness :: "Directness option om" where
  "demangleDirectness = take_from [(''d'', Direct), (''i'', Indirect)]"

fun natural_loop_old :: "nat \<Rightarrow> u64 \<Rightarrow> u64 option om" where
  "natural_loop_old 0 num = dry None"
| "natural_loop_old (Suc n) num = do {
     e \<leftarrow> isEmpty;
     if e then ok num
     else do {
       c \<leftarrow> peek;
       if \<not> isDigit c then ok num
       else do { next_old; natural_loop_old n (10 * num + word_of_nat (digit_val c)) }
     }
   }"

definition demangleNatural_old :: "u64 option om" where
  "demangleNatural_old = do {
     e \<leftarrow> isEmpty;
     if e then fails
     else do {
       c \<leftarrow> next_old;
       if \<not> isDigit c then fails
       else do { n \<leftarrow> fuel; natural_loop_old n (word_of_nat (digit_val c)) }
     }
   }"

definition demangleBuiltinSize_old :: "u64 option om" where
  "demangleBuiltinSize_old = on demangleNatural_old (\<lambda>num. do {
     u \<leftarrow> nextIf_old ''_'';
     if u then ok num else fails
   })"

definition demangleIndex_old :: "u64 option om" where
  "demangleIndex_old = do {
     u \<leftarrow> nextIf_old ''_'';
     if u then ok 0
     else on demangleNatural_old (\<lambda>natural. do {
       u \<leftarrow> nextIf_old ''_'';
       if u then ok (natural + 1) else fails
     })
   }"

definition demangleIndexAsNode_old :: "node option om" where
  "demangleIndexAsNode_old = on demangleIndex_old (\<lambda>index. ok (IndexNode K_Number index))"

definition demangleValueWitnessKind :: "u64 option om" where
  "demangleValueWitnessKind = do {
     e \<leftarrow> isEmpty;
     if e then fails
     else do {
       c0 \<leftarrow> next_old;
       e \<leftarrow> isEmpty;
       if e then fails
       else do {
         c1 \<leftarrow> next_old;
         let k = decodeValueWitnessKind [c0, c1];
         if k < 0 then fails else ok (word_of_int k)
       }
     }
   }"

section \<open>Identifiers\<close>

text \<open>The fixity after \<open>o\<close>: the kind of the node.\<close>

definition operator_kind :: "char \<Rightarrow> Kind option" where
  "operator_kind c =
     (if c = CHR ''p'' then Some K_PrefixOperator
      else if c = CHR ''P'' then Some K_PostfixOperator
      else if c = CHR ''i'' then Some K_InfixOperator
      else None)"

definition demangleIdentifier_old :: "Kind option \<Rightarrow> node option om" where
  "demangleIdentifier_old kind = do {
     e \<leftarrow> isEmpty;
     if e then fails
     else do {
       isPunycoded \<leftarrow> nextIf_old ''X'';
       isOperator \<leftarrow> nextIf_old ''o'';
       on (if \<not> isOperator then ok (case kind of None \<Rightarrow> K_Identifier | Some k \<Rightarrow> k)
           else if kind \<noteq> None then fails
           else do { op_mode \<leftarrow> next_old; give (operator_kind op_mode) }) (\<lambda>kind.
       on demangleNatural_old (\<lambda>len. do {
         enough \<leftarrow> look (\<lambda>s. unat len \<le> length (Mangled s));
         if \<not> enough then fails
         else do {
           identifier \<leftarrow> slice (unat len);
           advanceOffset (unat len);
           let identifier = (if isPunycoded then case decodePunycodeUTF8 identifier of None \<Rightarrow> [] | Some d \<Rightarrow> d
                             else identifier);
           if identifier = [] then fails
           else if isOperator then
             (case those (map operator_char identifier) of
                None \<Rightarrow> fails
              | Some op \<Rightarrow> ok (TextNode kind op))
           else ok (TextNode kind identifier)
         }
       }))
     }
   }"

definition demangleDeclName_old :: "node option om" where
  "demangleDeclName_old = do {
     l \<leftarrow> nextIf_old ''L'';
     if l then
       on demangleIndexAsNode_old (\<lambda>discriminator.
       on (demangleIdentifier_old None) (\<lambda>name.
       ok (Node K_LocalDeclName [discriminator, name])))
     else do {
       p \<leftarrow> nextIf_old ''P'';
       if p then
         on (demangleIdentifier_old None) (\<lambda>discriminator.
         on (demangleIdentifier_old None) (\<lambda>name.
         ok (Node K_PrivateDeclName [discriminator, name])))
       else demangleIdentifier_old None
     }
   }"

section \<open>Substitutions and modules\<close>

definition createSwiftType_old :: "Kind \<Rightarrow> string \<Rightarrow> node" where
  "createSwiftType_old typeKind name =
     Node typeKind [TextNode K_Module STDLIB_NAME, TextNode K_Identifier name]"

definition old_substitutions :: "(char \<times> node) list" where
  "old_substitutions =
     [(CHR ''o'', TextNode K_Module MANGLING_MODULE_OBJC),
      (CHR ''C'', TextNode K_Module MANGLING_MODULE_CLANG_IMPORTER),
      (CHR ''a'', createSwiftType_old K_Structure ''Array''),
      (CHR ''b'', createSwiftType_old K_Structure ''Bool''),
      (CHR ''c'', createSwiftType_old K_Structure ''UnicodeScalar''),
      (CHR ''d'', createSwiftType_old K_Structure ''Double''),
      (CHR ''f'', createSwiftType_old K_Structure ''Float''),
      (CHR ''i'', createSwiftType_old K_Structure ''Int''),
      (CHR ''V'', createSwiftType_old K_Structure ''UnsafeRawPointer''),
      (CHR ''v'', createSwiftType_old K_Structure ''UnsafeMutableRawPointer''),
      (CHR ''P'', createSwiftType_old K_Structure ''UnsafePointer''),
      (CHR ''p'', createSwiftType_old K_Structure ''UnsafeMutablePointer''),
      (CHR ''q'', createSwiftType_old K_Enum ''Optional''),
      (CHR ''Q'', createSwiftType_old K_Enum ''ImplicitlyUnwrappedOptional''),
      (CHR ''R'', createSwiftType_old K_Structure ''UnsafeBufferPointer''),
      (CHR ''r'', createSwiftType_old K_Structure ''UnsafeMutableBufferPointer''),
      (CHR ''S'', createSwiftType_old K_Structure ''String''),
      (CHR ''u'', createSwiftType_old K_Structure ''UInt'')]"

definition demangleSubstitutionIndex :: "node option om" where
  "demangleSubstitutionIndex = do {
     e \<leftarrow> isEmpty;
     if e then fails
     else do {
       c \<leftarrow> peek;
       case map_of old_substitutions c of
         Some n \<Rightarrow> do { next_old; ok n }
       | None \<Rightarrow> on demangleIndex_old (\<lambda>index_sub. do {
           subs \<leftarrow> look OldSubstitutions;
           if unat index_sub \<ge> length subs then fails else ok (subs ! unat index_sub)
         })
     }
   }"

definition demangleModule_old :: "node option om" where
  "demangleModule_old = do {
     s \<leftarrow> nextIf_old ''s'';
     if s then ok (TextNode K_Module STDLIB_NAME)
     else do {
       S \<leftarrow> nextIf_old ''S'';
       if S then
         on demangleSubstitutionIndex (\<lambda>module.
         if getKind module \<noteq> K_Module then fails else ok module)
       else
         on (demangleIdentifier_old (Some K_Module)) (\<lambda>module. do { add_substitution module; ok module })
     }
   }"

section \<open>Generic parameters\<close>

text \<open>The parameters of the function are \<open>unsigned\<close>, the low 32 bits of what is read.\<close>

definition getDependentGenericParamType_old :: "u64 \<Rightarrow> u64 \<Rightarrow> node" where
  "getDependentGenericParamType_old depth index =
     Node K_DependentGenericParamType [IndexNode K_Index (depth AND 0xFFFFFFFF), IndexNode K_Index (index AND 0xFFFFFFFF)]"

definition demangleGenericParamIndex_old :: "node option om" where
  "demangleGenericParamIndex_old = do {
     d \<leftarrow> nextIf_old ''d'';
     if d then
       on demangleIndex_old (\<lambda>paramDepth.
       on demangleIndex_old (\<lambda>index.
       ok (getDependentGenericParamType_old (paramDepth + 1) index)))
     else do {
       x \<leftarrow> nextIf_old ''x'';
       if x then ok (getDependentGenericParamType_old 0 0)
       else on demangleIndex_old (\<lambda>index. ok (getDependentGenericParamType_old 0 (index + 1)))
     }
   }"

definition demangleMetatypeRepresentation_old :: "node option om" where
  "demangleMetatypeRepresentation_old =
     on (take_from [(''t'', ''@thin''), (''T'', ''@thick''), (''o'', ''@objc_metatype'')])
       (\<lambda>t. ok (TextNode K_MetatypeRepresentation t))"

section \<open>Conventions\<close>

datatype ImplConventionContext = Callee | Parameter | Result

definition convention_table :: "(string \<times> string \<times> string \<times> string) list" where
  "convention_table =
     [(''a'', [], [], ''@autoreleased''),
      (''d'', ''@callee_unowned'', ''@unowned'', ''@unowned''),
      (''D'', [], [], ''@unowned_inner_pointer''),
      (''g'', ''@callee_guaranteed'', ''@guaranteed'', []),
      (''e'', [], ''@deallocating'', []),
      (''i'', [], ''@in'', ''@out''),
      (''l'', [], ''@inout'', []),
      (''o'', ''@callee_owned'', ''@owned'', ''@owned'')]"

text \<open>The empty string, where there is no convention, is an error for every caller.\<close>

definition demangleImplConvention_old :: "ImplConventionContext \<Rightarrow> string option om" where
  "demangleImplConvention_old ctxt =
     on (take_from convention_table) (\<lambda>(callee, parameter, result).
     let convention = (case ctxt of Callee \<Rightarrow> callee | Parameter \<Rightarrow> parameter | Result \<Rightarrow> result) in
     if convention = [] then fails else ok convention)"

definition demangleImplCalleeConvention :: "node option om" where
  "demangleImplCalleeConvention = do {
     t \<leftarrow> nextIf_old ''t'';
     on (if t then ok ''@convention(thin)'' else demangleImplConvention_old Callee)
       (\<lambda>attr. ok (TextNode K_ImplConvention attr))
   }"

definition old_impl_conventions :: "(string \<times> string) list" where
  "old_impl_conventions =
     [(''b'', ''block''), (''c'', ''c''), (''m'', ''method''), (''O'', ''objc_method''), (''w'', ''witness_method'')]"

text \<open>What follows \<open>C\<close> in a lowered function type.\<close>

definition demangleImplFunctionConvention_old :: "node option om" where
  "demangleImplFunctionConvention_old =
     on (take_from old_impl_conventions)
       (\<lambda>attr. ok (Node K_ImplFunctionConvention [TextNode K_ImplFunctionConventionName attr]))"

section \<open>Builtin types\<close>

definition builtin_names :: "(char \<times> string) list" where
  "builtin_names =
     [(CHR ''b'', ''Builtin.BridgeObject''), (CHR ''B'', ''Builtin.UnsafeValueBuffer''),
      (CHR ''O'', ''Builtin.UnknownObject''), (CHR ''o'', ''Builtin.NativeObject''),
      (CHR ''p'', ''Builtin.RawPointer''), (CHR ''t'', ''Builtin.SILToken''), (CHR ''w'', ''Builtin.Word'')]"

definition demangleBuiltinType_old :: "node option om" where
  "demangleBuiltinType_old = do {
     e \<leftarrow> isEmpty;
     if e then fails
     else do {
       c \<leftarrow> next_old;
       let builtin = (\<lambda>t. ok (TextNode K_BuiltinTypeName t));
       if c = CHR ''f'' then
         on demangleBuiltinSize_old (\<lambda>size. builtin (''Builtin.FPIEEE'' @ show_u64 size))
       else if c = CHR ''i'' then
         on demangleBuiltinSize_old (\<lambda>size. builtin (''Builtin.Int'' @ show_u64 size))
       else if c = CHR ''v'' then
         on demangleNatural_old (\<lambda>elts. do {
           B \<leftarrow> nextIf_old ''B'';
           if \<not> B then fails
           else do {
             i \<leftarrow> nextIf_old ''i'';
             if i then on demangleBuiltinSize_old (\<lambda>size.
               builtin (''Builtin.Vec'' @ show_u64 elts @ ''xInt'' @ show_u64 size))
             else do {
               f \<leftarrow> nextIf_old ''f'';
               if f then on demangleBuiltinSize_old (\<lambda>size.
                 builtin (''Builtin.Vec'' @ show_u64 elts @ ''xFPIEEE'' @ show_u64 size))
               else do {
                 p \<leftarrow> nextIf_old ''p'';
                 if p then builtin (''Builtin.Vec'' @ show_u64 elts @ ''xRawPointer'') else fails
               }
             }
           }
         })
       else (case map_of builtin_names c of Some t \<Rightarrow> builtin t | None \<Rightarrow> fails)
     }
   }"

end
