(* ===== verification/Old_Demangler_Types.thy ===== *)
theory Old_Demangler_Types
  imports Old_Demangler
begin

text \<open>
  The recursive part of \<open>OldDemangler\<close>: contexts, nominal types, generic signatures, types and entities.
  Four methods call each other and themselves; the others are written with the parameter \<open>rec\<close>, which
  answers for the four, and \<open>Old_Demangler_Top\<close> ties the knot. \<open>depth\<close> is the parameter the code checks
  against \<open>OldMaxDepth\<close> in some of the methods only.
\<close>

section \<open>Recursion\<close>

datatype request = Ask_TypeImpl | Ask_Context | Ask_Entity | Ask_Archetype

type_synonym recursion_old = "request \<Rightarrow> nat \<Rightarrow> node option om"

definition OldMaxDepth :: nat where
  "OldMaxDepth = 1024"

definition demangleType_old :: "recursion_old \<Rightarrow> nat \<Rightarrow> node option om" where
  "demangleType_old rec depth = build K_Type [rec Ask_TypeImpl depth]"

section \<open>Declarations\<close>

definition demangleDeclarationName :: "recursion_old \<Rightarrow> Kind \<Rightarrow> nat \<Rightarrow> node option om" where
  "demangleDeclarationName rec kind depth =
     on (build kind [rec Ask_Context (depth + 1), demangleDeclName_old])
       (\<lambda>decl. do { add_substitution decl; ok decl })"

definition demangleProtocolNameGivenContext :: "node \<Rightarrow> node option om" where
  "demangleProtocolNameGivenContext context_node =
     on (build K_Protocol [ok context_node, demangleDeclName_old])
       (\<lambda>proto. do { add_substitution proto; ok proto })"

definition demangleProtocolNameImpl :: "recursion_old \<Rightarrow> nat \<Rightarrow> node option om" where
  "demangleProtocolNameImpl rec depth =
     (if depth > OldMaxDepth then fails
      else do {
        S \<leftarrow> nextIf_old ''S'';
        if S then
          on demangleSubstitutionIndex (\<lambda>sub.
          if getKind sub = K_Protocol then ok sub
          else if getKind sub \<noteq> K_Module then fails
          else demangleProtocolNameGivenContext sub)
        else do {
          s \<leftarrow> nextIf_old ''s'';
          if s then demangleProtocolNameGivenContext (TextNode K_Module STDLIB_NAME)
          else demangleDeclarationName rec K_Protocol (depth + 1)
        }
      })"

definition demangleProtocolName :: "recursion_old \<Rightarrow> nat \<Rightarrow> node option om" where
  "demangleProtocolName rec depth = build K_Type [demangleProtocolNameImpl rec depth]"

definition nominal_kinds :: "(string \<times> Kind) list" where
  "nominal_kinds = [(''V'', K_Structure), (''O'', K_Enum), (''C'', K_Class), (''P'', K_Protocol)]"

definition demangleNominalType :: "recursion_old \<Rightarrow> nat \<Rightarrow> node option om" where
  "demangleNominalType rec depth = do {
     S \<leftarrow> nextIf_old ''S'';
     if S then demangleSubstitutionIndex
     else on (take_from nominal_kinds) (\<lambda>kind. demangleDeclarationName rec kind (depth + 1))
   }"

section \<open>Bound generic types\<close>

text \<open>What one level of nesting does with the list of its own arguments.\<close>

definition demangleBoundGenericLevel :: "recursion_old \<Rightarrow> nat \<Rightarrow> node \<Rightarrow> node option om" where
  "demangleBoundGenericLevel rec depth nominalType =
     on (until_close ''_''
           (on (demangleType_old rec (depth + 1)) (\<lambda>type. do { e \<leftarrow> isEmpty; if e then fails else ok type })))
       (\<lambda>args.
     if args = [] then ok nominalType
     else
       (let bound = (\<lambda>kind. ok (Node kind [Node K_Type [nominalType], Node K_TypeList args])) in
        if getKind nominalType = K_Class then bound K_BoundGenericClass
        else if getKind nominalType = K_Structure then bound K_BoundGenericStructure
        else if getKind nominalType = K_Enum then bound K_BoundGenericEnum
        else fails))"

text \<open>
  The arguments of the outermost type come first. The type is rebuilt from its kind, the bound parent and
  its second child, which the code does not check to exist.
\<close>

fun demangleBoundGenericArgs :: "recursion_old \<Rightarrow> node \<Rightarrow> nat \<Rightarrow> node option om" where
  "demangleBoundGenericArgs rec (Node kind (parentOrModule # others)) depth =
     on (if getKind parentOrModule \<noteq> K_Module \<and> getKind parentOrModule \<noteq> K_Function
            \<and> getKind parentOrModule \<noteq> K_Extension
         then on (demangleBoundGenericArgs rec parentOrModule (depth + 1)) (\<lambda>parent.
              case others of [] \<Rightarrow> stuck_old None | name # _ \<Rightarrow> ok (Node kind [parent, name]))
         else ok (Node kind (parentOrModule # others)))
       (demangleBoundGenericLevel rec depth)"
| "demangleBoundGenericArgs rec _ depth = fails"

definition demangleBoundGenericType :: "recursion_old \<Rightarrow> nat \<Rightarrow> node option om" where
  "demangleBoundGenericType rec depth =
     on (demangleNominalType rec (depth + 1)) (\<lambda>nominalType. demangleBoundGenericArgs rec nominalType (depth + 1))"

section \<open>Dependent types\<close>

definition demangleDependentMemberTypeName :: "recursion_old \<Rightarrow> node \<Rightarrow> nat \<Rightarrow> node option om" where
  "demangleDependentMemberTypeName rec owner depth = do {
     S \<leftarrow> nextIf_old ''S'';
     on (if S then
           on demangleSubstitutionIndex (\<lambda>assocTy.
           if getKind assocTy \<noteq> K_DependentAssociatedTypeRef then fails else ok assocTy)
         else do {
           P \<leftarrow> nextIf_old ''P'';
           on (if P then on (demangleProtocolName rec (depth + 1)) (\<lambda>protocol. ok [protocol]) else ok [])
             (\<lambda>protocol.
           on (demangleIdentifier_old None) (\<lambda>ID.
           let assocTy = Node K_DependentAssociatedTypeRef (ID # protocol) in
           do { add_substitution assocTy; ok assocTy }))
         })
       (\<lambda>assocTy. ok (Node K_DependentMemberType [owner, assocTy]))
   }"

definition demangleAssociatedTypeSimple :: "recursion_old \<Rightarrow> nat \<Rightarrow> node option om" where
  "demangleAssociatedTypeSimple rec depth =
     on demangleGenericParamIndex_old (\<lambda>owner.
     demangleDependentMemberTypeName rec (Node K_Type [owner]) (depth + 1))"

fun member_chain :: "nat \<Rightarrow> recursion_old \<Rightarrow> node \<Rightarrow> nat \<Rightarrow> node option om" where
  "member_chain 0 rec owner depth = dry None"
| "member_chain (Suc n) rec owner depth = do {
     u \<leftarrow> nextIf_old ''_'';
     if u then ok owner
     else on (demangleDependentMemberTypeName rec (Node K_Type [owner]) (depth + 1))
            (\<lambda>owner. member_chain n rec owner depth)
   }"

definition demangleAssociatedTypeCompound :: "recursion_old \<Rightarrow> nat \<Rightarrow> node option om" where
  "demangleAssociatedTypeCompound rec depth =
     on demangleGenericParamIndex_old (\<lambda>owner. do {
       n \<leftarrow> fuel;
       member_chain n rec owner depth
     })"

definition demangleDependentType :: "recursion_old \<Rightarrow> nat \<Rightarrow> node option om" where
  "demangleDependentType rec depth = do {
     e \<leftarrow> isEmpty;
     if e then fails
     else do {
       c \<leftarrow> peek;
       if c \<noteq> CHR ''d'' \<and> c \<noteq> CHR ''_'' \<and> \<not> isDigit c then
         on (demangleType_old rec (depth + 1)) (\<lambda>baseType. demangleDependentMemberTypeName rec baseType (depth + 1))
       else demangleGenericParamIndex_old
     }
   }"

definition demangleConstrainedType :: "recursion_old \<Rightarrow> nat \<Rightarrow> node option om" where
  "demangleConstrainedType rec depth = do {
     w \<leftarrow> nextIf_old ''w'';
     build K_Type
       [if w then demangleAssociatedTypeSimple rec (depth + 1)
        else do {
          W \<leftarrow> nextIf_old ''W'';
          if W then demangleAssociatedTypeCompound rec (depth + 1) else demangleGenericParamIndex_old
        }]
   }"

section \<open>Generic signatures\<close>

text \<open>The layouts after \<open>l\<close>: whether a size and an alignment follow.\<close>

definition layouts :: "(string \<times> bool \<times> bool) list" where
  "layouts =
     [(''U'', False, False), (''R'', False, False), (''N'', False, False), (''T'', False, False),
      (''E'', True, True), (''e'', True, False), (''M'', True, True), (''m'', True, False)]"

definition SIZE_MAX_old :: u64 where
  "SIZE_MAX_old = 0xFFFFFFFFFFFFFFFF"

text \<open>A number that happens to be \<open>SIZE_MAX\<close> counts as none.\<close>

definition layout_numbers :: "u64 \<Rightarrow> u64 \<Rightarrow> node list" where
  "layout_numbers count alignment =
     (if count = SIZE_MAX_old then []
      else IndexNode K_Number count # (if alignment = SIZE_MAX_old then [] else [IndexNode K_Number alignment]))"

definition demangleLayout :: "node \<Rightarrow> node option om" where
  "demangleLayout constrainedType =
     on (take_from (map (\<lambda>(name, p). (name, (name, p))) layouts)) (\<lambda>(name, has_size, has_alignment).
     on (if has_size then demangleNatural_old else ok SIZE_MAX_old) (\<lambda>count.
     on (if has_alignment then do { u \<leftarrow> nextIf_old ''_''; if u then demangleNatural_old else fails }
         else ok SIZE_MAX_old) (\<lambda>alignment.
     ok (Node K_DependentGenericLayoutRequirement
           ([constrainedType, TextNode K_Identifier name] @ layout_numbers count alignment)))))"

definition demangleConstraint :: "recursion_old \<Rightarrow> nat \<Rightarrow> node option om" where
  "demangleConstraint rec depth = do {
     e \<leftarrow> isEmpty;
     if e then fails
     else do {
       c \<leftarrow> peek;
       if c = CHR ''C'' then demangleType_old rec (depth + 1)
       else if c = CHR ''S'' then do {
         next_old;
         build K_Type
           [on demangleSubstitutionIndex (\<lambda>sub.
            if getKind sub = K_Protocol \<or> getKind sub = K_Class then ok sub
            else if getKind sub = K_Module then demangleProtocolNameGivenContext sub
            else fails)]
       }
       else demangleProtocolName rec (depth + 1)
     }
   }"

definition demangleGenericRequirement_old :: "recursion_old \<Rightarrow> nat \<Rightarrow> node option om" where
  "demangleGenericRequirement_old rec depth =
     on (demangleConstrainedType rec (depth + 1)) (\<lambda>constrainedType. do {
       z \<leftarrow> nextIf_old ''z'';
       if z then
         build K_DependentGenericSameTypeRequirement [ok constrainedType, demangleType_old rec (depth + 1)]
       else do {
         l \<leftarrow> nextIf_old ''l'';
         if l then demangleLayout constrainedType
         else build K_DependentGenericConformanceRequirement [ok constrainedType, demangleConstraint rec depth]
       }
     })"

text \<open>
  The parameter counts. The code knows that it has read none by the value \<open>~0\<close>, which a count can have too:
  the last component is the last count.
\<close>

fun param_counts :: "nat \<Rightarrow> node list \<Rightarrow> u64 \<Rightarrow> (node list \<times> u64) option om" where
  "param_counts 0 acc count = dry None"
| "param_counts (Suc n) acc count = do {
     c \<leftarrow> peek;
     if c = CHR ''R'' \<or> c = CHR ''r'' then ok (acc, count)
     else do {
       z \<leftarrow> nextIf_old ''z'';
       on (if z then ok 0 else on demangleIndex_old (\<lambda>count. ok (count + 1)))
         (\<lambda>count. param_counts n (acc @ [IndexNode K_DependentGenericParamCount count]) count)
     }
   }"

definition demangleGenericSignature_old :: "recursion_old \<Rightarrow> nat \<Rightarrow> bool \<Rightarrow> node option om" where
  "demangleGenericSignature_old rec depth isPseudogeneric = do {
     n \<leftarrow> fuel;
     on (param_counts n [] SIZE_MAX_old) (\<lambda>(counts, count).
       let counts = (if count = SIZE_MAX_old then counts @ [IndexNode K_DependentGenericParamCount 1] else counts);
           kind = (if isPseudogeneric then K_DependentPseudogenericSignature else K_DependentGenericSignature) in do {
       r \<leftarrow> nextIf_old ''r'';
       if r then ok (Node kind counts)
       else do {
         R \<leftarrow> nextIf_old ''R'';
         if \<not> R then fails
         else on (until_close ''r'' (demangleGenericRequirement_old rec (depth + 1)))
                (\<lambda>requirements. ok (Node kind (counts @ requirements)))
       }
     })
   }"

section \<open>Contexts\<close>

definition demangleContext :: "recursion_old \<Rightarrow> nat \<Rightarrow> node option om" where
  "demangleContext rec depth = do {
     e \<leftarrow> isEmpty;
     if e then fails
     else do {
       E \<leftarrow> nextIf_old ''E'';
       if E then build K_Extension [demangleModule_old, rec Ask_Context (depth + 1)]
       else do {
         e \<leftarrow> nextIf_old ''e'';
         if e then
           on demangleModule_old (\<lambda>def_module.
           on (demangleGenericSignature_old rec (depth + 1) False) (\<lambda>sig.
           on (rec Ask_Context (depth + 1)) (\<lambda>type.
           ok (Node K_Extension [def_module, type, sig]))))
         else do {
           S \<leftarrow> nextIf_old ''S'';
           if S then demangleSubstitutionIndex
           else do {
             s \<leftarrow> nextIf_old ''s'';
             if s then ok (TextNode K_Module STDLIB_NAME)
             else do {
               G \<leftarrow> nextIf_old ''G'';
               if G then demangleBoundGenericType rec (depth + 1)
               else do {
                 c \<leftarrow> peek;
                 if isStartOfEntity c then rec Ask_Entity (depth + 1) else demangleModule_old
               }
             }
           }
         }
       }
     }
   }"

definition demangleProtocolList_old :: "recursion_old \<Rightarrow> nat \<Rightarrow> node option om" where
  "demangleProtocolList_old rec depth =
     on (until_close ''_'' (demangleProtocolName rec (depth + 1)))
       (\<lambda>protocols. ok (Node K_ProtocolList [Node K_TypeList protocols]))"

definition demangleProtocolConformance_old :: "recursion_old \<Rightarrow> nat \<Rightarrow> node option om" where
  "demangleProtocolConformance_old rec depth =
     build K_ProtocolConformance
       [demangleType_old rec (depth + 1), demangleProtocolName rec (depth + 1), rec Ask_Context (depth + 1)]"

section \<open>Entities\<close>

definition entity_kinds :: "(string \<times> Kind) list" where
  "entity_kinds = [(''F'', K_Function), (''v'', K_Variable), (''I'', K_Initializer), (''i'', K_Subscript)]"

text \<open>What the letter of an entity name says: the kind, and how the rest of the entity is read.\<close>

datatype entity_form = Untyped | Typed | Accessor | Addressor | Closure

definition entity_names :: "(string \<times> Kind \<times> entity_form) list" where
  "entity_names =
     [(''D'', K_Deallocator, Untyped), (''d'', K_Destructor, Untyped), (''e'', K_IVarInitializer, Untyped),
      (''E'', K_IVarDestroyer, Untyped), (''C'', K_Allocator, Typed), (''c'', K_Constructor, Typed),
      (''a'', K_UnsafeMutableAddressor, Addressor), (''l'', K_UnsafeAddressor, Addressor),
      (''g'', K_Getter, Accessor), (''G'', K_GlobalGetter, Accessor), (''s'', K_Setter, Accessor),
      (''m'', K_MaterializeForSet, Accessor), (''w'', K_WillSet, Accessor), (''W'', K_DidSet, Accessor),
      (''r'', K_ReadAccessor, Accessor), (''M'', K_ModifyAccessor, Accessor),
      (''U'', K_ExplicitClosure, Closure), (''u'', K_ImplicitClosure, Closure)]"

definition addressor_kinds :: "Kind \<Rightarrow> (string \<times> Kind) list" where
  "addressor_kinds kind =
     (if kind = K_UnsafeMutableAddressor then
        [(''O'', K_OwningMutableAddressor), (''o'', K_NativeOwningMutableAddressor),
         (''p'', K_NativePinningMutableAddressor), (''u'', K_UnsafeMutableAddressor)]
      else
        [(''O'', K_OwningAddressor), (''o'', K_NativeOwningAddressor),
         (''p'', K_NativePinningAddressor), (''u'', K_UnsafeAddressor)])"

text \<open>The local variables \<open>entityKind\<close>, \<open>hasType\<close>, \<open>wrapEntity\<close> and \<open>name\<close> of \<open>demangleEntity\<close>.\<close>

record entity_name =
  entityKind :: Kind
  hasType :: bool
  wrapEntity :: bool
  name_of :: "node option"

definition named_entity :: "Kind \<Rightarrow> bool \<Rightarrow> bool \<Rightarrow> node option om \<Rightarrow> entity_name option om" where
  "named_entity kind typed wrap m =
     on m (\<lambda>n. ok \<lparr>entityKind = kind, hasType = typed, wrapEntity = wrap, name_of = Some n\<rparr>)"

definition unnamed_entity :: "Kind \<Rightarrow> bool \<Rightarrow> entity_name option om" where
  "unnamed_entity kind typed = ok \<lparr>entityKind = kind, hasType = typed, wrapEntity = False, name_of = None\<rparr>"

definition demangleEntityName :: "Kind \<Rightarrow> entity_name option om" where
  "demangleEntityName entityBasicKind = do {
     form \<leftarrow> take_from entity_names;
     case form of
       Some (kind, f) \<Rightarrow>
         (case f of
            Untyped \<Rightarrow> unnamed_entity kind False
          | Typed \<Rightarrow> unnamed_entity kind True
          | Accessor \<Rightarrow> named_entity kind True True demangleDeclName_old
          | Addressor \<Rightarrow> on (take_from (addressor_kinds kind)) (\<lambda>kind. named_entity kind True True demangleDeclName_old)
          | Closure \<Rightarrow> named_entity kind True False demangleIndexAsNode_old)
     | None \<Rightarrow>
         if entityBasicKind = K_Initializer then do {
           A \<leftarrow> nextIf_old ''A'';
           if A then named_entity K_DefaultArgumentInitializer False False demangleIndexAsNode_old
           else do {
             i \<leftarrow> nextIf_old ''i'';
             if i then unnamed_entity K_Initializer False else fails
           }
         }
         else named_entity entityBasicKind True False demangleDeclName_old
   }"

text \<open>
  An accessor of something called \<open>subscript\<close> becomes the accessor of a subscript without a name; what is left
  of a private name is its discriminator.
\<close>

definition subscript_text :: "node \<Rightarrow> bool" where
  "subscript_text n = (case n of TextNode _ t \<Rightarrow> t = ''subscript'' | _ \<Rightarrow> False)"

definition subscript_name :: "node \<Rightarrow> (node option) option" where
  "subscript_name name =
     (if getKind name = K_Identifier then (if subscript_text name then Some None else None)
      else if getKind name = K_PrivateDeclName then
        (case getChildren name of
           discriminator # n # _ \<Rightarrow>
             if subscript_text n then Some (Some (Node K_PrivateDeclName [discriminator])) else None
         | _ \<Rightarrow> None)
      else None)"

definition wrapped_entity :: "node \<Rightarrow> node \<Rightarrow> node list \<Rightarrow> node" where
  "wrapped_entity context_node name types =
     (case subscript_name name of
        None \<Rightarrow> Node K_Variable ([context_node, name] @ types)
      | Some None \<Rightarrow> Node K_Subscript (context_node # types)
      | Some (Some name) \<Rightarrow> Node K_Subscript (context_node # types @ [name]))"

definition entity_children :: "node \<Rightarrow> entity_name \<Rightarrow> node list \<Rightarrow> node list" where
  "entity_children context_node e types =
     (case name_of e of
        None \<Rightarrow> context_node # types
      | Some name \<Rightarrow>
          if wrapEntity e then [wrapped_entity context_node name types] else [context_node, name] @ types)"

definition demangleEntity_old :: "recursion_old \<Rightarrow> nat \<Rightarrow> node option om" where
  "demangleEntity_old rec depth =
     (if depth > OldMaxDepth then fails
      else do {
        isStatic \<leftarrow> nextIf_old ''Z'';
        basic \<leftarrow> take_from entity_kinds;
        case basic of
          None \<Rightarrow> demangleNominalType rec (depth + 1)
        | Some entityBasicKind \<Rightarrow>
            on (rec Ask_Context (depth + 1)) (\<lambda>context_node.
            on (demangleEntityName entityBasicKind) (\<lambda>e.
            on (if hasType e then all_of [demangleType_old rec (depth + 1)] else ok []) (\<lambda>types.
            let entity = Node (entityKind e) (entity_children context_node e types) in
            ok (if isStatic then Node K_Static [entity] else entity))))
      })"

section \<open>Archetypes and tuples\<close>

definition makeAssociatedType :: "node \<Rightarrow> node option om" where
  "makeAssociatedType root =
     on (build K_AssociatedTypeRef [ok root, demangleIdentifier_old None])
       (\<lambda>assocType. do { add_substitution assocType; ok assocType })"

definition demangleArchetypeType :: "recursion_old \<Rightarrow> nat \<Rightarrow> node option om" where
  "demangleArchetypeType rec depth = do {
     Q \<leftarrow> nextIf_old ''Q'';
     if Q then on (rec Ask_Archetype (depth + 1)) makeAssociatedType
     else do {
       S \<leftarrow> nextIf_old ''S'';
       if S then on demangleSubstitutionIndex makeAssociatedType
       else do {
         s \<leftarrow> nextIf_old ''s'';
         if s then makeAssociatedType (TextNode K_Module STDLIB_NAME) else fails
       }
     }
   }"

definition demangleTupleElement :: "recursion_old \<Rightarrow> nat \<Rightarrow> node option om" where
  "demangleTupleElement rec depth = do {
     e \<leftarrow> isEmpty;
     if e then fails
     else do {
       c \<leftarrow> peek;
       build K_TupleElement
         ((if isStartOfIdentifier c then [demangleIdentifier_old (Some K_TupleElementName)] else [])
          @ [demangleType_old rec (depth + 1)])
     }
   }"

text \<open>The marker of a variadic tuple becomes the first child of its last element.\<close>

definition mark_variadic :: "node list \<Rightarrow> node list" where
  "mark_variadic elts =
     (case rev elts of
        [] \<Rightarrow> []
      | elt # earlier \<Rightarrow> rev earlier @ [Node (getKind elt) (Node K_VariadicMarker [] # getChildren elt)])"

definition demangleTuple :: "bool \<Rightarrow> recursion_old \<Rightarrow> nat \<Rightarrow> node option om" where
  "demangleTuple isV rec depth =
     on (until_close ''_'' (demangleTupleElement rec depth))
       (\<lambda>elts. ok (Node K_Tuple (if isV then mark_variadic elts else elts)))"

end
