(* ===== verification/Old_Demangler_Top.thy ===== *)
theory Old_Demangler_Top
  imports Old_Demangler_Types
begin

text \<open>
  Types, function types, specializations and global symbols of the mangling before Swift 4, and
  \<open>demangleOldSymbolAsNode\<close>. \<open>old_rec\<close> ties the knot of the methods that call each other: each call takes a
  character or goes from a context to an entity, and so twice as many rounds as there are characters, and
  a few more, are enough (\<open>Old_Progress\<close>).
\<close>

section \<open>Function types\<close>

text \<open>
  The letter after \<open>D\<close>: a letter that is not one of the enumeration leaves the function not differentiable,
  and the character 0, which is its first member, fails an assertion.
\<close>

definition demangleDifferentiability_old :: "char list om" where
  "demangleDifferentiability_old = do {
     D \<leftarrow> nextIf_old ''D'';
     if \<not> D then give []
     else do {
       kind \<leftarrow> next_old;
       if kind \<in> set ''frdl'' then give [kind]
       else if ord kind = 0 then stuck_old []
       else give []
     }
   }"

definition if_flag :: "bool \<Rightarrow> Kind \<Rightarrow> node list" where
  "if_flag b kind = (if b then [Node kind []] else [])"

definition demangleFunctionType :: "recursion_old \<Rightarrow> Kind \<Rightarrow> nat \<Rightarrow> node option om" where
  "demangleFunctionType rec kind depth = do {
     throws \<leftarrow> nextIf_old ''z'';
     concurrent \<leftarrow> nextIf_old ''y'';
     async \<leftarrow> nextIf_old ''Z'';
     diffKind \<leftarrow> demangleDifferentiability_old;
     Y \<leftarrow> nextIf_old ''Y'';
     on (if Y then all_of [build K_GlobalActorFunctionType [demangleType_old rec (depth + 1)]] else ok [])
       (\<lambda>globalActor.
     on (build K_ArgumentTuple [demangleType_old rec (depth + 1)]) (\<lambda>in_node.
     on (build K_ReturnType [demangleType_old rec (depth + 1)]) (\<lambda>out_node.
     ok (Node kind
           (if_flag throws K_ThrowsAnnotation @ if_flag async K_AsyncAnnotation
            @ if_flag concurrent K_ConcurrentFunctionType
            @ map (\<lambda>c. IndexNode K_DifferentiableFunctionType (word_of_nat (ord c))) diffKind
            @ globalActor @ [in_node, out_node])))))
   }"

text \<open>A parameter or a result of a lowered function type.\<close>

definition demangleImplParameterOrResult :: "recursion_old \<Rightarrow> Kind \<Rightarrow> nat \<Rightarrow> node option om" where
  "demangleImplParameterOrResult rec kind depth = do {
     z \<leftarrow> nextIf_old ''z'';
     if z \<and> kind \<noteq> K_ImplResult then fails
     else
       on (demangleImplConvention_old (if kind = K_ImplParameter then Parameter else Result)) (\<lambda>convention.
       build (if z then K_ImplErrorResult else kind)
         [ok (TextNode K_ImplConvention convention), demangleType_old rec (depth + 1)])
   }"

definition demangleImplAttribute_old :: "string \<Rightarrow> string \<Rightarrow> node list om" where
  "demangleImplAttribute_old letter attr = do {
     b \<leftarrow> nextIf_old letter;
     give (if b then [TextNode K_ImplFunctionAttribute attr] else [])
   }"

definition demangleImplFunctionType_old :: "recursion_old \<Rightarrow> nat \<Rightarrow> node option om" where
  "demangleImplFunctionType_old rec depth =
     on demangleImplCalleeConvention (\<lambda>callee. do {
       C \<leftarrow> nextIf_old ''C'';
       on (if C then all_of [demangleImplFunctionConvention_old] else ok []) (\<lambda>convention. do {
       sendable \<leftarrow> demangleImplAttribute_old ''h'' ''@Sendable'';
       async \<leftarrow> demangleImplAttribute_old ''H'' ''@async'';
       signature \<leftarrow> take_from [(''G'', False), (''g'', True)];
       on (case signature of
             None \<Rightarrow> ok []
           | Some isPseudogeneric \<Rightarrow> all_of [demangleGenericSignature_old rec (depth + 1) isPseudogeneric])
         (\<lambda>generics. do {
       u \<leftarrow> nextIf_old ''_'';
       if \<not> u then fails
       else
         on (until_close ''_'' (demangleImplParameterOrResult rec K_ImplParameter (depth + 2))) (\<lambda>parameters.
         on (until_close ''_'' (demangleImplParameterOrResult rec K_ImplResult (depth + 2))) (\<lambda>results.
         ok (Node K_ImplFunctionType
               ([callee] @ convention @ sendable @ async @ generics @ parameters @ results))))
       }) }) })"

section \<open>Types\<close>

definition demangleBoxField :: "recursion_old \<Rightarrow> nat \<Rightarrow> node option om" where
  "demangleBoxField rec depth =
     on (take_from [(''m'', K_SILBoxMutableField), (''i'', K_SILBoxImmutableField)])
       (\<lambda>kind. build kind [demangleType_old rec (depth + 1)])"

definition demangleBoxLayout :: "recursion_old \<Rightarrow> nat \<Rightarrow> node option om" where
  "demangleBoxLayout rec depth = do {
     G \<leftarrow> nextIf_old ''G'';
     on (if G then all_of [demangleGenericSignature_old rec depth False] else ok []) (\<lambda>signature.
     on (until_close ''_'' (demangleBoxField rec depth)) (\<lambda>fields.
     on (if G then on (until_close ''_'' (demangleType_old rec (depth + 1))) (\<lambda>types. ok [Node K_TypeList types])
         else ok []) (\<lambda>genericArgs.
     ok (Node K_SILBoxTypeWithLayout ([Node K_SILBoxLayout fields] @ signature @ genericArgs)))))
   }"

definition demangleMetatype_old :: "recursion_old \<Rightarrow> Kind \<Rightarrow> nat \<Rightarrow> node option om" where
  "demangleMetatype_old rec kind depth =
     build kind [demangleMetatypeRepresentation_old, demangleType_old rec (depth + 1)]"

text \<open>What follows \<open>X\<close>.\<close>

definition demangleTypeX :: "recursion_old \<Rightarrow> nat \<Rightarrow> node option om" where
  "demangleTypeX rec depth = do {
     letter \<leftarrow> take_from (map (\<lambda>c. ([c], c)) ''bBMPfouwF'');
     case letter of
       None \<Rightarrow> fails
     | Some c \<Rightarrow>
         if c = CHR ''b'' then build K_SILBoxType [demangleType_old rec (depth + 1)]
         else if c = CHR ''B'' then demangleBoxLayout rec depth
         else if c = CHR ''M'' then demangleMetatype_old rec K_Metatype depth
         else if c = CHR ''P'' then do {
           M \<leftarrow> nextIf_old ''M'';
           if M then demangleMetatype_old rec K_ExistentialMetatype depth
           else demangleProtocolList_old rec (depth + 1)
         }
         else if c = CHR ''f'' then demangleFunctionType rec K_ThinFunctionType (depth + 1)
         else if c = CHR ''o'' then build K_Unowned [demangleType_old rec (depth + 1)]
         else if c = CHR ''u'' then build K_Unmanaged [demangleType_old rec (depth + 1)]
         else if c = CHR ''w'' then build K_Weak [demangleType_old rec (depth + 1)]
         else demangleImplFunctionType_old rec (depth + 1)
   }"

definition function_letters :: "(char \<times> Kind) list" where
  "function_letters =
     [(CHR ''b'', K_ObjCBlock), (CHR ''c'', K_CFunctionPointer), (CHR ''F'', K_FunctionType),
      (CHR ''f'', K_UncurriedFunctionType), (CHR ''K'', K_AutoClosureType)]"

definition demangleTypeLetter :: "recursion_old \<Rightarrow> nat \<Rightarrow> char \<Rightarrow> node option om" where
  "demangleTypeLetter rec depth c =
     (if c = CHR ''B'' then demangleBuiltinType_old
      else if c = CHR ''a'' then demangleDeclarationName rec K_TypeAlias (depth + 1)
      else case map_of function_letters c of
        Some kind \<Rightarrow> demangleFunctionType rec kind (depth + 1)
      | None \<Rightarrow>
      if c = CHR ''D'' then build K_DynamicSelf [demangleType_old rec (depth + 1)]
      else if c = CHR ''E'' then do {
        R \<leftarrow> nextIf_old ''R'';
        if \<not> R then fails
        else do {
          R \<leftarrow> nextIf_old ''R'';
          if \<not> R then fails else ok (TextNode K_ErrorType [])
        }
      }
      else if c = CHR ''G'' then demangleBoundGenericType rec (depth + 1)
      else if c = CHR ''M'' then build K_Metatype [demangleType_old rec (depth + 1)]
      else if c = CHR ''P'' then do {
        M \<leftarrow> nextIf_old ''M'';
        if M then build K_ExistentialMetatype [demangleType_old rec (depth + 1)]
        else demangleProtocolList_old rec (depth + 1)
      }
      else if c = CHR ''Q'' then do {
        u \<leftarrow> nextIf_old ''u'';
        if u then ok (Node K_OpaqueReturnType []) else rec Ask_Archetype (depth + 1)
      }
      else if c = CHR ''q'' then demangleDependentType rec (depth + 1)
      else if c = CHR ''x'' then ok (getDependentGenericParamType_old 0 0)
      else if c = CHR ''w'' then demangleAssociatedTypeSimple rec (depth + 1)
      else if c = CHR ''W'' then demangleAssociatedTypeCompound rec (depth + 1)
      else if c = CHR ''R'' then build K_InOut [rec Ask_TypeImpl (depth + 1)]
      else if c = CHR ''k'' then build K_NoDerivative [rec Ask_TypeImpl (depth + 1)]
      else if c = CHR ''S'' then demangleSubstitutionIndex
      else if c = CHR ''T'' then demangleTuple False rec (depth + 1)
      else if c = CHR ''t'' then demangleTuple True rec (depth + 1)
      else if c = CHR ''u'' then
        build K_DependentGenericType
          [demangleGenericSignature_old rec (depth + 1) False, demangleType_old rec (depth + 1)]
      else if c = CHR ''X'' then demangleTypeX rec depth
      else if isStartOfNominalType c then
        demangleDeclarationName rec (nominalTypeMarkerToNodeKind c) (depth + 1)
      else fails)"

definition demangleTypeImpl :: "recursion_old \<Rightarrow> nat \<Rightarrow> node option om" where
  "demangleTypeImpl rec depth = do {
     e \<leftarrow> isEmpty;
     if depth > OldMaxDepth \<or> e then fails
     else do { c \<leftarrow> next_old; demangleTypeLetter rec depth c }
   }"

section \<open>The knot\<close>

fun old_rec :: "nat \<Rightarrow> recursion_old" where
  "old_rec 0 request depth = dry None"
| "old_rec (Suc n) request depth =
     (case request of
        Ask_TypeImpl \<Rightarrow> demangleTypeImpl (old_rec n) depth
      | Ask_Context \<Rightarrow> demangleContext (old_rec n) depth
      | Ask_Entity \<Rightarrow> demangleEntity_old (old_rec n) depth
      | Ask_Archetype \<Rightarrow> demangleArchetypeType (old_rec n) depth)"

section \<open>Specializations\<close>

definition demangleGenericSpecialization_old :: "recursion_old \<Rightarrow> nat \<Rightarrow> node list option om" where
  "demangleGenericSpecialization_old rec depth =
     (if depth > OldMaxDepth then fails
      else until_close ''_''
        (on (demangleType_old rec (depth + 1)) (\<lambda>type.
         on (until_close ''_'' (demangleProtocolConformance_old rec (depth + 1))) (\<lambda>conformances.
         ok (Node K_GenericSpecializationParam (type # conformances))))))"

text \<open>A constant that was propagated: the kind and the payloads it adds to the parameter.\<close>

definition identifier_payload :: "u64 \<Rightarrow> string list \<Rightarrow> node list option om" where
  "identifier_payload kind earlier =
     on (demangleIdentifier_old None) (\<lambda>name. do {
       u \<leftarrow> nextIf_old ''_'';
       if \<not> u then fails
       else (case name of
               TextNode _ t \<Rightarrow> ok (param_kind kind # map param_payload (earlier @ [t]))
             | _ \<Rightarrow> stuck_old None)
     })"

definition number_payload :: "u64 \<Rightarrow> node list option om" where
  "number_payload kind =
     on (readUntil CHR ''_'') (\<lambda>str. do {
       u \<leftarrow> nextIf_old ''_'';
       if u then ok [param_kind kind, param_payload str] else fails
     })"

definition string_payload :: "node list option om" where
  "string_payload = do {
     e \<leftarrow> nextIf_old ''e'';
     if \<not> e then fails
     else on (take_from [(''0'', ''u8''), (''1'', ''u16'')]) (\<lambda>encoding. do {
       v \<leftarrow> nextIf_old ''v'';
       if \<not> v then fails else identifier_payload FSS_ConstantPropString [encoding]
     })
   }"

definition demangleFuncSigSpecializationConstantProp :: "node list option om" where
  "demangleFuncSigSpecializationConstantProp =
     on (take_from [(''fr'', CHR ''f''), (''g'', CHR ''g''), (''i'', CHR ''i''), (''fl'', CHR ''l''), (''s'', CHR ''s'')])
       (\<lambda>c.
     if c = CHR ''f'' then identifier_payload FSS_ConstantPropFunction []
     else if c = CHR ''g'' then identifier_payload FSS_ConstantPropGlobal []
     else if c = CHR ''i'' then number_payload FSS_ConstantPropInteger
     else if c = CHR ''l'' then number_payload FSS_ConstantPropFloat
     else string_payload)"

text \<open>Types until one fails; what the failing one has read stays read.\<close>

fun closure_types_old :: "nat \<Rightarrow> recursion_old \<Rightarrow> nat \<Rightarrow> node list \<Rightarrow> node list om" where
  "closure_types_old 0 rec depth acc = dry acc"
| "closure_types_old (Suc n) rec depth acc = do {
     c \<leftarrow> peek;
     if c = CHR ''_'' then give acc
     else do {
       type \<leftarrow> demangleType_old rec (depth + 1);
       case type of None \<Rightarrow> give acc | Some t \<Rightarrow> closure_types_old n rec depth (acc @ [t])
     }
   }"

definition demangleFuncSigSpecializationClosureProp :: "recursion_old \<Rightarrow> nat \<Rightarrow> node list option om" where
  "demangleFuncSigSpecializationClosureProp rec depth =
     on (demangleIdentifier_old None) (\<lambda>name.
     case name of
       TextNode _ t \<Rightarrow> do {
         n \<leftarrow> fuel;
         types \<leftarrow> closure_types_old n rec depth [];
         u \<leftarrow> nextIf_old ''_'';
         if u then ok ([param_kind FSS_ClosureProp, param_payload t] @ types) else fails
       }
     | _ \<Rightarrow> stuck_old None)"

text \<open>The option sets: each letter at most once and in this order.\<close>

fun option_set :: "(string \<times> u64) list \<Rightarrow> u64 \<Rightarrow> u64 om" where
  "option_set [] Value = give Value"
| "option_set ((letter, flag) # options) Value = do {
     b \<leftarrow> nextIf_old letter;
     option_set options (if b then Value OR flag else Value)
   }"

definition demangleOptionSet :: "node list option om" where
  "demangleOptionSet = do {
     Value \<leftarrow> option_set [(''d'', FSS_Dead), (''g'', FSS_OwnedToGuaranteed), (''o'', FSS_GuaranteedToOwned),
                          (''s'', FSS_SROA)] 0;
     u \<leftarrow> nextIf_old ''_'';
     if \<not> u \<or> Value = 0 then fails else ok [param_kind Value]
   }"

definition demangleFuncSigParam :: "recursion_old \<Rightarrow> nat \<Rightarrow> node option om" where
  "demangleFuncSigParam rec depth = do {
     form \<leftarrow> take_from [(''n_'', CHR ''n''), (''cp'', CHR ''p''), (''cl'', CHR ''l''), (''i_'', CHR ''i''), (''k_'', CHR ''k'')];
     on (case form of
           None \<Rightarrow> demangleOptionSet
         | Some c \<Rightarrow>
             if c = CHR ''n'' then ok []
             else if c = CHR ''p'' then demangleFuncSigSpecializationConstantProp
             else if c = CHR ''l'' then demangleFuncSigSpecializationClosureProp rec (depth + 1)
             else if c = CHR ''i'' then ok [param_kind FSS_BoxToValue]
             else ok [param_kind FSS_BoxToStack])
       (\<lambda>children. ok (Node K_FunctionSignatureSpecializationParam children))
   }"

text \<open>\<open>unsigned(Mangled.next() - 48)\<close>, where a \<open>char\<close> is signed and the difference an \<open>int\<close>.\<close>

definition pass_id :: "char \<Rightarrow> u64" where
  "pass_id c =
     (let signed = (if ord c \<ge> 128 then int (ord c) - 256 else int (ord c)) in
      ucast (word_of_int (signed - 48) :: u32))"

definition demangleSpecializedAttribute :: "recursion_old \<Rightarrow> nat \<Rightarrow> node option om" where
  "demangleSpecializedAttribute rec depth =
     on (take_from [(''g'', K_GenericSpecialization), (''r'', K_GenericSpecializationNotReAbstracted),
                    (''f'', K_FunctionSignatureSpecialization)]) (\<lambda>kind. do {
       q \<leftarrow> nextIf_old ''q'';
       pass \<leftarrow> next_old;
       on (if kind = K_FunctionSignatureSpecialization
           then until_close ''_'' (demangleFuncSigParam rec (depth + 1))
           else demangleGenericSpecialization_old rec (depth + 1)) (\<lambda>params.
       ok (Node kind (if_flag q K_IsSerialized @ [IndexNode K_SpecializationPassID (pass_id pass)] @ params)))
     })"

section \<open>Global symbols\<close>

definition metadata_letters :: "(string \<times> Kind) list" where
  "metadata_letters =
     [(''P'', K_GenericTypeMetadataPattern), (''a'', K_TypeMetadataAccessFunction), (''L'', K_TypeMetadataLazyCache),
      (''m'', K_Metaclass), (''n'', K_NominalTypeDescriptor), (''f'', K_FullTypeMetadata), (''p'', K_ProtocolDescriptor)]"

definition demangleMetadata_old :: "recursion_old \<Rightarrow> nat \<Rightarrow> node option om" where
  "demangleMetadata_old rec depth = do {
     m \<leftarrow> take_from metadata_letters;
     case m of
       None \<Rightarrow> build K_TypeMetadata [demangleType_old rec (depth + 1)]
     | Some kind \<Rightarrow>
         if kind = K_ProtocolDescriptor then build kind [demangleProtocolName rec (depth + 1)]
         else build kind [demangleType_old rec (depth + 1)]
   }"

definition witness_letters :: "(string \<times> Kind) list" where
  "witness_letters =
     [(''V'', K_ValueWitnessTable), (''v'', K_FieldOffset), (''P'', K_ProtocolWitnessTable),
      (''G'', K_GenericProtocolWitnessTable), (''I'', K_GenericProtocolWitnessTableInstantiationFunction),
      (''l'', K_LazyProtocolWitnessTableAccessor), (''L'', K_LazyProtocolWitnessTableCacheVariable),
      (''a'', K_ProtocolWitnessTableAccessor), (''t'', K_AssociatedTypeMetadataAccessor),
      (''T'', K_AssociatedTypeWitnessTableAccessor)]"

definition demangleDirectnessAsNode :: "node option om" where
  "demangleDirectnessAsNode =
     on demangleDirectness (\<lambda>d. ok (IndexNode K_Directness (case d of Direct \<Rightarrow> 0 | Indirect \<Rightarrow> 1)))"

definition demangleWitness_old :: "recursion_old \<Rightarrow> nat \<Rightarrow> node option om" where
  "demangleWitness_old rec depth =
     on (take_from witness_letters) (\<lambda>kind.
     let conformance = demangleProtocolConformance_old rec (depth + 1) in
     if kind = K_ValueWitnessTable then build kind [demangleType_old rec (depth + 1)]
     else if kind = K_FieldOffset then build kind [demangleDirectnessAsNode, rec Ask_Entity (depth + 1)]
     else if kind \<in> {K_LazyProtocolWitnessTableAccessor, K_LazyProtocolWitnessTableCacheVariable} then
       build kind [demangleType_old rec (depth + 1), conformance]
     else if kind = K_AssociatedTypeMetadataAccessor then build kind [conformance, demangleDeclName_old]
     else if kind = K_AssociatedTypeWitnessTableAccessor then
       build kind [conformance, demangleDeclName_old, demangleProtocolName rec (depth + 1)]
     else build kind [conformance])"

definition demangleReabstractSignature :: "recursion_old \<Rightarrow> nat \<Rightarrow> node list option om" where
  "demangleReabstractSignature rec depth = do {
     G \<leftarrow> nextIf_old ''G'';
     all_of ((if G then [demangleGenericSignature_old rec (depth + 1) False] else [])
             @ [demangleType_old rec (depth + 1), demangleType_old rec (depth + 1)])
   }"

definition demangleThunk_old :: "recursion_old \<Rightarrow> nat \<Rightarrow> node option om" where
  "demangleThunk_old rec depth =
     on (take_from [(''R'', K_ReabstractionThunkHelper), (''r'', K_ReabstractionThunk), (''W'', K_ProtocolWitness)])
       (\<lambda>kind.
     if kind = K_ProtocolWitness then
       build kind [demangleProtocolConformance_old rec (depth + 1), rec Ask_Entity (depth + 1)]
     else on (demangleReabstractSignature rec (depth + 1)) (\<lambda>children. ok (Node kind children)))"

text \<open>
  \<open>demangleGlobal\<close>, with fuel of its own for the thunks of partial applications, each of which takes five
  characters.
\<close>

fun demangleGlobal :: "nat \<Rightarrow> recursion_old \<Rightarrow> nat \<Rightarrow> node option om" where
  "demangleGlobal 0 rec depth = dry None"
| "demangleGlobal (Suc n) rec depth = do {
     e \<leftarrow> isEmpty;
     if depth > OldMaxDepth \<or> e then fails
     else do {
       M \<leftarrow> nextIf_old ''M'';
       if M then demangleMetadata_old rec depth
       else do {
         PA \<leftarrow> nextIf_old ''PA'';
         if PA then do {
           o_letter \<leftarrow> nextIf_old ''o'';
           nested \<leftarrow> nextIf_old ''__T'';
           build (if o_letter then K_PartialApplyObjCForwarder else K_PartialApplyForwarder)
             (if nested then [demangleGlobal n rec (depth + 1)] else [])
         }
         else do {
           t \<leftarrow> nextIf_old ''t'';
           if t then build K_TypeMangling [demangleType_old rec (depth + 1)]
           else do {
             w \<leftarrow> nextIf_old ''w'';
             if w then
               on demangleValueWitnessKind (\<lambda>kind.
               build K_ValueWitness [ok (IndexNode K_Index kind), demangleType_old rec (depth + 1)])
             else do {
               W \<leftarrow> nextIf_old ''W'';
               if W then demangleWitness_old rec depth
               else do {
                 T \<leftarrow> nextIf_old ''T'';
                 if T then demangleThunk_old rec depth else rec Ask_Entity (depth + 1)
               }
             }
           }
         }
       }
     }
   }"

fun specialized_attributes :: "nat \<Rightarrow> recursion_old \<Rightarrow> node list \<Rightarrow> node list option om" where
  "specialized_attributes 0 rec acc = dry None"
| "specialized_attributes (Suc n) rec acc =
     on (demangleSpecializedAttribute rec 0) (\<lambda>attr. do {
       clear_substitutions;
       again \<leftarrow> nextIf_old ''_TTS'';
       if again then specialized_attributes n rec (acc @ [attr]) else ok (acc @ [attr])
     })"

definition top_attributes :: "(string \<times> Kind) list" where
  "top_attributes =
     [(''To'', K_ObjCAttribute), (''TO'', K_NonObjCAttribute), (''TD'', K_DynamicAttribute),
      (''Td'', K_DirectMethodReferenceAttribute), (''TV'', K_VTableAttribute)]"

definition top_children :: "nat \<Rightarrow> recursion_old \<Rightarrow> node list option om" where
  "top_children n rec = do {
     TS \<leftarrow> nextIf_old ''TS'';
     if TS then
       on (specialized_attributes n rec []) (\<lambda>attrs. do {
         u \<leftarrow> nextIf_old ''_T'';
         if u then ok attrs else fails
       })
     else do {
       attr \<leftarrow> take_from top_attributes;
       ok (case attr of None \<Rightarrow> [] | Some kind \<Rightarrow> [Node kind []])
     }
   }"

definition demangleTopLevel :: "nat \<Rightarrow> recursion_old \<Rightarrow> node option om" where
  "demangleTopLevel n rec = do {
     u \<leftarrow> nextIf_old ''_T'';
     if \<not> u then fails
     else on (top_children n rec) (\<lambda>attrs.
          on (demangleGlobal n rec 0) (\<lambda>global. do {
            e \<leftarrow> isEmpty;
            if e then ok (Node K_Global (attrs @ [global]))
            else do {
              rest \<leftarrow> getString;
              ok (Node K_Global (attrs @ [global, TextNode K_Suffix rest]))
            }
          }))
   }"

definition new_old_demangler :: "string \<Rightarrow> old" where
  "new_old_demangler mangled = \<lparr>Mangled = mangled, OldSubstitutions = [], OldStuck = False, OldDry = False\<rparr>"

definition run_old :: "string \<Rightarrow> node option \<times> old" where
  "run_old mangled =
     (let n = length mangled + 1 in
      run_state (demangleTopLevel n (old_rec (2 * n))) (new_old_demangler mangled))"

definition demangleOldSymbolAsNode :: "string \<Rightarrow> node option" where
  "demangleOldSymbolAsNode mangled = fst (run_old mangled)"

end
