(* ===== verification/Old_Triples.thy ===== *)
theory Old_Triples
  imports Old_Demangler_Top
begin

text \<open>
  What the productions of \<open>OldDemangler\<close> keep to, as triples \<open>reads k strict Q m\<close>: on a text of at most \<open>k\<close>
  characters, \<open>m\<close> does not run out of fuel, does not give characters back, keeps the substitutions well
  formed, and where it succeeds its result satisfies \<open>Q\<close> and, if \<open>strict\<close>, at least one character is read.
  The rules follow the combinators; \<open>Old_Progress\<close> applies them to the productions.
\<close>

section \<open>Well-formed trees\<close>

text \<open>The kinds whose nodes have a text or an index, and how many children the others may have.\<close>

definition text_kinds :: "Kind list" where
  "text_kinds =
     [K_Module, K_Identifier, K_PrefixOperator, K_PostfixOperator, K_InfixOperator, K_TupleElementName,
      K_MetatypeRepresentation, K_ImplConvention, K_ImplFunctionConventionName, K_ImplFunctionAttribute,
      K_BuiltinTypeName, K_ErrorType, K_FunctionSignatureSpecializationParamPayload, K_Suffix]"

definition index_kinds :: "Kind list" where
  "index_kinds =
     [K_Number, K_Index, K_DependentGenericParamCount, K_DifferentiableFunctionType,
      K_FunctionSignatureSpecializationParamKind, K_SpecializationPassID, K_Directness]"

definition leaf_kinds :: "Kind list" where
  "leaf_kinds =
     [K_ThrowsAnnotation, K_AsyncAnnotation, K_ConcurrentFunctionType, K_VariadicMarker, K_OpaqueReturnType,
      K_IsSerialized, K_ObjCAttribute, K_NonObjCAttribute, K_DynamicAttribute,
      K_DirectMethodReferenceAttribute, K_VTableAttribute]"

definition single_kinds :: "Kind list" where
  "single_kinds =
     [K_Type, K_Static, K_GlobalActorFunctionType, K_ArgumentTuple, K_ReturnType, K_DynamicSelf, K_SILBoxType,
      K_SILBoxMutableField, K_SILBoxImmutableField, K_Unowned, K_Unmanaged, K_Weak, K_InOut, K_NoDerivative,
      K_ProtocolList, K_ImplFunctionConvention, K_Initializer, K_Deallocator, K_Destructor, K_IVarInitializer,
      K_IVarDestroyer, K_Getter, K_GlobalGetter, K_Setter, K_MaterializeForSet, K_WillSet, K_DidSet,
      K_ReadAccessor, K_ModifyAccessor, K_OwningMutableAddressor, K_NativeOwningMutableAddressor,
      K_NativePinningMutableAddressor, K_UnsafeMutableAddressor, K_OwningAddressor, K_NativeOwningAddressor,
      K_NativePinningAddressor, K_UnsafeAddressor, K_TypeMangling, K_TypeMetadata, K_GenericTypeMetadataPattern,
      K_TypeMetadataAccessFunction, K_TypeMetadataLazyCache, K_Metaclass, K_NominalTypeDescriptor,
      K_FullTypeMetadata, K_ProtocolDescriptor, K_ValueWitnessTable, K_ProtocolWitnessTable,
      K_GenericProtocolWitnessTable, K_GenericProtocolWitnessTableInstantiationFunction,
      K_ProtocolWitnessTableAccessor]"

definition pair_kinds :: "Kind list" where
  "pair_kinds =
     [K_Class, K_Structure, K_Enum, K_Protocol, K_TypeAlias, K_BoundGenericClass, K_BoundGenericStructure,
      K_BoundGenericEnum, K_LocalDeclName, K_AssociatedTypeRef, K_DependentMemberType,
      K_DependentGenericParamType, K_DependentGenericType, K_DependentGenericSameTypeRequirement,
      K_DependentGenericConformanceRequirement, K_ImplParameter, K_ImplResult, K_ImplErrorResult, K_Allocator,
      K_Constructor, K_DefaultArgumentInitializer, K_ValueWitness, K_FieldOffset, K_ProtocolWitness,
      K_LazyProtocolWitnessTableAccessor, K_LazyProtocolWitnessTableCacheVariable,
      K_AssociatedTypeMetadataAccessor]"

definition ranged_kinds :: "(Kind \<times> nat \<times> nat) list" where
  "ranged_kinds =
     [(K_PrivateDeclName, 1, 2), (K_DependentAssociatedTypeRef, 1, 2), (K_Metatype, 1, 2),
      (K_ExistentialMetatype, 1, 2), (K_Extension, 2, 3), (K_Function, 2, 3), (K_Variable, 2, 3),
      (K_Subscript, 2, 3), (K_ExplicitClosure, 2, 3), (K_ImplicitClosure, 2, 3), (K_TupleElement, 1, 3),
      (K_DependentGenericLayoutRequirement, 2, 4), (K_FunctionType, 2, 7), (K_ObjCBlock, 2, 7),
      (K_CFunctionPointer, 2, 7), (K_UncurriedFunctionType, 2, 7), (K_AutoClosureType, 2, 7),
      (K_ThinFunctionType, 2, 7), (K_SILBoxTypeWithLayout, 1, 3), (K_ReabstractionThunk, 2, 3),
      (K_ReabstractionThunkHelper, 2, 3), (K_PartialApplyForwarder, 0, 1), (K_PartialApplyObjCForwarder, 0, 1),
      (K_ProtocolConformance, 3, 3), (K_AssociatedTypeWitnessTableAccessor, 3, 3)]"

definition fits :: "Kind \<Rightarrow> nat \<Rightarrow> bool" where
  "fits k n \<longleftrightarrow>
     (if k \<in> set leaf_kinds then n = 0
      else if k \<in> set single_kinds then n = 1
      else if k \<in> set pair_kinds then n = 2
      else case map_of ranged_kinds k of
        Some (least, most) \<Rightarrow> least \<le> n \<and> n \<le> most
      | None \<Rightarrow> k \<notin> set text_kinds \<and> k \<notin> set index_kinds)"

fun well_formed :: "node \<Rightarrow> bool" where
  "well_formed (TextNode k t) \<longleftrightarrow> k \<in> set text_kinds"
| "well_formed (IndexNode k i) \<longleftrightarrow> k \<in> set index_kinds"
| "well_formed (Node k ns) \<longleftrightarrow> fits k (length ns) \<and> list_all well_formed ns"

text \<open>
  What the bound generic arguments need of the chain of parents: the nodes that are rebuilt may have two
  children.
\<close>

definition stops :: "Kind \<Rightarrow> bool" where
  "stops k \<longleftrightarrow> k \<in> {K_Module, K_Function, K_Extension}"

fun rebuildable :: "node \<Rightarrow> bool" where
  "rebuildable (Node k (p # rest)) \<longleftrightarrow> rest = [] \<or> stops (getKind p) \<or> fits k 2 \<and> rebuildable p"
| "rebuildable _ \<longleftrightarrow> True"

abbreviation contextual :: "node \<Rightarrow> bool" where
  "contextual n \<equiv> well_formed n \<and> rebuildable n"

section \<open>Triples\<close>

definition sound_old :: "old \<Rightarrow> bool" where
  "sound_old s \<longleftrightarrow> \<not> OldDry s \<and> list_all contextual (OldSubstitutions s)"

definition runs :: "nat \<Rightarrow> ('a \<Rightarrow> bool) \<Rightarrow> 'a om \<Rightarrow> bool" where
  "runs k Q m \<longleftrightarrow> (\<forall>s x t. length (Mangled s) \<le> k \<and> sound_old s \<and> run_state m s = (x, t)
     \<longrightarrow> sound_old t \<and> length (Mangled t) \<le> length (Mangled s) \<and> Q x)"

definition outcome :: "bool \<Rightarrow> ('a \<Rightarrow> bool) \<Rightarrow> old \<Rightarrow> 'a option \<times> old \<Rightarrow> bool" where
  "outcome strict Q s p \<longleftrightarrow> sound_old (snd p) \<and> length (Mangled (snd p)) \<le> length (Mangled s)
     \<and> (\<forall>x. fst p = Some x \<longrightarrow> Q x \<and> (strict \<longrightarrow> length (Mangled (snd p)) < length (Mangled s)))"

definition reads :: "nat \<Rightarrow> bool \<Rightarrow> ('a \<Rightarrow> bool) \<Rightarrow> 'a option om \<Rightarrow> bool" where
  "reads k strict Q m \<longleftrightarrow>
     (\<forall>s. length (Mangled s) \<le> k \<longrightarrow> sound_old s \<longrightarrow> outcome strict Q s (run_state m s))"

declare take_from.simps [simp del] until_loop.simps [simp del]

named_theorems reading_rules \<open>triples of the combinators\<close>
named_theorems productions \<open>triples of the productions\<close>

lemma old_run:
  "run_state (give x) s = (x, s)"
  "run_state (look f) s = (f s, s)"
  "run_state (do { x \<leftarrow> m; g x }) s = (case run_state m s of (x, t) \<Rightarrow> run_state (g x) t)"
  "run_state (on m h) s = (case run_state m s of (None, t) \<Rightarrow> (None, t) | (Some x, t) \<Rightarrow> run_state (h x) t)"
  by (simp_all add: look_def on_def split: prod.splits option.splits)

lemma outcomeI:
  "sound_old (snd p) \<Longrightarrow> length (Mangled (snd p)) \<le> length (Mangled s) \<Longrightarrow>
    (\<And>x. fst p = Some x \<Longrightarrow> Q x) \<Longrightarrow> outcome False Q s p"
  by (simp add: outcome_def)

lemma old_readsI:
  "(\<And>s. length (Mangled s) \<le> k \<Longrightarrow> sound_old s \<Longrightarrow> outcome b Q s (run_state m s)) \<Longrightarrow> reads k b Q m"
  by (simp add: reads_def)

lemma readsD: "reads k b Q m \<Longrightarrow> length (Mangled s) \<le> k \<Longrightarrow> sound_old s \<Longrightarrow> outcome b Q s (run_state m s)"
  by (simp add: reads_def)

lemma reads_weaken: "reads k True Q m \<Longrightarrow> reads k b Q m"
  by (simp add: reads_def outcome_def)

lemma reads_less: "reads k b Q m \<Longrightarrow> j \<le> k \<Longrightarrow> reads j b Q m"
  by (simp add: reads_def)

lemma reads_post: "reads k b Q m \<Longrightarrow> (\<And>x. Q x \<Longrightarrow> R x) \<Longrightarrow> reads k b R m"
  by (simp add: reads_def outcome_def)

lemma outcome_after:
  "outcome c R u p \<Longrightarrow> length (Mangled u) \<le> length (Mangled s) \<Longrightarrow> outcome c R s p"
  "outcome False R u p \<Longrightarrow> length (Mangled u) < length (Mangled s) \<Longrightarrow> outcome b R s p"
  by (auto simp: outcome_def)

lemma reads_ok: "Q x \<Longrightarrow> reads k False Q (ok x)"
  by (simp add: reads_def outcome_def old_run)

lemma reads_fails: "reads k b Q fails"
  by (simp add: reads_def outcome_def old_run)

lemma reads_stuck_old: "reads k b Q (stuck_old None)"
  by (simp add: reads_def outcome_def stuck_old_def sound_old_def)

lemma reads_on:
  assumes m: "reads k b Q m" and f: "\<And>x. Q x \<Longrightarrow> reads k c R (f x)"
  shows "reads k (b \<or> c) R (on m f)"
proof (rule old_readsI)
  fix s
  assume s: "length (Mangled s) \<le> k" "sound_old s"
  obtain x u where u: "run_state m s = (x, u)" by fastforce
  note out = readsD [OF m s, unfolded u]
  show "outcome (b \<or> c) R s (run_state (on m f) s)"
  proof (cases x)
    case None
    then show ?thesis using out u by (simp add: old_run outcome_def)
  next
    case (Some y)
    with out s f have "outcome c R u (run_state (f y) u)" by (intro readsD) (auto simp: outcome_def)
    then show ?thesis using out u Some by (auto simp: old_run outcome_def)
  qed
qed

lemma reads_on_first:
  "reads k True Q m \<Longrightarrow> (\<And>x. Q x \<Longrightarrow> reads k False R (f x)) \<Longrightarrow> reads k b R (on m f)"
  using reads_on [of k True Q m False R f] by (cases b) (auto intro: reads_weaken)

lemma reads_on_then:
  "reads k False Q m \<Longrightarrow> (\<And>x. Q x \<Longrightarrow> reads k b R (f x)) \<Longrightarrow> reads k b R (on m f)"
  using reads_on [of k False Q m b R f] by simp

lemma reads_bind:
  assumes m: "runs k Q m" and f: "\<And>x. Q x \<Longrightarrow> reads k b R (f x)"
  shows "reads k b R (do { x \<leftarrow> m; f x })"
proof (rule old_readsI)
  fix s
  assume s: "length (Mangled s) \<le> k" "sound_old s"
  obtain x u where u: "run_state m s = (x, u)" by fastforce
  with m s have x: "sound_old u" "length (Mangled u) \<le> length (Mangled s)" "Q x" by (auto simp: runs_def)
  have "outcome b R u (run_state (f x) u)" by (rule readsD [OF f]) (use x s in simp_all)
  with x u show "outcome b R s (run_state (do { x \<leftarrow> m; f x }) s)" by (simp add: old_run outcome_after(1) [of b R u])
qed

lemma reads_as_runs: "reads k False Q m \<Longrightarrow> runs k (\<lambda>r. \<forall>x. r = Some x \<longrightarrow> Q x) m"
  unfolding reads_def runs_def outcome_def by fastforce

section \<open>The source of characters\<close>

lemma startswith_shorter: "startswith m str \<Longrightarrow> str \<noteq> [] \<Longrightarrow> length (drop (length str) m) < length m"
  by (cases m; cases str) (auto simp: startswith_def)

lemma runs_nextIf [reading_rules]: "runs k (\<lambda>_. True) (nextIf_old str)"
  by (auto simp: runs_def nextIf_old_def sound_old_def split: if_splits)

lemma runs_isEmpty [reading_rules]: "runs k (\<lambda>_. True) isEmpty"
  and runs_peek [reading_rules]: "runs k (\<lambda>_. True) peek"
  and runs_fuel [reading_rules]: "runs k (\<lambda>_. True) fuel"
  and runs_look [reading_rules]: "runs k (\<lambda>_. True) (look f)"
  and runs_give: "Q x \<Longrightarrow> runs k Q (give x)"
  by (simp_all add: runs_def isEmpty_def peek_def fuel_def old_run)

lemma runs_next [reading_rules]: "runs k (\<lambda>_. True) next_old"
  by (auto simp: runs_def next_old_def sound_old_def split: list.splits)

lemma runs_advanceOffset [reading_rules]: "runs k (\<lambda>_. True) (advanceOffset n)"
  by (auto simp: runs_def advanceOffset_def sound_old_def)

lemma runs_add_substitution [reading_rules]: "contextual n \<Longrightarrow> runs k (\<lambda>_. True) (add_substitution n)"
  by (auto simp: runs_def add_substitution_def sound_old_def)

lemma runs_clear_substitutions [reading_rules]: "runs k (\<lambda>_. True) clear_substitutions"
  by (auto simp: runs_def clear_substitutions_def sound_old_def)

lemma runs_getString [reading_rules]: "runs k (\<lambda>_. True) getString"
  by (auto simp: runs_def getString_def sound_old_def)

lemma nextIf_run:
  "run_state (nextIf_old str) s = (b, t)
    \<Longrightarrow> (if b then t = s\<lparr>Mangled := drop (length str) (Mangled s)\<rparr> \<and> startswith (Mangled s) str else t = s)"
  by (auto simp: nextIf_old_def split: if_splits)

text \<open>After a string that is not empty there is at least one character less.\<close>

lemma reads_nextIf:
  assumes str: "str \<noteq> []" and A: "\<And>j. j < k \<Longrightarrow> reads j False Q A" and B: "reads k b Q B"
  shows "reads k b Q (do { x \<leftarrow> nextIf_old str; if x then A else B })"
proof (rule old_readsI)
  fix s
  assume s: "length (Mangled s) \<le> k" "sound_old s"
  obtain x u where u: "run_state (nextIf_old str) s = (x, u)" by fastforce
  note x = nextIf_run [OF u]
  show "outcome b Q s (run_state (do { x \<leftarrow> nextIf_old str; if x then A else B }) s)"
  proof (cases x)
    case True
    with x startswith_shorter str have less: "length (Mangled u) < length (Mangled s)" by auto
    moreover have "sound_old u" using x True s by (simp add: sound_old_def)
    ultimately have "outcome False Q u (run_state A u)"
      using readsD [OF A [of "length (Mangled u)"]] s by simp
    then show ?thesis using less u True by (simp add: old_run outcome_after(2) [of Q u])
  next
    case False
    then show ?thesis using readsD [OF B s] u x by (simp add: old_run)
  qed
qed

lemma reads_nextIf_same [reading_rules]:
  "str \<noteq> [] \<Longrightarrow> reads k False Q A \<Longrightarrow> reads k b Q B \<Longrightarrow> reads k b Q (do { x \<leftarrow> nextIf_old str; if x then A else B })"
  by (rule reads_nextIf) (auto intro: reads_less)

lemma reads_expect [reading_rules]:
  "str \<noteq> [] \<Longrightarrow> reads k False Q A \<Longrightarrow> reads k b Q (do { x \<leftarrow> nextIf_old str; if \<not> x then fails else A })"
proof -
  assume "str \<noteq> []" "reads k False Q A"
  moreover have "(\<lambda>x. if \<not> x then fails else A) = (\<lambda>x. if x then A else fails)" by auto
  ultimately show ?thesis using reads_nextIf_same [of str k Q A b fails, OF _ _ reads_fails] by simp
qed

lemma take_from_run:
  "run_state (take_from alternatives) s = (r, t) \<Longrightarrow>
    (case r of None \<Rightarrow> t = s
     | Some x \<Rightarrow> \<exists>str. (str, x) \<in> set alternatives \<and> startswith (Mangled s) str
         \<and> t = s\<lparr>Mangled := drop (length str) (Mangled s)\<rparr>)"
proof (induction alternatives)
  case (Cons a as)
  note [simp] = take_from.simps
  obtain str y where [simp]: "a = (str, y)" by fastforce
  obtain b u where u: "run_state (nextIf_old str) s = (b, u)" by fastforce
  then show ?case
    using Cons nextIf_run [OF u] by (auto simp: old_run split: option.splits if_splits)
qed (simp add: take_from.simps)

lemma reads_take_from:
  assumes "\<And>str x. (str, x) \<in> set alternatives \<Longrightarrow> str \<noteq> []"
    and A: "\<And>j str x. j < k \<Longrightarrow> (str, x) \<in> set alternatives \<Longrightarrow> reads j False Q (f (Some x))" and B: "reads k b Q (f None)"
  shows "reads k b Q (do { x \<leftarrow> take_from alternatives; f x })"
proof (rule old_readsI)
  fix s
  assume s: "length (Mangled s) \<le> k" "sound_old s"
  obtain x u where u: "run_state (take_from alternatives) s = (x, u)" by fastforce
  note x = take_from_run [OF u]
  show "outcome b Q s (run_state (do { x \<leftarrow> take_from alternatives; f x }) s)"
  proof (cases x)
    case (Some y)
    then obtain str where str: "(str, y) \<in> set alternatives" "startswith (Mangled s) str"
      and u': "u = s\<lparr>Mangled := drop (length str) (Mangled s)\<rparr>"
      using x by auto
    have less: "length (Mangled u) < length (Mangled s)"
      using startswith_shorter [OF str(2)] assms(1) [OF str(1)] u' by simp
    moreover have "sound_old u" using u' s by (simp add: sound_old_def)
    ultimately have "outcome False Q u (run_state (f (Some y)) u)"
      using readsD [OF A [OF _ str(1), of "length (Mangled u)"]] s by simp
    then show ?thesis using less u Some by (simp add: old_run outcome_after(2) [of Q u])
  next
    case None
    then show ?thesis using readsD [OF B s] u x by (simp add: old_run)
  qed
qed

lemma reads_on_take_from:
  assumes "\<And>str x. (str, x) \<in> set alternatives \<Longrightarrow> str \<noteq> []"
    and "\<And>j str x. j < k \<Longrightarrow> (str, x) \<in> set alternatives \<Longrightarrow> reads j False Q (f x)"
  shows "reads k b Q (on (take_from alternatives) f)"
  unfolding on_def using assms by (intro reads_take_from) (auto intro: reads_fails)

lemma reads_on_less:
  assumes m: "reads k True Q m" and f: "\<And>j x. j < k \<Longrightarrow> Q x \<Longrightarrow> reads j False R (f x)"
  shows "reads k b R (on m f)"
proof (rule old_readsI)
  fix s
  assume s: "length (Mangled s) \<le> k" "sound_old s"
  obtain x u where u: "run_state m s = (x, u)" by fastforce
  note out = readsD [OF m s, unfolded u]
  show "outcome b R s (run_state (on m f) s)"
  proof (cases x)
    case None
    then show ?thesis using out u by (simp add: old_run outcome_def)
  next
    case (Some y)
    then have y: "Q y" "sound_old u" "length (Mangled u) < length (Mangled s)" using out by (auto simp: outcome_def)
    then have "outcome False R u (run_state (f y) u)"
      using readsD [OF f [of "length (Mangled u)" y]] s by simp
    then show ?thesis using y u Some by (simp add: old_run outcome_after(2) [of R u])
  qed
qed

lemma reads_fuel:
  "(\<And>j. j \<le> k \<Longrightarrow> reads j b Q (f (Suc j))) \<Longrightarrow> reads k b Q (do { n \<leftarrow> fuel; f n })"
  by (rule old_readsI) (auto simp: old_run fuel_def intro: readsD)

lemma reads_next:
  assumes f: "\<And>j c. j < k \<Longrightarrow> reads j False Q (f c)"
  shows "reads k b Q (do { e \<leftarrow> isEmpty; if e then fails else do { c \<leftarrow> next_old; f c } })"
proof (rule old_readsI)
  fix s
  assume s: "length (Mangled s) \<le> k" "sound_old s"
  show "outcome b Q s (run_state (do { e \<leftarrow> isEmpty; if e then fails else do { c \<leftarrow> next_old; f c } }) s)"
  proof (cases "Mangled s")
    case Nil
    then show ?thesis using s by (simp add: old_run isEmpty_def outcome_def)
  next
    case (Cons c cs)
    then have "outcome False Q (s\<lparr>Mangled := cs\<rparr>) (run_state (f c) (s\<lparr>Mangled := cs\<rparr>))"
      using s by (intro readsD [OF f [of "length cs"]]) (simp_all add: sound_old_def)
    then show ?thesis
      using Cons by (simp add: old_run isEmpty_def next_old_def outcome_after(2) [of Q "s\<lparr>Mangled := cs\<rparr>"])
  qed
qed

section \<open>Normal forms\<close>

text \<open>A production as a chain of named productions.\<close>

lemma state_ext: "(\<And>s. run_state m s = run_state m' s) \<Longrightarrow> m = m'"
  by (cases m; cases m') (auto intro: ext)

lemma on_assoc: "on (on m f) g = on m (\<lambda>x. on (f x) g)"
  and on_ok: "on (ok x) h = h x"
  and on_fails: "on fails h = fails"
  and on_bind: "on (do { y \<leftarrow> m'; f' y }) h = do { y \<leftarrow> m'; on (f' y) h }"
  and on_if: "on (if b then m1 else m2) h = (if b then on m1 h else on m2 h)"
  by (rule state_ext, simp add: old_run split: prod.splits option.splits)+

lemma on_stuck: "on (stuck_old None) h = stuck_old None"
  by (rule state_ext) (simp add: old_run stuck_old_def)

lemma bind_assoc_old:
  "do { y \<leftarrow> do { x \<leftarrow> (m :: 'a om); f x }; g y } = do { x \<leftarrow> m; y \<leftarrow> f x; g y }"
  "do { x \<leftarrow> give z; h x } = h z"
  by (rule state_ext, simp split: prod.splits)+

lemmas on_simps = on_assoc on_ok on_fails on_bind on_if bind_assoc_old

lemmas build_simps = build_def all_of.simps on_simps

lemma old_reads_if [reading_rules]: "(c \<Longrightarrow> reads k b Q A) \<Longrightarrow> (\<not> c \<Longrightarrow> reads k b Q B) \<Longrightarrow> reads k b Q (if c then A else B)"
  by simp

lemma reads_prod [reading_rules]:
  "(\<And>x y. p = (x, y) \<Longrightarrow> reads k b Q (f x y)) \<Longrightarrow> reads k b Q (case p of (x, y) \<Rightarrow> f x y)"
  by (cases p) simp

section \<open>Loops\<close>

lemma until_loop_reads:
  assumes close: "close \<noteq> []"
  shows "reads k True Q item \<Longrightarrow> k < n \<Longrightarrow> list_all Q acc \<Longrightarrow> reads k False (list_all Q) (until_loop n close item acc)"
proof (induction n arbitrary: k acc)
  case (Suc n)
  have "reads j False (list_all Q) (until_loop n close item (acc @ [x]))" if "j < k" "Q x" for j x
    using that Suc.prems by (intro Suc.IH reads_less [OF Suc.prems(1)]) simp_all
  then show ?case
    using Suc.prems close unfolding until_loop.simps
    by (intro reads_nextIf_same reads_ok reads_on_less [OF Suc.prems(1)]) auto
qed simp

lemma until_close_reads:
  "close \<noteq> [] \<Longrightarrow> reads k True Q item \<Longrightarrow> reads k False (list_all Q) (until_close close item)"
  unfolding until_close_def by (rule reads_fuel, rule until_loop_reads) (auto intro: reads_less)

lemma until_close_on [reading_rules]:
  "close \<noteq> [] \<Longrightarrow> reads k True Q item \<Longrightarrow> (\<And>xs. list_all Q xs \<Longrightarrow> reads k b R (f xs)) \<Longrightarrow>
    reads k b R (on (until_close close item) f)"
  by (rule reads_on_then [OF until_close_reads])

end
