(* ===== verification/Old_Productions.thy ===== *)
theory Old_Productions
  imports Old_Triples
begin

text \<open>
  The triples of the productions of \<open>OldDemangler\<close> up to the entities and tuples. A production that calls
  others by \<open>rec\<close> has the premise \<open>answers rec k\<close>: the four methods that answer meet their triples on
  texts of at most \<open>k\<close> characters.
\<close>

section \<open>Numbers and identifiers\<close>

lemma natural_loop_reads: "k < n \<Longrightarrow> reads k False (\<lambda>_. True) (natural_loop_old n num)"
proof (induction n arbitrary: k num)
  case (Suc n)
  show ?case
  proof (rule old_readsI)
    fix s
    assume s: "length (Mangled s) \<le> k" "sound_old s"
    show "outcome False (\<lambda>_. True) s (run_state (natural_loop_old (Suc n) num) s)"
    proof (cases "Mangled s")
      case Nil
      then show ?thesis using s by (simp add: old_run isEmpty_def outcome_def)
    next
      case (Cons c cs)
      let ?t = "s\<lparr>Mangled := cs\<rparr>"
      have "outcome False (\<lambda>_. True) ?t (run_state (natural_loop_old n num') ?t)" for num'
        using Suc.prems s Cons by (intro readsD [OF Suc.IH [of "length cs"]]) (simp_all add: sound_old_def)
      then show ?thesis
        using Cons s by (simp add: old_run isEmpty_def peek_def next_old_def outcome_after(1) [of _ _ ?t] outcome_def le_SucI)
    qed
  qed
qed simp

lemma demangleNatural_reads [productions]: "reads k True (\<lambda>_. True) demangleNatural_old"
  unfolding demangleNatural_old_def
  by (rule reads_next) (auto intro!: old_reads_if reads_fails reads_fuel natural_loop_reads)

lemmas natural_on [reading_rules] =
  reads_on_first [OF demangleNatural_reads] reads_post [OF reads_weaken [OF demangleNatural_reads]]

lemmas reads_prims [reading_rules] =
  reads_bind [OF runs_isEmpty] reads_bind [OF runs_peek] reads_bind [OF runs_look]
  reads_bind [OF runs_next] reads_bind [OF runs_advanceOffset] reads_bind [OF runs_add_substitution]
  reads_bind [OF runs_clear_substitutions] reads_bind [OF runs_getString] reads_fails reads_ok

lemma demangleBuiltinSize_reads: "reads k True (\<lambda>_. True) demangleBuiltinSize_old"
  unfolding demangleBuiltinSize_old_def by (auto intro!: reading_rules)

lemmas builtin_size_on [reading_rules] =
  reads_on_first [OF demangleBuiltinSize_reads] reads_post [OF reads_weaken [OF demangleBuiltinSize_reads]]

lemma demangleIndex_reads: "reads k True (\<lambda>_. True) demangleIndex_old"
  unfolding demangleIndex_old_def by (auto intro!: reading_rules)

lemmas index_on [reading_rules] =
  reads_on_first [OF demangleIndex_reads] reads_post [OF reads_weaken [OF demangleIndex_reads]]

lemma demangleIndexAsNode_reads: "reads k True contextual demangleIndexAsNode_old"
  unfolding demangleIndexAsNode_old_def by (auto intro!: reading_rules simp: index_kinds_def)

lemmas index_node_on [reading_rules] =
  reads_on_first [OF demangleIndexAsNode_reads] reads_post [OF reads_weaken [OF demangleIndexAsNode_reads]]

lemma reads_option [reading_rules]:
  "(x = None \<Longrightarrow> reads k b Q A) \<Longrightarrow> (\<And>y. x = Some y \<Longrightarrow> reads k b Q (f y)) \<Longrightarrow>
    reads k b Q (case x of None \<Rightarrow> A | Some y \<Rightarrow> f y)"
  by (cases x) simp_all

lemma reads_let [reading_rules]: "reads k b Q (f x) \<Longrightarrow> reads k b Q (let y = x in f y)"
  by simp

text \<open>An identifier is a node with a text, of the kind that was asked for.\<close>

definition is_identifier :: "Kind option \<Rightarrow> node \<Rightarrow> bool" where
  "is_identifier kind n \<longleftrightarrow> (\<exists>k t. n = TextNode k t \<and> k \<in> set text_kinds \<and> (\<forall>k'. kind = Some k' \<longrightarrow> k = k'))"

lemma demangleIdentifier_reads:
  assumes "\<forall>k'. kind = Some k' \<longrightarrow> k' \<in> set text_kinds"
  shows "reads k True (is_identifier kind) (demangleIdentifier_old kind)"
proof -
  have op: "operator_kind c = Some k' \<Longrightarrow> k' \<in> set text_kinds" for c k'
    by (auto simp: operator_kind_def text_kinds_def split: if_splits)
  have ident: "K_Identifier \<in> set text_kinds" by (simp add: text_kinds_def)
  have last: "reads k True (is_identifier kind)
      (on demangleNatural_old (\<lambda>len. do {
         enough \<leftarrow> look (\<lambda>s. unat len \<le> length (Mangled s));
         if \<not> enough then fails
         else do {
           identifier \<leftarrow> slice (unat len);
           advanceOffset (unat len);
           let identifier = (if isPunycoded then case decodePunycodeUTF8 identifier of None \<Rightarrow> [] | Some d \<Rightarrow> d
                             else identifier);
           if identifier = [] then fails
           else if isOperator then
             (case those (map operator_char identifier) of
                None \<Rightarrow> fails
              | Some op \<Rightarrow> ok (TextNode k' op))
           else ok (TextNode k' identifier)
         }
       }))"
    if "k' \<in> set text_kinds" "\<forall>k''. kind = Some k'' \<longrightarrow> k' = k''" for k' isPunycoded isOperator
    unfolding Let_def slice_def using that by (auto intro!: reading_rules simp: is_identifier_def)
  have step: "reads k False (\<lambda>k'. k' \<in> set text_kinds \<and> (\<forall>k''. kind = Some k'' \<longrightarrow> k' = k''))
      (if \<not> isOperator then ok (case kind of None \<Rightarrow> K_Identifier | Some k \<Rightarrow> k)
       else if kind \<noteq> None then fails
       else do { op_mode \<leftarrow> next_old; give (operator_kind op_mode) })" for isOperator
  proof -
    have mode: "reads k False (\<lambda>k'. k' \<in> set text_kinds) (do { op_mode \<leftarrow> next_old; give (operator_kind op_mode) })"
      by (rule old_readsI, rule outcomeI)
        (auto simp: next_old_def sound_old_def op split: list.splits)
    show ?thesis
      by (intro old_reads_if reads_fails reads_ok reads_post [OF mode]) (use assms ident in \<open>auto split: option.splits\<close>)
  qed
  show ?thesis
    unfolding demangleIdentifier_old_def
    by (intro reads_prims(1) old_reads_if reads_fails reads_bind [OF runs_nextIf] reads_on_then [OF step] last) auto
qed

lemma identifier_contextual: "is_identifier kind n \<Longrightarrow> contextual n"
  by (auto simp: is_identifier_def)

lemma demangleIdentifier_any: "reads k True contextual (demangleIdentifier_old None)"
  by (rule reads_post [OF demangleIdentifier_reads]) (simp, erule identifier_contextual)

lemmas identifier_on [reading_rules] =
  reads_on_first [OF demangleIdentifier_any] reads_post [OF reads_weaken [OF demangleIdentifier_any]]

lemma take_from_same [reading_rules]:
  "(\<And>str x. (str, x) \<in> set alternatives \<Longrightarrow> str \<noteq> []) \<Longrightarrow>
    (\<And>str x. (str, x) \<in> set alternatives \<Longrightarrow> reads k False Q (f x)) \<Longrightarrow> reads k b Q (on (take_from alternatives) f)"
  by (rule reads_on_take_from, blast) (metis reads_less less_imp_le)

lemma demangleDeclName_reads: "reads k True contextual demangleDeclName_old"
  unfolding demangleDeclName_old_def
  by (auto intro!: reading_rules simp: fits_def leaf_kinds_def single_kinds_def pair_kinds_def ranged_kinds_def)

lemmas decl_name_on [reading_rules] =
  reads_on_first [OF demangleDeclName_reads] reads_post [OF reads_weaken [OF demangleDeclName_reads]]

section \<open>Substitutions and modules\<close>

lemma old_substitutions_contextual: "map_of old_substitutions c = Some n \<Longrightarrow> contextual n"
proof -
  have "list_all contextual (map snd old_substitutions)" by code_simp
  then show "map_of old_substitutions c = Some n \<Longrightarrow> contextual n"
    by (auto simp: list_all_iff dest!: map_of_SomeD)
qed

lemma demangleSubstitutionIndex_reads: "reads k False contextual demangleSubstitutionIndex"
proof -
  have index: "reads k False contextual (do {
      subs \<leftarrow> look OldSubstitutions;
      if unat i \<ge> length subs then fails else ok (subs ! unat i) })" for i :: u64
    by (rule old_readsI, rule outcomeI) (auto simp: old_run sound_old_def list_all_length split: if_splits)
  show ?thesis
    unfolding demangleSubstitutionIndex_def
    by (auto intro!: reading_rules index old_substitutions_contextual)
qed

lemmas substitution_on [reading_rules] =
  reads_on_then [OF demangleSubstitutionIndex_reads] reads_post [OF demangleSubstitutionIndex_reads]

definition is_module :: "node \<Rightarrow> bool" where
  "is_module n \<longleftrightarrow> contextual n \<and> getKind n = K_Module"

lemma demangleModule_reads: "reads k True is_module demangleModule_old"
proof -
  have module: "reads k True is_module (demangleIdentifier_old (Some K_Module))"
    by (rule reads_post [OF demangleIdentifier_reads]) (auto simp: is_identifier_def is_module_def text_kinds_def)
  show ?thesis
    unfolding demangleModule_old_def
    by (auto intro!: reading_rules reads_on_first [OF module] simp: is_module_def text_kinds_def)
qed

lemmas module_on [reading_rules] =
  reads_on_first [OF demangleModule_reads] reads_post [OF reads_weaken [OF demangleModule_reads]]

section \<open>Leaves\<close>

lemmas node_shapes = fits_def leaf_kinds_def single_kinds_def pair_kinds_def ranged_kinds_def
  text_kinds_def index_kinds_def

lemma generic_param_contextual: "contextual (getDependentGenericParamType_old depth index)"
  by (simp add: getDependentGenericParamType_old_def node_shapes stops_def)

lemma demangleGenericParamIndex_reads: "reads k True contextual demangleGenericParamIndex_old"
  unfolding demangleGenericParamIndex_old_def by (auto intro!: reading_rules generic_param_contextual)

lemmas generic_param_on [reading_rules] =
  reads_on_first [OF demangleGenericParamIndex_reads] reads_post [OF reads_weaken [OF demangleGenericParamIndex_reads]]

lemma demangleMetatypeRepresentation_reads: "reads k True well_formed demangleMetatypeRepresentation_old"
  unfolding demangleMetatypeRepresentation_old_def by (auto intro!: reading_rules simp: text_kinds_def)

lemma convention_letters: "(str, x) \<in> set convention_table \<Longrightarrow> str \<noteq> []"
  by (auto simp: convention_table_def)

lemma demangleImplConvention_reads: "reads k True (\<lambda>_. True) (demangleImplConvention_old ctxt)"
  unfolding demangleImplConvention_old_def by (auto intro!: reading_rules dest: convention_letters)

lemma demangleImplCalleeConvention_reads: "reads k True well_formed demangleImplCalleeConvention"
  unfolding demangleImplCalleeConvention_def on_if on_ok
  by (auto intro!: reading_rules reads_on_first [OF demangleImplConvention_reads] simp: text_kinds_def)

lemma demangleImplFunctionConvention_reads: "reads k True well_formed demangleImplFunctionConvention_old"
  unfolding demangleImplFunctionConvention_old_def
  by (auto intro!: reading_rules simp: old_impl_conventions_def node_shapes)

lemma demangleBuiltinType_reads: "reads k True well_formed demangleBuiltinType_old"
  unfolding demangleBuiltinType_old_def Let_def
  by (auto intro!: reading_rules reads_next simp: text_kinds_def)

lemmas leaf_on [reading_rules] =
  reads_on_first [OF demangleMetatypeRepresentation_reads] reads_post [OF demangleMetatypeRepresentation_reads]
  reads_on_first [OF demangleImplConvention_reads] reads_on_first [OF demangleImplCalleeConvention_reads]
  reads_on_first [OF demangleImplFunctionConvention_reads]
  reads_post [OF reads_weaken [OF demangleBuiltinType_reads]]

section \<open>The recursive productions\<close>

fun answer_ok :: "request \<Rightarrow> node \<Rightarrow> bool" where
  "answer_ok Ask_TypeImpl = well_formed"
| "answer_ok _ = (\<lambda>n. contextual n)"

definition answers :: "recursion_old \<Rightarrow> nat \<Rightarrow> bool" where
  "answers rec k \<longleftrightarrow> (\<forall>request depth. reads k True (answer_ok request) (rec request depth))"

lemma answers_less: "answers rec k \<Longrightarrow> j \<le> k \<Longrightarrow> answers rec j"
  by (auto simp: answers_def intro: reads_less)

lemma answers_reads: "answers rec k \<Longrightarrow> reads k True (answer_ok request) (rec request depth)"
  by (simp add: answers_def)

lemma answers_on:
  assumes "answers rec k"
  shows "(\<And>x. answer_ok request x \<Longrightarrow> reads k False R (f x)) \<Longrightarrow> reads k b R (on (rec request depth) f)"
    and "(\<And>x. answer_ok request x \<Longrightarrow> R x) \<Longrightarrow> reads k b R (rec request depth)"
  using answers_reads [OF assms] by (blast intro: reads_on_first, blast intro: reads_post reads_weaken)

lemma demangleType_reads: "answers rec k \<Longrightarrow> reads k True well_formed (demangleType_old rec depth)"
  unfolding demangleType_old_def build_simps by (rule answers_on) (auto intro!: reads_ok simp: node_shapes)

lemmas type_on [reading_rules] =
  reads_on_first [OF demangleType_reads] reads_post [OF reads_weaken [OF demangleType_reads]]

lemma demangleDeclarationName_reads:
  "answers rec k \<Longrightarrow> kind \<in> {K_Class, K_Structure, K_Enum, K_Protocol, K_TypeAlias} \<Longrightarrow>
    reads k True contextual (demangleDeclarationName rec kind depth)"
  unfolding demangleDeclarationName_def build_simps
  by (rule answers_on) (auto intro!: reading_rules simp: node_shapes)

lemma demangleProtocolNameGivenContext_reads:
  "contextual n \<Longrightarrow> reads k True contextual (demangleProtocolNameGivenContext n)"
  unfolding demangleProtocolNameGivenContext_def build_simps
  by (auto intro!: reading_rules simp: node_shapes)

lemmas declaration_on [reading_rules] =
  reads_on_first [OF demangleDeclarationName_reads] reads_post [OF reads_weaken [OF demangleDeclarationName_reads]]
  reads_on_first [OF demangleProtocolNameGivenContext_reads]
  reads_post [OF reads_weaken [OF demangleProtocolNameGivenContext_reads]]

lemma demangleProtocolName_reads: "answers rec k \<Longrightarrow> reads k True well_formed (demangleProtocolName rec depth)"
  unfolding demangleProtocolName_def demangleProtocolNameImpl_def build_simps
  by (auto intro!: reading_rules simp: node_shapes)

lemmas protocol_on [reading_rules] =
  reads_on_first [OF demangleProtocolName_reads] reads_post [OF reads_weaken [OF demangleProtocolName_reads]]

lemma demangleNominalType_reads:
  assumes "answers rec k"
  shows "reads (Suc k) True contextual (demangleNominalType rec depth)"
proof -
  have letters: "str \<noteq> [] \<and> kind \<in> {K_Class, K_Structure, K_Enum, K_Protocol, K_TypeAlias}"
    if "(str, kind) \<in> set nominal_kinds" for str kind
    using that by (auto simp: nominal_kinds_def)
  have "reads j b contextual (demangleDeclarationName rec kind d)"
    if "j < Suc k" "(str, kind) \<in> set nominal_kinds" for j b str kind d
    using that(1) letters [OF that(2)]
    by (auto intro!: reads_weaken [OF demangleDeclarationName_reads] answers_less [OF assms])
  then show ?thesis
    unfolding demangleNominalType_def
    by (intro reads_nextIf reads_on_take_from demangleSubstitutionIndex_reads) (use letters in auto)
qed

lemma nominal_on [reading_rules]:
  "answers rec k \<Longrightarrow> (\<And>x. contextual x \<Longrightarrow> reads k False R (f x)) \<Longrightarrow> reads k b R (on (demangleNominalType rec depth) f)"
  by (rule reads_on_first [OF reads_less [OF demangleNominalType_reads]]) auto

section \<open>Bound generic types\<close>

lemma bound_argument_reads:
  "answers rec k \<Longrightarrow>
    reads k True well_formed (on (demangleType_old rec depth) (\<lambda>type. do { e \<leftarrow> isEmpty; if e then fails else ok type }))"
  by (auto intro!: reading_rules)

lemma demangleBoundGenericLevel_reads:
  assumes "answers rec k" and n: "contextual n"
  shows "reads k False contextual (demangleBoundGenericLevel rec depth n)"
proof -
  have children: "fits K_Type 1" "fits K_TypeList m" for m
    by (simp_all add: node_shapes)
  have pair: "fits kind 2" if "kind \<in> {K_BoundGenericClass, K_BoundGenericStructure, K_BoundGenericEnum}" for kind
    using that by (auto simp: node_shapes)
  have bound: "contextual (Node kind [Node K_Type [n], Node K_TypeList args])"
    if "list_all well_formed args" "kind \<in> {K_BoundGenericClass, K_BoundGenericStructure, K_BoundGenericEnum}" for args kind
    using that pair [OF that(2)] children n by (simp add: numeral_2_eq_2)
  show ?thesis
    unfolding demangleBoundGenericLevel_def Let_def
    by (rule until_close_on [OF _ bound_argument_reads [OF assms(1)]])
      (auto intro!: old_reads_if reads_ok reads_fails bound simp: n simp del: well_formed.simps rebuildable.simps)
qed

lemma demangleBoundGenericLevel_any:
  "answers rec k \<Longrightarrow> reads k False (\<lambda>_. True) (demangleBoundGenericLevel rec depth n)"
  unfolding demangleBoundGenericLevel_def Let_def
  by (rule until_close_on [OF _ bound_argument_reads]) (auto intro!: old_reads_if reads_ok reads_fails)

lemma demangleBoundGenericArgs_any:
  "answers rec k \<Longrightarrow> reads k False (\<lambda>_. True) (demangleBoundGenericArgs rec n depth)"
proof (induction rec n depth rule: demangleBoundGenericArgs.induct)
  case (1 rec kind parent others depth)
  have "reads k False (\<lambda>_. True) (case others of [] \<Rightarrow> stuck_old None | name # _ \<Rightarrow> ok (Node kind [p, name]))" for p
    by (cases others) (simp_all add: reads_stuck_old reads_ok)
  then show ?case
    using 1 unfolding demangleBoundGenericArgs.simps
    by (intro reads_on_then [OF _ demangleBoundGenericLevel_any] old_reads_if reads_ok reads_on_then) auto
qed (simp_all add: reads_fails)

text \<open>The node that is rebuilt has two children, and a node with three may have two.\<close>

lemma demangleBoundGenericArgs_reads:
  "answers rec k \<Longrightarrow> contextual n \<Longrightarrow> reads k False contextual (demangleBoundGenericArgs rec n depth)"
proof (induction rec n depth rule: demangleBoundGenericArgs.induct)
  case (1 rec kind parent others depth)
  show ?case
  proof (cases "stops (getKind parent)")
    case True
    then show ?thesis
      using 1 unfolding demangleBoundGenericArgs.simps stops_def
      by (auto simp: on_ok intro: demangleBoundGenericLevel_reads)
  next
    case False
    then have inner: "reads k False contextual (demangleBoundGenericArgs rec parent (Suc depth))"
      if "others \<noteq> []"
      using 1 that by (auto simp: stops_def)
    show ?thesis
    proof (cases others)
      case Nil
      have "reads k False (\<lambda>_. True) (demangleBoundGenericArgs rec parent (Suc depth))"
        using 1(2) by (rule demangleBoundGenericArgs_any)
      then show ?thesis
        using Nil False by (auto simp: on_assoc stops_def on_stuck intro!: reads_on_then reads_stuck_old)
    next
      case (Cons name rest)
      then have "contextual (Node kind [p, name])" if "contextual p" for p
        using 1(3) that False by (simp add: numeral_2_eq_2)
      then show ?thesis
        using Cons False inner 1(2)
        by (auto simp: on_assoc on_ok stops_def intro!: reads_on_then [OF inner] demangleBoundGenericLevel_reads)
    qed
  qed
qed (simp_all add: reads_fails)

lemma demangleBoundGenericType_reads: "answers rec k \<Longrightarrow> reads k True contextual (demangleBoundGenericType rec depth)"
  unfolding demangleBoundGenericType_def by (auto intro!: nominal_on demangleBoundGenericArgs_reads)

section \<open>Dependent types and generic signatures\<close>

lemma demangleDependentMemberTypeName_reads:
  "answers rec k \<Longrightarrow> well_formed owner \<Longrightarrow> reads k True well_formed (demangleDependentMemberTypeName rec owner depth)"
  unfolding demangleDependentMemberTypeName_def Let_def build_simps
  by (auto intro!: reading_rules simp: node_shapes)

lemmas bound_generic_on [reading_rules] =
  reads_on_first [OF demangleBoundGenericType_reads] reads_post [OF reads_weaken [OF demangleBoundGenericType_reads]]

lemmas member_on [reading_rules] =
  reads_on_first [OF demangleDependentMemberTypeName_reads]
  reads_post [OF reads_weaken [OF demangleDependentMemberTypeName_reads]]

lemma demangleAssociatedTypeSimple_reads:
  "answers rec k \<Longrightarrow> reads k True well_formed (demangleAssociatedTypeSimple rec depth)"
  unfolding demangleAssociatedTypeSimple_def by (auto intro!: reading_rules simp: node_shapes)

lemma member_chain_reads:
  "answers rec k \<Longrightarrow> well_formed owner \<Longrightarrow> k < n \<Longrightarrow> reads k False well_formed (member_chain n rec owner depth)"
proof (induction n arbitrary: k owner)
  case (Suc n)
  have "reads j False well_formed (member_chain n rec x depth)" if "j < k" "well_formed x" for j x
    using that Suc.prems by (intro Suc.IH answers_less [OF Suc.prems(1)]) simp_all
  moreover have "well_formed (Node K_Type [owner])" using Suc.prems(2) by (simp add: node_shapes)
  ultimately show ?case
    using Suc.prems unfolding member_chain.simps
    by (intro reads_nextIf_same reads_ok reads_on_less [OF demangleDependentMemberTypeName_reads [OF Suc.prems(1)]]) simp_all
qed simp

lemma demangleAssociatedTypeCompound_reads:
  "answers rec k \<Longrightarrow> reads k True well_formed (demangleAssociatedTypeCompound rec depth)"
  unfolding demangleAssociatedTypeCompound_def
  by (rule reads_on_first [OF demangleGenericParamIndex_reads], rule reads_fuel, rule member_chain_reads)
    (auto intro: answers_less)

lemmas associated_on [reading_rules] =
  reads_on_first [OF demangleAssociatedTypeSimple_reads]
  reads_post [OF reads_weaken [OF demangleAssociatedTypeSimple_reads]]
  reads_on_first [OF demangleAssociatedTypeCompound_reads]
  reads_post [OF reads_weaken [OF demangleAssociatedTypeCompound_reads]]

lemma demangleDependentType_reads: "answers rec k \<Longrightarrow> reads k True well_formed (demangleDependentType rec depth)"
  unfolding demangleDependentType_def by (auto intro!: reading_rules)

lemma demangleConstrainedType_reads: "answers rec k \<Longrightarrow> reads k True well_formed (demangleConstrainedType rec depth)"
  unfolding demangleConstrainedType_def build_simps
  by (auto intro!: reading_rules simp: node_shapes)

lemma demangleLayout_reads: "well_formed n \<Longrightarrow> reads k False well_formed (demangleLayout n)"
proof -
  assume n: "well_formed n"
  have letters: "str \<noteq> []" if "(str, x) \<in> set (map (\<lambda>(name, p). (name, (name, p))) layouts)" for str x
    using that by (auto simp: layouts_def)
  have "well_formed (Node K_DependentGenericLayoutRequirement ([n, TextNode K_Identifier name] @ layout_numbers a b))"
    for name a b
    using n by (auto simp: layout_numbers_def node_shapes)
  then show ?thesis
    unfolding demangleLayout_def
    by (intro take_from_same) (use letters in \<open>auto simp: on_simps split del: if_split intro!: reading_rules\<close>)
qed

lemma demangleConstraint_reads: "answers rec k \<Longrightarrow> reads k False well_formed (demangleConstraint rec depth)"
  unfolding demangleConstraint_def build_simps
  by (auto intro!: reading_rules simp: node_shapes)

lemma demangleGenericRequirement_reads:
  "answers rec k \<Longrightarrow> reads k True well_formed (demangleGenericRequirement_old rec depth)"
  unfolding demangleGenericRequirement_old_def build_simps
  by (auto intro!: reads_on_first [OF demangleConstrainedType_reads] reads_on_then [OF demangleConstraint_reads]
      demangleLayout_reads reading_rules simp: node_shapes)

lemma param_counts_reads:
  "k < n \<Longrightarrow> list_all well_formed acc \<Longrightarrow>
    reads k False (\<lambda>(counts, count). list_all well_formed counts) (param_counts n acc count)"
proof (induction n arbitrary: k acc count)
  case (Suc n)
  let ?count = "do { z \<leftarrow> nextIf_old ''z''; if z then ok 0 else on demangleIndex_old (\<lambda>count. ok (count + 1)) }"
  have next_count: "reads k True (\<lambda>_. True) ?count"
    by (auto intro!: reading_rules)
  have rec: "reads j False (\<lambda>(counts, count). list_all well_formed counts)
      (param_counts n (acc @ [IndexNode K_DependentGenericParamCount count]) count)" if "j < k" for j count
    using that Suc.prems by (intro Suc.IH) (simp_all add: index_kinds_def)
  have step: "do { z \<leftarrow> nextIf_old ''z'';
      on (if z then ok 0 else on demangleIndex_old (\<lambda>count. ok (count + 1))) h } = on ?count h"
    for h :: "u64 \<Rightarrow> (node list \<times> u64) option om"
    by (simp add: on_bind)
  show ?case
    unfolding param_counts.simps step
    by (intro reads_prims old_reads_if reads_on_less [OF next_count] rec) (use Suc.prems in auto)
qed simp

lemma demangleGenericSignature_reads:
  assumes "answers rec k"
  shows "reads k True well_formed (demangleGenericSignature_old rec depth isPseudogeneric)"
proof -
  let ?kind = "if isPseudogeneric then K_DependentPseudogenericSignature else K_DependentGenericSignature"
  have signature: "well_formed (Node ?kind ns)" if "list_all well_formed ns" for ns
    using that by (simp add: node_shapes)
  have counts: "list_all well_formed (if c then ns @ [IndexNode K_DependentGenericParamCount 1] else ns)"
    if "list_all well_formed ns" for c ns
    using that by (simp add: index_kinds_def)
  have rest: "reads j True well_formed (do {
       r \<leftarrow> nextIf_old ''r'';
       if r then ok (Node ?kind counts)
       else do {
         R \<leftarrow> nextIf_old ''R'';
         if \<not> R then fails
         else on (until_close ''r'' (demangleGenericRequirement_old rec (depth + 1)))
                (\<lambda>requirements. ok (Node ?kind (counts @ requirements)))
       } })" if "list_all well_formed counts" "j \<le> k" for counts j
    by (intro reads_nextIf_same reads_expect reads_ok until_close_on [OF _ demangleGenericRequirement_reads]
        answers_less [OF assms] signature)
      (use that in simp_all)
  show ?thesis
    unfolding demangleGenericSignature_old_def Let_def
    by (rule reads_fuel, rule reads_on_then [OF param_counts_reads])
      (auto intro!: rest counts reads_prod split del: if_split)
qed

lemmas signature_on [reading_rules] =
  reads_on_first [OF demangleGenericSignature_reads] reads_post [OF reads_weaken [OF demangleGenericSignature_reads]]

section \<open>Contexts and entities\<close>

lemma demangleContext_reads:
  assumes H: "answers rec k" and entity: "\<And>d. reads (Suc k) True contextual (rec Ask_Entity d)"
  shows "reads (Suc k) True contextual (demangleContext rec depth)"
proof -
  note smaller = answers_less [OF H]
  have E: "reads j False contextual (build K_Extension [demangleModule_old, rec Ask_Context (depth + 1)])"
    if "j < Suc k" for j
    unfolding build_simps using smaller [of j] that
    by (auto intro!: reading_rules answers_on [OF smaller] simp: node_shapes is_module_def stops_def)
  have e: "reads j False contextual (on demangleModule_old (\<lambda>def_module.
        on (demangleGenericSignature_old rec (depth + 1) False) (\<lambda>sig.
        on (rec Ask_Context (depth + 1)) (\<lambda>type. ok (Node K_Extension [def_module, type, sig])))))"
    if "j < Suc k" for j
    using smaller [of j] that
    by (auto intro!: reading_rules answers_on [OF smaller] simp: node_shapes is_module_def stops_def)
  have G: "reads j False contextual (demangleBoundGenericType rec d)" if "j < Suc k" for j d
    using smaller [of j] that by (auto intro!: reading_rules)
  have module: "reads (Suc k) True contextual demangleModule_old"
    by (rule reads_post [OF demangleModule_reads]) (simp add: is_module_def)
  have stdlib: "contextual (TextNode K_Module STDLIB_NAME)" by (simp add: text_kinds_def)
  show ?thesis
    unfolding demangleContext_def
    by (intro reads_prims old_reads_if reads_nextIf E e G module entity demangleSubstitutionIndex_reads reads_ok) (use stdlib in auto)
qed

lemma demangleProtocolList_reads: "answers rec k \<Longrightarrow> reads k False well_formed (demangleProtocolList_old rec depth)"
  unfolding demangleProtocolList_old_def
  by (rule until_close_on [OF _ demangleProtocolName_reads]) (auto intro!: reads_ok simp: node_shapes)

lemma demangleProtocolConformance_reads:
  assumes "answers rec k"
  shows "reads k True well_formed (demangleProtocolConformance_old rec depth)"
  using assms unfolding demangleProtocolConformance_old_def build_simps
  by (auto intro!: reading_rules answers_on [OF assms] simp: node_shapes)

lemmas protocol_list_on [reading_rules] =
  reads_post [OF demangleProtocolList_reads]
  reads_on_first [OF demangleProtocolConformance_reads]
  reads_post [OF reads_weaken [OF demangleProtocolConformance_reads]]

text \<open>How many children an entity of a kind has, by its form.\<close>

definition entity_fits :: "entity_name \<Rightarrow> bool" where
  "entity_fits e \<longleftrightarrow>
     (case name_of e of
        None \<Rightarrow> fits (entityKind e) (if hasType e then 2 else 1)
      | Some n \<Rightarrow>
          contextual n \<and> (if wrapEntity e then hasType e \<and> fits (entityKind e) 1
                        else fits (entityKind e) (if hasType e then 3 else 2) \<and> fits (entityKind e) 2))"

definition form_fits :: "string \<times> Kind \<times> entity_form \<Rightarrow> bool" where
  "form_fits = (\<lambda>(str, kind, form). str \<noteq> [] \<and>
     (case form of
        Untyped \<Rightarrow> fits kind 1 | Typed \<Rightarrow> fits kind 2 | Accessor \<Rightarrow> fits kind 1
      | Closure \<Rightarrow> fits kind 2 \<and> fits kind 3
      | Addressor \<Rightarrow> list_all (\<lambda>(str, kind). str \<noteq> [] \<and> fits kind 1) (addressor_kinds kind)))"

lemma entity_names_fit: "(str, kind, form) \<in> set entity_names \<Longrightarrow> form_fits (str, kind, form)"
proof -
  have "list_all form_fits entity_names"
    by (simp add: entity_names_def form_fits_def addressor_kinds_def node_shapes)
  then show "(str, kind, form) \<in> set entity_names \<Longrightarrow> form_fits (str, kind, form)"
    by (simp add: list_all_iff)
qed

lemma unnamed_entity_reads:
  "fits kind (if typed then 2 else 1) \<Longrightarrow> reads k False entity_fits (unnamed_entity kind typed)"
  by (auto simp: unnamed_entity_def entity_fits_def intro!: reads_ok)

lemma named_entity_reads:
  assumes "reads k True contextual m"
    and "if wrap then typed \<and> fits kind 1 else fits kind (if typed then 3 else 2) \<and> fits kind 2"
  shows "reads k b entity_fits (named_entity kind typed wrap m)"
  unfolding named_entity_def using assms(2)
  by (intro reads_on_first [OF assms(1)] reads_ok) (auto simp: entity_fits_def)

lemma demangleEntityName_reads:
  assumes "kind \<in> {K_Function, K_Variable, K_Initializer, K_Subscript}"
  shows "reads k False entity_fits (demangleEntityName kind)"
proof -
  note leaves = named_entity_reads [OF demangleDeclName_reads] named_entity_reads [OF demangleIndexAsNode_reads]
    unnamed_entity_reads
  have some: "reads j False entity_fits
      (case f of
            Untyped \<Rightarrow> unnamed_entity kind False
          | Typed \<Rightarrow> unnamed_entity kind True
          | Accessor \<Rightarrow> named_entity kind True True demangleDeclName_old
          | Addressor \<Rightarrow> on (take_from (addressor_kinds kind)) (\<lambda>kind. named_entity kind True True demangleDeclName_old)
          | Closure \<Rightarrow> named_entity kind True False demangleIndexAsNode_old)"
    if "form_fits (str, kind, f)" for j str kind f
    using that
    by (cases f) (auto simp: form_fits_def list_all_iff intro!: leaves take_from_same)
  have none: "fits kind 3 \<and> fits kind 2" if "kind \<noteq> K_Initializer"
    using assms that by (auto simp: node_shapes)
  have initializer: "fits K_DefaultArgumentInitializer 2" "fits K_Initializer 1" by (simp_all add: node_shapes)
  show ?thesis
    unfolding demangleEntityName_def
    apply (rule reads_take_from)
    subgoal for str x
      by (cases x) (auto dest!: entity_names_fit simp: form_fits_def)
    subgoal for j str x
      by (cases x) (auto dest!: entity_names_fit intro: some)
    subgoal
      using none initializer by (auto intro!: leaves old_reads_if reads_nextIf_same reads_fails)
    done
qed

lemma subscript_name_contextual:
  "contextual n \<Longrightarrow> subscript_name n = Some (Some n') \<Longrightarrow> well_formed n'"
  by (cases n) (auto simp: subscript_name_def node_shapes split: if_splits list.splits)

lemma wrapped_entity_well_formed:
  "contextual c \<Longrightarrow> contextual n \<Longrightarrow> well_formed t \<Longrightarrow> well_formed (wrapped_entity c n [t]) \<and> rebuildable (wrapped_entity c n [t])"
  using subscript_name_contextual [of n] by (auto simp: wrapped_entity_def node_shapes split: option.splits)

lemma entity_contextual:
  assumes c: "contextual c" and e: "entity_fits e" and ts: "list_all well_formed types"
    and n: "length types = (if hasType e then 1 else 0)"
  shows "contextual (Node (entityKind e) (entity_children c e types))"
proof (cases "hasType e")
  case True
  then obtain t where "types = [t]" using n by (cases types) auto
  then show ?thesis
    using c e ts True wrapped_entity_well_formed [of c _ t]
    by (auto simp: entity_fits_def entity_children_def numeral_2_eq_2 numeral_3_eq_3 split: option.splits if_splits)
next
  case False
  then show ?thesis
    using c e ts n by (auto simp: entity_fits_def entity_children_def numeral_2_eq_2 split: option.splits if_splits)
qed

lemma static_contextual: "contextual n \<Longrightarrow> contextual (Node K_Static [n])"
  by (simp add: node_shapes)

lemma demangleEntity_reads:
  assumes H: "answers rec k"
  shows "reads (Suc k) True contextual (demangleEntity_old rec depth)"
proof -
  have types: "reads j False (\<lambda>ts. list_all well_formed ts \<and> length ts = (if hasType e then 1 else 0))
      (if hasType e then all_of [demangleType_old rec d] else ok [])" if "j \<le> k" for j d e
    using answers_less [OF H that] by (auto simp: on_simps intro!: reading_rules)
  have letters: "str \<noteq> [] \<and> kind \<in> {K_Function, K_Variable, K_Initializer, K_Subscript}"
    if "(str, kind) \<in> set entity_kinds" for str kind
    using that by (auto simp: entity_kinds_def)
  have body: "reads j False contextual
      (on (rec Ask_Context d) (\<lambda>context_node.
       on (demangleEntityName kind) (\<lambda>e.
       on (if hasType e then all_of [demangleType_old rec d] else ok []) (\<lambda>types.
       let entity = Node (entityKind e) (entity_children context_node e types) in
       ok (if isStatic then Node K_Static [entity] else entity)))))"
    if "j \<le> k" "(str, kind) \<in> set entity_kinds" for j d str kind isStatic
    unfolding Let_def
    by (intro answers_on(1) [OF answers_less [OF H that(1)]] reads_on_then [OF demangleEntityName_reads]
        reads_on_then [OF types] reads_ok)
      (use that letters entity_contextual static_contextual in auto)
  show ?thesis
    unfolding demangleEntity_old_def
    by (intro old_reads_if reads_fails reads_bind [OF runs_nextIf] reads_take_from reads_option body
        demangleNominalType_reads [OF H]) (use letters in auto)
qed

section \<open>Archetypes and tuples\<close>

lemma makeAssociatedType_reads: "contextual n \<Longrightarrow> reads k True contextual (makeAssociatedType n)"
  unfolding makeAssociatedType_def build_simps by (auto intro!: reading_rules simp: node_shapes)

lemma demangleArchetypeType_reads:
  assumes H: "answers rec k"
  shows "reads (Suc k) True contextual (demangleArchetypeType rec depth)"
proof -
  have Q: "reads j False contextual (on (rec Ask_Archetype d) makeAssociatedType)" if "j < Suc k" for j d
    by (rule answers_on(1) [OF answers_less [OF H]]) (use that in \<open>auto intro: reads_weaken makeAssociatedType_reads\<close>)
  have "contextual (TextNode K_Module STDLIB_NAME)" by (simp add: text_kinds_def)
  then show ?thesis
    unfolding demangleArchetypeType_def
    by (intro reads_nextIf Q reads_on_then [OF demangleSubstitutionIndex_reads] reads_weaken [OF makeAssociatedType_reads]
        reads_fails) auto
qed

lemma demangleTupleElement_reads:
  "answers rec k \<Longrightarrow> reads k True (\<lambda>n. well_formed n \<and> getKind n = K_TupleElement \<and> length (getChildren n) \<le> 2)
    (demangleTupleElement rec depth)"
proof -
  have label: "reads k True well_formed (demangleIdentifier_old (Some K_TupleElementName))" for k
    by (rule reads_post [OF demangleIdentifier_reads]) (auto simp: is_identifier_def text_kinds_def)
  assume "answers rec k"
  then show ?thesis
    unfolding demangleTupleElement_def
    by (auto simp: build_simps node_shapes intro!: reading_rules reads_on_first [OF label])
qed

lemma mark_variadic_well_formed:
  "list_all (\<lambda>n. well_formed n \<and> getKind n = K_TupleElement \<and> length (getChildren n) \<le> 2) ns
    \<Longrightarrow> list_all well_formed (mark_variadic ns)"
  by (cases ns rule: rev_cases)
    (auto simp: mark_variadic_def node_shapes list_all_iff split: list.splits elim!: getKind.elims)

lemma demangleTuple_reads: "answers rec k \<Longrightarrow> reads k False well_formed (demangleTuple isV rec depth)"
  unfolding demangleTuple_def
  by (rule until_close_on [OF _ demangleTupleElement_reads])
    (auto intro!: reads_ok mark_variadic_well_formed elim: list.pred_mono_strong simp: node_shapes)

end
