(* ===== verification/Old_Progress.thy ===== *)
theory Old_Progress
  imports Old_Productions
begin

text \<open>
  The triples of the rest of the productions of \<open>OldDemangler\<close>, of the knot that ties them, and what follows
  for \<open>demangleOldSymbolAsNode\<close>: it never runs out of fuel, and the trees it returns are well formed.
\<close>

section \<open>Function types\<close>

lemma drop_eq_Cons_length: "drop n xs = y # ys \<Longrightarrow> length ys \<le> length xs"
  by (drule arg_cong [where f = length]) simp

lemma demangleDifferentiability_runs: "runs k (\<lambda>cs. length cs \<le> 1) demangleDifferentiability_old"
  by (auto dest: drop_eq_Cons_length simp: runs_def demangleDifferentiability_old_def next_old_def nextIf_old_def stuck_old_def sound_old_def
      split: if_splits list.splits)

definition function_kinds_old :: "Kind list" where
  "function_kinds_old =
     [K_ObjCBlock, K_CFunctionPointer, K_FunctionType, K_UncurriedFunctionType, K_AutoClosureType, K_ThinFunctionType]"

lemma function_node_well_formed:
  assumes "kind \<in> set function_kinds_old" and "length cs \<le> 1" and "list_all well_formed actor" and "length actor \<le> 1"
    and "well_formed a" and "well_formed r"
  shows "well_formed (Node kind
    (if_flag b1 K_ThrowsAnnotation @ if_flag b2 K_AsyncAnnotation @ if_flag b3 K_ConcurrentFunctionType
     @ map (\<lambda>c. IndexNode K_DifferentiableFunctionType (word_of_nat (ord c))) cs @ actor @ [a, r]))"
proof -
  have "fits kind n \<longleftrightarrow> 2 \<le> n \<and> n \<le> 7" for n
    using assms(1) by (auto simp: function_kinds_old_def node_shapes)
  moreover have "list_all well_formed (if_flag b k)" if "k \<in> set leaf_kinds" for b k
    using that by (simp add: if_flag_def fits_def)
  moreover have "length (if_flag b1 K_ThrowsAnnotation) + (length (if_flag b2 K_AsyncAnnotation)
      + (length (if_flag b3 K_ConcurrentFunctionType) + (length cs + length actor))) \<le> 5"
    using assms(2,4) by (simp add: if_flag_def)
  moreover have "list_all well_formed (map (\<lambda>c. IndexNode K_DifferentiableFunctionType (word_of_nat (ord c))) cs)"
    by (simp add: list_all_iff index_kinds_def)
  moreover have "{K_ThrowsAnnotation, K_AsyncAnnotation, K_ConcurrentFunctionType} \<subseteq> set leaf_kinds"
    by (simp add: leaf_kinds_def)
  ultimately show ?thesis
    using assms(3,5,6) by simp
qed

lemma demangleFunctionType_reads:
  assumes H: "answers rec k" and "kind \<in> set function_kinds_old"
  shows "reads k True well_formed (demangleFunctionType rec kind depth)"
proof -
  have actor: "reads k False (\<lambda>ns. list_all well_formed ns \<and> length ns \<le> 1)
      (if Y then all_of [build K_GlobalActorFunctionType [demangleType_old rec d]] else ok [])" for Y d
    using H by (auto simp: build_simps node_shapes intro!: reading_rules)
  have tuple: "reads k True well_formed (build kind' [demangleType_old rec d])" if "kind' \<in> set single_kinds" for kind' d
    using H that unfolding build_simps by (auto simp: fits_def leaf_kinds_def single_kinds_def intro!: reading_rules)
  have kinds: "K_ArgumentTuple \<in> set single_kinds" "K_ReturnType \<in> set single_kinds" by (simp_all add: single_kinds_def)
  show ?thesis
    unfolding demangleFunctionType_def
    by (intro reads_bind [OF runs_nextIf] reads_bind [OF demangleDifferentiability_runs] reads_on_then [OF actor]
        reads_on_first [OF tuple] reads_on_then [OF reads_weaken [OF tuple]] reads_ok function_node_well_formed)
      (use assms kinds in auto)
qed

lemma demangleImplParameterOrResult_reads:
  assumes "answers rec k" and "kind \<in> {K_ImplParameter, K_ImplResult}"
  shows "reads k True well_formed (demangleImplParameterOrResult rec kind depth)"
proof -
  have "fits (if z then K_ImplErrorResult else kind) 2" for z
    using assms(2) by (cases z) (auto simp: node_shapes)
  then have "well_formed (Node (if z then K_ImplErrorResult else kind) [TextNode K_ImplConvention c, n])"
    if "well_formed n" for z c n
    using that by (simp add: numeral_2_eq_2 text_kinds_def)
  then show ?thesis
    unfolding demangleImplParameterOrResult_def build_simps
    by (intro reads_bind [OF runs_nextIf] old_reads_if reads_fails reads_on_first [OF demangleImplConvention_reads]
        reads_on_then [OF reads_weaken [OF demangleType_reads [OF assms(1)]]] reads_ok) auto
qed

lemma demangleImplAttribute_runs: "runs k (list_all well_formed) (demangleImplAttribute_old letter attr)"
  by (auto simp: runs_def demangleImplAttribute_old_def nextIf_old_def sound_old_def text_kinds_def split: if_splits)

lemma demangleImplFunctionType_reads:
  assumes H: "answers rec k"
  shows "reads k True well_formed (demangleImplFunctionType_old rec depth)"
proof -
  have convention: "reads k False (list_all well_formed) (if C then all_of [demangleImplFunctionConvention_old] else ok [])"
    for C by (auto simp: on_simps intro!: reading_rules)
  have generics: "reads k False (list_all well_formed) (case g of
      None \<Rightarrow> ok [] | Some isPseudogeneric \<Rightarrow> all_of [demangleGenericSignature_old rec d isPseudogeneric])" for g d
    using H by (auto simp: on_simps intro!: reading_rules)
  have whole: "well_formed (Node K_ImplFunctionType ([callee] @ convention @ sendable @ async @ generics @ ps @ rs))"
    if "well_formed callee" "list_all well_formed (convention @ sendable @ async @ generics @ ps @ rs)"
    for callee convention sendable async generics ps rs
    using that by (simp add: node_shapes)
  have parameters: "reads k True well_formed (demangleImplParameterOrResult rec kind d)"
    if "kind \<in> {K_ImplParameter, K_ImplResult}" for kind d
    using H that by (rule demangleImplParameterOrResult_reads)
  have take: "runs k (\<lambda>_. True) (take_from alternatives)" for alternatives :: "(string \<times> bool) list"
    by (auto simp: runs_def sound_old_def dest!: take_from_run split: option.splits)
  show ?thesis
    unfolding demangleImplFunctionType_old_def
    by (intro reads_on_first [OF demangleImplCalleeConvention_reads] reads_bind [OF runs_nextIf] reads_on_then [OF convention]
        reads_bind [OF demangleImplAttribute_runs] reads_bind [OF take] reads_on_then [OF generics] old_reads_if reads_fails
        until_close_on [OF _ parameters] reads_ok whole) auto
qed

lemmas function_on [reading_rules] =
  reads_post [OF reads_weaken [OF demangleFunctionType_reads]]
  reads_post [OF reads_weaken [OF demangleImplFunctionType_reads]]

section \<open>Types and the knot\<close>

lemma single_fits: "kind \<in> set single_kinds \<Longrightarrow> fits kind (Suc 0)"
  by (auto simp: single_kinds_def fits_def leaf_kinds_def)

lemma build_type_reads:
  "answers rec k \<Longrightarrow> kind \<in> set single_kinds \<Longrightarrow> reads k True well_formed (build kind [demangleType_old rec depth])"
  unfolding build_simps by (auto intro!: reading_rules single_fits)

lemma demangleBoxField_reads: "answers rec k \<Longrightarrow> reads k True well_formed (demangleBoxField rec depth)"
  unfolding demangleBoxField_def build_simps by (auto intro!: reading_rules simp: node_shapes)

lemma demangleBoxLayout_reads:
  assumes H: "answers rec k"
  shows "reads k False well_formed (demangleBoxLayout rec depth)"
proof -
  have signature: "reads k False (\<lambda>ns. list_all well_formed ns \<and> length ns \<le> 1)
      (if G then all_of [demangleGenericSignature_old rec d False] else ok [])" for G d
    using H by (auto simp: on_simps intro!: reading_rules)
  have args: "reads k False (\<lambda>ns. list_all well_formed ns \<and> length ns \<le> 1)
      (if G then on (until_close ''_'' (demangleType_old rec d)) (\<lambda>types. ok [Node K_TypeList types]) else ok [])" for G d
    by (intro old_reads_if until_close_on [OF _ demangleType_reads [OF H]] reads_ok) (auto simp: node_shapes)
  have "well_formed (Node K_SILBoxTypeWithLayout ([Node K_SILBoxLayout fields] @ ss @ as))"
    if "list_all well_formed fields" "list_all well_formed ss \<and> length ss \<le> 1" "list_all well_formed as \<and> length as \<le> 1"
    for fields ss as
    using that by (simp add: node_shapes)
  then show ?thesis
    unfolding demangleBoxLayout_def
    by (intro reads_bind [OF runs_nextIf] reads_on_then [OF signature] until_close_on [OF _ demangleBoxField_reads [OF H]]
        reads_on_then [OF args] reads_ok) auto
qed

lemma demangleMetatype_reads:
  "answers rec k \<Longrightarrow> kind \<in> {K_Metatype, K_ExistentialMetatype} \<Longrightarrow> reads k True well_formed (demangleMetatype_old rec kind depth)"
  unfolding demangleMetatype_old_def build_simps by (auto intro!: reading_rules simp: node_shapes)

lemma demangleTypeX_reads: "answers rec k \<Longrightarrow> reads k False well_formed (demangleTypeX rec depth)"
proof -
  assume H: "answers rec k"
  note type = reads_weaken [OF build_type_reads] and metatype = reads_weaken [OF demangleMetatype_reads]
    and thin = reads_weaken [OF demangleFunctionType_reads] and lowered = reads_weaken [OF demangleImplFunctionType_reads]
  have kinds: "K_ThinFunctionType \<in> set function_kinds_old"
    "{K_SILBoxType, K_Unowned, K_Unmanaged, K_Weak} \<subseteq> set single_kinds"
    by (simp_all add: function_kinds_old_def single_kinds_def)
  show ?thesis
    unfolding demangleTypeX_def
    by (intro reads_take_from reads_option old_reads_if reads_nextIf_same type demangleBoxLayout_reads metatype
        demangleProtocolList_reads thin lowered answers_less [OF H] reads_fails) (use kinds in auto)
qed

lemma demangleTypeLetter_reads:
  assumes H: "answers rec k"
  shows "reads k False well_formed (demangleTypeLetter rec depth c)"
proof -
  note type = reads_weaken [OF build_type_reads] and arrow = reads_weaken [OF demangleFunctionType_reads]
    and member = reads_weaken [OF demangleAssociatedTypeSimple_reads] reads_weaken [OF demangleAssociatedTypeCompound_reads]
      reads_weaken [OF demangleDependentType_reads]
    and builtin = reads_weaken [OF demangleBuiltinType_reads]
  have contextual: "reads k False well_formed m" if "reads k b contextual m" for m b
    using that by (auto intro: reads_post reads_weaken simp: reads_def outcome_def)
  note declared = contextual [OF demangleDeclarationName_reads] contextual [OF demangleBoundGenericType_reads]
    and substitution = contextual [OF demangleSubstitutionIndex_reads]
  have inner: "reads k False well_formed (build kind [rec Ask_TypeImpl d])" if "kind \<in> {K_InOut, K_NoDerivative}" for kind d
    unfolding build_simps by (rule answers_on [OF H]) (use that in \<open>auto simp: node_shapes intro!: reads_ok\<close>)
  have archetype: "reads k False well_formed (rec Ask_Archetype d)" for d
    by (rule answers_on [OF H]) simp
  have generic: "reads k False well_formed
      (build K_DependentGenericType [demangleGenericSignature_old rec d False, demangleType_old rec d])" for d
    unfolding build_simps using H by (auto intro!: reading_rules simp: node_shapes)
  have kinds: "set (map snd function_letters) \<subseteq> set function_kinds_old"
    "{K_DynamicSelf, K_Metatype, K_ExistentialMetatype} \<subseteq> set single_kinds \<union> {K_Metatype, K_ExistentialMetatype}"
    by (simp_all add: function_letters_def function_kinds_old_def single_kinds_def)
  have leaves: "well_formed (TextNode K_ErrorType [])" "well_formed (Node K_OpaqueReturnType [])"
    "well_formed (getDependentGenericParamType_old 0 0)"
    using generic_param_contextual by (simp_all add: node_shapes)
  have metatypes: "reads k False well_formed (build kind [demangleType_old rec d])"
    if "kind \<in> {K_Metatype, K_ExistentialMetatype}" for kind d
    unfolding build_simps using H that by (auto intro!: reading_rules simp: node_shapes)
  have self: "K_DynamicSelf \<in> set single_kinds" by (simp add: single_kinds_def)
  have nominal: "nominalTypeMarkerToNodeKind c \<in> {K_Class, K_Structure, K_Enum, K_Protocol, K_TypeAlias}"
    if "isStartOfNominalType c"
    using that by (auto simp: isStartOfNominalType_def nominalTypeMarkerToNodeKind_def)
  have letters: "kind \<in> set function_kinds_old" if "map_of function_letters c = Some kind" for kind
    using kinds(1) map_of_SomeD [OF that] by force
  show ?thesis
    unfolding demangleTypeLetter_def
    by (intro old_reads_if reads_option reads_expect reads_nextIf_same reads_fails reads_ok member [OF H] builtin metatypes
        declared [OF H] substitution arrow [OF H] type [OF H] demangleTypeX_reads [OF H] demangleTuple_reads [OF H]
        demangleProtocolList_reads [OF H] inner archetype generic leaves)
      (use letters nominal self in auto)
qed

lemma demangleTypeImpl_reads:
  assumes H: "answers rec k"
  shows "reads (Suc k) True well_formed (demangleTypeImpl rec depth)"
proof (cases "depth > OldMaxDepth")
  case True
  then show ?thesis unfolding demangleTypeImpl_def by (auto intro!: reads_prims)
next
  case False
  then show ?thesis
    unfolding demangleTypeImpl_def
    using reads_next [of "Suc k" well_formed "demangleTypeLetter rec depth" True]
      demangleTypeLetter_reads [OF answers_less [OF H]] by simp
qed

text \<open>A context may go on to an entity without reading, and so has the greater rank.\<close>

fun rank :: "request \<Rightarrow> nat" where
  "rank Ask_Context = 2"
| "rank _ = 1"

lemma take_from_at_end: "Mangled s = [] \<Longrightarrow> \<forall>x \<in> set alternatives. fst x \<noteq> [] \<Longrightarrow> run_state (take_from alternatives) s = (None, s)"
  by (induction alternatives) (auto simp: take_from.simps nextIf_old_def startswith_def)

lemma old_rec_at_end:
  "Mangled s = [] \<Longrightarrow> run_state (old_rec (Suc n) request depth) s = (None, s)"
  by (cases request)
    (auto simp: demangleTypeImpl_def demangleContext_def demangleEntity_old_def demangleArchetypeType_def
      demangleNominalType_def old_run isEmpty_def nextIf_old_def startswith_def take_from_at_end
      entity_kinds_def nominal_kinds_def)

theorem old_rec_reads: "2 * k + rank request \<le> n \<Longrightarrow> reads k True (answer_ok request) (old_rec n request depth)"
proof (induction n arbitrary: k request depth)
  case 0
  then show ?case by (cases request) auto
next
  case (Suc n)
  show ?case
  proof (cases k)
    case 0
    then show ?thesis by (intro old_readsI) (simp add: old_rec_at_end outcome_def del: old_rec.simps)
  next
    case (Suc j)
    have rank: "rank r \<le> 2" "0 < rank r" for r by (cases r; simp)+
    have H: "answers (old_rec n) j"
      unfolding answers_def
    proof (intro allI Suc.IH)
      show "2 * j + rank r \<le> n" for r
        using Suc.prems Suc rank [of r] rank [of request] by linarith
    qed
    show ?thesis
    proof (cases request)
      case Ask_Context
      have "reads (Suc j) True contextual (old_rec n Ask_Entity d)" for d
        using Suc.IH [of "Suc j" Ask_Entity d] Suc.prems Suc Ask_Context by simp
      then show ?thesis using H Suc Ask_Context by (simp add: demangleContext_reads)
    qed (use H Suc in \<open>simp_all add: demangleTypeImpl_reads demangleEntity_reads demangleArchetypeType_reads\<close>)
  qed
qed

corollary old_rec_answers: "2 * k + 2 \<le> n \<Longrightarrow> answers (old_rec n) k"
  unfolding answers_def
proof (intro allI old_rec_reads)
  show "2 * k + 2 \<le> n \<Longrightarrow> 2 * k + rank r \<le> n" for r
    by (cases r) simp_all
qed

section \<open>Specializations\<close>

lemma demangleGenericSpecialization_reads:
  assumes H: "answers rec k"
  shows "reads k False (list_all well_formed) (demangleGenericSpecialization_old rec depth)"
proof -
  have "well_formed (Node K_GenericSpecializationParam (n # ns))" if "well_formed n" "list_all well_formed ns" for n ns
    using that by (simp add: node_shapes)
  then have param: "reads k True well_formed
      (on (demangleType_old rec d) (\<lambda>type.
       on (until_close ''_'' (demangleProtocolConformance_old rec d)) (\<lambda>conformances.
       ok (Node K_GenericSpecializationParam (type # conformances)))))" for d
    by (intro reads_on_first [OF demangleType_reads [OF H]]
        until_close_on [OF _ demangleProtocolConformance_reads [OF H]] reads_ok) auto
  show ?thesis
    unfolding demangleGenericSpecialization_old_def
    by (intro old_reads_if reads_fails until_close_reads param) auto
qed

lemma payload_well_formed: "well_formed (param_kind kind)" "well_formed (param_payload t)"
  by (simp_all add: param_kind_def param_payload_def text_kinds_def index_kinds_def)

lemma identifier_payload_reads: "reads k True (list_all well_formed) (identifier_payload kind ts)"
  unfolding identifier_payload_def
  by (rule reads_on_first [OF demangleIdentifier_any], rule reads_expect)
    (auto intro!: reads_ok reads_stuck_old simp: payload_well_formed list_all_iff split: node.splits)

lemma readUntil_reads: "reads k False (\<lambda>_. True) (readUntil c)"
  by (rule old_readsI, rule outcomeI) (auto simp: readUntil_def sound_old_def length_dropWhile_le)

lemma number_payload_reads: "reads k True (list_all well_formed) (number_payload kind)"
  unfolding number_payload_def
  by (rule reads_on_then [OF readUntil_reads]) (auto intro!: reading_rules simp: payload_well_formed)

lemma string_payload_reads: "reads k True (list_all well_formed) string_payload"
  unfolding string_payload_def
  by (auto intro!: reading_rules reads_weaken [OF identifier_payload_reads])

lemma demangleConstantProp_reads: "reads k True (list_all well_formed) demangleFuncSigSpecializationConstantProp"
  unfolding demangleFuncSigSpecializationConstantProp_def
  by (rule take_from_same)
    (auto intro!: old_reads_if reads_weaken [OF identifier_payload_reads] reads_weaken [OF number_payload_reads]
      reads_weaken [OF string_payload_reads])

lemma runsD:
  "runs k Q m \<Longrightarrow> length (Mangled s) \<le> k \<Longrightarrow> sound_old s \<Longrightarrow> run_state m s = (x, t) \<Longrightarrow>
    sound_old t \<and> length (Mangled t) \<le> length (Mangled s) \<and> Q x"
  by (simp add: runs_def)

lemma closure_types_runs:
  "answers rec k \<Longrightarrow> k < n \<Longrightarrow> list_all well_formed acc \<Longrightarrow> runs k (list_all well_formed) (closure_types_old n rec depth acc)"
proof (induction n arbitrary: k acc)
  case (Suc n)
  show ?case
    unfolding runs_def
  proof (intro allI impI, elim conjE)
    fix s x t
    assume s: "length (Mangled s) \<le> k" "sound_old s"
      and run: "run_state (closure_types_old (Suc n) rec depth acc) s = (x, t)"
    obtain r u where u: "run_state (demangleType_old rec (Suc depth)) s = (r, u)" by fastforce
    have out: "outcome True well_formed s (r, u)"
      using readsD [OF demangleType_reads [OF Suc.prems(1)] s] u by metis
    show "sound_old t \<and> length (Mangled t) \<le> length (Mangled s) \<and> list_all well_formed x"
    proof (cases "r = None \<or> (case Mangled s of [] \<Rightarrow> CHR ''.'' | c # _ \<Rightarrow> c) = CHR ''_''")
      case True
      then show ?thesis
        using run u out s Suc.prems(3) by (auto simp: old_run peek_def outcome_def split: if_splits)
    next
      case False
      then obtain n' where n': "r = Some n'" by auto
      then have less: "length (Mangled u) < length (Mangled s)" "well_formed n'" "sound_old u"
        using out by (auto simp: outcome_def)
      have ih: "runs (length (Mangled u)) (list_all well_formed) (closure_types_old n rec depth (acc @ [n']))"
        using less s Suc.prems by (intro Suc.IH answers_less [OF Suc.prems(1)]) auto
      have "run_state (closure_types_old n rec depth (acc @ [n'])) u = (x, t)"
        using False n' run u by (simp add: old_run peek_def)
      then have "sound_old t \<and> length (Mangled t) \<le> length (Mangled u) \<and> list_all well_formed x"
        by (rule runsD [OF ih _ less(3), rotated]) simp
      then show ?thesis using less by simp
    qed
  qed
qed simp

lemma runs_fuel_then:
  assumes f: "\<And>j. j \<le> k \<Longrightarrow> runs j Q (f (Suc j))"
  shows "runs k Q (do { n \<leftarrow> fuel; f n })"
  unfolding runs_def
proof (intro allI impI, elim conjE)
  fix s x t
  assume s: "length (Mangled s) \<le> k" "sound_old s" and "run_state (do { n \<leftarrow> fuel; f n }) s = (x, t)"
  then have "run_state (f (Suc (length (Mangled s)))) s = (x, t)" by (simp add: fuel_def old_run)
  then show "sound_old t \<and> length (Mangled t) \<le> length (Mangled s) \<and> Q x"
    by (rule runsD [OF f [OF s(1)] order_refl s(2)])
qed

lemma demangleClosureProp_reads:
  assumes H: "answers rec k"
  shows "reads k True (list_all well_formed) (demangleFuncSigSpecializationClosureProp rec depth)"
proof -
  have types: "runs k (list_all well_formed) (do { n \<leftarrow> fuel; closure_types_old n rec depth [] })"
    by (rule runs_fuel_then, rule closure_types_runs) (auto intro: answers_less [OF H])
  have "reads k False (list_all well_formed) (do {
      n \<leftarrow> fuel;
      types \<leftarrow> closure_types_old n rec depth [];
      u \<leftarrow> nextIf_old ''_'';
      if u then ok ([param_kind FSS_ClosureProp, param_payload t] @ types) else fails
    })" for t
    using reads_bind [OF types, of False "list_all well_formed" "\<lambda>types. do {
      u \<leftarrow> nextIf_old ''_'';
      if u then ok ([param_kind FSS_ClosureProp, param_payload t] @ types) else fails }"]
    by (simp add: payload_well_formed reads_nextIf_same reads_ok reads_fails)
  then show ?thesis
    unfolding demangleFuncSigSpecializationClosureProp_def
    by (intro reads_on_first [OF demangleIdentifier_any]) (auto intro: reads_stuck_old split: node.splits)
qed

lemma option_set_runs: "runs k (\<lambda>_. True) (option_set options Value)"
proof (induction options arbitrary: Value)
  case (Cons a options)
  show ?case
    unfolding runs_def
  proof (intro allI impI, elim conjE)
    fix s x t
    obtain letter flag where a: "a = (letter, flag)" by fastforce
    assume s: "length (Mangled s) \<le> k" "sound_old s" and run: "run_state (option_set (a # options) Value) s = (x, t)"
    obtain b u where u: "run_state (nextIf_old letter) s = (b, u)" by fastforce
    with s have u': "sound_old u \<and> length (Mangled u) \<le> length (Mangled s) \<and> True"
      by (intro runsD [OF runs_nextIf])
    have "run_state (option_set options (if b then Value OR flag else Value)) u = (x, t)"
      using run u a by simp
    then have "sound_old t \<and> length (Mangled t) \<le> length (Mangled u) \<and> True"
      by (rule runsD [OF Cons.IH, rotated -1]) (use u' s in auto)
    then show "sound_old t \<and> length (Mangled t) \<le> length (Mangled s) \<and> True"
      using u' by simp
  qed
qed (simp add: runs_give)

lemma demangleOptionSet_reads: "reads k True (list_all well_formed) demangleOptionSet"
  unfolding demangleOptionSet_def
proof (rule reads_bind [OF option_set_runs])
  fix Value
  have "(\<lambda>u. if \<not> u \<or> Value = 0 then fails else ok [param_kind Value])
    = (\<lambda>u. if u then (if Value = 0 then fails else ok [param_kind Value]) else fails)"
    by auto
  then show "reads k True (list_all well_formed) (do {
      u \<leftarrow> nextIf_old ''_'';
      if \<not> u \<or> Value = 0 then fails else ok [param_kind Value] })"
    by (simp add: reads_nextIf_same old_reads_if reads_ok reads_fails payload_well_formed)
qed

lemma demangleFuncSigParam_reads:
  assumes H: "answers rec k"
  shows "reads k True well_formed (demangleFuncSigParam rec depth)"
proof -
  have param: "well_formed (Node K_FunctionSignatureSpecializationParam ns)" if "list_all well_formed ns" for ns
    using that by (simp add: node_shapes)
  have form: "reads j False (list_all well_formed)
      (if c = CHR ''n'' then ok []
       else if c = CHR ''p'' then demangleFuncSigSpecializationConstantProp
       else if c = CHR ''l'' then demangleFuncSigSpecializationClosureProp rec d
       else if c = CHR ''i'' then ok [param_kind FSS_BoxToValue]
       else ok [param_kind FSS_BoxToStack])" if "j \<le> k" for j c d
    using answers_less [OF H that]
    by (auto intro!: reads_ok reads_weaken [OF demangleConstantProp_reads] reads_weaken [OF demangleClosureProp_reads]
        simp: payload_well_formed)
  show ?thesis
    unfolding demangleFuncSigParam_def
    apply (rule reads_take_from)
    subgoal by auto
    subgoal unfolding option.case by (intro reads_on_then [OF form] reads_ok param) simp_all
    subgoal unfolding option.case by (intro reads_on_first [OF demangleOptionSet_reads] reads_ok param)
    done
qed

lemma demangleSpecializedAttribute_reads:
  assumes H: "answers rec k"
  shows "reads k True well_formed (demangleSpecializedAttribute rec depth)"
proof -
  have params: "reads k False (list_all well_formed)
      (if b then until_close ''_'' (demangleFuncSigParam rec d) else demangleGenericSpecialization_old rec d)" for b d
    by (intro old_reads_if until_close_reads demangleFuncSigParam_reads [OF H] demangleGenericSpecialization_reads [OF H]) simp
  have kinds: "str \<noteq> [] \<and> fits kind n"
    if "(str, kind) \<in> set [(''g'', K_GenericSpecialization), (''r'', K_GenericSpecializationNotReAbstracted),
          (''f'', K_FunctionSignatureSpecialization)]" for str kind n
  proof -
    have "fits K_GenericSpecialization n" "fits K_GenericSpecializationNotReAbstracted n"
      "fits K_FunctionSignatureSpecialization n"
      by (simp_all add: node_shapes)
    then show ?thesis using that by auto
  qed
  have node: "well_formed (Node kind (if_flag q K_IsSerialized @ [IndexNode K_SpecializationPassID i] @ ns))"
    if "\<And>n. fits kind n" "list_all well_formed ns" for kind q i ns
  proof -
    have "fits K_IsSerialized 0" by (simp add: node_shapes)
    then show ?thesis using that(2) by (simp add: that(1) if_flag_def index_kinds_def)
  qed
  show ?thesis
    unfolding demangleSpecializedAttribute_def
    by (intro take_from_same reads_bind [OF runs_nextIf] reads_prims reads_on_then [OF params] reads_ok node)
      (erule kinds [THEN conjunct1] kinds [THEN conjunct2] | assumption)+
qed

section \<open>Global symbols\<close>

lemma demangleMetadata_reads:
  assumes H: "answers rec k"
  shows "reads k True well_formed (demangleMetadata_old rec depth)"
proof -
  have kinds: "str \<noteq> [] \<and> kind \<in> set single_kinds" if "(str, kind) \<in> set metadata_letters" for str kind
  proof -
    have "set (map snd metadata_letters) \<subseteq> set single_kinds" by (simp add: metadata_letters_def single_kinds_def)
    then show ?thesis using that by (force simp: metadata_letters_def)
  qed
  have protocol: "reads j False well_formed (build kind [demangleProtocolName rec d])"
    if "kind \<in> set single_kinds" "j \<le> k" for j kind d
    unfolding build_simps using answers_less [OF H that(2)] that(1) by (auto intro!: reading_rules single_fits)
  have type: "reads j b well_formed (build kind [demangleType_old rec d])"
    if "kind \<in> set single_kinds" "j \<le> k" for j b kind d
    using answers_less [OF H that(2)] that(1) by (rule reads_weaken [OF build_type_reads])
  have metadata: "K_TypeMetadata \<in> set single_kinds" by (simp add: single_kinds_def)
  show ?thesis
    unfolding demangleMetadata_old_def
    apply (rule reads_take_from)
    subgoal using kinds by auto
    subgoal for j str kind unfolding option.case by (intro old_reads_if protocol type) (use kinds in auto)
    subgoal unfolding option.case by (rule type [OF metadata]) simp
    done
qed

lemma demangleDirectness_reads: "reads k True well_formed demangleDirectnessAsNode"
  unfolding demangleDirectnessAsNode_def demangleDirectness_def
  by (intro take_from_same reads_ok) (auto simp: index_kinds_def)

lemma demangleWitness_reads:
  assumes H: "answers rec k"
  shows "reads k True well_formed (demangleWitness_old rec depth)"
proof -
  have kinds: "str \<noteq> [] \<and>
      (if kind \<in> {K_FieldOffset, K_LazyProtocolWitnessTableAccessor, K_LazyProtocolWitnessTableCacheVariable,
                   K_AssociatedTypeMetadataAccessor} then fits kind 2
       else if kind = K_AssociatedTypeWitnessTableAccessor then fits kind 3 else fits kind 1)"
    if "(str, kind) \<in> set witness_letters" for str kind
  proof -
    have "list_all (\<lambda>(str, kind). str \<noteq> [] \<and>
        (if kind \<in> {K_FieldOffset, K_LazyProtocolWitnessTableAccessor, K_LazyProtocolWitnessTableCacheVariable,
                     K_AssociatedTypeMetadataAccessor} then fits kind 2
         else if kind = K_AssociatedTypeWitnessTableAccessor then fits kind 3 else fits kind 1)) witness_letters"
      by (simp add: witness_letters_def node_shapes)
    then show ?thesis using that by (auto simp: list_all_iff)
  qed
  note leaves = reads_on_first [OF demangleProtocolConformance_reads [OF H]]
    reads_on_first [OF demangleType_reads [OF H]] reads_on_first [OF demangleDirectness_reads]
    reads_on_first [OF demangleDeclName_reads] reads_on_first [OF demangleProtocolName_reads [OF H]] answers_on(1) [OF H]
  show ?thesis
    unfolding demangleWitness_old_def Let_def build_simps
    by (intro take_from_same old_reads_if leaves reads_ok)
      (auto dest!: kinds simp: numeral_2_eq_2 numeral_3_eq_3)
qed

lemma demangleThunk_reads:
  assumes H: "answers rec k"
  shows "reads k True well_formed (demangleThunk_old rec depth)"
proof -
  have fit: "fits K_ReabstractionThunk 2" "fits K_ReabstractionThunk 3" "fits K_ReabstractionThunkHelper 2"
    "fits K_ReabstractionThunkHelper 3" "fits K_ProtocolWitness 2"
    by (simp_all add: node_shapes)
  have signature: "reads k False (\<lambda>ns. list_all well_formed ns \<and> length ns \<in> {2, 3}) (demangleReabstractSignature rec d)" for d
    unfolding demangleReabstractSignature_def
    by (rule reads_bind [OF runs_nextIf])
      (use H in \<open>auto simp: on_simps intro!: reading_rules\<close>)
  have witness: "reads k False well_formed
      (build kind [demangleProtocolConformance_old rec d, rec Ask_Entity d])" if "kind = K_ProtocolWitness" for kind d
    unfolding that build_simps
    by (intro reads_on_first [OF demangleProtocolConformance_reads [OF H]] answers_on(1) [OF H] reads_ok)
      (use fit in \<open>simp add: numeral_2_eq_2\<close>)
  show ?thesis
    unfolding demangleThunk_old_def
    by (intro take_from_same old_reads_if witness reads_on_then [OF signature] reads_ok) (use fit in auto)
qed

lemma demangleValueWitnessKind_reads: "reads k True (\<lambda>_. True) demangleValueWitnessKind"
  unfolding demangleValueWitnessKind_def Let_def
  by (rule reads_next) (auto intro!: reading_rules)

lemma demangleGlobal_reads:
  "answers rec k \<Longrightarrow> k < n \<Longrightarrow> reads k True well_formed (demangleGlobal n rec depth)"
proof (induction n arbitrary: k depth)
  case (Suc n)
  note H = Suc.prems(1)
  have fit: "fits K_PartialApplyForwarder m" "fits K_PartialApplyObjCForwarder m" if "m \<le> 1" for m
    using that by (auto simp: node_shapes)
  have value_witness: "fits K_ValueWitness 2" and mangling: "K_TypeMangling \<in> set single_kinds"
    by (simp_all add: node_shapes)
  have nested: "reads j False well_formed (do {
      o_letter \<leftarrow> nextIf_old ''o'';
      nested \<leftarrow> nextIf_old ''__T'';
      build (if o_letter then K_PartialApplyObjCForwarder else K_PartialApplyForwarder)
        (if nested then [demangleGlobal n rec d] else []) })" if "j < k" for j d
  proof -
    have "reads j True well_formed (demangleGlobal n rec d)"
      using that Suc.prems by (intro Suc.IH answers_less [OF H]) simp_all
    then have "reads j False well_formed (build (if b then K_PartialApplyObjCForwarder else K_PartialApplyForwarder)
        (if c then [demangleGlobal n rec d] else []))" for b c
      using fit by (cases b; cases c) (auto simp: build_simps intro!: reads_on_first reads_ok)
    then show ?thesis by (intro reads_bind [OF runs_nextIf])
  qed
  have witness: "reads k False well_formed (on demangleValueWitnessKind (\<lambda>kind.
      build K_ValueWitness [ok (IndexNode K_Index kind), demangleType_old rec d]))" for d
    unfolding build_simps using value_witness
    by (intro reads_on_first [OF demangleValueWitnessKind_reads] reads_on_first [OF demangleType_reads [OF H]] reads_ok)
      (simp add: numeral_2_eq_2 index_kinds_def)
  have entity: "reads k True well_formed (rec Ask_Entity d)" for d
    by (rule reads_post [OF answers_reads [OF H]]) simp
  show ?case
    unfolding demangleGlobal.simps
    by (intro reads_prims old_reads_if reads_nextIf_same [of "''M''"] reads_nextIf [of "''PA''"] nested
        reads_nextIf_same [of "''t''"] reads_nextIf_same [of "''w''"] reads_nextIf_same [of "''W''"]
        reads_nextIf_same [of "''T''"] reads_weaken [OF demangleMetadata_reads [OF H]] witness
        reads_weaken [OF build_type_reads [OF H mangling]] reads_weaken [OF demangleWitness_reads [OF H]]
        reads_weaken [OF demangleThunk_reads [OF H]] entity) simp_all
qed simp

lemma specialized_attributes_reads:
  "answers rec k \<Longrightarrow> k < n \<Longrightarrow> list_all well_formed acc \<Longrightarrow>
    reads k False (list_all well_formed) (specialized_attributes n rec acc)"
proof (induction n arbitrary: k acc)
  case (Suc n)
  have "reads j False (list_all well_formed) (specialized_attributes n rec (acc @ [a]))"
    if "j < k" "well_formed a" for j a
    using that Suc.prems by (intro Suc.IH answers_less [OF Suc.prems(1)]) simp_all
  then show ?case
    unfolding specialized_attributes.simps
    by (intro reads_on_less [OF demangleSpecializedAttribute_reads [OF Suc.prems(1)]] reads_prims reads_nextIf_same)
      (use Suc.prems in auto)
qed simp

lemma top_children_reads:
  assumes H: "answers rec k" and n: "k < n"
  shows "reads k False (list_all well_formed) (top_children n rec)"
proof -
  have kinds: "str \<noteq> [] \<and> fits kind 0" if "(str, kind) \<in> set top_attributes" for str kind
  proof -
    have "list_all (\<lambda>(str, kind). str \<noteq> [] \<and> fits kind 0) top_attributes"
      by (simp add: top_attributes_def node_shapes)
    then show ?thesis using that by (auto simp: list_all_iff)
  qed
  have attributes: "reads k False (list_all well_formed) (do {
      attr \<leftarrow> take_from top_attributes;
      ok (case attr of None \<Rightarrow> [] | Some kind \<Rightarrow> [Node kind []]) })"
    by (rule reads_take_from) (auto dest!: kinds intro!: reads_ok)
  show ?thesis
    unfolding top_children_def
    by (intro reads_nextIf_same reads_on_then [OF specialized_attributes_reads [OF H n]] reads_ok reads_fails attributes)
      auto
qed

definition is_global :: "node \<Rightarrow> bool" where
  "is_global n \<longleftrightarrow> getKind n = K_Global \<and> getChildren n \<noteq> [] \<and> well_formed n"

lemma demangleTopLevel_reads:
  assumes H: "answers rec k" and n: "k < n"
  shows "reads k True is_global (demangleTopLevel n rec)"
proof -
  have "fits K_Global m" for m by (simp add: node_shapes)
  then have global: "is_global (Node K_Global (attrs @ [n']))" "is_global (Node K_Global (attrs @ [n', TextNode K_Suffix t]))"
    if "list_all well_formed attrs" "well_formed n'" for attrs n' t
    using that by (simp_all add: is_global_def text_kinds_def)
  show ?thesis
    unfolding demangleTopLevel_def
    by (intro reads_expect reads_on_then [OF top_children_reads [OF H n]]
        reads_on_first [OF demangleGlobal_reads [OF H n]] reads_prims old_reads_if global) simp_all
qed

lemma run_old_outcome: "outcome True is_global (new_old_demangler s) (run_old s)"
  unfolding run_old_def Let_def
  by (rule readsD [OF demangleTopLevel_reads [where k = "length s"]])
    (auto simp: new_old_demangler_def sound_old_def intro!: old_rec_answers)

section \<open>The demangler as a whole\<close>

text \<open>C30: The demangler of the old mangling returns for every text: no loop and no recursion of the model
  runs out of fuel.\<close>

theorem old_demangler_returns: "\<not> OldDry (snd (run_old mangled))"
  using run_old_outcome [of mangled] by (simp add: outcome_def sound_old_def)

text \<open>C31: What it returns is a \<open>Global\<close> node with at least one child, and every node of the tree has the
  payload of its kind (a text, an index or children) and as many children as its kind may have; the
  substitutions it has recorded are well formed too.\<close>

theorem old_demangler_well_formed:
  "demangleOldSymbolAsNode mangled = Some n \<Longrightarrow>
    getKind n = K_Global \<and> getChildren n \<noteq> [] \<and> well_formed n
    \<and> list_all well_formed (OldSubstitutions (snd (run_old mangled)))"
  using run_old_outcome [of mangled]
  by (auto simp: demangleOldSymbolAsNode_def outcome_def is_global_def sound_old_def elim: list.pred_mono_strong)

lemma old_class_example:
  "demangleOldSymbolAsNode ''_TtC4Main3Foo'' = Some (Node K_Global [Node K_TypeMangling [Node K_Type
     [Node K_Class [TextNode K_Module ''Main'', TextNode K_Identifier ''Foo'']]]])"
  by code_simp

theorem old_demangler_well_formed_witness:
  "well_formed (Node K_Global [Node K_TypeMangling [Node K_Type
     [Node K_Class [TextNode K_Module ''Main'', TextNode K_Identifier ''Foo'']]]])"
  using old_demangler_well_formed [of "''_TtC4Main3Foo''"
      "Node K_Global [Node K_TypeMangling [Node K_Type
         [Node K_Class [TextNode K_Module ''Main'', TextNode K_Identifier ''Foo'']]]]"]
  by (metis old_class_example)

text \<open>
  The type that is rebuilt has no second child where its parent is a static member: a symbol of 19
  characters makes the code use a null child.
\<close>

lemma static_parent_stuck: "OldStuck (snd (run_old ''_TtGVZv4main1xSi1Y_''))"
  by code_simp

end
