(* ===== verification/Printer_Types.thy ===== *)
theory Printer_Types
  imports Printer_Monad Demangler_Thunks Demangler_Entities
begin

text \<open>
  The inline member functions of \<open>NodePrinter\<close> and its helpers: contexts, sugar for types, bound generic
  types, function types and specializations (\<open>NodePrinter.cpp\<close>). The functions that call \<open>print\<close> get it
  as the argument \<open>rec\<close>, and \<open>demangleSymbolAsString\<close>, which prints a nested symbol, as \<open>dsym\<close>; the knots are
  tied in \<open>Printer_Print\<close> and \<open>Demangling_Context\<close>.
\<close>

type_synonym recursion = "node option \<Rightarrow> nat \<Rightarrow> bool \<Rightarrow> node option pr"

abbreviation return_pr :: "'a \<Rightarrow> 'a pr" where
  "return_pr \<equiv> State_Monad.return"

abbreviation nothing :: "node option pr" where
  "nothing \<equiv> return_pr None"

text \<open>A call of \<open>print\<close> one level deeper whose result is not used.\<close>

definition sub :: "recursion \<Rightarrow> nat \<Rightarrow> node option \<Rightarrow> unit pr" where
  "sub rec depth n = do { rec n (depth + 1) False; return_pr () }"

definition "check" :: "bool \<Rightarrow> unit pr" where
  "check b = (if b then return_pr () else broken ())"

definition kind_of_child :: "node \<Rightarrow> nat \<Rightarrow> Kind pr" where
  "kind_of_child n i = do { c \<leftarrow> deref (getChild n i); return_pr (getKind c) }"

definition getLastChild :: "node \<Rightarrow> node option" where
  "getLastChild n = getChild n (getNumChildren n - 1)"

section \<open>Children\<close>

fun print_nodes :: "recursion \<Rightarrow> nat \<Rightarrow> string \<Rightarrow> node list \<Rightarrow> unit pr" where
  "print_nodes rec depth sep [] = return_pr ()"
| "print_nodes rec depth sep (c # cs) = do {
     sub rec depth (Some c);
     (if cs \<noteq> [] then emit sep else return_pr ());
     print_nodes rec depth sep cs
   }"

definition printChildren :: "recursion \<Rightarrow> nat \<Rightarrow> string \<Rightarrow> node option \<Rightarrow> unit pr" where
  "printChildren rec depth sep n =
     (case n of None \<Rightarrow> return_pr () | Some n \<Rightarrow> print_nodes rec depth sep (getChildren n))"

definition getChildIf :: "node \<Rightarrow> Kind \<Rightarrow> node option" where
  "getChildIf n k = List.find (\<lambda>c. getKind c = k) (getChildren n)"

definition printBoundGenericNoSugar :: "recursion \<Rightarrow> node \<Rightarrow> nat \<Rightarrow> unit pr" where
  "printBoundGenericNoSugar rec n depth =
     (if getNumChildren n < 2 then return_pr ()
      else do {
        sub rec depth (getChild n 0);
        emit ''<'';
        printChildren rec depth '', '' (getChild n 1);
        emit ''>''
      })"

definition printOptionalIndex :: "node option \<Rightarrow> unit pr" where
  "printOptionalIndex n = do {
     n \<leftarrow> deref n;
     check (getKind n = K_Index \<or> getKind n = K_UnknownIndex);
     case node_index n of Some i \<Rightarrow> emit (''#'' @ show_u64 i @ '' '') | None \<Rightarrow> return_pr ()
   }"

section \<open>Contexts\<close>

definition LLDB_EXPRESSIONS_MODULE_NAME_PREFIX :: string where
  "LLDB_EXPRESSIONS_MODULE_NAME_PREFIX = ''__lldb_expr_''"

definition isSwiftModule :: "node \<Rightarrow> bool option" where
  "isSwiftModule n =
     (if getKind n = K_Module then map_option (\<lambda>t. t = STDLIB_NAME) (node_text n) else Some False)"

definition isIdentifier :: "node \<Rightarrow> string \<Rightarrow> bool option" where
  "isIdentifier n desired =
     (if getKind n = K_Identifier then map_option (\<lambda>t. t = desired) (node_text n) else Some False)"

definition printContext :: "DemangleOptions \<Rightarrow> node option \<Rightarrow> bool pr" where
  "printContext opts Context =
     (if \<not> QualifyEntities opts then return_pr False
      else do {
        Context \<leftarrow> deref Context;
        if getKind Context = K_Module then do {
          t \<leftarrow> getText Context;
          return_pr
            (if t = STDLIB_NAME then DisplayStdlibModule opts
             else if t = MANGLING_MODULE_OBJC then DisplayObjCModule opts
             else if t = HidingCurrentModule opts then False
             else if startswith t LLDB_EXPRESSIONS_MODULE_NAME_PREFIX then DisplayDebuggerGeneratedModule opts
             else True)
        }
        else return_pr True
      })"

section \<open>Simple types and sugar\<close>

definition simple_kinds :: "Kind list" where
  "simple_kinds =
     [K_AssociatedType, K_AssociatedTypeRef, K_BoundGenericClass, K_BoundGenericEnum,
      K_BoundGenericStructure, K_BoundGenericProtocol, K_BoundGenericOtherNominalType,
      K_BoundGenericTypeAlias, K_BoundGenericFunction, K_BuiltinTypeName, K_Class, K_DependentGenericType,
      K_DependentMemberType, K_DependentGenericParamType, K_DynamicSelf, K_Enum, K_ErrorType,
      K_ExistentialMetatype, K_Metatype, K_MetatypeRepresentation, K_Module, K_Tuple, K_Protocol,
      K_ProtocolSymbolicReference, K_ReturnType, K_SILBoxType, K_SILBoxTypeWithLayout, K_Structure,
      K_OtherNominalType, K_TupleElementName, K_TypeAlias, K_TypeList, K_LabelList,
      K_TypeSymbolicReference, K_SugaredOptional, K_SugaredArray, K_SugaredDictionary, K_SugaredParen]"

text \<open>\<open>None\<close> is a null pointer that is followed.\<close>

fun isSimpleType :: "node \<Rightarrow> bool option" where
  "isSimpleType (Node k cs) =
     (if k \<in> set simple_kinds then Some True
      else if k = K_Type then (case cs of [] \<Rightarrow> None | c # _ \<Rightarrow> isSimpleType c)
      else if k = K_ProtocolList then map_option (\<lambda>c. getNumChildren c \<le> 1) (getChild (Node k cs) 0)
      else if k = K_ProtocolListWithAnyObject then
        map_option (\<lambda>c. getNumChildren c = 0) (Option.bind (getChild (Node k cs) 0) (\<lambda>c. getChild c 0))
      else Some False)"
| "isSimpleType n =
     (if getKind n \<in> set simple_kinds then Some True
      else if getKind n \<in> {K_Type, K_ProtocolList, K_ProtocolListWithAnyObject} then None
      else Some False)"

definition printWithParens :: "recursion \<Rightarrow> node option \<Rightarrow> nat \<Rightarrow> unit pr" where
  "printWithParens rec type depth = do {
     simple \<leftarrow> need True (Option.bind type isSimpleType);
     (if \<not> simple then emit ''('' else return_pr ());
     sub rec depth type;
     (if \<not> simple then emit '')'' else return_pr ())
   }"

datatype SugarType = Sugar_None | Sugar_Optional | Sugar_ImplicitlyUnwrappedOptional | Sugar_Array | Sugar_Dictionary

text \<open>The test that appears in each case: the name, the number of type arguments and the module.\<close>

definition is_swift_generic :: "node \<Rightarrow> node \<Rightarrow> string \<Rightarrow> nat \<Rightarrow> bool option" where
  "is_swift_generic unboundType typeArgs name n = do {
     c1 \<leftarrow> getChild unboundType 1;
     b \<leftarrow> isIdentifier c1 name;
     if \<not> b \<or> getNumChildren typeArgs \<noteq> n then Some False
     else do { c0 \<leftarrow> getChild unboundType 0; isSwiftModule c0 }
   }"

definition sugar_of_bound :: "Kind \<Rightarrow> node \<Rightarrow> node \<Rightarrow> SugarType option" where
  "sugar_of_bound k unbound typeArgs =
     (if k \<noteq> K_BoundGenericEnum \<and> k \<noteq> K_BoundGenericStructure then Some Sugar_None
      else do {
        unboundType \<leftarrow> getChild unbound 0;
        if k = K_BoundGenericEnum then do {
          b \<leftarrow> is_swift_generic unboundType typeArgs ''Optional'' 1;
          if b then Some Sugar_Optional
          else do {
            b \<leftarrow> is_swift_generic unboundType typeArgs ''ImplicitlyUnwrappedOptional'' 1;
            Some (if b then Sugar_ImplicitlyUnwrappedOptional else Sugar_None)
          }
        }
        else do {
          b \<leftarrow> is_swift_generic unboundType typeArgs ''Array'' 1;
          if b then Some Sugar_Array
          else do {
            b \<leftarrow> is_swift_generic unboundType typeArgs ''Dictionary'' 2;
            Some (if b then Sugar_Dictionary else Sugar_None)
          }
        }
      })"

fun findSugar :: "node \<Rightarrow> SugarType option" where
  "findSugar (Node k [c]) = (if k = K_Type then findSugar c else Some Sugar_None)"
| "findSugar (Node k [a, b]) = sugar_of_bound k a b"
| "findSugar n = Some Sugar_None"

definition printBoundGeneric :: "recursion \<Rightarrow> DemangleOptions \<Rightarrow> node \<Rightarrow> nat \<Rightarrow> unit pr" where
  "printBoundGeneric rec opts n depth =
     (if getNumChildren n < 2 then return_pr ()
      else if getNumChildren n \<noteq> 2 then printBoundGenericNoSugar rec n depth
      else if \<not> SynthesizeSugarOnTypes opts \<or> getKind n = K_BoundGenericClass
      then printBoundGenericNoSugar rec n depth
      else if getKind n = K_BoundGenericProtocol then do {
        printChildren rec depth [] (getChild n 1);
        emit '' as '';
        sub rec depth (getChild n 0)
      }
      else do {
        sugarType \<leftarrow> need Sugar_None (findSugar n);
        args \<leftarrow> deref (getChild n 1);
        case sugarType of
          Sugar_None \<Rightarrow> printBoundGenericNoSugar rec n depth
        | Sugar_Optional \<Rightarrow> do { printWithParens rec (getChild args 0) depth; emit ''?'' }
        | Sugar_ImplicitlyUnwrappedOptional \<Rightarrow> do { printWithParens rec (getChild args 0) depth; emit ''!'' }
        | Sugar_Array \<Rightarrow> do { emit ''[''; sub rec depth (getChild args 0); emit '']'' }
        | Sugar_Dictionary \<Rightarrow> do {
            emit ''['';
            sub rec depth (getChild args 0);
            emit '' : '';
            sub rec depth (getChild args 1);
            emit '']''
          }
      })"

section \<open>Functions\<close>

definition label_for :: "node option \<Rightarrow> nat \<Rightarrow> string pr" where
  "label_for LabelList Index = do {
     labels \<leftarrow> deref LabelList;
     Label \<leftarrow> deref (getChild labels Index);
     check (getKind Label = K_Identifier \<or> getKind Label = K_FirstElementMarker);
     if getKind Label = K_Identifier then getText Label else return_pr ''_''
   }"

fun print_parameters ::
  "recursion \<Rightarrow> node option \<Rightarrow> nat \<Rightarrow> bool \<Rightarrow> bool \<Rightarrow> nat \<Rightarrow> node list \<Rightarrow> unit pr" where
  "print_parameters rec LabelList depth hasLabels showTypes ParamIndex [] = return_pr ()"
| "print_parameters rec LabelList depth hasLabels showTypes ParamIndex (Param # Params) = do {
     check (getKind Param = K_TupleElement);
     (if hasLabels then do { l \<leftarrow> label_for LabelList ParamIndex; emit (l @ '':'') }
      else if \<not> showTypes then
        (case getChildIf Param K_TupleElementName of
           Some Label \<Rightarrow> do { emit_text Label; emit '':'' }
         | None \<Rightarrow> emit ''_:'')
      else return_pr ());
     (if hasLabels \<and> showTypes then emit '' '' else return_pr ());
     (if showTypes then sub rec depth (Some Param) else return_pr ());
     (if Params \<noteq> [] \<and> showTypes then emit '', '' else return_pr ());
     print_parameters rec LabelList depth hasLabels showTypes (ParamIndex + 1) Params
   }"

definition printFunctionParameters :: "recursion \<Rightarrow> node option \<Rightarrow> node \<Rightarrow> nat \<Rightarrow> bool \<Rightarrow> unit pr" where
  "printFunctionParameters rec LabelList ParameterType depth showTypes =
     (if getKind ParameterType \<noteq> K_ArgumentTuple then setInvalid
      else do {
        Parameters \<leftarrow> deref (getFirstChild ParameterType);
        check (getKind Parameters = K_Type);
        Parameters \<leftarrow> deref (getFirstChild Parameters);
        if getKind Parameters \<noteq> K_Tuple then
          (if showTypes then do { emit ''(''; sub rec depth (Some Parameters); emit '')'' }
           else emit ''(_:)'')
        else do {
          let hasLabels = (case LabelList of None \<Rightarrow> False | Some l \<Rightarrow> getNumChildren l > 0);
          emit ''('';
          print_parameters rec LabelList depth hasLabels showTypes 0 (getChildren Parameters);
          emit '')''
        }
      })"

definition printConventionWithMangledCType :: "recursion \<Rightarrow> node \<Rightarrow> nat \<Rightarrow> string \<Rightarrow> unit pr" where
  "printConventionWithMangledCType rec n depth convention = do {
     emit (''@convention('' @ convention);
     k \<leftarrow> kind_of_child n 0;
     (if k = K_ClangType then do {
        emit ('', mangledCType: '' @ [CHR 0x22]);
        sub rec depth (getFirstChild n);
        emit [CHR 0x22]
      }
      else return_pr ());
     emit '') ''
   }"

definition print_convention :: "recursion \<Rightarrow> node \<Rightarrow> nat \<Rightarrow> unit pr" where
  "print_convention rec n depth =
     (let k = getKind n
      in if k \<in> {K_FunctionType, K_UncurriedFunctionType, K_NoEscapeFunctionType} then return_pr ()
         else if k \<in> {K_AutoClosureType, K_EscapingAutoClosureType} then emit ''@autoclosure ''
         else if k = K_ThinFunctionType then emit ''@convention(thin) ''
         else if k = K_CFunctionPointer then printConventionWithMangledCType rec n depth ''c''
         else if k = K_EscapingObjCBlock then do {
           emit ''@escaping '';
           printConventionWithMangledCType rec n depth ''block''
         }
         else if k = K_ObjCBlock then printConventionWithMangledCType rec n depth ''block''
         else broken ())"

text \<open>An optional child at an index: whether it is there, and the index behind it.\<close>

definition skip_kind :: "node \<Rightarrow> nat \<Rightarrow> Kind \<Rightarrow> (bool \<times> nat) pr" where
  "skip_kind n i k = do {
     c \<leftarrow> kind_of_child n i;
     return_pr (if c = k then (True, i + 1) else (False, i))
   }"

text \<open>\<open>MangledDifferentiabilityKind\<close> is a \<open>char\<close>: the low byte of the index.\<close>

definition differentiability :: "u64 \<Rightarrow> char" where
  "differentiability i = char_of (unat i)"

definition differentiable_prefix :: "char \<Rightarrow> string" where
  "differentiable_prefix k =
     (if k = CHR ''f'' then ''@differentiable(_forward) ''
      else if k = CHR ''r'' then ''@differentiable(reverse) ''
      else if k = CHR ''l'' then ''@differentiable(_linear) ''
      else if k = CHR ''d'' then ''@differentiable ''
      else [])"

definition printFunctionType :: "recursion \<Rightarrow> DemangleOptions \<Rightarrow> node option \<Rightarrow> node \<Rightarrow> nat \<Rightarrow> unit pr" where
  "printFunctionType rec opts LabelList n depth =
     (if getNumChildren n < 2 then setInvalid
      else do {
        print_convention rec n depth;
        let argIndex = getNumChildren n - 2;
        (_, startIndex) \<leftarrow> skip_kind n 0 K_ClangType;
        (isGlobalActor, startIndex') \<leftarrow> skip_kind n startIndex K_GlobalActorFunctionType;
        (if isGlobalActor then sub rec depth (getChild n startIndex) else return_pr ());
        (isDiff, startIndex) \<leftarrow> skip_kind n startIndex' K_DifferentiableFunctionType;
        diffKind \<leftarrow>
          (if isDiff then do {
             d \<leftarrow> deref (getChild n startIndex');
             i \<leftarrow> getIndex d;
             return_pr (differentiability i)
           }
           else return_pr (CHR 0x00));
        (isThrows, startIndex) \<leftarrow> skip_kind n startIndex K_ThrowsAnnotation;
        (isSendable, startIndex) \<leftarrow> skip_kind n startIndex K_ConcurrentFunctionType;
        (isAsync, startIndex) \<leftarrow> skip_kind n startIndex K_AsyncAnnotation;
        emit (differentiable_prefix diffKind);
        (if isSendable then emit ''@Sendable '' else return_pr ());
        args \<leftarrow> deref (getChild n argIndex);
        printFunctionParameters rec LabelList args depth (ShowFunctionArgumentTypes opts);
        if \<not> ShowFunctionArgumentTypes opts then return_pr ()
        else do {
          (if isAsync then emit '' async'' else return_pr ());
          (if isThrows then emit '' throws'' else return_pr ());
          sub rec depth (getChild n (argIndex + 1))
        }
      })"

section \<open>Lowered function types\<close>

datatype ImplState = Attrs | Inputs | Results

text \<open>An assertion forbids a step back.\<close>

definition transitionTo :: "recursion \<Rightarrow> nat \<Rightarrow> node option \<Rightarrow> ImplState \<Rightarrow> ImplState \<Rightarrow> unit pr" where
  "transitionTo rec depth patternSubs curState newState =
     (let attrs = do {
            (case patternSubs of
               Some p \<Rightarrow> do { emit ''@substituted ''; sub rec depth (getChild p 0); emit '' '' }
             | None \<Rightarrow> return_pr ());
            emit ''(''
          };
          inputs = emit '') -> (''
      in case (curState, newState) of
           (Attrs, Inputs) \<Rightarrow> attrs
         | (Attrs, Results) \<Rightarrow> do { attrs; inputs }
         | (Inputs, Results) \<Rightarrow> inputs
         | _ \<Rightarrow> check (curState = newState))"

fun impl_children ::
  "recursion \<Rightarrow> nat \<Rightarrow> ImplState \<Rightarrow> node option \<Rightarrow> node option \<Rightarrow> node list
    \<Rightarrow> (ImplState \<times> node option \<times> node option) pr" where
  "impl_children rec depth curState patternSubs invocationSubs [] =
     return_pr (curState, patternSubs, invocationSubs)"
| "impl_children rec depth curState patternSubs invocationSubs (child # cs) =
     (let k = getKind child
      in if k = K_ImplParameter then do {
           (if curState = Inputs then emit '', '' else return_pr ());
           transitionTo rec depth patternSubs curState Inputs;
           sub rec depth (Some child);
           impl_children rec depth Inputs patternSubs invocationSubs cs
         }
         else if k = K_ImplResult \<or> k = K_ImplYield \<or> k = K_ImplErrorResult then do {
           (if curState = Results then emit '', '' else return_pr ());
           transitionTo rec depth patternSubs curState Results;
           sub rec depth (Some child);
           impl_children rec depth Results patternSubs invocationSubs cs
         }
         else if k = K_ImplPatternSubstitutions then
           impl_children rec depth curState (Some child) invocationSubs cs
         else if k = K_ImplInvocationSubstitutions then
           impl_children rec depth curState patternSubs (Some child) cs
         else do {
           check (curState = Attrs);
           sub rec depth (Some child);
           emit '' '';
           impl_children rec depth curState patternSubs invocationSubs cs
         })"

definition print_for :: "recursion \<Rightarrow> nat \<Rightarrow> nat \<Rightarrow> node option \<Rightarrow> unit pr" where
  "print_for rec depth i subs =
     (case subs of
        None \<Rightarrow> return_pr ()
      | Some s \<Rightarrow> do { emit '' for <''; printChildren rec depth [] (getChild s i); emit ''>'' })"

definition printImplFunctionType :: "recursion \<Rightarrow> node \<Rightarrow> nat \<Rightarrow> unit pr" where
  "printImplFunctionType rec fn depth = do {
     (curState, patternSubs, invocationSubs) \<leftarrow> impl_children rec depth Attrs None None (getChildren fn);
     transitionTo rec depth patternSubs curState Results;
     emit '')'';
     print_for rec depth 1 patternSubs;
     print_for rec depth 0 invocationSubs
   }"

section \<open>Specializations\<close>

definition next_child :: "node list \<Rightarrow> node option" where
  "next_child cs = (case cs of [] \<Rightarrow> None | c # _ \<Rightarrow> Some c)"

text \<open>The argument types of a closure: what is printed and what is left.\<close>

fun closure_types :: "recursion \<Rightarrow> nat \<Rightarrow> node list \<Rightarrow> unit pr" where
  "closure_types rec depth [] = return_pr ()"
| "closure_types rec depth (c # cs) =
     (if getKind c \<noteq> K_Type then return_pr ()
      else do {
        sub rec depth (Some c);
        (case cs of d # _ \<Rightarrow> if hasText d then emit '', '' else return_pr () | [] \<Rightarrow> return_pr ());
        closure_types rec depth cs
      })"

text \<open>What prints a nested symbol: \<open>None\<close> where it does not return.\<close>

type_synonym symbol_printer = "string \<Rightarrow> string option"

definition print_symbol :: "symbol_printer \<Rightarrow> string \<Rightarrow> unit pr" where
  "print_symbol dsym text = do {
     demangledName \<leftarrow> need [] (dsym text);
     emit (if demangledName = [] then text else demangledName)
   }"

text \<open>An index as an \<open>unsigned\<close> or an enumeration of 32 bits.\<close>

definition low32 :: "u64 \<Rightarrow> u64" where
  "low32 i = i AND 0xFFFFFFFF"

definition option_flags :: u64 where
  "option_flags = FSS_OwnedToGuaranteed OR FSS_GuaranteedToOwned OR FSS_SROA OR FSS_Dead OR FSS_ExistentialToGeneric"

function sig_specialization_params :: "recursion \<Rightarrow> symbol_printer \<Rightarrow> nat \<Rightarrow> node list \<Rightarrow> unit pr" where
  "sig_specialization_params rec dsym depth cs =
     (case cs of
        [] \<Rightarrow> return_pr ()
      | firstChild # _ \<Rightarrow> do {
          V \<leftarrow> getIndex firstChild;
          let K = low32 V;
          let arg = (\<lambda>i. sub rec depth (next_child (drop i cs)));
          if K = FSS_BoxToValue \<or> K = FSS_BoxToStack then do {
            arg 0;
            sig_specialization_params rec dsym depth (drop 1 cs)
          }
          else if K = FSS_ConstantPropFunction \<or> K = FSS_ConstantPropGlobal then do {
            emit ''['';
            arg 0;
            emit '' : '';
            c \<leftarrow> deref (next_child (drop 1 cs));
            text \<leftarrow> getText c;
            print_symbol dsym text;
            emit '']'';
            sig_specialization_params rec dsym depth (drop 2 cs)
          }
          else if K = FSS_ConstantPropInteger \<or> K = FSS_ConstantPropFloat then do {
            emit ''['';
            arg 0;
            emit '' : '';
            arg 1;
            emit '']'';
            sig_specialization_params rec dsym depth (drop 2 cs)
          }
          else if K = FSS_ConstantPropString then do {
            emit ''['';
            arg 0;
            emit '' : '';
            arg 1;
            emit [CHR 0x27];
            arg 2;
            emit [CHR 0x27];
            emit '']'';
            sig_specialization_params rec dsym depth (drop 3 cs)
          }
          else if K = FSS_ClosureProp then do {
            emit ''['';
            arg 0;
            emit '' : '';
            arg 1;
            emit '', Argument Types : ['';
            closure_types rec depth (drop 2 cs);
            emit '']'';
            sig_specialization_params rec dsym depth (dropWhile (\<lambda>c. getKind c = K_Type) (drop 2 cs))
          }
          else do {
            check (K AND option_flags \<noteq> 0);
            arg 0;
            sig_specialization_params rec dsym depth (drop 1 cs)
          }
        })"
  by pat_completeness auto
termination
  by (relation "measure (\<lambda>(rec, dsym, depth, cs). length cs)")
    (auto intro: le_less_trans [OF length_dropWhile_le])

declare sig_specialization_params.simps [simp del]

definition printFunctionSigSpecializationParams :: "recursion \<Rightarrow> symbol_printer \<Rightarrow> node \<Rightarrow> nat \<Rightarrow> unit pr" where
  "printFunctionSigSpecializationParams rec dsym n depth =
     sig_specialization_params rec dsym depth (getChildren n)"

fun specialization_children ::
  "recursion \<Rightarrow> symbol_printer \<Rightarrow> nat \<Rightarrow> string \<Rightarrow> string \<Rightarrow> nat \<Rightarrow> node list \<Rightarrow> unit pr" where
  "specialization_children rec dsym depth ParamPrefix Separator argNum [] = return_pr ()"
| "specialization_children rec dsym depth ParamPrefix Separator argNum (child # cs) =
     (if getKind child = K_SpecializationPassID then
        specialization_children rec dsym depth ParamPrefix Separator argNum cs
      else if getKind child = K_IsSerialized then do {
        emit Separator;
        sub rec depth (Some child);
        specialization_children rec dsym depth ParamPrefix '', '' argNum cs
      }
      else if getNumChildren child = 0 then
        specialization_children rec dsym depth ParamPrefix Separator (argNum + 1) cs
      else do {
        emit (Separator @ ParamPrefix);
        (if getKind child = K_FunctionSignatureSpecializationParam then do {
           emit (''Arg['' @ show_nat argNum @ ''] = '');
           printFunctionSigSpecializationParams rec dsym child depth
         }
         else if getKind child = K_FunctionSignatureSpecializationReturn then do {
           emit ''Return = '';
           printFunctionSigSpecializationParams rec dsym child depth
         }
         else sub rec depth (Some child));
        specialization_children rec dsym depth ParamPrefix '', '' (argNum + 1) cs
      })"

definition printSpecializationPrefix ::
  "recursion \<Rightarrow> symbol_printer \<Rightarrow> DemangleOptions \<Rightarrow> node \<Rightarrow> string \<Rightarrow> nat \<Rightarrow> string \<Rightarrow> unit pr" where
  "printSpecializationPrefix rec dsym opts n Description depth ParamPrefix =
     (if \<not> DisplayGenericSpecializations opts then do {
        printed \<leftarrow> reading SpecializationPrefixPrinted;
        if printed then return_pr ()
        else do { emit ''specialized ''; set_prefix_printed }
      }
      else do {
        emit (Description @ '' <'');
        specialization_children rec dsym depth ParamPrefix [] 0 (getChildren n);
        emit ''> of ''
      })"

section \<open>Predicates on types\<close>

definition isExistentialType :: "node \<Rightarrow> bool" where
  "isExistentialType n \<longleftrightarrow>
     getKind n \<in> {K_ExistentialMetatype, K_ProtocolList, K_ProtocolListWithClass, K_ProtocolListWithAnyObject}"

definition isClassType :: "node \<Rightarrow> bool" where
  "isClassType n \<longleftrightarrow> getKind n = K_Class"

fun needSpaceBeforeType :: "node \<Rightarrow> bool option" where
  "needSpaceBeforeType (Node k cs) =
     (if k = K_Type then (case cs of [] \<Rightarrow> None | c # _ \<Rightarrow> needSpaceBeforeType c)
      else Some (k \<notin> {K_FunctionType, K_NoEscapeFunctionType, K_UncurriedFunctionType, K_DependentGenericType}))"
| "needSpaceBeforeType n =
     (if getKind n = K_Type then None
      else Some (getKind n \<notin>
        {K_FunctionType, K_NoEscapeFunctionType, K_UncurriedFunctionType, K_DependentGenericType}))"

section \<open>Value witnesses\<close>

definition witness_texts :: "(string \<times> string) list" where
  "witness_texts =
     [(''AllocateBuffer'', ''allocateBuffer''),
      (''AssignWithCopy'', ''assignWithCopy''),
      (''AssignWithTake'', ''assignWithTake''),
      (''DeallocateBuffer'', ''deallocateBuffer''),
      (''Destroy'', ''destroy''),
      (''DestroyBuffer'', ''destroyBuffer''),
      (''InitializeBufferWithCopyOfBuffer'', ''initializeBufferWithCopyOfBuffer''),
      (''InitializeBufferWithCopy'', ''initializeBufferWithCopy''),
      (''InitializeWithCopy'', ''initializeWithCopy''),
      (''InitializeBufferWithTake'', ''initializeBufferWithTake''),
      (''InitializeWithTake'', ''initializeWithTake''),
      (''ProjectBuffer'', ''projectBuffer''),
      (''InitializeBufferWithTakeOfBuffer'', ''initializeBufferWithTakeOfBuffer''),
      (''DestroyArray'', ''destroyArray''),
      (''InitializeArrayWithCopy'', ''initializeArrayWithCopy''),
      (''InitializeArrayWithTakeFrontToBack'', ''initializeArrayWithTakeFrontToBack''),
      (''InitializeArrayWithTakeBackToFront'', ''initializeArrayWithTakeBackToFront''),
      (''StoreExtraInhabitant'', ''storeExtraInhabitant''),
      (''GetExtraInhabitantIndex'', ''getExtraInhabitantIndex''),
      (''GetEnumTag'', ''getEnumTag''),
      (''DestructiveProjectEnumData'', ''destructiveProjectEnumData''),
      (''DestructiveInjectEnumTag'', ''destructiveInjectEnumTag''),
      (''GetEnumTagSinglePayload'', ''getEnumTagSinglePayload''),
      (''StoreEnumTagSinglePayload'', ''storeEnumTagSinglePayload'')]"

definition ValueWitnessKind_toString :: "u64 \<Rightarrow> string option" where
  "ValueWitnessKind_toString k =
     (let i = unat (low32 k)
      in if i < length value_witnesses then map_of witness_texts (snd (value_witnesses ! i)) else None)"

definition Directness_toString :: "u64 \<Rightarrow> string option" where
  "Directness_toString d = (if d = 0 then Some ''direct'' else if d = 1 then Some ''indirect'' else None)"

end
