(* ===== verification/Printer_Print.thy ===== *)
theory Printer_Print
  imports Printer_Types
begin

text \<open>
  The function \<open>print\<close> of \<open>NodePrinter\<close>, its cases in the order of the code, with \<open>printEntity\<close>,
  \<open>printAbstractStorage\<close> and \<open>nodeToString\<close>. The cases that print literals and children in some order are
  lists of actions; longer ones have definitions of their own.

  \<open>print\<close> has as fuel one more than the size of the tree; a result that is not null is a context that the
  caller is to print in postfix form. \<open>Printer_Facts\<close> shows that the fuel is enough.
\<close>

section \<open>Actions\<close>

datatype action = Lit string | Sub nat | Subs string | NodeText | NodeIndex | NodeHex

fun act :: "recursion \<Rightarrow> node \<Rightarrow> nat \<Rightarrow> action \<Rightarrow> unit pr" where
  "act rec nd depth (Lit s) = emit s"
| "act rec nd depth (Sub i) = sub rec depth (getChild nd i)"
| "act rec nd depth (Subs sep) = printChildren rec depth sep (Some nd)"
| "act rec nd depth NodeText = emit_text nd"
| "act rec nd depth NodeIndex = emit_index nd"
| "act rec nd depth NodeHex = do { i \<leftarrow> getIndex nd; writeHex i }"

fun acts :: "recursion \<Rightarrow> node \<Rightarrow> nat \<Rightarrow> action list \<Rightarrow> unit pr" where
  "acts rec nd depth [] = return_pr ()"
| "acts rec nd depth (a # as) = do { act rec nd depth a; acts rec nd depth as }"

definition simple :: "recursion \<Rightarrow> node \<Rightarrow> nat \<Rightarrow> action list \<Rightarrow> node option pr" where
  "simple rec nd depth as = do { acts rec nd depth as; nothing }"

definition only_if :: "bool \<Rightarrow> unit pr \<Rightarrow> unit pr" where
  "only_if b m = (if b then m else return_pr ())"

section \<open>Entities\<close>

datatype TypePrinting = NoType | WithColon | FunctionStyle

definition printEntityType ::
  "recursion \<Rightarrow> DemangleOptions \<Rightarrow> node \<Rightarrow> node option \<Rightarrow> node option \<Rightarrow> nat \<Rightarrow> unit pr" where
  "printEntityType rec opts Entity type genericFunctionTypeList depth =
     (let labelList = getChildIf Entity K_LabelList
      in if labelList = None \<and> genericFunctionTypeList = None then sub rec depth type
         else do {
           only_if (genericFunctionTypeList \<noteq> None) (do {
             emit ''<'';
             printChildren rec depth '', '' genericFunctionTypeList;
             emit ''>''
           });
           type \<leftarrow> deref type;
           type \<leftarrow>
             (if getKind type = K_DependentGenericType then do {
                only_if (genericFunctionTypeList = None) (sub rec depth (getChild type 0));
                dependentType \<leftarrow> deref (getChild type 1);
                space \<leftarrow> need False (needSpaceBeforeType dependentType);
                only_if space (emit '' '');
                deref (getFirstChild dependentType)
              }
              else return_pr type);
           printFunctionType rec opts labelList type depth
         })"

text \<open>The type below any number of generic signatures; \<open>None\<close> is a null pointer that is followed.\<close>

fun below_signatures :: "node \<Rightarrow> node option" where
  "below_signatures (Node k (sig # Node k' (t # ts) # cs)) =
     (if k = K_DependentGenericType then below_signatures t else Some (Node k (sig # Node k' (t # ts) # cs)))"
| "below_signatures n = (if getKind n = K_DependentGenericType then None else Some n)"

definition function_kinds :: "Kind list" where
  "function_kinds =
     [K_FunctionType, K_NoEscapeFunctionType, K_UncurriedFunctionType, K_CFunctionPointer, K_ThinFunctionType]"

definition print_entity_type ::
  "recursion \<Rightarrow> DemangleOptions \<Rightarrow> node \<Rightarrow> node option \<Rightarrow> node option \<Rightarrow> nat \<Rightarrow> TypePrinting \<Rightarrow> bool \<Rightarrow> unit pr" where
  "print_entity_type rec opts Entity type genericFunctionTypeList depth TypePr MultiWordName = do {
     TypePr \<leftarrow>
       (if TypePr = FunctionStyle then do {
          t \<leftarrow> deref (Option.bind type below_signatures);
          return_pr (if getKind t \<in> set function_kinds then FunctionStyle else WithColon)
        }
        else return_pr TypePr);
     if TypePr = WithColon then
       only_if (DisplayEntityTypes opts) (do {
         emit '' : '';
         printEntityType rec opts Entity type genericFunctionTypeList depth
       })
     else do {
       space \<leftarrow> (if MultiWordName then return_pr True else need False (Option.bind type needSpaceBeforeType));
       only_if space (emit '' '');
       printEntityType rec opts Entity type genericFunctionTypeList depth
     }
   }"

text \<open>The context in front of the name; the result is the context still to be printed.\<close>

definition print_prefix_context ::
  "recursion \<Rightarrow> DemangleOptions \<Rightarrow> node option \<Rightarrow> nat \<Rightarrow> bool \<Rightarrow> node option pr" where
  "print_prefix_context rec opts Context depth MultiWordName = do {
     shown \<leftarrow> printContext opts Context;
     if \<not> shown then nothing
     else if MultiWordName then return_pr Context
     else do {
       CurrentPos \<leftarrow> reading (\<lambda>s. length (Stream s));
       PostfixContext \<leftarrow> rec Context (depth + 1) True;
       now \<leftarrow> reading (\<lambda>s. length (Stream s));
       only_if (now \<noteq> CurrentPos) (emit ''.'');
       return_pr PostfixContext
     }
   }"

text \<open>The name; the result is what is left of \<open>ExtraName\<close>.\<close>

definition print_entity_name ::
  "recursion \<Rightarrow> node \<Rightarrow> nat \<Rightarrow> bool \<Rightarrow> string \<Rightarrow> string \<Rightarrow> string pr" where
  "print_entity_name rec Entity depth MultiWordName ExtraName OverwriteName = do {
     ExtraName \<leftarrow>
       (if ExtraName \<noteq> [] \<and> MultiWordName then do { emit (ExtraName @ '' of ''); return_pr [] }
        else return_pr ExtraName);
     CurrentPos \<leftarrow> reading (\<lambda>s. length (Stream s));
     (if OverwriteName \<noteq> [] then emit OverwriteName
      else do {
        Name \<leftarrow> deref (getChild Entity 1);
        only_if (getKind Name \<noteq> K_PrivateDeclName) (sub rec depth (Some Name));
        (case getChildIf Entity K_PrivateDeclName of
           Some PrivateName \<Rightarrow> sub rec depth (Some PrivateName)
         | None \<Rightarrow> return_pr ())
      });
     now \<leftarrow> reading (\<lambda>s. length (Stream s));
     only_if (now \<noteq> CurrentPos \<and> ExtraName \<noteq> []) (emit ''.'');
     return_pr ExtraName
   }"

definition print_postfix_context ::
  "recursion \<Rightarrow> Kind \<Rightarrow> nat \<Rightarrow> node option \<Rightarrow> unit pr" where
  "print_postfix_context rec kind depth PostfixContext = do {
     emit (if kind \<in> {K_DefaultArgumentInitializer, K_Initializer, K_PropertyWrapperBackingInitializer,
              K_PropertyWrapperInitFromProjectedValue} then '' of '' else '' in '');
     sub rec depth PostfixContext
   }"

definition printEntity ::
  "recursion \<Rightarrow> DemangleOptions \<Rightarrow> node \<Rightarrow> nat \<Rightarrow> bool \<Rightarrow> TypePrinting \<Rightarrow> bool \<Rightarrow> string \<Rightarrow> int \<Rightarrow> string
    \<Rightarrow> node option pr" where
  "printEntity rec opts Entity depth asPrefixContext TypePr hasName ExtraName ExtraIndex OverwriteName = do {
     let genericFunctionTypeList = (if getKind Entity = K_BoundGenericFunction then getChild Entity 1 else None);
     Entity \<leftarrow> (if getKind Entity = K_BoundGenericFunction then deref (getFirstChild Entity) else return_pr Entity);
     LocalName \<leftarrow>
       (if hasName then do { k \<leftarrow> kind_of_child Entity 1; return_pr (k = K_LocalDeclName) } else return_pr False);
     let MultiWordName = (CHR '' '' \<in> set ExtraName \<or> LocalName \<and> DisplayLocalNameContexts opts);
     if asPrefixContext \<and> (TypePr \<noteq> NoType \<or> MultiWordName) then return_pr (Some Entity)
     else do {
       PostfixContext \<leftarrow> print_prefix_context rec opts (getChild Entity 0) depth MultiWordName;
       ExtraName \<leftarrow>
         (if hasName \<or> OverwriteName \<noteq> [] then do {
            check (ExtraIndex < 0);
            print_entity_name rec Entity depth MultiWordName ExtraName OverwriteName
          }
          else return_pr ExtraName);
       only_if (ExtraName \<noteq> []) (emit (ExtraName @ (if ExtraIndex \<ge> 0 then show_nat (nat ExtraIndex) else [])));
       let postfix = (if \<not> asPrefixContext \<and> PostfixContext \<noteq> None \<and> (\<not> LocalName \<or> DisplayLocalNameContexts opts)
            then do { print_postfix_context rec (getKind Entity) depth PostfixContext; nothing }
            else return_pr PostfixContext);
       if TypePr = NoType then postfix
       else (case getChildIf Entity K_Type of
           None \<Rightarrow> do { setInvalid; nothing }
         | Some type \<Rightarrow> do {
             print_entity_type rec opts Entity (getChild type 0) genericFunctionTypeList depth TypePr MultiWordName;
             postfix
           })
     }
   }"

definition printAbstractStorage ::
  "recursion \<Rightarrow> DemangleOptions \<Rightarrow> node option \<Rightarrow> nat \<Rightarrow> bool \<Rightarrow> string \<Rightarrow> node option pr" where
  "printAbstractStorage rec opts n depth asPrefixContent ExtraName = do {
     n \<leftarrow> deref n;
     if getKind n = K_Variable then
       printEntity rec opts n depth asPrefixContent WithColon True ExtraName (-1) []
     else if getKind n = K_Subscript then
       printEntity rec opts n depth asPrefixContent WithColon False ExtraName (-1) ''subscript''
     else broken None
   }"

section \<open>Cases with definitions of their own\<close>

definition print_anonymous_context :: "recursion \<Rightarrow> DemangleOptions \<Rightarrow> node \<Rightarrow> nat \<Rightarrow> node option pr" where
  "print_anonymous_context rec opts nd depth = do {
     only_if (QualifyEntities opts \<and> DisplayExtensionContexts opts) (do {
       acts rec nd depth [Sub 1, Lit ''.(unknown context at '', Sub 0, Lit '')''];
       only_if (case getChild nd 2 of Some c \<Rightarrow> getNumChildren c > 0 | None \<Rightarrow> False)
         (acts rec nd depth [Lit ''<'', Sub 2, Lit ''>''])
     });
     nothing
   }"

definition print_extension :: "recursion \<Rightarrow> DemangleOptions \<Rightarrow> node \<Rightarrow> nat \<Rightarrow> node option pr" where
  "print_extension rec opts nd depth = do {
     check (getNumChildren nd = 2 \<or> getNumChildren nd = 3);
     only_if (QualifyEntities opts \<and> DisplayExtensionContexts opts) (do {
       emit ''(extension in '';
       rec (getChild nd 0) (depth + 1) True;
       emit ''):''
     });
     sub rec depth (getChild nd 1);
     only_if (getNumChildren nd = 3 \<and> \<not> PrintForTypeName opts) (sub rec depth (getChild nd 2));
     nothing
   }"

definition print_closure ::
  "recursion \<Rightarrow> DemangleOptions \<Rightarrow> node \<Rightarrow> nat \<Rightarrow> bool \<Rightarrow> string \<Rightarrow> node option pr" where
  "print_closure rec opts nd depth pre name = do {
     c \<leftarrow> deref (getChild nd 1);
     i \<leftarrow> getIndex c;
     printEntity rec opts nd depth pre (if ShowFunctionArgumentTypes opts then FunctionStyle else NoType)
       False name (int32 (int32 (uint i) + 1)) []
   }"

definition print_private_name :: "recursion \<Rightarrow> DemangleOptions \<Rightarrow> node \<Rightarrow> nat \<Rightarrow> node option pr" where
  "print_private_name rec opts nd depth =
     (if getNumChildren nd > 1 then do {
        only_if (ShowPrivateDiscriminators opts) (emit ''('');
        sub rec depth (getChild nd 1);
        only_if (ShowPrivateDiscriminators opts) (do {
          c \<leftarrow> deref (getChild nd 0);
          emit '' in '';
          emit_text c;
          emit '')''
        });
        nothing
      }
      else do {
        only_if (ShowPrivateDiscriminators opts) (do {
          c \<leftarrow> deref (getChild nd 0);
          emit ''(in '';
          emit_text c;
          emit '')''
        });
        nothing
      })"

definition print_tuple_element :: "recursion \<Rightarrow> node \<Rightarrow> nat \<Rightarrow> node option pr" where
  "print_tuple_element rec nd depth = do {
     (case getChildIf nd K_TupleElementName of
        Some Label \<Rightarrow> do { emit_text Label; emit '': '' }
      | None \<Rightarrow> return_pr ());
     check (getChildIf nd K_Type \<noteq> None);
     sub rec depth (getChildIf nd K_Type);
     only_if (getChildIf nd K_VariadicMarker \<noteq> None) (emit ''...'');
     nothing
   }"

definition keywordOf :: "Kind \<Rightarrow> string" where
  "keywordOf k = (if k = K_Weak then ''weak'' else if k = K_Unowned then ''unowned'' else ''unowned(unsafe)'')"

fun print_with_separators :: "recursion \<Rightarrow> nat \<Rightarrow> string \<Rightarrow> string \<Rightarrow> node list \<Rightarrow> unit pr" where
  "print_with_separators rec depth first others [] = return_pr ()"
| "print_with_separators rec depth first others (c # cs) = do {
     emit first;
     sub rec depth (Some c);
     print_with_separators rec depth others others cs
   }"

definition option_set_texts :: "(u64 \<times> string) list" where
  "option_set_texts =
     [(FSS_ExistentialToGeneric, ''Existential To Protocol Constrained Generic''), (FSS_Dead, ''Dead''),
      (FSS_OwnedToGuaranteed, ''Owned To Guaranteed''), (FSS_GuaranteedToOwned, ''Guaranteed To Owned''),
      (FSS_SROA, ''Exploded'')]"

fun join_and :: "string list \<Rightarrow> string" where
  "join_and [] = []"
| "join_and [t] = t"
| "join_and (t # ts) = t @ '' and '' @ join_and ts"

definition param_kind_texts :: "(u64 \<times> string) list" where
  "param_kind_texts =
     [(FSS_BoxToValue, ''Value Promoted from Box''), (FSS_BoxToStack, ''Stack Promoted from Box''),
      (FSS_ConstantPropFunction, ''Constant Propagated Function''),
      (FSS_ConstantPropGlobal, ''Constant Propagated Global''),
      (FSS_ConstantPropInteger, ''Constant Propagated Integer''),
      (FSS_ConstantPropFloat, ''Constant Propagated Float''),
      (FSS_ConstantPropString, ''Constant Propagated String''), (FSS_ClosureProp, ''Closure Propagated'')]"

definition print_param_kind :: "node \<Rightarrow> node option pr" where
  "print_param_kind nd = do {
     raw \<leftarrow> getIndex nd;
     let flags = map snd (filter (\<lambda>(f, _). raw AND f \<noteq> 0) option_set_texts);
     emit (if flags \<noteq> [] then join_and flags
           else case map_of param_kind_texts (low32 raw) of Some t \<Rightarrow> t | None \<Rightarrow> []);
     nothing
   }"

definition print_partial_apply :: "recursion \<Rightarrow> DemangleOptions \<Rightarrow> node \<Rightarrow> nat \<Rightarrow> string \<Rightarrow> node option pr" where
  "print_partial_apply rec opts nd depth long = do {
     emit (if ShortenPartialApply opts then ''partial apply'' else long);
     only_if (getNumChildren nd \<noteq> 0) (do { emit '' for ''; printChildren rec depth [] (Some nd) });
     nothing
   }"

fun print_key_path_types :: "recursion \<Rightarrow> nat \<Rightarrow> node list \<Rightarrow> unit pr" where
  "print_key_path_types rec depth [] = return_pr ()"
| "print_key_path_types rec depth (c # cs) = do {
     only_if (getKind c = K_IsSerialized) (emit '', '');
     sub rec depth (Some c);
     print_key_path_types rec depth cs
   }"

definition print_key_path_accessor :: "recursion \<Rightarrow> node \<Rightarrow> nat \<Rightarrow> node option pr" where
  "print_key_path_accessor rec nd depth = do {
     emit (if getKind nd = K_KeyPathGetterThunkHelper then ''key path getter for '' else ''key path setter for '');
     sub rec depth (getChild nd 0);
     emit '' : '';
     print_key_path_types rec depth (drop 1 (getChildren nd));
     nothing
   }"

definition child_before :: "node \<Rightarrow> nat \<Rightarrow> node option" where
  "child_before nd i = (if i = 0 then None else getChild nd (i - 1))"

definition print_key_path_operator :: "recursion \<Rightarrow> node \<Rightarrow> nat \<Rightarrow> node option pr" where
  "print_key_path_operator rec nd depth = do {
     emit (''key path index ''
       @ (if getKind nd = K_KeyPathEqualsThunkHelper then ''equality'' else ''hash'') @ '' operator for '');
     let lastChildIndex = getNumChildren nd;
     lastChild \<leftarrow> deref (child_before nd lastChildIndex);
     let lastChildIndex = (if getKind lastChild = K_IsSerialized then lastChildIndex - 1 else lastChildIndex);
     lastChild \<leftarrow> deref (child_before nd lastChildIndex);
     let sig = (getKind lastChild = K_DependentGenericSignature);
     only_if sig (sub rec depth (Some lastChild));
     emit ''('';
     print_nodes rec depth '', '' (take (if sig then lastChildIndex - 1 else lastChildIndex) (getChildren nd));
     emit '')'';
     nothing
   }"

definition print_reabstraction_thunk :: "recursion \<Rightarrow> DemangleOptions \<Rightarrow> node \<Rightarrow> nat \<Rightarrow> node option pr" where
  "print_reabstraction_thunk rec opts nd depth =
     (if ShortenThunk opts then do { emit ''thunk for ''; sub rec depth (getLastChild nd); nothing }
      else do {
        emit ''reabstraction thunk '';
        only_if (getKind nd = K_ReabstractionThunkHelper) (emit ''helper '');
        let idx = (if getNumChildren nd = 3 then 1 else 0);
        only_if (idx = 1) (acts rec nd depth [Sub 0, Lit '' '']);
        simple rec nd depth [Lit ''from '', Sub (idx + 1), Lit '' to '', Sub idx]
      })"

definition print_reabstraction_thunk_with_self :: "recursion \<Rightarrow> node \<Rightarrow> nat \<Rightarrow> node option pr" where
  "print_reabstraction_thunk_with_self rec nd depth = do {
     emit ''reabstraction thunk '';
     let idx = (if getNumChildren nd = 4 then 1 else 0);
     only_if (idx = 1) (acts rec nd depth [Sub 0, Lit '' '']);
     simple rec nd depth
       [Lit ''from '', Sub (idx + 2), Lit '' to '', Sub (idx + 1), Lit '' self '', Sub idx]
   }"

definition print_autodiff_function :: "recursion \<Rightarrow> DemangleOptions \<Rightarrow> node \<Rightarrow> nat \<Rightarrow> node option pr" where
  "print_autodiff_function rec opts nd depth = do {
     let prefix = takeWhile (\<lambda>c. getKind c \<noteq> K_AutoDiffFunctionKind) (getChildren nd);
     let prefixEndIndex = length prefix;
     only_if (getKind nd = K_AutoDiffDerivativeVTableThunk) (emit ''vtable thunk for '');
     acts rec nd depth [Sub prefixEndIndex, Lit '' of ''];
     let optionalGenSig =
       (case rev prefix of
          c # _ \<Rightarrow> if getKind c = K_DependentGenericSignature then Some c else None
        | [] \<Rightarrow> None);
     print_nodes rec depth [] (if optionalGenSig = None then prefix else butlast prefix);
     if ShortenThunk opts then nothing
     else do {
       acts rec nd depth [Lit '' with respect to parameters '', Sub (prefixEndIndex + 1),
         Lit '' and results '', Sub (prefixEndIndex + 2)];
       only_if (optionalGenSig \<noteq> None \<and> DisplayWhereClauses opts)
         (do { emit '' with ''; sub rec depth optionalGenSig });
       nothing
     }
   }"

text \<open>The children are read through an iterator that does not check for the end.\<close>

definition print_self_reordering_thunk :: "recursion \<Rightarrow> DemangleOptions \<Rightarrow> node \<Rightarrow> nat \<Rightarrow> node option pr" where
  "print_self_reordering_thunk rec opts nd depth = do {
     emit ''autodiff self-reordering reabstraction thunk '';
     fromType \<leftarrow> deref (getChild nd 0);
     toType \<leftarrow> deref (getChild nd 1);
     if ShortenThunk opts then do { emit ''for ''; sub rec depth (Some fromType); nothing }
     else do {
       c \<leftarrow> deref (getChild nd 2);
       let sig = (getKind c = K_DependentGenericSignature);
       emit ''for '';
       kind \<leftarrow> (if sig then deref (getChild nd 3) else return_pr c);
       sub rec depth (Some kind);
       only_if sig (do { sub rec depth (Some c); emit '' '' });
       emit '' from '';
       sub rec depth (Some fromType);
       emit '' to '';
       sub rec depth (Some toType);
       nothing
     }
   }"

text \<open>With less than five children an index goes below zero.\<close>

definition print_subset_parameters_thunk :: "recursion \<Rightarrow> DemangleOptions \<Rightarrow> node \<Rightarrow> nat \<Rightarrow> node option pr" where
  "print_subset_parameters_thunk rec opts nd depth = do {
     emit ''autodiff subset parameters thunk for '';
     check (5 \<le> getNumChildren nd);
     let currentIndex = getNumChildren nd - 5;
     acts rec nd depth [Sub (currentIndex + 1), Lit '' from ''];
     (if currentIndex = 0 then sub rec depth (getFirstChild nd)
      else print_nodes rec depth [] (take currentIndex (getChildren nd)));
     if ShortenThunk opts then nothing
     else do {
       acts rec nd depth [Lit '' with respect to parameters '', Sub (currentIndex + 2),
         Lit '' and results '', Sub (currentIndex + 3), Lit '' to parameters '', Sub (currentIndex + 4)];
       only_if (currentIndex > 0) (acts rec nd depth [Lit '' of type '', Sub currentIndex]);
       nothing
     }
   }"

definition autodiff_kind :: "char \<Rightarrow> string" where
  "autodiff_kind k =
     (if k = CHR ''f'' then ''forward-mode derivative''
      else if k = CHR ''r'' then ''reverse-mode derivative''
      else if k = CHR ''d'' then ''differential''
      else if k = CHR ''p'' then ''pullback''
      else [])"

definition witness_kind :: "char \<Rightarrow> string" where
  "witness_kind k =
     (if k = CHR ''f'' then ''forward-mode''
      else if k = CHR ''r'' then ''reverse-mode''
      else if k = CHR ''d'' then ''normal''
      else if k = CHR ''l'' then ''linear''
      else [])"

definition print_differentiability_witness :: "recursion \<Rightarrow> node \<Rightarrow> nat \<Rightarrow> node option pr" where
  "print_differentiability_witness rec nd depth = do {
     last \<leftarrow> deref (getLastChild nd);
     let back = (if getKind last = K_DependentGenericSignature then 4 else 3);
     kindNode \<leftarrow> deref (if getNumChildren nd < back then None else getChild nd (getNumChildren nd - back));
     i \<leftarrow> getIndex kindNode;
     check (differentiability i \<noteq> CHR 0x00);
     emit (witness_kind (differentiability i));
     emit '' differentiability witness for '';
     let prefix = takeWhile (\<lambda>c. getKind c \<noteq> K_Index) (getChildren nd);
     print_nodes rec depth [] prefix;
     let idx = length prefix + 1;
     acts rec nd depth [Lit '' with respect to parameters '', Sub idx, Lit '' and results '', Sub (idx + 1)];
     only_if (idx + 2 < getNumChildren nd) (do {
       k \<leftarrow> kind_of_child nd (idx + 2);
       check (k = K_DependentGenericSignature);
       acts rec nd depth [Lit '' with '', Sub (idx + 2)]
     });
     nothing
   }"

fun join_comma :: "string list \<Rightarrow> string" where
  "join_comma [] = []"
| "join_comma [t] = t"
| "join_comma (t # ts) = t @ '', '' @ join_comma ts"

definition print_index_subset :: "node \<Rightarrow> node option pr" where
  "print_index_subset nd = do {
     text \<leftarrow> getText nd;
     check (list_all (\<lambda>c. c = CHR ''S'' \<or> c = CHR ''U'') text);
     emit (''{'' @ join_comma (map show_nat (filter (\<lambda>i. text ! i = CHR ''S'') [0..<length text])) @ ''}'');
     nothing
   }"

definition metatype_index :: "recursion \<Rightarrow> node \<Rightarrow> nat \<Rightarrow> nat pr" where
  "metatype_index rec nd depth =
     (if getNumChildren nd = 2 then do { acts rec nd depth [Sub 0, Lit '' '']; return_pr 1 } else return_pr 0)"

definition print_metatype :: "recursion \<Rightarrow> node \<Rightarrow> nat \<Rightarrow> node option pr" where
  "print_metatype rec nd depth = do {
     Idx \<leftarrow> metatype_index rec nd depth;
     c \<leftarrow> deref (getChild nd Idx);
     let type = getChild c 0;
     printWithParens rec type depth;
     t \<leftarrow> deref type;
     emit (if isExistentialType t then ''.Protocol'' else ''.Type'');
     nothing
   }"

definition print_existential_metatype :: "recursion \<Rightarrow> node \<Rightarrow> nat \<Rightarrow> node option pr" where
  "print_existential_metatype rec nd depth = do {
     Idx \<leftarrow> metatype_index rec nd depth;
     sub rec depth (getChild nd Idx);
     emit ''.Type'';
     nothing
   }"

definition print_protocol_list :: "recursion \<Rightarrow> node \<Rightarrow> nat \<Rightarrow> node option pr" where
  "print_protocol_list rec nd depth =
     (case getChild nd 0 of
        None \<Rightarrow> nothing
      | Some type_list \<Rightarrow> do {
          (if getNumChildren type_list = 0 then emit ''Any'' else printChildren rec depth '' & '' (Some type_list));
          nothing
        })"

definition print_protocol_list_with_class :: "recursion \<Rightarrow> node \<Rightarrow> nat \<Rightarrow> node option pr" where
  "print_protocol_list_with_class rec nd depth =
     (if getNumChildren nd < 2 then nothing
      else do {
        protocols \<leftarrow> deref (getChild nd 0);
        sub rec depth (getChild nd 1);
        emit '' & '';
        only_if (getNumChildren protocols \<ge> 1) (printChildren rec depth '' & '' (getChild protocols 0));
        nothing
      })"

definition print_protocol_list_with_any_object ::
  "recursion \<Rightarrow> DemangleOptions \<Rightarrow> node \<Rightarrow> nat \<Rightarrow> node option pr" where
  "print_protocol_list_with_any_object rec opts nd depth =
     (if getNumChildren nd < 1 then nothing
      else do {
        protocols \<leftarrow> deref (getChild nd 0);
        if getNumChildren protocols < 1 then nothing
        else do {
          type_list \<leftarrow> deref (getChild protocols 0);
          only_if (getNumChildren type_list > 0)
            (do { printChildren rec depth '' & '' (Some type_list); emit '' & '' });
          only_if (QualifyEntities opts \<and> DisplayStdlibModule opts) (emit (STDLIB_NAME @ ''.''));
          emit ''AnyObject'';
          nothing
        }
      })"

definition print_protocol_conformance :: "recursion \<Rightarrow> DemangleOptions \<Rightarrow> node \<Rightarrow> nat \<Rightarrow> node option pr" where
  "print_protocol_conformance rec opts nd depth =
     (if getNumChildren nd = 4 then
        simple rec nd depth [Lit ''property behavior storage of '', Sub 2, Lit '' in '', Sub 0, Lit '' : '', Sub 1]
      else do {
        sub rec depth (getChild nd 0);
        only_if (DisplayProtocolConformances opts) (acts rec nd depth [Lit '' : '', Sub 1, Lit '' in '', Sub 2]);
        nothing
      })"

definition differentiable_suffix :: "char \<Rightarrow> string" where
  "differentiable_suffix k =
     (if k = CHR ''f'' then ''(_forward)''
      else if k = CHR ''r'' then ''(reverse)''
      else if k = CHR ''l'' then ''(_linear)''
      else [])"

definition print_impl_convention :: "recursion \<Rightarrow> node \<Rightarrow> nat \<Rightarrow> node option pr" where
  "print_impl_convention rec nd depth = do {
     emit ''@convention('';
     (if getNumChildren nd = 1 then do { c \<leftarrow> deref (getChild nd 0); emit_text c }
      else if getNumChildren nd = 2 then do {
        c \<leftarrow> deref (getChild nd 0);
        emit_text c;
        emit ('', mangledCType: '' @ [CHR 0x22]);
        sub rec depth (getChild nd 1);
        emit [CHR 0x22]
      }
      else broken ());
     emit '')'';
     nothing
   }"

text \<open>The parameters of one depth, at most 128 of them.\<close>

definition generic_parameters :: "DemangleOptions \<Rightarrow> nat \<Rightarrow> nat \<Rightarrow> string" where
  "generic_parameters opts depth count =
     join_comma (map (GenericParameterName opts depth) [0..<min count 128] @ (if count > 128 then [''...''] else []))"

fun print_param_counts :: "DemangleOptions \<Rightarrow> nat \<Rightarrow> node list \<Rightarrow> nat pr" where
  "print_param_counts opts depth [] = return_pr depth"
| "print_param_counts opts depth (c # cs) =
     (if getKind c \<noteq> K_DependentGenericParamCount then return_pr depth
      else do {
        only_if (depth \<noteq> 0) (emit ''><'');
        count \<leftarrow> getIndex c;
        emit (generic_parameters opts depth (unat (low32 count)));
        print_param_counts opts (depth + 1) cs
      })"

text \<open>The local variable \<open>depth\<close> of this case hides the parameter: the requirements are printed at its depth.\<close>

definition print_generic_signature :: "recursion \<Rightarrow> DemangleOptions \<Rightarrow> node \<Rightarrow> node option pr" where
  "print_generic_signature rec opts nd = do {
     emit ''<'';
     depth \<leftarrow> print_param_counts opts 0 (getChildren nd);
     only_if (depth \<noteq> getNumChildren nd \<and> DisplayWhereClauses opts) (do {
       emit '' where '';
       print_nodes rec depth '', '' (drop depth (getChildren nd))
     });
     emit ''>'';
     nothing
   }"

definition layout_names :: "(char \<times> string) list" where
  "layout_names =
     [(CHR ''U'', ''_UnknownLayout''), (CHR ''R'', ''_RefCountedObject''), (CHR ''N'', ''_NativeRefCountedObject''),
      (CHR ''C'', ''AnyObject''), (CHR ''D'', ''_NativeClass''), (CHR ''T'', ''_Trivial''),
      (CHR ''E'', ''_Trivial''), (CHR ''e'', ''_Trivial''), (CHR ''M'', ''_TrivialAtMost''),
      (CHR ''m'', ''_TrivialAtMost'')]"

definition print_layout_requirement :: "recursion \<Rightarrow> node \<Rightarrow> nat \<Rightarrow> node option pr" where
  "print_layout_requirement rec nd depth = do {
     layout \<leftarrow> deref (getChild nd 1);
     acts rec nd depth [Sub 0, Lit '': ''];
     check (getKind layout = K_Identifier);
     text \<leftarrow> getText layout;
     check (length text = 1);
     emit (case map_of layout_names (hd text) of Some name \<Rightarrow> name | None \<Rightarrow> []);
     only_if (getNumChildren nd > 2) (do {
       acts rec nd depth [Lit ''('', Sub 2];
       only_if (getNumChildren nd > 3) (acts rec nd depth [Lit '', '', Sub 3]);
       emit '')''
     });
     nothing
   }"

definition print_box_with_layout :: "recursion \<Rightarrow> node \<Rightarrow> nat \<Rightarrow> node option pr" where
  "print_box_with_layout rec nd depth = do {
     check (getNumChildren nd = 1 \<or> getNumChildren nd = 3);
     layout \<leftarrow> deref (getChild nd 0);
     check (getKind layout = K_SILBoxLayout);
     only_if (getNumChildren nd = 3) (do {
       signature \<leftarrow> deref (getChild nd 1);
       check (getKind signature = K_DependentGenericSignature);
       genericArgs \<leftarrow> deref (getChild nd 2);
       check (getKind genericArgs = K_TypeList);
       acts rec nd depth [Sub 1, Lit '' '']
     });
     sub rec depth (Some layout);
     only_if (getNumChildren nd = 3) (do {
       emit '' <'';
       printChildren rec depth '', '' (getChild nd 2);
       emit ''>''
     });
     nothing
   }"

fun print_box_fields :: "recursion \<Rightarrow> nat \<Rightarrow> bool \<Rightarrow> node list \<Rightarrow> unit pr" where
  "print_box_fields rec depth first [] = return_pr ()"
| "print_box_fields rec depth first (c # cs) = do {
     only_if (\<not> first) (emit '','');
     emit '' '';
     sub rec depth (Some c);
     print_box_fields rec depth False cs
   }"

definition error_flag_text :: "u64 \<Rightarrow> string" where
  "error_flag_text i =
     (if i = 0 then []
      else if i = 1 then '' nonzero on error''
      else if i = 2 then '' zero on error''
      else '' <invalid error flag>'')"

definition print_completion_handler :: "recursion \<Rightarrow> node \<Rightarrow> nat \<Rightarrow> node option pr" where
  "print_completion_handler rec nd depth = do {
     emit ''@objc completion handler block implementation for '';
     only_if (getNumChildren nd \<ge> 4) (sub rec depth (getChild nd 3));
     acts rec nd depth [Sub 0, Lit '' with result type '', Sub 1];
     flag \<leftarrow> deref (getChild nd 2);
     i \<leftarrow> getIndex flag;
     emit (error_flag_text i);
     nothing
   }"

section \<open>The cases of print\<close>

text \<open>
  Each definition is a part of the \<open>switch\<close>: \<open>other\<close> is what the cases behind it print.
\<close>

definition print_cases_1 ::
  "recursion \<Rightarrow> symbol_printer \<Rightarrow> DemangleOptions \<Rightarrow> node \<Rightarrow> nat \<Rightarrow> bool \<Rightarrow> node option pr
    \<Rightarrow> node option pr" where
  "print_cases_1 rec dsym opts nd depth pre other =
     (let k = getKind nd in
      if k = K_Static then
        simple rec nd depth [Lit ''static '', Sub 0]
      else if k = K_CurryThunk then
        simple rec nd depth [Lit ''curry thunk of '', Sub 0]
      else if k = K_DispatchThunk then
        simple rec nd depth [Lit ''dispatch thunk of '', Sub 0]
      else if k = K_MethodDescriptor then
        simple rec nd depth [Lit ''method descriptor for '', Sub 0]
      else if k = K_MethodLookupFunction then
        simple rec nd depth [Lit ''method lookup function for '', Sub 0]
      else if k = K_ObjCMetadataUpdateFunction then
        simple rec nd depth [Lit ''ObjC metadata update function for '', Sub 0]
      else if k = K_ObjCResilientClassStub then
        simple rec nd depth [Lit ''ObjC resilient class stub for '', Sub 0]
      else if k = K_FullObjCResilientClassStub then
        simple rec nd depth [Lit ''full ObjC resilient class stub for '', Sub 0]
      else if k = K_OutlinedBridgedMethod then
        simple rec nd depth [Lit ''outlined bridged method ('', NodeText, Lit '') of '']
      else if k = K_OutlinedCopy then
        do {
          emit ''outlined copy of '';
          sub rec depth (getChild nd 0);
          only_if (getNumChildren nd > 1) (sub rec depth (getChild nd 1));
          nothing
        }
      else if k = K_OutlinedConsume then
        do {
          emit ''outlined consume of '';
          sub rec depth (getChild nd 0);
          only_if (getNumChildren nd > 1) (sub rec depth (getChild nd 1));
          nothing
        }
      else if k = K_OutlinedRetain then
        simple rec nd depth [Lit ''outlined retain of '', Sub 0]
      else if k = K_OutlinedRelease then
        simple rec nd depth [Lit ''outlined release of '', Sub 0]
      else if k = K_OutlinedInitializeWithTake then
        simple rec nd depth [Lit ''outlined init with take of '', Sub 0]
      else if k = K_OutlinedInitializeWithCopy then
        simple rec nd depth [Lit ''outlined init with copy of '', Sub 0]
      else if k = K_OutlinedAssignWithTake then
        simple rec nd depth [Lit ''outlined assign with take of '', Sub 0]
      else if k = K_OutlinedAssignWithCopy then
        simple rec nd depth [Lit ''outlined assign with copy of '', Sub 0]
      else if k = K_OutlinedDestroy then
        simple rec nd depth [Lit ''outlined destroy of '', Sub 0]
      else if k = K_OutlinedVariable then
        simple rec nd depth [Lit ''outlined variable #'', NodeIndex, Lit '' of '']
      else if k = K_Directness then
        do {
          i \<leftarrow> getIndex nd;
          d \<leftarrow> need [] (Directness_toString i);
          emit (d @ '' '');
          nothing
        }
      else if k = K_AnonymousContext then
        print_anonymous_context rec opts nd depth
      else if k = K_Extension then
        print_extension rec opts nd depth
      else if k = K_Variable then
        printEntity rec opts nd depth pre WithColon True [] (-1) []
      else if k \<in> {K_Function, K_BoundGenericFunction} then
        printEntity rec opts nd depth pre FunctionStyle True [] (-1) []
      else if k = K_Subscript then
        printEntity rec opts nd depth pre FunctionStyle False [] (-1) ''subscript''
      else other)"

definition print_cases_2 ::
  "recursion \<Rightarrow> symbol_printer \<Rightarrow> DemangleOptions \<Rightarrow> node \<Rightarrow> nat \<Rightarrow> bool \<Rightarrow> node option pr
    \<Rightarrow> node option pr" where
  "print_cases_2 rec dsym opts nd depth pre other =
     (let k = getKind nd in
      if k = K_GenericTypeParamDecl then
        printEntity rec opts nd depth pre NoType True [] (-1) []
      else if k = K_ExplicitClosure then
        print_closure rec opts nd depth pre ''closure #''
      else if k = K_ImplicitClosure then
        print_closure rec opts nd depth pre ''implicit closure #''
      else if k = K_Global then
        simple rec nd depth [Subs []]
      else if k = K_Suffix then
        do {
          only_if (DisplayUnmangledSuffix opts) (do {
            t \<leftarrow> getText nd;
            emit ('' with unmangled suffix '' @ QuotedString t)
          });
          nothing
        }
      else if k = K_Initializer then
        printEntity rec opts nd depth pre NoType False ''variable initialization expression'' (-1) []
      else if k = K_PropertyWrapperBackingInitializer then
        printEntity rec opts nd depth pre NoType False ''property wrapper backing initializer'' (-1) []
      else if k = K_PropertyWrapperInitFromProjectedValue then
        printEntity rec opts nd depth pre NoType False ''property wrapper init from projected value'' (-1) []
      else if k = K_DefaultArgumentInitializer then
        do {
          c \<leftarrow> deref (getChild nd 1);
          i \<leftarrow> getIndex c;
          printEntity rec opts nd depth pre NoType False ''default argument '' (int32 (uint i)) []
        }
      else if k = K_DeclContext then
        simple rec nd depth [Sub 0]
      else if k = K_Type then
        simple rec nd depth [Sub 0]
      else if k = K_TypeMangling then
        do {
          k \<leftarrow> kind_of_child nd 0;
          (if k = K_LabelList then do {
             t \<leftarrow> deref (getChild nd 1);
             f \<leftarrow> deref (getFirstChild t);
             printFunctionType rec opts (getChild nd 0) f depth
           }
           else sub rec depth (getChild nd 0));
          nothing
        }
      else if k \<in> {K_Class, K_Structure, K_Enum, K_Protocol, K_TypeAlias, K_OtherNominalType} then
        printEntity rec opts nd depth pre NoType True [] (-1) []
      else if k = K_LocalDeclName then
        do {
          sub rec depth (getChild nd 1);
          only_if (DisplayLocalNameContexts opts) (do {
            c \<leftarrow> deref (getChild nd 0);
            i \<leftarrow> getIndex c;
            emit ('' #'' @ show_u64 (i + 1))
          });
          nothing
        }
      else if k = K_PrivateDeclName then
        print_private_name rec opts nd depth
      else if k = K_RelatedEntityDeclName then
        do {
          emit (''related decl '' @ [CHR 0x27]);
          c \<leftarrow> deref (getFirstChild nd);
          emit_text c;
          emit (CHR 0x27 # '' for '');
          sub rec depth (getChild nd 1);
          nothing
        }
      else if k = K_Module then
        do {
          only_if (DisplayModuleNames opts) (emit_text nd);
          nothing
        }
      else if k = K_Identifier then
        simple rec nd depth [NodeText]
      else if k = K_Index then
        simple rec nd depth [NodeIndex]
      else if k = K_UnknownIndex then
        simple rec nd depth [Lit ''unknown index'']
      else if k \<in> {K_FunctionType, K_UncurriedFunctionType, K_NoEscapeFunctionType, K_AutoClosureType,
         K_EscapingAutoClosureType, K_ThinFunctionType, K_CFunctionPointer, K_ObjCBlock,
         K_EscapingObjCBlock} then
        do {
          printFunctionType rec opts None nd depth;
          nothing
        }
      else if k = K_ClangType then
        simple rec nd depth [NodeText]
      else if k = K_ArgumentTuple then
        do {
          printFunctionParameters rec None nd depth (ShowFunctionArgumentTypes opts);
          nothing
        }
      else if k = K_Tuple then
        simple rec nd depth [Lit ''('', Subs '', '', Lit '')'']
      else other)"

definition print_cases_3 ::
  "recursion \<Rightarrow> symbol_printer \<Rightarrow> DemangleOptions \<Rightarrow> node \<Rightarrow> nat \<Rightarrow> bool \<Rightarrow> node option pr
    \<Rightarrow> node option pr" where
  "print_cases_3 rec dsym opts nd depth pre other =
     (let k = getKind nd in
      if k = K_TupleElement then
        print_tuple_element rec nd depth
      else if k = K_TupleElementName then
        simple rec nd depth [NodeText, Lit '': '']
      else if k = K_ReturnType then
        (if getNumChildren nd = 0 then simple rec nd depth [Lit '' -> '', NodeText]
         else simple rec nd depth [Lit '' -> '', Subs []])
      else if k = K_RetroactiveConformance then
        (if getNumChildren nd \<noteq> 2 then nothing
         else simple rec nd depth [Lit ''retroactive @ '', Sub 0, Sub 1])
      else if k \<in> {K_Weak, K_Unowned, K_Unmanaged} then
        simple rec nd depth [Lit (keywordOf k), Lit '' '', Sub 0]
      else if k = K_InOut then
        simple rec nd depth [Lit ''inout '', Sub 0]
      else if k = K_Isolated then
        simple rec nd depth [Lit ''isolated '', Sub 0]
      else if k = K_Shared then
        simple rec nd depth [Lit ''__shared '', Sub 0]
      else if k = K_Owned then
        simple rec nd depth [Lit ''__owned '', Sub 0]
      else if k = K_NoDerivative then
        simple rec nd depth [Lit ''@noDerivative '', Sub 0]
      else if k = K_NonObjCAttribute then
        simple rec nd depth [Lit ''@nonobjc '']
      else if k = K_ObjCAttribute then
        simple rec nd depth [Lit ''@objc '']
      else if k = K_DirectMethodReferenceAttribute then
        simple rec nd depth [Lit ''super '']
      else if k = K_DynamicAttribute then
        simple rec nd depth [Lit ''dynamic '']
      else if k = K_VTableAttribute then
        simple rec nd depth [Lit ''override '']
      else if k = K_FunctionSignatureSpecialization then
        do {
          printSpecializationPrefix rec dsym opts nd ''function signature specialization'' depth [];
          nothing
        }
      else if k = K_GenericPartialSpecialization then
        do {
          printSpecializationPrefix rec dsym opts nd ''generic partial specialization'' depth ''Signature = '';
          nothing
        }
      else if k = K_GenericPartialSpecializationNotReAbstracted then
        do {
          printSpecializationPrefix rec dsym opts nd ''generic not-reabstracted partial specialization'' depth ''Signature = '';
          nothing
        }
      else if k \<in> {K_GenericSpecialization, K_GenericSpecializationInResilienceDomain} then
        do {
          printSpecializationPrefix rec dsym opts nd ''generic specialization'' depth [];
          nothing
        }
      else if k = K_GenericSpecializationPrespecialized then
        do {
          printSpecializationPrefix rec dsym opts nd ''generic pre-specialization'' depth [];
          nothing
        }
      else if k = K_GenericSpecializationNotReAbstracted then
        do {
          printSpecializationPrefix rec dsym opts nd ''generic not re-abstracted specialization'' depth [];
          nothing
        }
      else if k = K_InlinedGenericFunction then
        do {
          printSpecializationPrefix rec dsym opts nd ''inlined generic function'' depth [];
          nothing
        }
      else if k = K_IsSerialized then
        simple rec nd depth [Lit ''serialized'']
      else if k = K_GenericSpecializationParam then
        do {
          sub rec depth (getChild nd 0);
          print_with_separators rec depth '' with '' '' and '' (drop 1 (getChildren nd));
          nothing
        }
      else if k \<in> {K_FunctionSignatureSpecializationReturn, K_FunctionSignatureSpecializationParam} then
        broken None
      else if k = K_FunctionSignatureSpecializationParamPayload then
        do {
          t \<leftarrow> getText nd;
          print_symbol dsym t;
          nothing
        }
      else other)"

definition print_cases_4 ::
  "recursion \<Rightarrow> symbol_printer \<Rightarrow> DemangleOptions \<Rightarrow> node \<Rightarrow> nat \<Rightarrow> bool \<Rightarrow> node option pr
    \<Rightarrow> node option pr" where
  "print_cases_4 rec dsym opts nd depth pre other =
     (let k = getKind nd in
      if k = K_FunctionSignatureSpecializationParamKind then
        print_param_kind nd
      else if k = K_SpecializationPassID then
        simple rec nd depth [NodeIndex]
      else if k = K_BuiltinTypeName then
        simple rec nd depth [NodeText]
      else if k = K_Number then
        simple rec nd depth [NodeIndex]
      else if k = K_InfixOperator then
        simple rec nd depth [NodeText, Lit '' infix'']
      else if k = K_PrefixOperator then
        simple rec nd depth [NodeText, Lit '' prefix'']
      else if k = K_PostfixOperator then
        simple rec nd depth [NodeText, Lit '' postfix'']
      else if k = K_LazyProtocolWitnessTableAccessor then
        simple rec nd depth
           [Lit ''lazy protocol witness table accessor for type '', Sub 0, Lit '' and conformance '', Sub 1]
      else if k = K_LazyProtocolWitnessTableCacheVariable then
        simple rec nd depth
           [Lit ''lazy protocol witness table cache variable for type '', Sub 0, Lit '' and conformance '',
            Sub 1]
      else if k = K_ProtocolSelfConformanceWitnessTable then
        simple rec nd depth [Lit ''protocol self-conformance witness table for '', Sub 0]
      else if k = K_ProtocolWitnessTableAccessor then
        simple rec nd depth [Lit ''protocol witness table accessor for '', Sub 0]
      else if k = K_ProtocolWitnessTable then
        simple rec nd depth [Lit ''protocol witness table for '', Sub 0]
      else if k = K_ProtocolWitnessTablePattern then
        simple rec nd depth [Lit ''protocol witness table pattern for '', Sub 0]
      else if k = K_GenericProtocolWitnessTable then
        simple rec nd depth [Lit ''generic protocol witness table for '', Sub 0]
      else other)"

definition print_cases_5 ::
  "recursion \<Rightarrow> symbol_printer \<Rightarrow> DemangleOptions \<Rightarrow> node \<Rightarrow> nat \<Rightarrow> bool \<Rightarrow> node option pr
    \<Rightarrow> node option pr" where
  "print_cases_5 rec dsym opts nd depth pre other =
     (let k = getKind nd in
      if k = K_GenericProtocolWitnessTableInstantiationFunction then
        simple rec nd depth [Lit ''instantiation function for generic protocol witness table for '', Sub 0]
      else if k = K_ResilientProtocolWitnessTable then
        simple rec nd depth [Lit ''resilient protocol witness table for '', Sub 0]
      else if k = K_VTableThunk then
        simple rec nd depth [Lit ''vtable thunk for '', Sub 1, Lit '' dispatching to '', Sub 0]
      else if k = K_ProtocolSelfConformanceWitness then
        simple rec nd depth [Lit ''protocol self-conformance witness for '', Sub 0]
      else if k = K_ProtocolWitness then
        simple rec nd depth [Lit ''protocol witness for '', Sub 1, Lit '' in conformance '', Sub 0]
      else if k = K_PartialApplyForwarder then
        print_partial_apply rec opts nd depth ''partial apply forwarder''
      else if k = K_PartialApplyObjCForwarder then
        print_partial_apply rec opts nd depth ''partial apply ObjC forwarder''
      else if k \<in> {K_KeyPathGetterThunkHelper, K_KeyPathSetterThunkHelper} then
        print_key_path_accessor rec nd depth
      else if k \<in> {K_KeyPathEqualsThunkHelper, K_KeyPathHashThunkHelper} then
        print_key_path_operator rec nd depth
      else if k = K_FieldOffset then
        simple rec nd depth [Sub 0, Lit ''field offset for '', Sub 1]
      else if k = K_EnumCase then
        simple rec nd depth [Lit ''enum case for '', Sub 0]
      else other)"

definition print_cases_6 ::
  "recursion \<Rightarrow> symbol_printer \<Rightarrow> DemangleOptions \<Rightarrow> node \<Rightarrow> nat \<Rightarrow> bool \<Rightarrow> node option pr
    \<Rightarrow> node option pr" where
  "print_cases_6 rec dsym opts nd depth pre other =
     (let k = getKind nd in
      if k \<in> {K_ReabstractionThunk, K_ReabstractionThunkHelper} then
        print_reabstraction_thunk rec opts nd depth
      else if k = K_ReabstractionThunkHelperWithGlobalActor then
        simple rec nd depth [Sub 0, Lit '' with global actor constraint '', Sub 1]
      else if k = K_ReabstractionThunkHelperWithSelf then
        print_reabstraction_thunk_with_self rec nd depth
      else if k \<in> {K_AutoDiffFunction, K_AutoDiffDerivativeVTableThunk} then
        print_autodiff_function rec opts nd depth
      else if k = K_AutoDiffSelfReorderingReabstractionThunk then
        print_self_reordering_thunk rec opts nd depth
      else other)"

definition print_cases_7 ::
  "recursion \<Rightarrow> symbol_printer \<Rightarrow> DemangleOptions \<Rightarrow> node \<Rightarrow> nat \<Rightarrow> bool \<Rightarrow> node option pr
    \<Rightarrow> node option pr" where
  "print_cases_7 rec dsym opts nd depth pre other =
     (let k = getKind nd in
      if k = K_AutoDiffSubsetParametersThunk then
        print_subset_parameters_thunk rec opts nd depth
      else if k = K_AutoDiffFunctionKind then
        do {
          i \<leftarrow> getIndex nd;
          emit (autodiff_kind (differentiability i));
          nothing
        }
      else if k = K_DifferentiabilityWitness then
        print_differentiability_witness rec nd depth
      else if k = K_IndexSubset then
        print_index_subset nd
      else if k = K_MergedFunction then
        do {
          only_if (\<not> ShortenThunk opts) (emit ''merged '');
          nothing
        }
      else if k = K_TypeSymbolicReference then
        simple rec nd depth [Lit ''type symbolic reference 0x'', NodeHex]
      else if k = K_OpaqueTypeDescriptorSymbolicReference then
        simple rec nd depth [Lit ''opaque type symbolic reference 0x'', NodeHex]
      else if k = K_DistributedThunk then
        do {
          only_if (\<not> ShortenThunk opts) (emit ''distributed thunk for '');
          nothing
        }
      else other)"

definition print_cases_8 ::
  "recursion \<Rightarrow> symbol_printer \<Rightarrow> DemangleOptions \<Rightarrow> node \<Rightarrow> nat \<Rightarrow> bool \<Rightarrow> node option pr
    \<Rightarrow> node option pr" where
  "print_cases_8 rec dsym opts nd depth pre other =
     (let k = getKind nd in
      if k = K_DistributedMethodAccessor then
        do {
          only_if (\<not> ShortenThunk opts) (emit ''distributed method accessor for '');
          nothing
        }
      else if k = K_AccessibleFunctionRecord then
        do {
          only_if (\<not> ShortenThunk opts) (emit ''accessible function runtime record for '');
          nothing
        }
      else if k = K_DynamicallyReplaceableFunctionKey then
        do {
          only_if (\<not> ShortenThunk opts) (emit ''dynamically replaceable key for '');
          nothing
        }
      else if k = K_DynamicallyReplaceableFunctionImpl then
        do {
          only_if (\<not> ShortenThunk opts) (emit ''dynamically replaceable thunk for '');
          nothing
        }
      else if k = K_DynamicallyReplaceableFunctionVar then
        do {
          only_if (\<not> ShortenThunk opts) (emit ''dynamically replaceable variable for '');
          nothing
        }
      else if k = K_ProtocolSymbolicReference then
        simple rec nd depth [Lit ''protocol symbolic reference 0x'', NodeHex]
      else if k = K_GenericTypeMetadataPattern then
        simple rec nd depth [Lit ''generic type metadata pattern for '', Sub 0]
      else if k = K_Metaclass then
        simple rec nd depth [Lit ''metaclass for '', Sub 0]
      else if k = K_ProtocolSelfConformanceDescriptor then
        simple rec nd depth [Lit ''protocol self-conformance descriptor for '', Sub 0]
      else if k = K_ProtocolConformanceDescriptor then
        simple rec nd depth [Lit ''protocol conformance descriptor for '', Sub 0]
      else if k = K_ProtocolConformanceDescriptorRecord then
        simple rec nd depth [Lit ''protocol conformance descriptor runtime record for '', Sub 0]
      else if k = K_ProtocolDescriptor then
        simple rec nd depth [Lit ''protocol descriptor for '', Sub 0]
      else if k = K_ProtocolDescriptorRecord then
        simple rec nd depth [Lit ''protocol descriptor runtime record for '', Sub 0]
      else if k = K_ProtocolRequirementsBaseDescriptor then
        simple rec nd depth [Lit ''protocol requirements base descriptor for '', Sub 0]
      else if k = K_FullTypeMetadata then
        simple rec nd depth [Lit ''full type metadata for '', Sub 0]
      else if k = K_TypeMetadata then
        simple rec nd depth [Lit ''type metadata for '', Sub 0]
      else if k = K_TypeMetadataAccessFunction then
        simple rec nd depth [Lit ''type metadata accessor for '', Sub 0]
      else if k = K_TypeMetadataInstantiationCache then
        simple rec nd depth [Lit ''type metadata instantiation cache for '', Sub 0]
      else if k = K_TypeMetadataInstantiationFunction then
        simple rec nd depth [Lit ''type metadata instantiation function for '', Sub 0]
      else if k = K_TypeMetadataSingletonInitializationCache then
        simple rec nd depth [Lit ''type metadata singleton initialization cache for '', Sub 0]
      else if k = K_TypeMetadataCompletionFunction then
        simple rec nd depth [Lit ''type metadata completion function for '', Sub 0]
      else if k = K_TypeMetadataDemanglingCache then
        simple rec nd depth [Lit ''demangling cache variable for type metadata for '', Sub 0]
      else if k = K_TypeMetadataLazyCache then
        simple rec nd depth [Lit ''lazy cache variable for type metadata for '', Sub 0]
      else if k = K_AssociatedConformanceDescriptor then
        simple rec nd depth
           [Lit ''associated conformance descriptor for '', Sub 0, Lit ''.'', Sub 1, Lit '': '', Sub 2]
      else if k = K_DefaultAssociatedConformanceAccessor then
        simple rec nd depth
           [Lit ''default associated conformance accessor for '', Sub 0, Lit ''.'', Sub 1, Lit '': '', Sub 2]
      else if k = K_AssociatedTypeDescriptor then
        simple rec nd depth [Lit ''associated type descriptor for '', Sub 0]
      else if k = K_AssociatedTypeMetadataAccessor then
        simple rec nd depth [Lit ''associated type metadata accessor for '', Sub 1, Lit '' in '', Sub 0]
      else other)"

definition print_cases_9 ::
  "recursion \<Rightarrow> symbol_printer \<Rightarrow> DemangleOptions \<Rightarrow> node \<Rightarrow> nat \<Rightarrow> bool \<Rightarrow> node option pr
    \<Rightarrow> node option pr" where
  "print_cases_9 rec dsym opts nd depth pre other =
     (let k = getKind nd in
      if k = K_BaseConformanceDescriptor then
        simple rec nd depth [Lit ''base conformance descriptor for '', Sub 0, Lit '': '', Sub 1]
      else if k = K_DefaultAssociatedTypeMetadataAccessor then
        simple rec nd depth [Lit ''default associated type metadata accessor for '', Sub 0]
      else if k = K_AssociatedTypeWitnessTableAccessor then
        simple rec nd depth
           [Lit ''associated type witness table accessor for '', Sub 1, Lit '' : '', Sub 2, Lit '' in '', Sub 0]
      else if k = K_BaseWitnessTableAccessor then
        simple rec nd depth [Lit ''base witness table accessor for '', Sub 1, Lit '' in '', Sub 0]
      else if k = K_ClassMetadataBaseOffset then
        simple rec nd depth [Lit ''class metadata base offset for '', Sub 0]
      else if k = K_PropertyDescriptor then
        simple rec nd depth [Lit ''property descriptor for '', Sub 0]
      else if k = K_NominalTypeDescriptor then
        simple rec nd depth [Lit ''nominal type descriptor for '', Sub 0]
      else if k = K_NominalTypeDescriptorRecord then
        simple rec nd depth [Lit ''nominal type descriptor runtime record for '', Sub 0]
      else if k = K_OpaqueTypeDescriptor then
        simple rec nd depth [Lit ''opaque type descriptor for '', Sub 0]
      else if k = K_OpaqueTypeDescriptorRecord then
        simple rec nd depth [Lit ''opaque type descriptor runtime record for '', Sub 0]
      else if k = K_OpaqueTypeDescriptorAccessor then
        simple rec nd depth [Lit ''opaque type descriptor accessor for '', Sub 0]
      else if k = K_OpaqueTypeDescriptorAccessorImpl then
        simple rec nd depth [Lit ''opaque type descriptor accessor impl for '', Sub 0]
      else if k = K_OpaqueTypeDescriptorAccessorKey then
        simple rec nd depth [Lit ''opaque type descriptor accessor key for '', Sub 0]
      else if k = K_OpaqueTypeDescriptorAccessorVar then
        simple rec nd depth [Lit ''opaque type descriptor accessor var for '', Sub 0]
      else if k = K_CoroutineContinuationPrototype then
        simple rec nd depth [Lit ''coroutine continuation prototype for '', Sub 0]
      else if k = K_ValueWitness then
        do {
          c \<leftarrow> deref (getFirstChild nd);
          i \<leftarrow> getIndex c;
          t \<leftarrow> need [] (ValueWitnessKind_toString i);
          emit (t @ (if ShortenValueWitness opts then '' for '' else '' value witness for ''));
          sub rec depth (getChild nd 1);
          nothing
        }
      else if k = K_ValueWitnessTable then
        simple rec nd depth [Lit ''value witness table for '', Sub 0]
      else if k \<in> {K_BoundGenericClass, K_BoundGenericStructure, K_BoundGenericEnum,
         K_BoundGenericProtocol, K_BoundGenericOtherNominalType, K_BoundGenericTypeAlias} then
        do {
          printBoundGeneric rec opts nd depth;
          nothing
        }
      else if k = K_DynamicSelf then
        simple rec nd depth [Lit ''Self'']
      else if k = K_SILBoxType then
        simple rec nd depth [Lit ''@box '', Sub 0]
      else if k = K_Metatype then
        print_metatype rec nd depth
      else other)"

definition print_cases_10 ::
  "recursion \<Rightarrow> symbol_printer \<Rightarrow> DemangleOptions \<Rightarrow> node \<Rightarrow> nat \<Rightarrow> bool \<Rightarrow> node option pr
    \<Rightarrow> node option pr" where
  "print_cases_10 rec dsym opts nd depth pre other =
     (let k = getKind nd in
      if k = K_ExistentialMetatype then
        print_existential_metatype rec nd depth
      else if k = K_MetatypeRepresentation then
        simple rec nd depth [NodeText]
      else if k = K_AssociatedTypeRef then
        do {
          sub rec depth (getChild nd 0);
          c \<leftarrow> deref (getChild nd 1);
          emit ''.'';
          emit_text c;
          nothing
        }
      else if k = K_ProtocolList then
        print_protocol_list rec nd depth
      else if k = K_ProtocolListWithClass then
        print_protocol_list_with_class rec nd depth
      else if k = K_ProtocolListWithAnyObject then
        print_protocol_list_with_any_object rec opts nd depth
      else if k = K_AssociatedType then
        nothing
      else if k = K_OwningAddressor then
        printAbstractStorage rec opts (getFirstChild nd) depth pre ''owningAddressor''
      else if k = K_OwningMutableAddressor then
        printAbstractStorage rec opts (getFirstChild nd) depth pre ''owningMutableAddressor''
      else if k = K_NativeOwningAddressor then
        printAbstractStorage rec opts (getFirstChild nd) depth pre ''nativeOwningAddressor''
      else if k = K_NativeOwningMutableAddressor then
        printAbstractStorage rec opts (getFirstChild nd) depth pre ''nativeOwningMutableAddressor''
      else if k = K_NativePinningAddressor then
        printAbstractStorage rec opts (getFirstChild nd) depth pre ''nativePinningAddressor''
      else if k = K_NativePinningMutableAddressor then
        printAbstractStorage rec opts (getFirstChild nd) depth pre ''nativePinningMutableAddressor''
      else if k = K_UnsafeAddressor then
        printAbstractStorage rec opts (getFirstChild nd) depth pre ''unsafeAddressor''
      else if k = K_UnsafeMutableAddressor then
        printAbstractStorage rec opts (getFirstChild nd) depth pre ''unsafeMutableAddressor''
      else if k = K_GlobalGetter then
        printAbstractStorage rec opts (getFirstChild nd) depth pre ''getter''
      else if k = K_Getter then
        printAbstractStorage rec opts (getFirstChild nd) depth pre ''getter''
      else if k = K_Setter then
        printAbstractStorage rec opts (getFirstChild nd) depth pre ''setter''
      else if k = K_MaterializeForSet then
        printAbstractStorage rec opts (getFirstChild nd) depth pre ''materializeForSet''
      else if k = K_WillSet then
        printAbstractStorage rec opts (getFirstChild nd) depth pre ''willset''
      else if k = K_DidSet then
        printAbstractStorage rec opts (getFirstChild nd) depth pre ''didset''
      else if k = K_ReadAccessor then
        printAbstractStorage rec opts (getFirstChild nd) depth pre ''read''
      else if k = K_ModifyAccessor then
        printAbstractStorage rec opts (getFirstChild nd) depth pre ''modify''
      else if k = K_Allocator then
        do {
          c \<leftarrow> deref (getChild nd 0);
          printEntity rec opts nd depth pre FunctionStyle False (if isClassType c then ''__allocating_init'' else ''init'') (-1) []
        }
      else if k = K_Constructor then
        printEntity rec opts nd depth pre FunctionStyle (getNumChildren nd > 2) ''init'' (-1) []
      else if k = K_Destructor then
        printEntity rec opts nd depth pre NoType False ''deinit'' (-1) []
      else other)"

definition print_cases_11 ::
  "recursion \<Rightarrow> symbol_printer \<Rightarrow> DemangleOptions \<Rightarrow> node \<Rightarrow> nat \<Rightarrow> bool \<Rightarrow> node option pr
    \<Rightarrow> node option pr" where
  "print_cases_11 rec dsym opts nd depth pre other =
     (let k = getKind nd in
      if k = K_Deallocator then
        do {
          c \<leftarrow> deref (getChild nd 0);
          printEntity rec opts nd depth pre NoType False (if isClassType c then ''__deallocating_deinit'' else ''deinit'') (-1) []
        }
      else if k = K_IVarInitializer then
        printEntity rec opts nd depth pre NoType False ''__ivar_initializer'' (-1) []
      else if k = K_IVarDestroyer then
        printEntity rec opts nd depth pre NoType False ''__ivar_destroyer'' (-1) []
      else if k = K_ProtocolConformance then
        print_protocol_conformance rec opts nd depth
      else if k = K_TypeList then
        simple rec nd depth [Subs []]
      else if k = K_LabelList then
        nothing
      else if k = K_ImplDifferentiabilityKind then
        do {
          i \<leftarrow> getIndex nd;
          check (differentiability i \<noteq> CHR 0x00);
          emit (''@differentiable'' @ differentiable_suffix (differentiability i));
          nothing
        }
      else if k = K_ImplEscaping then
        simple rec nd depth [Lit ''@escaping'']
      else if k = K_ImplConvention then
        simple rec nd depth [NodeText]
      else if k = K_ImplParameterResultDifferentiability then
        do {
          t \<leftarrow> getText nd;
          emit (if t = [] then [] else t @ '' '');
          nothing
        }
      else if k = K_ImplFunctionAttribute then
        simple rec nd depth [NodeText]
      else if k = K_ImplFunctionConvention then
        print_impl_convention rec nd depth
      else if k = K_ImplFunctionConventionName then
        broken None
      else if k = K_ImplErrorResult then
        simple rec nd depth [Lit ''@error '', Subs '' '']
      else if k = K_ImplYield then
        simple rec nd depth [Lit ''@yields '', Subs '' '']
      else if k \<in> {K_ImplParameter, K_ImplResult} then
        do {
          sub rec depth (getChild nd 0);
          emit '' '';
          only_if (getNumChildren nd = 3) (sub rec depth (getChild nd 1));
          sub rec depth (getLastChild nd);
          nothing
        }
      else if k = K_ImplFunctionType then
        do {
          printImplFunctionType rec nd depth;
          nothing
        }
      else if k = K_ImplInvocationSubstitutions then
        do {
          emit ''for <'';
          printChildren rec depth '', '' (getChild nd 0);
          emit ''>'';
          nothing
        }
      else other)"

definition print_cases_12 ::
  "recursion \<Rightarrow> symbol_printer \<Rightarrow> DemangleOptions \<Rightarrow> node \<Rightarrow> nat \<Rightarrow> bool \<Rightarrow> node option pr
    \<Rightarrow> node option pr" where
  "print_cases_12 rec dsym opts nd depth pre other =
     (let k = getKind nd in
      if k = K_ImplPatternSubstitutions then
        do {
          emit ''@substituted '';
          sub rec depth (getChild nd 0);
          emit '' for <'';
          printChildren rec depth '', '' (getChild nd 1);
          emit ''>'';
          nothing
        }
      else if k = K_ErrorType then
        simple rec nd depth [Lit ''<ERROR TYPE>'']
      else if k \<in> {K_DependentPseudogenericSignature, K_DependentGenericSignature} then
        print_generic_signature rec opts nd
      else if k = K_DependentGenericParamCount then
        broken None
      else if k = K_DependentGenericConformanceRequirement then
        simple rec nd depth [Sub 0, Lit '': '', Sub 1]
      else if k = K_DependentGenericLayoutRequirement then
        print_layout_requirement rec nd depth
      else if k = K_DependentGenericSameTypeRequirement then
        simple rec nd depth [Sub 0, Lit '' == '', Sub 1]
      else if k = K_DependentGenericParamType then
        do {
          c1 \<leftarrow> deref (getChild nd 1);
          index \<leftarrow> getIndex c1;
          c0 \<leftarrow> deref (getChild nd 0);
          d \<leftarrow> getIndex c0;
          emit (GenericParameterName opts (unat (low32 d)) (unat (low32 index)));
          nothing
        }
      else other)"

definition print_cases_13 ::
  "recursion \<Rightarrow> symbol_printer \<Rightarrow> DemangleOptions \<Rightarrow> node \<Rightarrow> nat \<Rightarrow> bool \<Rightarrow> node option pr
    \<Rightarrow> node option pr" where
  "print_cases_13 rec dsym opts nd depth pre other =
     (let k = getKind nd in
      if k = K_DependentGenericType then
        do {
          sub rec depth (getChild nd 0);
          depTy \<leftarrow> deref (getChild nd 1);
          space \<leftarrow> need False (needSpaceBeforeType depTy);
          only_if space (emit '' '');
          sub rec depth (getChild nd 1);
          nothing
        }
      else if k = K_DependentMemberType then
        simple rec nd depth [Sub 0, Lit ''.'', Sub 1]
      else if k = K_DependentAssociatedTypeRef then
        do {
          only_if (getNumChildren nd > 1) (do { sub rec depth (getChild nd 1); emit ''.'' });
          sub rec depth (getChild nd 0);
          nothing
        }
      else if k = K_ReflectionMetadataBuiltinDescriptor then
        simple rec nd depth [Lit ''reflection metadata builtin descriptor '', Sub 0]
      else if k = K_ReflectionMetadataFieldDescriptor then
        simple rec nd depth [Lit ''reflection metadata field descriptor '', Sub 0]
      else if k = K_ReflectionMetadataAssocTypeDescriptor then
        simple rec nd depth [Lit ''reflection metadata associated type descriptor '', Sub 0]
      else if k = K_ReflectionMetadataSuperclassDescriptor then
        simple rec nd depth [Lit ''reflection metadata superclass descriptor '', Sub 0]
      else if k = K_ConcurrentFunctionType then
        simple rec nd depth [Lit ''@Sendable '']
      else if k = K_DifferentiableFunctionType then
        do {
          i \<leftarrow> getIndex nd;
          check (differentiability i \<noteq> CHR 0x00);
          emit (''@differentiable'' @ differentiable_suffix (differentiability i) @ '' '');
          nothing
        }
      else if k = K_GlobalActorFunctionType then
        (if getNumChildren nd > 0 then simple rec nd depth [Lit ''@'', Sub 0, Lit '' ''] else nothing)
      else if k = K_AsyncAnnotation then
        simple rec nd depth [Lit '' async '']
      else if k = K_ThrowsAnnotation then
        simple rec nd depth [Lit '' throws '']
      else if k = K_EmptyList then
        simple rec nd depth [Lit '' empty-list '']
      else if k = K_FirstElementMarker then
        simple rec nd depth [Lit '' first-element-marker '']
      else if k = K_VariadicMarker then
        simple rec nd depth [Lit '' variadic-marker '']
      else if k = K_SILBoxTypeWithLayout then
        print_box_with_layout rec nd depth
      else if k = K_SILBoxLayout then
        do {
          emit ''{'';
          print_box_fields rec depth True (getChildren nd);
          emit '' }'';
          nothing
        }
      else other)"

definition print_cases_14 ::
  "recursion \<Rightarrow> symbol_printer \<Rightarrow> DemangleOptions \<Rightarrow> node \<Rightarrow> nat \<Rightarrow> bool \<Rightarrow> node option pr
    \<Rightarrow> node option pr" where
  "print_cases_14 rec dsym opts nd depth pre other =
     (let k = getKind nd in
      if k \<in> {K_SILBoxImmutableField, K_SILBoxMutableField} then
        do {
          emit (if k = K_SILBoxImmutableField then ''let '' else ''var '');
          check (getNumChildren nd = 1);
          c \<leftarrow> kind_of_child nd 0;
          check (c = K_Type);
          sub rec depth (getChild nd 0);
          nothing
        }
      else if k = K_AssocTypePath then
        simple rec nd depth [Subs ''.'']
      else if k = K_ModuleDescriptor then
        simple rec nd depth [Lit ''module descriptor '', Sub 0]
      else if k = K_AnonymousDescriptor then
        simple rec nd depth [Lit ''anonymous descriptor '', Sub 0]
      else if k = K_ExtensionDescriptor then
        simple rec nd depth [Lit ''extension descriptor '', Sub 0]
      else if k = K_AssociatedTypeGenericParamRef then
        simple rec nd depth [Lit ''generic parameter reference for associated type '', Subs []]
      else if k = K_AnyProtocolConformanceList then
        simple rec nd depth [Subs []]
      else if k = K_ConcreteProtocolConformance then
        do {
          emit ''concrete protocol conformance '';
          (case node_index nd of Some i \<Rightarrow> emit (''#'' @ show_u64 i @ '' '') | None \<Rightarrow> return_pr ());
          printChildren rec depth [] (Some nd);
          nothing
        }
      else if k = K_DependentAssociatedConformance then
        simple rec nd depth [Lit ''dependent associated conformance '', Subs []]
      else if k = K_DependentProtocolConformanceAssociated then
        do {
          emit ''dependent associated protocol conformance '';
          printOptionalIndex (getChild nd 2);
          sub rec depth (getChild nd 0);
          sub rec depth (getChild nd 1);
          nothing
        }
      else if k = K_DependentProtocolConformanceInherited then
        do {
          emit ''dependent inherited protocol conformance '';
          printOptionalIndex (getChild nd 2);
          sub rec depth (getChild nd 0);
          sub rec depth (getChild nd 1);
          nothing
        }
      else if k = K_DependentProtocolConformanceRoot then
        do {
          emit ''dependent root protocol conformance '';
          printOptionalIndex (getChild nd 2);
          sub rec depth (getChild nd 0);
          sub rec depth (getChild nd 1);
          nothing
        }
      else if k = K_ProtocolConformanceRefInTypeModule then
        simple rec nd depth
           [Lit (''protocol conformance ref (type'' @ [CHR 0x27] @ ''s module) ''), Subs []]
      else if k = K_ProtocolConformanceRefInProtocolModule then
        simple rec nd depth
           [Lit (''protocol conformance ref (protocol'' @ [CHR 0x27] @ ''s module) ''), Subs []]
      else if k = K_ProtocolConformanceRefInOtherModule then
        simple rec nd depth [Lit ''protocol conformance ref (retroactive) '', Subs []]
      else if k = K_SugaredOptional then
        do {
          printWithParens rec (getChild nd 0) depth;
          emit ''?'';
          nothing
        }
      else if k = K_SugaredArray then
        simple rec nd depth [Lit ''['', Sub 0, Lit '']'']
      else if k = K_SugaredDictionary then
        simple rec nd depth [Lit ''['', Sub 0, Lit '' : '', Sub 1, Lit '']'']
      else if k = K_SugaredParen then
        simple rec nd depth [Lit ''('', Sub 0, Lit '')'']
      else if k = K_OpaqueReturnType then
        simple rec nd depth [Lit ''some'']
      else if k = K_OpaqueReturnTypeOf then
        simple rec nd depth [Lit ''<<opaque return type of '', Subs [], Lit ''>>'']
      else if k = K_OpaqueType then
        simple rec nd depth [Sub 0, Lit ''.'', Sub 1]
      else if k = K_AccessorFunctionReference then
        simple rec nd depth [Lit ''accessor function at '', NodeIndex]
      else if k = K_CanonicalSpecializedGenericMetaclass then
        simple rec nd depth [Lit ''specialized generic metaclass for '', Sub 0]
      else if k = K_CanonicalSpecializedGenericTypeMetadataAccessFunction then
        simple rec nd depth [Lit ''canonical specialized generic type metadata accessor for '', Sub 0]
      else if k = K_MetadataInstantiationCache then
        simple rec nd depth [Lit ''metadata instantiation cache for '', Sub 0]
      else if k = K_NoncanonicalSpecializedGenericTypeMetadata then
        simple rec nd depth [Lit ''noncanonical specialized generic type metadata for '', Sub 0]
      else other)"

definition print_cases_15 ::
  "recursion \<Rightarrow> symbol_printer \<Rightarrow> DemangleOptions \<Rightarrow> node \<Rightarrow> nat \<Rightarrow> bool \<Rightarrow> node option pr
    \<Rightarrow> node option pr" where
  "print_cases_15 rec dsym opts nd depth pre other =
     (let k = getKind nd in
      if k = K_NoncanonicalSpecializedGenericTypeMetadataCache then
        simple rec nd depth
           [Lit ''cache variable for noncanonical specialized generic type metadata for '', Sub 0]
      else if k \<in> {K_GlobalVariableOnceToken, K_GlobalVariableOnceFunction} then
        do {
          emit (if k = K_GlobalVariableOnceToken then ''one-time initialization token for ''
                else ''one-time initialization function for '');
          printContext opts (getChild nd 0);
          sub rec depth (getChild nd 1);
          nothing
        }
      else if k = K_GlobalVariableOnceDeclList then
        (if getNumChildren nd = 1 then simple rec nd depth [Sub 0]
         else simple rec nd depth [Lit ''('', Subs '', '', Lit '')''])
      else if k = K_PredefinedObjCAsyncCompletionHandlerImpl then
        do { emit ''predefined ''; print_completion_handler rec nd depth }
      else if k = K_ObjCAsyncCompletionHandlerImpl then
        print_completion_handler rec nd depth
      else if k = K_CanonicalPrespecializedGenericTypeCachingOnceToken then
        simple rec nd depth
           [Lit ''flag for loading of canonical specialized generic type metadata for '', Sub 0]
      else if k = K_AsyncFunctionPointer then
        simple rec nd depth [Lit ''async function pointer to '']
      else if k = K_AsyncAwaitResumePartialFunction then
        (if ShowAsyncResumePartial opts
         then simple rec nd depth [Lit ''('', Sub 0, Lit '')'', Lit '' await resume partial function for '']
         else nothing)
      else if k = K_AsyncSuspendResumePartialFunction then
        (if ShowAsyncResumePartial opts
         then simple rec nd depth [Lit ''('', Sub 0, Lit '')'', Lit '' suspend resume partial function for '']
         else nothing)
      else other)"

text \<open>A kind without a case ends the program.\<close>

definition print_node ::
  "recursion \<Rightarrow> symbol_printer \<Rightarrow> DemangleOptions \<Rightarrow> node \<Rightarrow> nat \<Rightarrow> bool \<Rightarrow> node option pr" where
  "print_node rec dsym opts nd depth pre =
     print_cases_1 rec dsym opts nd depth pre
     (print_cases_2 rec dsym opts nd depth pre
     (print_cases_3 rec dsym opts nd depth pre
     (print_cases_4 rec dsym opts nd depth pre
     (print_cases_5 rec dsym opts nd depth pre
     (print_cases_6 rec dsym opts nd depth pre
     (print_cases_7 rec dsym opts nd depth pre
     (print_cases_8 rec dsym opts nd depth pre
     (print_cases_9 rec dsym opts nd depth pre
     (print_cases_10 rec dsym opts nd depth pre
     (print_cases_11 rec dsym opts nd depth pre
     (print_cases_12 rec dsym opts nd depth pre
     (print_cases_13 rec dsym opts nd depth pre
     (print_cases_14 rec dsym opts nd depth pre
     (print_cases_15 rec dsym opts nd depth pre
     (broken None)))))))))))))))"

section \<open>Printing a tree\<close>

abbreviation Printer_MaxDepth :: nat where
  "Printer_MaxDepth \<equiv> 768"

fun print :: "symbol_printer \<Rightarrow> DemangleOptions \<Rightarrow> nat \<Rightarrow> recursion" where
  "print dsym opts 0 n depth pre = out_of_fuel None"
| "print dsym opts (Suc fuel) n depth pre =
     (if depth > Printer_MaxDepth then do { emit ''<<too complex>>''; nothing }
      else case n of
        None \<Rightarrow> do { emit ''<null node pointer>''; nothing }
      | Some nd \<Rightarrow> print_node (print dsym opts fuel) dsym opts nd depth pre)"

definition run_print :: "symbol_printer \<Rightarrow> DemangleOptions \<Rightarrow> node \<Rightarrow> printer" where
  "run_print dsym opts root = snd (run_state (print dsym opts (size root + 2) (Some root) 0 False) new_printer)"

text \<open>\<open>None\<close> is a run that is broken; none is out of fuel.\<close>

definition printRoot :: "symbol_printer \<Rightarrow> DemangleOptions \<Rightarrow> node \<Rightarrow> string option" where
  "printRoot dsym opts root =
     (let s = run_print dsym opts root
      in if Broken s \<or> Dry s then None else Some (if isValid s then Stream s else []))"

definition nodeToString :: "symbol_printer \<Rightarrow> DemangleOptions \<Rightarrow> node option \<Rightarrow> string option" where
  "nodeToString dsym opts root = (case root of None \<Rightarrow> Some [] | Some root \<Rightarrow> printRoot dsym opts root)"

end
