(* ===== verification/Demangling_Context.thy ===== *)
theory Demangling_Context
  imports Old_Progress Printer_Print Demangler_Jobs
begin

text \<open>
  The interface of the demangler (\<open>lib/Demangling/Context.cpp\<close>), which joins the demanglers of the two
  manglings and the node printer, and what it uses of \<open>Remangler.cpp\<close>: \<open>isSpecialized\<close> and
  \<open>getUnspecialized\<close>. The state of a \<open>Context\<close> is that of its \<open>Demangler\<close>.
\<close>

section \<open>Symbols to trees\<close>

definition isMangledName :: "string \<Rightarrow> bool" where
  "isMangledName mangledName \<longleftrightarrow> getManglingPrefixLength mangledName \<noteq> 0"

definition demangleSymbolAsNode :: "string \<Rightarrow> node option dm" where
  "demangleSymbolAsNode MangledName =
     (if isMangledName MangledName then demangleSymbol demangleOldSymbolAsNode MangledName None
      else ret (demangleOldSymbolAsNode MangledName))"

definition demangleTypeAsNode :: "string \<Rightarrow> node option dm" where
  "demangleTypeAsNode MangledName = demangleType MangledName None"

section \<open>Symbols to strings\<close>

text \<open>
  The name itself where it has no tree, or the tree no text. The printer demangles symbols that are payloads of
  nodes with a context of its own; the first argument bounds how deeply they nest. \<open>None\<close> is a run that
  does not return a string.
\<close>

definition or_name :: "string \<Rightarrow> string option \<Rightarrow> string option" where
  "or_name MangledName demangling = map_option (\<lambda>t. if t = [] then MangledName else t) demangling"

definition string_of_tree :: "symbol_printer \<Rightarrow> DemangleOptions \<Rightarrow> string \<Rightarrow> node option \<Rightarrow> string option" where
  "string_of_tree dsym Options MangledName root =
     (if root = None then Some MangledName else or_name MangledName (nodeToString dsym Options root))"

fun nested_symbol :: "nat \<Rightarrow> symbol_printer" where
  "nested_symbol 0 text = None"
| "nested_symbol (Suc n) text =
     string_of_tree (nested_symbol n) default_options text
       (fst (run_state (demangleSymbolAsNode text) new_demangler))"

definition Context_demangleSymbolAsString :: "nat \<Rightarrow> string \<Rightarrow> DemangleOptions \<Rightarrow> string option dm" where
  "Context_demangleSymbolAsString n MangledName Options = do {
     root \<leftarrow> demangleSymbolAsNode MangledName;
     ret (string_of_tree (nested_symbol n) Options MangledName root)
   }"

definition Context_demangleTypeAsString :: "nat \<Rightarrow> string \<Rightarrow> DemangleOptions \<Rightarrow> string option dm" where
  "Context_demangleTypeAsString n MangledName Options = do {
     root \<leftarrow> demangleTypeAsNode MangledName;
     ret (string_of_tree (nested_symbol n) Options MangledName root)
   }"

text \<open>The public functions make a context for each call.\<close>

definition demangleSymbolAsString :: "nat \<Rightarrow> string \<Rightarrow> DemangleOptions \<Rightarrow> string option" where
  "demangleSymbolAsString n MangledName Options =
     fst (run_state (Context_demangleSymbolAsString n MangledName Options) new_demangler)"

definition demangleTypeAsString :: "nat \<Rightarrow> string \<Rightarrow> DemangleOptions \<Rightarrow> string option" where
  "demangleTypeAsString n MangledName Options =
     fst (run_state (Context_demangleTypeAsString n MangledName Options) new_demangler)"

text \<open>\<open>Class::demangled_name\<close> of iCDump, built with its LLVM support.\<close>

definition demangled_name :: "nat \<Rightarrow> string \<Rightarrow> string option" where
  "demangled_name n name = demangleSymbolAsString n name default_options"

section \<open>Thunks\<close>

definition endswith :: "string \<Rightarrow> string \<Rightarrow> bool" where
  "endswith s ending \<longleftrightarrow> length ending \<le> length s \<and> drop (length s - length ending) s = ending"

text \<open>Everything from the first dot, where the name ends with a digit.\<close>

definition stripSuffix :: "string \<Rightarrow> string" where
  "stripSuffix Name =
     (if Name \<noteq> [] \<and> isDigit (last Name) then takeWhile (\<lambda>c. c \<noteq> CHR ''.'') Name else Name)"

definition thunk_suffixes :: "string list" where
  "thunk_suffixes = [''TA'', ''Ta'', ''To'', ''TO'', ''TR'', ''Tr'', ''TW'', ''fC'']"

definition thunk_kinds :: "Kind list" where
  "thunk_kinds =
     [K_ObjCAttribute, K_NonObjCAttribute, K_PartialApplyObjCForwarder, K_PartialApplyForwarder,
      K_ReabstractionThunkHelper, K_ReabstractionThunk, K_ProtocolWitness, K_Allocator]"

definition is_thunk_tree :: "node option \<Rightarrow> bool" where
  "is_thunk_tree Nd =
     (case Nd of
        None \<Rightarrow> False
      | Some n \<Rightarrow>
          getKind n = K_Global \<and> (case getFirstChild n of None \<Rightarrow> False | Some c \<Rightarrow> getKind c \<in> set thunk_kinds))"

definition isThunkSymbol :: "string \<Rightarrow> bool dm" where
  "isThunkSymbol MangledName =
     (if isMangledName MangledName then
        let Name = stripSuffix MangledName in
        if list_ex (endswith Name) thunk_suffixes then do {
          Nd \<leftarrow> demangleSymbol demangleOldSymbolAsNode Name None;
          ret (is_thunk_tree Nd)
        }
        else ret False
      else if startswith MangledName ''_T'' then
        let Remaining = drop 2 MangledName in
        ret (list_ex (startswith Remaining) [''To'', ''TO'', ''PA_'', ''PAo_''])
      else ret False)"

text \<open>The empty string where the target is not known.\<close>

definition getThunkTarget :: "string \<Rightarrow> string dm" where
  "getThunkTarget MangledName = do {
     thunk \<leftarrow> isThunkSymbol MangledName;
     ret (
       if \<not> thunk then []
       else if isMangledName MangledName then
         if stripSuffix MangledName \<noteq> MangledName then []
         else if list_ex (endswith MangledName) [''TR'', ''Tr'', ''TW''] then []
         else if endswith MangledName ''fC'' then MangledName[length MangledName - 1 := CHR ''c'']
         else take (length MangledName - 2) MangledName
       else
         let Remaining = drop 2 MangledName in
         if startswith Remaining ''PA_'' then drop 3 Remaining
         else if startswith Remaining ''PAo_'' then drop 4 Remaining
         else ''_T'' @ drop 2 Remaining)
   }"

definition foreign_convention_kinds :: "Kind list" where
  "foreign_convention_kinds =
     [K_TypeMetadataAccessFunction, K_ValueWitness, K_ProtocolWitnessTableAccessor,
      K_GenericProtocolWitnessTableInstantiationFunction, K_LazyProtocolWitnessTableAccessor,
      K_AssociatedTypeMetadataAccessor, K_AssociatedTypeWitnessTableAccessor, K_BaseWitnessTableAccessor,
      K_ObjCAttribute]"

definition hasSwiftCallingConvention :: "string \<Rightarrow> bool dm" where
  "hasSwiftCallingConvention MangledName = do {
     global \<leftarrow> demangleSymbolAsNode MangledName;
     ret (case global of
            None \<Rightarrow> False
          | Some n \<Rightarrow>
              getKind n = K_Global
              \<and> (case getFirstChild n of None \<Rightarrow> False | Some c \<Rightarrow> getKind c \<notin> set foreign_convention_kinds))
   }"

section \<open>Specialized trees\<close>

definition bound_generic_kinds :: "Kind list" where
  "bound_generic_kinds =
     [K_BoundGenericStructure, K_BoundGenericEnum, K_BoundGenericClass, K_BoundGenericOtherNominalType,
      K_BoundGenericTypeAlias, K_BoundGenericProtocol, K_BoundGenericFunction]"

definition unspecialized_entities :: "Kind list" where
  "unspecialized_entities =
     [K_Function, K_Getter, K_Setter, K_WillSet, K_DidSet, K_ReadAccessor, K_ModifyAccessor, K_UnsafeAddressor,
      K_UnsafeMutableAddressor, K_Allocator, K_Constructor, K_Destructor, K_Variable, K_Subscript,
      K_ExplicitClosure, K_ImplicitClosure, K_Initializer, K_PropertyWrapperBackingInitializer,
      K_PropertyWrapperInitFromProjectedValue, K_DefaultArgumentInitializer, K_Static]"

definition unspecialized_nominals :: "Kind list" where
  "unspecialized_nominals = [K_Structure, K_Enum, K_Class, K_TypeAlias, K_OtherNominalType]"

fun isSpecialized :: "node \<Rightarrow> bool" where
  "isSpecialized (Node k ns) \<longleftrightarrow>
     (if k \<in> set bound_generic_kinds then True
      else if k \<in> set (K_Protocol # unspecialized_nominals @ unspecialized_entities) then
        (case ns of [] \<Rightarrow> False | n # _ \<Rightarrow> isSpecialized n)
      else if k = K_Extension then (case ns of _ # n # _ \<Rightarrow> isSpecialized n | _ \<Rightarrow> False)
      else False)"
| "isSpecialized n \<longleftrightarrow> getKind n \<in> set bound_generic_kinds"

text \<open>
  The errors of \<open>getUnspecialized\<close>; \<open>NullNode\<close> is a child that the code uses without a check and that may
  be missing.
\<close>

datatype unspecialize_error = BadNominalTypeKind node | AssertionFailed node | NullNode

definition rebuilt :: "Kind \<Rightarrow> node \<Rightarrow> node list \<Rightarrow> unspecialize_error + node" where
  "rebuilt k parent others =
     (if k \<in> set unspecialized_entities then Inr (Node k (parent # others))
      else case others of [] \<Rightarrow> Inl NullNode | name # _ \<Rightarrow> Inr (Node k [parent, name]))"

fun getUnspecialized :: "node \<Rightarrow> unspecialize_error + node" where
  "getUnspecialized (Node k ns) =
     (if k \<in> set (unspecialized_entities @ unspecialized_nominals) then
        (case ns of
           [] \<Rightarrow> Inl NullNode
         | parent # others \<Rightarrow>
             if isSpecialized parent then
               (case getUnspecialized parent of
                  Inl e \<Rightarrow> Inl e
                | Inr parent \<Rightarrow> rebuilt k parent others)
             else rebuilt k parent others)
      else if k = K_BoundGenericFunction then
        (case ns of
           [] \<Rightarrow> Inl NullNode
         | unbound # _ \<Rightarrow>
             if getKind unbound \<notin> {K_Function, K_Constructor} then Inl (AssertionFailed unbound)
             else if isSpecialized unbound then getUnspecialized unbound
             else Inr unbound)
      else if k \<in> set bound_generic_kinds then
        (case ns of
           [] \<Rightarrow> Inl NullNode
         | unbound # _ \<Rightarrow>
             if getKind unbound \<noteq> K_Type then Inl (AssertionFailed unbound)
             else (case unbound of
                     Node _ (nominal # _) \<Rightarrow> if isSpecialized nominal then getUnspecialized nominal else Inr nominal
                   | _ \<Rightarrow> Inl NullNode))
      else if k = K_Extension then
        (case ns of
           module # parent # others \<Rightarrow>
             if \<not> isSpecialized parent then Inr (Node k ns)
             else (case getUnspecialized parent of
                     Inl e \<Rightarrow> Inl e
                   | Inr parent \<Rightarrow> Inr (Node K_Extension ([module, parent] @ (if length others = 1 then others else []))))
         | _ \<Rightarrow> Inl NullNode)
      else Inl (BadNominalTypeKind (Node k ns)))"
| "getUnspecialized n =
     (if getKind n \<in> set (K_Extension # unspecialized_entities @ unspecialized_nominals @ bound_generic_kinds)
      then Inl NullNode else Inl (BadNominalTypeKind n))"

text \<open>What is unspecialized is not specialized, and smaller than a specialized tree.\<close>

lemma rebuilt_result:
  "rebuilt k parent others = Inr m \<Longrightarrow> k \<in> set (unspecialized_entities @ unspecialized_nominals) \<Longrightarrow>
    \<exists>rest. m = Node k (parent # rest) \<and> (rest = others \<or> (\<exists>name others'. others = name # others' \<and> rest = [name]))"
  by (auto simp: rebuilt_def split: if_splits list.splits)

lemma bound_generic_disjoint:
  "k \<in> set (K_Extension # unspecialized_entities @ unspecialized_nominals) \<Longrightarrow> k \<notin> set bound_generic_kinds"
proof -
  have "list_all (\<lambda>k. k \<notin> set bound_generic_kinds) (K_Extension # unspecialized_entities @ unspecialized_nominals)"
    by (simp add: unspecialized_entities_def unspecialized_nominals_def bound_generic_kinds_def)
  then show "k \<in> set (K_Extension # unspecialized_entities @ unspecialized_nominals) \<Longrightarrow> k \<notin> set bound_generic_kinds"
    by (auto simp: list_all_iff)
qed

lemma unspecialized_parent:
  assumes k: "k \<in> set (unspecialized_entities @ unspecialized_nominals)" and m: "rebuilt k parent' others = Inr m"
    and parent: "\<not> isSpecialized parent'" "isSpecialized parent \<Longrightarrow> size parent' < size parent" "isSpecialized parent \<or> parent' = parent"
  shows "\<not> isSpecialized m \<and> (isSpecialized (Node k (parent # others)) \<longrightarrow> size m < size (Node k (parent # others)))"
proof -
  have not_bound: "k \<notin> set bound_generic_kinds" using bound_generic_disjoint [of k] k by auto
  obtain rest where m': "m = Node k (parent' # rest)"
    and rest: "rest = others \<or> (\<exists>name others'. others = name # others' \<and> rest = [name])"
    using rebuilt_result [OF m k] by blast
  have "size_list size rest \<le> size_list size others" using rest by auto
  moreover have "isSpecialized (Node k (parent # others)) = isSpecialized parent" "isSpecialized m = isSpecialized parent'"
    using k not_bound m' by auto
  ultimately show ?thesis using parent m' by auto
qed

lemma getUnspecialized_smaller:
  "getUnspecialized n = Inr m \<Longrightarrow> \<not> isSpecialized m \<and> (isSpecialized n \<longrightarrow> size m < size n)"
proof (induction n arbitrary: m rule: getUnspecialized.induct)
  case (1 k ns)
  note IH = "1.IH" and m = "1.prems"
  consider (parent) "k \<in> set (unspecialized_entities @ unspecialized_nominals)"
    | (bound) "k \<notin> set (unspecialized_entities @ unspecialized_nominals)" "k \<in> set bound_generic_kinds"
    | (extension) "k \<notin> set (unspecialized_entities @ unspecialized_nominals)" "k \<notin> set bound_generic_kinds" "k = K_Extension"
    using m by (cases "k = K_BoundGenericFunction") (auto simp: bound_generic_kinds_def split: if_splits)
  then show ?case
  proof cases
    case parent
    then obtain p others where ns: "ns = p # others" using m by (cases ns) auto
    show ?thesis
    proof (cases "isSpecialized p")
      case True
      then obtain p' where p': "getUnspecialized p = Inr p'" and r: "rebuilt k p' others = Inr m"
        using m parent ns by (auto split: sum.splits)
      have "\<not> isSpecialized p' \<and> size p' < size p" using IH(1) [OF parent ns True p'] True by simp
      then show ?thesis using unspecialized_parent [OF parent r, of p] True ns by simp
    next
      case False
      then have "rebuilt k p others = Inr m" using m parent ns by auto
      then show ?thesis using unspecialized_parent [OF parent, of p others m p] False ns by simp
    qed
  next
    case bound
    then have spec: "isSpecialized (Node k ns)" by simp
    show ?thesis
    proof (cases "k = K_BoundGenericFunction")
      case True
      then obtain u rest where ns: "ns = u # rest" and u: "getKind u \<in> {K_Function, K_Constructor}"
        and m': "if isSpecialized u then getUnspecialized u = Inr m else m = u"
        using m bound by (auto split: list.splits if_splits)
      have "\<not> isSpecialized m \<and> size m \<le> size u"
        using IH(2) [OF bound(1) True ns] u m' by (cases "isSpecialized u") auto
      then show ?thesis using ns by simp
    next
      case False
      then obtain k' nominal others rest where ns: "ns = Node k' (nominal # others) # rest" and k': "k' = K_Type"
        and m': "if isSpecialized nominal then getUnspecialized nominal = Inr m else m = nominal"
        using m bound by (auto split: list.splits if_splits node.splits)
      have "\<not> isSpecialized m \<and> size m \<le> size nominal"
        using IH(3) [OF bound(1) False bound(2) ns] k' m'
        by (cases "isSpecialized nominal") (auto intro: less_imp_le)
      then show ?thesis using ns by simp
    qed
  next
    case extension
    show ?thesis
    proof (cases "isSpecialized (Node k ns)")
      case True
      then obtain module p others where ns: "ns = module # p # others" and p: "isSpecialized p"
        using extension by (auto split: list.splits if_splits)
      then obtain p' where p': "getUnspecialized p = Inr p'"
        and m': "m = Node K_Extension ([module, p'] @ (if length others = 1 then others else []))"
        using m extension by (auto simp: bound_generic_kinds_def split: sum.splits)
      have "\<not> isSpecialized p' \<and> size p' < size p"
        using IH(4) [OF extension(1) _ extension(2,3) ns _ _ p'] p extension by (auto simp: bound_generic_kinds_def)
      then show ?thesis using m' ns extension by (auto simp: bound_generic_kinds_def)
    next
      case False
      then have "m = Node k ns"
        using m extension by (auto simp: bound_generic_kinds_def split: list.splits if_splits)
      then show ?thesis using False by simp
    qed
  qed
qed (auto split: if_splits)

text \<open>The first name of a module that \<open>getModuleName\<close> comes to, or the empty string; \<open>None\<close> ends the program.\<close>

function module_of :: "node option \<Rightarrow> string option" where
  "module_of None = Some []"
| "module_of (Some n) =
     (if getKind n = K_Module then (case n of TextNode _ t \<Rightarrow> Some t | _ \<Rightarrow> None)
      else if getKind n \<in> {K_TypeMangling, K_Type} then module_of (getFirstChild n)
      else if getKind n = K_Global then module_of (find (\<lambda>c. \<not> isFunctionAttr (getKind c)) (getChildren n))
      else if isSpecialized n then
        (case getUnspecialized n of
           Inr m \<Rightarrow> module_of (Some m)
         | Inl e \<Rightarrow> (if e = NullNode then None else Some []))
      else if isContext (getKind n) then module_of (getFirstChild n)
      else Some [])"
  by pat_completeness auto

lemma child_smaller: "c \<in> set (getChildren n) \<Longrightarrow> size c < size n"
  by (cases n) (auto dest: size_list_estimation' [where f = size, OF _ order_refl])

lemma first_child_smaller: "getFirstChild n = Some c \<Longrightarrow> size c < size n"
  by (rule child_smaller) (auto simp: getFirstChild_def getChild_def getNumChildren_def split: if_splits)

termination module_of
proof (relation "measure (\<lambda>n. case n of None \<Rightarrow> 0 | Some n \<Rightarrow> Suc (size n))")
  show "wf (measure (\<lambda>n. case n of None \<Rightarrow> 0 | Some n \<Rightarrow> Suc (size (n :: node))))" by simp
qed (auto dest: first_child_smaller getUnspecialized_smaller child_smaller intro: child_smaller nth_mem split: option.splits simp: find_Some_iff)

definition getModuleName :: "string \<Rightarrow> string option dm" where
  "getModuleName mangledName = do {
     root \<leftarrow> demangleSymbolAsNode mangledName;
     ret (module_of root)
   }"

end
