(* ===== verification/Context_Facts.thy ===== *)
theory Context_Facts
  imports Demangling_Context
begin

text \<open>
  Properties of the interface of the demangler: the targets of thunks, and trees without their
  specializations.
\<close>

section \<open>Mangling prefixes\<close>

lemma isMangledName_prefix: "isMangledName m \<longleftrightarrow> (\<exists>pr \<in> set mangling_prefixes. startswith m pr)"
proof -
  have "\<forall>pr \<in> set mangling_prefixes. length pr \<noteq> 0" by (simp add: mangling_prefixes_def)
  then show ?thesis
    by (auto simp: isMangledName_def getManglingPrefixLength_def find_None_iff find_Some_iff split: option.splits)
qed

lemma startswith_append: "length pr \<le> length p \<Longrightarrow> startswith (p @ e) pr \<Longrightarrow> startswith (p @ e') pr"
  by (simp add: startswith_def)

text \<open>The ends of thunk names do not overlap a prefix.\<close>

lemma prefix_before_ending:
  assumes pr: "pr \<in> set mangling_prefixes" and m: "startswith (p @ e) pr"
    and e: "e \<in> {''TA'', ''Ta'', ''To'', ''TO'', ''fC''}"
  shows "length pr \<le> length p"
proof (rule ccontr)
  assume "\<not> length pr \<le> length p"
  then have less: "length p < length pr" by simp
  have pr': "pr = take (length pr) (p @ e)" using m by (simp add: startswith_def)
  have "length pr \<le> length (p @ e)" using pr' by (metis length_take min.bounded_iff order_refl)
  have "last pr \<in> set e"
  proof -
    have "pr = p @ take (length pr - length p) e" using pr' less by simp
    moreover have "take (length pr - length p) e \<noteq> []" using less e by auto
    ultimately show ?thesis by (metis last_appendR last_in_set in_set_takeD)
  qed
  moreover have "last pr \<in> set ''0Ss_''" using pr by (auto simp: mangling_prefixes_def)
  ultimately show False using e by auto
qed

lemma mangled_stays:
  assumes "isMangledName (p @ e)" and "e \<in> {''TA'', ''Ta'', ''To'', ''TO'', ''fC''}"
  shows "isMangledName (p @ e')"
  using assms unfolding isMangledName_prefix by (metis prefix_before_ending startswith_append)

section \<open>Thunks\<close>

lemma endswith_split: "endswith s ending \<Longrightarrow> s = take (length s - length ending) s @ ending"
  by (metis endswith_def append_take_drop_id)

lemma endswith_iff: "endswith s ending \<longleftrightarrow> (\<exists>p. s = p @ ending)"
  by (auto simp: endswith_def intro: endswith_split) (metis endswith_def endswith_split)

lemma getThunkTarget_run:
  "fst (run_state (getThunkTarget m) s) =
    (if \<not> fst (run_state (isThunkSymbol m) s) then []
     else if isMangledName m then
       (if stripSuffix m \<noteq> m \<or> list_ex (endswith m) [''TR'', ''Tr'', ''TW''] then []
        else if endswith m ''fC'' then m[length m - 1 := CHR ''c'']
        else take (length m - 2) m)
     else
       let Remaining = drop 2 m in
       if startswith Remaining ''PA_'' then drop 3 Remaining
       else if startswith Remaining ''PAo_'' then drop 4 Remaining
       else ''_T'' @ drop 2 Remaining)"
  by (simp add: getThunkTarget_def dm_run split: prod.split)

lemma isThunkSymbol_endings:
  "fst (run_state (isThunkSymbol m) s) \<Longrightarrow> isMangledName m \<Longrightarrow> list_ex (endswith (stripSuffix m)) thunk_suffixes"
  by (auto simp: isThunkSymbol_def Let_def dm_run split: if_splits)

lemma isThunkSymbol_old:
  "fst (run_state (isThunkSymbol m) s) \<Longrightarrow> \<not> isMangledName m \<Longrightarrow>
    startswith m ''_T'' \<and> list_ex (startswith (drop 2 m)) [''To'', ''TO'', ''PA_'', ''PAo_'']"
  by (auto simp: isThunkSymbol_def Let_def dm_run split: if_splits)

lemma startswith_split: "startswith s pr \<Longrightarrow> s = pr @ drop (length pr) s"
  by (metis startswith_def append_take_drop_id)

lemma mangled_thunk_target:
  assumes target: "fst (run_state (getThunkTarget m) s) = t" and found: "t \<noteq> []" and m: "isMangledName m"
  shows "stripSuffix m = m"
    and "\<exists>p. (\<exists>e \<in> {''TA'', ''Ta'', ''To'', ''TO''}. m = p @ e \<and> t = p) \<or> m = p @ ''fC'' \<and> t = p @ ''fc''"
proof -
  have thunk: "fst (run_state (isThunkSymbol m) s)" and strip: "stripSuffix m = m"
    and others: "\<not> list_ex (endswith m) [''TR'', ''Tr'', ''TW'']"
    and t: "t = (if endswith m ''fC'' then m[length m - 1 := CHR ''c''] else take (length m - 2) m)"
    using target found m by (auto simp: getThunkTarget_run split: if_splits)
  show "stripSuffix m = m" by (rule strip)
  obtain p e where me: "m = p @ e" and e: "e \<in> {''TA'', ''Ta'', ''To'', ''TO'', ''fC''}"
    using isThunkSymbol_endings [OF thunk m] others strip by (auto simp: thunk_suffixes_def endswith_iff)
  show "\<exists>p. (\<exists>e \<in> {''TA'', ''Ta'', ''To'', ''TO''}. m = p @ e \<and> t = p) \<or> m = p @ ''fC'' \<and> t = p @ ''fc''"
    using e t me by (auto simp: endswith_iff list_update_append)
qed

lemma old_thunk_target:
  assumes target: "fst (run_state (getThunkTarget m) s) = t" and found: "t \<noteq> []" and m: "\<not> isMangledName m"
  shows "\<exists>e. m = ''_TPA_'' @ t \<or> m = ''_TPAo_'' @ t
    \<or> e \<in> {''To'', ''TO''} \<and> startswith m (''_T'' @ e) \<and> t = ''_T'' @ drop 4 m"
proof -
  have thunk: "fst (run_state (isThunkSymbol m) s)"
    using target found by (auto simp: getThunkTarget_run split: if_splits)
  note old = isThunkSymbol_old [OF thunk m]
  obtain r where r: "m = ''_T'' @ r" using startswith_split old by force
  consider "startswith r ''PA_''" | "\<not> startswith r ''PA_''" "startswith r ''PAo_''"
    | "\<not> startswith r ''PA_''" "\<not> startswith r ''PAo_''" "startswith r ''To'' \<or> startswith r ''TO''"
    using old r by auto
  then show ?thesis
  proof cases
    case 1
    then have "r = ''PA_'' @ t" using startswith_split [of r "''PA_''"] target thunk m r by (simp add: getThunkTarget_run numeral_3_eq_3 eval_nat_numeral)
    then show ?thesis using r by simp
  next
    case 2
    then have "r = ''PAo_'' @ t" using startswith_split [of r "''PAo_''"] target thunk m r by (simp add: getThunkTarget_run numeral_3_eq_3 eval_nat_numeral)
    then show ?thesis using r by simp
  next
    case 3
    then have "t = ''_T'' @ drop 4 m" using target thunk m r by (simp add: getThunkTarget_run)
    moreover have "startswith m (''_T'' @ ''To'') \<or> startswith m (''_T'' @ ''TO'')"
      using 3(3) r by (auto simp: startswith_def)
    ultimately show ?thesis by blast
  qed
qed

text \<open>
  C32: Where \<open>getThunkTarget\<close> answers, the name is that of a thunk. For a name of the new mangling it has no
  suffix and one of five endings; the target is the name without the ending, or with \<open>fc\<close> for \<open>fC\<close>, and a
  mangled name again. For a name of the old mangling the target starts with \<open>_T\<close> or is what follows the
  prefix of a partial application.
\<close>

theorem thunk_target:
  assumes target: "fst (run_state (getThunkTarget m) s) = t" and found: "t \<noteq> []"
  shows "fst (run_state (isThunkSymbol m) s)
    \<and> (if isMangledName m then
         isMangledName t \<and> stripSuffix m = m
         \<and> (\<exists>p. (\<exists>e \<in> {''TA'', ''Ta'', ''To'', ''TO''}. m = p @ e \<and> t = p) \<or> m = p @ ''fC'' \<and> t = p @ ''fc'')
       else (\<exists>e. m = ''_TPA_'' @ t \<or> m = ''_TPAo_'' @ t
         \<or> e \<in> {''To'', ''TO''} \<and> startswith m (''_T'' @ e) \<and> t = ''_T'' @ drop 4 m))"
proof (cases "isMangledName m")
  case True
  have thunk: "fst (run_state (isThunkSymbol m) s)"
    using target found by (auto simp: getThunkTarget_run split: if_splits)
  note new = mangled_thunk_target [OF target found True]
  obtain p e e' where p: "m = p @ e" "t = p @ e'" "e \<in> {''TA'', ''Ta'', ''To'', ''TO'', ''fC''}"
    using new(2) by fastforce
  then have "isMangledName t" using mangled_stays [of p e e'] True by simp
  with thunk new True show ?thesis by simp
next
  case False
  have "fst (run_state (isThunkSymbol m) s)"
    using target found by (auto simp: getThunkTarget_run split: if_splits)
  then show ?thesis using old_thunk_target [OF target found False] False by simp
qed

theorem thunk_target_witness:
  "isMangledName ''$s1a1bVACycfc'' \<and> fst (run_state (isThunkSymbol ''$s1a1bVACycfC'') new_demangler)"
proof -
  have "fst (run_state (getThunkTarget ''$s1a1bVACycfC'') new_demangler) = ''$s1a1bVACycfc''" by code_simp
  moreover have "isMangledName ''$s1a1bVACycfC''" by code_simp
  ultimately show ?thesis using thunk_target [of "''$s1a1bVACycfC''" new_demangler] by simp
qed

text \<open>
  C33: A tree that \<open>getUnspecialized\<close> returns is not specialized, and is smaller than the tree if that is
  specialized; this is why \<open>getModuleName\<close> comes to an end.
\<close>

theorem getUnspecialized_result:
  "getUnspecialized n = Inr m \<Longrightarrow> \<not> isSpecialized m \<and> (isSpecialized n \<longrightarrow> size m < size n)"
  by (rule getUnspecialized_smaller)

theorem getUnspecialized_result_witness:
  "\<not> isSpecialized (Node K_Class [TextNode K_Module ''m'', TextNode K_Identifier ''C''])"
proof -
  have "getUnspecialized (Node K_BoundGenericClass [Node K_Type [Node K_Class [TextNode K_Module ''m'',
      TextNode K_Identifier ''C'']], Node K_TypeList []]) = Inr (Node K_Class [TextNode K_Module ''m'', TextNode K_Identifier ''C''])"
    by code_simp
  then show ?thesis using getUnspecialized_result by blast
qed

text \<open>
  The retroactive conformances of a bound generic type are added to the node that \<open>demangleBoundGenericArgs\<close>
  returns. With an empty list of arguments that is the nominal type itself, which an earlier substitution
  points to as well; in this symbol the conformance is one of that very type, so that the code would build a
  tree that contains itself. The run is stuck in the model.
\<close>

lemma shared_nominal_stuck:
  "Stuck (snd (run_state (demangleSymbolAsNode ''$s4main3FooCyACSQHD0_g_G'') new_demangler))"
  by code_simp

end
