(* ===== verification/Printer_Rules.thy ===== *)
theory Printer_Rules
  imports Printer_Print
begin

text \<open>
  What the functions of the node printer do to their state: they only append to the stream, never make an
  invalid run valid or a broken one whole, and do not run out of fuel if the calls of \<open>print\<close> they make are
  for nodes that are small enough. The locale \<open>printing\<close> fixes \<open>rec\<close> with this contract for the nodes below a
  weight \<open>k\<close>; its lemmas follow the functions of \<open>Printer_Types\<close>.
\<close>

section \<open>Triples\<close>

definition grows :: "printer \<Rightarrow> printer \<Rightarrow> bool" where
  "grows s t \<longleftrightarrow> take (length (Stream s)) (Stream t) = Stream s \<and> (isValid t \<longrightarrow> isValid s) \<and> (Broken s \<longrightarrow> Broken t)
     \<and> (SpecializationPrefixPrinted s \<longrightarrow> SpecializationPrefixPrinted t) \<and> (Dry t \<longrightarrow> Dry s)"

lemma grows_refl: "grows s s"
  by (simp add: grows_def)

lemma grows_trans: "grows s t \<Longrightarrow> grows t u \<Longrightarrow> grows s u"
  unfolding grows_def by (metis append_take_drop_id append_eq_conv_conj append.assoc)

text \<open>A run does not depend on what is on the stream: with \<open>p\<close> in front of it the same is appended.\<close>

definition shifted :: "string \<Rightarrow> printer \<Rightarrow> printer" where
  "shifted p s = s\<lparr>Stream := p @ Stream s\<rparr>"

definition prints :: "('a \<Rightarrow> bool) \<Rightarrow> 'a pr \<Rightarrow> bool" where
  "prints Q m \<longleftrightarrow> (\<forall>s. grows s (snd (run_state m s)) \<and> Q (fst (run_state m s))
     \<and> (\<forall>p. run_state m (shifted p s) = (fst (run_state m s), shifted p (snd (run_state m s)))))"

abbreviation plain :: "'a pr \<Rightarrow> bool" where
  "plain \<equiv> prints (\<lambda>_. True)"

named_theorems prints_rules \<open>triples of the operations of the printer\<close>

lemma prints_bind:
  assumes m: "prints P m" and f: "\<And>x. P x \<Longrightarrow> prints Q (f x)"
  shows "prints Q (State_Monad.bind m f)"
proof -
  have "grows s (snd (run_state (State_Monad.bind m f) s)) \<and> Q (fst (run_state (State_Monad.bind m f) s))
      \<and> run_state (State_Monad.bind m f) (shifted p s)
        = (fst (run_state (State_Monad.bind m f) s), shifted p (snd (run_state (State_Monad.bind m f) s)))" for s p
  proof -
    obtain x t where t: "run_state m s = (x, t)" by fastforce
    with m have s: "grows s t" "P x" "run_state m (shifted p s) = (x, shifted p t)"
      by (metis prints_def snd_conv, metis prints_def fst_conv, metis prints_def fst_conv snd_conv)
    moreover from f [OF s(2)] have "grows t (snd (run_state (f x) t))" "Q (fst (run_state (f x) t))"
      "run_state (f x) (shifted p t) = (fst (run_state (f x) t), shifted p (snd (run_state (f x) t)))"
      by (simp_all add: prints_def)
    ultimately show ?thesis using t by (auto intro: grows_trans)
  qed
  then show ?thesis by (simp add: prints_def)
qed

lemma prints_weaken: "prints P m \<Longrightarrow> (\<And>x. P x \<Longrightarrow> Q x) \<Longrightarrow> prints Q m"
  by (simp add: prints_def)

lemma prints_return [prints_rules]: "Q x \<Longrightarrow> prints Q (return_pr x)"
  by (simp add: prints_def grows_refl)

lemma prints_then: "prints P m \<Longrightarrow> (\<And>x. prints Q (f x)) \<Longrightarrow> prints Q (State_Monad.bind m f)"
  by (rule prints_bind)

lemma prints_unit [prints_rules]: "plain m \<Longrightarrow> prints Q (f ()) \<Longrightarrow> prints Q (State_Monad.bind (m :: unit pr) f)"
  by (rule prints_bind) (auto split: unit.splits)

lemma prints_if [prints_rules]: "(b \<Longrightarrow> prints Q m) \<Longrightarrow> (\<not> b \<Longrightarrow> prints Q m') \<Longrightarrow> prints Q (if b then m else m')"
  by simp

lemma prints_let [prints_rules]: "prints Q (f x) \<Longrightarrow> prints Q (let y = x in f y)"
  by simp

lemma prints_option [prints_rules]:
  "(x = None \<Longrightarrow> prints Q m) \<Longrightarrow> (\<And>y. x = Some y \<Longrightarrow> prints Q (f y)) \<Longrightarrow> prints Q (case x of None \<Rightarrow> m | Some y \<Rightarrow> f y)"
  by (cases x) simp_all

lemma prints_prod [prints_rules]: "(\<And>a b. prints Q (f a b)) \<Longrightarrow> prints Q (case p of (a, b) \<Rightarrow> f a b)"
  by (cases p) simp

lemma prints_list [prints_rules]:
  "(xs = [] \<Longrightarrow> prints Q m) \<Longrightarrow> (\<And>y ys. xs = y # ys \<Longrightarrow> prints Q (f y ys)) \<Longrightarrow> prints Q (case xs of [] \<Rightarrow> m | y # ys \<Rightarrow> f y ys)"
  by (cases xs) simp_all

section \<open>Normal forms\<close>

lemma state_ext_pr: "(\<And>s. run_state m s = run_state m' s) \<Longrightarrow> m = m'"
  by (cases m; cases m') (auto intro: ext)

lemma pr_simps:
  "State_Monad.bind (State_Monad.bind m f) g = State_Monad.bind m (\<lambda>x. State_Monad.bind (f x) g)"
  "State_Monad.bind (return_pr x) h = h x"
  "State_Monad.bind (if b then m1 else m2) h' = (if b then State_Monad.bind m1 h' else State_Monad.bind m2 h')"
  by (rule state_ext_pr, simp split: prod.splits)+

section \<open>Primitives\<close>

lemma prints_emit [prints_rules]: "plain (emit t)"
  and prints_setInvalid [prints_rules]: "plain setInvalid"
  and prints_set_prefix_printed [prints_rules]: "plain set_prefix_printed"
  by (simp_all add: prints_def grows_def shifted_def emit_def setInvalid_def set_prefix_printed_def)

lemma prints_broken [prints_rules]: "Q x \<Longrightarrow> prints Q (broken x)"
  by (simp add: prints_def grows_def shifted_def broken_def)

lemma prints_need: "(\<And>y. x = Some y \<Longrightarrow> Q y) \<Longrightarrow> Q d \<Longrightarrow> prints Q (need d x)"
  by (cases x) (simp_all add: need_def prints_return prints_broken)

lemma prints_flag [prints_rules]:
  "(\<And>b. prints Q (f b)) \<Longrightarrow> prints Q (State_Monad.bind (reading SpecializationPrefixPrinted) f)"
  by (rule prints_then [where P = "\<lambda>_. True"]) (simp_all add: prints_def reading_def shifted_def grows_refl)

text \<open>The size of the stream is only read to see whether something was printed in between.\<close>

lemma prints_measured:
  assumes m: "prints P m" and f: "\<And>b x. P x \<Longrightarrow> prints Q (f b x)"
  shows "prints Q (do { a \<leftarrow> reading (\<lambda>s. length (Stream s)); x \<leftarrow> m; b \<leftarrow> reading (\<lambda>s. length (Stream s)); f (b \<noteq> a) x })"
    (is "prints Q ?whole")
proof -
  have "grows s (snd (run_state ?whole s)) \<and> Q (fst (run_state ?whole s))
      \<and> run_state ?whole (shifted p s) = (fst (run_state ?whole s), shifted p (snd (run_state ?whole s)))" for s p
  proof -
    obtain x t where t: "run_state m s = (x, t)" by fastforce
    with m have s: "grows s t" "P x" "run_state m (shifted p s) = (x, shifted p t)"
      by (metis prints_def snd_conv, metis prints_def fst_conv, metis prints_def fst_conv snd_conv)
    let ?c = "length (Stream t) \<noteq> length (Stream s)"
    from f [OF s(2), of ?c]
    have "grows t (snd (run_state (f ?c x) t))" "Q (fst (run_state (f ?c x) t))"
      "run_state (f ?c x) (shifted p t) = (fst (run_state (f ?c x) t), shifted p (snd (run_state (f ?c x) t)))"
      by (simp_all add: prints_def)
    moreover have "run_state ?whole s = run_state (f ?c x) t"
      by (simp add: reading_def t)
    moreover have "run_state ?whole (shifted p s) = run_state (f ?c x) (shifted p t)"
      by (simp add: reading_def s(3)) (simp add: shifted_def)
    ultimately show ?thesis using s(1) by (auto intro: grows_trans)
  qed
  then show ?thesis by (simp add: prints_def)
qed

lemma prints_check [prints_rules]: "plain (check b)"
  by (simp add: check_def prints_return prints_broken)

lemma prints_getText: "plain (getText n)"
  and prints_getIndex: "plain (getIndex n)"
  by (simp_all add: getText_def getIndex_def prints_need)

lemmas prints_values [prints_rules] =
  prints_then [OF prints_getText] prints_then [OF prints_getIndex] prints_getText prints_getIndex

lemma prints_need_then [prints_rules]: "(\<And>y. prints Q (f y)) \<Longrightarrow> prints Q (State_Monad.bind (need d x) f)"
  by (rule prints_then [where P = "\<lambda>_. True"]) (auto intro: prints_need)

lemma prints_emit_text [prints_rules]: "plain (emit_text n)"
  and prints_emit_index [prints_rules]: "plain (emit_index n)"
  and prints_writeHex [prints_rules]: "plain (writeHex i)"
  unfolding emit_text_def emit_index_def writeHex_def by (auto intro!: prints_rules)

lemma prints_only_if [prints_rules]: "(b \<Longrightarrow> plain m) \<Longrightarrow> plain (only_if b m)"
  unfolding only_if_def by (auto intro!: prints_rules)

lemma prints_print_symbol [prints_rules]: "plain (print_symbol dsym t)"
  unfolding print_symbol_def by (auto intro!: prints_rules)

section \<open>Weights\<close>

text \<open>The node that stands for what a null pointer points to weighs nothing.\<close>

definition weight :: "node \<Rightarrow> nat" where
  "weight n = (if n = Node K_EmptyList [] then 0 else Suc (size n))"

definition light :: "nat \<Rightarrow> node option \<Rightarrow> bool" where
  "light k n \<longleftrightarrow> (\<forall>x. n = Some x \<longrightarrow> weight x < k)"

lemma light_None [simp]: "light k None"
  and light_Some [simp]: "light k (Some n) \<longleftrightarrow> weight n < k"
  by (simp_all add: light_def)

lemma weight_child: "c \<in> set (getChildren n) \<Longrightarrow> weight c < weight n"
proof (cases n)
  case (Node k ns)
  assume "c \<in> set (getChildren n)"
  with Node have "c \<in> set ns" by simp
  then have "size c < size n" using Node size_list_estimation' [of c ns "size c" size] by simp
  moreover have "weight n = Suc (size n)" using Node \<open>c \<in> set ns\<close> by (auto simp: weight_def)
  ultimately show ?thesis by (simp add: weight_def)
qed simp_all

lemma getChild_in: "getChild n i = Some c \<Longrightarrow> c \<in> set (getChildren n)"
  by (auto simp: getChild_def getNumChildren_def split: if_splits)

lemma light_child: "weight n \<le> k \<Longrightarrow> light k (getChild n i)"
  unfolding light_def by (auto dest!: getChild_in weight_child)

lemma light_first_child: "weight n \<le> k \<Longrightarrow> light k (getFirstChild n)"
  and light_last_child: "weight n \<le> k \<Longrightarrow> light k (getLastChild n)"
  by (simp_all add: getFirstChild_def getLastChild_def light_child)

lemma light_child_if: "weight n \<le> k \<Longrightarrow> light k (getChildIf n kind)"
  unfolding light_def getChildIf_def by (auto simp: find_Some_iff dest!: nth_mem weight_child)

lemma child_if_smaller: "getChildIf n kind = Some c \<Longrightarrow> weight c < weight n"
  unfolding getChildIf_def by (auto simp: find_Some_iff dest!: nth_mem weight_child)

lemma child_smaller_weight: "getChild n i = Some c \<Longrightarrow> weight c < weight n"
  by (rule weight_child [OF getChild_in])

lemma weight_children: "weight n \<le> k \<Longrightarrow> list_all (\<lambda>c. weight c < k) (getChildren n)"
  by (auto simp: list_all_iff dest!: weight_child)

lemma list_all_take_drop:
  "list_all P xs \<Longrightarrow> list_all P (take i xs)" "list_all P xs \<Longrightarrow> list_all P (drop i xs)"
  "list_all P xs \<Longrightarrow> list_all P (takeWhile R xs)" "list_all P xs \<Longrightarrow> list_all P (dropWhile R xs)"
  "list_all P xs \<Longrightarrow> list_all P (butlast xs)"
  by (auto simp: list_all_iff dest: in_set_takeD in_set_dropD set_takeWhileD set_dropWhileD in_set_butlastD)

lemmas lightness = light_child light_first_child light_last_child light_child_if weight_children list_all_take_drop

section \<open>Functions that call \<open>print\<close>\<close>

locale printing =
  fixes rec :: recursion and k :: nat
  assumes rec_prints: "light k n \<Longrightarrow> prints (light k) (rec n d p)"
    and positive: "0 < k"
begin

lemma prints_deref: "light k x \<Longrightarrow> prints (\<lambda>c. weight c < k) (deref x)"
  unfolding deref_def using positive by (intro prints_need) (auto simp: weight_def)

lemmas deref_then = prints_bind [OF prints_deref]

lemmas rec_then = prints_bind [OF rec_prints]

lemma prints_sub: "light k n \<Longrightarrow> plain (sub rec depth n)"
  unfolding sub_def by (auto intro!: rec_then prints_rules)

lemma prints_kind_of_child: "weight n \<le> k \<Longrightarrow> (\<And>x. prints Q (f x)) \<Longrightarrow> prints Q (State_Monad.bind (kind_of_child n i) f)"
  unfolding kind_of_child_def pr_simps by (auto intro!: deref_then lightness)

lemma prints_skip_kind: "weight n \<le> k \<Longrightarrow> (\<And>x. prints Q (f x)) \<Longrightarrow> prints Q (State_Monad.bind (skip_kind n i k') f)"
  unfolding skip_kind_def pr_simps by (auto intro!: prints_kind_of_child)

lemma prints_nodes: "list_all (\<lambda>c. weight c < k) cs \<Longrightarrow> plain (print_nodes rec depth sep cs)"
  by (induction cs) (auto intro!: prints_rules prints_sub)

lemma prints_children: "light (Suc k) n \<Longrightarrow> plain (printChildren rec depth sep n)"
  unfolding printChildren_def by (auto intro!: prints_rules prints_nodes weight_children simp: less_Suc_eq_le)

lemma light_Suc: "light k n \<Longrightarrow> light (Suc k) n"
  by (auto simp: light_def)

lemmas basics = deref_then prints_sub prints_kind_of_child prints_skip_kind prints_nodes prints_children

lemma prints_bound_no_sugar: "weight n \<le> k \<Longrightarrow> plain (printBoundGenericNoSugar rec n depth)"
  unfolding printBoundGenericNoSugar_def by (auto intro!: prints_rules basics lightness light_Suc)

lemma prints_optional_index: "light k n \<Longrightarrow> plain (printOptionalIndex n)"
  unfolding printOptionalIndex_def by (auto intro!: prints_rules basics)

lemma prints_context: "light k n \<Longrightarrow> (\<And>x. prints Q (f x)) \<Longrightarrow> prints Q (State_Monad.bind (printContext opts n) f)"
  unfolding printContext_def pr_simps by (auto intro!: prints_rules basics)

lemma prints_parens: "light k n \<Longrightarrow> plain (printWithParens rec n depth)"
  unfolding printWithParens_def by (auto intro!: prints_rules basics)

lemma prints_bound_generic: "weight n \<le> k \<Longrightarrow> plain (printBoundGeneric rec opts n depth)"
  unfolding printBoundGeneric_def
  by (auto intro!: prints_rules basics lightness light_Suc prints_bound_no_sugar prints_parens split: SugarType.splits)

lemma prints_label: "light k labels \<Longrightarrow> (\<And>x. prints Q (f x)) \<Longrightarrow> prints Q (State_Monad.bind (label_for labels i) f)"
  unfolding label_for_def pr_simps by (auto intro!: prints_rules basics lightness)

lemma prints_parameters:
  "list_all (\<lambda>c. weight c < k) Params \<Longrightarrow> light k labels \<Longrightarrow>
    plain (print_parameters rec labels depth hasLabels showTypes i Params)"
  by (induction Params arbitrary: i)
    (auto intro!: prints_rules basics prints_label dest: weight_child [OF getChild_in] simp: getChildIf_def)

lemma prints_function_parameters:
  "light k labels \<Longrightarrow> weight n \<le> k \<Longrightarrow> plain (printFunctionParameters rec labels n depth showTypes)"
  unfolding printFunctionParameters_def by (auto intro!: prints_rules basics lightness prints_parameters)

lemma prints_convention: "weight n \<le> k \<Longrightarrow> plain (print_convention rec n depth)"
  unfolding print_convention_def printConventionWithMangledCType_def
  by (auto intro!: prints_rules basics lightness)

lemma prints_function_type:
  "light k labels \<Longrightarrow> weight n \<le> k \<Longrightarrow> plain (printFunctionType rec opts labels n depth)"
  unfolding printFunctionType_def Let_def
  by (auto intro!: prints_rules basics lightness prints_convention prints_function_parameters simp: pr_simps)

section \<open>Lowered function types and specializations\<close>

lemma prints_transition: "light (Suc k) subs \<Longrightarrow> plain (transitionTo rec depth subs cur new)"
  unfolding transitionTo_def Let_def
  by (auto intro!: prints_rules basics lightness simp: less_Suc_eq_le split: ImplState.splits)

lemma prints_impl_children:
  "list_all (\<lambda>c. weight c < k) cs \<Longrightarrow> light k ps \<Longrightarrow> light k is \<Longrightarrow>
    prints (\<lambda>(_, ps, is). light k ps \<and> light k is) (impl_children rec depth cur ps is cs)"
  by (induction cs arbitrary: cur ps "is")
    (auto simp: Let_def intro!: prints_rules basics prints_transition light_Suc)

lemma prints_for: "light k subs \<Longrightarrow> plain (print_for rec depth i subs)"
  unfolding print_for_def by (auto intro!: prints_rules basics lightness light_Suc)

lemma prints_impl_function: "weight n \<le> k \<Longrightarrow> plain (printImplFunctionType rec n depth)"
  unfolding printImplFunctionType_def
  by (rule prints_bind [OF prints_impl_children])
    (auto intro!: prints_rules prints_transition light_Suc prints_for lightness)

lemma prints_closure_types: "list_all (\<lambda>c. weight c < k) cs \<Longrightarrow> plain (closure_types rec depth cs)"
  by (induction cs) (auto intro!: prints_rules basics)

lemma light_next_child: "list_all (\<lambda>c. weight c < k) cs \<Longrightarrow> light k (next_child cs)"
  by (cases cs) (simp_all add: next_child_def)

lemma prints_sig_params: "list_all (\<lambda>c. weight c < k) cs \<Longrightarrow> plain (sig_specialization_params rec dsym depth cs)"
proof (induction cs rule: measure_induct_rule [where f = length])
  case (less cs)
  show ?case
  proof (cases cs)
    case Nil
    then show ?thesis by (simp add: sig_specialization_params.simps prints_return)
  next
    case (Cons c tail)
    have rest: "plain (sig_specialization_params rec dsym depth tail)"
      "plain (sig_specialization_params rec dsym depth (drop i tail))"
      "plain (sig_specialization_params rec dsym depth (dropWhile R (drop i tail)))" for i R
      using less.prems Cons le_less_trans [OF length_dropWhile_le, of "drop i tail" "length cs" R]
      by (auto intro!: less.IH lightness)
    show ?thesis
      using rest less.prems Cons
      by (subst sig_specialization_params.simps)
        (auto simp: Let_def intro!: prints_rules basics light_next_child lightness prints_closure_types)
  qed
qed

lemma prints_function_sig: "weight n \<le> k \<Longrightarrow> plain (printFunctionSigSpecializationParams rec dsym n depth)"
  unfolding printFunctionSigSpecializationParams_def by (intro prints_sig_params lightness)

lemma prints_specialization_children:
  "list_all (\<lambda>c. weight c < k) cs \<Longrightarrow> plain (specialization_children rec dsym depth pre sep i cs)"
  by (induction cs arbitrary: sep i) (auto intro!: prints_rules basics prints_function_sig)

lemma prints_specialization_prefix: "weight n \<le> k \<Longrightarrow> plain (printSpecializationPrefix rec dsym opts n descr depth pre)"
  unfolding printSpecializationPrefix_def by (auto intro!: prints_rules prints_specialization_children lightness)

lemmas compound = prints_bound_no_sugar prints_optional_index prints_parens prints_bound_generic prints_function_parameters
  prints_convention prints_function_type prints_impl_function prints_specialization_prefix

end

end
