(* ===== verification/Printer_Facts.thy ===== *)
theory Printer_Facts
  imports Printer_Rules
begin

text \<open>
  The contract of \<open>Printer_Rules\<close> for the cases of \<open>print\<close> and for \<open>print\<close> itself: the fuel of \<open>run_print\<close> is
  enough, and printing a node only appends to the stream.
\<close>

declare acts.simps [simp del]

context printing
begin

abbreviation result :: "node option pr \<Rightarrow> bool" where
  "result \<equiv> prints (light (Suc k))"

lemma prints_act: "weight n \<le> k \<Longrightarrow> plain (act rec n depth a)"
  by (cases a) (auto intro!: prints_rules basics lightness simp: less_Suc_eq_le)

lemma prints_acts: "weight n \<le> k \<Longrightarrow> plain (acts rec n depth as)"
  by (induction as) (auto simp: acts.simps intro!: prints_rules prints_act)

lemma result_simple: "weight n \<le> k \<Longrightarrow> result (simple rec n depth as)"
  unfolding simple_def by (auto intro!: prints_rules prints_acts)

section \<open>Entities\<close>

lemma light_below_signatures: "weight n < k \<Longrightarrow> light k (below_signatures n)"
proof (induction n rule: below_signatures.induct)
  case (1 kd sig kd' t ts cs)
  have "weight t < weight (Node kd' (t # ts))" "weight (Node kd' (t # ts)) < weight (Node kd (sig # Node kd' (t # ts) # cs))"
    by (rule weight_child; simp)+
  then show ?case using 1 by auto
qed auto

lemma prints_entity_type:
  "weight Entity \<le> k \<Longrightarrow> light k type \<Longrightarrow> light k gs \<Longrightarrow> plain (printEntityType rec opts Entity type gs depth)"
  unfolding printEntityType_def Let_def
  by (auto intro!: prints_rules basics lightness light_Suc compound dest!: child_if_smaller simp: pr_simps)

lemma light_bind_below: "light k type \<Longrightarrow> light k (Option.bind type below_signatures)"
  by (cases type) (auto intro: light_below_signatures)

lemma prints_entity_type_style:
  "weight Entity \<le> k \<Longrightarrow> light k type \<Longrightarrow> light k gs \<Longrightarrow>
    plain (print_entity_type rec opts Entity type gs depth style multi)"
  unfolding print_entity_type_def
  by (auto intro!: prints_rules basics prints_entity_type light_bind_below simp: pr_simps)

lemma result_prefix_context:
  "light k c \<Longrightarrow> prints (\<lambda>r. light k r \<and> light (Suc k) r) (print_prefix_context rec opts c depth multi)"
  unfolding print_prefix_context_def
  by (auto intro!: prints_rules prints_context rec_prints
      prints_measured [where f = "\<lambda>b x. do { only_if b (emit ''.''); return_pr x }"] intro: light_Suc)

lemma prints_entity_name:
  assumes Entity: "weight Entity \<le> k" and f: "\<And>x. prints Q (f x)"
  shows "prints Q (State_Monad.bind (print_entity_name rec Entity depth multi extra over) f)"
proof -
  note measured = prints_measured [where P = "\<lambda>_. True" and f = "\<lambda>b _. do { only_if (b \<and> e \<noteq> []) (emit ''.''); return_pr e }" for e]
  have "plain (print_entity_name rec Entity depth multi extra over)"
    unfolding print_entity_name_def
    by (rule prints_then [where P = "\<lambda>_. True", OF _ measured])
      (use Entity in \<open>auto intro!: prints_rules basics lightness dest!: child_if_smaller\<close>)
  then show ?thesis by (rule prints_then) (rule f)
qed

lemma prints_postfix_context: "light k c \<Longrightarrow> plain (print_postfix_context rec kind depth c)"
  unfolding print_postfix_context_def by (auto intro!: prints_rules basics)

lemma result_postfix:
  "light (Suc k) c \<Longrightarrow> light k c \<Longrightarrow> result (if b then do { print_postfix_context rec kind depth c; nothing } else return_pr c)"
  by (auto intro!: prints_rules prints_postfix_context)

lemma result_entity:
  "weight nd \<le> k \<Longrightarrow> result (printEntity rec opts nd depth pre style hasName extra index over)"
  unfolding printEntity_def Let_def
  by (auto intro!: prints_rules basics lightness prints_bind [OF result_prefix_context] prints_entity_name
      prints_entity_type_style prints_postfix_context dest!: child_if_smaller simp: pr_simps less_Suc_eq_le)

lemma result_storage: "light k n \<Longrightarrow> result (printAbstractStorage rec opts n depth pre extra)"
  unfolding printAbstractStorage_def by (auto intro!: prints_rules basics result_entity)

section \<open>Cases with definitions of their own\<close>

lemma result_anonymous_context: "weight nd \<le> k \<Longrightarrow> result (print_anonymous_context rec opts nd depth)"
  unfolding print_anonymous_context_def by (auto intro!: prints_rules prints_acts)

lemma result_extension: "weight nd \<le> k \<Longrightarrow> result (print_extension rec opts nd depth)"
  unfolding print_extension_def by (auto intro!: prints_rules basics rec_then lightness simp: pr_simps)

lemma result_closure: "weight nd \<le> k \<Longrightarrow> result (print_closure rec opts nd depth pre name)"
  unfolding print_closure_def by (auto intro!: prints_rules basics lightness result_entity)

lemma result_private_name: "weight nd \<le> k \<Longrightarrow> result (print_private_name rec opts nd depth)"
  unfolding print_private_name_def by (auto intro!: prints_rules basics lightness)

lemma result_tuple_element: "weight nd \<le> k \<Longrightarrow> result (print_tuple_element rec nd depth)"
  unfolding print_tuple_element_def by (auto intro!: prints_rules basics lightness)

lemma prints_with_separators:
  "list_all (\<lambda>c. weight c < k) cs \<Longrightarrow> plain (print_with_separators rec depth first others cs)"
  by (induction cs arbitrary: first) (auto intro!: prints_rules basics)

lemma result_param_kind: "result (print_param_kind nd)"
  unfolding print_param_kind_def Let_def by (auto intro!: prints_rules)

lemma result_partial_apply: "weight nd \<le> k \<Longrightarrow> result (print_partial_apply rec opts nd depth long)"
  unfolding print_partial_apply_def by (auto intro!: prints_rules basics simp: less_Suc_eq_le)

lemma prints_key_path_types: "list_all (\<lambda>c. weight c < k) cs \<Longrightarrow> plain (print_key_path_types rec depth cs)"
  by (induction cs) (auto intro!: prints_rules basics)

lemma result_key_path_accessor: "weight nd \<le> k \<Longrightarrow> result (print_key_path_accessor rec nd depth)"
  unfolding print_key_path_accessor_def by (intro prints_rules basics lightness prints_key_path_types) auto

lemma light_child_before: "weight nd \<le> k \<Longrightarrow> light k (child_before nd i)"
  by (simp add: child_before_def light_child)

lemma result_key_path_operator: "weight nd \<le> k \<Longrightarrow> result (print_key_path_operator rec nd depth)"
  unfolding print_key_path_operator_def Let_def
  by (intro prints_rules basics light_child_before lightness) auto

lemma result_thunks:
  assumes "weight nd \<le> k"
  shows "result (print_reabstraction_thunk rec opts nd depth)"
    and "result (print_reabstraction_thunk_with_self rec nd depth)"
  unfolding print_reabstraction_thunk_def print_reabstraction_thunk_with_self_def Let_def
  using assms by (auto intro!: prints_rules basics lightness prints_acts result_simple)

lemma result_autodiff_function: "weight nd \<le> k \<Longrightarrow> result (print_autodiff_function rec opts nd depth)"
proof -
  assume nd: "weight nd \<le> k"
  let ?prefix = "takeWhile (\<lambda>c. getKind c \<noteq> K_AutoDiffFunctionKind) (getChildren nd)"
  have prefix: "list_all (\<lambda>c. weight c < k) ?prefix" using nd by (intro lightness)
  then have "light k (case rev ?prefix of [] \<Rightarrow> None | c # _ \<Rightarrow> if getKind c = K_DependentGenericSignature then Some c else None)"
    by (cases ?prefix rule: rev_cases) auto
  then show ?thesis
    unfolding print_autodiff_function_def Let_def using nd
    by (intro prints_rules basics prints_acts) (auto intro!: lightness)
qed

lemma result_self_reordering_thunk: "weight nd \<le> k \<Longrightarrow> result (print_self_reordering_thunk rec opts nd depth)"
  unfolding print_self_reordering_thunk_def Let_def
  by (auto intro!: prints_rules basics lightness simp: pr_simps)

lemma result_subset_parameters_thunk: "weight nd \<le> k \<Longrightarrow> result (print_subset_parameters_thunk rec opts nd depth)"
  unfolding print_subset_parameters_thunk_def Let_def
  by (auto intro!: prints_rules basics lightness prints_acts)

lemma result_differentiability_witness: "weight nd \<le> k \<Longrightarrow> result (print_differentiability_witness rec nd depth)"
  unfolding print_differentiability_witness_def Let_def
  by (intro prints_rules basics prints_acts lightness) (auto intro!: lightness)

lemma result_index_subset: "result (print_index_subset nd)"
  unfolding print_index_subset_def by (auto intro!: prints_rules)

lemma prints_metatype_index:
  "weight nd \<le> k \<Longrightarrow> (\<And>i. prints Q (f i)) \<Longrightarrow> prints Q (State_Monad.bind (metatype_index rec nd depth) f)"
  unfolding metatype_index_def by (auto intro!: prints_rules prints_acts simp: pr_simps)

lemma result_metatype:
  assumes "weight nd \<le> k"
  shows "result (print_metatype rec nd depth)" and "result (print_existential_metatype rec nd depth)"
  unfolding print_metatype_def print_existential_metatype_def Let_def
  using assms by (auto intro!: prints_rules prints_metatype_index basics compound lightness)

lemma result_protocol_lists:
  assumes "weight nd \<le> k"
  shows "result (print_protocol_list rec nd depth)" and "result (print_protocol_list_with_class rec nd depth)"
    and "result (print_protocol_list_with_any_object rec opts nd depth)"
    and "result (print_protocol_conformance rec opts nd depth)"
  unfolding print_protocol_list_def print_protocol_list_with_class_def print_protocol_list_with_any_object_def
    print_protocol_conformance_def
  using assms
  by (auto intro!: prints_rules basics lightness prints_acts result_simple intro: light_Suc dest!: child_smaller_weight)

lemma result_impl_convention: "weight nd \<le> k \<Longrightarrow> result (print_impl_convention rec nd depth)"
  unfolding print_impl_convention_def by (auto intro!: prints_rules basics lightness)

lemma prints_param_counts: "plain (print_param_counts opts d cs)"
  by (induction cs arbitrary: d) (auto intro!: prints_rules)

lemma result_generic_signature: "weight nd \<le> k \<Longrightarrow> result (print_generic_signature rec opts nd)"
  unfolding print_generic_signature_def
  by (auto intro!: prints_rules prints_then [OF prints_param_counts] basics lightness)

lemma result_layout_requirement: "weight nd \<le> k \<Longrightarrow> result (print_layout_requirement rec nd depth)"
  unfolding print_layout_requirement_def by (intro prints_rules basics lightness prints_acts) auto

lemma result_box_with_layout: "weight nd \<le> k \<Longrightarrow> result (print_box_with_layout rec nd depth)"
  unfolding print_box_with_layout_def by (auto intro!: prints_rules basics lightness prints_acts intro: light_Suc)

lemma prints_box_fields: "list_all (\<lambda>c. weight c < k) cs \<Longrightarrow> plain (print_box_fields rec depth first cs)"
  by (induction cs arbitrary: first) (auto intro!: prints_rules basics)

lemma result_completion_handler: "weight nd \<le> k \<Longrightarrow> result (print_completion_handler rec nd depth)"
  unfolding print_completion_handler_def by (intro prints_rules basics lightness prints_acts) auto

end

end
