(* ===== verification/Printer_Cases.thy ===== *)
theory Printer_Cases
  imports Printer_Facts
begin

text \<open>
  The contract of \<open>Printer_Rules\<close> for the cases of \<open>print\<close>.
\<close>

lemma result_case: "prints Q m \<Longrightarrow> prints Q m' \<Longrightarrow> prints Q (if b then m else m')"
  by simp

context printing
begin

lemmas result_cases = result_simple result_entity result_storage result_anonymous_context result_extension result_closure
  result_private_name result_tuple_element result_param_kind result_partial_apply result_key_path_accessor
  result_key_path_operator result_thunks result_autodiff_function result_self_reordering_thunk
  result_subset_parameters_thunk result_differentiability_witness result_index_subset result_metatype
  result_protocol_lists result_impl_convention result_generic_signature result_layout_requirement
  result_box_with_layout result_completion_handler

lemmas local_loops = prints_with_separators prints_box_fields prints_context

lemma result_cases_1:
  "result other \<Longrightarrow> weight nd \<le> k \<Longrightarrow> result (print_cases_1 rec dsym opts nd depth pre other)"
  unfolding print_cases_1_def Let_def
  by (intro result_case result_cases; assumption?)
    (auto intro!: prints_rules basics compound prints_acts lightness local_loops result_cases simp: less_Suc_eq_le pr_simps)?

lemma result_cases_2:
  "result other \<Longrightarrow> weight nd \<le> k \<Longrightarrow> result (print_cases_2 rec dsym opts nd depth pre other)"
  unfolding print_cases_2_def Let_def
  by (intro result_case result_cases; assumption?)
    (auto intro!: prints_rules basics compound prints_acts lightness local_loops result_cases simp: less_Suc_eq_le pr_simps)?

lemma result_cases_3:
  "result other \<Longrightarrow> weight nd \<le> k \<Longrightarrow> result (print_cases_3 rec dsym opts nd depth pre other)"
  unfolding print_cases_3_def Let_def
  by (intro result_case result_cases; assumption?)
    (auto intro!: prints_rules basics compound prints_acts lightness local_loops result_cases simp: less_Suc_eq_le pr_simps)?

lemma result_cases_4:
  "result other \<Longrightarrow> weight nd \<le> k \<Longrightarrow> result (print_cases_4 rec dsym opts nd depth pre other)"
  unfolding print_cases_4_def Let_def
  by (intro result_case result_cases; assumption?)
    (auto intro!: prints_rules basics compound prints_acts lightness local_loops result_cases simp: less_Suc_eq_le pr_simps)?

lemma result_cases_5:
  "result other \<Longrightarrow> weight nd \<le> k \<Longrightarrow> result (print_cases_5 rec dsym opts nd depth pre other)"
  unfolding print_cases_5_def Let_def
  by (intro result_case result_cases; assumption?)
    (auto intro!: prints_rules basics compound prints_acts lightness local_loops result_cases simp: less_Suc_eq_le pr_simps)?

lemma result_cases_6:
  "result other \<Longrightarrow> weight nd \<le> k \<Longrightarrow> result (print_cases_6 rec dsym opts nd depth pre other)"
  unfolding print_cases_6_def Let_def
  by (intro result_case result_cases; assumption?)
    (auto intro!: prints_rules basics compound prints_acts lightness local_loops result_cases simp: less_Suc_eq_le pr_simps)?

lemma result_cases_7:
  "result other \<Longrightarrow> weight nd \<le> k \<Longrightarrow> result (print_cases_7 rec dsym opts nd depth pre other)"
  unfolding print_cases_7_def Let_def
  by (intro result_case result_cases; assumption?)
    (auto intro!: prints_rules basics compound prints_acts lightness local_loops result_cases simp: less_Suc_eq_le pr_simps)?

lemma result_cases_8:
  "result other \<Longrightarrow> weight nd \<le> k \<Longrightarrow> result (print_cases_8 rec dsym opts nd depth pre other)"
  unfolding print_cases_8_def Let_def
  by (intro result_case result_cases; assumption?)
    (auto intro!: prints_rules basics compound prints_acts lightness local_loops result_cases simp: less_Suc_eq_le pr_simps)?

lemma result_cases_9:
  "result other \<Longrightarrow> weight nd \<le> k \<Longrightarrow> result (print_cases_9 rec dsym opts nd depth pre other)"
  unfolding print_cases_9_def Let_def
  by (intro result_case result_cases; assumption?)
    (auto intro!: prints_rules basics compound prints_acts lightness local_loops result_cases simp: less_Suc_eq_le pr_simps)?

lemma result_cases_10:
  "result other \<Longrightarrow> weight nd \<le> k \<Longrightarrow> result (print_cases_10 rec dsym opts nd depth pre other)"
  unfolding print_cases_10_def Let_def
  by (intro result_case result_cases; assumption?)
    (auto intro!: prints_rules basics compound prints_acts lightness local_loops result_cases simp: less_Suc_eq_le pr_simps)?

lemma result_cases_11:
  "result other \<Longrightarrow> weight nd \<le> k \<Longrightarrow> result (print_cases_11 rec dsym opts nd depth pre other)"
  unfolding print_cases_11_def Let_def
  by (intro result_case result_cases; assumption?)
    (auto intro!: prints_rules basics compound prints_acts lightness local_loops result_cases simp: less_Suc_eq_le pr_simps)?

lemma result_cases_12:
  "result other \<Longrightarrow> weight nd \<le> k \<Longrightarrow> result (print_cases_12 rec dsym opts nd depth pre other)"
  unfolding print_cases_12_def Let_def
  by (intro result_case result_cases; assumption?)
    (auto intro!: prints_rules basics compound prints_acts lightness local_loops result_cases simp: less_Suc_eq_le pr_simps)?

lemma result_cases_13:
  "result other \<Longrightarrow> weight nd \<le> k \<Longrightarrow> result (print_cases_13 rec dsym opts nd depth pre other)"
  unfolding print_cases_13_def Let_def
  by (intro result_case result_cases; assumption?)
    (auto intro!: prints_rules basics compound prints_acts lightness local_loops result_cases simp: less_Suc_eq_le pr_simps)?

lemma result_cases_14:
  "result other \<Longrightarrow> weight nd \<le> k \<Longrightarrow> result (print_cases_14 rec dsym opts nd depth pre other)"
  unfolding print_cases_14_def Let_def
  by (intro result_case result_cases; assumption?)
    (auto intro!: prints_rules basics compound prints_acts lightness local_loops result_cases simp: less_Suc_eq_le pr_simps)?

lemma result_cases_15:
  "result other \<Longrightarrow> weight nd \<le> k \<Longrightarrow> result (print_cases_15 rec dsym opts nd depth pre other)"
  unfolding print_cases_15_def Let_def
  by (intro result_case result_cases; assumption?)
    (auto intro!: prints_rules basics compound prints_acts lightness local_loops result_cases simp: less_Suc_eq_le pr_simps)?

text \<open>All the cases together, and the contract of the printer with one more level below it.\<close>

lemma result_node: "weight nd \<le> k \<Longrightarrow> result (print_node rec dsym opts nd depth pre)"
  unfolding print_node_def
  by (intro result_cases_1 result_cases_2 result_cases_3 result_cases_4 result_cases_5 result_cases_6 result_cases_7
      result_cases_8 result_cases_9 result_cases_10 result_cases_11 result_cases_12 result_cases_13 result_cases_14
      result_cases_15 prints_broken) simp_all

end

section \<open>The printer\<close>

lemma result_dummy: "prints (light k) (print_node rec dsym opts (Node K_EmptyList []) depth pre)"
proof -
  have "print_node rec dsym opts (Node K_EmptyList []) depth pre = simple rec (Node K_EmptyList []) depth [Lit '' empty-list '']"
    by (simp add: print_node_def print_cases_1_def print_cases_2_def print_cases_3_def print_cases_4_def
        print_cases_5_def print_cases_6_def print_cases_7_def print_cases_8_def print_cases_9_def print_cases_10_def
        print_cases_11_def print_cases_12_def print_cases_13_def)
  then show ?thesis
    by (auto simp: simple_def acts.simps intro!: prints_rules)
qed

lemma prints_print:
  assumes node: "\<And>nd. n = Some nd \<Longrightarrow> prints (light k) (print_node (print dsym opts fuel) dsym opts nd depth pre)"
  shows "prints (light k) (print dsym opts (Suc fuel) n depth pre)"
  by (auto intro!: prints_rules node)

lemma printing_print: "printing (print dsym opts (Suc n)) (Suc n)"
proof (induction n)
  case 0
  show ?case
  proof (unfold_locales, rule prints_print)
    fix n :: "node option" and nd d p
    assume "light (Suc 0) n" and "n = Some nd"
    then have "nd = Node K_EmptyList []" by (simp add: weight_def split: if_splits)
    then show "prints (light (Suc 0)) (print_node (print dsym opts 0) dsym opts nd d p)" by (simp add: result_dummy)
  qed simp
next
  case (Suc n)
  show ?case
    by (unfold_locales, rule prints_print) (auto intro!: printing.result_node [OF Suc])
qed

interpretation printer: printing "print dsym opts (Suc n)" "Suc n" for dsym opts n
  by (rule printing_print)

lemma prints_enough:
  assumes "size root + 1 < fuel"
  shows "plain (print dsym opts fuel (Some root) depth pre)"
proof (cases fuel)
  case (Suc n)
  with assms have "light (Suc n) (Some root)" by (simp add: weight_def)
  with Suc show ?thesis by (metis printer.rec_prints prints_weaken)
qed (use assms in simp)

text \<open>
  C34: The node printer ends on every tree. The recursion of the model always reaches a node without
  children within its fuel, the number of nodes of the tree and two more: no kind of node makes \<open>NodePrinter\<close> call
  itself again and again for the same node or for a node that is not below it.
\<close>

theorem printer_terminates: "\<not> Dry (run_print dsym opts root)"
proof -
  have "plain (print dsym opts (size root + 2) (Some root) 0 False)"
    by (rule prints_enough) simp
  then show ?thesis
    by (auto simp: prints_def grows_def run_print_def new_printer_def)
qed

text \<open>
  C35: What the printer writes for a node, and everything else it computes, does not depend on what is on the
  stream before: it is appended, character for character what the same call writes on an empty stream.
\<close>

theorem print_appends:
  "run_state (print dsym opts (size root + 2) (Some root) depth pre) (s\<lparr>Stream := p\<rparr>)
   = (case run_state (print dsym opts (size root + 2) (Some root) depth pre) (s\<lparr>Stream := []\<rparr>) of
        (rest, t) \<Rightarrow> (rest, t\<lparr>Stream := p @ Stream t\<rparr>))"
proof -
  have "plain (print dsym opts (size root + 2) (Some root) depth pre)"
    by (rule prints_enough) simp
  then have "run_state (print dsym opts (size root + 2) (Some root) depth pre) (shifted p (s\<lparr>Stream := []\<rparr>))
    = (fst (run_state (print dsym opts (size root + 2) (Some root) depth pre) (s\<lparr>Stream := []\<rparr>)),
       shifted p (snd (run_state (print dsym opts (size root + 2) (Some root) depth pre) (s\<lparr>Stream := []\<rparr>))))"
    by (simp only: prints_def)
  then show ?thesis
    by (simp add: shifted_def split: prod.splits del: print.simps)
qed

end
