(* ===== verification/AST_Gen.thy ===== *)
theory AST_Gen
  imports Objc_Parser Demangling_Context
begin

text \<open>
  Declarations through the Clang library (\<open>src/ClangAST/ASTGen.cpp\<close>, \<open>utils.cpp\<close>). Clang is not part of the
  repository: the functions of its AST that the generator calls are the fields of a record, over a state
  \<open>'c\<close> of the AST context, declarations \<open>'d\<close> and types \<open>'q\<close>. The state is passed explicitly. \<open>None\<close> is a run that
  does not come back: a null pointer is followed, a type is cast to a class it does not have, or the chain of
  enclosing contexts never ends.
\<close>

section \<open>What the generator uses of Clang\<close>

datatype ast_builtin =
    AST_Char | AST_Int | AST_Short | AST_Long | AST_LongLong
  | AST_UnsignedChar | AST_UnsignedInt | AST_UnsignedShort | AST_UnsignedLong | AST_UnsignedLongLong
  | AST_Float | AST_Double | AST_Bool | AST_Void | AST_VoidPtr | AST_UnknownAny
  | AST_ObjCSel | AST_BlockDescriptor | AST_ObjCClass

datatype decl_kind =
    D_TranslationUnit | D_Struct | D_Union | D_Interface | D_Protocol | D_Method | D_ParmVar | D_Property | D_Ivar

definition is_record_decl :: "decl_kind \<Rightarrow> bool" where
  "is_record_decl k \<longleftrightarrow> k = D_Struct \<or> k = D_Union"

text \<open>
  \<open>create_decl\<close> creates a declaration of a kind with a name in a context; \<open>create_typed\<close> one that has a type
  (of a parameter, a property or an instance variable), \<open>create_method\<close> a method with its return type.
\<close>

record ('c, 'd, 'q) clang =
  builtin_type :: "ast_builtin \<Rightarrow> 'q"
  null_type :: 'q
  addConst :: "'q \<Rightarrow> 'q"
  getPointerType :: "'q \<Rightarrow> 'q"
  getConstantArrayType :: "'q \<Rightarrow> u64 \<Rightarrow> 'q"
  getRecordType :: "'d \<Rightarrow> 'q"
  getObjCInterfaceType :: "'d \<Rightarrow> 'q"
  kind_of :: "'c \<Rightarrow> 'd \<Rightarrow> decl_kind"
  getParent :: "'c \<Rightarrow> 'd \<Rightarrow> 'd option"
  lookup_in :: "'c \<Rightarrow> 'd \<Rightarrow> string \<Rightarrow> 'd list"
  create_TU :: "'c \<Rightarrow> 'd \<times> 'c"
  create_decl :: "decl_kind \<Rightarrow> string \<Rightarrow> 'd \<Rightarrow> 'c \<Rightarrow> 'd \<times> 'c"
  create_typed :: "decl_kind \<Rightarrow> string \<Rightarrow> 'q \<Rightarrow> 'd \<Rightarrow> 'c \<Rightarrow> 'd \<times> 'c"
  create_method :: "string \<Rightarrow> 'q \<Rightarrow> bool \<Rightarrow> 'd \<Rightarrow> 'c \<Rightarrow> 'd \<times> 'c"
  addDecl :: "'d \<Rightarrow> 'd \<Rightarrow> 'c \<Rightarrow> 'c"
  startDefinition :: "'d \<Rightarrow> 'c \<Rightarrow> 'c"
  setMethodParams :: "'d \<Rightarrow> 'd list \<Rightarrow> 'c \<Rightarrow> 'c"
  setProtocolList :: "'d \<Rightarrow> 'd list \<Rightarrow> 'c \<Rightarrow> 'c"
  setOptional :: "'d \<Rightarrow> bool \<Rightarrow> 'c \<Rightarrow> 'c"
  print_decl :: "'c \<Rightarrow> 'd \<Rightarrow> string"

section \<open>Looking up names\<close>

text \<open>The declarations with the name in the innermost context around \<open>DC\<close> that has one.\<close>

partial_function (option) search :: "('c, 'd, 'q) clang \<Rightarrow> 'c \<Rightarrow> string \<Rightarrow> 'd option \<Rightarrow> 'd list option" where
  "search C ctx name DC =
     (case DC of
        None \<Rightarrow> Some []
      | Some d \<Rightarrow>
          let res = lookup_in C ctx d name in
          if res = [] then search C ctx name (getParent C ctx d) else Some res)"

definition NSObject_name :: string where
  "NSObject_name = ''NSObject''"

definition NSObjectTy :: "('c, 'd, 'q) clang \<Rightarrow> 'd \<Rightarrow> 'c \<Rightarrow> ('q \<times> 'c) option" where
  "NSObjectTy C DC ctx = do {
     NSObject_lk \<leftarrow> search C ctx NSObject_name (Some DC);
     case NSObject_lk of
       [] \<Rightarrow>
         let (decl, ctx) = create_decl C D_Interface NSObject_name DC ctx
         in Some (getObjCInterfaceType C decl, ctx)
     | ND # _ \<Rightarrow>
         Some (if kind_of C ctx ND = D_Interface then getObjCInterfaceType C ND
               else builtin_type C AST_UnknownAny, ctx)
   }"

definition pretty_struct :: "string \<Rightarrow> string" where
  "pretty_struct sname =
     (if sname = ''basic_string<char, std::__1::char_traits<char>, std::__1::allocator<char> >'' then ''std::string''
      else sname)"

section \<open>Types\<close>

definition builtin_of :: "OBJC_TYPES \<Rightarrow> ast_builtin option" where
  "builtin_of = map_of
     [(OT_CHAR, AST_Char), (OT_INT, AST_Int), (OT_SHORT, AST_Short), (OT_LONG, AST_Long),
      (OT_LONG_LONG, AST_LongLong), (OT_UNSIGNED_CHAR, AST_UnsignedChar), (OT_UNSIGNED_INT, AST_UnsignedInt),
      (OT_UNSIGNED_SHORT, AST_UnsignedShort), (OT_UNSIGNED_LONG, AST_UnsignedLong),
      (OT_UNSIGNED_LONG_LONG, AST_UnsignedLongLong), (OT_FLOAT, AST_Float), (OT_DOUBLE, AST_Double),
      (OT_BOOL, AST_Bool), (OT_VOID, AST_Void), (OT_SELECTOR, AST_ObjCSel), (OT_BLOCK, AST_BlockDescriptor),
      (OT_CLASS, AST_ObjCClass)]"

text \<open>The cases of the switch without a nested type or a name.\<close>

definition plain_qtype :: "('c, 'd, 'q) clang \<Rightarrow> OBJC_TYPES \<Rightarrow> 'q option" where
  "plain_qtype C k =
     (case builtin_of k of
        Some b \<Rightarrow> Some (builtin_type C b)
      | None \<Rightarrow>
          if k = OT_CSTRING then Some (addConst C (getPointerType C (builtin_type C AST_Char)))
          else if k \<in> {OT_POINTER, OT_STRUCT, OT_OBJECT, OT_ARRAY, OT_UNION} then None
          else Some (builtin_type C AST_Void))"

text \<open>Structures and unions: a declaration that is not found is created, and not added to the context.\<close>

definition tag_qtype :: "('c, 'd, 'q) clang \<Rightarrow> decl_kind \<Rightarrow> string \<Rightarrow> 'd \<Rightarrow> 'c \<Rightarrow> ('q \<times> 'c) option" where
  "tag_qtype C tag name DC ctx = do {
     let sname = pretty_struct name;
     lookup \<leftarrow> search C ctx sname (Some DC);
     case lookup of
       [] \<Rightarrow> let (record, ctx) = create_decl C tag sname DC ctx in Some (getRecordType C record, ctx)
     | [ND] \<Rightarrow>
         Some (if is_record_decl (kind_of C ctx ND) then getRecordType C ND else builtin_type C AST_VoidPtr, ctx)
     | _ \<Rightarrow> Some (null_type C, ctx)
   }"

definition object_qtype :: "('c, 'd, 'q) clang \<Rightarrow> string \<Rightarrow> 'd \<Rightarrow> 'c \<Rightarrow> ('q \<times> 'c) option" where
  "object_qtype C name DC ctx = do {
     lookup \<leftarrow> search C ctx name (Some DC);
     let (qt, ctx) =
       (case lookup of
          [] \<Rightarrow>
            let (cls_decl, ctx) = create_decl C D_Interface name DC ctx in (getObjCInterfaceType C cls_decl, ctx)
        | [ND] \<Rightarrow>
            (if kind_of C ctx ND = D_Interface then getObjCInterfaceType C ND else builtin_type C AST_Void, ctx)
        | _ \<Rightarrow> (builtin_type C AST_Void, ctx));
     Some (getPointerType C qt, ctx)
   }"

text \<open>An object without a class is an \<open>NSObject\<close>.\<close>

fun get_qtype :: "('c, 'd, 'q) clang \<Rightarrow> objc_type \<Rightarrow> 'd \<Rightarrow> 'c \<Rightarrow> ('q \<times> 'c) option" where
  "get_qtype C (PointerTy subtype) DC ctx = do {
     (utype, ctx) \<leftarrow> get_qtype C subtype DC ctx;
     Some (getPointerType C utype, ctx)
   }"
| "get_qtype C (ArrayTy dim (Some subtype)) DC ctx = do {
     (utype, ctx) \<leftarrow> get_qtype C subtype DC ctx;
     Some (getConstantArrayType C utype dim, ctx)
   }"
| "get_qtype C (ArrayTy dim None) DC ctx = None"
| "get_qtype C (StructTy name attrs) DC ctx = tag_qtype C D_Struct name DC ctx"
| "get_qtype C (UnionTy name attrs) DC ctx = tag_qtype C D_Union name DC ctx"
| "get_qtype C (ObjectTy name) DC ctx = object_qtype C (if name = [] then NSObject_name else name) DC ctx"
| "get_qtype C t DC ctx = map_option (\<lambda>qt. (qt, ctx)) (plain_qtype C (type_kind t))"

section \<open>Members\<close>

definition arg_name :: "nat \<Rightarrow> objc_type \<Rightarrow> string" where
  "arg_name i p =
     (if i = 0 \<and> type_kind p = OT_OBJECT then ''self''
      else if type_kind p = OT_SELECTOR then ''id''
      else ''arg'' @ show_nat i)"

definition arg_qtype ::
  "('c, 'd, 'q) clang \<Rightarrow> 'd \<Rightarrow> 'd \<Rightarrow> nat \<Rightarrow> objc_type \<Rightarrow> 'c \<Rightarrow> ('q \<times> 'c) option" where
  "arg_qtype C DC clang_method i p ctx =
     (if i = 0 \<and> type_kind p = OT_OBJECT \<and> kind_of C ctx DC = D_Interface
      then Some (getPointerType C (getObjCInterfaceType C DC), ctx)
      else get_qtype C p clang_method ctx)"

fun decl_params ::
  "('c, 'd, 'q) clang \<Rightarrow> 'd \<Rightarrow> 'd \<Rightarrow> nat \<Rightarrow> objc_type list \<Rightarrow> 'c \<Rightarrow> ('d list \<times> 'c) option" where
  "decl_params C DC clang_method i [] ctx = Some ([], ctx)"
| "decl_params C DC clang_method i (p # ps) ctx = do {
     (qt, ctx) \<leftarrow> arg_qtype C DC clang_method i p ctx;
     let (pdecl, ctx) = create_typed C D_ParmVar (arg_name i p) qt clang_method ctx;
     (pdecls, ctx) \<leftarrow> decl_params C DC clang_method (Suc i) ps ctx;
     Some (pdecl # pdecls, ctx)
   }"

definition decl_method :: "('c, 'd, 'q) clang \<Rightarrow> objc_method \<Rightarrow> 'd \<Rightarrow> 'c \<Rightarrow> ('d \<times> 'c) option" where
  "decl_method C meth DC ctx = do {
     prototype \<leftarrow> Method_prototype meth;
     ret \<leftarrow> rtype prototype;
     (qt, ctx) \<leftarrow> get_qtype C ret DC ctx;
     let (clang_method, ctx) = create_method C (m_name meth) qt (m_is_instance meth) DC ctx;
     (ps, ctx) \<leftarrow> decl_params C DC clang_method 0 (params prototype) ctx;
     let ctx = setMethodParams C clang_method ps ctx;
     let ctx = addDecl C DC clang_method ctx;
     Some (clang_method, ctx)
   }"

definition decl_property :: "('c, 'd, 'q) clang \<Rightarrow> objc_property \<Rightarrow> 'd \<Rightarrow> 'c \<Rightarrow> 'd \<times> 'c" where
  "decl_property C prop DC ctx =
     (let (prop_decl, ctx) = create_typed C D_Property (p_name prop) (builtin_type C AST_Void) DC ctx
      in (prop_decl, addDecl C DC prop_decl ctx))"

definition ivar_qtype :: "('c, 'd, 'q) clang \<Rightarrow> objc_ivar \<Rightarrow> 'd \<Rightarrow> 'c \<Rightarrow> ('q \<times> 'c) option" where
  "ivar_qtype C ivar DC ctx =
     (if iv_mangled_type ivar \<noteq> [] then do {
        ivar_type \<leftarrow> IVar_type ivar;
        case ivar_type of
          Some t \<Rightarrow> get_qtype C t DC ctx
        | None \<Rightarrow> Some (builtin_type C AST_UnknownAny, ctx)
      }
      else do {
        (ns, ctx) \<leftarrow> NSObjectTy C DC ctx;
        Some (getPointerType C ns, ctx)
      })"

definition decl_ivar :: "('c, 'd, 'q) clang \<Rightarrow> objc_ivar \<Rightarrow> 'd \<Rightarrow> 'c \<Rightarrow> ('d \<times> 'c) option" where
  "decl_ivar C ivar DC ctx = do {
     (type, ctx) \<leftarrow> ivar_qtype C ivar DC ctx;
     let (ivar_decl, ctx) = create_typed C D_Ivar (iv_name ivar) type DC ctx;
     Some (ivar_decl, addDecl C DC ivar_decl ctx)
   }"

section \<open>Protocols and classes\<close>

text \<open>A loop over the members of a class or a protocol.\<close>

fun each_member :: "('m \<Rightarrow> 'c \<Rightarrow> ('d \<times> 'c) option) \<Rightarrow> 'm list \<Rightarrow> 'c \<Rightarrow> ('d list \<times> 'c) option" where
  "each_member f [] ctx = Some ([], ctx)"
| "each_member f (m # ms) ctx = do {
     (d, ctx) \<leftarrow> f m ctx;
     (ds, ctx) \<leftarrow> each_member f ms ctx;
     Some (d # ds, ctx)
   }"

definition decl_protocol_method ::
  "('c, 'd, 'q) clang \<Rightarrow> bool \<Rightarrow> 'd \<Rightarrow> objc_method \<Rightarrow> 'c \<Rightarrow> ('d \<times> 'c) option" where
  "decl_protocol_method C is_optional protocol_decl meth ctx = do {
     (cmeth, ctx) \<leftarrow> decl_method C meth protocol_decl ctx;
     Some (cmeth, setOptional C cmeth is_optional ctx)
   }"

definition decl_protocol :: "('c, 'd, 'q) clang \<Rightarrow> objc_protocol \<Rightarrow> 'd \<Rightarrow> 'c \<Rightarrow> ('d \<times> 'c) option" where
  "decl_protocol C protocol DC ctx = do {
     let (protocol_decl, ctx) = create_decl C D_Protocol (pr_mangled_name protocol) DC ctx;
     let ctx = startDefinition C protocol_decl ctx;
     (_, ctx) \<leftarrow> each_member (decl_protocol_method C True protocol_decl) (pr_opt_methods protocol) ctx;
     (_, ctx) \<leftarrow> each_member (decl_protocol_method C False protocol_decl) (pr_required_methods protocol) ctx;
     (_, ctx) \<leftarrow> each_member (\<lambda>prop ctx. Some (decl_property C prop protocol_decl ctx)) (pr_properties protocol) ctx;
     Some (protocol_decl, addDecl C DC protocol_decl ctx)
   }"

text \<open>
  The protocols of a class are declared anew, with the class as their context, and not added to it. The name of
  the class is demangled; the first two arguments are the depth of \<open>demangled_name\<close> and what a pointer to a
  protocol points to.
\<close>

definition decl_class ::
  "('c, 'd, 'q) clang \<Rightarrow> nat \<Rightarrow> ('p \<Rightarrow> objc_protocol) \<Rightarrow> 'p objc_class \<Rightarrow> 'd \<Rightarrow> 'c \<Rightarrow> ('d \<times> 'c) option" where
  "decl_class C n protocol_at cls DC ctx = do {
     name \<leftarrow> demangled_name n (cl_name cls);
     let (cls_decl, ctx) = create_decl C D_Interface name DC ctx;
     let ctx = startDefinition C cls_decl ctx;
     (protocols, ctx) \<leftarrow>
       each_member (\<lambda>p ctx. Some (create_decl C D_Protocol (pr_mangled_name (protocol_at p)) cls_decl ctx))
         (cl_protocols cls) ctx;
     let ctx = (if protocols = [] then ctx else setProtocolList C cls_decl protocols ctx);
     (_, ctx) \<leftarrow> each_member (\<lambda>meth. decl_method C meth cls_decl) (cl_methods cls) ctx;
     (_, ctx) \<leftarrow> each_member (\<lambda>ivar. decl_ivar C ivar cls_decl) (cl_ivars cls) ctx;
     (_, ctx) \<leftarrow> each_member (\<lambda>prop ctx. Some (decl_property C prop cls_decl ctx)) (cl_properties cls) ctx;
     Some (cls_decl, addDecl C DC cls_decl ctx)
   }"

section \<open>Generating declarations\<close>

text \<open>A translation unit of its own for each; the AST context stays the same from call to call.\<close>

definition generate_protocol :: "('c, 'd, 'q) clang \<Rightarrow> objc_protocol \<Rightarrow> 'c \<Rightarrow> (string \<times> 'c) option" where
  "generate_protocol C protocol ctx = do {
     let (TU, ctx) = create_TU C ctx;
     (_, ctx) \<leftarrow> decl_protocol C protocol TU ctx;
     Some (print_decl C ctx TU, ctx)
   }"

definition generate_class ::
  "('c, 'd, 'q) clang \<Rightarrow> nat \<Rightarrow> ('p \<Rightarrow> objc_protocol) \<Rightarrow> 'p objc_class \<Rightarrow> 'c \<Rightarrow> (string \<times> 'c) option" where
  "generate_class C n protocol_at cls ctx = do {
     let (TU, ctx) = create_TU C ctx;
     (_, ctx) \<leftarrow> decl_class C n protocol_at cls TU ctx;
     Some (print_decl C ctx TU, ctx)
   }"

definition generate_property :: "('c, 'd, 'q) clang \<Rightarrow> objc_property \<Rightarrow> 'c \<Rightarrow> (string \<times> 'c) option" where
  "generate_property C property ctx =
     (let (TU, ctx) = create_TU C ctx in Some (print_decl C ctx TU, ctx))"

text \<open>\<open>Metadata::to_decl\<close> with the generator: all protocols, then all classes.\<close>

definition Metadata_to_decl_with :: "('c, 'd, 'q) clang \<Rightarrow> nat \<Rightarrow> metadata \<Rightarrow> 'c \<Rightarrow> (string \<times> 'c) option" where
  "Metadata_to_decl_with C n md ctx = do {
     (protocols, ctx) \<leftarrow> each_member (generate_protocol C) (md_protocols md) ctx;
     (classes, ctx) \<leftarrow> each_member (generate_class C n (\<lambda>i. md_protocols md ! i)) (md_classes md) ctx;
     Some (concat protocols @ concat classes, ctx)
   }"

end
