(* ===== verification/AST_Facts.thy ===== *)
theory AST_Facts
  imports AST_Gen
begin

text \<open>
  What the generator declares. The documented behaviour of Clang's AST is stated over an abstract view: the
  declarations that exist, each with its kind, name, context and the declarations added to it. \<open>clang_view\<close> says
  how the functions of \<open>clang\<close> act on it; \<open>store\<close> is an AST of which it holds.
\<close>

section \<open>The view of an AST\<close>

record 'd ast_decl =
  ad_kind :: decl_kind
  ad_name :: string
  ad_parent :: "'d option"
  ad_instance :: bool
  ad_decls :: "'d list"

type_synonym ('c, 'd) ast_view = "'c \<Rightarrow> 'd \<Rightarrow> 'd ast_decl option"

definition new_decl :: "decl_kind \<Rightarrow> string \<Rightarrow> 'd option \<Rightarrow> bool \<Rightarrow> 'd ast_decl" where
  "new_decl kind name parent inst =
     \<lparr>ad_kind = kind, ad_name = name, ad_parent = parent, ad_instance = inst, ad_decls = []\<rparr>"

lemma new_decl_simps [simp]:
  "ad_kind (new_decl k name parent inst) = k" "ad_name (new_decl k name parent inst) = name"
  "ad_parent (new_decl k name parent inst) = parent" "ad_instance (new_decl k name parent inst) = inst"
  "ad_decls (new_decl k name parent inst) = []"
  by (simp_all add: new_decl_def)

text \<open>A declaration that is found by an identifier: methods have selectors for names.\<close>

definition answers_to :: "('d \<Rightarrow> 'd ast_decl option) \<Rightarrow> string \<Rightarrow> 'd \<Rightarrow> bool" where
  "answers_to v name d \<longleftrightarrow> (case v d of None \<Rightarrow> False | Some i \<Rightarrow> ad_kind i \<noteq> D_Method \<and> ad_name i = name)"

definition creates :: "('c, 'd) ast_view \<Rightarrow> 'c \<Rightarrow> 'd ast_decl \<Rightarrow> 'd \<times> 'c \<Rightarrow> bool" where
  "creates view ctx i r \<longleftrightarrow> view ctx (fst r) = None \<and> view (snd r) = (view ctx)(fst r \<mapsto> i)"

text \<open>
  Creating a declaration does not add it to its context, \<open>addDecl\<close> does; \<open>lookup\<close> finds declarations that were
  added, and some if there are any.
\<close>

definition agrees :: "('c, 'd, 'q) clang \<Rightarrow> ('c, 'd) ast_view \<Rightarrow> 'c \<Rightarrow> 'd \<Rightarrow> 'd ast_decl \<Rightarrow> bool" where
  "agrees C view ctx d i \<longleftrightarrow>
     kind_of C ctx d = ad_kind i \<and> getParent C ctx d = ad_parent i
     \<and> (\<forall>x \<in> set (ad_decls i). view ctx x \<noteq> None)
     \<and> (\<forall>name. set (lookup_in C ctx d name) \<subseteq> {x \<in> set (ad_decls i). answers_to (view ctx) name x}
          \<and> (lookup_in C ctx d name = [] \<longrightarrow> (\<forall>x \<in> set (ad_decls i). \<not> answers_to (view ctx) name x)))"

definition clang_view :: "('c, 'd, 'q) clang \<Rightarrow> ('c, 'd) ast_view \<Rightarrow> bool" where
  "clang_view C view \<longleftrightarrow>
     (\<forall>ctx d i. view ctx d = Some i \<longrightarrow> agrees C view ctx d i)
     \<and> (\<forall>ctx. creates view ctx (new_decl D_TranslationUnit [] None False) (create_TU C ctx))
     \<and> (\<forall>ctx k name DC. creates view ctx (new_decl k name (Some DC) False) (create_decl C k name DC ctx))
     \<and> (\<forall>ctx k name qt DC. creates view ctx (new_decl k name (Some DC) False) (create_typed C k name qt DC ctx))
     \<and> (\<forall>ctx name qt inst DC. creates view ctx (new_decl D_Method name (Some DC) inst) (create_method C name qt inst DC ctx))
     \<and> (\<forall>ctx DC d i. view ctx DC = Some i \<longrightarrow> view ctx d \<noteq> None \<longrightarrow>
          view (addDecl C DC d ctx) = (view ctx)(DC \<mapsto> i\<lparr>ad_decls := ad_decls i @ [d]\<rparr>))
     \<and> (\<forall>ctx d. view (startDefinition C d ctx) = view ctx)
     \<and> (\<forall>ctx d ps. view (setMethodParams C d ps ctx) = view ctx)
     \<and> (\<forall>ctx d ps. view (setProtocolList C d ps ctx) = view ctx)
     \<and> (\<forall>ctx d b. view (setOptional C d b ctx) = view ctx)"

section \<open>Growing views\<close>

text \<open>Everything that exists stays as it is, but for the declarations \<open>ds\<close> added to \<open>D\<close>.\<close>

definition grown :: "'d \<Rightarrow> 'd list \<Rightarrow> ('d \<Rightarrow> 'd ast_decl option) \<Rightarrow> ('d \<Rightarrow> 'd ast_decl option) \<Rightarrow> bool" where
  "grown D ds v v' \<longleftrightarrow>
     (\<forall>d i. v d = Some i \<longrightarrow> v' d = Some (if d = D then i\<lparr>ad_decls := ad_decls i @ ds\<rparr> else i))"

lemma grown_refl: "grown D [] v v"
  by (simp add: grown_def)

lemma grown_any: "grown D [] v v' \<Longrightarrow> grown D' [] v v'"
  by (simp add: grown_def)

lemma grown_trans: "grown D ds v v' \<Longrightarrow> grown D ds' v' v'' \<Longrightarrow> grown D (ds @ ds') v v''"
  by (simp add: grown_def split: if_splits)

lemma grown_new: "v d = None \<Longrightarrow> grown D [] v (v(d \<mapsto> i))"
  by (auto simp: grown_def)

text \<open>A declaration whose chain of contexts ends.\<close>

inductive rooted :: "('d \<Rightarrow> 'd ast_decl option) \<Rightarrow> 'd \<Rightarrow> bool" for v where
  root: "v d = Some i \<Longrightarrow> ad_parent i = None \<Longrightarrow> rooted v d"
| inside: "v d = Some i \<Longrightarrow> ad_parent i = Some p \<Longrightarrow> rooted v p \<Longrightarrow> rooted v d"

lemma rooted_known: "rooted v d \<Longrightarrow> \<exists>i. v d = Some i"
  by (auto elim: rooted.cases)

lemma rooted_grown: "rooted v d \<Longrightarrow> grown D ds v v' \<Longrightarrow> rooted v' d"
proof (induction rule: rooted.induct)
  case (root d i)
  then show ?case
    by (intro rooted.root [of v' d "if d = D then i\<lparr>ad_decls := ad_decls i @ ds\<rparr> else i"]) (auto simp: grown_def)
next
  case (inside d i p)
  then show ?case
    by (intro rooted.inside [of v' d "if d = D then i\<lparr>ad_decls := ad_decls i @ ds\<rparr> else i" p]) (auto simp: grown_def)
qed

definition header :: "('d \<Rightarrow> 'd ast_decl option) \<Rightarrow> 'd \<Rightarrow> (decl_kind \<times> string \<times> bool) option" where
  "header v d = map_option (\<lambda>i. (ad_kind i, ad_name i, ad_instance i)) (v d)"

lemma header_grown: "header v d = Some h \<Longrightarrow> grown D ds v v' \<Longrightarrow> header v' d = Some h"
  by (cases "v d") (auto simp: header_def grown_def)

section \<open>Effects of the operations\<close>

lemma view_reads:
  assumes "clang_view C view" and "view ctx d = Some i"
  shows "kind_of C ctx d = ad_kind i" and "getParent C ctx d = ad_parent i"
    and "x \<in> set (ad_decls i) \<Longrightarrow> view ctx x \<noteq> None"
    and "set (lookup_in C ctx d name) \<subseteq> {x \<in> set (ad_decls i). answers_to (view ctx) name x}"
    and "lookup_in C ctx d name = [] \<Longrightarrow> x \<in> set (ad_decls i) \<Longrightarrow> \<not> answers_to (view ctx) name x"
proof -
  from assms have "agrees C view ctx d i" by (simp add: clang_view_def)
  then show "kind_of C ctx d = ad_kind i" and "getParent C ctx d = ad_parent i"
    and "x \<in> set (ad_decls i) \<Longrightarrow> view ctx x \<noteq> None"
    and "set (lookup_in C ctx d name) \<subseteq> {x \<in> set (ad_decls i). answers_to (view ctx) name x}"
    and "lookup_in C ctx d name = [] \<Longrightarrow> x \<in> set (ad_decls i) \<Longrightarrow> \<not> answers_to (view ctx) name x"
    by (auto simp: agrees_def)
qed

lemma view_creates:
  assumes "clang_view C view"
  shows "creates view ctx (new_decl D_TranslationUnit [] None False) (create_TU C ctx)"
    and "creates view ctx (new_decl k name (Some DC) False) (create_decl C k name DC ctx)"
    and "creates view ctx (new_decl k name (Some DC) False) (create_typed C k name qt DC ctx)"
    and "creates view ctx (new_decl D_Method name (Some DC) inst) (create_method C name qt inst DC ctx)"
  using assms by (simp_all add: clang_view_def)

lemma view_addDecl:
  assumes "clang_view C view" and "view ctx DC = Some i" and "view ctx d = Some j"
  shows "view (addDecl C DC d ctx) = (view ctx)(DC \<mapsto> i\<lparr>ad_decls := ad_decls i @ [d]\<rparr>)"
  using assms by (simp add: clang_view_def)

lemma view_setters:
  assumes "clang_view C view"
  shows "view (startDefinition C d ctx) = view ctx" and "view (setMethodParams C d ps ctx) = view ctx"
    and "view (setProtocolList C d ps ctx) = view ctx" and "view (setOptional C d b ctx) = view ctx"
  using assms by (simp_all add: clang_view_def)

lemma search_returns:
  assumes V: "clang_view C view"
  shows "rooted (view ctx) d \<Longrightarrow> \<exists>res. search C ctx name (Some d) = Some res"
proof (induction rule: rooted.induct)
  case (root d i)
  then show ?case
    by (simp add: search.simps [of C ctx name "Some d"] search.simps [of C ctx name None] view_reads [OF V] Let_def)
next
  case (inside d i p)
  then show ?case by (simp add: search.simps [of C ctx name "Some d"] view_reads [OF V] Let_def)
qed

lemma grown_addDecl:
  assumes V: "clang_view C view" and "\<exists>i. view ctx DC = Some i" and "\<exists>i. view ctx d = Some i"
  shows "grown DC [d] (view ctx) (view (addDecl C DC d ctx))"
  using assms(2,3) by (auto simp: grown_def view_addDecl [OF V])

text \<open>A run that leaves everything as it is, and a run that adds one declaration.\<close>

definition leaves :: "('c, 'd) ast_view \<Rightarrow> 'c \<Rightarrow> ('a \<times> 'c) option \<Rightarrow> bool" where
  "leaves view ctx r \<longleftrightarrow> (\<exists>x ctx'. r = Some (x, ctx') \<and> (\<forall>D. grown D [] (view ctx) (view ctx')))"

definition declares ::
  "('c, 'd) ast_view \<Rightarrow> 'c \<Rightarrow> 'd \<Rightarrow> decl_kind \<times> string \<times> bool \<Rightarrow> ('d \<times> 'c) option \<Rightarrow> bool" where
  "declares view ctx D h r \<longleftrightarrow>
     (\<exists>d ctx'. r = Some (d, ctx') \<and> view ctx d = None \<and> header (view ctx') d = Some h
        \<and> grown D [d] (view ctx) (view ctx'))"

lemma leaves_return: "leaves view ctx (Some (x, ctx))"
  by (simp add: leaves_def grown_refl)

lemma leaves_create:
  assumes "creates view ctx i r" shows "leaves view ctx (Some (f (fst r), snd r))"
  using assms by (auto simp: leaves_def creates_def intro: grown_new)

lemma leaves_bind:
  assumes m: "leaves view ctx m"
    and f: "\<And>x ctx'. \<forall>D. grown D [] (view ctx) (view ctx') \<Longrightarrow> leaves view ctx' (f (x, ctx'))"
  shows "leaves view ctx (Option.bind m f)"
proof -
  obtain x ctx' where x: "m = Some (x, ctx')" "\<forall>D. grown D [] (view ctx) (view ctx')"
    using m by (auto simp: leaves_def)
  with f [OF x(2), of x] show ?thesis
    by (auto simp: leaves_def) (metis grown_trans append_Nil)
qed

section \<open>Types\<close>

text \<open>Types without a hole: every pointer and array has an element type, every primitive type a kind.\<close>

fun complete_type :: "objc_type \<Rightarrow> bool" where
  "complete_type (PointerTy t) \<longleftrightarrow> complete_type t"
| "complete_type (ArrayTy dim (Some t)) \<longleftrightarrow> complete_type t"
| "complete_type (ArrayTy dim None) \<longleftrightarrow> False"
| "complete_type (PrimitiveTy k) \<longleftrightarrow> k \<notin> {OT_POINTER, OT_STRUCT, OT_OBJECT, OT_ARRAY, OT_UNION}"
| "complete_type t \<longleftrightarrow> True"

lemma plain_leaves:
  "k \<notin> {OT_POINTER, OT_STRUCT, OT_OBJECT, OT_ARRAY, OT_UNION} \<Longrightarrow> leaves view ctx (map_option (\<lambda>qt. (qt, ctx)) (plain_qtype C k))"
  by (auto simp: plain_qtype_def leaves_return split: option.splits)

lemma tag_leaves:
  assumes V: "clang_view C view" and D: "rooted (view ctx) D"
  shows "leaves view ctx (tag_qtype C tag name D ctx)"
proof -
  obtain res where "search C ctx (pretty_struct name) (Some D) = Some res"
    using search_returns [OF V D] by blast
  then show ?thesis
    using leaves_create [OF view_creates(2) [OF V, of ctx tag "pretty_struct name" D], of "getRecordType C"]
    by (cases res rule: remdups_adj.cases) (auto simp: tag_qtype_def Let_def leaves_return split: prod.splits)
qed

lemma object_leaves:
  assumes V: "clang_view C view" and D: "rooted (view ctx) D"
  shows "leaves view ctx (object_qtype C name D ctx)"
proof -
  obtain res where "search C ctx name (Some D) = Some res"
    using search_returns [OF V D] by blast
  then show ?thesis
    using leaves_create [OF view_creates(2) [OF V, of ctx D_Interface name D], of "\<lambda>d. getPointerType C (getObjCInterfaceType C d)"]
    by (cases res rule: remdups_adj.cases) (auto simp: object_qtype_def Let_def leaves_return split: prod.splits)
qed

lemma NSObject_leaves:
  assumes V: "clang_view C view" and D: "rooted (view ctx) D"
  shows "leaves view ctx (NSObjectTy C D ctx)"
proof -
  obtain res where "search C ctx NSObject_name (Some D) = Some res"
    using search_returns [OF V D] by blast
  then show ?thesis
    using leaves_create [OF view_creates(2) [OF V, of ctx D_Interface NSObject_name D], of "getObjCInterfaceType C"]
    by (cases res) (auto simp: NSObjectTy_def Let_def leaves_return split: prod.splits)
qed

lemma get_qtype_leaves:
  "clang_view C view \<Longrightarrow> rooted (view ctx) D \<Longrightarrow> complete_type t \<Longrightarrow> leaves view ctx (get_qtype C t D ctx)"
  by (induction C t D ctx rule: get_qtype.induct)
    (auto intro!: leaves_bind leaves_return tag_leaves object_leaves plain_leaves)

section \<open>Members\<close>

text \<open>Methods and instance variables whose types the generator can declare.\<close>

definition declarable_method :: "objc_method \<Rightarrow> bool" where
  "declarable_method m =
     (case Method_prototype m of
        None \<Rightarrow> False
      | Some p \<Rightarrow>
          (case rtype p of None \<Rightarrow> False | Some t \<Rightarrow> complete_type t \<and> list_all complete_type (params p)))"

definition declarable_ivar :: "objc_ivar \<Rightarrow> bool" where
  "declarable_ivar v = (case IVar_type v of None \<Rightarrow> False | Some None \<Rightarrow> True | Some (Some t) \<Rightarrow> complete_type t)"

lemma leaves_rooted: "\<forall>D. grown D [] v v' \<Longrightarrow> rooted v d \<Longrightarrow> rooted v' d"
  by (blast intro: rooted_grown)

lemma leaves_let_create:
  assumes c: "creates view ctx i r"
    and f: "\<And>d ctx'. \<forall>D. grown D [] (view ctx) (view ctx') \<Longrightarrow> view ctx' d = Some i \<Longrightarrow> leaves view ctx' (f d ctx')"
  shows "leaves view ctx (case r of (d, ctx') \<Rightarrow> f d ctx')"
proof -
  obtain d ctx' where r: "r = (d, ctx')" by fastforce
  with c have "\<forall>D. grown D [] (view ctx) (view ctx')" "view ctx' d = Some i"
    by (auto simp: creates_def intro: grown_new)
  from this(1) f [OF this] r show ?thesis
    by (auto simp: leaves_def) (metis grown_trans append_Nil)
qed

lemma arg_leaves:
  "clang_view C view \<Longrightarrow> rooted (view ctx) m \<Longrightarrow> complete_type p \<Longrightarrow> leaves view ctx (arg_qtype C DC m i p ctx)"
  by (simp add: arg_qtype_def leaves_return get_qtype_leaves)

lemma decl_params_leaves:
  "clang_view C view \<Longrightarrow> rooted (view ctx) m \<Longrightarrow> list_all complete_type ps \<Longrightarrow>
    leaves view ctx (decl_params C DC m i ps ctx)"
proof (induction ps arbitrary: i ctx)
  case (Cons p ps)
  show ?case
    using Cons.prems
    by (auto intro!: leaves_bind [OF arg_leaves] leaves_let_create [OF view_creates(3)]
        leaves_bind [OF Cons.IH] leaves_return intro: leaves_rooted [OF _ leaves_rooted])
qed (simp add: leaves_return)

text \<open>What is created, completed and then added.\<close>

lemma declares_created:
  assumes V: "clang_view C view" and c: "creates view ctx i (d, ctx1)" and D: "\<exists>j. view ctx D = Some j"
    and same: "grown D [] (view ctx1) (view ctx2)"
  shows "declares view ctx D (ad_kind i, ad_name i, ad_instance i) (Some (d, addDecl C D d ctx2))"
proof -
  have d: "view ctx d = None" "view ctx1 d = Some i" "grown D [] (view ctx) (view ctx1)"
    using c by (auto simp: creates_def intro: grown_new)
  then have h: "header (view ctx2) d = Some (ad_kind i, ad_name i, ad_instance i)"
    by (intro header_grown [OF _ same]) (simp add: header_def)
  have g: "grown D [] (view ctx) (view ctx2)" using grown_trans [OF d(3) same] by simp
  then have "\<exists>j. view ctx2 D = Some j" using D by (auto simp: grown_def)
  then have "grown D [d] (view ctx2) (view (addDecl C D d ctx2))"
    using h by (intro grown_addDecl [OF V]) (auto simp: header_def)
  then show ?thesis
    using d(1) header_grown [OF h] grown_trans [OF g] unfolding declares_def by fastforce
qed

lemma declares_bind:
  assumes "leaves view ctx m"
    and f: "\<And>x ctx'. \<forall>D. grown D [] (view ctx) (view ctx') \<Longrightarrow> declares view ctx' D h (f (x, ctx'))"
  shows "declares view ctx D h (Option.bind m f)"
proof -
  obtain x ctx1 where x: "m = Some (x, ctx1)" and g: "\<forall>D. grown D [] (view ctx) (view ctx1)"
    using assms(1) by (auto simp: leaves_def)
  obtain d ctx2 where d: "f (x, ctx1) = Some (d, ctx2)" "view ctx1 d = None" "header (view ctx2) d = Some h"
    "grown D [d] (view ctx1) (view ctx2)"
    using f [OF g, of x] by (auto simp: declares_def)
  have "view ctx d = None" using spec [OF g, of D] d(2) by (cases "view ctx d") (auto simp: grown_def)
  moreover have "grown D [d] (view ctx) (view ctx2)"
    using grown_trans [of D "[]" "view ctx" "view ctx1" "[d]" "view ctx2"] g d(4) by simp
  ultimately show ?thesis using x d by (simp add: declares_def)
qed

lemma decl_method_declares:
  assumes V: "clang_view C view" and D: "rooted (view ctx) D" and m: "declarable_method m"
  shows "declares view ctx D (D_Method, m_name m, m_is_instance m) (decl_method C m D ctx)"
proof -
  obtain p t where p: "Method_prototype m = Some p" "rtype p = Some t"
    and t: "complete_type t" "list_all complete_type (params p)"
    using m by (auto simp: declarable_method_def split: option.splits)
  have rest: "declares view ctx' D (D_Method, m_name m, m_is_instance m)
      (case create_method C (m_name m) q (m_is_instance m) D ctx' of (clang_method, ctx) \<Rightarrow> do {
         (ps, ctx) \<leftarrow> decl_params C D clang_method 0 (params p) ctx;
         Some (clang_method, addDecl C D clang_method (setMethodParams C clang_method ps ctx)) })"
    if g: "\<forall>D. grown D [] (view ctx) (view ctx')" for q ctx'
  proof -
    have D': "rooted (view ctx') D" using leaves_rooted [OF g D] .
    obtain d ctx1 where d: "create_method C (m_name m) q (m_is_instance m) D ctx' = (d, ctx1)" by fastforce
    have c: "creates view ctx' (new_decl D_Method (m_name m) (Some D) (m_is_instance m)) (d, ctx1)"
      using view_creates(4) [OF V] d by metis
    then have "view ctx1 d = Some (new_decl D_Method (m_name m) (Some D) (m_is_instance m))"
      "rooted (view ctx1) D"
      using rooted_grown [OF D' grown_new] by (auto simp: creates_def)
    then have "rooted (view ctx1) d" using rooted.inside [of "view ctx1" d _ D] by simp
    from decl_params_leaves [OF V this t(2)] obtain ps ctx2 where ps: "decl_params C D d 0 (params p) ctx1 = Some (ps, ctx2)"
      and "\<forall>D. grown D [] (view ctx1) (view ctx2)"
      by (fastforce simp: leaves_def)
    then have "grown D [] (view ctx1) (view (setMethodParams C d ps ctx2))" by (simp add: view_setters [OF V])
    from declares_created [OF V c rooted_known [OF D'] this] show ?thesis
      by (simp add: d ps)
  qed
  show ?thesis
    by (simp add: decl_method_def p Let_def)
      (rule declares_bind [OF get_qtype_leaves [OF V D t(1)]], simp, rule rest)
qed

lemma decl_property_declares:
  assumes V: "clang_view C view" and D: "rooted (view ctx) D"
  shows "declares view ctx D (D_Property, p_name prop, False) (Some (decl_property C prop D ctx))"
proof -
  obtain d ctx1 where d: "create_typed C D_Property (p_name prop) (builtin_type C AST_Void) D ctx = (d, ctx1)" by fastforce
  have "creates view ctx (new_decl D_Property (p_name prop) (Some D) False) (d, ctx1)"
    using view_creates(3) [OF V] d by metis
  from declares_created [OF V this rooted_known [OF D] grown_refl] show ?thesis
    by (simp add: decl_property_def d)
qed

lemma ivar_leaves:
  assumes V: "clang_view C view" and D: "rooted (view ctx) D" and "declarable_ivar v"
  shows "leaves view ctx (ivar_qtype C v D ctx)"
  using assms(3)
  by (auto simp: ivar_qtype_def declarable_ivar_def split: option.splits
      intro!: leaves_return get_qtype_leaves [OF V D] leaves_bind [OF NSObject_leaves [OF V D]])

lemma decl_ivar_declares:
  assumes V: "clang_view C view" and D: "rooted (view ctx) D" and v: "declarable_ivar v"
  shows "declares view ctx D (D_Ivar, iv_name v, False) (decl_ivar C v D ctx)"
proof -
  have rest: "declares view ctx' D (D_Ivar, iv_name v, False)
      (case create_typed C D_Ivar (iv_name v) q D ctx' of (d, ctx) \<Rightarrow> Some (d, addDecl C D d ctx))"
    if g: "\<forall>D. grown D [] (view ctx) (view ctx')" for q ctx'
  proof -
    obtain d ctx1 where d: "create_typed C D_Ivar (iv_name v) q D ctx' = (d, ctx1)" by fastforce
    have "creates view ctx' (new_decl D_Ivar (iv_name v) (Some D) False) (d, ctx1)"
      using view_creates(3) [OF V] d by metis
    from declares_created [OF V this rooted_known [OF leaves_rooted [OF g D]] grown_refl] show ?thesis
      by (simp add: d)
  qed
  show ?thesis
    by (simp add: decl_ivar_def) (rule declares_bind [OF ivar_leaves [OF V D v]], simp, rule rest)
qed

lemma decl_protocol_method_declares:
  assumes V: "clang_view C view" and D: "rooted (view ctx) D" and m: "declarable_method m"
  shows "declares view ctx D (D_Method, m_name m, m_is_instance m) (decl_protocol_method C b D m ctx)"
  using decl_method_declares [OF V D m]
  by (auto simp: declares_def decl_protocol_method_def view_setters [OF V])

text \<open>Loops over members.\<close>

lemma each_declares:
  assumes f: "\<And>m ctx. m \<in> set ms \<Longrightarrow> rooted (view ctx) D \<Longrightarrow> declares view ctx D (h m) (f m ctx)"
  shows "rooted (view ctx) D \<Longrightarrow> \<exists>ds ctx'. each_member f ms ctx = Some (ds, ctx')
    \<and> grown D ds (view ctx) (view ctx') \<and> map (header (view ctx')) ds = map (\<lambda>m. Some (h m)) ms"
  using f
proof (induction ms arbitrary: ctx)
  case (Cons m ms)
  obtain d ctx1 where d: "f m ctx = Some (d, ctx1)" "header (view ctx1) d = Some (h m)" "grown D [d] (view ctx) (view ctx1)"
    using Cons.prems(2) [of m ctx] Cons.prems(1) by (auto simp: declares_def)
  obtain ds ctx2 where ds: "each_member f ms ctx1 = Some (ds, ctx2)" "grown D ds (view ctx1) (view ctx2)"
    "map (header (view ctx2)) ds = map (\<lambda>m. Some (h m)) ms"
    using Cons.IH [of ctx1] rooted_grown [OF Cons.prems(1) d(3)] Cons.prems(2) by auto
  then show ?case
    using d grown_trans [OF d(3) ds(2)] header_grown [OF d(2) ds(2)] by auto
qed (simp add: grown_refl)

lemma each_leaves:
  assumes f: "\<And>m ctx. leaves view ctx (f m ctx)"
  shows "leaves view ctx (each_member f ms ctx)"
  by (induction ms arbitrary: ctx) (auto intro!: leaves_return leaves_bind [OF f] leaves_bind)

lemma leaves_created:
  assumes "creates view ctx i r" shows "leaves view ctx (Some r)"
  using leaves_create [OF assms, of id] by simp

section \<open>Classes and protocols\<close>

definition method_header :: "objc_method \<Rightarrow> decl_kind \<times> string \<times> bool" where
  "method_header m = (D_Method, m_name m, m_is_instance m)"

definition ivar_header :: "objc_ivar \<Rightarrow> decl_kind \<times> string \<times> bool" where
  "ivar_header v = (D_Ivar, iv_name v, False)"

definition property_header :: "objc_property \<Rightarrow> decl_kind \<times> string \<times> bool" where
  "property_header p = (D_Property, p_name p, False)"

definition class_headers :: "'p objc_class \<Rightarrow> (decl_kind \<times> string \<times> bool) list" where
  "class_headers cls = map method_header (cl_methods cls) @ map ivar_header (cl_ivars cls)
     @ map property_header (cl_properties cls)"

definition protocol_headers :: "objc_protocol \<Rightarrow> (decl_kind \<times> string \<times> bool) list" where
  "protocol_headers p = map method_header (pr_opt_methods p) @ map method_header (pr_required_methods p)
     @ map property_header (pr_properties p)"

lemma each_method:
  assumes V: "clang_view C view" and D: "rooted (view ctx) D" and ms: "list_all declarable_method ms"
  shows "\<exists>ds ctx'. each_member (\<lambda>m. decl_method C m D) ms ctx = Some (ds, ctx') \<and> grown D ds (view ctx) (view ctx')
    \<and> map (header (view ctx')) ds = map (\<lambda>m. Some (method_header m)) ms"
    and "\<exists>ds ctx'. each_member (decl_protocol_method C b D) ms ctx = Some (ds, ctx') \<and> grown D ds (view ctx) (view ctx')
    \<and> map (header (view ctx')) ds = map (\<lambda>m. Some (method_header m)) ms"
  using ms by (auto simp: method_header_def list_all_iff
      intro!: each_declares D decl_method_declares [OF V] decl_protocol_method_declares [OF V])

lemma each_ivar:
  assumes V: "clang_view C view" and D: "rooted (view ctx) D" and vs: "list_all declarable_ivar vs"
  shows "\<exists>ds ctx'. each_member (\<lambda>v. decl_ivar C v D) vs ctx = Some (ds, ctx') \<and> grown D ds (view ctx) (view ctx')
    \<and> map (header (view ctx')) ds = map (\<lambda>v. Some (ivar_header v)) vs"
  using vs by (auto simp: ivar_header_def list_all_iff intro!: each_declares D decl_ivar_declares [OF V])

lemma each_property:
  assumes V: "clang_view C view" and D: "rooted (view ctx) D"
  shows "\<exists>ds ctx'. each_member (\<lambda>p ctx. Some (decl_property C p D ctx)) ps ctx = Some (ds, ctx')
    \<and> grown D ds (view ctx) (view ctx') \<and> map (header (view ctx')) ds = map (\<lambda>p. Some (property_header p)) ps"
  by (auto simp: property_header_def intro!: each_declares D decl_property_declares [OF V])

text \<open>A container that was created, filled with \<open>ds\<close> and then added to its context.\<close>

lemma headers_grown:
  "map (header v) ds = map (\<lambda>m. Some (h m)) ms \<Longrightarrow> grown D es v v' \<Longrightarrow> map (header v') ds = map (\<lambda>m. Some (h m)) ms"
  by (induction ds arbitrary: ms) (auto intro: header_grown split: list.splits simp: map_eq_Cons_conv Cons_eq_map_conv)

lemma container:
  assumes V: "clang_view C view" and DC: "rooted (view ctx) DC" and c: "creates view ctx i (d, ctx0)"
    and g: "grown d ds (view ctx0) (view ctx1)" and h: "map (header (view ctx1)) ds = map Some hs"
  defines "ctx' \<equiv> addDecl C DC d ctx1"
  shows "grown DC [d] (view ctx) (view ctx')" and "view ctx' d = Some (i\<lparr>ad_decls := ad_decls i @ ds\<rparr>)"
    and "map (header (view ctx')) ds = map Some hs" and "view ctx d = None"
proof -
  show new: "view ctx d = None" using c by (simp add: creates_def)
  have d: "view ctx1 d = Some (i\<lparr>ad_decls := ad_decls i @ ds\<rparr>)" using c g by (auto simp: creates_def grown_def)
  have same: "view ctx1 e = Some j" if "view ctx e = Some j" for e j
  proof -
    have "e \<noteq> d" "view ctx0 e = Some j" using that c by (auto simp: creates_def)
    then show ?thesis using g by (simp add: grown_def)
  qed
  have "\<exists>j. view ctx1 DC = Some j" using rooted_known [OF DC] same by blast
  then have a: "grown DC [d] (view ctx1) (view ctx')"
    unfolding ctx'_def using d by (intro grown_addDecl [OF V]) auto
  show "grown DC [d] (view ctx) (view ctx')" using a same by (simp add: grown_def)
  have "d \<noteq> DC" using new rooted_known [OF DC] by auto
  then show "view ctx' d = Some (i\<lparr>ad_decls := ad_decls i @ ds\<rparr>)" using a d by (simp add: grown_def)
  show "map (header (view ctx')) ds = map Some hs"
    using headers_grown [of "view ctx1" ds "\<lambda>h. h" hs] h a by simp
qed

lemma decl_protocol_members:
  assumes V: "clang_view C view" and DC: "rooted (view ctx) DC"
    and ms: "list_all declarable_method (pr_opt_methods p)" "list_all declarable_method (pr_required_methods p)"
  shows "\<exists>d ctx' ds. decl_protocol C p DC ctx = Some (d, ctx') \<and> grown DC [d] (view ctx) (view ctx')
    \<and> view ctx' d = Some ((new_decl D_Protocol (pr_mangled_name p) (Some DC) False)\<lparr>ad_decls := ds\<rparr>)
    \<and> map (header (view ctx')) ds = map Some (protocol_headers p)"
proof -
  let ?i = "new_decl D_Protocol (pr_mangled_name p) (Some DC) False"
  obtain d ctx0 where d: "create_decl C D_Protocol (pr_mangled_name p) DC ctx = (d, ctx0)" by fastforce
  have c: "creates view ctx ?i (d, ctx0)"
    using view_creates(2) [OF V] d by metis
  define ctx1 where "ctx1 = startDefinition C d ctx0"
  have same: "view ctx1 = view ctx0" by (simp add: ctx1_def view_setters [OF V])
  have d1: "view ctx1 d = Some ?i" and g0: "grown d [] (view ctx) (view ctx1)"
    using c by (auto simp: creates_def same intro: grown_new)
  have r1: "rooted (view ctx1) d"
    using rooted.inside [of "view ctx1" d ?i DC] d1 rooted_grown [OF DC g0] by simp
  obtain ds1 ctx2 where s1: "each_member (decl_protocol_method C True d) (pr_opt_methods p) ctx1 = Some (ds1, ctx2)"
    and g1: "grown d ds1 (view ctx1) (view ctx2)"
    and h1: "map (header (view ctx2)) ds1 = map (\<lambda>m. Some (method_header m)) (pr_opt_methods p)"
    using each_method(2) [OF V r1 ms(1)] by blast
  obtain ds2 ctx3 where s2: "each_member (decl_protocol_method C False d) (pr_required_methods p) ctx2 = Some (ds2, ctx3)"
    and g2: "grown d ds2 (view ctx2) (view ctx3)"
    and h2: "map (header (view ctx3)) ds2 = map (\<lambda>m. Some (method_header m)) (pr_required_methods p)"
    using each_method(2) [OF V rooted_grown [OF r1 g1] ms(2)] by blast
  obtain ds3 ctx4 where s3: "each_member (\<lambda>p ctx. Some (decl_property C p d ctx)) (pr_properties p) ctx3 = Some (ds3, ctx4)"
    and g3: "grown d ds3 (view ctx3) (view ctx4)"
    and h3: "map (header (view ctx4)) ds3 = map (\<lambda>p. Some (property_header p)) (pr_properties p)"
    using each_property [OF V rooted_grown [OF rooted_grown [OF r1 g1] g2]] by blast
  let ?ds = "ds1 @ ds2 @ ds3"
  have g: "grown d ?ds (view ctx1) (view ctx4)"
    using grown_trans [OF grown_trans [OF g1 g2] g3] by simp
  have h: "map (header (view ctx4)) ?ds = map Some (protocol_headers p)"
    using headers_grown [OF h1 grown_trans [OF g2 g3]] headers_grown [OF h2 g3] h3
    by (simp add: protocol_headers_def comp_def)
  have g': "grown d ?ds (view ctx0) (view ctx4)" using g by (simp add: same)
  have "decl_protocol C p DC ctx = Some (d, addDecl C DC d ctx4)"
    by (simp add: decl_protocol_def d ctx1_def [symmetric] s1 s2 s3)
  then show ?thesis
    using container [OF V DC c g' h] by fastforce
qed

lemma decl_class_members:
  assumes V: "clang_view C view" and DC: "rooted (view ctx) DC"
    and name: "demangled_name n (cl_name cls) = Some name"
    and ms: "list_all declarable_method (cl_methods cls)" and vs: "list_all declarable_ivar (cl_ivars cls)"
  shows "\<exists>d ctx' ds. decl_class C n protocol_at cls DC ctx = Some (d, ctx') \<and> grown DC [d] (view ctx) (view ctx')
    \<and> view ctx' d = Some ((new_decl D_Interface name (Some DC) False)\<lparr>ad_decls := ds\<rparr>)
    \<and> map (header (view ctx')) ds = map Some (class_headers cls)"
proof -
  let ?i = "new_decl D_Interface name (Some DC) False"
  obtain d ctx0 where d: "create_decl C D_Interface name DC ctx = (d, ctx0)" by fastforce
  have c: "creates view ctx ?i (d, ctx0)"
    using view_creates(2) [OF V] d by metis
  have d0: "view ctx0 d = Some ?i" and g0: "grown d [] (view ctx) (view ctx0)"
    using c by (auto simp: creates_def intro: grown_new)
  define p where "p = each_member (\<lambda>p ctx. Some (create_decl C D_Protocol (pr_mangled_name (protocol_at p)) d ctx))
    (cl_protocols cls) (startDefinition C d ctx0)"
  have "leaves view (startDefinition C d ctx0) p"
    unfolding p_def by (rule each_leaves) (rule leaves_created [OF view_creates(2) [OF V]])
  then obtain ps ctx1 where p: "p = Some (ps, ctx1)" and g1: "grown d [] (view ctx0) (view ctx1)"
    by (auto simp: leaves_def view_setters [OF V])
  define ctx2 where "ctx2 = (if ps = [] then ctx1 else setProtocolList C d ps ctx1)"
  have g2: "grown d [] (view ctx0) (view ctx2)" using g1 by (simp add: ctx2_def view_setters [OF V])
  have r2: "rooted (view ctx2) d"
    using rooted_grown [OF rooted.inside [of "view ctx0" d ?i DC] g2] d0 rooted_grown [OF DC g0] by simp
  obtain ds1 ctx3 where s1: "each_member (\<lambda>m. decl_method C m d) (cl_methods cls) ctx2 = Some (ds1, ctx3)"
    and g3: "grown d ds1 (view ctx2) (view ctx3)"
    and h1: "map (header (view ctx3)) ds1 = map (\<lambda>m. Some (method_header m)) (cl_methods cls)"
    using each_method(1) [OF V r2 ms] by blast
  obtain ds2 ctx4 where s2: "each_member (\<lambda>v. decl_ivar C v d) (cl_ivars cls) ctx3 = Some (ds2, ctx4)"
    and g4: "grown d ds2 (view ctx3) (view ctx4)"
    and h2: "map (header (view ctx4)) ds2 = map (\<lambda>v. Some (ivar_header v)) (cl_ivars cls)"
    using each_ivar [OF V rooted_grown [OF r2 g3] vs] by blast
  obtain ds3 ctx5 where s3: "each_member (\<lambda>p ctx. Some (decl_property C p d ctx)) (cl_properties cls) ctx4 = Some (ds3, ctx5)"
    and g5: "grown d ds3 (view ctx4) (view ctx5)"
    and h3: "map (header (view ctx5)) ds3 = map (\<lambda>p. Some (property_header p)) (cl_properties cls)"
    using each_property [OF V rooted_grown [OF rooted_grown [OF r2 g3] g4]] by blast
  let ?ds = "ds1 @ ds2 @ ds3"
  have g: "grown d ?ds (view ctx0) (view ctx5)"
    using grown_trans [OF g2 grown_trans [OF grown_trans [OF g3 g4] g5]] by simp
  have h: "map (header (view ctx5)) ?ds = map Some (class_headers cls)"
    using headers_grown [OF h1 grown_trans [OF g4 g5]] headers_grown [OF h2 g5] h3
    by (simp add: class_headers_def comp_def)
  have "decl_class C n protocol_at cls DC ctx = Some (d, addDecl C DC d ctx5)"
    by (simp add: decl_class_def name d p_def [symmetric] p ctx2_def [symmetric] s1 s2 s3 Let_def)
  then show ?thesis
    using container [OF V DC c g h] by fastforce
qed

lemma rooted_TU:
  assumes V: "clang_view C view" and TU: "create_TU C ctx = (TU, ctx')"
  shows "rooted (view ctx') TU" and "view ctx' TU = Some (new_decl D_TranslationUnit [] None False)"
proof -
  show TU': "view ctx' TU = Some (new_decl D_TranslationUnit [] None False)"
    using view_creates(1) [OF V, of ctx] TU by (simp add: creates_def)
  then show "rooted (view ctx') TU" by (rule rooted.root) simp
qed

section \<open>The translation units\<close>

text \<open>
  C36: What is printed for a class is a translation unit with one declaration: an interface with the demangled
  name of the class, and in it, in this order, a method for each method, class methods marked as such, an
  instance variable for each instance variable and a property for each property. The generator returns if
  every method has a return type and no type has a hole.
\<close>

theorem generate_class_members:
  assumes V: "clang_view C view" and name: "demangled_name n (cl_name cls) = Some name"
    and "list_all declarable_method (cl_methods cls)" and "list_all declarable_ivar (cl_ivars cls)"
  shows "\<exists>TU d ctx' ds. generate_class C n protocol_at cls ctx = Some (print_decl C ctx' TU, ctx')
    \<and> view ctx' TU = Some ((new_decl D_TranslationUnit [] None False)\<lparr>ad_decls := [d]\<rparr>)
    \<and> view ctx' d = Some ((new_decl D_Interface name (Some TU) False)\<lparr>ad_decls := ds\<rparr>)
    \<and> map (header (view ctx')) ds = map Some (class_headers cls)"
proof -
  obtain TU ctx1 where TU: "create_TU C ctx = (TU, ctx1)" by fastforce
  obtain d ctx' ds where d: "decl_class C n protocol_at cls TU ctx1 = Some (d, ctx')"
    "grown TU [d] (view ctx1) (view ctx')"
    "view ctx' d = Some ((new_decl D_Interface name (Some TU) False)\<lparr>ad_decls := ds\<rparr>)"
    "map (header (view ctx')) ds = map Some (class_headers cls)"
    using decl_class_members [OF V rooted_TU(1) [OF V TU] name assms(3,4)] by blast
  moreover have "view ctx' TU = Some ((new_decl D_TranslationUnit [] None False)\<lparr>ad_decls := [d]\<rparr>)"
    using d(2) rooted_TU(2) [OF V TU] by (simp add: grown_def)
  ultimately show ?thesis by (auto simp: generate_class_def TU)
qed

text \<open>
  C37: The same for a protocol: the optional methods, then the required ones, then the properties.
\<close>

theorem generate_protocol_members:
  assumes V: "clang_view C view"
    and "list_all declarable_method (pr_opt_methods p)" and "list_all declarable_method (pr_required_methods p)"
  shows "\<exists>TU d ctx' ds. generate_protocol C p ctx = Some (print_decl C ctx' TU, ctx')
    \<and> view ctx' TU = Some ((new_decl D_TranslationUnit [] None False)\<lparr>ad_decls := [d]\<rparr>)
    \<and> view ctx' d = Some ((new_decl D_Protocol (pr_mangled_name p) (Some TU) False)\<lparr>ad_decls := ds\<rparr>)
    \<and> map (header (view ctx')) ds = map Some (protocol_headers p)"
proof -
  obtain TU ctx1 where TU: "create_TU C ctx = (TU, ctx1)" by fastforce
  obtain d ctx' ds where d: "decl_protocol C p TU ctx1 = Some (d, ctx')" "grown TU [d] (view ctx1) (view ctx')"
    "view ctx' d = Some ((new_decl D_Protocol (pr_mangled_name p) (Some TU) False)\<lparr>ad_decls := ds\<rparr>)"
    "map (header (view ctx')) ds = map Some (protocol_headers p)"
    using decl_protocol_members [OF V rooted_TU(1) [OF V TU] assms(2,3)] by blast
  moreover have "view ctx' TU = Some ((new_decl D_TranslationUnit [] None False)\<lparr>ad_decls := [d]\<rparr>)"
    using d(2) rooted_TU(2) [OF V TU] by (simp add: grown_def)
  ultimately show ?thesis by (auto simp: generate_protocol_def TU)
qed

lemma search_stays_empty:
  assumes V: "clang_view C view" and g: "\<forall>D. grown D [] (view ctx) (view ctx')"
  shows "rooted (view ctx) d \<Longrightarrow> search C ctx name (Some d) = Some [] \<Longrightarrow> search C ctx' name (Some d) = Some []"
proof (induction rule: rooted.induct)
  have same: "view ctx' x = Some j" if "view ctx x = Some j" for x j
    using spec [OF g, of x] that by (simp add: grown_def)
  have none: "lookup_in C ctx' d name = []" if i: "view ctx d = Some i" and e: "lookup_in C ctx d name = []" for d i
  proof -
    have "\<not> answers_to (view ctx') name x" if x: "x \<in> set (ad_decls i)" for x
    proof -
      obtain j where j: "view ctx x = Some j" using view_reads(3) [OF V i x] by auto
      then show ?thesis using view_reads(5) [OF V i e x] same [OF j] by (simp add: answers_to_def)
    qed
    then have "set (lookup_in C ctx' d name) \<subseteq> {}" using view_reads(4) [OF V same [OF i], of name] by blast
    then show ?thesis by simp
  qed
  {
    case (root d i)
    then show ?case
      using none [OF root.hyps(1)] same [OF root.hyps(1)] search.simps [of C ctx name "Some d"]
      by (simp add: search.simps [of C ctx' name "Some d"] search.simps [of C ctx' name None] view_reads [OF V] Let_def
          split: if_splits)
  next
    case (inside d i p)
    then show ?case
      using none [OF inside.hyps(1)] same [OF inside.hyps(1)] search.simps [of C ctx name "Some d"]
      by (simp add: search.simps [of C ctx' name "Some d"] view_reads [OF V] Let_def split: if_splits)
  }
qed

lemma struct_created:
  assumes V: "clang_view C view" and none: "search C ctx (pretty_struct name) (Some D) = Some []"
  shows "\<exists>r ctx'. get_qtype C (StructTy name as) D ctx = Some (getRecordType C r, ctx') \<and> view ctx r = None
    \<and> view ctx' r = Some (new_decl D_Struct (pretty_struct name) (Some D) False)
    \<and> (\<forall>D. grown D [] (view ctx) (view ctx'))"
proof -
  obtain r ctx' where r: "create_decl C D_Struct (pretty_struct name) D ctx = (r, ctx')" by fastforce
  have "creates view ctx (new_decl D_Struct (pretty_struct name) (Some D) False) (r, ctx')"
    using view_creates(2) [OF V] r by metis
  then show ?thesis
    by (auto simp: tag_qtype_def none Let_def r creates_def intro: grown_new)
qed

text \<open>
  C38: A structure that is not declared around \<open>D\<close> is declared anew each time its type is needed: the two
  types are those of different declarations, neither of which is added to a context, and the next search does
  not find them.
\<close>

theorem struct_declared_twice:
  assumes V: "clang_view C view" and D: "rooted (view ctx) D"
    and none: "search C ctx (pretty_struct name) (Some D) = Some []"
  shows "\<exists>r1 ctx1 r2 ctx2. get_qtype C (StructTy name as) D ctx = Some (getRecordType C r1, ctx1)
    \<and> get_qtype C (StructTy name bs) D ctx1 = Some (getRecordType C r2, ctx2) \<and> r1 \<noteq> r2
    \<and> view ctx2 D = view ctx D \<and> search C ctx2 (pretty_struct name) (Some D) = Some []"
proof -
  obtain r1 ctx1 where r1: "get_qtype C (StructTy name as) D ctx = Some (getRecordType C r1, ctx1)"
    "view ctx1 r1 = Some (new_decl D_Struct (pretty_struct name) (Some D) False)" "\<forall>D. grown D [] (view ctx) (view ctx1)"
    using struct_created [OF V none] by blast
  have none1: "search C ctx1 (pretty_struct name) (Some D) = Some []"
    using search_stays_empty [OF V r1(3) D none] by simp
  have D1: "rooted (view ctx1) D" using leaves_rooted [OF r1(3) D] .
  obtain r2 ctx2 where r2: "get_qtype C (StructTy name bs) D ctx1 = Some (getRecordType C r2, ctx2)"
    "view ctx1 r2 = None" "\<forall>D. grown D [] (view ctx1) (view ctx2)"
    using struct_created [OF V none1] by blast
  have "view ctx2 D = view ctx D"
    using spec [OF r1(3), of D] spec [OF r2(3), of D] rooted_known [OF D] by (auto simp: grown_def)
  then show ?thesis
    using r1 r2 search_stays_empty [OF V r2(3) D1 none1] by (metis option.distinct(1))
qed

section \<open>An AST\<close>

text \<open>Declarations as their numbers in a list; what was added exists.\<close>

datatype store_type =
    T_Builtin ast_builtin | T_Null | T_Const store_type | T_Pointer store_type | T_Array store_type u64
  | T_Record nat | T_Interface nat

typedef store = "{ds :: nat ast_decl list. \<forall>i \<in> set ds. \<forall>x \<in> set (ad_decls i). x < length ds}"
  by (rule exI [of _ "[]"]) simp

setup_lifting type_definition_store

lift_definition empty_store :: store is "[]" by simp

lift_definition store_view :: "store \<Rightarrow> nat \<Rightarrow> nat ast_decl option" is
  "\<lambda>ds d. if d < length ds then Some (ds ! d) else None" .

lift_definition store_create :: "nat ast_decl \<Rightarrow> store \<Rightarrow> nat \<times> store" is
  "\<lambda>i ds. (length ds, ds @ [i\<lparr>ad_decls := []\<rparr>])" by fastforce

definition added_inside :: "nat \<Rightarrow> nat \<Rightarrow> nat ast_decl list \<Rightarrow> nat ast_decl list" where
  "added_inside D d ds =
     (if D < length ds \<and> d < length ds then ds[D := (ds ! D)\<lparr>ad_decls := ad_decls (ds ! D) @ [d]\<rparr>] else ds)"

lemma added_inside_children:
  assumes ds: "\<And>i x. i \<in> set ds \<Longrightarrow> x \<in> set (ad_decls i) \<Longrightarrow> x < length ds"
    and i: "i \<in> set (added_inside D d ds)" and x: "x \<in> set (ad_decls i)"
  shows "x < length (added_inside D d ds)"
proof -
  have "i \<in> set ds \<or> D < length ds \<and> d < length ds \<and> i = (ds ! D)\<lparr>ad_decls := ad_decls (ds ! D) @ [d]\<rparr>"
    using i set_update_subset_insert [of ds D] by (auto simp: added_inside_def split: if_splits)
  then have "x < length ds" using ds [OF _ x] ds [OF nth_mem, of D x] x by auto
  then show ?thesis by (simp add: added_inside_def)
qed

lift_definition store_add :: "nat \<Rightarrow> nat \<Rightarrow> store \<Rightarrow> store" is added_inside
  by (blast intro: added_inside_children)

definition store_lookup :: "store \<Rightarrow> nat \<Rightarrow> string \<Rightarrow> nat list" where
  "store_lookup s d name = (case store_view s d of None \<Rightarrow> [] | Some i \<Rightarrow> filter (answers_to (store_view s) name) (ad_decls i))"

definition store_clang :: "(store, nat, store_type) clang" where
  "store_clang = \<lparr>
     builtin_type = T_Builtin, null_type = T_Null, addConst = T_Const, getPointerType = T_Pointer,
     getConstantArrayType = T_Array, getRecordType = T_Record, getObjCInterfaceType = T_Interface,
     kind_of = (\<lambda>s d. case store_view s d of None \<Rightarrow> D_TranslationUnit | Some i \<Rightarrow> ad_kind i),
     getParent = (\<lambda>s d. Option.bind (store_view s d) ad_parent),
     lookup_in = store_lookup,
     create_TU = store_create (new_decl D_TranslationUnit [] None False),
     create_decl = (\<lambda>k name D. store_create (new_decl k name (Some D) False)),
     create_typed = (\<lambda>k name qt D. store_create (new_decl k name (Some D) False)),
     create_method = (\<lambda>name qt inst D. store_create (new_decl D_Method name (Some D) inst)),
     addDecl = store_add, startDefinition = (\<lambda>_ s. s), setMethodParams = (\<lambda>_ _ s. s),
     setProtocolList = (\<lambda>_ _ s. s), setOptional = (\<lambda>_ _ s. s), print_decl = (\<lambda>_ _. [])\<rparr>"

lemma store_creates: "ad_decls i = [] \<Longrightarrow> creates store_view s i (store_create i s)"
  unfolding creates_def by (transfer) (auto simp: nth_append fun_eq_iff less_Suc_eq)

lemma store_adds:
  "store_view s D = Some i \<Longrightarrow> store_view s d \<noteq> None \<Longrightarrow>
    store_view (store_add D d s) = (store_view s)(D \<mapsto> i\<lparr>ad_decls := ad_decls i @ [d]\<rparr>)"
  by transfer (auto split: if_splits simp: fun_eq_iff added_inside_def)

lemma store_known: "store_view s d = Some i \<Longrightarrow> x \<in> set (ad_decls i) \<Longrightarrow> store_view s x \<noteq> None"
  by transfer (auto split: if_splits)

lemma store_agrees: "store_view s d = Some i \<Longrightarrow> agrees store_clang store_view s d i"
  unfolding agrees_def
  by (auto simp: store_clang_def store_lookup_def filter_empty_conv dest: store_known)

lemma store_laws: "clang_view store_clang store_view"
  unfolding clang_view_def
  by (intro conjI allI impI store_agrees; simp add: store_clang_def store_creates store_adds)

section \<open>Examples\<close>

definition sample_objc_class :: "objc_protocol objc_class" where
  "sample_objc_class = \<lparr>cl_flags = 0, cl_name = ''_TtC4Main3Foo'', cl_instance_start = 0, cl_instance_size = 0,
     cl_reserved = 0, cl_protocols = [],
     cl_methods = [\<lparr>m_name = ''bar'', m_mangled_type = ''v16@0:8'', m_addr = 0, m_is_instance = True\<rparr>],
     cl_ivars = [\<lparr>iv_name = ''x'', iv_mangled_type = ''i''\<rparr>], cl_properties = []\<rparr>"

lemma sample_class_declarable:
  "demangled_name 1 (cl_name sample_objc_class) = Some ''Main.Foo''"
  "list_all declarable_method (cl_methods sample_objc_class)" "list_all declarable_ivar (cl_ivars sample_objc_class)"
  by code_simp+

theorem generate_class_members_witness:
  "\<exists>TU d ctx' ds. generate_class store_clang 1 id sample_objc_class empty_store = Some (print_decl store_clang ctx' TU, ctx')
    \<and> store_view ctx' TU = Some ((new_decl D_TranslationUnit [] None False)\<lparr>ad_decls := [d]\<rparr>)
    \<and> store_view ctx' d = Some ((new_decl D_Interface ''Main.Foo'' (Some TU) False)\<lparr>ad_decls := ds\<rparr>)
    \<and> map (header (store_view ctx')) ds = [Some (D_Method, ''bar'', True), Some (D_Ivar, ''x'', False)]"
  using generate_class_members [OF store_laws sample_class_declarable, of id empty_store]
  by (simp add: class_headers_def sample_objc_class_def method_header_def ivar_header_def)

theorem generate_protocol_members_witness:
  "\<exists>TU d ctx' ds. generate_protocol store_clang
      \<lparr>pr_mangled_name = ''P'', pr_opt_methods = [], pr_required_methods = [], pr_properties = [\<lparr>p_name = ''q'', p_attributes = []\<rparr>]\<rparr>
      empty_store = Some (print_decl store_clang ctx' TU, ctx')
    \<and> store_view ctx' TU = Some ((new_decl D_TranslationUnit [] None False)\<lparr>ad_decls := [d]\<rparr>)
    \<and> store_view ctx' d = Some ((new_decl D_Protocol ''P'' (Some TU) False)\<lparr>ad_decls := ds\<rparr>)
    \<and> map (header (store_view ctx')) ds = [Some (D_Property, ''q'', False)]"
  using generate_protocol_members [OF store_laws, of
      "\<lparr>pr_mangled_name = ''P'', pr_opt_methods = [], pr_required_methods = [], pr_properties = [\<lparr>p_name = ''q'', p_attributes = []\<rparr>]\<rparr>"
      empty_store]
  by (simp add: protocol_headers_def property_header_def)

lemma sample_unit:
  "\<exists>TU s. create_TU store_clang empty_store = (TU, s) \<and> rooted (store_view s) TU
    \<and> search store_clang s (pretty_struct ''CGRect'') (Some TU) = Some []"
proof -
  obtain TU s where TU: "create_TU store_clang empty_store = (TU, s)" by fastforce
  note known = rooted_TU(2) [OF store_laws TU]
  have "lookup_in store_clang s TU name = []" for name
    by (simp add: store_clang_def store_lookup_def known)
  then have "search store_clang s name (Some TU) = Some []" for name
    by (simp add: search.simps [of store_clang s name "Some TU"] search.simps [of store_clang s name None]
        view_reads(2) [OF store_laws known] Let_def)
  then show ?thesis using TU rooted_TU(1) [OF store_laws TU] by blast
qed

theorem struct_declared_twice_witness:
  "\<exists>s TU r1 ctx1 r2 ctx2. get_qtype store_clang (StructTy ''CGRect'' []) TU s = Some (T_Record r1, ctx1)
    \<and> get_qtype store_clang (StructTy ''CGRect'' []) TU ctx1 = Some (T_Record r2, ctx2) \<and> r1 \<noteq> r2"
proof -
  obtain TU s where "rooted (store_view s) TU" "search store_clang s (pretty_struct ''CGRect'') (Some TU) = Some []"
    using sample_unit by blast
  from struct_declared_twice [OF store_laws this, of "[]" "[]"] show ?thesis
    unfolding store_clang_def by (metis clang.select_convs(6))
qed

end
