(* ===== verification/Class_Names.thy ===== *)
theory Class_Names
  imports Context_Facts Printer_Print
begin

text \<open>
  The names of Swift classes that iCDump prints: \<open>Class::demangled_name\<close> runs a name of the old mangling through
  the context, the old demangler and the node printer, and gives the components of the name with dots in
  between. The names are those the compiler writes for types that are not generic and not local. The old
  demangler counts four levels for a type that others are nested in and stops at 1024, the printer one level.
\<close>

section \<open>Names of nested types\<close>

definition sized :: "string \<Rightarrow> string" where
  "sized n = show_nat (length n) @ n"

definition plain_name :: "string \<Rightarrow> bool" where
  "plain_name n \<longleftrightarrow> n \<noteq> [] \<and> \<not> isDigit (hd n) \<and> length n < 2 ^ 64"

text \<open>Types from the outermost to the innermost, each with the letter of its kind.\<close>

definition nested_text :: "string \<Rightarrow> (char \<times> string) list \<Rightarrow> string" where
  "nested_text md ts = rev (map fst ts) @ sized md @ concat (map (sized \<circ> snd) ts)"

definition nested_tree :: "string \<Rightarrow> (char \<times> string) list \<Rightarrow> node" where
  "nested_tree md ts =
     foldl (\<lambda>t (c, n). Node (nominalTypeMarkerToNodeKind c) [t, TextNode K_Identifier n]) (TextNode K_Module md) ts"

definition dotted :: "string \<Rightarrow> (char \<times> string) list \<Rightarrow> string" where
  "dotted md ts = md @ concat (map (\<lambda>(c, n). ''.'' @ n) ts)"

definition nominal_types :: "(char \<times> string) list \<Rightarrow> bool" where
  "nominal_types ts \<longleftrightarrow> list_all (\<lambda>(c, n). c \<in> set ''CVO'' \<and> plain_name n) ts"

lemma nested_snoc:
  "nested_text md (ts @ [(c, n)]) = c # nested_text md ts @ sized n"
  "nested_tree md (ts @ [(c, n)]) = Node (nominalTypeMarkerToNodeKind c) [nested_tree md ts, TextNode K_Identifier n]"
  "dotted md (ts @ [(c, n)]) = dotted md ts @ CHR ''.'' # n"
  by (simp_all add: nested_text_def nested_tree_def dotted_def)

section \<open>Reading\<close>

lemma natural_loop_old_digits:
  "Mangled s = cs @ rest \<Longrightarrow> \<forall>c \<in> set cs. isDigit c \<Longrightarrow> rest \<noteq> [] \<Longrightarrow> \<not> isDigit (hd rest) \<Longrightarrow> length cs < f \<Longrightarrow>
    run_state (natural_loop_old f (word_of_nat m)) s
    = (Some (word_of_nat (foldl (\<lambda>n c. 10 * n + digit_val c) m cs)), s\<lparr>Mangled := rest\<rparr>)"
proof (induction cs arbitrary: s f m)
  case Nil
  then show ?case
    by (cases f; cases rest) (simp_all add: isEmpty_def peek_def look_def)
next
  case (Cons c cs)
  obtain g where f: "f = Suc g" using Cons.prems(5) by (cases f) auto
  have "run_state (natural_loop_old g (word_of_nat (10 * m + digit_val c))) (s\<lparr>Mangled := cs @ rest\<rparr>)
    = (Some (word_of_nat (foldl (\<lambda>n c. 10 * n + digit_val c) (10 * m + digit_val c) cs)), s\<lparr>Mangled := rest\<rparr>)"
    using Cons.IH [of "s\<lparr>Mangled := cs @ rest\<rparr>" g "10 * m + digit_val c"] Cons.prems f by simp
  then show ?case
    using Cons.prems f by (simp add: isEmpty_def peek_def look_def next_old_def)
qed

lemma read_natural:
  assumes "Mangled s = show_nat n @ rest" and "rest \<noteq> []" and "\<not> isDigit (hd rest)"
  shows "run_state demangleNatural_old s = (Some (word_of_nat n), s\<lparr>Mangled := rest\<rparr>)"
proof -
  obtain c cs where cs: "show_nat n = c # cs" by (cases "show_nat n") auto
  have digits: "isDigit c" "\<forall>c \<in> set cs. isDigit c" using show_nat_digits [of _ n] cs by (auto simp: isDigit_is_digit)
  have "foldl (\<lambda>n c. 10 * n + digit_val c) (digit_val c) cs = n"
    using dec_value_show_nat [of n] by (simp add: dec_value_def cs)
  then have "run_state (natural_loop_old (length (cs @ rest) + 1) (word_of_nat (digit_val c))) (s\<lparr>Mangled := cs @ rest\<rparr>)
    = (Some (word_of_nat n), s\<lparr>Mangled := rest\<rparr>)"
    using natural_loop_old_digits [of "s\<lparr>Mangled := cs @ rest\<rparr>" cs rest "length (cs @ rest) + 1" "digit_val c"]
      digits assms by simp
  then show ?thesis
    using assms(1) cs digits(1)
    by (simp add: demangleNatural_old_def isEmpty_def look_def next_old_def fuel_def)
qed

text \<open>Letters are not read where a number starts.\<close>

lemma sized_starts: "\<exists>c cs. sized n = c # cs \<and> isDigit c"
  using show_nat_digits [of _ "length n"]
  by (cases "show_nat (length n)") (auto simp: sized_def isDigit_is_digit)

lemma nextIf_number:
  assumes "Mangled s = sized n @ rest" and "\<not> isDigit c"
  shows "run_state (nextIf_old (c # cs)) s = (False, s)"
  using sized_starts [of n] assms by (auto simp: nextIf_old_def startswith_def)

lemma peek_number: "Mangled s = sized n @ rest \<Longrightarrow> \<exists>c. isDigit c \<and> run_state peek s = (c, s)"
  using sized_starts [of n] by (auto simp: peek_def look_def)

lemma isEmpty_number: "Mangled s = sized n @ rest \<Longrightarrow> run_state isEmpty s = (False, s)"
  using sized_starts [of n] by (auto simp: isEmpty_def look_def)

lemma read_identifier_old:
  assumes s: "Mangled s = sized n @ rest" and n: "plain_name n"
  shows "run_state (demangleIdentifier_old kind) s
    = (Some (TextNode (case kind of None \<Rightarrow> K_Identifier | Some k \<Rightarrow> k) n), s\<lparr>Mangled := rest\<rparr>)"
proof -
  have len: "unat (word_of_nat (length n) :: u64) = length n"
    using n by (simp add: plain_name_def unat_of_nat take_bit_nat_eq_self)
  have "run_state demangleNatural_old s = (Some (word_of_nat (length n)), s\<lparr>Mangled := n @ rest\<rparr>)"
    using s n by (intro read_natural) (auto simp: sized_def plain_name_def)
  moreover have "run_state (nextIf_old ''X'') s = (False, s)" "run_state (nextIf_old ''o'') s = (False, s)"
    using nextIf_number [OF s] by (simp_all add: isDigit_def)
  ultimately show ?thesis
    using n len isEmpty_number [OF s]
    by (simp add: demangleIdentifier_old_def on_def look_def slice_def advanceOffset_def plain_name_def Let_def)
qed

lemma read_decl_name:
  assumes s: "Mangled s = sized n @ rest" and n: "plain_name n"
  shows "run_state demangleDeclName_old s = (Some (TextNode K_Identifier n), s\<lparr>Mangled := rest\<rparr>)"
  using nextIf_number [OF s, of "CHR ''L''" "[]"] nextIf_number [OF s, of "CHR ''P''" "[]"] read_identifier_old [OF assms, of None]
  by (simp add: demangleDeclName_old_def isDigit_def)

lemma read_module_context:
  assumes s: "Mangled s = sized n @ rest" and n: "plain_name n"
  shows "run_state (demangleContext rec depth) s
    = (Some (TextNode K_Module n), s\<lparr>Mangled := rest, OldSubstitutions := OldSubstitutions s @ [TextNode K_Module n]\<rparr>)"
proof -
  obtain c where "isDigit c" "run_state peek s = (c, s)" using peek_number [OF s] by blast
  moreover from this have "\<not> isStartOfEntity c" by (auto simp: isStartOfEntity_def isStartOfNominalType_def isDigit_def)
  ultimately show ?thesis
    using isEmpty_number [OF s] read_identifier_old [OF assms, of "Some K_Module"]
      nextIf_number [OF s, of "CHR ''E''" "[]"] nextIf_number [OF s, of "CHR ''e''" "[]"]
      nextIf_number [OF s, of "CHR ''S''" "[]"] nextIf_number [OF s, of "CHR ''s''" "[]"]
      nextIf_number [OF s, of "CHR ''G''" "[]"]
    by (simp add: demangleContext_def demangleModule_old_def on_def add_substitution_def isDigit_def)
qed

text \<open>A production on a text: what it builds; \<open>reads_to\<close> leaves the substitutions open.\<close>

definition reads_to :: "node option om \<Rightarrow> string \<Rightarrow> node \<Rightarrow> bool" where
  "reads_to m input t \<longleftrightarrow>
     (\<forall>s rest. Mangled s = input @ rest \<longrightarrow>
       fst (run_state m s) = Some t \<and> Mangled (snd (run_state m s)) = rest)"

lemma reads_toI:
  "(\<And>s rest. Mangled s = input @ rest \<Longrightarrow> \<exists>s'. run_state m s = (Some t, s') \<and> Mangled s' = rest) \<Longrightarrow> reads_to m input t"
  unfolding reads_to_def by (metis fst_conv snd_conv)

lemma reads_toE:
  assumes "reads_to m input t" and "Mangled s = input @ rest"
  obtains s' where "run_state m s = (Some t, s')" "Mangled s' = rest"
  using assms unfolding reads_to_def by (metis prod.collapse)

lemma read_declaration:
  assumes ctx: "reads_to (rec Ask_Context (depth + 1)) input t" and n: "plain_name n"
  shows "reads_to (demangleDeclarationName rec kind depth) (input @ sized n) (Node kind [t, TextNode K_Identifier n])"
proof (rule reads_toI)
  fix s :: old and rest
  assume s: "Mangled s = (input @ sized n) @ rest"
  then obtain s' where s': "run_state (rec Ask_Context (depth + 1)) s = (Some t, s')" "Mangled s' = sized n @ rest"
    using reads_toE [OF ctx] by (metis append.assoc)
  from read_decl_name [OF s'(2) n] s'(1)
  show "\<exists>s'. run_state (demangleDeclarationName rec kind depth) s = (Some (Node kind [t, TextNode K_Identifier n]), s')
    \<and> Mangled s' = rest"
    by (simp add: demangleDeclarationName_def build_def on_def add_substitution_def)
qed

lemma read_nominal:
  assumes decl: "reads_to (demangleDeclarationName rec (nominalTypeMarkerToNodeKind c) (depth + 1)) input t"
    and c: "c \<in> set ''CVO''"
  shows "reads_to (demangleNominalType rec depth) (c # input) t"
proof (rule reads_toI)
  fix s :: old and rest
  assume s: "Mangled s = (c # input) @ rest"
  let ?s = "s\<lparr>Mangled := input @ rest\<rparr>"
  obtain s' where "run_state (demangleDeclarationName rec (nominalTypeMarkerToNodeKind c) (depth + 1)) ?s
      = (Some t, s')" "Mangled s' = rest"
    using reads_toE [OF decl, of ?s rest] by auto
  moreover have "run_state (nextIf_old ''S'') s = (False, s)"
    "run_state (take_from nominal_kinds) s = (Some (nominalTypeMarkerToNodeKind c), ?s)"
    using c s by (auto simp: nominal_kinds_def take_from.simps nextIf_old_def startswith_def nominalTypeMarkerToNodeKind_def)
  ultimately show "\<exists>s'. run_state (demangleNominalType rec depth) s = (Some t, s') \<and> Mangled s' = rest"
    by (simp add: demangleNominalType_def on_def)
qed

lemma read_entity:
  assumes nominal: "reads_to (demangleNominalType rec (depth + 1)) (c # input) t"
    and c: "c \<in> set ''CVO''" and depth: "depth \<le> OldMaxDepth"
  shows "reads_to (demangleEntity_old rec depth) (c # input) t"
proof (rule reads_toI)
  fix s :: old and rest
  assume s: "Mangled s = (c # input) @ rest"
  obtain s' where "run_state (demangleNominalType rec (depth + 1)) s = (Some t, s')" "Mangled s' = rest"
    using reads_toE [OF nominal s] .
  moreover have "run_state (nextIf_old ''Z'') s = (False, s)" "run_state (take_from entity_kinds) s = (None, s)"
    using c s by (auto simp: entity_kinds_def take_from.simps nextIf_old_def startswith_def)
  ultimately show "\<exists>s'. run_state (demangleEntity_old rec depth) s = (Some t, s') \<and> Mangled s' = rest"
    using depth by (simp add: demangleEntity_old_def)
qed

lemma read_context_entity:
  assumes entity: "reads_to (rec Ask_Entity (depth + 1)) (c # input) t" and c: "c \<in> set ''CVO''"
  shows "reads_to (demangleContext rec depth) (c # input) t"
proof (rule reads_toI)
  fix s :: old and rest
  assume s: "Mangled s = (c # input) @ rest"
  obtain s' where "run_state (rec Ask_Entity (depth + 1)) s = (Some t, s')" "Mangled s' = rest"
    using reads_toE [OF entity s] .
  then show "\<exists>s'. run_state (demangleContext rec depth) s = (Some t, s') \<and> Mangled s' = rest"
    using c s by (auto simp: demangleContext_def nextIf_old_def startswith_def isEmpty_def peek_def look_def
        isStartOfEntity_def isStartOfNominalType_def)
qed

lemma read_nested:
  "plain_name md \<Longrightarrow> nominal_types ts \<Longrightarrow> 2 * length ts < k \<Longrightarrow> depth + 4 * length ts \<le> OldMaxDepth \<Longrightarrow>
    reads_to (old_rec k Ask_Context depth) (nested_text md ts) (nested_tree md ts)"
proof (induction ts arbitrary: k depth rule: rev_induct)
  case Nil
  then obtain j where "k = Suc j" by (cases k) auto
  then show ?case
    using Nil by (auto simp: nested_text_def nested_tree_def read_module_context intro!: reads_toI)
next
  case (snoc x ts)
  obtain c n where x: "x = (c, n)" by fastforce
  obtain j where k: "k = Suc (Suc j)" using snoc.prems(3) by (cases k; cases "k - 1") auto
  have c: "c \<in> set ''CVO''" and n: "plain_name n" using snoc.prems(2) x by (auto simp: nominal_types_def)
  have "reads_to (old_rec j Ask_Context (depth + 4)) (nested_text md ts) (nested_tree md ts)"
    using snoc.prems k by (intro snoc.IH) (auto simp: nominal_types_def)
  then have "reads_to (demangleDeclarationName (old_rec j) kind (depth + 3)) (nested_text md ts @ sized n)
      (Node kind [nested_tree md ts, TextNode K_Identifier n])" for kind
    using read_declaration [OF _ n, of "old_rec j" "depth + 3"] by (simp add: algebra_simps)
  then have "reads_to (demangleNominalType (old_rec j) (depth + 2)) (c # nested_text md ts @ sized n)
      (nested_tree md (ts @ [(c, n)]))"
    using read_nominal [OF _ c, of "old_rec j" "depth + 2"] by (simp add: nested_snoc eval_nat_numeral)
  then have "reads_to (old_rec (Suc j) Ask_Entity (depth + 1)) (c # nested_text md ts @ sized n)
      (nested_tree md (ts @ [(c, n)]))"
    using read_entity [OF _ c, of "old_rec j" "depth + 1"] snoc.prems(4) by simp
  then show ?case
    using read_context_entity [OF _ c, of "old_rec (Suc j)" depth] k x by (simp add: nested_snoc)
qed

lemma read_type:
  assumes md: "plain_name md" and ts: "nominal_types (ts @ [(c, n)])"
    and k: "2 * length ts + 1 < k" and depth: "depth + 2 + 4 * length ts \<le> OldMaxDepth"
  shows "reads_to (demangleType_old (old_rec k) depth) (nested_text md (ts @ [(c, n)]))
    (Node K_Type [nested_tree md (ts @ [(c, n)])])"
proof (rule reads_toI)
  fix s :: old and rest
  obtain j where j: "k = Suc j" using k by (cases k) auto
  have c: "c \<in> set ''CVO''" and n: "plain_name n" and ts': "nominal_types ts" using ts by (auto simp: nominal_types_def)
  let ?s = "s\<lparr>Mangled := (nested_text md ts @ sized n) @ rest\<rparr>"
  assume s: "Mangled s = nested_text md (ts @ [(c, n)]) @ rest"
  have "reads_to (demangleDeclarationName (old_rec j) (nominalTypeMarkerToNodeKind c) (depth + 1))
      (nested_text md ts @ sized n) (nested_tree md (ts @ [(c, n)]))"
    unfolding nested_snoc
    using md n ts' k depth j by (intro read_declaration read_nested) auto
  then obtain s' where s': "run_state (demangleDeclarationName (old_rec j) (nominalTypeMarkerToNodeKind c) (depth + 1)) ?s
      = (Some (nested_tree md (ts @ [(c, n)])), s')" "Mangled s' = rest"
    by (rule reads_toE [of _ _ _ ?s rest]) simp
  have c': "c = CHR ''C'' \<or> c = CHR ''V'' \<or> c = CHR ''O''" using c by auto
  have letter: "demangleTypeLetter (old_rec j) depth c
      = demangleDeclarationName (old_rec j) (nominalTypeMarkerToNodeKind c) (depth + 1)"
    using c' by (elim disjE) (simp_all add: demangleTypeLetter_def function_letters_def isStartOfNominalType_def)
  have "run_state isEmpty s = (False, s)" "run_state next_old s = (c, ?s)"
    using s by (simp_all add: isEmpty_def look_def next_old_def nested_snoc)
  then have "run_state (demangleTypeImpl (old_rec j) depth) s = (Some (nested_tree md (ts @ [(c, n)])), s')"
    using s'(1) depth by (simp add: demangleTypeImpl_def letter)
  then show "\<exists>s'. run_state (demangleType_old (old_rec k) depth) s
      = (Some (Node K_Type [nested_tree md (ts @ [(c, n)])]), s') \<and> Mangled s' = rest"
    using s'(2) j by (simp add: demangleType_old_def build_def on_def)
qed

definition type_tree :: "string \<Rightarrow> (char \<times> string) list \<Rightarrow> node" where
  "type_tree md ts = Node K_Global [Node K_TypeMangling [Node K_Type [nested_tree md ts]]]"

lemma sized_nonempty: "0 < length (sized n)"
  by (simp add: sized_def)

lemma nested_text_length: "2 * length ts < length (nested_text md ts)"
proof -
  have "length ts \<le> length (concat (map (sized \<circ> snd) ts))"
  proof (induction ts)
    case (Cons t ts)
    then show ?case using sized_nonempty [of "snd t"] by (simp del: length_greater_0_conv)
  qed simp
  then show ?thesis using sized_nonempty [of md] by (simp add: nested_text_def del: length_greater_0_conv)
qed

lemma read_class_name:
  assumes md: "plain_name md" and ts: "nominal_types (ts @ [(c, n)])" and depth: "4 * length ts + 3 \<le> OldMaxDepth"
  shows "demangleOldSymbolAsNode (''_Tt'' @ nested_text md (ts @ [(c, n)])) = Some (type_tree md (ts @ [(c, n)]))"
proof -
  let ?ts = "ts @ [(c, n)]" and ?s = "new_old_demangler (nested_text md (ts @ [(c, n)]))"
  obtain j where j: "length (''_Tt'' @ nested_text md ?ts) + 1 = Suc (Suc j)" by simp
  define k where "k = 2 * Suc (Suc j)"
  have k: "2 * length ts + 1 < k" using nested_text_length [of ?ts md] j by (simp add: k_def)
  have type: "reads_to (demangleType_old (old_rec k) 1) (nested_text md ?ts) (Node K_Type [nested_tree md ?ts])"
    using read_type [OF md ts k, of 1] depth by simp
  obtain s' where s': "run_state (demangleType_old (old_rec k) 1) ?s = (Some (Node K_Type [nested_tree md ?ts]), s')" "Mangled s' = []"
    by (rule reads_toE [OF type, of ?s "[]"]) (simp add: new_old_demangler_def)
  have "run_state (nextIf_old ''_T'') (new_old_demangler (''_Tt'' @ nested_text md ?ts))
      = (True, new_old_demangler (''t'' @ nested_text md ?ts))"
    by (simp add: nextIf_old_def startswith_def new_old_demangler_def)
  moreover have "run_state (top_children (Suc (Suc j)) (old_rec k)) (new_old_demangler (''t'' @ nested_text md ?ts))
      = (Some [], new_old_demangler (''t'' @ nested_text md ?ts))"
    by (simp add: top_children_def top_attributes_def take_from.simps nextIf_old_def startswith_def new_old_demangler_def on_def)
  moreover have "run_state (demangleGlobal (Suc (Suc j)) (old_rec k) 0) (new_old_demangler (''t'' @ nested_text md ?ts))
      = (Some (Node K_TypeMangling [Node K_Type [nested_tree md ?ts]]), s')"
    using s' by (simp add: nextIf_old_def startswith_def new_old_demangler_def on_def build_def isEmpty_def look_def)
  ultimately have "run_state (demangleTopLevel (Suc (Suc j)) (old_rec k)) (new_old_demangler (''_Tt'' @ nested_text md ?ts))
      = (Some (type_tree md ?ts), s')"
    using s'(2) by (simp add: demangleTopLevel_def on_def isEmpty_def look_def type_tree_def del: demangleGlobal.simps)
  then show ?thesis
    using j by (simp add: k_def demangleOldSymbolAsNode_def run_old_def Let_def del: length_append)
qed

section \<open>Printing\<close>

lemma nested_kind:
  "nominal_types ts \<Longrightarrow> getKind (nested_tree md ts) \<in> {K_Module, K_Class, K_Structure, K_Enum}"
proof (induction ts rule: rev_induct)
  case Nil
  then show ?case by (simp add: nested_tree_def)
next
  case (snoc x ts)
  then show ?case by (cases x) (auto simp: nominal_types_def nested_snoc nominalTypeMarkerToNodeKind_def)
qed

lemma context_shown:
  assumes md: "plain_name md" and ts: "nominal_types ts"
  shows "run_state (printContext default_options (Some (nested_tree md ts))) s = (True, s)"
proof (cases ts rule: rev_cases)
  case Nil
  then show ?thesis
    using md by (simp add: nested_tree_def printContext_def default_options_def deref_def need_def getText_def plain_name_def)
next
  case (snoc xs x)
  then obtain c n where "ts = xs @ [(c, n)]" "c \<in> set ''CVO''" using ts by (cases x) (auto simp: nominal_types_def)
  then have "getKind (nested_tree md ts) \<noteq> K_Module" by (auto simp: nested_snoc nominalTypeMarkerToNodeKind_def)
  then show ?thesis by (simp add: printContext_def default_options_def deref_def need_def)
qed

text \<open>What a call of \<open>print\<close> does that writes a text and leaves no context to be printed.\<close>

definition writes :: "node option pr \<Rightarrow> string \<Rightarrow> bool" where
  "writes m out \<longleftrightarrow> (\<forall>s. run_state m s = (None, s\<lparr>Stream := Stream s @ out\<rparr>))"

lemma writes_prefix:
  assumes ctx: "writes (rec (Some t) (depth + 1) True) out" and out: "out \<noteq> []"
    and shown: "\<And>s. run_state (printContext default_options (Some t)) s = (True, s)"
  shows "writes (print_prefix_context rec default_options (Some t) depth False) (out @ ''.'')"
  using ctx out by (simp add: writes_def print_prefix_context_def shown reading_def only_if_def emit_def)

lemma write_name:
  assumes "writes (rec (Some (TextNode K_Identifier n)) (depth + 1) False) n" and "getKind t \<noteq> K_PrivateDeclName"
  shows "run_state (print_entity_name rec (Node kind [t, TextNode K_Identifier n]) depth False [] []) s
    = ([], s\<lparr>Stream := Stream s @ n\<rparr>)"
  using assms
  by (simp add: writes_def print_entity_name_def reading_def only_if_def emit_def sub_def deref_def need_def
      getChildIf_def getChild_def getNumChildren_def)

lemma writes_entity:
  assumes "writes (rec (Some t) (depth + 1) True) out" and "out \<noteq> []"
    and "\<And>s. run_state (printContext default_options (Some t)) s = (True, s)"
    and name: "writes (rec (Some (TextNode K_Identifier n)) (depth + 1) False) n"
    and kind: "kind \<noteq> K_BoundGenericFunction" "getKind t \<noteq> K_PrivateDeclName"
  shows "writes (printEntity rec default_options (Node kind [t, TextNode K_Identifier n]) depth pre NoType True [] (-1) [])
    (out @ ''.'' @ n)"
proof -
  let ?nd = "Node kind [t, TextNode K_Identifier n]"
  have c: "getChild ?nd 0 = Some t" "run_state (kind_of_child ?nd 1) s = (K_Identifier, s)" for s
    by (simp_all add: getChild_def getNumChildren_def kind_of_child_def deref_def need_def)
  show ?thesis
    using writes_prefix [of rec t depth, OF assms(1-3)] write_name [of rec n depth, OF name kind(2)] kind(1)
    by (simp add: printEntity_def writes_def c check_def only_if_def Let_def del: One_nat_def)
qed

lemma print_nested:
  "plain_name md \<Longrightarrow> nominal_types ts \<Longrightarrow> length ts < f \<Longrightarrow> depth + length ts < Printer_MaxDepth \<Longrightarrow>
    writes (print dsym default_options (Suc f) (Some (nested_tree md ts)) depth pre) (dotted md ts)"
proof (induction ts arbitrary: f depth pre rule: rev_induct)
  case Nil
  then show ?case
    by (simp add: writes_def nested_tree_def dotted_def print_node_def print_cases_1_def print_cases_2_def only_if_def
        default_options_def emit_text_def getText_def need_def emit_def)
next
  case (snoc x ts)
  obtain c n where x: "x = (c, n)" by fastforce
  obtain g where f: "f = Suc g" using snoc.prems(3) by (cases f) auto
  have c: "c = CHR ''C'' \<or> c = CHR ''V'' \<or> c = CHR ''O''" using snoc.prems(2) x by (auto simp: nominal_types_def)
  let ?rec = "print dsym default_options (Suc g)" and ?nd = "nested_tree md (ts @ [(c, n)])"
  have "writes (?rec (Some (nested_tree md ts)) (depth + 1) True) (dotted md ts)"
    using snoc.prems f by (intro snoc.IH) (auto simp: nominal_types_def)
  moreover have "writes (?rec (Some (TextNode K_Identifier n)) (depth + 1) False) n"
    using snoc.prems(4)
    by (simp add: writes_def print_node_def print_cases_1_def print_cases_2_def simple_def emit_text_def getText_def need_def emit_def)
  moreover have "run_state (printContext default_options (Some (nested_tree md ts))) s = (True, s)" for s
    using snoc.prems(1,2) by (intro context_shown) (auto simp: nominal_types_def)
  moreover have "dotted md ts \<noteq> []" using snoc.prems(1) by (simp add: dotted_def plain_name_def)
  moreover have "getKind (nested_tree md ts) \<noteq> K_PrivateDeclName"
    using nested_kind [of ts md] snoc.prems(2) by (auto simp: nominal_types_def)
  moreover have "nominalTypeMarkerToNodeKind c \<noteq> K_BoundGenericFunction" by (simp add: nominalTypeMarkerToNodeKind_def)
  ultimately have "writes (printEntity ?rec default_options ?nd depth pre NoType True [] (-1) []) (dotted md (ts @ [(c, n)]))"
    using writes_entity [of ?rec "nested_tree md ts" depth "dotted md ts" n] by (simp add: nested_snoc del: print.simps)
  moreover have "print dsym default_options (Suc f) (Some ?nd) depth pre
      = printEntity ?rec default_options ?nd depth pre NoType True [] (-1) []"
    using c snoc.prems(4) f
    by (elim disjE) (simp_all add: print.simps(2) [of _ _ "Suc g"] nested_snoc nominalTypeMarkerToNodeKind_def
      print_node_def print_cases_1_def print_cases_2_def del: print.simps)
  ultimately show ?case using x by simp
qed

lemma print_type_tree:
  assumes md: "plain_name md" and ts: "nominal_types ts" and f: "length ts + 3 < f" and depth: "length ts + 3 < Printer_MaxDepth"
  shows "writes (print dsym default_options (Suc f) (Some (type_tree md ts)) 0 False) (dotted md ts)"
proof -
  obtain g where g: "f = Suc (Suc (Suc g))" using f by (cases f; cases "f - 1"; cases "f - 2") auto
  let ?print = "print dsym default_options"
  have nested: "writes (?print (Suc g) (Some (nested_tree md ts)) (Suc (Suc (Suc 0))) False) (dotted md ts)"
    using assms g by (intro print_nested) auto
  have type: "writes (?print (Suc (Suc g)) (Some (Node K_Type [nested_tree md ts])) (Suc (Suc 0)) False) (dotted md ts)"
    using nested by (simp add: writes_def print.simps(2) [of _ _ "Suc g"] print_node_def print_cases_1_def print_cases_2_def
        simple_def sub_def getChild_def getNumChildren_def del: print.simps)
  have mangling: "writes (?print (Suc (Suc (Suc g))) (Some (Node K_TypeMangling [Node K_Type [nested_tree md ts]])) (Suc 0) False) (dotted md ts)"
    using type by (simp add: writes_def print.simps(2) [of _ _ "Suc (Suc g)"] print_node_def print_cases_1_def print_cases_2_def
        kind_of_child_def deref_def need_def sub_def getChild_def getNumChildren_def del: print.simps)
  show ?thesis
    using mangling by (simp add: g type_tree_def writes_def print.simps(2) [of _ _ "Suc (Suc (Suc g))"] print_node_def
        print_cases_1_def print_cases_2_def simple_def printChildren_def sub_def deref_def need_def getNumChildren_def del: print.simps)
qed

lemma nested_size: "length ts \<le> size (nested_tree md ts)"
proof (induction ts rule: rev_induct)
  case Nil
  then show ?case by (simp add: nested_tree_def)
next
  case (snoc x ts)
  then show ?case by (cases x) (simp add: nested_snoc)
qed

section \<open>Class names\<close>

text \<open>
  C39: The mangled name of a Swift class, structure or enum, nested in up to 255 others, in a module is printed as
  the module and the names of the types from the outermost to the innermost with dots in between; whatever the
  depth for symbols inside symbols.
\<close>

theorem class_names:
  assumes md: "plain_name md" and ts: "nominal_types ts" and "ts \<noteq> []" and nesting: "length ts \<le> 256"
  shows "demangled_name n (''_Tt'' @ nested_text md ts) = Some (dotted md ts)"
proof -
  obtain us c m where us: "ts = us @ [(c, m)]" using assms(3) by (cases ts rule: rev_cases) auto
  have tree: "demangleOldSymbolAsNode (''_Tt'' @ nested_text md ts) = Some (type_tree md ts)"
    using read_class_name [OF md ts [unfolded us]] nesting by (simp add: us OldMaxDepth_def)
  have "length ts + 3 < size (type_tree md ts) + 1"
    using nested_size [of ts md] by (simp add: type_tree_def)
  then have "run_print (nested_symbol n) default_options (type_tree md ts) = new_printer\<lparr>Stream := dotted md ts\<rparr>"
    using print_type_tree [OF md ts, of "size (type_tree md ts) + 1"] nesting
    by (simp add: run_print_def writes_def new_printer_def del: print.simps)
  then have "nodeToString (nested_symbol n) default_options (Some (type_tree md ts)) = Some (dotted md ts)"
    by (simp add: nodeToString_def printRoot_def Let_def new_printer_def)
  moreover have "dotted md ts \<noteq> []" using md by (simp add: dotted_def plain_name_def)
  moreover have "\<not> isMangledName (''_Tt'' @ nested_text md ts)"
    by (simp add: isMangledName_def getManglingPrefixLength_def mangling_prefixes_def startswith_def)
  ultimately show ?thesis
    by (simp add: demangled_name_def demangleSymbolAsString_def Context_demangleSymbolAsString_def demangleSymbolAsNode_def
        string_of_tree_def or_name_def tree del: append.simps)
qed

theorem class_names_witness:
  "demangled_name 0 ''_TtCV4Main5Outer3Foo'' = Some ''Main.Outer.Foo''"
proof -
  have sizes: "sized ''Main'' = ''4Main''" "sized ''Outer'' = ''5Outer''" "sized ''Foo'' = ''3Foo''"
    by code_simp+
  show ?thesis
    using class_names [of "''Main''" "[(CHR ''V'', ''Outer''), (CHR ''C'', ''Foo'')]" 0]
    by (simp add: plain_name_def nominal_types_def isDigit_def nested_text_def dotted_def sizes)
qed

end
