(* ===== verification/Remangler_State.thy ===== *)
theory Remangler_State
  imports Demangling_Context Mangling_Utils
begin

text \<open>
  The state of the class \<open>Remangler\<close> (\<open>lib/Demangling/Remangler.cpp\<close>) with its base class
  (\<open>RemanglerBase.h\<close>): the output, the words of identifiers, the table of substitutions and the last
  substitution written. A run gives an error or a result with the state after it. What \<open>DEMANGLER_ASSERT\<close>
  rejects is the error \<open>AssertionFailed\<close>; \<open>Undefined\<close> stands for a null pointer that is followed, a payload that
  is read and not there, or an \<open>assert\<close> that fails.
\<close>

section \<open>Errors\<close>

text \<open>The codes that the two remanglers give.\<close>

datatype mangling_error =
    AssertionFailed_error | TooComplex | BadNodeKind | BadNominalTypeKind_error | NotAStorageNode
  | UnsupportedNodeKind | UnexpectedBuiltinVectorType | UnexpectedBuiltinType | MultipleChildNodes
  | WrongDependentMemberType | BadDirectness | UnknownEncoding | InvalidImplCalleeConvention
  | InvalidImplDifferentiability | InvalidImplFunctionAttribute | InvalidImplParameterConvention
  | InvalidMetatypeRepresentation | MultiByteRelatedEntity | BadValueWitnessKind | NotAContextNode

datatype remangle_error = Mangling_Error mangling_error node | Undefined | Out_Of_Fuel

fun unspecialize_failure :: "unspecialize_error \<Rightarrow> remangle_error" where
  "unspecialize_failure (BadNominalTypeKind n) = Mangling_Error BadNominalTypeKind_error n"
| "unspecialize_failure (AssertionFailed n) = Mangling_Error AssertionFailed_error n"
| "unspecialize_failure NullNode = Undefined"

section \<open>The state\<close>

text \<open>
  An entry of the table: a node, and whether it is treated as an identifier. The first 16 entries are in an
  array, the others in a hash table with their indices.
\<close>

type_synonym subst_entry = "node \<times> bool"

record remangler =
  Out :: mangler
  InlineSubstitutions :: "subst_entry list"
  OverflowSubstitutions :: "(subst_entry \<times> nat) list"
  SubstMerging :: SubstitutionMerging

definition new_remangler :: remangler where
  "new_remangler =
     \<lparr>Out = \<lparr>Buffer = [], MWords = [], SubstWordsInIdent = [], UsePunycode = True\<rparr>,
      InlineSubstitutions = [], OverflowSubstitutions = [],
      SubstMerging = \<lparr>lastSubstPosition = 0, lastSubstSize = 0, lastNumSubsts = 0, lastSubstIsStandardSubst = False\<rparr>\<rparr>"

section \<open>Runs\<close>

type_synonym 'a rm = "remangler \<Rightarrow> remangle_error + 'a \<times> remangler"

definition yields :: "'a \<Rightarrow> 'a rm" where
  "yields x s = Inr (x, s)"

definition failed :: "remangle_error \<Rightarrow> 'a rm" where
  "failed e s = Inl e"

abbreviation failed_at :: "mangling_error \<Rightarrow> node \<Rightarrow> 'a rm" where
  "failed_at e nd \<equiv> failed (Mangling_Error e nd)"

text \<open>\<open>RETURN_IF_ERROR\<close>: what follows is run if there was no error.\<close>

definition after :: "'a rm \<Rightarrow> ('a \<Rightarrow> 'b rm) \<Rightarrow> 'b rm" where
  "after m f s = (case m s of Inl e \<Rightarrow> Inl e | Inr (x, s') \<Rightarrow> f x s')"

fun steps :: "unit rm list \<Rightarrow> unit rm" where
  "steps [] = yields ()"
| "steps (m # ms) = after m (\<lambda>_. steps ms)"

definition unless :: "bool \<Rightarrow> unit rm \<Rightarrow> unit rm" where
  "unless b m = (if b then yields () else m)"

definition provided :: "bool \<Rightarrow> unit rm \<Rightarrow> unit rm" where
  "provided b m = (if b then m else yields ())"

definition asserted :: "bool \<Rightarrow> node \<Rightarrow> unit rm" where
  "asserted b nd = unless b (failed_at AssertionFailed_error nd)"

definition put :: "string \<Rightarrow> unit rm" where
  "put str s = Inr ((), s\<lparr>Out := (Out s)\<lparr>Buffer := Buffer (Out s) @ str\<rparr>\<rparr>)"

text \<open>Reading nodes.\<close>

definition with_node :: "node option \<Rightarrow> (node \<Rightarrow> 'a rm) \<Rightarrow> 'a rm" where
  "with_node n f = (case n of None \<Rightarrow> failed Undefined | Some c \<Rightarrow> f c)"

definition with_child :: "node \<Rightarrow> nat \<Rightarrow> (node \<Rightarrow> 'a rm) \<Rightarrow> 'a rm" where
  "with_child nd i f = with_node (getChild nd i) f"

definition with_text :: "node \<Rightarrow> (string \<Rightarrow> 'a rm) \<Rightarrow> 'a rm" where
  "with_text nd f = (case node_text nd of None \<Rightarrow> failed Undefined | Some t \<Rightarrow> f t)"

definition with_index :: "node \<Rightarrow> (u64 \<Rightarrow> 'a rm) \<Rightarrow> 'a rm" where
  "with_index nd f = (case node_index nd of None \<Rightarrow> failed Undefined | Some i \<Rightarrow> f i)"

definition getSingleChild :: "node \<Rightarrow> (node \<Rightarrow> 'a rm) \<Rightarrow> 'a rm" where
  "getSingleChild nd f = (case getChildren nd of [c] \<Rightarrow> f c | _ \<Rightarrow> failed Undefined)"

definition getChildOfType :: "node \<Rightarrow> (node \<Rightarrow> 'a rm) \<Rightarrow> 'a rm" where
  "getChildOfType nd f = (if getKind nd = K_Type then getSingleChild nd f else failed Undefined)"

definition skipType :: "node \<Rightarrow> (node \<Rightarrow> 'a rm) \<Rightarrow> 'a rm" where
  "skipType nd f = (if getKind nd = K_Type then getSingleChild nd f else f nd)"

section \<open>Indices\<close>

definition put_index :: "u64 \<Rightarrow> unit rm" where
  "put_index v = put (mangleIndex (unat v))"

definition index_char :: "u64 \<Rightarrow> char" where
  "index_char i = char_of (unat i mod 256)"

definition put_index_char :: "node \<Rightarrow> unit rm" where
  "put_index_char nd = with_index nd (\<lambda>i. put [index_char i])"

section \<open>Substitutions\<close>

definition getCharOfNodeText :: "Kind \<Rightarrow> char \<Rightarrow> char" where
  "getCharOfNodeText k c =
     (if k \<in> {K_InfixOperator, K_PrefixOperator, K_PostfixOperator} then translateOperatorChar c else c)"

fun identifierEquals :: "node \<Rightarrow> node \<Rightarrow> bool" where
  "identifierEquals (TextNode k t) (TextNode k' t') \<longleftrightarrow>
     (if k = k' then t = t' else map (getCharOfNodeText k) t = map (getCharOfNodeText k') t')"
| "identifierEquals _ _ \<longleftrightarrow> False"

text \<open>
  Equality of entries. Trees are compared by \<open>deepEquals\<close>, which is equality of the values; the hashes, which
  are compared first, are equal for equal entries.
\<close>

definition same_entry :: "subst_entry \<Rightarrow> subst_entry \<Rightarrow> bool" where
  "same_entry lhs rhs \<longleftrightarrow>
     snd lhs = snd rhs \<and> (if snd lhs then identifierEquals (fst lhs) (fst rhs) else fst lhs = fst rhs)"

definition InlineSubstCapacity :: nat where
  "InlineSubstCapacity = 16"

fun position :: "('a \<Rightarrow> bool) \<Rightarrow> 'a list \<Rightarrow> nat option" where
  "position P [] = None"
| "position P (x # xs) = (if P x then Some 0 else map_option Suc (position P xs))"

definition findSubstitution :: "subst_entry \<Rightarrow> remangler \<Rightarrow> nat option" where
  "findSubstitution entry s =
     (case position (\<lambda>e. same_entry e entry) (InlineSubstitutions s) of
        Some i \<Rightarrow> Some i
      | None \<Rightarrow> map_option snd (find (\<lambda>(e, _). same_entry e entry) (OverflowSubstitutions s)))"

definition addSubstitution :: "subst_entry \<Rightarrow> unit rm" where
  "addSubstitution entry s =
     (if findSubstitution entry s \<noteq> None then Inl Undefined
      else if length (InlineSubstitutions s) < InlineSubstCapacity
      then if OverflowSubstitutions s \<noteq> [] then Inl Undefined
           else Inr ((), s\<lparr>InlineSubstitutions := InlineSubstitutions s @ [entry]\<rparr>)
      else Inr ((), s\<lparr>OverflowSubstitutions := OverflowSubstitutions s
                        @ [(entry, length (OverflowSubstitutions s) + InlineSubstCapacity)]\<rparr>))"

text \<open>\<open>tryMergeSubst\<close> with what is written if the substitution cannot be merged.\<close>

definition put_subst :: "string \<Rightarrow> string \<Rightarrow> bool \<Rightarrow> unit rm" where
  "put_subst op Subst isStandardSubst s =
     (let (merged, B, S) = tryMergeSubst Subst isStandardSubst (Buffer (Out s)) (SubstMerging s)
      in Inr ((), s\<lparr>Out := (Out s)\<lparr>Buffer := if merged then B else B @ op @ Subst\<rparr>, SubstMerging := S\<rparr>))"

definition mangleStandardSubstitution :: "node \<Rightarrow> bool rm" where
  "mangleStandardSubstitution nd =
     (if getKind nd \<notin> {K_Structure, K_Class, K_Enum, K_Protocol} then yields False
      else with_node (getFirstChild nd) (\<lambda>context_node.
        if getKind context_node \<noteq> K_Module then yields False
        else with_text context_node (\<lambda>t.
          if t \<noteq> STDLIB_NAME then yields False
          else with_child nd 1 (\<lambda>name.
            if getKind name \<noteq> K_Identifier then yields False
            else with_text name (\<lambda>t.
              case getStandardTypeSubst t True of
                Some Subst \<Rightarrow> after (put_subst ''S'' Subst True) (\<lambda>_. yields True)
              | None \<Rightarrow> yields False)))))"

definition trySubstitution :: "node \<Rightarrow> bool \<Rightarrow> bool rm" where
  "trySubstitution nd treatAsIdentifier =
     after (mangleStandardSubstitution nd) (\<lambda>standard.
       if standard then yields True
       else (\<lambda>s. case findSubstitution (nd, treatAsIdentifier) s of
           None \<Rightarrow> Inr (False, s)
         | Some Idx \<Rightarrow>
             after (if Idx \<ge> 26 then put (''A'' @ mangleIndex (Idx - 26))
                    else put_subst ''A'' [char_of (Idx + ord (CHR ''A''))] False) (\<lambda>_. yields True) s))"

text \<open>
  The pattern of the functions that substitute: \<open>m\<close> writes the node, which becomes an entry.
\<close>

definition substituted :: "node \<Rightarrow> bool \<Rightarrow> unit rm \<Rightarrow> unit rm" where
  "substituted nd treatAsIdentifier m =
     after (trySubstitution nd treatAsIdentifier) (\<lambda>found.
       if found then yields () else steps [m, addSubstitution (nd, treatAsIdentifier)])"

section \<open>Identifiers\<close>

definition put_identifier :: "string \<Rightarrow> unit rm" where
  "put_identifier ident s =
     (case mangleIdentifier ident (Out s) of None \<Rightarrow> Inl Undefined | Some M \<Rightarrow> Inr ((), s\<lparr>Out := M\<rparr>))"

definition mangleIdentifierImpl :: "node \<Rightarrow> bool \<Rightarrow> unit rm" where
  "mangleIdentifierImpl nd isOperator =
     substituted nd True
       (with_text nd (\<lambda>t. put_identifier (if isOperator then translateOperator t else t)))"

end
