(* ===== verification/Remangler_Nodes.thy ===== *)
theory Remangler_Nodes
  imports Remangler_State
begin

text \<open>
  The functions of \<open>Remangler\<close> (\<open>lib/Demangling/Remangler.cpp\<close>) that others call, and the larger ones of the
  switch, in the order of the file. \<open>rec\<close> is \<open>mangle\<close>, called with a depth that is greater than the one of the
  function; the functions that call themselves without it go to smaller trees.
\<close>

type_synonym remangle = "node \<Rightarrow> nat \<Rightarrow> unit rm"

section \<open>Children\<close>

definition mangleChildNodes :: "remangle \<Rightarrow> node \<Rightarrow> nat \<Rightarrow> unit rm" where
  "mangleChildNodes rec nd depth = steps (map (\<lambda>c. rec c depth) (getChildren nd))"

definition mangleChildNodesReversed :: "remangle \<Rightarrow> node \<Rightarrow> nat \<Rightarrow> unit rm" where
  "mangleChildNodesReversed rec nd depth = steps (map (\<lambda>c. rec c depth) (rev (getChildren nd)))"

definition mangleSingleChildNode :: "remangle \<Rightarrow> node \<Rightarrow> nat \<Rightarrow> unit rm" where
  "mangleSingleChildNode rec nd depth =
     (if getNumChildren nd \<noteq> 1 then failed_at MultipleChildNodes nd else with_child nd 0 (\<lambda>c. rec c depth))"

definition mangleChildNode :: "remangle \<Rightarrow> node \<Rightarrow> nat \<Rightarrow> nat \<Rightarrow> unit rm" where
  "mangleChildNode rec nd index depth =
     (if index < getNumChildren nd then with_child nd index (\<lambda>c. rec c depth) else yields ())"

definition mangleFunctionSignature :: "remangle \<Rightarrow> node \<Rightarrow> nat \<Rightarrow> unit rm" where
  "mangleFunctionSignature rec FuncType depth = mangleChildNodesReversed rec FuncType depth"

text \<open>The loops that write a separator after the first element, and those that mark an empty list too.\<close>

definition put_separated :: "(node \<Rightarrow> unit rm) \<Rightarrow> node list \<Rightarrow> unit rm" where
  "put_separated m ns = (case ns of [] \<Rightarrow> yields () | n # ns \<Rightarrow> steps ([m n, put ''_''] @ map m ns))"

definition mangleEndOfList :: "node list \<Rightarrow> unit rm" where
  "mangleEndOfList ns = provided (ns = []) (put ''y'')"

definition mangleType :: "remangle \<Rightarrow> node \<Rightarrow> nat \<Rightarrow> unit rm" where
  "mangleType rec nd depth = mangleSingleChildNode rec nd (depth + 1)"

definition mangleTypeList :: "remangle \<Rightarrow> node \<Rightarrow> nat \<Rightarrow> unit rm" where
  "mangleTypeList rec nd depth =
     steps [put_separated (\<lambda>c. rec c (depth + 1)) (getChildren nd), mangleEndOfList (getChildren nd)]"

definition manglePureProtocol :: "remangle \<Rightarrow> node \<Rightarrow> nat \<Rightarrow> unit rm" where
  "manglePureProtocol rec Proto depth =
     skipType Proto (\<lambda>Proto.
       after (mangleStandardSubstitution Proto) (\<lambda>standard.
         unless standard (mangleChildNodes rec Proto depth)))"

definition pure_single_child :: "remangle \<Rightarrow> node \<Rightarrow> nat \<Rightarrow> unit rm" where
  "pure_single_child rec nd depth = getSingleChild nd (\<lambda>c. manglePureProtocol rec c depth)"

text \<open>The children and an operator.\<close>

definition children_then :: "remangle \<Rightarrow> node \<Rightarrow> nat \<Rightarrow> string \<Rightarrow> unit rm" where
  "children_then rec nd depth op = steps [mangleChildNodes rec nd (depth + 1), put op]"

definition single_then :: "remangle \<Rightarrow> node \<Rightarrow> nat \<Rightarrow> string \<Rightarrow> unit rm" where
  "single_then rec nd depth op = steps [mangleSingleChildNode rec nd (depth + 1), put op]"

definition reversed_then :: "remangle \<Rightarrow> node \<Rightarrow> nat \<Rightarrow> string \<Rightarrow> unit rm" where
  "reversed_then rec nd depth op = steps [mangleChildNodesReversed rec nd (depth + 1), put op]"

section \<open>Identifiers and parameters\<close>

definition mangleIdentifier_node :: "node \<Rightarrow> unit rm" where
  "mangleIdentifier_node nd = mangleIdentifierImpl nd False"

definition mangleDependentGenericParamIndex :: "node \<Rightarrow> string \<Rightarrow> char \<Rightarrow> unit rm" where
  "mangleDependentGenericParamIndex nd nonZeroPrefix zeroOp =
     with_child nd 0 (\<lambda>d. with_index d (\<lambda>paramDepth.
     with_child nd 1 (\<lambda>i. with_index i (\<lambda>index.
       if paramDepth \<noteq> 0 then
         steps [put (nonZeroPrefix @ ''d''), put_index (paramDepth - 1), put_index index]
       else if index \<noteq> 0 then steps [put nonZeroPrefix, put_index (index - 1)]
       else put [zeroOp]))))"

text \<open>
  The chain of members of a dependent member type, from the outermost, with the type at its end; \<open>None\<close> is a
  child that is missing or that is not as the code asserts.
\<close>

function member_chain :: "node \<Rightarrow> (node list \<times> node) option" where
  "member_chain nd =
     (if getKind nd \<noteq> K_DependentMemberType then Some ([], nd)
      else case (getChild nd 1, getFirstChild nd) of
        (Some member, Some type) \<Rightarrow>
          (if getKind type \<noteq> K_Type then None
           else case getChildren type of
             [inner] \<Rightarrow> map_option (\<lambda>(Chain, end). (member # Chain, end)) (member_chain inner)
           | _ \<Rightarrow> None)
      | _ \<Rightarrow> None)"
  by pat_completeness auto

lemma only_child_smaller: "getChildren n = [c] \<Longrightarrow> size c < size n"
  by (rule child_smaller) simp

termination member_chain
  by (relation "measure size") (auto dest!: sym [of "Some _"] first_child_smaller only_child_smaller)

declare member_chain.simps [simp del]

text \<open>The number of members and the parameter at the end, if it is one; \<open>-1\<close> for a substitution.\<close>

definition mangleConstrainedType :: "remangle \<Rightarrow> node \<Rightarrow> nat \<Rightarrow> (int \<times> node option) rm" where
  "mangleConstrainedType rec nd depth =
     skipType nd (\<lambda>nd.
       after (trySubstitution nd False) (\<lambda>found.
         if found then yields (-1, None)
         else case member_chain nd of
           None \<Rightarrow> failed Undefined
         | Some (Chain, end) \<Rightarrow>
             let is_param = (getKind end = K_DependentGenericParamType) in
             after (unless is_param (rec end (depth + 1))) (\<lambda>_.
               if \<not> is_param \<and> Chain = [] then yields (-1, None)
               else
                 let members = map (\<lambda>m. rec m (depth + 1)) (rev Chain) in
                 after (steps ((if length Chain > 1 then [hd members, put ''_''] @ tl members else members)
                         @ (if Chain \<noteq> [] then [addSubstitution (nd, False)] else [])))
                   (\<lambda>_. yields (int (length Chain), if is_param then Some end else None)))))"

section \<open>Nominal types\<close>

definition mangleAnyGenericType :: "remangle \<Rightarrow> node \<Rightarrow> string \<Rightarrow> nat \<Rightarrow> unit rm" where
  "mangleAnyGenericType rec nd TypeOp depth =
     substituted nd False (steps [mangleChildNodes rec nd (depth + 1), put TypeOp])"

definition generic_entities :: "Kind list" where
  "generic_entities =
     [K_Function, K_Getter, K_Setter, K_WillSet, K_DidSet, K_ReadAccessor, K_ModifyAccessor, K_UnsafeAddressor,
      K_UnsafeMutableAddressor, K_Allocator, K_Constructor, K_Destructor, K_Variable, K_Subscript,
      K_ExplicitClosure, K_ImplicitClosure, K_DefaultArgumentInitializer, K_Initializer,
      K_PropertyWrapperBackingInitializer, K_PropertyWrapperInitFromProjectedValue, K_Static]"

definition bound_generic_types :: "Kind list" where
  "bound_generic_types =
     [K_BoundGenericOtherNominalType, K_BoundGenericStructure, K_BoundGenericEnum, K_BoundGenericClass,
      K_BoundGenericProtocol, K_BoundGenericTypeAlias]"

text \<open>
  \<open>Separator\<close> is passed by reference: the result is its value afterwards. \<open>generic_args_of\<close> is the end of the
  cases of bound generic types.
\<close>

definition generic_args_of :: "remangle \<Rightarrow> node \<Rightarrow> nat \<Rightarrow> char rm \<Rightarrow> char rm" where
  "generic_args_of rec nd depth parent =
     after parent (\<lambda>Separator.
     after (steps [put [Separator], with_child nd 1 (\<lambda>args. mangleChildNodes rec args (depth + 1))]) (\<lambda>_.
     yields (CHR ''_'')))"

function mangleGenericArgs :: "remangle \<Rightarrow> node \<Rightarrow> char \<Rightarrow> nat \<Rightarrow> bool \<Rightarrow> char rm" where
  "mangleGenericArgs rec nd Separator depth fullSubstitutionMap =
     (let k = getKind nd in
      if k \<in> {K_Protocol, K_Structure, K_Enum, K_Class, K_TypeAlias} then
        (case getChild nd 0 of
           None \<Rightarrow> failed Undefined
         | Some parent \<Rightarrow>
             after (mangleGenericArgs rec parent Separator (depth + 1) (fullSubstitutionMap \<or> k = K_TypeAlias))
               (\<lambda>Separator. after (put [Separator]) (\<lambda>_. yields (CHR ''_''))))
      else if k \<in> set generic_entities then
        (if \<not> fullSubstitutionMap then yields Separator
         else case getChild nd 0 of
           None \<Rightarrow> failed Undefined
         | Some parent \<Rightarrow>
             after (mangleGenericArgs rec parent Separator (depth + 1) fullSubstitutionMap) (\<lambda>Separator.
               if nodeConsumesGenericArgs k then after (put [Separator]) (\<lambda>_. yields (CHR ''_''))
               else yields Separator))
      else if k \<in> set bound_generic_types then
        (case getChild nd 0 of
           None \<Rightarrow> failed Undefined
         | Some unboundType \<Rightarrow>
             if getKind unboundType \<noteq> K_Type then failed_at AssertionFailed_error nd
             else (case getChild unboundType 0 of
               None \<Rightarrow> failed Undefined
             | Some nominalType \<Rightarrow>
                 (case getChild nominalType 0 of
                    None \<Rightarrow> failed Undefined
                  | Some parentOrModule \<Rightarrow>
                      generic_args_of rec nd depth
                        (mangleGenericArgs rec parentOrModule Separator (depth + 1)
                          (fullSubstitutionMap \<or> k = K_BoundGenericTypeAlias)))))
      else if k = K_BoundGenericFunction then
        (case getChild nd 0 of
           None \<Rightarrow> failed Undefined
         | Some unboundFunction \<Rightarrow>
             if getKind unboundFunction \<notin> {K_Function, K_Constructor} then failed_at AssertionFailed_error nd
             else (case getChild unboundFunction 0 of
               None \<Rightarrow> failed Undefined
             | Some parentOrModule \<Rightarrow>
                 generic_args_of rec nd depth (mangleGenericArgs rec parentOrModule Separator (depth + 1) True)))
      else if k = K_Extension then
        (case getChild nd 1 of
           None \<Rightarrow> failed Undefined
         | Some extended \<Rightarrow> mangleGenericArgs rec extended Separator (depth + 1) fullSubstitutionMap)
      else yields Separator)"
  by pat_completeness auto

lemma child_at_smaller: "getChild n i = Some c \<Longrightarrow> size c < size n"
  by (rule child_smaller) (auto simp: getChild_def getNumChildren_def split: if_splits)

termination mangleGenericArgs
  by (relation "measure (\<lambda>(_, nd, _). size nd)") (auto dest!: child_at_smaller)

declare mangleGenericArgs.simps [simp del]

definition nominal_ops :: "(Kind \<times> string) list" where
  "nominal_ops =
     [(K_Structure, ''V''), (K_Enum, ''O''), (K_Class, ''C''), (K_OtherNominalType, ''XY''), (K_TypeAlias, ''a'')]"

abbreviation Remangler_MaxDepth :: nat where
  "Remangler_MaxDepth \<equiv> 1024"

function mangleAnyNominalType :: "remangle \<Rightarrow> node \<Rightarrow> nat \<Rightarrow> unit rm" where
  "mangleAnyNominalType rec nd depth =
     (if depth > Remangler_MaxDepth then failed_at TooComplex nd
      else if isSpecialized nd then
        substituted nd False
          (case getUnspecialized nd of
             Inl e \<Rightarrow> failed (unspecialize_failure e)
           | Inr unboundType \<Rightarrow>
               steps
                 [mangleAnyNominalType rec unboundType (depth + 1),
                  after (mangleGenericArgs rec nd (CHR ''y'') (depth + 1) False) (\<lambda>_. yields ()),
                  provided (getNumChildren nd = 3) (with_child nd 2 (\<lambda>listNode. mangleChildNodes rec listNode (depth + 1))),
                  put ''G''])
      else case map_of nominal_ops (getKind nd) of
        Some TypeOp \<Rightarrow> mangleAnyGenericType rec nd TypeOp depth
      | None \<Rightarrow> failed_at BadNominalTypeKind_error nd)"
  by pat_completeness auto

termination mangleAnyNominalType
  by (relation "measure (\<lambda>(_, nd, _). size nd)") (auto dest: getUnspecialized_smaller)

declare mangleAnyNominalType.simps [simp del]

end
