(* ===== verification/Remangler_Types.thy ===== *)
theory Remangler_Types
  imports Remangler_Nodes
begin

text \<open>
  The larger functions of \<open>Remangler\<close> (\<open>lib/Demangling/Remangler.cpp\<close>) for entities, types and specializations,
  in the order of the file.
\<close>

section \<open>Entities\<close>

definition storage_letters :: "(Kind \<times> string) list" where
  "storage_letters = [(K_Subscript, ''i''), (K_Variable, ''v'')]"

definition mangleAbstractStorage :: "remangle \<Rightarrow> node \<Rightarrow> string \<Rightarrow> nat \<Rightarrow> unit rm" where
  "mangleAbstractStorage rec nd accessorCode depth =
     steps
       [mangleChildNodes rec nd (depth + 1),
        (case map_of storage_letters (getKind nd) of
           Some letter \<Rightarrow> put letter
         | None \<Rightarrow> failed_at NotAStorageNode nd),
        put accessorCode]"

text \<open>An accessor, whose first child is the storage.\<close>

definition first_storage :: "remangle \<Rightarrow> node \<Rightarrow> string \<Rightarrow> nat \<Rightarrow> unit rm" where
  "first_storage rec nd accessorCode depth =
     with_node (getFirstChild nd) (\<lambda>c. mangleAbstractStorage rec c accessorCode (depth + 1))"

definition mangleArgumentTuple :: "remangle \<Rightarrow> node \<Rightarrow> nat \<Rightarrow> unit rm" where
  "mangleArgumentTuple rec nd depth =
     getSingleChild nd (\<lambda>c. skipType c (\<lambda>Child.
       if getKind Child = K_Tuple \<and> getNumChildren Child = 0 then put ''y'' else rec Child (depth + 1)))"

definition mangleAnyConstructor :: "remangle \<Rightarrow> node \<Rightarrow> char \<Rightarrow> nat \<Rightarrow> unit rm" where
  "mangleAnyConstructor rec nd kindOp depth = steps [mangleChildNodes rec nd (depth + 1), put [CHR ''f'', kindOp]]"

definition mangleFunction :: "remangle \<Rightarrow> node \<Rightarrow> nat \<Rightarrow> unit rm" where
  "mangleFunction rec nd depth =
     steps
       [mangleChildNode rec nd 0 (depth + 1),
        mangleChildNode rec nd 1 (depth + 1),
        with_child nd 2 (\<lambda>c.
          let hasLabels = (getKind c = K_LabelList) in
          with_child nd (if hasLabels then 3 else 2) (\<lambda>type. getSingleChild type (\<lambda>FuncType.
            steps
              [provided hasLabels (mangleChildNode rec nd 2 (depth + 1)),
               (if getKind FuncType = K_DependentGenericType then
                  steps
                    [with_child FuncType 1 (\<lambda>t. getSingleChild t (\<lambda>sig. mangleFunctionSignature rec sig (depth + 1))),
                     mangleChildNode rec FuncType 0 (depth + 1)]
                else mangleFunctionSignature rec FuncType (depth + 1))]))),
        put ''F'']"

section \<open>Bound generic types\<close>

text \<open>Whether the type is \<open>Swift.Optional\<close>; the nodes are read as far as the conditions hold.\<close>

definition is_optional :: "node \<Rightarrow> (bool \<Rightarrow> 'a rm) \<Rightarrow> 'a rm" where
  "is_optional Enum f =
     with_child Enum 0 (\<lambda>Mod. with_child Enum 1 (\<lambda>Id.
       if getKind Mod \<noteq> K_Module then f False
       else with_text Mod (\<lambda>m.
         if m \<noteq> STDLIB_NAME \<or> getKind Id \<noteq> K_Identifier then f False
         else with_text Id (\<lambda>i. f (i = ''Optional'')))))"

definition mangleBoundGenericEnum :: "remangle \<Rightarrow> node \<Rightarrow> nat \<Rightarrow> unit rm" where
  "mangleBoundGenericEnum rec nd depth =
     with_child nd 0 (\<lambda>t. with_child t 0 (\<lambda>Enum.
       if getKind Enum \<noteq> K_Enum then failed_at AssertionFailed_error nd
       else is_optional Enum (\<lambda>opt.
         if opt then
           substituted nd False
             (steps [with_child nd 1 (\<lambda>args. mangleSingleChildNode rec args (depth + 1)), put ''Sg''])
         else mangleAnyNominalType rec nd (depth + 1))))"

definition mangleBoundGenericFunction :: "remangle \<Rightarrow> node \<Rightarrow> nat \<Rightarrow> unit rm" where
  "mangleBoundGenericFunction rec nd depth =
     substituted nd False
       (case getUnspecialized nd of
          Inl e \<Rightarrow> failed (unspecialize_failure e)
        | Inr unboundFunction \<Rightarrow>
            steps
              [mangleFunction rec unboundFunction (depth + 1),
               after (mangleGenericArgs rec nd (CHR ''y'') (depth + 1) False) (\<lambda>_. yields ()),
               put ''G''])"

section \<open>Builtin types\<close>

definition builtin_type_letters :: "(string \<times> char) list" where
  "builtin_type_letters =
     [(''BridgeObject'', CHR ''b''), (''UnsafeValueBuffer'', CHR ''B''), (''UnknownObject'', CHR ''O''),
      (''NativeObject'', CHR ''o''), (''RawPointer'', CHR ''p''), (''RawUnsafeContinuation'', CHR ''c''),
      (''Job'', CHR ''j''), (''DefaultActorStorage'', CHR ''D''), (''Executor'', CHR ''e''), (''SILToken'', CHR ''t''),
      (''IntLiteral'', CHR ''I''), (''Word'', CHR ''w'')]"

text \<open>The element type after the \<open>x\<close> of the name of a vector.\<close>

definition vector_element :: "node \<Rightarrow> string \<Rightarrow> unit rm" where
  "vector_element nd element =
     (if element = ''RawPointer'' then put ''p''
      else if startswith element ''FPIEEE'' then put (''f'' @ drop 6 element @ ''_'')
      else if startswith element ''Int'' then put (''i'' @ drop 3 element @ ''_'')
      else failed_at UnexpectedBuiltinVectorType nd)"

definition mangleBuiltinTypeName :: "node \<Rightarrow> unit rm" where
  "mangleBuiltinTypeName nd =
     steps
       [put ''B'',
        with_text nd (\<lambda>t.
          if \<not> startswith t BUILTIN_TYPE_NAME_PREFIX then failed_at UnexpectedBuiltinType nd
          else
            let name = drop (length BUILTIN_TYPE_NAME_PREFIX) t in
            case map_of builtin_type_letters name of
              Some letter \<Rightarrow> put [letter]
            | None \<Rightarrow>
                if startswith name ''Int'' then put (''i'' @ drop 3 name @ ''_'')
                else if startswith name ''FPIEEE'' then put (''f'' @ drop 6 name @ ''_'')
                else if startswith name ''Vec'' then
                  let v = drop 3 name; size = takeWhile (\<lambda>c. c \<noteq> CHR ''x'') v in
                  steps [vector_element nd (drop (length size + 1) v), put (''Bv'' @ size @ ''_'')]
                else failed_at UnexpectedBuiltinType nd)]"

section \<open>Functions with Clang types\<close>

definition mangleClangType :: "node \<Rightarrow> unit rm" where
  "mangleClangType nd = with_text nd (\<lambda>t. put (show_nat (length t) @ t))"

definition clang_function :: "remangle \<Rightarrow> node \<Rightarrow> nat \<Rightarrow> string \<Rightarrow> string \<Rightarrow> unit rm" where
  "clang_function rec nd depth clang_op op =
     (case getChildren nd of
        c # cs \<Rightarrow>
          if getKind c = K_ClangType
          then steps (map (\<lambda>c. rec c (depth + 1)) (rev cs) @ [put clang_op, mangleClangType c])
          else reversed_then rec nd depth op
      | [] \<Rightarrow> reversed_then rec nd depth op)"

section \<open>Requirements\<close>

text \<open>The operators for a substitution, a parameter, a member and a chain of members.\<close>

definition constraint_op :: "string list \<Rightarrow> int \<Rightarrow> string" where
  "constraint_op ops n = (if n = -1 then ops ! 0 else if n = 0 then ops ! 1 else if n = 1 then ops ! 2 else ops ! 3)"

definition mangle_constraint :: "remangle \<Rightarrow> node \<Rightarrow> string list \<Rightarrow> nat \<Rightarrow> unit rm" where
  "mangle_constraint rec nd ops depth =
     with_child nd 0 (\<lambda>c.
       after (mangleConstrainedType rec c (depth + 1)) (\<lambda>(NumMembers, ParamIdx).
         steps
           [asserted (NumMembers < 0 \<or> ParamIdx \<noteq> None) nd,
            put (constraint_op ops NumMembers),
            unless (NumMembers = -1) (with_node ParamIdx (\<lambda>p. mangleDependentGenericParamIndex p [] (CHR ''z'')))]))"

definition mangleDependentGenericConformanceRequirement :: "remangle \<Rightarrow> node \<Rightarrow> nat \<Rightarrow> unit rm" where
  "mangleDependentGenericConformanceRequirement rec nd depth =
     with_child nd 1 (\<lambda>ProtoOrClass. with_node (getFirstChild ProtoOrClass) (\<lambda>first.
       if getKind first = K_Protocol then
         steps [manglePureProtocol rec ProtoOrClass (depth + 1), mangle_constraint rec nd [''RQ'', ''R'', ''Rp'', ''RP''] depth]
       else
         steps [rec ProtoOrClass (depth + 1), mangle_constraint rec nd [''RB'', ''Rb'', ''Rc'', ''RC''] depth]))"

definition mangleDependentGenericSameTypeRequirement :: "remangle \<Rightarrow> node \<Rightarrow> nat \<Rightarrow> unit rm" where
  "mangleDependentGenericSameTypeRequirement rec nd depth =
     steps [mangleChildNode rec nd 1 (depth + 1), mangle_constraint rec nd [''RS'', ''Rs'', ''Rt'', ''RT''] depth]"

definition mangleDependentGenericLayoutRequirement :: "remangle \<Rightarrow> node \<Rightarrow> nat \<Rightarrow> unit rm" where
  "mangleDependentGenericLayoutRequirement rec nd depth =
     steps
       [mangle_constraint rec nd [''RL'', ''Rl'', ''Rm'', ''RM''] depth,
        with_child nd 1 (\<lambda>layout.
          if getKind layout \<noteq> K_Identifier then failed_at AssertionFailed_error nd
          else with_text layout (\<lambda>t. if length t \<noteq> 1 then failed_at AssertionFailed_error nd else put t)),
        provided (getNumChildren nd \<ge> 3) (mangleChildNode rec nd 2 (depth + 1)),
        provided (getNumChildren nd \<ge> 4) (mangleChildNode rec nd 3 (depth + 1))]"

definition mangleDependentGenericParamType :: "node \<Rightarrow> unit rm" where
  "mangleDependentGenericParamType nd =
     with_child nd 0 (\<lambda>d. with_index d (\<lambda>paramDepth.
       let other = steps [put ''q'', mangleDependentGenericParamIndex nd [] (CHR ''z'')] in
       if paramDepth \<noteq> 0 then other
       else with_child nd 1 (\<lambda>i. with_index i (\<lambda>index. if index = 0 then put ''x'' else other))))"

text \<open>How many parameters a depth has, and the position after the last such node.\<close>

definition put_param_count :: "node \<Rightarrow> unit rm" where
  "put_param_count Count = with_index Count (\<lambda>i. if i > 0 then put_index (i - 1) else put ''z'')"

definition ParamCountEnd :: "node list \<Rightarrow> nat" where
  "ParamCountEnd ns = length (dropWhile (\<lambda>c. getKind c \<noteq> K_DependentGenericParamCount) (rev ns))"

definition mangleDependentGenericSignature :: "remangle \<Rightarrow> node \<Rightarrow> nat \<Rightarrow> unit rm" where
  "mangleDependentGenericSignature rec nd depth =
     (let ns = getChildren nd;
          n = ParamCountEnd ns;
          counts = steps ([put ''r''] @ map put_param_count (take n ns) @ [put ''l''])
      in steps
        (map (\<lambda>c. rec c (depth + 1)) (filter (\<lambda>c. getKind c \<noteq> K_DependentGenericParamCount) ns)
         @ [if n = 1 then with_child nd 0 (\<lambda>c. with_index c (\<lambda>i. if i = 1 then put ''l'' else counts)) else counts]))"

definition mangleDependentMemberType :: "remangle \<Rightarrow> node \<Rightarrow> nat \<Rightarrow> unit rm" where
  "mangleDependentMemberType rec nd depth =
     after (mangleConstrainedType rec nd (depth + 1)) (\<lambda>(NumMembers, ParamIdx).
       if NumMembers = -1 then yields ()
       else if NumMembers = 0 then failed_at WrongDependentMemberType nd
       else if NumMembers = 1 then
         steps [put ''Q'', (case ParamIdx of Some dependentBase \<Rightarrow> mangleDependentGenericParamIndex dependentBase ''y'' (CHR ''z'')
                            | None \<Rightarrow> put ''x'')]
       else
         steps [put ''Q'', (case ParamIdx of Some dependentBase \<Rightarrow> mangleDependentGenericParamIndex dependentBase ''Y'' (CHR ''Z'')
                            | None \<Rightarrow> put ''X'')])"

end
