(* ===== verification/Remangler_Signatures.thy ===== *)
theory Remangler_Signatures
  imports Remangler_Types
begin

text \<open>
  Specializations, lowered function types, protocol conformances and thunks of \<open>Remangler\<close>
  (\<open>lib/Demangling/Remangler.cpp\<close>), in the order of the file.
\<close>

section \<open>Function signature specializations\<close>

text \<open>A string that starts with a digit or an underscore gets an underscore in front.\<close>

definition escaped_string :: "node \<Rightarrow> node" where
  "escaped_string TextNd =
     (case TextNd of
        TextNode _ (c # cs) \<Rightarrow>
          if isDigit c \<or> c = CHR ''_'' then TextNode K_Identifier (CHR ''_'' # c # cs) else TextNd
      | _ \<Rightarrow> TextNd)"

definition mangle_spec_payload :: "remangle \<Rightarrow> node \<Rightarrow> nat \<Rightarrow> unit rm" where
  "mangle_spec_payload rec Param depth =
     provided (getKind Param = K_FunctionSignatureSpecializationParam \<and> getNumChildren Param > 0)
       (with_child Param 0 (\<lambda>KindNd. with_index KindNd (\<lambda>i.
         let kind = low32 i in
         if kind \<in> {FSS_ConstantPropFunction, FSS_ConstantPropGlobal} then
           with_child Param 1 mangleIdentifier_node
         else if kind = FSS_ConstantPropString then
           with_child Param 2 (\<lambda>TextNd. with_text TextNd (\<lambda>_. mangleIdentifier_node (escaped_string TextNd)))
         else if kind = FSS_ClosureProp then
           steps
             ([with_child Param 1 mangleIdentifier_node]
              @ map (\<lambda>t. mangleType rec t (depth + 1)) (drop 2 (getChildren Param)))
         else yields ())))"

definition mangleFunctionSignatureSpecialization :: "remangle \<Rightarrow> node \<Rightarrow> nat \<Rightarrow> unit rm" where
  "mangleFunctionSignatureSpecialization rec nd depth =
     steps
       (map (\<lambda>Param. mangle_spec_payload rec Param depth) (getChildren nd)
        @ [put ''Tf'']
        @ map (\<lambda>Child. steps
            [provided (getKind Child = K_FunctionSignatureSpecializationReturn) (put ''_''),
             rec Child (depth + 1),
             provided (getKind Child = K_SpecializationPassID \<and> hasIndex nd) (with_index nd (\<lambda>i. put (show_u64 i)))])
          (getChildren nd)
        @ [provided (\<forall>Child \<in> set (getChildren nd). getKind Child \<noteq> K_FunctionSignatureSpecializationReturn)
             (put ''_n'')])"

definition encoding_letters :: "(string \<times> char) list" where
  "encoding_letters = [(''u8'', CHR ''b''), (''u16'', CHR ''w''), (''objc'', CHR ''c'')]"

definition has_flag :: "u64 \<Rightarrow> u64 \<Rightarrow> bool" where
  "has_flag kindValue flag \<longleftrightarrow> kindValue AND flag \<noteq> 0"

definition ownership_letters :: "u64 \<Rightarrow> string" where
  "ownership_letters kindValue =
     (if has_flag kindValue FSS_OwnedToGuaranteed then ''G'' else [])
     @ (if has_flag kindValue FSS_GuaranteedToOwned then ''O'' else [])"

definition option_letters :: "u64 \<Rightarrow> string" where
  "option_letters kindValue =
     (if has_flag kindValue FSS_ExistentialToGeneric then
        ''e'' @ (if has_flag kindValue FSS_Dead then ''D'' else []) @ ownership_letters kindValue
      else if has_flag kindValue FSS_Dead then ''d'' @ ownership_letters kindValue
      else if has_flag kindValue FSS_OwnedToGuaranteed then ''g''
      else if has_flag kindValue FSS_GuaranteedToOwned then ''o''
      else [])
     @ (if has_flag kindValue FSS_SROA then ''X'' else [])"

definition mangleFunctionSignatureSpecializationParam :: "node \<Rightarrow> unit rm" where
  "mangleFunctionSignatureSpecializationParam nd =
     (if getNumChildren nd = 0 then put ''n''
      else with_child nd 0 (\<lambda>KindNd. with_index KindNd (\<lambda>i.
        let kind = low32 i in
        if kind = FSS_ConstantPropFunction then put ''pf''
        else if kind = FSS_ConstantPropGlobal then put ''pg''
        else if kind = FSS_ConstantPropInteger then with_child nd 1 (\<lambda>c. with_text c (\<lambda>t. put (''pi'' @ t)))
        else if kind = FSS_ConstantPropFloat then with_child nd 1 (\<lambda>c. with_text c (\<lambda>t. put (''pd'' @ t)))
        else if kind = FSS_ConstantPropString then
          steps
            [put ''ps'',
             with_child nd 1 (\<lambda>c. with_text c (\<lambda>encodingStr.
               case map_of encoding_letters encodingStr of
                 Some letter \<Rightarrow> put [letter]
               | None \<Rightarrow> failed_at UnknownEncoding nd))]
        else if kind = FSS_ClosureProp then put ''c''
        else if kind = FSS_BoxToValue then put ''i''
        else if kind = FSS_BoxToStack then put ''s''
        else if kind = FSS_SROA then put ''x''
        else put (option_letters kind))))"

section \<open>Generic specializations\<close>

definition mangleGenericPartialSpecialization :: "remangle \<Rightarrow> node \<Rightarrow> nat \<Rightarrow> unit rm" where
  "mangleGenericPartialSpecialization rec nd depth =
     steps
       ([case find (\<lambda>c. getKind c = K_GenericSpecializationParam) (getChildren nd) of
           Some Child \<Rightarrow> mangleChildNode rec Child 0 (depth + 1)
         | None \<Rightarrow> yields (),
         put (if getKind nd = K_GenericPartialSpecializationNotReAbstracted then ''TP'' else ''Tp'')]
        @ map (\<lambda>c. rec c (depth + 1)) (filter (\<lambda>c. getKind c \<noteq> K_GenericSpecializationParam) (getChildren nd)))"

definition mangleGenericSpecializationNode :: "remangle \<Rightarrow> node \<Rightarrow> string \<Rightarrow> nat \<Rightarrow> unit rm" where
  "mangleGenericSpecializationNode rec nd operatorStr depth =
     (let params = filter (\<lambda>c. getKind c = K_GenericSpecializationParam) (getChildren nd) in
      steps
       ([put_separated (\<lambda>Child. mangleChildNode rec Child 0 (depth + 1)) params,
         asserted (params \<noteq> []) nd,
         put operatorStr]
        @ map (\<lambda>c. rec c (depth + 1)) (filter (\<lambda>c. getKind c \<noteq> K_GenericSpecializationParam) (getChildren nd))))"

section \<open>Global symbols\<close>

definition reversed_attributes :: "Kind list" where
  "reversed_attributes =
     [K_FunctionSignatureSpecialization, K_GenericSpecialization, K_GenericSpecializationPrespecialized,
      K_GenericSpecializationNotReAbstracted, K_GenericSpecializationInResilienceDomain, K_InlinedGenericFunction,
      K_GenericPartialSpecialization, K_GenericPartialSpecializationNotReAbstracted, K_OutlinedBridgedMethod,
      K_OutlinedVariable, K_ObjCAttribute, K_NonObjCAttribute, K_DynamicAttribute, K_VTableAttribute,
      K_DirectMethodReferenceAttribute, K_MergedFunction, K_DistributedThunk, K_DistributedMethodAccessor,
      K_DynamicallyReplaceableFunctionKey, K_DynamicallyReplaceableFunctionImpl,
      K_DynamicallyReplaceableFunctionVar, K_AsyncFunctionPointer, K_AsyncAwaitResumePartialFunction,
      K_AsyncSuspendResumePartialFunction, K_AccessibleFunctionRecord]"

text \<open>\<open>earlier\<close> are the children before, from the last one: what \<open>ReverseIter\<close> goes over.\<close>

fun global_children :: "remangle \<Rightarrow> nat \<Rightarrow> node list \<Rightarrow> bool \<Rightarrow> node list \<Rightarrow> unit rm" where
  "global_children rec depth earlier mangleInReverseOrder [] = yields ()"
| "global_children rec depth earlier mangleInReverseOrder (Child # cs) =
     (if getKind Child \<in> set reversed_attributes then global_children rec depth (Child # earlier) True cs
      else steps
        [rec Child (depth + 1),
         provided mangleInReverseOrder (steps (map (\<lambda>c. rec c (depth + 1)) earlier)),
         global_children rec depth (Child # earlier) False cs])"

definition mangleGlobal :: "remangle \<Rightarrow> node \<Rightarrow> nat \<Rightarrow> unit rm" where
  "mangleGlobal rec nd depth = steps [put ''$s'', global_children rec depth [] False (getChildren nd)]"

section \<open>Lowered function types\<close>

text \<open>A text that is looked up in a \<open>StringSwitch\<close>.\<close>

definition put_switch :: "(string \<times> char) list \<Rightarrow> node \<Rightarrow> mangling_error \<Rightarrow> node \<Rightarrow> unit rm" where
  "put_switch table nd error at =
     with_text nd (\<lambda>t. case map_of table t of Some c \<Rightarrow> put [c] | None \<Rightarrow> failed_at error at)"

definition callee_letters :: "(string \<times> char) list" where
  "callee_letters = [(''@callee_unowned'', CHR ''y''), (''@callee_guaranteed'', CHR ''g''), (''@callee_owned'', CHR ''x'')]"

definition mangleImplParameterResultDifferentiability :: "node \<Rightarrow> unit rm" where
  "mangleImplParameterResultDifferentiability nd =
     (case node_text nd of
        None \<Rightarrow> failed_at AssertionFailed_error nd
      | Some t \<Rightarrow>
          if t = [] then yields ()
          else if t = ''@noDerivative'' then put ''w''
          else failed_at InvalidImplDifferentiability nd)"

definition function_convention_letters :: "(string \<times> char) list" where
  "function_convention_letters =
     [(''block'', CHR ''B''), (''c'', CHR ''C''), (''method'', CHR ''M''), (''objc_method'', CHR ''O''),
      (''closure'', CHR ''K''), (''witness_method'', CHR ''W'')]"

definition mangleImplFunctionConvention :: "node \<Rightarrow> unit rm" where
  "mangleImplFunctionConvention nd =
     (let name = (case getFirstChild nd of Some (TextNode _ t) \<Rightarrow> t | _ \<Rightarrow> []) in
      case map_of function_convention_letters name of
        None \<Rightarrow> failed_at AssertionFailed_error nd
      | Some FuncAttr \<Rightarrow>
          (case getChild nd 1 of
             Some clang \<Rightarrow>
               if FuncAttr \<in> {CHR ''B'', CHR ''C''} \<and> getKind clang = K_ClangType
               then steps [put [CHR ''z'', FuncAttr], mangleClangType clang]
               else put [FuncAttr]
           | None \<Rightarrow> put [FuncAttr]))"

definition impl_attribute_letters :: "(string \<times> char) list" where
  "impl_attribute_letters =
     [(''@yield_once'', CHR ''A''), (''@yield_many'', CHR ''G''), (''@Sendable'', CHR ''h''), (''@async'', CHR ''H'')]"

definition parameter_letters_impl :: "(string \<times> char) list" where
  "parameter_letters_impl =
     [(''@in'', CHR ''i''), (''@inout'', CHR ''l''), (''@inout_aliasable'', CHR ''b''), (''@in_guaranteed'', CHR ''n''),
      (''@in_constant'', CHR ''c''), (''@owned'', CHR ''x''), (''@guaranteed'', CHR ''g''), (''@deallocating'', CHR ''e''),
      (''@unowned'', CHR ''y'')]"

definition result_letters_impl :: "(string \<times> char) list" where
  "result_letters_impl =
     [(''@out'', CHR ''r''), (''@owned'', CHR ''o''), (''@unowned'', CHR ''d''), (''@unowned_inner_pointer'', CHR ''u''),
      (''@autoreleased'', CHR ''a'')]"

definition put_impl_convention :: "(string \<times> char) list \<Rightarrow> node \<Rightarrow> unit rm" where
  "put_impl_convention table Child =
     steps
       [with_node (getFirstChild Child) (\<lambda>c. put_switch table c InvalidImplParameterConvention c),
        provided (getNumChildren Child = 3) (with_child Child 1 mangleImplParameterResultDifferentiability)]"

text \<open>The second loop over the children: their letters.\<close>

definition impl_letter :: "node \<Rightarrow> unit rm" where
  "impl_letter Child =
     (let k = getKind Child in
      if k = K_ImplDifferentiabilityKind then put_index_char Child
      else if k = K_ImplEscaping then put ''e''
      else if k = K_ImplConvention then
        put_switch (callee_letters @ [(''@convention(thin)'', CHR ''t'')]) Child InvalidImplCalleeConvention Child
      else if k = K_ImplFunctionConvention then mangleImplFunctionConvention Child
      else if k = K_ImplFunctionAttribute then put_switch impl_attribute_letters Child InvalidImplFunctionAttribute Child
      else if k = K_ImplYield then steps [put ''Y'', put_impl_convention parameter_letters_impl Child]
      else if k = K_ImplParameter then put_impl_convention parameter_letters_impl Child
      else if k = K_ImplErrorResult then steps [put ''z'', put_impl_convention result_letters_impl Child]
      else if k = K_ImplResult then put_impl_convention result_letters_impl Child
      else yields ())"

text \<open>The first loop: the types of parameters and results, which are their last children.\<close>

definition impl_type :: "remangle \<Rightarrow> node \<Rightarrow> nat \<Rightarrow> node \<Rightarrow> unit rm" where
  "impl_type rec nd depth Child =
     provided (getKind Child \<in> {K_ImplParameter, K_ImplResult, K_ImplYield, K_ImplErrorResult})
       (steps
         [asserted (getNumChildren Child \<in> {2, 3}) nd,
          with_node (getLastChild Child) (\<lambda>c. rec c (depth + 1))])"

definition last_of :: "Kind set \<Rightarrow> node \<Rightarrow> node option" where
  "last_of ks nd = find (\<lambda>c. getKind c \<in> ks) (rev (getChildren nd))"

section \<open>Protocol conformances\<close>

definition mangleDependentConformanceIndex :: "node \<Rightarrow> unit rm" where
  "mangleDependentConformanceIndex nd =
     steps
       [asserted (getKind nd \<in> {K_Index, K_UnknownIndex}) nd,
        asserted (hasIndex nd = (getKind nd = K_Index)) nd,
        put_index (case nd of IndexNode _ i \<Rightarrow> i + 2 | _ \<Rightarrow> 1)]"

definition mangleDependentProtocolConformanceRoot :: "remangle \<Rightarrow> node \<Rightarrow> nat \<Rightarrow> unit rm" where
  "mangleDependentProtocolConformanceRoot rec nd depth =
     steps
       [with_child nd 0 (\<lambda>c. mangleType rec c (depth + 1)),
        with_child nd 1 (\<lambda>c. manglePureProtocol rec c (depth + 1)),
        put ''HD'',
        with_child nd 2 mangleDependentConformanceIndex]"

definition mangleDependentAssociatedConformance :: "remangle \<Rightarrow> node \<Rightarrow> nat \<Rightarrow> unit rm" where
  "mangleDependentAssociatedConformance rec nd depth =
     steps
       [with_child nd 0 (\<lambda>c. mangleType rec c (depth + 1)),
        with_child nd 1 (\<lambda>c. manglePureProtocol rec c (depth + 1))]"

text \<open>
  The functions that call each other over the conformances inside a conformance; \<open>any\<close> is
  \<open>mangleAnyProtocolConformance\<close>. Each goes to a smaller tree, so the size of the tree is enough as fuel.
\<close>

definition mangleAnyProtocolConformanceList_with :: "remangle \<Rightarrow> node \<Rightarrow> nat \<Rightarrow> unit rm" where
  "mangleAnyProtocolConformanceList_with any nd depth =
     steps [put_separated (\<lambda>c. any c (depth + 1)) (getChildren nd), mangleEndOfList (getChildren nd)]"

definition mangleConcreteProtocolConformance_with :: "remangle \<Rightarrow> remangle \<Rightarrow> node \<Rightarrow> nat \<Rightarrow> unit rm" where
  "mangleConcreteProtocolConformance_with any rec nd depth =
     steps
       [with_child nd 0 (\<lambda>c. mangleType rec c (depth + 1)),
        with_child nd 1 (\<lambda>c. rec c (depth + 1)),
        (if getNumChildren nd > 2
         then with_child nd 2 (\<lambda>c. mangleAnyProtocolConformanceList_with any c (depth + 1))
         else put ''y''),
        put ''HC'']"

definition mangleDependentProtocolConformanceInherited_with :: "remangle \<Rightarrow> remangle \<Rightarrow> node \<Rightarrow> nat \<Rightarrow> unit rm" where
  "mangleDependentProtocolConformanceInherited_with any rec nd depth =
     steps
       [with_child nd 0 (\<lambda>c. any c (depth + 1)),
        with_child nd 1 (\<lambda>c. manglePureProtocol rec c (depth + 1)),
        put ''HI'',
        with_child nd 2 mangleDependentConformanceIndex]"

definition mangleDependentProtocolConformanceAssociated_with :: "remangle \<Rightarrow> remangle \<Rightarrow> node \<Rightarrow> nat \<Rightarrow> unit rm" where
  "mangleDependentProtocolConformanceAssociated_with any rec nd depth =
     steps
       [with_child nd 0 (\<lambda>c. any c (depth + 1)),
        with_child nd 1 (\<lambda>c. mangleDependentAssociatedConformance rec c (depth + 1)),
        put ''HA'',
        with_child nd 2 mangleDependentConformanceIndex]"

fun conformance_rec :: "nat \<Rightarrow> remangle \<Rightarrow> remangle" where
  "conformance_rec 0 rec nd depth = failed Out_Of_Fuel"
| "conformance_rec (Suc n) rec nd depth =
     (let k = getKind nd; any = conformance_rec n rec in
      if k = K_ConcreteProtocolConformance then mangleConcreteProtocolConformance_with any rec nd (depth + 1)
      else if k = K_DependentProtocolConformanceRoot then mangleDependentProtocolConformanceRoot rec nd (depth + 1)
      else if k = K_DependentProtocolConformanceInherited then
        mangleDependentProtocolConformanceInherited_with any rec nd (depth + 1)
      else if k = K_DependentProtocolConformanceAssociated then
        mangleDependentProtocolConformanceAssociated_with any rec nd (depth + 1)
      else yields ())"

definition mangleAnyProtocolConformance :: "remangle \<Rightarrow> node \<Rightarrow> nat \<Rightarrow> unit rm" where
  "mangleAnyProtocolConformance rec nd depth = conformance_rec (size nd + 1) rec nd depth"

definition mangleRetroactiveConformance :: "remangle \<Rightarrow> node \<Rightarrow> nat \<Rightarrow> unit rm" where
  "mangleRetroactiveConformance rec nd depth =
     steps
       [with_child nd 1 (\<lambda>c. mangleAnyProtocolConformance rec c (depth + 1)),
        put ''g'',
        with_child nd 0 (\<lambda>c. with_index c put_index)]"

definition mangleProtocolConformance :: "remangle \<Rightarrow> node \<Rightarrow> nat \<Rightarrow> unit rm" where
  "mangleProtocolConformance rec nd depth =
     with_child nd 0 (\<lambda>t. getChildOfType t (\<lambda>Ty.
       let generic = (getKind Ty = K_DependentGenericType) in
       with_node (if generic then getChild Ty 1 else Some Ty) (\<lambda>Inner.
         steps
           [rec Inner (depth + 1),
            provided (getNumChildren nd = 4) (mangleChildNode rec nd 3 (depth + 1)),
            with_child nd 1 (\<lambda>c. manglePureProtocol rec c (depth + 1)),
            mangleChildNode rec nd 2 (depth + 1),
            provided generic (with_node (getFirstChild Ty) (\<lambda>GenSig. rec GenSig (depth + 1)))])))"

definition mangleImplFunctionType :: "remangle \<Rightarrow> node \<Rightarrow> nat \<Rightarrow> unit rm" where
  "mangleImplFunctionType rec nd depth =
     (let GenSig = last_of {K_DependentGenericSignature, K_DependentPseudogenericSignature} nd;
          PseudoGeneric = (last_of {K_DependentPseudogenericSignature} nd \<noteq> None);
          PatternSubs = last_of {K_ImplPatternSubstitutions} nd;
          InvocationSubs = last_of {K_ImplInvocationSubstitutions} nd
      in steps
        (map (impl_type rec nd depth) (getChildren nd)
         @ [(case GenSig of None \<Rightarrow> yields () | Some sig \<Rightarrow> rec sig (depth + 1)),
            (case InvocationSubs of
               None \<Rightarrow> yields ()
             | Some subs \<Rightarrow>
                 steps
                   [put ''y'',
                    with_child subs 0 (\<lambda>c. mangleChildNodes rec c (depth + 1)),
                    provided (getNumChildren subs \<ge> 2)
                      (with_child subs 1 (\<lambda>c. mangleRetroactiveConformance rec c (depth + 1)))]),
            (case PatternSubs of
               None \<Rightarrow> yields ()
             | Some subs \<Rightarrow>
                 steps
                   [with_child subs 0 (\<lambda>c. rec c (depth + 1)),
                    put ''y'',
                    with_child subs 1 (\<lambda>c. mangleChildNodes rec c (depth + 1)),
                    provided (getNumChildren subs \<ge> 3)
                      (with_child subs 2 (\<lambda>retroactiveConf.
                        if getKind retroactiveConf = K_TypeList then mangleChildNodes rec retroactiveConf (depth + 1)
                        else mangleRetroactiveConformance rec retroactiveConf (depth + 1)))]),
            put (''I'' @ (if PatternSubs \<noteq> None then ''s'' else []) @ (if InvocationSubs \<noteq> None then ''I'' else [])
                 @ (if PseudoGeneric then ''P'' else []))]
         @ map impl_letter (getChildren nd)
         @ [put ''_'']))"

end
