(* ===== verification/Remangler_Thunks.thy ===== *)
theory Remangler_Thunks
  imports Remangler_Signatures
begin

text \<open>
  Protocol lists, thunks of automatic differentiation, boxes and opaque types of \<open>Remangler\<close>
  (\<open>lib/Demangling/Remangler.cpp\<close>), in the order of the file.
\<close>

section \<open>Protocol lists\<close>

definition mangleProtocolList :: "remangle \<Rightarrow> node \<Rightarrow> node option \<Rightarrow> bool \<Rightarrow> nat \<Rightarrow> unit rm" where
  "mangleProtocolList rec nd superclass hasExplicitAnyObject depth =
     getSingleChild nd (\<lambda>protocols.
       if getKind protocols \<noteq> K_TypeList then failed Undefined
       else steps
         [put_separated (\<lambda>Child. manglePureProtocol rec Child (depth + 1)) (getChildren protocols),
          mangleEndOfList (getChildren protocols),
          (case superclass of
             Some c \<Rightarrow> steps [mangleType rec c (depth + 1), put ''Xc'']
           | None \<Rightarrow> put (if hasExplicitAnyObject then ''Xl'' else ''p''))])"

section \<open>Automatic differentiation\<close>

text \<open>The children up to one of a kind, and the first child of the rest.\<close>

definition before_kind :: "Kind \<Rightarrow> node \<Rightarrow> node list" where
  "before_kind k nd = takeWhile (\<lambda>c. getKind c \<noteq> k) (getChildren nd)"

definition from_kind :: "Kind \<Rightarrow> node \<Rightarrow> node list" where
  "from_kind k nd = dropWhile (\<lambda>c. getKind c \<noteq> k) (getChildren nd)"

definition mangleAutoDiffFunctionOrSimpleThunk :: "remangle \<Rightarrow> node \<Rightarrow> string \<Rightarrow> nat \<Rightarrow> unit rm" where
  "mangleAutoDiffFunctionOrSimpleThunk rec nd op depth =
     steps
       (map (\<lambda>c. rec c (depth + 1)) (before_kind K_AutoDiffFunctionKind nd)
        @ [put op,
           (case from_kind K_AutoDiffFunctionKind nd of
              kind # parameters # results # _ \<Rightarrow>
                steps [rec kind (depth + 1), rec parameters (depth + 1), put ''p'', rec results (depth + 1), put ''r'']
            | cs \<Rightarrow> steps (map (\<lambda>c. rec c (depth + 1)) cs @ [failed Undefined]))])"

definition mangleAutoDiffSelfReorderingReabstractionThunk :: "remangle \<Rightarrow> node \<Rightarrow> nat \<Rightarrow> unit rm" where
  "mangleAutoDiffSelfReorderingReabstractionThunk rec nd depth =
     (case getChildren nd of
        from_type # to_type # rest \<Rightarrow>
          steps
            [rec from_type (depth + 1),
             rec to_type (depth + 1),
             (case rest of
                [] \<Rightarrow> failed Undefined
              | c # cs \<Rightarrow>
                  if getKind c = K_DependentGenericSignature then
                    steps
                      [mangleDependentGenericSignature rec c (depth + 1),
                       put ''TJO'',
                       (case cs of [] \<Rightarrow> failed Undefined | kind # _ \<Rightarrow> rec kind (depth + 1))]
                  else steps [put ''TJO'', rec c (depth + 1)])]
      | cs \<Rightarrow> steps (map (\<lambda>c. rec c (depth + 1)) cs @ [failed Undefined]))"

definition mangleAutoDiffSubsetParametersThunk :: "remangle \<Rightarrow> node \<Rightarrow> nat \<Rightarrow> unit rm" where
  "mangleAutoDiffSubsetParametersThunk rec nd depth =
     steps
       (map (\<lambda>c. rec c (depth + 1)) (before_kind K_AutoDiffFunctionKind nd)
        @ [put ''TJS'',
           (case from_kind K_AutoDiffFunctionKind nd of
              kind # parameters # results # to_parameters # _ \<Rightarrow>
                steps
                  [rec kind (depth + 1), rec parameters (depth + 1), put ''p'', rec results (depth + 1), put ''r'',
                   rec to_parameters (depth + 1), put ''P'']
            | cs \<Rightarrow> steps (map (\<lambda>c. rec c (depth + 1)) cs @ [failed Undefined]))])"

definition mangleDifferentiabilityWitness :: "remangle \<Rightarrow> node \<Rightarrow> nat \<Rightarrow> unit rm" where
  "mangleDifferentiabilityWitness rec nd depth =
     steps
       (map (\<lambda>c. rec c (depth + 1)) (before_kind K_Index nd)
        @ [with_node (getLastChild nd) (\<lambda>c.
             provided (getKind c = K_DependentGenericSignature) (rec c (depth + 1))),
           (case from_kind K_Index nd of
              kind # parameters # results # _ \<Rightarrow>
                steps
                  [put ''WJ'', put_index_char kind, rec parameters (depth + 1), put ''p'',
                   rec results (depth + 1), put ''r'']
            | _ \<Rightarrow> failed Undefined)])"

definition mangleKeyPathThunkHelper :: "remangle \<Rightarrow> node \<Rightarrow> string \<Rightarrow> nat \<Rightarrow> unit rm" where
  "mangleKeyPathThunkHelper rec nd op depth =
     steps
       (map (\<lambda>c. rec c (depth + 1)) (filter (\<lambda>c. getKind c \<noteq> K_IsSerialized) (getChildren nd))
        @ [put op]
        @ map (\<lambda>c. rec c (depth + 1)) (filter (\<lambda>c. getKind c = K_IsSerialized) (getChildren nd)))"

section \<open>Value witnesses\<close>

text \<open>A number out of the table leaves \<open>Code\<close> null, of which \<open>StringRef\<close> makes the empty string.\<close>

definition mangleValueWitness :: "remangle \<Rightarrow> node \<Rightarrow> nat \<Rightarrow> unit rm" where
  "mangleValueWitness rec nd depth =
     steps
       [mangleChildNode rec nd 1 (depth + 1),
        with_node (getFirstChild nd) (\<lambda>c. with_index c (\<lambda>i.
          put (''w'' @ (if unat (low32 i) < length value_witnesses then fst (value_witnesses ! unat (low32 i)) else []))))]"

section \<open>Boxes\<close>

text \<open>The type of a field in the layout of a box; a mutable field is marked by \<open>inout\<close>.\<close>

definition box_field_type :: "node \<Rightarrow> node rm" where
  "box_field_type field =
     (if getKind field \<notin> {K_SILBoxImmutableField, K_SILBoxMutableField} then failed_at AssertionFailed_error field
      else case getChildren field of
        [fieldType] \<Rightarrow>
          if getKind fieldType \<noteq> K_Type then failed_at AssertionFailed_error field
          else if getKind field = K_SILBoxMutableField then
            with_child fieldType 0 (\<lambda>t. yields (Node K_Type [Node K_InOut [t]]))
          else yields fieldType
      | _ \<Rightarrow> failed_at AssertionFailed_error field)"

fun box_field_types :: "node list \<Rightarrow> node list rm" where
  "box_field_types [] = yields []"
| "box_field_types (field # rest) =
     after (box_field_type field) (\<lambda>t. after (box_field_types rest) (\<lambda>ts. yields (t # ts)))"

definition mangleSILBoxTypeWithLayout :: "remangle \<Rightarrow> node \<Rightarrow> nat \<Rightarrow> unit rm" where
  "mangleSILBoxTypeWithLayout rec nd depth =
     (if getNumChildren nd \<notin> {1, 3} then failed_at AssertionFailed_error nd
      else with_child nd 0 (\<lambda>layout.
        if getKind layout \<noteq> K_SILBoxLayout then failed_at AssertionFailed_error nd
        else after (box_field_types (getChildren layout)) (\<lambda>types.
          steps
            [mangleTypeList rec (Node K_TypeList types) (depth + 1),
             (if getNumChildren nd = 3 then
                with_child nd 1 (\<lambda>signature. with_child nd 2 (\<lambda>genericArgs.
                  steps
                    [asserted (getKind signature = K_DependentGenericSignature) nd,
                     asserted (getKind genericArgs = K_TypeList) nd,
                     mangleTypeList rec genericArgs (depth + 1),
                     mangleDependentGenericSignature rec signature (depth + 1),
                     put ''XX'']))
              else put ''Xx'')])))"

section \<open>Paths and opaque types\<close>

definition mangleAssocTypePath :: "remangle \<Rightarrow> node \<Rightarrow> nat \<Rightarrow> unit rm" where
  "mangleAssocTypePath rec nd depth = put_separated (\<lambda>c. rec c (depth + 1)) (getChildren nd)"

fun opaque_generics :: "remangle \<Rightarrow> nat \<Rightarrow> char \<Rightarrow> node list \<Rightarrow> unit rm" where
  "opaque_generics rec depth mark [] = yields ()"
| "opaque_generics rec depth mark (g # gs) =
     steps [put [mark], mangleChildNodes rec g (depth + 1), opaque_generics rec depth (CHR ''_'') gs]"

definition mangleOpaqueType :: "remangle \<Rightarrow> node \<Rightarrow> nat \<Rightarrow> unit rm" where
  "mangleOpaqueType rec nd depth =
     substituted nd False
       (steps
         [with_child nd 0 (\<lambda>c. rec c (depth + 1)),
          with_child nd 2 (\<lambda>boundGenerics. opaque_generics rec depth (CHR ''y'') (getChildren boundGenerics)),
          provided (getNumChildren nd \<ge> 4)
            (with_child nd 3 (\<lambda>retroactiveConformances. mangleChildNodes rec retroactiveConformances (depth + 1))),
          put ''Qo'',
          with_child nd 1 (\<lambda>c. with_index c put_index)])"

section \<open>Symbolic references\<close>

text \<open>What a reference resolves to, if anything, is mangled in its place.\<close>

definition mangle_resolved :: "(u64 \<Rightarrow> node option) \<Rightarrow> remangle \<Rightarrow> node \<Rightarrow> nat \<Rightarrow> unit rm" where
  "mangle_resolved Resolver rec nd depth =
     with_index nd (\<lambda>i. with_node (Resolver i) (\<lambda>n. rec n (depth + 1)))"

end
