(* ===== verification/Remangler.thy ===== *)
theory Remangler
  imports Remangler_Thunks
begin

text \<open>
  The switch of \<open>Remangler::mangle\<close> (\<open>lib/Demangling/Remangler.cpp\<close>) over the kinds of nodes, cut into
  \<open>remangle_cases_1\<close> to \<open>remangle_cases_19\<close> in the order of the functions in the file, and \<open>mangleNode\<close>. Every call
  of \<open>mangle\<close> is one level deeper, and the code stops at a depth of 1024, so that 1026 is enough fuel.
\<close>

section \<open>Cases\<close>

definition remangle_cases_1 :: "(u64 \<Rightarrow> node option) \<Rightarrow> remangle \<Rightarrow> node \<Rightarrow> nat \<Rightarrow> unit rm \<Rightarrow> unit rm" where
  "remangle_cases_1 Resolver rec nd depth other =
     (let k = getKind nd in
      if k = K_Allocator then mangleAnyConstructor rec nd (CHR ''C'') (depth + 1)
      else if k = K_ArgumentTuple then mangleArgumentTuple rec nd depth
      else if k = K_AssociatedType then failed_at UnsupportedNodeKind nd
      else if k = K_AssociatedTypeRef then substituted nd False (steps [mangleChildNodes rec nd (depth + 1), put ''Qa''])
      else if k = K_AssociatedTypeDescriptor then children_then rec nd depth ''Tl''
      else if k = K_AssociatedConformanceDescriptor then
        steps
          [with_child nd 0 (\<lambda>c. rec c (depth + 1)), with_child nd 1 (\<lambda>c. rec c (depth + 1)),
           with_child nd 2 (\<lambda>c. manglePureProtocol rec c (depth + 1)), put ''Tn'']
      else if k = K_DefaultAssociatedConformanceAccessor then
        steps
          [with_child nd 0 (\<lambda>c. rec c (depth + 1)), with_child nd 1 (\<lambda>c. rec c (depth + 1)),
           with_child nd 2 (\<lambda>c. manglePureProtocol rec c (depth + 1)), put ''TN'']
      else if k = K_BaseConformanceDescriptor then
        steps
          [with_child nd 0 (\<lambda>c. rec c (depth + 1)), with_child nd 1 (\<lambda>c. manglePureProtocol rec c (depth + 1)),
           put ''Tb'']
      else if k = K_AssociatedTypeMetadataAccessor then children_then rec nd depth ''Wt''
      else if k = K_DefaultAssociatedTypeMetadataAccessor then children_then rec nd depth ''TM''
      else if k = K_AssociatedTypeWitnessTableAccessor then children_then rec nd depth ''WT''
      else if k = K_BaseWitnessTableAccessor then children_then rec nd depth ''Wb''
      else if k = K_AutoClosureType then reversed_then rec nd depth ''XK''
      else if k = K_EscapingAutoClosureType then reversed_then rec nd depth ''XA''
      else if k = K_NoEscapeFunctionType then reversed_then rec nd depth ''XE''
      else if k = K_BoundGenericClass then mangleAnyNominalType rec nd (depth + 1)
      else if k = K_BoundGenericEnum then mangleBoundGenericEnum rec nd depth
      else if k = K_BoundGenericStructure then mangleAnyNominalType rec nd (depth + 1)
      else if k = K_BoundGenericOtherNominalType then mangleAnyNominalType rec nd (depth + 1)
      else other)"

definition remangle_cases_2 :: "(u64 \<Rightarrow> node option) \<Rightarrow> remangle \<Rightarrow> node \<Rightarrow> nat \<Rightarrow> unit rm \<Rightarrow> unit rm" where
  "remangle_cases_2 Resolver rec nd depth other =
     (let k = getKind nd in
      if k = K_BoundGenericProtocol then mangleAnyNominalType rec nd (depth + 1)
      else if k = K_BoundGenericTypeAlias then mangleAnyNominalType rec nd (depth + 1)
      else if k = K_BoundGenericFunction then mangleBoundGenericFunction rec nd depth
      else if k = K_BuiltinTypeName then mangleBuiltinTypeName nd
      else if k = K_CFunctionPointer then clang_function rec nd depth ''XzC'' ''XC''
      else if k = K_Class then mangleAnyNominalType rec nd (depth + 1)
      else if k = K_Constructor then mangleAnyConstructor rec nd (CHR ''c'') depth
      else if k = K_CoroutineContinuationPrototype then children_then rec nd depth ''TC''
      else if k = K_PredefinedObjCAsyncCompletionHandlerImpl then children_then rec nd depth ''TZ''
      else if k = K_ObjCAsyncCompletionHandlerImpl then
        steps
          [mangleChildNode rec nd 0 (depth + 1), mangleChildNode rec nd 1 (depth + 1),
           provided (getNumChildren nd = 4) (mangleChildNode rec nd 3 (depth + 1)),
           put ''Tz'', mangleChildNode rec nd 2 (depth + 1)]
      else if k = K_Deallocator then children_then rec nd depth ''fD''
      else if k = K_DeclContext then mangleSingleChildNode rec nd (depth + 1)
      else other)"

definition remangle_cases_3 :: "(u64 \<Rightarrow> node option) \<Rightarrow> remangle \<Rightarrow> node \<Rightarrow> nat \<Rightarrow> unit rm \<Rightarrow> unit rm" where
  "remangle_cases_3 Resolver rec nd depth other =
     (let k = getKind nd in
      if k = K_DefaultArgumentInitializer then
        steps [mangleChildNode rec nd 0 (depth + 1), put ''fA'', mangleChildNode rec nd 1 (depth + 1)]
      else if k = K_AsyncFunctionPointer then put ''Tu''
      else if k = K_DependentAssociatedTypeRef then
        steps
          [with_node (getFirstChild nd) mangleIdentifier_node,
           provided (getNumChildren nd > 1) (mangleChildNode rec nd 1 (depth + 1))]
      else if k = K_DependentGenericConformanceRequirement then mangleDependentGenericConformanceRequirement rec nd depth
      else if k = K_DependentGenericParamCount then failed_at UnsupportedNodeKind nd
      else if k = K_DependentGenericParamType then mangleDependentGenericParamType nd
      else if k = K_DependentGenericSameTypeRequirement then mangleDependentGenericSameTypeRequirement rec nd depth
      else if k = K_DependentGenericLayoutRequirement then mangleDependentGenericLayoutRequirement rec nd depth
      else other)"

definition remangle_cases_4 :: "(u64 \<Rightarrow> node option) \<Rightarrow> remangle \<Rightarrow> node \<Rightarrow> nat \<Rightarrow> unit rm \<Rightarrow> unit rm" where
  "remangle_cases_4 Resolver rec nd depth other =
     (let k = getKind nd in
      if k = K_DependentGenericSignature then mangleDependentGenericSignature rec nd depth
      else if k = K_DependentGenericType then reversed_then rec nd depth ''u''
      else if k = K_DependentMemberType then mangleDependentMemberType rec nd depth
      else if k = K_DependentPseudogenericSignature then failed_at UnsupportedNodeKind nd
      else if k = K_Destructor then children_then rec nd depth ''fd''
      else if k = K_DidSet then first_storage rec nd ''W'' depth
      else if k = K_Directness then
        with_index nd (\<lambda>i.
          if i = 0 then put ''d'' else if i = 1 then put ''i'' else failed_at BadDirectness nd)
      else if k = K_DynamicAttribute then put ''TD''
      else if k = K_DirectMethodReferenceAttribute then put ''Td''
      else if k = K_DynamicSelf then single_then rec nd depth ''XD''
      else if k = K_Enum then mangleAnyNominalType rec nd (depth + 1)
      else if k = K_ErrorType then put ''Xe''
      else if k = K_ExistentialMetatype then
        with_node (getFirstChild nd) (\<lambda>c.
          if getKind c = K_MetatypeRepresentation then
            steps [mangleChildNode rec nd 1 (depth + 1), put ''Xm'', mangleChildNode rec nd 0 (depth + 1)]
          else single_then rec nd depth ''Xp'')
      else if k = K_ExplicitClosure then
        steps
          [mangleChildNode rec nd 0 (depth + 1), mangleChildNode rec nd 2 (depth + 1), put ''fU'',
           mangleChildNode rec nd 1 (depth + 1)]
      else other)"

definition remangle_cases_5 :: "(u64 \<Rightarrow> node option) \<Rightarrow> remangle \<Rightarrow> node \<Rightarrow> nat \<Rightarrow> unit rm \<Rightarrow> unit rm" where
  "remangle_cases_5 Resolver rec nd depth other =
     (let k = getKind nd in
      if k = K_Extension then
        steps
          [mangleChildNode rec nd 1 (depth + 1), mangleChildNode rec nd 0 (depth + 1),
           provided (getNumChildren nd = 3) (mangleChildNode rec nd 2 (depth + 1)), put ''E'']
      else if k = K_AnonymousContext then
        steps
          [mangleChildNode rec nd 1 (depth + 1), mangleChildNode rec nd 0 (depth + 1),
           (if getNumChildren nd \<ge> 3 then with_child nd 2 (\<lambda>c. mangleTypeList rec c (depth + 1)) else put ''y''),
           put ''XZ'']
      else if k = K_FieldOffset then
        steps [mangleChildNode rec nd 1 (depth + 1), put ''Wv'', mangleChildNode rec nd 0 (depth + 1)]
      else if k = K_EnumCase then single_then rec nd depth ''WC''
      else if k = K_FullTypeMetadata then single_then rec nd depth ''Mf''
      else if k = K_Function then mangleFunction rec nd depth
      else if k = K_FunctionSignatureSpecialization then mangleFunctionSignatureSpecialization rec nd depth
      else if k = K_FunctionSignatureSpecializationReturn then mangleFunctionSignatureSpecializationParam nd
      else other)"

definition remangle_cases_6 :: "(u64 \<Rightarrow> node option) \<Rightarrow> remangle \<Rightarrow> node \<Rightarrow> nat \<Rightarrow> unit rm \<Rightarrow> unit rm" where
  "remangle_cases_6 Resolver rec nd depth other =
     (let k = getKind nd in
      if k = K_FunctionSignatureSpecializationParam then mangleFunctionSignatureSpecializationParam nd
      else if k = K_FunctionSignatureSpecializationParamKind then failed_at UnsupportedNodeKind nd
      else if k = K_FunctionSignatureSpecializationParamPayload then failed_at UnsupportedNodeKind nd
      else if k = K_FunctionType then steps [mangleFunctionSignature rec nd (depth + 1), put ''c'']
      else if k = K_GenericProtocolWitnessTable then single_then rec nd depth ''WG''
      else if k = K_GenericProtocolWitnessTableInstantiationFunction then single_then rec nd depth ''WI''
      else if k = K_ResilientProtocolWitnessTable then single_then rec nd depth ''Wr''
      else if k = K_GenericPartialSpecialization then mangleGenericPartialSpecialization rec nd depth
      else other)"

definition remangle_cases_7 :: "(u64 \<Rightarrow> node option) \<Rightarrow> remangle \<Rightarrow> node \<Rightarrow> nat \<Rightarrow> unit rm \<Rightarrow> unit rm" where
  "remangle_cases_7 Resolver rec nd depth other =
     (let k = getKind nd in
      if k = K_GenericPartialSpecializationNotReAbstracted then mangleGenericPartialSpecialization rec nd (depth + 1)
      else if k = K_GenericSpecialization then mangleGenericSpecializationNode rec nd ''Tg'' (depth + 1)
      else if k = K_GenericSpecializationPrespecialized then mangleGenericSpecializationNode rec nd ''Ts'' (depth + 1)
      else if k = K_GenericSpecializationNotReAbstracted then mangleGenericSpecializationNode rec nd ''TG'' (depth + 1)
      else if k = K_GenericSpecializationInResilienceDomain then mangleGenericSpecializationNode rec nd ''TB'' (depth + 1)
      else if k = K_InlinedGenericFunction then mangleGenericSpecializationNode rec nd ''Ti'' (depth + 1)
      else if k = K_GenericSpecializationParam then failed_at UnsupportedNodeKind nd
      else if k = K_GenericTypeMetadataPattern then single_then rec nd depth ''MP''
      else if k = K_GenericTypeParamDecl then children_then rec nd depth ''fp''
      else if k = K_Getter then first_storage rec nd ''g'' depth
      else if k = K_Global then mangleGlobal rec nd depth
      else if k = K_GlobalGetter then first_storage rec nd ''G'' depth
      else if k = K_Identifier then mangleIdentifier_node nd
      else if k = K_Index then failed_at UnsupportedNodeKind nd
      else if k = K_UnknownIndex then failed_at UnsupportedNodeKind nd
      else other)"

definition remangle_cases_8 :: "(u64 \<Rightarrow> node option) \<Rightarrow> remangle \<Rightarrow> node \<Rightarrow> nat \<Rightarrow> unit rm \<Rightarrow> unit rm" where
  "remangle_cases_8 Resolver rec nd depth other =
     (let k = getKind nd in
      if k = K_IVarInitializer then single_then rec nd depth ''fe''
      else if k = K_IVarDestroyer then single_then rec nd depth ''fE''
      else if k = K_ImplDifferentiabilityKind then put_index_char nd
      else if k = K_ImplEscaping then put ''e''
      else if k = K_ImplConvention then put_switch callee_letters nd InvalidImplCalleeConvention nd
      else if k = K_ImplParameterResultDifferentiability then mangleImplParameterResultDifferentiability nd
      else if k = K_ImplFunctionAttribute then failed_at UnsupportedNodeKind nd
      else if k = K_ImplFunctionConvention then mangleImplFunctionConvention nd
      else if k = K_ImplFunctionConventionName then failed_at UnsupportedNodeKind nd
      else if k = K_ClangType then mangleClangType nd
      else if k = K_ImplInvocationSubstitutions then failed_at UnsupportedNodeKind nd
      else if k = K_ImplPatternSubstitutions then failed_at UnsupportedNodeKind nd
      else other)"

definition remangle_cases_9 :: "(u64 \<Rightarrow> node option) \<Rightarrow> remangle \<Rightarrow> node \<Rightarrow> nat \<Rightarrow> unit rm \<Rightarrow> unit rm" where
  "remangle_cases_9 Resolver rec nd depth other =
     (let k = getKind nd in
      if k = K_ImplFunctionType then mangleImplFunctionType rec nd depth
      else other)"

definition remangle_cases_10 :: "(u64 \<Rightarrow> node option) \<Rightarrow> remangle \<Rightarrow> node \<Rightarrow> nat \<Rightarrow> unit rm \<Rightarrow> unit rm" where
  "remangle_cases_10 Resolver rec nd depth other =
     (let k = getKind nd in
      if k = K_ImplicitClosure then
        steps
          [mangleChildNode rec nd 0 (depth + 1), mangleChildNode rec nd 2 (depth + 1), put ''fu'',
           mangleChildNode rec nd 1 (depth + 1)]
      else if k = K_ImplParameter then failed_at UnsupportedNodeKind nd
      else if k = K_ImplResult then failed_at UnsupportedNodeKind nd
      else if k = K_ImplYield then failed_at UnsupportedNodeKind nd
      else if k = K_ImplErrorResult then failed_at UnsupportedNodeKind nd
      else if k = K_InOut then single_then rec nd depth ''z''
      else if k = K_Isolated then single_then rec nd depth ''Yi''
      else if k = K_Shared then single_then rec nd depth ''h''
      else if k = K_Owned then single_then rec nd depth ''n''
      else if k = K_NoDerivative then single_then rec nd depth ''Yk''
      else if k = K_InfixOperator then steps [mangleIdentifierImpl nd True, put ''oi'']
      else if k = K_Initializer then children_then rec nd depth ''fi''
      else if k = K_PropertyWrapperBackingInitializer then children_then rec nd depth ''fP''
      else if k = K_PropertyWrapperInitFromProjectedValue then children_then rec nd depth ''fW''
      else if k = K_LazyProtocolWitnessTableAccessor then children_then rec nd depth ''Wl''
      else if k = K_LazyProtocolWitnessTableCacheVariable then children_then rec nd depth ''WL''
      else if k = K_LocalDeclName then
        steps [mangleChildNode rec nd 1 (depth + 1), put ''L'', mangleChildNode rec nd 0 (depth + 1)]
      else if k = K_MaterializeForSet then first_storage rec nd ''m'' depth
      else if k = K_Metatype then
        with_node (getFirstChild nd) (\<lambda>c.
          if getKind c = K_MetatypeRepresentation then
            steps [mangleChildNode rec nd 1 (depth + 1), put ''XM'', mangleChildNode rec nd 0 (depth + 1)]
          else single_then rec nd depth ''m'')
      else if k = K_MetatypeRepresentation then
        put_switch [(''@thin'', CHR ''t''), (''@thick'', CHR ''T''), (''@objc_metatype'', CHR ''o'')] nd
          InvalidMetatypeRepresentation nd
      else if k = K_Metaclass then children_then rec nd depth ''Mm''
      else if k = K_ModifyAccessor then first_storage rec nd ''M'' depth
      else other)"

definition remangle_cases_11 :: "(u64 \<Rightarrow> node option) \<Rightarrow> remangle \<Rightarrow> node \<Rightarrow> nat \<Rightarrow> unit rm \<Rightarrow> unit rm" where
  "remangle_cases_11 Resolver rec nd depth other =
     (let k = getKind nd in
      if k = K_Module then
        with_text nd (\<lambda>t.
          if t = STDLIB_NAME then put ''s''
          else if t = MANGLING_MODULE_OBJC then put ''So''
          else if t = MANGLING_MODULE_CLANG_IMPORTER then put ''SC''
          else mangleIdentifier_node nd)
      else if k = K_NativeOwningAddressor then first_storage rec nd ''lo'' depth
      else if k = K_NativeOwningMutableAddressor then first_storage rec nd ''ao'' depth
      else if k = K_NativePinningAddressor then first_storage rec nd ''lp'' depth
      else if k = K_NativePinningMutableAddressor then first_storage rec nd ''aP'' depth
      else if k = K_ClassMetadataBaseOffset then single_then rec nd depth ''Mo''
      else if k = K_NominalTypeDescriptor then single_then rec nd depth ''Mn''
      else if k = K_NominalTypeDescriptorRecord then single_then rec nd depth ''Hn''
      else if k = K_OpaqueTypeDescriptor then single_then rec nd depth ''MQ''
      else if k = K_OpaqueTypeDescriptorRecord then single_then rec nd depth ''Ho''
      else if k = K_OpaqueTypeDescriptorAccessor then single_then rec nd depth ''Mg''
      else if k = K_OpaqueTypeDescriptorAccessorImpl then single_then rec nd depth ''Mh''
      else if k = K_OpaqueTypeDescriptorAccessorKey then single_then rec nd depth ''Mj''
      else if k = K_OpaqueTypeDescriptorAccessorVar then single_then rec nd depth ''Mk''
      else if k = K_PropertyDescriptor then single_then rec nd depth ''MV''
      else if k = K_NonObjCAttribute then put ''TO''
      else if k = K_Tuple then steps [mangleTypeList rec nd (depth + 1), put ''t'']
      else if k = K_Number then with_index nd put_index
      else if k = K_ObjCAttribute then put ''To''
      else if k = K_ObjCBlock then clang_function rec nd depth ''XzB'' ''XB''
      else if k = K_EscapingObjCBlock then reversed_then rec nd depth ''XL''
      else if k = K_OwningAddressor then first_storage rec nd ''lO'' depth
      else other)"

definition remangle_cases_12 :: "(u64 \<Rightarrow> node option) \<Rightarrow> remangle \<Rightarrow> node \<Rightarrow> nat \<Rightarrow> unit rm \<Rightarrow> unit rm" where
  "remangle_cases_12 Resolver rec nd depth other =
     (let k = getKind nd in
      if k = K_OwningMutableAddressor then first_storage rec nd ''aO'' depth
      else if k = K_PartialApplyForwarder then reversed_then rec nd depth ''TA''
      else if k = K_PartialApplyObjCForwarder then reversed_then rec nd depth ''Ta''
      else if k = K_MergedFunction then put ''Tm''
      else if k = K_DistributedThunk then put ''TE''
      else if k = K_DistributedMethodAccessor then put ''TF''
      else if k = K_DynamicallyReplaceableFunctionImpl then put ''TI''
      else if k = K_DynamicallyReplaceableFunctionKey then put ''Tx''
      else if k = K_DynamicallyReplaceableFunctionVar then put ''TX''
      else if k = K_AsyncAwaitResumePartialFunction then steps [put ''TQ'', mangleChildNode rec nd 0 (depth + 1)]
      else if k = K_AsyncSuspendResumePartialFunction then steps [put ''TY'', mangleChildNode rec nd 0 (depth + 1)]
      else if k = K_PostfixOperator then steps [mangleIdentifierImpl nd True, put ''oP'']
      else if k = K_PrefixOperator then steps [mangleIdentifierImpl nd True, put ''op'']
      else if k = K_PrivateDeclName then reversed_then rec nd depth (if getNumChildren nd = 1 then ''Ll'' else ''LL'')
      else if k = K_Protocol then mangleAnyGenericType rec nd ''P'' (depth + 1)
      else if k = K_RetroactiveConformance then mangleRetroactiveConformance rec nd depth
      else if k = K_ProtocolConformance then mangleProtocolConformance rec nd depth
      else if k = K_ProtocolConformanceRefInTypeModule then
        steps [with_child nd 0 (\<lambda>c. manglePureProtocol rec c (depth + 1)), put ''HP'']
      else if k = K_ProtocolConformanceRefInProtocolModule then
        steps [with_child nd 0 (\<lambda>c. manglePureProtocol rec c (depth + 1)), put ''Hp'']
      else if k = K_ProtocolConformanceRefInOtherModule then
        steps
          [with_child nd 0 (\<lambda>c. manglePureProtocol rec c (depth + 1)), mangleChildNode rec nd 1 (depth + 1)]
      else if k = K_ConcreteProtocolConformance then
        mangleConcreteProtocolConformance_with (mangleAnyProtocolConformance rec) rec nd depth
      else other)"

definition remangle_cases_13 :: "(u64 \<Rightarrow> node option) \<Rightarrow> remangle \<Rightarrow> node \<Rightarrow> nat \<Rightarrow> unit rm \<Rightarrow> unit rm" where
  "remangle_cases_13 Resolver rec nd depth other =
     (let k = getKind nd in
      if k = K_DependentProtocolConformanceRoot then mangleDependentProtocolConformanceRoot rec nd depth
      else if k = K_DependentProtocolConformanceInherited then
        mangleDependentProtocolConformanceInherited_with (mangleAnyProtocolConformance rec) rec nd depth
      else if k = K_DependentAssociatedConformance then mangleDependentAssociatedConformance rec nd depth
      else if k = K_DependentProtocolConformanceAssociated then
        mangleDependentProtocolConformanceAssociated_with (mangleAnyProtocolConformance rec) rec nd depth
      else if k = K_AnyProtocolConformanceList then
        mangleAnyProtocolConformanceList_with (mangleAnyProtocolConformance rec) nd depth
      else if k = K_ProtocolDescriptor then steps [pure_single_child rec nd (depth + 1), put ''Mp'']
      else if k = K_ProtocolDescriptorRecord then steps [pure_single_child rec nd (depth + 1), put ''Hr'']
      else if k = K_ProtocolRequirementsBaseDescriptor then steps [pure_single_child rec nd (depth + 1), put ''TL'']
      else if k = K_ProtocolSelfConformanceDescriptor then
        steps [with_child nd 0 (\<lambda>c. manglePureProtocol rec c (depth + 1)), put ''MS'']
      else if k = K_ProtocolConformanceDescriptor then
        steps [with_child nd 0 (\<lambda>c. mangleProtocolConformance rec c (depth + 1)), put ''Mc'']
      else if k = K_ProtocolConformanceDescriptorRecord then
        steps [with_child nd 0 (\<lambda>c. mangleProtocolConformance rec c (depth + 1)), put ''Hc'']
      else if k = K_ProtocolList then mangleProtocolList rec nd None False (depth + 1)
      else if k = K_ProtocolListWithClass then
        with_child nd 0 (\<lambda>list. with_child nd 1 (\<lambda>superclass.
          mangleProtocolList rec list (Some superclass) False (depth + 1)))
      else other)"

definition remangle_cases_14 :: "(u64 \<Rightarrow> node option) \<Rightarrow> remangle \<Rightarrow> node \<Rightarrow> nat \<Rightarrow> unit rm \<Rightarrow> unit rm" where
  "remangle_cases_14 Resolver rec nd depth other =
     (let k = getKind nd in
      if k = K_ProtocolListWithAnyObject then
        with_child nd 0 (\<lambda>list. mangleProtocolList rec list None True (depth + 1))
      else if k = K_ProtocolSelfConformanceWitness then single_then rec nd depth ''TS''
      else if k = K_ProtocolWitness then children_then rec nd depth ''TW''
      else if k = K_ProtocolSelfConformanceWitnessTable then
        steps [with_child nd 0 (\<lambda>c. manglePureProtocol rec c (depth + 1)), put ''WS'']
      else if k = K_ProtocolWitnessTable then single_then rec nd depth ''WP''
      else if k = K_ProtocolWitnessTablePattern then single_then rec nd depth ''Wp''
      else if k = K_ProtocolWitnessTableAccessor then single_then rec nd depth ''Wa''
      else if k = K_ReabstractionThunk then reversed_then rec nd depth ''Tr''
      else if k = K_ReabstractionThunkHelper then reversed_then rec nd depth ''TR''
      else if k = K_ReabstractionThunkHelperWithSelf then reversed_then rec nd depth ''Ty''
      else if k = K_ReabstractionThunkHelperWithGlobalActor then children_then rec nd depth ''TU''
      else if k = K_AutoDiffFunction then mangleAutoDiffFunctionOrSimpleThunk rec nd ''TJ'' (depth + 1)
      else if k = K_AutoDiffDerivativeVTableThunk then mangleAutoDiffFunctionOrSimpleThunk rec nd ''TJV'' (depth + 1)
      else if k = K_AutoDiffSelfReorderingReabstractionThunk then mangleAutoDiffSelfReorderingReabstractionThunk rec nd depth
      else if k = K_AutoDiffSubsetParametersThunk then mangleAutoDiffSubsetParametersThunk rec nd depth
      else if k = K_AutoDiffFunctionKind then put_index_char nd
      else if k = K_DifferentiabilityWitness then mangleDifferentiabilityWitness rec nd depth
      else other)"

definition remangle_cases_15 :: "(u64 \<Rightarrow> node option) \<Rightarrow> remangle \<Rightarrow> node \<Rightarrow> nat \<Rightarrow> unit rm \<Rightarrow> unit rm" where
  "remangle_cases_15 Resolver rec nd depth other =
     (let k = getKind nd in
      if k = K_IndexSubset then with_text nd put
      else if k = K_ReadAccessor then first_storage rec nd ''r'' depth
      else if k = K_KeyPathGetterThunkHelper then mangleKeyPathThunkHelper rec nd ''TK'' (depth + 1)
      else if k = K_KeyPathSetterThunkHelper then mangleKeyPathThunkHelper rec nd ''Tk'' (depth + 1)
      else if k = K_KeyPathEqualsThunkHelper then mangleKeyPathThunkHelper rec nd ''TH'' (depth + 1)
      else if k = K_KeyPathHashThunkHelper then mangleKeyPathThunkHelper rec nd ''Th'' (depth + 1)
      else if k = K_ReturnType then mangleArgumentTuple rec nd (depth + 1)
      else if k = K_RelatedEntityDeclName then
        steps
          [mangleChildNode rec nd 1 (depth + 1),
           with_node (getFirstChild nd) (\<lambda>kindNode. with_text kindNode (\<lambda>t.
             if length t \<noteq> 1 then failed_at MultiByteRelatedEntity kindNode else put (''L'' @ t)))]
      else if k = K_SILBoxType then single_then rec nd depth ''Xb''
      else if k = K_Setter then first_storage rec nd ''s'' depth
      else if k = K_SpecializationPassID then with_index nd (\<lambda>i. put (show_u64 i))
      else if k = K_IsSerialized then put ''q''
      else if k = K_Static then single_then rec nd depth ''Z''
      else if k = K_OtherNominalType then mangleAnyNominalType rec nd (depth + 1)
      else if k = K_Structure then mangleAnyNominalType rec nd (depth + 1)
      else if k = K_Subscript then mangleAbstractStorage rec nd ''p'' (depth + 1)
      else if k = K_Suffix then with_text nd put
      else if k = K_ThinFunctionType then steps [mangleFunctionSignature rec nd (depth + 1), put ''Xf'']
      else if k = K_TupleElement then mangleChildNodesReversed rec nd (depth + 1)
      else if k = K_TupleElementName then mangleIdentifier_node nd
      else if k = K_Type then mangleType rec nd depth
      else if k = K_TypeAlias then mangleAnyNominalType rec nd (depth + 1)
      else if k = K_TypeList then mangleTypeList rec nd depth
      else if k = K_LabelList then if getNumChildren nd = 0 then put ''y'' else mangleChildNodes rec nd (depth + 1)
      else if k = K_TypeMangling then children_then rec nd depth ''D''
      else other)"

definition remangle_cases_16 :: "(u64 \<Rightarrow> node option) \<Rightarrow> remangle \<Rightarrow> node \<Rightarrow> nat \<Rightarrow> unit rm \<Rightarrow> unit rm" where
  "remangle_cases_16 Resolver rec nd depth other =
     (let k = getKind nd in
      if k = K_TypeMetadata then single_then rec nd depth ''N''
      else if k = K_TypeMetadataAccessFunction then single_then rec nd depth ''Ma''
      else if k = K_TypeMetadataInstantiationCache then single_then rec nd depth ''MI''
      else if k = K_TypeMetadataInstantiationFunction then single_then rec nd depth ''Mi''
      else if k = K_TypeMetadataSingletonInitializationCache then single_then rec nd depth ''Ml''
      else if k = K_TypeMetadataCompletionFunction then single_then rec nd depth ''Mr''
      else if k = K_TypeMetadataDemanglingCache then children_then rec nd depth ''MD''
      else if k = K_TypeMetadataLazyCache then children_then rec nd depth ''ML''
      else if k = K_UncurriedFunctionType then steps [mangleFunctionSignature rec nd (depth + 1), put ''c'']
      else if k = K_UnsafeAddressor then first_storage rec nd ''lu'' depth
      else if k = K_UnsafeMutableAddressor then first_storage rec nd ''au'' depth
      else if k = K_ValueWitness then mangleValueWitness rec nd depth
      else if k = K_ValueWitnessTable then single_then rec nd depth ''WV''
      else if k = K_Variable then mangleAbstractStorage rec nd ''p'' (depth + 1)
      else if k = K_VTableAttribute then failed_at UnsupportedNodeKind nd
      else if k = K_VTableThunk then children_then rec nd depth ''TV''
      else if k = K_Weak then single_then rec nd depth ''Xw''
      else if k = K_Unowned then single_then rec nd depth ''Xo''
      else if k = K_Unmanaged then single_then rec nd depth ''Xu''
      else if k = K_WillSet then first_storage rec nd ''w'' depth
      else if k = K_ReflectionMetadataBuiltinDescriptor then single_then rec nd depth ''MB''
      else if k = K_ReflectionMetadataFieldDescriptor then single_then rec nd depth ''MF''
      else if k = K_ReflectionMetadataAssocTypeDescriptor then single_then rec nd depth ''MA''
      else other)"

definition remangle_cases_17 :: "(u64 \<Rightarrow> node option) \<Rightarrow> remangle \<Rightarrow> node \<Rightarrow> nat \<Rightarrow> unit rm \<Rightarrow> unit rm" where
  "remangle_cases_17 Resolver rec nd depth other =
     (let k = getKind nd in
      if k = K_ReflectionMetadataSuperclassDescriptor then single_then rec nd depth ''MC''
      else if k = K_CurryThunk then single_then rec nd depth ''Tc''
      else if k = K_DispatchThunk then single_then rec nd depth ''Tj''
      else if k = K_MethodDescriptor then single_then rec nd depth ''Tq''
      else if k = K_MethodLookupFunction then single_then rec nd depth ''Mu''
      else if k = K_ObjCMetadataUpdateFunction then single_then rec nd depth ''MU''
      else if k = K_ObjCResilientClassStub then single_then rec nd depth ''Ms''
      else if k = K_FullObjCResilientClassStub then single_then rec nd depth ''Mt''
      else if k = K_ConcurrentFunctionType then put ''Yb''
      else if k = K_AsyncAnnotation then put ''Ya''
      else if k = K_DifferentiableFunctionType then steps [put ''Yj'', put_index_char nd]
      else if k = K_GlobalActorFunctionType then children_then rec nd depth ''Yc''
      else if k = K_ThrowsAnnotation then put ''K''
      else if k = K_EmptyList then put ''y''
      else if k = K_FirstElementMarker then put ''_''
      else if k = K_VariadicMarker then put ''d''
      else if k = K_OutlinedCopy then children_then rec nd depth ''WOy''
      else if k = K_OutlinedConsume then children_then rec nd depth ''WOe''
      else if k = K_OutlinedRetain then children_then rec nd depth ''WOr''
      else if k = K_OutlinedRelease then children_then rec nd depth ''WOs''
      else if k = K_OutlinedInitializeWithTake then children_then rec nd depth ''WOb''
      else if k = K_OutlinedInitializeWithCopy then children_then rec nd depth ''WOc''
      else if k = K_OutlinedAssignWithTake then children_then rec nd depth ''WOd''
      else if k = K_OutlinedAssignWithCopy then children_then rec nd depth ''WOf''
      else other)"

definition remangle_cases_18 :: "(u64 \<Rightarrow> node option) \<Rightarrow> remangle \<Rightarrow> node \<Rightarrow> nat \<Rightarrow> unit rm \<Rightarrow> unit rm" where
  "remangle_cases_18 Resolver rec nd depth other =
     (let k = getKind nd in
      if k = K_OutlinedDestroy then children_then rec nd depth ''WOh''
      else if k = K_OutlinedVariable then steps [put ''Tv'', with_index nd put_index]
      else if k = K_OutlinedBridgedMethod then steps [put ''Te'', with_text nd put, put ''_'']
      else if k = K_SILBoxTypeWithLayout then mangleSILBoxTypeWithLayout rec nd depth
      else if k = K_SILBoxLayout then failed_at UnsupportedNodeKind nd
      else if k = K_SILBoxMutableField then failed_at UnsupportedNodeKind nd
      else if k = K_SILBoxImmutableField then failed_at UnsupportedNodeKind nd
      else if k = K_AssocTypePath then mangleAssocTypePath rec nd depth
      else if k = K_ModuleDescriptor then steps [with_child nd 0 (\<lambda>c. rec c (depth + 1)), put ''MXM'']
      else if k = K_ExtensionDescriptor then steps [with_child nd 0 (\<lambda>c. rec c (depth + 1)), put ''MXE'']
      else if k = K_AnonymousDescriptor then
        steps
          [with_child nd 0 (\<lambda>c. rec c (depth + 1)),
           (if getNumChildren nd = 1 then put ''MXX''
            else steps [with_child nd 1 mangleIdentifier_node, put ''MXY''])]
      else if k = K_AssociatedTypeGenericParamRef then
        steps
          [with_child nd 0 (\<lambda>c. mangleType rec c (depth + 1)),
           with_child nd 1 (\<lambda>c. mangleAssocTypePath rec c (depth + 1)), put ''MXA'']
      else if k = K_TypeSymbolicReference then mangle_resolved Resolver rec nd depth
      else if k = K_ProtocolSymbolicReference then mangle_resolved Resolver rec nd depth
      else if k = K_OpaqueTypeDescriptorSymbolicReference then mangle_resolved Resolver rec nd depth
      else if k = K_SugaredOptional then steps [with_child nd 0 (\<lambda>c. mangleType rec c (depth + 1)), put ''XSq'']
      else other)"

definition remangle_cases_19 :: "(u64 \<Rightarrow> node option) \<Rightarrow> remangle \<Rightarrow> node \<Rightarrow> nat \<Rightarrow> unit rm \<Rightarrow> unit rm" where
  "remangle_cases_19 Resolver rec nd depth other =
     (let k = getKind nd in
      if k = K_SugaredArray then steps [with_child nd 0 (\<lambda>c. mangleType rec c (depth + 1)), put ''XSa'']
      else if k = K_SugaredDictionary then
        steps
          [with_child nd 0 (\<lambda>c. mangleType rec c (depth + 1)),
           with_child nd 1 (\<lambda>c. mangleType rec c (depth + 1)), put ''XSD'']
      else if k = K_SugaredParen then steps [with_child nd 0 (\<lambda>c. mangleType rec c (depth + 1)), put ''XSp'']
      else if k = K_OpaqueReturnType then put ''Qr''
      else if k = K_OpaqueReturnTypeOf then steps [with_child nd 0 (\<lambda>c. rec c (depth + 1)), put ''QO'']
      else if k = K_OpaqueType then mangleOpaqueType rec nd depth
      else if k = K_AccessorFunctionReference then failed_at UnsupportedNodeKind nd
      else if k = K_CanonicalSpecializedGenericMetaclass then children_then rec nd depth ''MM''
      else if k = K_CanonicalSpecializedGenericTypeMetadataAccessFunction then single_then rec nd depth ''Mb''
      else if k = K_MetadataInstantiationCache then single_then rec nd depth ''MK''
      else if k = K_NoncanonicalSpecializedGenericTypeMetadata then single_then rec nd depth ''MN''
      else if k = K_NoncanonicalSpecializedGenericTypeMetadataCache then single_then rec nd depth ''MJ''
      else if k = K_CanonicalPrespecializedGenericTypeCachingOnceToken then single_then rec nd depth ''Mz''
      else if k = K_GlobalVariableOnceToken then children_then rec nd depth ''Wz''
      else if k = K_GlobalVariableOnceFunction then children_then rec nd depth ''WZ''
      else if k = K_GlobalVariableOnceDeclList then
        steps (concat (map (\<lambda>c. [rec c (depth + 1), put ''_'']) (getChildren nd)))
      else if k = K_AccessibleFunctionRecord then put ''HF''
      else other)"

text \<open>A kind without a case is an error.\<close>

definition remangle_node :: "(u64 \<Rightarrow> node option) \<Rightarrow> remangle \<Rightarrow> node \<Rightarrow> nat \<Rightarrow> unit rm" where
  "remangle_node Resolver rec nd depth =
     remangle_cases_1 Resolver rec nd depth
     (remangle_cases_2 Resolver rec nd depth
     (remangle_cases_3 Resolver rec nd depth
     (remangle_cases_4 Resolver rec nd depth
     (remangle_cases_5 Resolver rec nd depth
     (remangle_cases_6 Resolver rec nd depth
     (remangle_cases_7 Resolver rec nd depth
     (remangle_cases_8 Resolver rec nd depth
     (remangle_cases_9 Resolver rec nd depth
     (remangle_cases_10 Resolver rec nd depth
     (remangle_cases_11 Resolver rec nd depth
     (remangle_cases_12 Resolver rec nd depth
     (remangle_cases_13 Resolver rec nd depth
     (remangle_cases_14 Resolver rec nd depth
     (remangle_cases_15 Resolver rec nd depth
     (remangle_cases_16 Resolver rec nd depth
     (remangle_cases_17 Resolver rec nd depth
     (remangle_cases_18 Resolver rec nd depth
     (remangle_cases_19 Resolver rec nd depth
     (failed_at BadNodeKind nd)))))))))))))))))))"

section \<open>The remangler\<close>

fun mangle :: "(u64 \<Rightarrow> node option) \<Rightarrow> nat \<Rightarrow> remangle" where
  "mangle Resolver 0 nd depth = failed Out_Of_Fuel"
| "mangle Resolver (Suc n) nd depth =
     (if depth > Remangler_MaxDepth then failed_at TooComplex nd
      else remangle_node Resolver (mangle Resolver n) nd depth)"

definition run_remangler :: "(u64 \<Rightarrow> node option) \<Rightarrow> node \<Rightarrow> remangle_error + unit \<times> remangler" where
  "run_remangler Resolver nd = mangle Resolver (Remangler_MaxDepth + 2) nd 0 new_remangler"

text \<open>A null node is the empty name.\<close>

definition mangleNode_with :: "node option \<Rightarrow> (u64 \<Rightarrow> node option) \<Rightarrow> remangle_error + string" where
  "mangleNode_with nd Resolver =
     (case nd of
        None \<Rightarrow> Inr []
      | Some nd \<Rightarrow>
          (case run_remangler Resolver nd of Inl e \<Rightarrow> Inl e | Inr (_, s) \<Rightarrow> Inr (Buffer (Out s))))"

definition mangleNode :: "node option \<Rightarrow> remangle_error + string" where
  "mangleNode nd = mangleNode_with nd (\<lambda>_. None)"

end
