(* ===== verification/Remangler_Facts.thy ===== *)
theory Remangler_Facts
  imports Remangler Identifier_Roundtrip Demangler_Steps
begin

text \<open>
  The table of substitutions of the remangler as a list, and how the demangler reads what the remangler writes:
  views of the two states that agree, and the identifiers and substitutions that take one pair of views to the
  next.
\<close>

section \<open>Runs\<close>

lemma after_yields: "after m yields = m" "after (yields x) f = f x" "after (after m f) g = after m (\<lambda>x. after (f x) g)"
  by (rule ext, simp add: after_def yields_def split: sum.split prod.split)+

lemma first_of_node [simp]: "getFirstChild (Node k (c # cs)) = Some c"
  by (simp add: getFirstChild_def getChild_def getNumChildren_def)

section \<open>The table of substitutions\<close>

definition table :: "remangler \<Rightarrow> subst_entry list" where
  "table s = InlineSubstitutions s @ map fst (OverflowSubstitutions s)"

text \<open>The indices of the hash table go on from those of the array, which is full if there are any.\<close>

definition table_ok :: "remangler \<Rightarrow> bool" where
  "table_ok s \<longleftrightarrow> length (InlineSubstitutions s) \<le> InlineSubstCapacity
     \<and> (OverflowSubstitutions s \<noteq> [] \<longrightarrow> length (InlineSubstitutions s) = InlineSubstCapacity)
     \<and> map snd (OverflowSubstitutions s)
         = [InlineSubstCapacity..<InlineSubstCapacity + length (OverflowSubstitutions s)]"

lemma position_append:
  "position P (xs @ ys) = (case position P xs of Some i \<Rightarrow> Some i | None \<Rightarrow> map_option ((+) (length xs)) (position P ys))"
  by (induction xs) (cases "position P ys"; auto split: option.split)+

lemma position_None: "position P xs = None \<longleftrightarrow> (\<forall>x \<in> set xs. \<not> P x)"
  by (induction xs) auto

lemma position_Some: "position P xs = Some i \<Longrightarrow> i < length xs \<and> P (xs ! i)"
  by (induction xs arbitrary: i) (auto split: if_splits)

lemma numbered_find:
  "map snd xs = [n..<n + length xs] \<Longrightarrow>
    map_option snd (find (\<lambda>(e, _). P e) xs) = map_option ((+) n) (position P (map fst xs))"
proof (induction xs arbitrary: n)
  case (Cons x xs)
  then have "snd x = n" "map snd xs = [Suc n..<Suc n + length xs]"
    by (simp_all add: upt_conv_Cons del: upt_Suc)
  then show ?case
    using Cons.IH [of "Suc n"] by (auto simp: case_prod_unfold option.map_comp comp_def)
qed simp

lemma findSubstitution_position:
  assumes "table_ok s"
  shows "findSubstitution e s = position (\<lambda>x. same_entry x e) (table s)"
proof -
  have m: "map snd (OverflowSubstitutions s)
      = [InlineSubstCapacity..<InlineSubstCapacity + length (OverflowSubstitutions s)]"
    using assms by (simp add: table_ok_def)
  show ?thesis
  proof (cases "OverflowSubstitutions s = []")
    case True
    then show ?thesis by (simp add: findSubstitution_def table_def split: option.split)
  next
    case False
    then have "length (InlineSubstitutions s) = InlineSubstCapacity" using assms by (simp add: table_ok_def)
    then show ?thesis
      using numbered_find [OF m, of "\<lambda>x. same_entry x e"]
      by (simp add: findSubstitution_def table_def position_append split: option.split)
  qed
qed

lemma addSubstitution_table:
  assumes "table_ok s" and "findSubstitution e s = None"
  shows "\<exists>s'. Remangler_State.addSubstitution e s = Inr ((), s') \<and> Out s' = Out s \<and> SubstMerging s' = SubstMerging s
    \<and> table_ok s' \<and> table s' = table s @ [e]"
proof (cases "length (InlineSubstitutions s) < InlineSubstCapacity")
  case True
  then show ?thesis using assms by (auto simp: Remangler_State.addSubstitution_def table_ok_def table_def)
next
  case False
  then show ?thesis using assms by (auto simp: Remangler_State.addSubstitution_def table_ok_def table_def)
qed

section \<open>Steps of the demangler\<close>

text \<open>The words, the substitutions and the top of the stack of the demangler, before and after some text.\<close>

type_synonym view = "string list \<times> node list \<times> node list"

definition reads_as :: "string \<Rightarrow> view \<Rightarrow> view \<Rightarrow> bool" where
  "reads_as out v v' \<longleftrightarrow>
     (\<forall>d rest st. inside d \<longrightarrow> Words d = fst v \<longrightarrow> Substitutions d = fst (snd v) \<longrightarrow> NodeStack d = snd (snd v) @ st \<longrightarrow>
        drop (Pos d) (Text d) = out @ rest \<longrightarrow>
        (\<exists>k. operator_steps k d (d\<lparr>Pos := Pos d + length out, Words := fst v', Substitutions := fst (snd v'),
           NodeStack := snd (snd v') @ st\<rparr>)))"

lemma operator_steps_trans: "operator_steps j s t \<Longrightarrow> operator_steps k t u \<Longrightarrow> operator_steps (j + k) s u"
  by (induction rule: operator_steps.induct) (auto intro: operator_steps.step)

lemma reads_asI:
  assumes "\<And>d rest st. inside d \<Longrightarrow> Words d = ws \<Longrightarrow> Substitutions d = subs \<Longrightarrow> NodeStack d = pre @ st \<Longrightarrow>
      drop (Pos d) (Text d) = out @ rest \<Longrightarrow> Pos d < length (Text d) \<and>
      run_state demangleOperator d = (Some n, d\<lparr>Pos := Pos d + length out, Words := ws', Substitutions := subs', NodeStack := post @ st\<rparr>)"
  shows "reads_as out (ws, subs, pre) (ws', subs', n # post)"
proof -
  have "\<exists>k. operator_steps k d (d\<lparr>Pos := Pos d + length out, Words := ws', Substitutions := subs', NodeStack := (n # post) @ st\<rparr>)"
    if "inside d" "Words d = ws" "Substitutions d = subs" "NodeStack d = pre @ st" "drop (Pos d) (Text d) = out @ rest"
    for d rest st
    using operator_steps.step [OF operator_step.operator operator_steps.none] assms [OF that] by fastforce
  then show ?thesis by (simp add: reads_as_def)
qed

lemma reads_as_frame: "reads_as out (ws, subs, pre) (ws', subs', post) \<Longrightarrow> reads_as out (ws, subs, pre @ st) (ws', subs', post @ st)"
  by (simp add: reads_as_def)

lemma reads_as_append:
  assumes a: "reads_as a u v" and b: "reads_as b v w"
  shows "reads_as (a @ b) u w"
proof -
  have "\<exists>k. operator_steps k d (d\<lparr>Pos := Pos d + length (a @ b), Words := fst w, Substitutions := fst (snd w),
      NodeStack := snd (snd w) @ st\<rparr>)"
    if d: "inside d" "Words d = fst u" "Substitutions d = fst (snd u)" "NodeStack d = snd (snd u) @ st"
      "drop (Pos d) (Text d) = (a @ b) @ rest" for d rest st
  proof -
    let ?t = "d\<lparr>Pos := Pos d + length a, Words := fst v, Substitutions := fst (snd v), NodeStack := snd (snd v) @ st\<rparr>"
    have "drop (Pos d) (Text d) = a @ b @ rest" using d(5) by simp
    from a [unfolded reads_as_def, rule_format, OF d(1-4) this] obtain j where j: "operator_steps j d ?t" ..
    have "drop (Pos ?t) (Text ?t) = b @ rest" using past_text [of d a "b @ rest"] d(5) by simp
    moreover have "inside ?t" using operator_steps_frame [OF j d(1)] by blast
    ultimately obtain k where "operator_steps k ?t (?t\<lparr>Pos := Pos ?t + length b, Words := fst w,
        Substitutions := fst (snd w), NodeStack := snd (snd w) @ st\<rparr>)"
      using b [unfolded reads_as_def, rule_format, of ?t st rest] by auto
    from operator_steps_trans [OF j this] show ?thesis by (auto simp: add.assoc)
  qed
  then show ?thesis unfolding reads_as_def by blast
qed

section \<open>Reading substitutions\<close>

lemma upper_letter:
  assumes "Idx < 26"
  shows "isUpperLetter (char_of (Idx + 65))" "\<not> isLowerLetter (char_of (Idx + 65))" "char_of (Idx + 65) \<noteq> CHR 0x00"
    "ord (char_of (Idx + 65)) = Idx + 65"
  using assms by (auto simp: isUpperLetter_def isLowerLetter_def of_char_of char_of_eq_iff take_bit_nat_eq_self)

lemma demangleOperator_upper:
  assumes "drop (Pos d) (Text d) = c # rest" and "isUpperLetter c"
  shows "run_state demangleOperator d = run_state (upper_operator c) (d\<lparr>Pos := Suc (Pos d)\<rparr>)"
proof -
  have lt: "Pos d < length (Text d)" and c: "Text d ! Pos d = c"
    using assms(1) by (metis drop_eq_Nil list.distinct(1) not_le, metis nth_via_drop)
  moreover have "char_at d = c" using lt c by (simp add: char_at_def)
  moreover have "13 \<le> ord c" "c \<noteq> CHR 0xFF" using assms(2) by (auto simp: isUpperLetter_def)
  ultimately show ?thesis using assms by (simp add: demangleOperator_def skip_padding_def dm_run)
qed

lemma read_short_substitution:
  assumes "Idx < 26" and "Idx < length subs"
  shows "reads_as (''A'' @ [char_of (Idx + 65)]) (ws, subs, []) (ws, subs, [subs ! Idx])"
proof (rule reads_asI)
  fix d rest st
  let ?c = "char_of (Idx + 65) :: char"
  assume d: "inside d" "Words d = ws" "Substitutions d = subs" "NodeStack d = [] @ st"
    "drop (Pos d) (Text d) = (''A'' @ [?c]) @ rest"
  let ?d = "d\<lparr>Pos := Suc (Pos d)\<rparr>"
  have "Pos ?d < length (Text ?d)" "char_at ?d = ?c"
    using at_text [of ?d "[?c]" rest] past_text [of d "''A''"] d(5) by simp_all
  then have first: "run_state nextChar ?d = (?c, ?d\<lparr>Pos := Pos d + 2\<rparr>)"
    by (simp add: dm_run char_at_def)
  have "run_state demangleOperator d = run_state demangleMultiSubstitutions ?d"
    using demangleOperator_upper [of d "CHR ''A''"] d(5) by (simp add: isUpperLetter_def upper_operator_def)
  then show "Pos d < length (Text d) \<and> run_state demangleOperator d = (Some (subs ! Idx),
      d\<lparr>Pos := Pos d + length (''A'' @ [?c]), Words := ws, Substitutions := subs, NodeStack := [] @ st\<rparr>)"
    using d assms first upper_letter [OF assms(1)] at_text(1) [of d "''A'' @ [?c]" rest]
    by (simp add: demangleMultiSubstitutions_def pushMultiSubstitutions_def run_read_state run_update_state)
qed

lemma read_long_substitution:
  assumes "26 \<le> Idx" and "Idx < length subs" and "length subs \<le> 2147483647"
  shows "reads_as (''A'' @ mangleIndex (Idx - 26)) (ws, subs, []) (ws, subs, [subs ! Idx])"
proof (rule reads_asI)
  fix d rest st
  assume d: "inside d" "Words d = ws" "Substitutions d = subs" "NodeStack d = [] @ st"
    "drop (Pos d) (Text d) = (''A'' @ mangleIndex (Idx - 26)) @ rest"
  let ?d = "d\<lparr>Pos := Suc (Pos d)\<rparr>"
  have d1: "drop (Pos ?d) (Text ?d) = mangleIndex (Idx - 26) @ rest" using past_text [of d "''A''"] d(5) by simp
  have "run_state demangleOperator d = run_state demangleMultiSubstitutions ?d"
    using demangleOperator_upper [of d "CHR ''A''"] d(5) by (simp add: isUpperLetter_def upper_operator_def)
  moreover have "run_state (multi_substitutions_loop (remaining ?d + 1) (-1)) ?d
    = (Some (subs ! Idx), d\<lparr>Pos := Pos d + length (''A'' @ mangleIndex (Idx - 26))\<rparr>)"
  proof (cases "Idx = 26")
    case True
    then have "Pos ?d < length (Text ?d)" "char_at ?d = CHR ''_''"
      using at_text [of ?d "''_''" rest] d1 by (simp_all add: mangleIndex_def)
    then show ?thesis
      using True assms d(3) by (simp add: dm_run char_at_def isLowerLetter_def isUpperLetter_def Let_def mangleIndex_def)
  next
    case False
    let ?n = "show_nat (Idx - 27)"
    let ?d2 = "?d\<lparr>Pos := Suc (Pos d) + length ?n\<rparr>"
    have n: "mangleIndex (Idx - 26) = ?n @ ''_''" using False assms(1) by (simp add: mangleIndex_def)
    have at: "Pos ?d < length (Text ?d)" "isDigit (char_at ?d)"
      using at_text [of ?d ?n "''_'' @ rest"] d1 hd_show_nat by (simp_all add: n)
    obtain g where g: "remaining ?d = Suc g" using at(1) by (cases "remaining ?d") (auto simp: remaining_def)
    have "run_state demangleNatural ?d = (int (Idx - 27), ?d2)"
      using read_number [of ?d "Idx - 27" "''_'' @ rest"] d1 assms by (simp add: n isDigit_def)
    moreover have "Pos ?d2 < length (Text ?d2)" "char_at ?d2 = CHR ''_''"
      using at_text [of ?d2 "''_''" rest] past_text [of ?d ?n] d1 by (simp_all add: n)
    moreover have "unat (word_of_int (int (Idx - 27) + 27) :: 32 word) = Idx"
    proof -
      have "int (Idx - 27) + 27 = int Idx" using assms(1) False by simp
      then show ?thesis using assms(2,3) by (simp add: unat_of_nat take_bit_nat_eq_self)
    qed
    moreover have "\<not> isLowerLetter (char_at ?d)" "\<not> isUpperLetter (char_at ?d)" "char_at ?d \<noteq> CHR ''_''" "char_at ?d \<noteq> CHR 0x00"
      using at(2) by (auto simp: isLowerLetter_def isUpperLetter_def isDigit_def)
    moreover have "\<not> isLowerLetter (CHR ''_'')" "\<not> isUpperLetter (CHR ''_'')"
      by (simp_all add: isLowerLetter_def isUpperLetter_def)
    ultimately show ?thesis
      using at(1) assms d(3) by (simp add: g n dm_run Let_def)
  qed
  ultimately show "Pos d < length (Text d) \<and> run_state demangleOperator d = (Some (subs ! Idx),
      d\<lparr>Pos := Pos d + length (''A'' @ mangleIndex (Idx - 26)), Words := ws, Substitutions := subs, NodeStack := [] @ st\<rparr>)"
    using d(2-4) at_text(1) [OF d(5)]
    by (simp add: demangleMultiSubstitutions_def run_read_state del: multi_substitutions_loop.simps)
qed

section \<open>States that agree\<close>

text \<open>What an entry of the remangler's table is in the demangler's: an identifier, whatever its kind, or a type.\<close>

fun entry_reads :: "subst_entry \<Rightarrow> node \<Rightarrow> bool" where
  "entry_reads (nd, True) m \<longleftrightarrow>
     getKind nd \<in> {K_Identifier, K_Module} \<and> (\<exists>t. node_text nd = Some t \<and> m = TextNode K_Identifier t)"
| "entry_reads (nd, False) m \<longleftrightarrow> m = Node K_Type [nd]"

definition agrees :: "remangler \<Rightarrow> string list \<Rightarrow> node list \<Rightarrow> bool" where
  "agrees s ws subs \<longleftrightarrow> words_written (Out s) ws \<and> table_ok s \<and> list_all2 entry_reads (table s) subs"

text \<open>The last substitution ends before the end of the output, so that the next is not merged with it.\<close>

definition parted :: "remangler \<Rightarrow> bool" where
  "parted s \<longleftrightarrow> lastNumSubsts (SubstMerging s) = 0
     \<or> lastSubstPosition (SubstMerging s) + lastSubstSize (SubstMerging s) < length (Buffer (Out s))"

definition at_end :: "remangler \<Rightarrow> bool" where
  "at_end s \<longleftrightarrow> lastNumSubsts (SubstMerging s) = 0
     \<or> lastSubstPosition (SubstMerging s) + lastSubstSize (SubstMerging s) \<le> length (Buffer (Out s))"

definition swift_name :: "string \<Rightarrow> bool" where
  "swift_name n \<longleftrightarrow> n \<noteq> [] \<and> \<not> isDigit (hd n) \<and> \<not> needsPunycodeEncoding n \<and> length n \<le> 2147483647"

lemma words_written_append: "words_written M ws \<Longrightarrow> words_written (M\<lparr>Buffer := Buffer M @ out\<rparr>) ws"
  using in_buffer_append [of M "length (MWords M)" ws out] by (simp add: words_written_def)

lemma agrees_put: "agrees s ws subs \<Longrightarrow> agrees (s\<lparr>Out := (Out s)\<lparr>Buffer := Buffer (Out s) @ out\<rparr>, SubstMerging := S\<rparr>) ws subs"
  by (simp add: agrees_def words_written_append table_def table_ok_def)

lemma no_operator: "k \<in> {K_Identifier, K_Module} \<Longrightarrow> getCharOfNodeText k = (\<lambda>c. c)"
  by (rule ext) (auto simp: getCharOfNodeText_def)

lemma entry_of_name:
  assumes "same_entry e (TextNode k n, True)" and "entry_reads e m" and "k \<in> {K_Identifier, K_Module}"
  shows "m = TextNode K_Identifier n"
proof -
  obtain nd where e: "e = (nd, True)" using assms(1) by (cases e) (auto simp: same_entry_def)
  moreover obtain k' t where nd: "nd = TextNode k' t" "k' \<in> {K_Identifier, K_Module}" "m = TextNode K_Identifier t"
    using assms(2) e by (cases nd) auto
  ultimately show ?thesis
    using assms(1) no_operator [OF assms(3)] no_operator [OF nd(2)] by (simp add: same_entry_def split: if_splits)
qed

lemma demangleOperator_digit:
  assumes "drop (Pos d) (Text d) = c # rest" and "isDigit c"
  shows "run_state demangleOperator d = run_state demangleIdentifier d"
proof -
  have lt: "Pos d < length (Text d)" and c: "Text d ! Pos d = c"
    using assms(1) by (metis drop_eq_Nil list.distinct(1) not_le, metis nth_via_drop)
  moreover have "char_at d = c" using lt c by (simp add: char_at_def)
  moreover have "13 \<le> ord c" "c \<noteq> CHR 0xFF" "\<not> isUpperLetter c" "ord c < 58" "c \<noteq> CHR ''.''"
    using assms(2) by (auto simp: isUpperLetter_def isDigit_def)
  ultimately show ?thesis
    using assms by (auto simp: demangleOperator_def skip_padding_def dm_run other_operator_def)
qed

lemma identifier_starts: "run_state demangleIdentifier d = (Some n, t) \<Longrightarrow> isDigit (char_at d)"
  by (auto simp: demangleIdentifier_def dm_run split: if_splits)

lemma read_name:
  assumes "words_written M ws" and n: "swift_name n"
  shows "\<exists>M' out ws'. mangleIdentifier n M = Some M' \<and> Buffer M' = Buffer M @ out \<and> out \<noteq> [] \<and> words_written M' ws'
    \<and> (\<forall>subs. reads_as out (ws, subs, []) (ws', subs @ [TextNode K_Identifier n], [TextNode K_Identifier n]))"
proof -
  obtain M' out ws' where M: "mangleIdentifier n M = Some M'" "Buffer M' = Buffer M @ out" "words_written M' ws'"
    and r: "\<And>s rest. inside s \<Longrightarrow> Words s = ws \<Longrightarrow> drop (Pos s) (Text s) = out @ rest \<Longrightarrow>
      run_state demangleIdentifier s = (Some (TextNode K_Identifier n), s\<lparr>Words := ws', Pos := Pos s + length out,
        Substitutions := Substitutions s @ [TextNode K_Identifier n]\<rparr>)"
    using identifier_reads_back [of M ws n] assms by (auto simp: swift_name_def)
  have "out \<noteq> []"
  proof
    assume "out = []"
    then show False using identifier_starts [OF r [of "new_demangler\<lparr>Words := ws\<rparr>" "[]"]]
      by (simp add: new_demangler_def char_at_def isDigit_def)
  qed
  moreover have "reads_as out (ws, subs, []) (ws', subs @ [TextNode K_Identifier n], [TextNode K_Identifier n])" for subs
  proof (rule reads_asI)
    fix d rest st
    assume d: "inside d" "Words d = ws" "Substitutions d = subs" "NodeStack d = [] @ st" "drop (Pos d) (Text d) = out @ rest"
    note run = r [OF d(1,2,5)]
    obtain c cs where out: "out = c # cs" using \<open>out \<noteq> []\<close> by (cases out) auto
    have "isDigit c" using identifier_starts [OF run] at_text(2) [OF d(5) \<open>out \<noteq> []\<close>] out by simp
    then have "run_state demangleOperator d = run_state demangleIdentifier d"
      using demangleOperator_digit [of d c] d(5) out by simp
    then show "Pos d < length (Text d) \<and> run_state demangleOperator d = (Some (TextNode K_Identifier n),
        d\<lparr>Pos := Pos d + length out, Words := ws', Substitutions := subs @ [TextNode K_Identifier n], NodeStack := [] @ st\<rparr>)"
      using run d(3,4) at_text(1) [OF d(5) \<open>out \<noteq> []\<close>] by simp
  qed
  ultimately show ?thesis using M by blast
qed

text \<open>What a name or a type adds: the new state agrees with what the demangler has after it has read it.\<close>

definition written_as :: "remangler \<Rightarrow> remangler \<Rightarrow> subst_entry list \<Rightarrow> string list \<times> node list \<Rightarrow> string list \<times> node list \<Rightarrow> node \<Rightarrow> bool" where
  "written_as s s' es v v' n \<longleftrightarrow> (\<exists>out. Buffer (Out s') = Buffer (Out s) @ out \<and> out \<noteq> []
     \<and> agrees s' (fst v') (snd v') \<and> at_end s' \<and> set (table s') \<subseteq> set (table s) \<union> set es
     \<and> length (snd v') \<le> length (snd v) + length es
     \<and> reads_as out (fst v, snd v, []) (fst v', snd v', [n]))"

lemma found_entry:
  assumes "findSubstitution (TextNode k n, True) s = Some i" and "agrees s ws subs" and "k \<in> {K_Identifier, K_Module}"
  shows "i < length subs" "subs ! i = TextNode K_Identifier n"
proof -
  have a: "table_ok s" "list_all2 entry_reads (table s) subs" using assms(2) by (simp_all add: agrees_def)
  then have "i < length (table s)" "same_entry (table s ! i) (TextNode k n, True)"
    using position_Some [of "\<lambda>x. same_entry x (TextNode k n, True)" "table s" i] assms(1)
    by (simp_all add: findSubstitution_position)
  moreover from this have "entry_reads (table s ! i) (subs ! i)" using a(2) by (simp add: list_all2_conv_all_nth)
  ultimately show "subs ! i = TextNode K_Identifier n" using entry_of_name assms(3) by blast
  show "i < length subs" using \<open>i < length (table s)\<close> a(2) by (simp add: list_all2_lengthD [symmetric])
qed

lemma try_name:
  assumes "k \<in> {K_Identifier, K_Module}"
  shows "trySubstitution (TextNode k n) True s = (case findSubstitution (TextNode k n, True) s of
       None \<Rightarrow> Inr (False, s)
     | Some Idx \<Rightarrow>
         after (if Idx \<ge> 26 then put (''A'' @ mangleIndex (Idx - 26))
                else put_subst ''A'' [char_of (Idx + ord (CHR ''A''))] False) (\<lambda>_. yields True) s)"
  using assms by (auto simp: trySubstitution_def mangleStandardSubstitution_def after_def yields_def)

lemma found_name_written:
  assumes ag: "agrees s ws subs" and p: "parted s" and k: "k \<in> {K_Identifier, K_Module}"
    and len: "length subs \<le> 2147483647" and i: "findSubstitution (TextNode k n, True) s = Some i"
  shows "\<exists>s'. trySubstitution (TextNode k n) True s = Inr (True, s')
    \<and> written_as s s' [(TextNode k n, True)] (ws, subs) (ws, subs) (TextNode K_Identifier n)"
proof (cases "26 \<le> i")
  case True
  let ?s = "s\<lparr>Out := (Out s)\<lparr>Buffer := Buffer (Out s) @ ''A'' @ mangleIndex (i - 26)\<rparr>\<rparr>"
  have "written_as s ?s [(TextNode k n, True)] (ws, subs) (ws, subs) (TextNode K_Identifier n)"
    using read_long_substitution [OF True found_entry(1) [OF i ag k] len, of ws] found_entry(2) [OF i ag k]
      agrees_put [OF ag, where out = "''A'' @ mangleIndex (i - 26)" and S = "SubstMerging s"] p
    by (auto simp: written_as_def at_end_def parted_def table_def)
  then show ?thesis using True by (auto simp: try_name [OF k] i after_def put_def yields_def)
next
  case False
  let ?out = "''A'' @ [char_of (i + 65)]"
  let ?S = "(SubstMerging s)\<lparr>lastSubstPosition := length (Buffer (Out s)) + 1, lastSubstSize := 1,
    lastNumSubsts := 1, lastSubstIsStandardSubst := False\<rparr>"
  let ?s = "s\<lparr>Out := (Out s)\<lparr>Buffer := Buffer (Out s) @ ?out\<rparr>, SubstMerging := ?S\<rparr>"
  have "tryMergeSubst [char_of (i + 65)] False (Buffer (Out s)) (SubstMerging s) = (False, Buffer (Out s), ?S)"
    using p by (auto simp: tryMergeSubst_def parted_def)
  moreover have "written_as s ?s [(TextNode k n, True)] (ws, subs) (ws, subs) (TextNode K_Identifier n)"
    using read_short_substitution [OF _ found_entry(1) [OF i ag k], of ws] found_entry(2) [OF i ag k] False
      agrees_put [OF ag, where out = ?out and S = ?S]
    by (auto simp: written_as_def at_end_def table_def)
  ultimately show ?thesis using False by (auto simp: try_name [OF k] i after_def put_subst_def yields_def)
qed

lemma new_name_written:
  assumes ag: "agrees s ws subs" and p: "parted s" and k: "k \<in> {K_Identifier, K_Module}" and n: "swift_name n"
    and i: "findSubstitution (TextNode k n, True) s = None"
  shows "\<exists>s' ws'. mangleIdentifier_node (TextNode k n) s = Inr ((), s') \<and> SubstMerging s' = SubstMerging s
    \<and> written_as s s' [(TextNode k n, True)] (ws, subs) (ws', subs @ [TextNode K_Identifier n]) (TextNode K_Identifier n)"
proof -
  obtain M' out ws' where M: "mangleIdentifier n (Out s) = Some M'" "Buffer M' = Buffer (Out s) @ out" "out \<noteq> []"
      "words_written M' ws'"
    and r: "reads_as out (ws, subs, []) (ws', subs @ [TextNode K_Identifier n], [TextNode K_Identifier n])"
    using read_name [OF _ n, of "Out s" ws] ag by (auto simp: agrees_def)
  let ?s = "s\<lparr>Out := M'\<rparr>"
  have "findSubstitution (TextNode k n, True) ?s = None" "table_ok ?s" "table ?s = table s"
    using i ag by (simp_all add: findSubstitution_def agrees_def table_ok_def table_def cong: option.case_cong)
  then obtain s' where s': "Remangler_State.addSubstitution (TextNode k n, True) ?s = Inr ((), s')" "Out s' = M'"
    "SubstMerging s' = SubstMerging s" "table_ok s'" "table s' = table s @ [(TextNode k n, True)]"
    using addSubstitution_table [of ?s "(TextNode k n, True)"] by auto
  have "agrees s' ws' (subs @ [TextNode K_Identifier n])"
    using s' M(4) ag k by (auto simp: agrees_def intro!: list_all2_appendI)
  then have "written_as s s' [(TextNode k n, True)] (ws, subs) (ws', subs @ [TextNode K_Identifier n]) (TextNode K_Identifier n)"
    using s' M r p by (auto simp: written_as_def at_end_def parted_def)
  moreover have "mangleIdentifier_node (TextNode k n) s = Inr ((), s')"
    using s'(1) M(1) i
    by (simp add: mangleIdentifier_node_def mangleIdentifierImpl_def substituted_def try_name [OF k] after_def
        with_text_def put_identifier_def yields_def)
  ultimately show ?thesis using s'(3) by blast
qed

lemma identifier_written:
  assumes "agrees s ws subs" and "parted s" and k: "k \<in> {K_Identifier, K_Module}" and "swift_name n"
    and "length subs \<le> 2147483647"
  shows "\<exists>s' v'. mangleIdentifier_node (TextNode k n) s = Inr ((), s')
    \<and> written_as s s' [(TextNode k n, True)] (ws, subs) v' (TextNode K_Identifier n)"
proof (cases "findSubstitution (TextNode k n, True) s")
  case None
  then show ?thesis using new_name_written [OF assms(1,2) k assms(4)] by blast
next
  case (Some i)
  from found_name_written [OF assms(1,2) k assms(5) this] obtain s' where
    "trySubstitution (TextNode k n) True s = Inr (True, s')"
    "written_as s s' [(TextNode k n, True)] (ws, subs) (ws, subs) (TextNode K_Identifier n)" by blast
  moreover from this(1) have "mangleIdentifier_node (TextNode k n) s = Inr ((), s')"
    by (simp add: mangleIdentifier_node_def mangleIdentifierImpl_def substituted_def after_def yields_def)
  ultimately show ?thesis by blast
qed

end
