(* ===== verification/Remangler_Roundtrip.thy ===== *)
theory Remangler_Roundtrip
  imports Remangler_Facts Class_Names
begin

text \<open>
  The round trip of names of nested types: what the remangler writes for the tree of such a name, with words and
  names that were written before substituted, is read by the demangler as the same tree. The remangler goes two
  levels down for a type that others are nested in and stops at 1024; the demangler pushes each type on its
  stack and has no such limit.
\<close>

section \<open>The cases of the switch\<close>

lemma mangle_module:
  assumes "md \<notin> {STDLIB_NAME, MANGLING_MODULE_OBJC, MANGLING_MODULE_CLANG_IMPORTER}" and "depth \<le> Remangler_MaxDepth"
  shows "mangle Resolver (Suc f) (TextNode K_Module md) depth = mangleIdentifier_node (TextNode K_Module md)"
  using assms
  by (simp add: remangle_node_def remangle_cases_1_def remangle_cases_2_def remangle_cases_3_def remangle_cases_4_def
      remangle_cases_5_def remangle_cases_6_def remangle_cases_7_def remangle_cases_8_def remangle_cases_9_def
      remangle_cases_10_def remangle_cases_11_def with_text_def)

lemma mangle_identifier:
  "depth \<le> Remangler_MaxDepth \<Longrightarrow>
    mangle Resolver (Suc f) (TextNode K_Identifier n) depth = mangleIdentifier_node (TextNode K_Identifier n)"
  by (simp add: remangle_node_def remangle_cases_1_def remangle_cases_2_def remangle_cases_3_def remangle_cases_4_def
      remangle_cases_5_def remangle_cases_6_def remangle_cases_7_def)

lemma mangle_nominal:
  assumes "k \<in> {K_Class, K_Structure, K_Enum}" and "depth \<le> Remangler_MaxDepth"
  shows "mangle Resolver (Suc f) (Node k ns) depth = mangleAnyNominalType (mangle Resolver f) (Node k ns) (depth + 1)"
  using assms
  by (elim insertE) (simp_all add: remangle_node_def remangle_cases_1_def remangle_cases_2_def remangle_cases_3_def
      remangle_cases_4_def remangle_cases_5_def remangle_cases_6_def remangle_cases_7_def remangle_cases_8_def
      remangle_cases_9_def remangle_cases_10_def remangle_cases_11_def remangle_cases_12_def remangle_cases_13_def
      remangle_cases_14_def remangle_cases_15_def)

lemma mangle_type_node:
  "depth \<le> Remangler_MaxDepth \<Longrightarrow> mangle Resolver (Suc f) (Node K_Type [n]) depth = mangle Resolver f n (depth + 1)"
  by (simp add: remangle_node_def remangle_cases_1_def remangle_cases_2_def remangle_cases_3_def remangle_cases_4_def
      remangle_cases_5_def remangle_cases_6_def remangle_cases_7_def remangle_cases_8_def remangle_cases_9_def
      remangle_cases_10_def remangle_cases_11_def remangle_cases_12_def remangle_cases_13_def remangle_cases_14_def
      remangle_cases_15_def mangleType_def mangleSingleChildNode_def getNumChildren_def with_child_def getChild_def with_node_def)

lemma mangle_type_mangling:
  "depth \<le> Remangler_MaxDepth \<Longrightarrow>
    mangle Resolver (Suc f) (Node K_TypeMangling [n]) depth = steps [mangle Resolver f n (depth + 1), put ''D'']"
  by (simp add: remangle_node_def remangle_cases_1_def remangle_cases_2_def remangle_cases_3_def remangle_cases_4_def
      remangle_cases_5_def remangle_cases_6_def remangle_cases_7_def remangle_cases_8_def remangle_cases_9_def
      remangle_cases_10_def remangle_cases_11_def remangle_cases_12_def remangle_cases_13_def remangle_cases_14_def
      remangle_cases_15_def children_then_def mangleChildNodes_def after_yields)

lemma mangle_global:
  "depth \<le> Remangler_MaxDepth \<Longrightarrow>
    mangle Resolver (Suc f) (Node K_Global ns) depth = mangleGlobal (mangle Resolver f) (Node K_Global ns) depth"
  by (simp add: remangle_node_def remangle_cases_1_def remangle_cases_2_def remangle_cases_3_def remangle_cases_4_def
      remangle_cases_5_def remangle_cases_6_def remangle_cases_7_def)

section \<open>A type and its letter\<close>

definition on_stack :: "string \<Rightarrow> (char \<times> string) list \<Rightarrow> node" where
  "on_stack md ts = (if ts = [] then TextNode K_Identifier md else Node K_Type [nested_tree md ts])"

lemma not_specialized: "nominal_types ts \<Longrightarrow> \<not> isSpecialized (nested_tree md ts)"
proof (induction ts rule: rev_induct)
  case (snoc x ts)
  then have "\<not> isSpecialized (nested_tree md ts)" by (simp add: nominal_types_def)
  moreover have "fst x \<in> set ''CVO''" using snoc.prems by (auto simp: nominal_types_def)
  ultimately show ?case
    by (cases x) (auto simp: nested_snoc nominalTypeMarkerToNodeKind_def bound_generic_kinds_def unspecialized_nominals_def)
qed (simp add: nested_tree_def bound_generic_kinds_def)

lemma nominal_contexts: "isContext K_Class" "isContext K_Structure" "isContext K_Enum"
  by code_simp+

lemma context_of_stack:
  assumes "nominal_types ts" and "NodeStack d = on_stack md ts # st"
  shows "run_state popContext d = (Some (nested_tree md ts), d\<lparr>NodeStack := st\<rparr>)"
proof (cases ts rule: rev_cases)
  case Nil
  then show ?thesis
    using assms(2) by (simp add: on_stack_def popContext_def popModule_def popNode_kind_def popNode_if_def nested_tree_def changeKind_def)
next
  case (snoc us x)
  then have "fst x \<in> set ''CVO''" using assms(1) by (auto simp: nominal_types_def)
  then have "getKind (nested_tree md ts) \<in> {K_Class, K_Structure, K_Enum}"
    by (cases x) (auto simp: snoc nested_snoc nominalTypeMarkerToNodeKind_def)
  then have "isContext (getKind (nested_tree md ts))" using nominal_contexts by auto
  then show ?thesis
    using assms(2) snoc
    by (simp add: on_stack_def popContext_def popModule_def popNode_kind_def popNode_if_def Demangler_Monad.deref_def getNumChildren_def)
qed

lemma read_letter:
  fixes md n :: string and c :: char
  assumes c: "c \<in> set ''CVO''" and ts: "nominal_types ts"
  defines "ty \<equiv> Node K_Type [nested_tree md (ts @ [(c, n)])]"
  shows "reads_as [c] (ws, subs, [TextNode K_Identifier n, on_stack md ts]) (ws, subs @ [ty], [ty])"
proof (rule reads_asI)
  fix d rest st
  assume d: "inside d" "Words d = ws" "Substitutions d = subs" "NodeStack d = [TextNode K_Identifier n, on_stack md ts] @ st"
    "drop (Pos d) (Text d) = [c] @ rest"
  let ?d = "d\<lparr>Pos := Suc (Pos d), NodeStack := on_stack md ts # st\<rparr>"
  have c': "c = CHR ''C'' \<or> c = CHR ''V'' \<or> c = CHR ''O''" using c by auto
  have "isUpperLetter c" using c' by (auto simp: isUpperLetter_def)
  then have "run_state demangleOperator d = run_state (upper_operator c) (d\<lparr>Pos := Suc (Pos d)\<rparr>)"
    using demangleOperator_upper [of d c rest] d(5) by simp
  also have "upper_operator c = demangleAnyGenericType (nominalTypeMarkerToNodeKind c)"
    using c' by (elim disjE) (simp_all add: upper_operator_def nominalTypeMarkerToNodeKind_def)
  also have "run_state \<dots> (d\<lparr>Pos := Suc (Pos d)\<rparr>)
      = (Some ty, d\<lparr>Pos := Suc (Pos d), NodeStack := st, Substitutions := subs @ [ty]\<rparr>)"
    using context_of_stack [OF ts, of ?d md st] d
    by (simp add: demangleAnyGenericType_def popNode_if_def isDeclName_def createType_def createWithChild_def
        createWithChildren_def Demangler_Monad.addSubstitution_def run_update_state ty_def nested_snoc Let_def)
  finally show "Pos d < length (Text d) \<and> run_state demangleOperator d = (Some ty,
      d\<lparr>Pos := Pos d + length [c], Words := ws, Substitutions := subs @ [ty], NodeStack := [] @ st\<rparr>)"
    using d at_text(1) [OF d(5)] by simp
qed

section \<open>Nested types\<close>

lemma table_agrees: "agrees s ws [] \<Longrightarrow> table s = []"
  by (simp add: agrees_def)

lemma no_entry: "agrees s ws [] \<Longrightarrow> findSubstitution e s = None"
  by (simp add: agrees_def findSubstitution_position)

lemma try_type:
  assumes "agrees s ws []" and "md \<noteq> STDLIB_NAME"
  shows "trySubstitution (Node k [nested_tree md ts, TextNode K_Identifier n]) False s = Inr (False, s)"
proof -
  have "mangleStandardSubstitution (Node k [nested_tree md ts, TextNode K_Identifier n]) = yields False"
    using assms(2)
    by (cases ts rule: rev_cases)
      (auto simp: mangleStandardSubstitution_def nested_tree_def with_node_def with_text_def nominalTypeMarkerToNodeKind_def
        split: prod.split)
  then show ?thesis
    using no_entry [OF assms(1)] by (simp add: trySubstitution_def after_yields)
qed

lemma size_nested_snoc: "size (nested_tree md ts) < size (nested_tree md (ts @ [x]))"
  by (cases x) (simp add: nested_snoc)

text \<open>What is known after a context is written: the entries for types are not larger than it.\<close>

definition context_written :: "remangler \<Rightarrow> remangler \<Rightarrow> string list \<Rightarrow> string \<Rightarrow> (char \<times> string) list \<Rightarrow> bool" where
  "context_written s s' ws md ts \<longleftrightarrow> parted s' \<and>
     (\<exists>es ws' subs'. written_as s s' es (ws, []) (ws', subs') (on_stack md ts) \<and> length es \<le> 2 * length ts + 1
       \<and> (\<forall>(t, b) \<in> set es. \<not> b \<longrightarrow> size t \<le> size (nested_tree md ts)))"

lemma module_written:
  assumes "agrees s ws []" and "parted s" and "swift_name md"
  shows "\<exists>s'. mangleIdentifier_node (TextNode K_Module md) s = Inr ((), s') \<and> context_written s s' ws md []"
proof -
  obtain s' ws' where s': "mangleIdentifier_node (TextNode K_Module md) s = Inr ((), s')" "SubstMerging s' = SubstMerging s"
    "written_as s s' [(TextNode K_Module md, True)] (ws, []) (ws', [TextNode K_Identifier md]) (TextNode K_Identifier md)"
    using new_name_written [OF assms(1,2) _ assms(3) no_entry [OF assms(1)], of K_Module] by auto
  moreover have "parted s'" using s' assms(2) by (auto simp: parted_def written_as_def)
  moreover have "on_stack md [] = TextNode K_Identifier md" by (simp add: on_stack_def)
  ultimately show ?thesis by (fastforce simp: context_written_def)
qed

lemma type_written:
  assumes ctx: "context_written s s1 ws md ts" and s: "agrees s ws []"
    and c: "c \<in> set ''CVO''" and ts: "nominal_types ts" and n: "swift_name n" and len: "2 * length ts + 1 \<le> 2147483647"
  defines "nd \<equiv> nested_tree md (ts @ [(c, n)])"
  shows "\<exists>s'. steps [mangleIdentifier_node (TextNode K_Identifier n), put [c], Remangler_State.addSubstitution (nd, False)] s1
      = Inr ((), s') \<and> context_written s s' ws md (ts @ [(c, n)])"
proof -
  obtain es ws1 subs1 out1 where c1: "parted s1" "length es \<le> 2 * length ts + 1"
      "\<forall>(t, b) \<in> set es. \<not> b \<longrightarrow> size t \<le> size (nested_tree md ts)"
      "Buffer (Out s1) = Buffer (Out s) @ out1" "agrees s1 ws1 subs1" "set (table s1) \<subseteq> set es"
      "length subs1 \<le> length es" "reads_as out1 (ws, [], []) (ws1, subs1, [on_stack md ts])"
    using ctx table_agrees [OF s] by (auto simp: context_written_def written_as_def)
  obtain s2 ws2 subs2 out2 where c2: "mangleIdentifier_node (TextNode K_Identifier n) s1 = Inr ((), s2)"
      "Buffer (Out s2) = Buffer (Out s1) @ out2" "agrees s2 ws2 subs2" "at_end s2"
      "set (table s2) \<subseteq> insert (TextNode K_Identifier n, True) (set (table s1))" "length subs2 \<le> length subs1 + 1"
      "reads_as out2 (ws1, subs1, []) (ws2, subs2, [TextNode K_Identifier n])"
    using identifier_written [OF c1(5,1) _ n, of K_Identifier] c1(2,7) len by (force simp: written_as_def)
  let ?s3 = "s2\<lparr>Out := (Out s2)\<lparr>Buffer := Buffer (Out s2) @ [c]\<rparr>\<rparr>" and ?es = "es @ [(TextNode K_Identifier n, True), (nd, False)]"
  have ag3: "agrees ?s3 ws2 subs2" using agrees_put [OF c2(3), where out = "[c]" and S = "SubstMerging s2"] by simp
  have t3: "table ?s3 = table s2" by (simp add: table_def)
  have smaller: "size (nested_tree md ts) < size nd" by (simp add: nd_def size_nested_snoc)
  have "\<forall>x \<in> set (table ?s3). \<not> same_entry x (nd, False)"
    using c1(3,6) c2(5) smaller by (force simp: t3 same_entry_def)
  then have none: "findSubstitution (nd, False) ?s3 = None"
    using ag3 by (simp add: agrees_def findSubstitution_position position_None)
  then obtain s4 where s4: "Remangler_State.addSubstitution (nd, False) ?s3 = Inr ((), s4)" "Out s4 = Out ?s3"
    "SubstMerging s4 = SubstMerging s2" "table_ok s4" "table s4 = table s2 @ [(nd, False)]"
    using addSubstitution_table [of ?s3 "(nd, False)"] ag3 t3 by (auto simp: agrees_def)
  have ag4: "agrees s4 ws2 (subs2 @ [Node K_Type [nd]])"
    using s4 ag3 t3 by (auto simp: agrees_def intro!: list_all2_appendI)
  have "reads_as out2 (ws1, subs1, [on_stack md ts]) (ws2, subs2, [TextNode K_Identifier n, on_stack md ts])"
    using reads_as_frame [OF c2(7), of "[on_stack md ts]"] by simp
  note reads_as_append [OF c1(8) reads_as_append [OF this read_letter [OF c ts]]]
  then have "reads_as (out1 @ out2 @ [c]) (ws, [], []) (ws2, subs2 @ [Node K_Type [nd]], [Node K_Type [nd]])"
    by (simp add: nd_def)
  moreover have "on_stack md (ts @ [(c, n)]) = Node K_Type [nd]" by (simp add: on_stack_def nd_def)
  moreover have "parted s4" using c2(4) s4(2,3) by (auto simp: parted_def at_end_def)
  moreover have "at_end s4" using c2(4) s4(2,3) by (auto simp: at_end_def)
  moreover have "set (table s4) \<subseteq> set ?es" using c1(6) c2(5) by (auto simp: s4(5))
  moreover have "length (subs2 @ [Node K_Type [nd]]) \<le> length ?es" using c1(7) c2(6) by simp
  moreover have "\<forall>(t, b) \<in> set ?es. \<not> b \<longrightarrow> size t \<le> size nd" using c1(3) smaller by fastforce
  moreover have "Buffer (Out s4) = Buffer (Out s) @ out1 @ out2 @ [c]" by (simp add: s4(2) c2(2) c1(4))
  ultimately have "context_written s s4 ws md (ts @ [(c, n)])"
    using ag4 c1(2) table_agrees [OF s] unfolding context_written_def written_as_def
    by (intro conjI exI [of _ ?es] exI [of _ ws2] exI [of _ "subs2 @ [Node K_Type [nd]]"] exI [of _ "out1 @ out2 @ [c]"])
      (simp_all add: nd_def [symmetric])
  then show ?thesis using c2(1) s4(1) by (auto simp: after_def put_def yields_def)
qed

definition swift_names :: "string \<Rightarrow> (char \<times> string) list \<Rightarrow> bool" where
  "swift_names md ts \<longleftrightarrow> swift_name md \<and> md \<notin> {STDLIB_NAME, MANGLING_MODULE_OBJC, MANGLING_MODULE_CLANG_IMPORTER}
     \<and> list_all (\<lambda>(c, n). c \<in> set ''CVO'' \<and> swift_name n) ts"

lemma swift_names_plain: "swift_names md ts \<Longrightarrow> plain_name md \<and> nominal_types ts"
  by (force simp: swift_names_def nominal_types_def plain_name_def swift_name_def list_all_iff)

lemma mangle_nested_type:
  assumes ts: "nominal_types (ts @ [(c, n)])" and md: "md \<noteq> STDLIB_NAME" and s: "agrees s ws []"
    and depth: "depth \<le> Remangler_MaxDepth"
  defines "nd \<equiv> nested_tree md (ts @ [(c, n)])"
  shows "mangleAnyNominalType rec nd depth s
    = after (rec (nested_tree md ts) (depth + 1)) (\<lambda>_. steps [rec (TextNode K_Identifier n) (depth + 1), put [c],
        Remangler_State.addSubstitution (nd, False)]) s"
proof -
  have c: "c = CHR ''C'' \<or> c = CHR ''V'' \<or> c = CHR ''O''" using ts by (auto simp: nominal_types_def)
  have nd: "nd = Node (nominalTypeMarkerToNodeKind c) [nested_tree md ts, TextNode K_Identifier n]"
    by (simp add: nd_def nested_snoc)
  have "map_of nominal_ops (getKind nd) = Some [c]"
    using c by (elim disjE) (simp_all add: nd nominalTypeMarkerToNodeKind_def nominal_ops_def)
  moreover have "\<not> isSpecialized nd" using not_specialized [OF ts] by (simp add: nd_def)
  ultimately have "mangleAnyNominalType rec nd depth s = substituted nd False (steps [mangleChildNodes rec nd (depth + 1), put [c]]) s"
    using depth by (simp add: mangleAnyNominalType.simps [of rec nd] mangleAnyGenericType_def)
  also have "trySubstitution nd False s = Inr (False, s)" unfolding nd using try_type [OF s md] .
  then have "substituted nd False m s = steps [m, Remangler_State.addSubstitution (nd, False)] s" for m
    by (simp add: substituted_def after_def yields_def)
  finally show ?thesis by (simp add: mangleChildNodes_def nd after_yields)
qed

lemma nested_written:
  "swift_names md ts \<Longrightarrow> depth + 2 * length ts \<le> Remangler_MaxDepth \<Longrightarrow> length ts < f \<Longrightarrow> agrees s ws [] \<Longrightarrow> parted s \<Longrightarrow>
    \<exists>s'. mangle Resolver f (nested_tree md ts) depth s = Inr ((), s') \<and> context_written s s' ws md ts"
proof (induction ts arbitrary: f depth rule: rev_induct)
  case Nil
  then obtain g where "f = Suc g" by (cases f) auto
  then show ?case
    using Nil module_written [of s ws md] mangle_module [of md depth Resolver g]
    by (simp add: swift_names_def nested_tree_def del: mangle.simps)
next
  case (snoc x ts)
  obtain c n where x: "x = (c, n)" by fastforce
  obtain h where f: "f = Suc (Suc h)" using snoc.prems(3) by (cases f; cases "f - 1") auto
  let ?nd = "nested_tree md (ts @ [(c, n)])"
  have names: "swift_names md ts" "c \<in> set ''CVO''" "swift_name n" "md \<noteq> STDLIB_NAME"
    using snoc.prems(1) x by (auto simp: swift_names_def)
  have ts: "nominal_types (ts @ [(c, n)])" "nominal_types ts" using swift_names_plain [OF snoc.prems(1)] x
    by (auto simp: nominal_types_def)
  obtain s1 where s1: "mangle Resolver (Suc h) (nested_tree md ts) (depth + 2) s = Inr ((), s1)" "context_written s s1 ws md ts"
    using snoc.IH [of "depth + 2" "Suc h"] names(1) snoc.prems f by auto
  obtain s2 where s2: "steps [mangleIdentifier_node (TextNode K_Identifier n), put [c],
      Remangler_State.addSubstitution (?nd, False)] s1 = Inr ((), s2)" "context_written s s2 ws md (ts @ [(c, n)])"
    using type_written [OF s1(2) snoc.prems(4) names(2) ts(2) names(3)] snoc.prems(2) by auto
  have kind: "nominalTypeMarkerToNodeKind c \<in> {K_Class, K_Structure, K_Enum}"
    using names(2) by (auto simp: nominalTypeMarkerToNodeKind_def)
  have "mangle Resolver f ?nd depth s = mangleAnyNominalType (mangle Resolver (Suc h)) ?nd (depth + 1) s"
    using mangle_nominal [of "nominalTypeMarkerToNodeKind c" depth Resolver "Suc h"] snoc.prems(2) kind f
    by (simp add: nested_snoc del: mangle.simps)
  also have "\<dots> = steps [mangleIdentifier_node (TextNode K_Identifier n), put [c], Remangler_State.addSubstitution (?nd, False)] s1"
    using mangle_nested_type [OF ts(1) names(4) snoc.prems(4), of "depth + 1"] s1(1) snoc.prems(2)
      mangle_identifier [of "depth + 2" Resolver h n]
    by (simp add: after_def del: mangle.simps)
  finally show ?case using s2 x by auto
qed

section \<open>Symbols\<close>

lemma mangle_type_tree:
  assumes "swift_names md ts" and "length ts \<le> 510"
  shows "\<exists>m ws subs. mangleNode (Some (type_tree md ts)) = Inr (''$s'' @ m @ ''D'')
    \<and> reads_as m ([], [], []) (ws, subs, [on_stack md ts])"
proof -
  let ?s = "new_remangler\<lparr>Out := (Out new_remangler)\<lparr>Buffer := ''$s''\<rparr>\<rparr>"
  have "agrees ?s [] []" "parted ?s"
    by (simp_all add: agrees_def words_written_def in_buffer_def table_ok_def table_def parted_def new_remangler_def)
  then obtain s' where s': "mangle (\<lambda>_. None) 1023 (nested_tree md ts) 3 ?s = Inr ((), s')" "context_written ?s s' [] md ts"
    using nested_written [OF assms(1), of 3 1023 ?s "[]" "\<lambda>_. None"] assms(2) by auto
  obtain m ws subs where m: "Buffer (Out s') = ''$s'' @ m" "reads_as m ([], [], []) (ws, subs, [on_stack md ts])"
    using s'(2) by (auto simp: context_written_def written_as_def)
  let ?rec = "mangle (\<lambda>_. None)"
  have "?rec 1026 (type_tree md ts) 0 new_remangler = mangleGlobal (?rec 1025) (type_tree md ts) 0 new_remangler"
    using mangle_global [of 0 "\<lambda>_. None" 1025] by (simp add: type_tree_def del: mangle.simps)
  also have "\<dots> = after (?rec 1025 (Node K_TypeMangling [Node K_Type [nested_tree md ts]]) 1) yields ?s"
    by (simp add: mangleGlobal_def type_tree_def reversed_attributes_def provided_def after_yields del: mangle.simps)
      (simp add: after_def put_def new_remangler_def del: mangle.simps)
  also have "\<dots> = steps [?rec 1023 (nested_tree md ts) 3, put ''D''] ?s"
    using mangle_type_mangling [of 1 "\<lambda>_. None" 1024] mangle_type_node [of 2 "\<lambda>_. None" 1023]
    by (simp add: after_yields del: mangle.simps flip: numeral_2_eq_2)
  also have "\<dots> = Inr ((), s'\<lparr>Out := (Out s')\<lparr>Buffer := Buffer (Out s') @ ''D''\<rparr>\<rparr>)"
    using s'(1) by (simp add: after_def put_def yields_def del: mangle.simps)
  finally show ?thesis
    using m by (auto simp: mangleNode_def mangleNode_with_def run_remangler_def)
qed

lemma read_type_mangling:
  assumes d: "drop (Pos d) (Text d) = ''D''" "NodeStack d = [Node K_Type [nested_tree md ts]]" and ts: "nominal_types ts"
  shows "operator_step d (d\<lparr>Pos := Suc (Pos d), NodeStack := [Node K_TypeMangling [Node K_Type [nested_tree md ts]]]\<rparr>)"
proof -
  have kind: "getKind (nested_tree md ts) \<in> {K_Module, K_Class, K_Structure, K_Enum}"
    using ts by (cases ts rule: rev_cases) (auto simp: nested_tree_def nominal_types_def nominalTypeMarkerToNodeKind_def)
  have "run_state demangleOperator d = run_state demangleTypeMangling (d\<lparr>Pos := Suc (Pos d)\<rparr>)"
    using demangleOperator_upper [of d "CHR ''D''" "[]"] d(1) by (simp add: isUpperLetter_def upper_operator_def)
  also have "\<dots> = (Some (Node K_TypeMangling [Node K_Type [nested_tree md ts]]), d\<lparr>Pos := Suc (Pos d), NodeStack := []\<rparr>)"
    using kind d(2)
    by (auto simp: demangleTypeMangling_def popFunctionParamLabels_def popNode_kind_def popNode_if_def run_read_state
        Demangler_Monad.deref_def addChild_to_def addChild_def  createNode_def Let_def)
  finally show ?thesis
    using operator_step.operator [of d] at_text(1) [of d "''D''" "[]"] d(1) by auto
qed

lemma no_attr: "\<not> isFunctionAttr K_TypeMangling"
  by code_simp

lemma demangle_type_tree:
  assumes r: "reads_as m ([], [], []) (ws, subs, [on_stack md ts])" and ts: "nominal_types ts" "ts \<noteq> []"
  shows "fst (run_state (demangleSymbolAsNode (''$s'' @ m @ ''D'')) new_demangler) = Some (type_tree md ts)"
proof -
  let ?text = "''$s'' @ m @ ''D''"
  let ?d = "new_demangler\<lparr>Text := ?text, Pos := 2, NodeStack := [], Substitutions := [], Words := [],
    SymbolicReferenceResolver := None, IsOldFunctionTypeMangling := isOldFunctionTypeMangling ?text\<rparr>"
  let ?t = "?d\<lparr>Pos := 2 + length m, Words := ws, Substitutions := subs, NodeStack := [on_stack md ts]\<rparr>"
  let ?u = "?t\<lparr>Pos := Suc (2 + length m), NodeStack := [Node K_TypeMangling [Node K_Type [nested_tree md ts]]]\<rparr>"
  have "inside ?d" "drop (Pos ?d) (Text ?d) = m @ ''D''" by simp_all
  from r [unfolded reads_as_def, rule_format, OF this(1) _ _ _ this(2), of "[]"] obtain k where k: "operator_steps k ?d ?t"
    by auto
  have "operator_step ?t ?u" using read_type_mangling [of ?t md ts] ts by (simp add: on_stack_def)
  then have "operator_steps (Suc 0) ?t ?u" by (rule operator_steps.step) (rule operator_steps.none)
  from operator_steps_trans [OF k this] have "run_state parseAndPushNodes ?d = run_state parseAndPushNodes ?u"
    by (rule loop_of_run) simp
  also have "\<dots> = (True, ?u)" by (rule parseAndPushNodes_at_end) simp
  finally have parse: "run_state parseAndPushNodes ?d = (True, ?u)" .
  obtain v where top: "run_state build_topLevel ?u = (Some (type_tree md ts), v)"
    by (simp add: build_topLevel_def popNodes_while_def no_attr run_read_state
        top_level_node_def createNode_def  getNumChildren_def type_tree_def)
  have len: "getManglingPrefixLength ?text = 2" by (simp add: getManglingPrefixLength_def mangling_prefixes_def startswith_def)
  then show ?thesis
    using parse top
    by (simp add: demangleSymbolAsNode_def isMangledName_def demangleSymbol_def with_job_def run_nextIf_string startswith_def
        run_update_state new_demangler_def split: prod.split flip: numeral_2_eq_2)
qed

text \<open>
  C40: The remangler writes a name for the tree of a class, structure or enum nested in up to 509 others, whatever
  names are repeated and whatever words they share; the demangler reads the name as this tree, and iCDump prints
  the module and the names of the types with dots in between.
\<close>

theorem remangled_names:
  assumes "swift_names md ts" and "ts \<noteq> []" and "length ts \<le> 510"
  shows "\<exists>m. mangleNode (Some (type_tree md ts)) = Inr m
    \<and> fst (run_state (demangleSymbolAsNode m) new_demangler) = Some (type_tree md ts)
    \<and> demangled_name k m = Some (dotted md ts)"
proof -
  note plain = swift_names_plain [OF assms(1)]
  obtain m ws subs where m: "mangleNode (Some (type_tree md ts)) = Inr (''$s'' @ m @ ''D'')"
    "reads_as m ([], [], []) (ws, subs, [on_stack md ts])"
    using mangle_type_tree [OF assms(1,3)] by blast
  obtain d where tree: "run_state (demangleSymbolAsNode (''$s'' @ m @ ''D'')) new_demangler = (Some (type_tree md ts), d)"
    using demangle_type_tree [OF m(2)] plain assms(2) by (metis prod.collapse)
  have "length ts + 3 < size (type_tree md ts) + 1" using nested_size [of ts md] by (simp add: type_tree_def)
  then have "run_print (nested_symbol k) default_options (type_tree md ts) = new_printer\<lparr>Stream := dotted md ts\<rparr>"
    using print_type_tree [of md ts "size (type_tree md ts) + 1"] plain assms(3)
    by (simp add: run_print_def writes_def new_printer_def del: print.simps)
  then have "nodeToString (nested_symbol k) default_options (Some (type_tree md ts)) = Some (dotted md ts)"
    by (simp add: nodeToString_def printRoot_def Let_def new_printer_def)
  moreover have "dotted md ts \<noteq> []" using plain by (simp add: dotted_def plain_name_def)
  ultimately have "demangled_name k (''$s'' @ m @ ''D'') = Some (dotted md ts)"
    using tree by (simp add: demangled_name_def demangleSymbolAsString_def Context_demangleSymbolAsString_def
        string_of_tree_def or_name_def del: append.simps)
  then show ?thesis using m(1) tree by (metis fst_conv)
qed

theorem remangled_names_witness:
  "\<exists>m. mangleNode (Some (type_tree ''Foo'' [(CHR ''V'', ''FooBar''), (CHR ''C'', ''Foo'')])) = Inr m
    \<and> fst (run_state (demangleSymbolAsNode m) new_demangler) = Some (type_tree ''Foo'' [(CHR ''V'', ''FooBar''), (CHR ''C'', ''Foo'')])
    \<and> demangled_name 0 m = Some ''Foo.FooBar.Foo''"
proof -
  have "\<not> needsPunycodeEncoding ''Foo''" "\<not> needsPunycodeEncoding ''FooBar''" by code_simp+
  then have "swift_names ''Foo'' [(CHR ''V'', ''FooBar''), (CHR ''C'', ''Foo'')]"
    by (simp add: swift_names_def swift_name_def isDigit_def STDLIB_NAME_def MANGLING_MODULE_OBJC_def
        MANGLING_MODULE_CLANG_IMPORTER_def)
  from remangled_names [OF this, of 0] show ?thesis by (simp add: dotted_def)
qed

end
