(* ===== verification/Old_Remangler_Entities.thy ===== *)
theory Old_Remangler_Entities
  imports Remangler_Types
begin

text \<open>
  The remangler to the mangling before Swift 4 (\<open>lib/Demangling/OldRemangler.cpp\<close>): labels, substitutions,
  contexts, entities and nominal types. It shares output and table of substitutions with the other remangler
  (\<open>RemanglerBase.h\<close>); the words and the merging of substitutions stay as they are. \<open>rec\<close> is \<open>mangle\<close>. An
  \<open>EntityContext\<close> is passed by reference: its value afterwards is the result.
\<close>

section \<open>Labels\<close>

text \<open>A null pointer that is followed is \<open>None\<close>.\<close>

definition labelled_parameter :: "node \<Rightarrow> node \<Rightarrow> node option" where
  "labelled_parameter Label Param =
     (if getKind Label = K_FirstElementMarker then Some Param
      else map_option (\<lambda>t. Node K_TupleElement (TextNode K_TupleElementName t # getChildren Param)) (node_text Label))"

definition labelled_tuple :: "node \<Rightarrow> node \<Rightarrow> node option" where
  "labelled_tuple LabelList OrigTuple =
     (let params = (if getKind OrigTuple \<noteq> K_Tuple then [OrigTuple] else getChildren OrigTuple) in
      if length params > getNumChildren LabelList then None
      else map_option (Node K_Tuple) (those (map2 labelled_parameter (getChildren LabelList) params)))"

definition labelled_arguments :: "node \<Rightarrow> node \<Rightarrow> node option" where
  "labelled_arguments LabelList ArgTuple =
     (case getFirstChild ArgTuple of
        None \<Rightarrow> None
      | Some t \<Rightarrow>
          (case getFirstChild t of
             None \<Rightarrow> None
           | Some OrigTuple \<Rightarrow>
               map_option (\<lambda>Tuple. Node K_ArgumentTuple [Node K_Type [Tuple]]) (labelled_tuple LabelList OrigTuple)))"

definition labelled_function :: "node \<Rightarrow> node \<Rightarrow> node option" where
  "labelled_function LabelList Child =
     (if getKind Child \<notin> {K_FunctionType, K_NoEscapeFunctionType} then Some Child
      else map_option (Node K_FunctionType)
        (those (map (\<lambda>c. if getKind c = K_ArgumentTuple then labelled_arguments LabelList c else Some c)
          (getChildren Child))))"

definition applyParamLabels :: "node \<Rightarrow> node \<Rightarrow> node option" where
  "applyParamLabels LabelList OrigType =
     (if getNumChildren LabelList = 0 then Some OrigType
      else map_option (Node (getKind OrigType)) (those (map (labelled_function LabelList) (getChildren OrigType))))"

section \<open>Names\<close>

definition put_name :: "string \<Rightarrow> unit rm" where
  "put_name ident = put (show_nat (length ident) @ ident)"

definition put_operator :: "string \<Rightarrow> string \<Rightarrow> unit rm" where
  "put_operator fixity ident = put (fixity @ show_nat (length ident) @ map translateOperatorChar ident)"

section \<open>Substitutions\<close>

definition module_substs :: "(string \<times> string) list" where
  "module_substs = [(STDLIB_NAME, ''s''), (MANGLING_MODULE_OBJC, ''So''), (MANGLING_MODULE_CLANG_IMPORTER, ''SC'')]"

definition structure_substs :: "(string \<times> string) list" where
  "structure_substs =
     [(''Array'', ''Sa''), (''Bool'', ''Sb''), (''UnicodeScalar'', ''Sc''), (''Double'', ''Sd''), (''Float'', ''Sf''),
      (''Int'', ''Si''), (''UnsafeRawPointer'', ''SV''), (''UnsafeMutableRawPointer'', ''Sv''),
      (''UnsafePointer'', ''SP''), (''UnsafeMutablePointer'', ''Sp''), (''UnsafeBufferPointer'', ''SR''),
      (''UnsafeMutableBufferPointer'', ''Sr''), (''String'', ''SS''), (''UInt'', ''Su'')]"

definition enum_substs :: "(string \<times> string) list" where
  "enum_substs = [(''Optional'', ''Sq''), (''ImplicitlyUnwrappedOptional'', ''SQ'')]"

definition isInSwiftModule :: "node \<Rightarrow> bool rm" where
  "isInSwiftModule nd =
     with_node (getFirstChild nd) (\<lambda>context_node.
       if getKind context_node \<noteq> K_Module then yields False
       else with_text context_node (\<lambda>t.
         if t \<noteq> STDLIB_NAME then yields False
         else with_child nd 1 (\<lambda>name. yields (getKind name = K_Identifier))))"

text \<open>A text that is looked up, and whether it was found.\<close>

definition put_known :: "(string \<times> string) list \<Rightarrow> node \<Rightarrow> bool rm" where
  "put_known table nd =
     with_text nd (\<lambda>t. case map_of table t of
         Some subst \<Rightarrow> after (put subst) (\<lambda>_. yields True)
       | None \<Rightarrow> yields False)"

definition put_known_type :: "(string \<times> string) list \<Rightarrow> node \<Rightarrow> bool rm" where
  "put_known_type table nd =
     after (isInSwiftModule nd) (\<lambda>b. if b then with_child nd 1 (put_known table) else yields False)"

definition mangleStandardSubstitution_old :: "node \<Rightarrow> bool rm" where
  "mangleStandardSubstitution_old nd =
     (let k = getKind nd in
      if k = K_Module then put_known module_substs nd
      else if k = K_Structure then put_known_type structure_substs nd
      else if k = K_Enum then put_known_type enum_substs nd
      else yields False)"

definition trySubstitution_old :: "node \<Rightarrow> bool rm" where
  "trySubstitution_old nd =
     after (mangleStandardSubstitution_old nd) (\<lambda>standard.
       if standard then yields True
       else (\<lambda>s. case findSubstitution (nd, False) s of
           None \<Rightarrow> Inr (False, s)
         | Some Idx \<Rightarrow> after (put (''S'' @ mangleIndex Idx)) (\<lambda>_. yields True) s))"

text \<open>The pattern of the functions that substitute, with what they give if there is nothing to do.\<close>

definition substituted_old :: "node \<Rightarrow> 'a \<Rightarrow> 'a rm \<Rightarrow> 'a rm" where
  "substituted_old nd x m =
     after (trySubstitution_old nd) (\<lambda>found.
       if found then yields x
       else after m (\<lambda>x. after (addSubstitution (nd, False)) (\<lambda>_. yields x)))"

section \<open>Contexts\<close>

record entity_context =
  AsContext :: bool
  AnonymousContextDiscriminator :: string

definition new_context :: entity_context where
  "new_context = \<lparr>AsContext = False, AnonymousContextDiscriminator = []\<rparr>"

text \<open>\<open>ManglingContextRAII\<close>.\<close>

definition as_context :: "entity_context \<Rightarrow> (entity_context \<Rightarrow> entity_context rm) \<Rightarrow> entity_context rm" where
  "as_context ctx f =
     after (f (ctx\<lparr>AsContext := True\<rparr>)) (\<lambda>ctx'. yields (ctx'\<lparr>AsContext := AsContext ctx\<rparr>))"

text \<open>\<open>mangleEntityContext\<close>, as an argument of the functions that it calls.\<close>

type_synonym context_rec = "node \<Rightarrow> entity_context \<Rightarrow> nat \<Rightarrow> entity_context rm"

text \<open>\<open>takeAnonymousContextDiscriminator\<close>, with an underscore before a digit.\<close>

definition private_discriminator :: "entity_context \<Rightarrow> string" where
  "private_discriminator ctx =
     (let d = AnonymousContextDiscriminator ctx in if d \<noteq> [] \<and> isDigit (hd d) then CHR ''_'' # d else d)"

section \<open>Types of entities\<close>

function mangleEntityType :: "remangle \<Rightarrow> node \<Rightarrow> nat \<Rightarrow> unit rm" where
  "mangleEntityType rec nd depth =
     (if getKind nd \<noteq> K_Type then failed_at AssertionFailed_error nd
      else case getChildren nd of
        [t] \<Rightarrow>
          if getKind t \<notin> {K_NoEscapeFunctionType, K_FunctionType, K_UncurriedFunctionType} then rec t (depth + 1)
          else
            steps
              ([put (if getKind t = K_UncurriedFunctionType then ''f'' else ''F''),
                asserted (getNumChildren t \<ge> 2) t]
               @ map (\<lambda>c. rec c (depth + 1)) (butlast (getChildren t))
               @ [case getLastChild t of
                    None \<Rightarrow> failed Undefined
                  | Some returnType \<Rightarrow>
                      if getKind returnType \<noteq> K_ReturnType then failed_at AssertionFailed_error returnType
                      else (case getChildren returnType of
                          [r] \<Rightarrow> mangleEntityType rec r (depth + 1)
                        | _ \<Rightarrow> failed_at AssertionFailed_error returnType)])
      | _ \<Rightarrow> failed_at AssertionFailed_error nd)"
  by pat_completeness auto

lemma last_child_smaller: "getLastChild n = Some c \<Longrightarrow> size c < size n"
  unfolding getLastChild_def by (rule child_at_smaller)

termination mangleEntityType
  by (relation "measure (\<lambda>(_, nd, _). size nd)") (auto dest!: sym [of "Some _"] last_child_smaller only_child_smaller)

declare mangleEntityType.simps [simp del]

text \<open>The type at a position, which may have the labels before it.\<close>

definition mangle_labelled_type :: "remangle \<Rightarrow> node \<Rightarrow> nat \<Rightarrow> nat \<Rightarrow> unit rm" where
  "mangle_labelled_type rec nd i depth =
     with_child nd i (\<lambda>LabelList.
       if getKind LabelList = K_LabelList then
         with_child nd (i + 1) (\<lambda>Type.
           case applyParamLabels LabelList Type of
             None \<Rightarrow> failed Undefined
           | Some Type \<Rightarrow> mangleEntityType rec Type (depth + 1))
       else mangleEntityType rec LabelList (depth + 1))"

section \<open>Entities\<close>

definition context_child :: "context_rec \<Rightarrow> node \<Rightarrow> nat \<Rightarrow> entity_context \<Rightarrow> nat \<Rightarrow> entity_context rm" where
  "context_child ec nd i ctx depth = with_child nd i (\<lambda>c. ec c ctx (depth + 1))"

definition mangleSimpleEntity ::
  "context_rec \<Rightarrow> node \<Rightarrow> string \<Rightarrow> string \<Rightarrow> entity_context \<Rightarrow> nat \<Rightarrow> entity_context rm" where
  "mangleSimpleEntity ec nd basicKind entity_letters ctx depth =
     after (steps [asserted (getNumChildren nd = 1) nd, put basicKind]) (\<lambda>_.
     after (context_child ec nd 0 ctx depth) (\<lambda>ctx.
     after (put entity_letters) (\<lambda>_. yields ctx)))"

definition mangleNamedEntity ::
  "context_rec \<Rightarrow> remangle \<Rightarrow> node \<Rightarrow> string \<Rightarrow> string \<Rightarrow> entity_context \<Rightarrow> nat \<Rightarrow> string \<Rightarrow> entity_context rm" where
  "mangleNamedEntity ec rec nd basicKind entity_letters ctx depth artificialPrivateDiscriminator =
     after (steps [asserted (getNumChildren nd = 2) nd, put basicKind]) (\<lambda>_.
     after (context_child ec nd 0 ctx depth) (\<lambda>ctx.
     after (put entity_letters) (\<lambda>_.
       let discriminator = private_discriminator ctx @ artificialPrivateDiscriminator in
       after
         (with_child nd 1 (\<lambda>name.
           steps
             [provided (discriminator \<noteq> [] \<and> getKind name = K_Identifier) (steps [put ''P'', put_name discriminator]),
              rec name (depth + 1)]))
         (\<lambda>_. yields (ctx\<lparr>AnonymousContextDiscriminator := []\<rparr>)))))"

definition mangleTypedEntity ::
  "context_rec \<Rightarrow> remangle \<Rightarrow> node \<Rightarrow> string \<Rightarrow> string \<Rightarrow> entity_context \<Rightarrow> nat \<Rightarrow> entity_context rm" where
  "mangleTypedEntity ec rec nd basicKind entity_letters ctx depth =
     after (steps [asserted (getNumChildren nd \<in> {2, 3}) nd, put basicKind]) (\<lambda>_.
     after (context_child ec nd 0 ctx depth) (\<lambda>ctx.
     after (steps [put entity_letters, mangle_labelled_type rec nd 1 depth]) (\<lambda>_. yields ctx)))"

definition mangleNamedAndTypedEntity ::
  "context_rec \<Rightarrow> remangle \<Rightarrow> node \<Rightarrow> string \<Rightarrow> string \<Rightarrow> entity_context \<Rightarrow> nat \<Rightarrow> entity_context rm" where
  "mangleNamedAndTypedEntity ec rec nd basicKind entity_letters ctx depth =
     after (steps [asserted (getNumChildren nd \<in> {3, 4}) nd, put basicKind]) (\<lambda>_.
     after (context_child ec nd 0 ctx depth) (\<lambda>ctx.
     after (steps [put entity_letters, with_child nd 1 (\<lambda>c. rec c (depth + 1)), mangle_labelled_type rec nd 2 depth])
       (\<lambda>_. yields ctx)))"

definition mangle_private_name :: "remangle \<Rightarrow> node \<Rightarrow> nat \<Rightarrow> unit rm" where
  "mangle_private_name rec nd depth =
     with_node (getLastChild nd) (\<lambda>c. provided (getKind c = K_PrivateDeclName) (rec c (depth + 1)))"

definition mangleSubscript :: "context_rec \<Rightarrow> remangle \<Rightarrow> node \<Rightarrow> entity_context \<Rightarrow> nat \<Rightarrow> entity_context rm" where
  "mangleSubscript ec rec nd ctx depth =
     after (steps [asserted (getNumChildren nd \<ge> 2) nd, put ''i'']) (\<lambda>_.
     after (context_child ec nd 0 ctx depth) (\<lambda>ctx.
     after
       (steps
         [mangle_private_name rec nd depth,
          (if getNumChildren nd \<ge> 3 then mangle_labelled_type rec nd 1 depth
           else with_child nd 1 (\<lambda>t. mangleEntityType rec t (depth + 1)))])
       (\<lambda>_. yields ctx)))"

definition mangleAccessor ::
  "context_rec \<Rightarrow> remangle \<Rightarrow> node \<Rightarrow> string \<Rightarrow> entity_context \<Rightarrow> nat \<Rightarrow> entity_context rm" where
  "mangleAccessor ec rec storageNode accessorCode ctx depth =
     after (put ''F'') (\<lambda>_.
     after (context_child ec storageNode 0 ctx depth) (\<lambda>ctx.
     after
       (steps
         [put accessorCode,
          (if getKind storageNode = K_Variable then
             (if 1 < getNumChildren storageNode then
                steps
                  [with_child storageNode 1 (\<lambda>c. rec c (depth + 1)),
                   mangle_labelled_type rec storageNode 2 depth]
              else failed_at AssertionFailed_error storageNode)
           else if getKind storageNode = K_Subscript then
             steps
               [asserted (getNumChildren storageNode \<le> 4) storageNode,
                mangle_private_name rec storageNode depth,
                put_name ''subscript'',
                mangle_labelled_type rec storageNode 1 depth]
           else failed_at NotAStorageNode storageNode)])
       (\<lambda>_. yields ctx)))"

section \<open>Nominal types\<close>

definition mangleTypeList_old :: "remangle \<Rightarrow> node \<Rightarrow> nat \<Rightarrow> unit rm" where
  "mangleTypeList_old rec nd depth = children_then rec nd depth ''_''"

text \<open>A type is replaced by what it wraps.\<close>

definition mangleNominalType ::
  "context_rec \<Rightarrow> remangle \<Rightarrow> node \<Rightarrow> string \<Rightarrow> entity_context \<Rightarrow> nat \<Rightarrow> string \<Rightarrow> entity_context rm" where
  "mangleNominalType ec rec nd kind ctx depth artificialPrivateDiscriminator =
     with_node (if getKind nd = K_Type then getChild nd 0 else Some nd) (\<lambda>nd.
       substituted_old nd ctx (mangleNamedEntity ec rec nd kind [] ctx (depth + 1) artificialPrivateDiscriminator))"

function mangleGenericArgs_old :: "remangle \<Rightarrow> node \<Rightarrow> nat \<Rightarrow> unit rm" where
  "mangleGenericArgs_old rec nd depth =
     (let k = getKind nd in
      if k \<in> {K_Structure, K_Enum, K_Class} then
        (case getChild nd 0 of
           None \<Rightarrow> failed Undefined
         | Some parentOrModule \<Rightarrow> steps [mangleGenericArgs_old rec parentOrModule (depth + 1), put ''_''])
      else if k \<in> {K_BoundGenericStructure, K_BoundGenericEnum, K_BoundGenericClass} then
        (case getChild nd 0 of
           None \<Rightarrow> failed Undefined
         | Some unboundType \<Rightarrow>
             if getKind unboundType \<noteq> K_Type then failed_at AssertionFailed_error unboundType
             else (case getChild unboundType 0 of
               None \<Rightarrow> failed Undefined
             | Some nominalType \<Rightarrow>
                 (case getChild nominalType 0 of
                    None \<Rightarrow> failed Undefined
                  | Some parentOrModule \<Rightarrow>
                      steps
                        [mangleGenericArgs_old rec parentOrModule (depth + 1),
                         with_child nd 1 (\<lambda>args. mangleTypeList_old rec args (depth + 1))])))
      else if k \<in> {K_AnonymousContext, K_Extension} then
        (case getChild nd 1 of
           None \<Rightarrow> failed Undefined
         | Some parent \<Rightarrow> mangleGenericArgs_old rec parent (depth + 1))
      else yields ())"
  by pat_completeness auto

termination mangleGenericArgs_old
  by (relation "measure (\<lambda>(_, nd, _). size nd)") (auto dest!: child_at_smaller)

declare mangleGenericArgs_old.simps [simp del]

definition nominal_letters :: "(Kind \<times> string \<times> string) list" where
  "nominal_letters =
     [(K_OtherNominalType, ''V'', ''_UnknownTypeKind''), (K_Structure, ''V'', []), (K_Enum, ''O'', []),
      (K_Class, ''C'', []), (K_TypeAlias, ''a'', [])]"

function mangleAnyNominalType_old ::
  "context_rec \<Rightarrow> remangle \<Rightarrow> node \<Rightarrow> entity_context \<Rightarrow> nat \<Rightarrow> entity_context rm" where
  "mangleAnyNominalType_old ec rec nd ctx depth =
     (if depth > Remangler_MaxDepth then failed_at TooComplex nd
      else if isSpecialized nd then
        after (put ''G'') (\<lambda>_.
          case getUnspecialized nd of
            Inl e \<Rightarrow> failed (unspecialize_failure e)
          | Inr unboundType \<Rightarrow>
              after (mangleAnyNominalType_old ec rec unboundType ctx (depth + 1)) (\<lambda>ctx.
              after (mangleGenericArgs_old rec nd (depth + 1)) (\<lambda>_. yields ctx)))
      else if getKind nd = K_Type then
        (case getChild nd 0 of
           None \<Rightarrow> failed Undefined
         | Some t \<Rightarrow> mangleAnyNominalType_old ec rec t ctx (depth + 1))
      else case map_of nominal_letters (getKind nd) of
        Some (letter, discriminator) \<Rightarrow> mangleNominalType ec rec nd letter ctx (depth + 1) discriminator
      | None \<Rightarrow> failed_at BadNominalTypeKind_error nd)"
  by pat_completeness auto

termination mangleAnyNominalType_old
  by (relation "measure (\<lambda>(_, _, nd, _). size nd)") (auto dest: getUnspecialized_smaller dest!: child_at_smaller)

declare mangleAnyNominalType_old.simps [simp del]

end
