(* ===== verification/Old_Remangler_Types.thy ===== *)
theory Old_Remangler_Types
  imports Old_Remangler_Entities
begin

text \<open>
  Contexts, generic parameters, protocols, function types and boxes of the remangler to the mangling before Swift
  4 (\<open>lib/Demangling/OldRemangler.cpp\<close>).
\<close>

section \<open>Generic signatures\<close>

text \<open>A single parameter is left out if it is the only count.\<close>

definition mangleDependentGenericSignature_old :: "remangle \<Rightarrow> node \<Rightarrow> nat \<Rightarrow> unit rm" where
  "mangleDependentGenericSignature_old rec nd depth =
     (let counts = takeWhile (\<lambda>c. getKind c = K_DependentGenericParamCount) (getChildren nd);
          requirements = dropWhile (\<lambda>c. getKind c = K_DependentGenericParamCount) (getChildren nd);
          all_counts = steps (map put_param_count counts)
      in steps
        [(case counts of
            [c] \<Rightarrow> with_index c (\<lambda>i. unless (i = 1) all_counts)
          | _ \<Rightarrow> all_counts),
         (if requirements = [] then put ''r''
          else steps ([put ''R''] @ map (\<lambda>c. rec c (depth + 1)) requirements @ [put ''r'']))])"

section \<open>Contexts\<close>

definition mangleExtension :: "context_rec \<Rightarrow> remangle \<Rightarrow> node \<Rightarrow> entity_context \<Rightarrow> nat \<Rightarrow> entity_context rm" where
  "mangleExtension ec rec nd ctx depth =
     after
       (steps
         [asserted (getNumChildren nd \<in> {2, 3}) nd,
          put (if getNumChildren nd = 3 then ''e'' else ''E'')]) (\<lambda>_.
     after (context_child ec nd 0 ctx depth) (\<lambda>ctx.
     after
       (provided (getNumChildren nd = 3)
         (with_child nd 2 (\<lambda>sig. mangleDependentGenericSignature_old rec sig (depth + 1)))) (\<lambda>_.
     context_child ec nd 1 ctx depth)))"

definition mangleAnonymousContext :: "context_rec \<Rightarrow> node \<Rightarrow> entity_context \<Rightarrow> nat \<Rightarrow> entity_context rm" where
  "mangleAnonymousContext ec nd ctx depth =
     after (context_child ec nd 1 ctx depth) (\<lambda>ctx.
       with_child nd 0 (\<lambda>c. with_text c (\<lambda>t. yields (ctx\<lparr>AnonymousContextDiscriminator := t\<rparr>))))"

definition mangleModule_old :: "node \<Rightarrow> entity_context \<Rightarrow> entity_context rm" where
  "mangleModule_old nd ctx =
     substituted_old nd ctx
       (after (steps [unless (AsContext ctx) (put ''M''), with_text nd put_name]) (\<lambda>_. yields ctx))"

definition simple_entities :: "(Kind \<times> string \<times> string) list" where
  "simple_entities =
     [(K_Initializer, ''I'', ''i''), (K_PropertyWrapperBackingInitializer, ''I'', ''P''),
      (K_PropertyWrapperInitFromProjectedValue, ''I'', ''W''), (K_Deallocator, ''F'', ''D''),
      (K_Destructor, ''F'', ''d''), (K_IVarInitializer, ''F'', ''e''), (K_IVarDestroyer, ''F'', ''E'')]"

definition typed_entities :: "(Kind \<times> string \<times> string) list" where
  "typed_entities = [(K_Allocator, ''F'', ''C''), (K_Constructor, ''F'', ''c'')]"

definition named_and_typed_entities :: "(Kind \<times> string \<times> string) list" where
  "named_and_typed_entities =
     [(K_Function, ''F'', []), (K_Variable, ''v'', []), (K_ExplicitClosure, ''F'', ''U''), (K_ImplicitClosure, ''F'', ''u'')]"

definition accessor_codes :: "(Kind \<times> string) list" where
  "accessor_codes =
     [(K_Getter, ''g''), (K_GlobalGetter, ''G''), (K_Setter, ''s''), (K_MaterializeForSet, ''m''), (K_WillSet, ''w''),
      (K_DidSet, ''W''), (K_OwningMutableAddressor, ''aO''), (K_NativeOwningMutableAddressor, ''ao''),
      (K_NativePinningMutableAddressor, ''ap''), (K_UnsafeMutableAddressor, ''au''), (K_OwningAddressor, ''lO''),
      (K_NativeOwningAddressor, ''lo''), (K_NativePinningAddressor, ''lp''), (K_UnsafeAddressor, ''lu''),
      (K_ReadAccessor, ''r''), (K_ModifyAccessor, ''M'')]"

text \<open>The functions for nodes that can be contexts: \<open>CONTEXT_NODE\<close> in the table of kinds.\<close>

definition mangle_context :: "context_rec \<Rightarrow> remangle \<Rightarrow> node \<Rightarrow> entity_context \<Rightarrow> nat \<Rightarrow> entity_context rm" where
  "mangle_context ec rec nd ctx depth =
     (let k = getKind nd in
      if k \<in> {K_Structure, K_Enum, K_Class, K_OtherNominalType, K_TypeAlias}
      then mangleAnyNominalType_old ec rec nd ctx (depth + 1)
      else if k = K_Protocol then mangleNominalType ec rec nd ''P'' ctx (depth + 1) []
      else if k = K_Module then mangleModule_old nd ctx
      else if k = K_Extension then mangleExtension ec rec nd ctx depth
      else if k = K_AnonymousContext then mangleAnonymousContext ec nd ctx depth
      else if k = K_Subscript then mangleSubscript ec rec nd ctx depth
      else if k = K_DefaultArgumentInitializer then mangleNamedEntity ec rec nd ''I'' ''A'' ctx (depth + 1) []
      else if k = K_Static then after (put ''Z'') (\<lambda>_. context_child ec nd 0 ctx depth)
      else if k = K_AutoDiffFunction then after (put ''<autodiff-function>'') (\<lambda>_. yields ctx)
      else case map_of simple_entities k of
        Some (basicKind, letters) \<Rightarrow> mangleSimpleEntity ec nd basicKind letters ctx (depth + 1)
      | None \<Rightarrow> (case map_of typed_entities k of
        Some (basicKind, letters) \<Rightarrow> mangleTypedEntity ec rec nd basicKind letters ctx (depth + 1)
      | None \<Rightarrow> (case map_of named_and_typed_entities k of
        Some (basicKind, letters) \<Rightarrow> mangleNamedAndTypedEntity ec rec nd basicKind letters ctx (depth + 1)
      | None \<Rightarrow> (case map_of accessor_codes k of
        Some accessorCode \<Rightarrow>
          with_node (getFirstChild nd) (\<lambda>c. mangleAccessor ec rec c accessorCode ctx (depth + 1))
      | None \<Rightarrow> failed_at UnsupportedNodeKind nd))))"

definition bound_contexts :: "Kind list" where
  "bound_contexts =
     [K_BoundGenericStructure, K_BoundGenericEnum, K_BoundGenericClass, K_BoundGenericOtherNominalType,
      K_BoundGenericTypeAlias]"

text \<open>
  \<open>mangleEntityContext\<close> without a limit on the depth; it goes from a context to one that is smaller, so that the
  size of the node is enough as fuel.
\<close>

fun context_rec :: "nat \<Rightarrow> remangle \<Rightarrow> context_rec" where
  "context_rec 0 rec nd ctx depth = failed Out_Of_Fuel"
| "context_rec (Suc n) rec nd ctx depth =
     as_context ctx (\<lambda>ctx.
       if getKind nd \<in> set bound_contexts then mangleAnyNominalType_old (context_rec n rec) rec nd ctx (depth + 1)
       else if \<not> isContext (getKind nd) then failed_at NotAContextNode nd
       else mangle_context (context_rec n rec) rec nd ctx (depth + 1))"

declare context_rec.simps [simp del]

text \<open>A node by itself starts with a context of its own; what is inside it is smaller.\<close>

definition with_new_context :: "remangle \<Rightarrow> node \<Rightarrow> (context_rec \<Rightarrow> entity_context \<Rightarrow> entity_context rm) \<Rightarrow> unit rm" where
  "with_new_context rec nd f = after (f (context_rec (size nd + 1) rec) new_context) (\<lambda>_. yields ())"

definition mangle_by_itself :: "remangle \<Rightarrow> node \<Rightarrow> nat \<Rightarrow> unit rm" where
  "mangle_by_itself rec nd depth = with_new_context rec nd (\<lambda>ec ctx. mangle_context ec rec nd ctx depth)"

definition mangle_bound_generic :: "remangle \<Rightarrow> node \<Rightarrow> nat \<Rightarrow> unit rm" where
  "mangle_bound_generic rec nd depth =
     with_new_context rec nd (\<lambda>ec ctx. mangleAnyNominalType_old ec rec nd ctx (depth + 1))"

section \<open>Protocols\<close>

definition mangleProtocolWithoutPrefix :: "remangle \<Rightarrow> node \<Rightarrow> nat \<Rightarrow> unit rm" where
  "mangleProtocolWithoutPrefix rec nd depth =
     after (mangleStandardSubstitution_old nd) (\<lambda>standard.
       unless standard
         (after (asserted (getKind nd \<noteq> K_Type \<or> getNumChildren nd = 1) nd) (\<lambda>_.
          with_node (if getKind nd = K_Type then getChild nd 0 else Some nd) (\<lambda>nd.
            after (asserted (getKind nd = K_Protocol) nd) (\<lambda>_.
            with_new_context rec nd (\<lambda>ec ctx. mangleNominalType ec rec nd [] ctx (depth + 1) []))))))"

definition mangleProtocolListWithoutPrefix :: "remangle \<Rightarrow> node \<Rightarrow> nat \<Rightarrow> node option \<Rightarrow> unit rm" where
  "mangleProtocolListWithoutPrefix rec nd depth additionalProto =
     steps
       [asserted (getKind nd = K_ProtocolList) nd,
        asserted (getNumChildren nd = 1) nd,
        with_child nd 0 (\<lambda>typeList. steps
          ([asserted (getKind typeList = K_TypeList) typeList]
           @ map (\<lambda>c. mangleProtocolWithoutPrefix rec c (depth + 1)) (getChildren typeList)
           @ (case additionalProto of None \<Rightarrow> [] | Some P \<Rightarrow> [mangleProtocolWithoutPrefix rec P (depth + 1)])
           @ [put ''_'']))]"

definition protocol_child_then :: "remangle \<Rightarrow> node \<Rightarrow> nat \<Rightarrow> string \<Rightarrow> unit rm" where
  "protocol_child_then rec nd depth op =
     steps [put op, with_child nd 0 (\<lambda>c. mangleProtocolWithoutPrefix rec c (depth + 1))]"

definition mangleProtocolConformance_old :: "remangle \<Rightarrow> node \<Rightarrow> nat \<Rightarrow> unit rm" where
  "mangleProtocolConformance_old rec nd depth =
     steps
       [asserted (getNumChildren nd = 3) nd,
        with_child nd 0 (\<lambda>c. rec c (depth + 1)),
        with_child nd 1 (\<lambda>c. mangleProtocolWithoutPrefix rec c (depth + 1)),
        with_child nd 2 (\<lambda>c. rec c (depth + 1))]"

definition AnyObject_protocol :: node where
  "AnyObject_protocol = Node K_Protocol [TextNode K_Module ''Swift'', TextNode K_Identifier ''AnyObject'']"

section \<open>Operators before what they are for\<close>

definition then_children :: "remangle \<Rightarrow> node \<Rightarrow> nat \<Rightarrow> string \<Rightarrow> unit rm" where
  "then_children rec nd depth op = steps [put op, mangleChildNodes rec nd (depth + 1)]"

definition then_single :: "remangle \<Rightarrow> node \<Rightarrow> nat \<Rightarrow> string \<Rightarrow> unit rm" where
  "then_single rec nd depth op = steps [put op, mangleSingleChildNode rec nd (depth + 1)]"

definition partial_apply_old :: "remangle \<Rightarrow> node \<Rightarrow> nat \<Rightarrow> string \<Rightarrow> unit rm" where
  "partial_apply_old rec nd depth op =
     steps
       [put op,
        provided (getNumChildren nd = 1) (steps [put ''__T'', mangleSingleChildNode rec nd (depth + 1)])]"

definition metatype_old :: "remangle \<Rightarrow> node \<Rightarrow> nat \<Rightarrow> string \<Rightarrow> string \<Rightarrow> unit rm" where
  "metatype_old rec nd depth op represented_op =
     (if getNumChildren nd = 1 then then_single rec nd depth op
      else steps [asserted (getNumChildren nd = 2) nd, then_children rec nd depth represented_op])"

section \<open>Builtin types\<close>

definition builtin_letters_old :: "(string \<times> char) list" where
  "builtin_letters_old =
     [(''Builtin.BridgeObject'', CHR ''b''), (''Builtin.UnsafeValueBuffer'', CHR ''B''),
      (''Builtin.UnknownObject'', CHR ''O''), (''Builtin.NativeObject'', CHR ''o''),
      (''Builtin.RawPointer'', CHR ''p''), (''Builtin.Word'', CHR ''w'')]"

definition mangleBuiltinTypeName_old :: "node \<Rightarrow> unit rm" where
  "mangleBuiltinTypeName_old nd =
     steps
       [put ''B'',
        with_text nd (\<lambda>t.
          case map_of builtin_letters_old t of
            Some letter \<Rightarrow> put [letter]
          | None \<Rightarrow>
              if startswith t ''Builtin.Int'' then put (''i'' @ drop 11 t @ ''_'')
              else if startswith t ''Builtin.FPIEEE'' then put (''f'' @ drop 14 t @ ''_'')
              else if startswith t ''Builtin.Vec'' then
                let v = drop 11 t; size = takeWhile (\<lambda>c. c \<noteq> CHR ''x'') v in
                steps [put (''v'' @ size @ ''B''), vector_element nd (drop (length size + 1) v)]
              else failed_at UnexpectedBuiltinType nd)]"

section \<open>Lowered function types\<close>

text \<open>The error for an unknown convention is reported at the next child, which may not exist.\<close>

definition callee_convention_old :: "node list \<Rightarrow> node list rm" where
  "callee_convention_old cs =
     (case cs of
        c # rest \<Rightarrow>
          if getKind c = K_ImplConvention then
            with_text c (\<lambda>t.
              case map_of [(''@callee_unowned'', ''d''), (''@callee_guaranteed'', ''g''), (''@callee_owned'', ''o'')] t of
                Some letter \<Rightarrow> after (put letter) (\<lambda>_. yields rest)
              | None \<Rightarrow> (case rest of [] \<Rightarrow> failed Undefined | n # _ \<Rightarrow> failed_at InvalidImplCalleeConvention n))
          else after (put ''t'') (\<lambda>_. yields cs)
      | [] \<Rightarrow> after (put ''t'') (\<lambda>_. yields cs))"

definition two_children :: "remangle \<Rightarrow> node \<Rightarrow> nat \<Rightarrow> string \<Rightarrow> unit rm" where
  "two_children rec nd depth op = steps [asserted (getNumChildren nd = 2) nd, put op, mangleChildNodes rec nd (depth + 1)]"

definition impl_signature_old :: "remangle \<Rightarrow> nat \<Rightarrow> node list \<Rightarrow> node list rm" where
  "impl_signature_old rec depth cs =
     (case cs of
        c # rest \<Rightarrow>
          if getKind c \<in> {K_DependentGenericSignature, K_DependentPseudogenericSignature} then
            after
              (steps
                [put (if getKind c = K_DependentGenericSignature then ''G'' else ''g''),
                 mangleDependentGenericSignature_old rec c (depth + 1)])
              (\<lambda>_. yields rest)
          else yields cs
      | [] \<Rightarrow> yields cs)"

definition mangleImplFunctionType_old :: "remangle \<Rightarrow> node \<Rightarrow> nat \<Rightarrow> unit rm" where
  "mangleImplFunctionType_old rec nd depth =
     after (put ''XF'') (\<lambda>_.
     after (callee_convention_old (getChildren nd)) (\<lambda>cs.
     after (steps (map (\<lambda>c. rec c (depth + 1)) (takeWhile (\<lambda>c. getKind c = K_ImplFunctionAttribute) cs))) (\<lambda>_.
     after (impl_signature_old rec depth (dropWhile (\<lambda>c. getKind c = K_ImplFunctionAttribute) cs)) (\<lambda>cs.
     steps
       ([put ''_'']
        @ map (\<lambda>c. two_children rec c (depth + 1) []) (takeWhile (\<lambda>c. getKind c = K_ImplParameter) cs)
        @ [put ''_'']
        @ map (\<lambda>c. rec c (depth + 1)) (dropWhile (\<lambda>c. getKind c = K_ImplParameter) cs)
        @ [put ''_''])))))"

text \<open>A \<open>StringSwitch\<close> that is written as a chain of comparisons.\<close>

definition put_text_switch :: "(string \<times> string) list \<Rightarrow> node \<Rightarrow> mangling_error \<Rightarrow> unit rm" where
  "put_text_switch switch_table nd error =
     with_text nd (\<lambda>t. case map_of switch_table t of Some out \<Rightarrow> put out | None \<Rightarrow> failed_at error nd)"

definition attributes_old :: "(string \<times> string) list" where
  "attributes_old = [(''@yield_once'', ''A''), (''@yield_many'', ''G''), (''@Sendable'', ''h''), (''@async'', ''H'')]"

definition convention_names_old :: "(string \<times> string) list" where
  "convention_names_old =
     [(''block'', ''Cb''), (''c'', ''Cc''), (''method'', ''Cm''), (''objc_method'', ''CO''), (''witness_method'', ''Cw'')]"

definition conventions_old :: "(string \<times> string) list" where
  "conventions_old =
     [(''@autoreleased'', ''a''), (''@unowned'', ''d''), (''@unowned_inner_pointer'', ''D''), (''@guaranteed'', ''g''),
      (''@deallocating'', ''e''), (''@in'', ''i''), (''@out'', ''i''), (''@inout'', ''l''), (''@owned'', ''o'')]"

definition representations_old :: "(string \<times> string) list" where
  "representations_old = [(''@thin'', ''t''), (''@thick'', ''T''), (''@objc_metatype'', ''o'')]"

definition mangleImplParameterResultDifferentiability_old :: "node \<Rightarrow> unit rm" where
  "mangleImplParameterResultDifferentiability_old nd =
     steps
       [asserted (getKind nd = K_ImplDifferentiabilityKind) nd,
        put_text_switch [([], []), (''@noDerivative'', ''w'')] nd InvalidImplDifferentiability]"

section \<open>Tuples\<close>

definition mangleTuple_old :: "remangle \<Rightarrow> node \<Rightarrow> nat \<Rightarrow> unit rm" where
  "mangleTuple_old rec nd depth =
     steps
       [(if getNumChildren nd = 0 then put ''T''
         else with_child nd (getNumChildren nd - 1) (\<lambda>c. with_node (getFirstChild c) (\<lambda>first.
           put (if getKind first = K_VariadicMarker then ''t'' else ''T'')))),
        mangleChildNodes rec nd (depth + 1),
        put ''_'']"

section \<open>Dependent types\<close>

definition put_param :: "node \<Rightarrow> unit rm" where
  "put_param nd = mangleDependentGenericParamIndex nd [] (CHR ''x'')"

definition mangleConstrainedType_old :: "remangle \<Rightarrow> node \<Rightarrow> nat \<Rightarrow> unit rm" where
  "mangleConstrainedType_old rec nd depth =
     with_node (getFirstChild nd) (\<lambda>c.
       if getKind c = K_DependentGenericParamType then put_param c else rec nd (depth + 1))"

definition is_protocol_type :: "node \<Rightarrow> bool" where
  "is_protocol_type nd \<longleftrightarrow>
     getKind nd = K_Type \<and> (case getChildren nd of [c] \<Rightarrow> getKind c = K_Protocol | _ \<Rightarrow> False)"

definition mangleConformanceRequirement_old :: "remangle \<Rightarrow> node \<Rightarrow> nat \<Rightarrow> unit rm" where
  "mangleConformanceRequirement_old rec nd depth =
     steps
       [with_child nd 0 (\<lambda>c. mangleConstrainedType_old rec c (depth + 1)),
        with_child nd 1 (\<lambda>constraint.
          if getNumChildren nd = 2 \<and> is_protocol_type constraint
          then with_child constraint 0 (\<lambda>c. mangleProtocolWithoutPrefix rec c (depth + 1))
          else rec constraint (depth + 1))]"

definition mangleSameTypeRequirement_old :: "remangle \<Rightarrow> node \<Rightarrow> nat \<Rightarrow> unit rm" where
  "mangleSameTypeRequirement_old rec nd depth =
     steps
       [with_child nd 0 (\<lambda>c. mangleConstrainedType_old rec c (depth + 1)),
        put ''z'',
        with_child nd 1 (\<lambda>c. rec c (depth + 1))]"

text \<open>Size and alignment are read into variables of type \<open>int\<close>, -1 if they are missing.\<close>

definition int_child :: "node \<Rightarrow> nat \<Rightarrow> (int \<Rightarrow> unit rm) \<Rightarrow> unit rm" where
  "int_child nd i f =
     (if getNumChildren nd > i then with_child nd i (\<lambda>c. with_index c (\<lambda>v. f (sint (low32 v)))) else f (-1))"

definition mangleLayoutRequirement_old :: "remangle \<Rightarrow> node \<Rightarrow> nat \<Rightarrow> unit rm" where
  "mangleLayoutRequirement_old rec nd depth =
     steps
       [with_child nd 0 (\<lambda>c. mangleConstrainedType_old rec c (depth + 1)),
        put ''l'',
        with_child nd 1 (\<lambda>layout. with_text layout (\<lambda>id.
        int_child nd 2 (\<lambda>size. int_child nd 3 (\<lambda>alignment.
          steps
            [put id,
             provided (size \<ge> 0) (put (show_nat (nat size))),
             provided (alignment \<ge> 0) (put (''_'' @ show_nat (nat alignment)))]))))]"

text \<open>The chain of members, from the outermost, and the type at its end.\<close>

function member_chain_old :: "node \<Rightarrow> (node list \<times> node) option" where
  "member_chain_old nd =
     (case getFirstChild nd of
        None \<Rightarrow> None
      | Some t \<Rightarrow>
          (case getFirstChild t of
             None \<Rightarrow> None
           | Some end \<Rightarrow>
               if getKind end = K_DependentMemberType
               then map_option (\<lambda>(members, e). (nd # members, e)) (member_chain_old end)
               else Some ([nd], end)))"
  by pat_completeness auto

termination member_chain_old
  by (relation "measure size") (auto dest!: first_child_smaller)

declare member_chain_old.simps [simp del]

definition mangleDependentMemberType_old :: "remangle \<Rightarrow> node \<Rightarrow> nat \<Rightarrow> unit rm" where
  "mangleDependentMemberType_old rec nd depth =
     (case member_chain_old nd of
        None \<Rightarrow> failed Undefined
      | Some (members, end) \<Rightarrow>
          let put_members = map (\<lambda>m. with_child m 1 (\<lambda>c. rec c (depth + 1))) (rev members) in
          after (asserted (getKind end = K_DependentGenericParamType) end) (\<lambda>_.
            steps
              (if length members = 1 then [put ''w'', put_param end] @ put_members
               else [put ''W'', put_param end] @ put_members @ [put ''_''])))"

definition mangleDependentAssociatedTypeRef_old :: "remangle \<Rightarrow> node \<Rightarrow> nat \<Rightarrow> unit rm" where
  "mangleDependentAssociatedTypeRef_old rec nd depth =
     substituted_old nd ()
       (steps
         [provided (getNumChildren nd > 1)
            (steps [put ''P'', with_child nd 1 (\<lambda>c. mangleProtocolWithoutPrefix rec c (depth + 1))]),
          with_node (getFirstChild nd) (\<lambda>c. with_text c put_name)])"

definition mangleDependentGenericParamType_old :: "node \<Rightarrow> unit rm" where
  "mangleDependentGenericParamType_old nd =
     with_child nd 0 (\<lambda>d. with_index d (\<lambda>paramDepth.
       let other = steps [put ''q'', put_param nd] in
       if paramDepth \<noteq> 0 then other
       else with_child nd 1 (\<lambda>i. with_index i (\<lambda>index. if index = 0 then put ''x'' else other))))"

section \<open>Boxes\<close>

text \<open>The assertion on the fields is on the layout, and the one on the generic arguments on their list.\<close>

definition mangleSILBoxLayout_old :: "remangle \<Rightarrow> node \<Rightarrow> nat \<Rightarrow> unit rm" where
  "mangleSILBoxLayout_old rec nd depth =
     steps
       ([asserted (getKind nd = K_SILBoxLayout) nd]
        @ concat (map (\<lambda>c. [asserted (getKind nd \<in> {K_SILBoxImmutableField, K_SILBoxMutableField}) nd, rec c (depth + 1)])
            (getChildren nd))
        @ [put ''_''])"

definition box_arguments_old :: "remangle \<Rightarrow> node \<Rightarrow> nat \<Rightarrow> unit rm" where
  "box_arguments_old rec genericArgs depth =
     steps
       (concat (map (\<lambda>t. [asserted (getKind genericArgs = K_Type) genericArgs, mangleType rec t (depth + 1)])
          (getChildren genericArgs))
        @ [put ''_''])"

definition mangleSILBoxTypeWithLayout_old :: "remangle \<Rightarrow> node \<Rightarrow> nat \<Rightarrow> unit rm" where
  "mangleSILBoxTypeWithLayout_old rec nd depth =
     steps
       [asserted (getKind nd = K_SILBoxTypeWithLayout) nd,
        asserted (getNumChildren nd \<in> {1, 3}) nd,
        put ''XB'',
        with_child nd 0 (\<lambda>layout.
          after (asserted (getKind layout = K_SILBoxLayout) layout) (\<lambda>_.
          if getNumChildren nd = 3 then
            with_child nd 1 (\<lambda>signature. with_child nd 2 (\<lambda>genericArgs.
              steps
                [asserted (getKind signature = K_DependentGenericSignature) signature,
                 asserted (getKind genericArgs = K_TypeList) genericArgs,
                 put ''G'',
                 mangleDependentGenericSignature_old rec signature (depth + 1),
                 mangleSILBoxLayout_old rec layout (depth + 1),
                 box_arguments_old rec genericArgs depth]))
          else mangleSILBoxLayout_old rec layout (depth + 1)))]"

definition box_field_old :: "remangle \<Rightarrow> node \<Rightarrow> nat \<Rightarrow> string \<Rightarrow> unit rm" where
  "box_field_old rec nd depth op =
     steps
       [put op,
        asserted (case getChildren nd of [c] \<Rightarrow> getKind c = K_Type | _ \<Rightarrow> False) nd,
        with_child nd 0 (\<lambda>c. mangleType rec c (depth + 1))]"

section \<open>Value witnesses\<close>

definition mangleValueWitness_old :: "remangle \<Rightarrow> node \<Rightarrow> nat \<Rightarrow> unit rm" where
  "mangleValueWitness_old rec nd depth =
     with_node (getFirstChild nd) (\<lambda>c. with_index c (\<lambda>i.
       if unat i < length value_witnesses then
         steps
           [put (''w'' @ fst (value_witnesses ! unat i)),
            asserted (1 < getNumChildren nd) nd,
            with_child nd 1 (\<lambda>c. rec c (depth + 1))]
       else failed_at BadValueWitnessKind nd))"

end
