(* ===== verification/Old_Remangler.thy ===== *)
theory Old_Remangler
  imports Old_Remangler_Types Printer_Monad
begin

text \<open>
  The switch of \<open>mangle\<close> in the remangler to the mangling before Swift 4 (\<open>lib/Demangling/OldRemangler.cpp\<close>), cut
  into \<open>old_remangle_cases_1\<close> to \<open>old_remangle_cases_15\<close> in the order of the functions in the file, and its entry
  points. Every call of \<open>mangle\<close> is one level deeper, and the code stops at a depth of 1024, so that 1026 is
  enough fuel.
\<close>

section \<open>Cases\<close>

definition old_remangle_cases_1 :: "remangle \<Rightarrow> node \<Rightarrow> nat \<Rightarrow> unit rm \<Rightarrow> unit rm" where
  "old_remangle_cases_1 rec nd depth other =
     (let k = getKind nd in
      if k = K_Identifier then with_text nd put_name
      else if k = K_PrefixOperator then with_text nd (put_operator ''op'')
      else if k = K_PostfixOperator then with_text nd (put_operator ''oP'')
      else if k = K_InfixOperator then with_text nd (put_operator ''oi'')
      else if k = K_Number then with_index nd put_index
      else if k = K_Global then then_children rec nd depth ''_T''
      else if k = K_Suffix then with_text nd put
      else if k = K_GenericSpecialization then failed_at UnsupportedNodeKind nd
      else if k = K_GenericSpecializationPrespecialized then failed_at UnsupportedNodeKind nd
      else if k = K_GenericSpecializationNotReAbstracted then failed_at UnsupportedNodeKind nd
      else if k = K_GenericSpecializationInResilienceDomain then failed_at UnsupportedNodeKind nd
      else if k = K_InlinedGenericFunction then failed_at UnsupportedNodeKind nd
      else if k = K_GenericPartialSpecialization then failed_at UnsupportedNodeKind nd
      else if k = K_GenericPartialSpecializationNotReAbstracted then failed_at UnsupportedNodeKind nd
      else if k = K_GenericSpecializationParam then failed_at UnsupportedNodeKind nd
      else if k = K_FunctionSignatureSpecialization then failed_at UnsupportedNodeKind nd
      else if k = K_SpecializationPassID then failed_at UnsupportedNodeKind nd
      else if k = K_IsSerialized then put ''q''
      else if k = K_FunctionSignatureSpecializationReturn then failed_at UnsupportedNodeKind nd
      else if k = K_FunctionSignatureSpecializationParam then failed_at UnsupportedNodeKind nd
      else if k = K_FunctionSignatureSpecializationParamPayload then failed_at UnsupportedNodeKind nd
      else other)"

definition old_remangle_cases_2 :: "remangle \<Rightarrow> node \<Rightarrow> nat \<Rightarrow> unit rm \<Rightarrow> unit rm" where
  "old_remangle_cases_2 rec nd depth other =
     (let k = getKind nd in
      if k = K_FunctionSignatureSpecializationParamKind then failed_at UnsupportedNodeKind nd
      else if k = K_RetroactiveConformance then failed_at UnsupportedNodeKind nd
      else if k = K_ProtocolConformanceRefInTypeModule then failed_at UnsupportedNodeKind nd
      else if k = K_ProtocolConformanceRefInProtocolModule then failed_at UnsupportedNodeKind nd
      else if k = K_ProtocolConformanceRefInOtherModule then failed_at UnsupportedNodeKind nd
      else if k = K_ConcreteProtocolConformance then failed_at UnsupportedNodeKind nd
      else if k = K_AnyProtocolConformanceList then failed_at UnsupportedNodeKind nd
      else if k = K_DependentAssociatedConformance then failed_at UnsupportedNodeKind nd
      else if k = K_DependentProtocolConformanceRoot then failed_at UnsupportedNodeKind nd
      else if k = K_DependentProtocolConformanceInherited then failed_at UnsupportedNodeKind nd
      else if k = K_DependentProtocolConformanceAssociated then failed_at UnsupportedNodeKind nd
      else if k = K_ProtocolConformance then mangleProtocolConformance_old rec nd depth
      else if k = K_ObjCAttribute then put ''To''
      else if k = K_NonObjCAttribute then put ''TO''
      else if k = K_DirectMethodReferenceAttribute then put ''Td''
      else if k = K_DynamicAttribute then put ''TD''
      else if k = K_VTableAttribute then put ''TV''
      else if k = K_GenericTypeMetadataPattern then then_single rec nd depth ''MP''
      else if k = K_TypeMetadataAccessFunction then then_single rec nd depth ''Ma''
      else if k = K_TypeMetadataInstantiationCache then then_single rec nd depth ''MI''
      else if k = K_TypeMetadataInstantiationFunction then then_single rec nd depth ''Mi''
      else if k = K_TypeMetadataSingletonInitializationCache then then_single rec nd depth ''Ml''
      else if k = K_TypeMetadataCompletionFunction then then_single rec nd depth ''Mr''
      else if k = K_TypeMetadataDemanglingCache then failed_at UnsupportedNodeKind nd
      else other)"

definition old_remangle_cases_3 :: "remangle \<Rightarrow> node \<Rightarrow> nat \<Rightarrow> unit rm \<Rightarrow> unit rm" where
  "old_remangle_cases_3 rec nd depth other =
     (let k = getKind nd in
      if k = K_TypeMetadataLazyCache then then_single rec nd depth ''ML''
      else if k = K_Metaclass then then_single rec nd depth ''Mm''
      else if k = K_ClassMetadataBaseOffset then then_single rec nd depth ''Mo''
      else if k = K_NominalTypeDescriptor then then_single rec nd depth ''Mn''
      else if k = K_NominalTypeDescriptorRecord then then_single rec nd depth ''Hn''
      else if k = K_PropertyDescriptor then failed_at UnsupportedNodeKind nd
      else if k = K_TypeMetadata then then_single rec nd depth ''M''
      else if k = K_FullTypeMetadata then then_children rec nd depth ''Mf''
      else if k = K_ProtocolDescriptor then protocol_child_then rec nd depth ''Mp''
      else if k = K_ProtocolDescriptorRecord then protocol_child_then rec nd depth ''Hr''
      else if k = K_ProtocolRequirementsBaseDescriptor then put ''<protocol-requirements-base-descriptor>''
      else if k = K_ProtocolWitnessTablePattern then failed_at UnsupportedNodeKind nd
      else if k = K_ProtocolConformanceDescriptor then
        steps [put ''Mc'', with_child nd 0 (\<lambda>c. mangleProtocolConformance_old rec c (depth + 1))]
      else if k = K_ProtocolConformanceDescriptorRecord then
        steps [put ''Hc'', with_child nd 0 (\<lambda>c. mangleProtocolConformance_old rec c (depth + 1))]
      else if k = K_ProtocolSelfConformanceDescriptor then
        steps
          [put ''MS'',
           with_child nd 0 (\<lambda>c. with_new_context rec c (\<lambda>ec ctx. mangleNominalType ec rec c ''P'' ctx (depth + 2) []))]
      else if k = K_PartialApplyForwarder then partial_apply_old rec nd depth ''PA''
      else if k = K_PartialApplyObjCForwarder then partial_apply_old rec nd depth ''PAo''
      else if k = K_MergedFunction then put ''Tm''
      else if k = K_DistributedThunk then put ''TE''
      else if k = K_DistributedMethodAccessor then put ''TF''
      else if k = K_DynamicallyReplaceableFunctionImpl then put ''TI''
      else if k = K_DynamicallyReplaceableFunctionKey then put ''Tx''
      else if k = K_DynamicallyReplaceableFunctionVar then put ''TX''
      else if k = K_AsyncAwaitResumePartialFunction then failed_at UnsupportedNodeKind nd
      else other)"

definition old_remangle_cases_4 :: "remangle \<Rightarrow> node \<Rightarrow> nat \<Rightarrow> unit rm \<Rightarrow> unit rm" where
  "old_remangle_cases_4 rec nd depth other =
     (let k = getKind nd in
      if k = K_AsyncSuspendResumePartialFunction then failed_at UnsupportedNodeKind nd
      else if k = K_Directness then
        with_index nd (\<lambda>i.
          if i = 0 then put ''d'' else if i = 1 then put ''i'' else failed_at BadDirectness nd)
      else if k = K_ValueWitness then mangleValueWitness_old rec nd depth
      else if k = K_ValueWitnessTable then then_single rec nd depth ''WV''
      else if k = K_ConcurrentFunctionType then put ''y''
      else if k = K_AsyncAnnotation then put ''Z''
      else if k = K_ThrowsAnnotation then put ''z''
      else if k = K_DifferentiableFunctionType then then_children rec nd depth ''D''
      else if k = K_GlobalActorFunctionType then steps [put ''Y'', put_index_char nd]
      else if k = K_FieldOffset then then_children rec nd depth ''Wv''
      else if k = K_EnumCase then then_single rec nd depth ''WC''
      else if k = K_ProtocolSelfConformanceWitnessTable then then_single rec nd depth ''WS''
      else if k = K_ProtocolWitnessTable then then_single rec nd depth ''WP''
      else if k = K_GenericProtocolWitnessTable then then_single rec nd depth ''WG''
      else if k = K_ResilientProtocolWitnessTable then failed_at UnsupportedNodeKind nd
      else if k = K_GenericProtocolWitnessTableInstantiationFunction then then_single rec nd depth ''WI''
      else if k = K_ProtocolWitnessTableAccessor then then_single rec nd depth ''Wa''
      else if k = K_LazyProtocolWitnessTableAccessor then then_children rec nd depth ''Wl''
      else if k = K_LazyProtocolWitnessTableCacheVariable then then_children rec nd depth ''WL''
      else if k = K_AssociatedTypeDescriptor then put ''<associated-type-descriptor>''
      else if k = K_AssociatedConformanceDescriptor then put ''<associated-conformance-descriptor>''
      else if k = K_DefaultAssociatedConformanceAccessor then put ''<default-associated-conformance-descriptor>''
      else other)"

definition old_remangle_cases_5 :: "remangle \<Rightarrow> node \<Rightarrow> nat \<Rightarrow> unit rm \<Rightarrow> unit rm" where
  "old_remangle_cases_5 rec nd depth other =
     (let k = getKind nd in
      if k = K_BaseConformanceDescriptor then put ''<base-conformance-descriptor>''
      else if k = K_AssociatedTypeMetadataAccessor then then_children rec nd depth ''Wt''
      else if k = K_DefaultAssociatedTypeMetadataAccessor then put ''<default-associated-type-metadata-accessor>''
      else if k = K_AssociatedTypeWitnessTableAccessor then
        steps
          [put ''WT'', asserted (getNumChildren nd = 3) nd,
           with_child nd 0 (\<lambda>c. rec c (depth + 1)), with_child nd 1 (\<lambda>c. rec c (depth + 1)),
           with_child nd 2 (\<lambda>c. mangleProtocolWithoutPrefix rec c (depth + 1))]
      else if k = K_BaseWitnessTableAccessor then put ''<base-witness-table-accessor>''
      else if k = K_ReabstractionThunkHelper then put ''<reabstraction-thunk-helper>''
      else if k = K_ReabstractionThunkHelperWithSelf then put ''<reabstraction-thunk-helper-with-self>''
      else if k = K_ReabstractionThunk then put ''<reabstraction-thunk>''
      else if k = K_ReabstractionThunkHelperWithGlobalActor then put ''<reabstraction-thunk-helper-with-global-actor>''
      else if k = K_AutoDiffDerivativeVTableThunk then put ''<autodiff-derivative-vtable-thunk>''
      else if k = K_AutoDiffSelfReorderingReabstractionThunk then put ''<autodiff-self-reordering-reabstraction-thunk>''
      else if k = K_AutoDiffSubsetParametersThunk then put ''<autodiff-subset-parameters-thunk>''
      else if k = K_AutoDiffFunctionKind then put ''<autodiff-function-kind>''
      else if k = K_DifferentiabilityWitness then put ''<differentiability-witness>''
      else if k = K_IndexSubset then put ''<index-subset>''
      else if k = K_ProtocolSelfConformanceWitness then then_single rec nd depth ''TS''
      else if k = K_ProtocolWitness then then_children rec nd depth ''TW''
      else other)"

definition old_remangle_cases_6 :: "remangle \<Rightarrow> node \<Rightarrow> nat \<Rightarrow> unit rm \<Rightarrow> unit rm" where
  "old_remangle_cases_6 rec nd depth other =
     (let k = getKind nd in
      if k = K_AsyncFunctionPointer then put ''Tu''
      else other)"

definition old_remangle_cases_7 :: "remangle \<Rightarrow> node \<Rightarrow> nat \<Rightarrow> unit rm \<Rightarrow> unit rm" where
  "old_remangle_cases_7 rec nd depth other =
     (let k = getKind nd in
      if k = K_LocalDeclName then then_children rec nd depth ''L''
      else if k = K_PrivateDeclName then then_children rec nd depth ''P''
      else if k = K_RelatedEntityDeclName then
        steps
          [with_node (getFirstChild nd) (\<lambda>kindNode. with_text kindNode (\<lambda>t.
             put (''P'' @ show_nat (length t + 1) @ ''$'' @ t))),
           asserted (1 < getNumChildren nd) nd, with_child nd 1 (\<lambda>c. rec c (depth + 1))]
      else if k = K_TypeMangling then then_single rec nd depth ''t''
      else if k = K_Type then mangleType rec nd depth
      else if k = K_BuiltinTypeName then mangleBuiltinTypeName_old nd
      else if k = K_FunctionType then then_children rec nd depth ''F''
      else if k = K_UncurriedFunctionType then then_children rec nd depth ''f''
      else if k = K_ObjCBlock then then_children rec nd depth ''b''
      else if k = K_EscapingObjCBlock then put ''<escaping block type>''
      else if k = K_CFunctionPointer then then_children rec nd depth ''c''
      else if k = K_AutoClosureType then then_children rec nd depth ''K''
      else if k = K_NoEscapeFunctionType then then_children rec nd depth ''F''
      else if k = K_EscapingAutoClosureType then then_children rec nd depth ''K''
      else if k = K_ThinFunctionType then then_children rec nd depth ''Xf''
      else if k = K_ArgumentTuple then mangleSingleChildNode rec nd (depth + 1)
      else if k = K_ReturnType then mangleSingleChildNode rec nd (depth + 1)
      else other)"

definition old_remangle_cases_8 :: "remangle \<Rightarrow> node \<Rightarrow> nat \<Rightarrow> unit rm \<Rightarrow> unit rm" where
  "old_remangle_cases_8 rec nd depth other =
     (let k = getKind nd in
      if k = K_ImplFunctionType then mangleImplFunctionType_old rec nd depth
      else if k = K_ImplFunctionAttribute then put_text_switch attributes_old nd InvalidImplFunctionAttribute
      else if k = K_ImplFunctionConvention then with_child nd 0 (\<lambda>c. rec c (depth + 1))
      else if k = K_ImplFunctionConventionName then put_text_switch convention_names_old nd InvalidImplCalleeConvention
      else if k = K_ClangType then failed_at UnsupportedNodeKind nd
      else if k = K_ImplParameter then two_children rec nd depth []
      else if k = K_ImplErrorResult then two_children rec nd depth ''z''
      else if k = K_ImplResult then two_children rec nd depth []
      else if k = K_ImplYield then two_children rec nd depth ''Y''
      else if k = K_ImplDifferentiabilityKind then put_index_char nd
      else if k = K_ImplEscaping then yields ()
      else if k = K_ImplPatternSubstitutions then yields ()
      else if k = K_ImplInvocationSubstitutions then yields ()
      else other)"

definition old_remangle_cases_9 :: "remangle \<Rightarrow> node \<Rightarrow> nat \<Rightarrow> unit rm \<Rightarrow> unit rm" where
  "old_remangle_cases_9 rec nd depth other =
     (let k = getKind nd in
      if k = K_ImplConvention then put_text_switch conventions_old nd InvalidImplParameterConvention
      else if k = K_ImplParameterResultDifferentiability then mangleImplParameterResultDifferentiability_old nd
      else if k = K_DynamicSelf then then_single rec nd depth ''D''
      else if k = K_ErrorType then put ''ERR''
      else if k = K_SILBoxType then then_single rec nd depth ''Xb''
      else if k = K_Metatype then metatype_old rec nd depth ''M'' ''XM''
      else if k = K_ExistentialMetatype then metatype_old rec nd depth ''PM'' ''XPM''
      else if k = K_MetatypeRepresentation then put_text_switch representations_old nd InvalidMetatypeRepresentation
      else if k = K_ProtocolList then steps [put ''P'', mangleProtocolListWithoutPrefix rec nd (depth + 1) None]
      else if k = K_Weak then then_single rec nd depth ''Xw''
      else if k = K_Unowned then then_single rec nd depth ''Xo''
      else if k = K_Unmanaged then then_single rec nd depth ''Xu''
      else if k = K_Shared then then_single rec nd depth ''h''
      else if k = K_Owned then then_single rec nd depth ''n''
      else if k = K_InOut then then_single rec nd depth ''R''
      else if k = K_Isolated then then_single rec nd depth ''Yi''
      else if k = K_NoDerivative then then_single rec nd depth ''k''
      else other)"

definition old_remangle_cases_10 :: "remangle \<Rightarrow> node \<Rightarrow> nat \<Rightarrow> unit rm \<Rightarrow> unit rm" where
  "old_remangle_cases_10 rec nd depth other =
     (let k = getKind nd in
      if k = K_Tuple then mangleTuple_old rec nd depth
      else if k = K_TupleElement then mangleChildNodes rec nd (depth + 1)
      else if k = K_TupleElementName then with_text nd put_name
      else if k = K_DependentGenericType then then_children rec nd depth ''u''
      else if k = K_DependentPseudogenericSignature then mangleDependentGenericSignature_old rec nd (depth + 1)
      else if k = K_DependentGenericSignature then mangleDependentGenericSignature_old rec nd depth
      else if k = K_DependentGenericParamCount then failed_at UnsupportedNodeKind nd
      else if k = K_DependentGenericConformanceRequirement then mangleConformanceRequirement_old rec nd depth
      else if k = K_DependentGenericSameTypeRequirement then mangleSameTypeRequirement_old rec nd depth
      else if k = K_DependentGenericLayoutRequirement then mangleLayoutRequirement_old rec nd depth
      else if k = K_AssociatedType then
        if getNumChildren nd \<noteq> 0 then
          steps
            [asserted (getNumChildren nd = 1) nd,
             with_child nd 0 (\<lambda>c. mangleProtocolListWithoutPrefix rec c (depth + 1) None)]
        else put ''_''
      else if k = K_DeclContext then mangleSingleChildNode rec nd (depth + 1)
      else other)"

definition old_remangle_cases_11 :: "remangle \<Rightarrow> node \<Rightarrow> nat \<Rightarrow> unit rm \<Rightarrow> unit rm" where
  "old_remangle_cases_11 rec nd depth other =
     (let k = getKind nd in
      if k = K_AssociatedTypeRef then substituted_old nd () (then_children rec nd depth ''Q'')
      else if k = K_DependentMemberType then mangleDependentMemberType_old rec nd depth
      else if k = K_DependentAssociatedTypeRef then mangleDependentAssociatedTypeRef_old rec nd depth
      else if k = K_DependentGenericParamType then mangleDependentGenericParamType_old nd
      else if k = K_Index then with_index nd put_index
      else if k = K_UnknownIndex then failed_at UnsupportedNodeKind nd
      else other)"

definition old_remangle_cases_12 :: "remangle \<Rightarrow> node \<Rightarrow> nat \<Rightarrow> unit rm \<Rightarrow> unit rm" where
  "old_remangle_cases_12 rec nd depth other =
     (let k = getKind nd in
      if k = K_BoundGenericClass then mangle_bound_generic rec nd depth
      else if k = K_BoundGenericStructure then mangle_bound_generic rec nd depth
      else if k = K_BoundGenericEnum then mangle_bound_generic rec nd depth
      else if k = K_BoundGenericOtherNominalType then mangle_bound_generic rec nd depth
      else if k = K_BoundGenericProtocol then mangle_bound_generic rec nd depth
      else if k = K_BoundGenericTypeAlias then mangle_bound_generic rec nd depth
      else if k = K_BoundGenericFunction then mangle_bound_generic rec nd depth
      else if k = K_TypeList then mangleTypeList_old rec nd depth
      else if k = K_LabelList then if getNumChildren nd = 0 then put ''y'' else mangleChildNodes rec nd (depth + 1)
      else if k = K_ReflectionMetadataBuiltinDescriptor then put ''MRb''
      else if k = K_ReflectionMetadataFieldDescriptor then put ''MRf''
      else if k = K_ReflectionMetadataAssocTypeDescriptor then put ''MRa''
      else if k = K_ReflectionMetadataSuperclassDescriptor then put ''MRc''
      else if k = K_GenericTypeParamDecl then failed_at UnsupportedNodeKind nd
      else if k = K_CurryThunk then put ''<curry-thunk>''
      else if k = K_DispatchThunk then put ''<dispatch-thunk>''
      else if k = K_MethodDescriptor then put ''<method-descriptor>''
      else if k = K_MethodLookupFunction then put ''<method-lookup-function>''
      else if k = K_ObjCMetadataUpdateFunction then put ''<objc-metadata-update-function>''
      else if k = K_ObjCResilientClassStub then put ''<objc-resilient-class-stub>''
      else if k = K_FullObjCResilientClassStub then put ''<full-objc-resilient-class-stub>''
      else if k = K_EmptyList then put ''<empty>''
      else if k = K_FirstElementMarker then put ''<first>''
      else if k = K_VariadicMarker then yields ()
      else if k = K_OutlinedCopy then then_children rec nd depth ''Wy''
      else other)"

definition old_remangle_cases_13 :: "remangle \<Rightarrow> node \<Rightarrow> nat \<Rightarrow> unit rm \<Rightarrow> unit rm" where
  "old_remangle_cases_13 rec nd depth other =
     (let k = getKind nd in
      if k = K_OutlinedConsume then then_children rec nd depth ''We''
      else if k = K_OutlinedRetain then then_single rec nd depth ''Wr''
      else if k = K_OutlinedRelease then then_single rec nd depth ''Ws''
      else if k = K_OutlinedInitializeWithTake then then_single rec nd depth ''Wb''
      else if k = K_OutlinedInitializeWithCopy then then_single rec nd depth ''Wc''
      else if k = K_OutlinedAssignWithTake then then_single rec nd depth ''Wd''
      else if k = K_OutlinedAssignWithCopy then then_single rec nd depth ''Wf''
      else if k = K_OutlinedDestroy then then_single rec nd depth ''Wh''
      else if k = K_OutlinedVariable then
        steps [put ''Tv'', with_index nd (\<lambda>i. put (show_u64 i)), mangleSingleChildNode rec nd (depth + 1)]
      else if k = K_OutlinedBridgedMethod then
        steps [put ''Te'', with_text nd put, mangleSingleChildNode rec nd (depth + 1)]
      else if k = K_CoroutineContinuationPrototype then then_children rec nd depth ''TC''
      else if k = K_KeyPathGetterThunkHelper then then_children rec nd depth ''TK''
      else if k = K_KeyPathSetterThunkHelper then then_children rec nd depth ''Tk''
      else if k = K_KeyPathEqualsThunkHelper then then_children rec nd depth ''TH''
      else if k = K_KeyPathHashThunkHelper then then_children rec nd depth ''Th''
      else if k = K_ProtocolListWithClass then
        steps
          [put ''Xc'', asserted (1 < getNumChildren nd) nd, with_child nd 1 (\<lambda>c. rec c (depth + 1)),
           with_child nd 0 (\<lambda>c. mangleProtocolListWithoutPrefix rec c (depth + 1) None)]
      else if k = K_ProtocolListWithAnyObject then
        steps
          [put ''P'',
           with_child nd 0 (\<lambda>c. mangleProtocolListWithoutPrefix rec c (depth + 1) (Some AnyObject_protocol))]
      else if k = K_VTableThunk then then_children rec nd depth ''TV''
      else if k = K_SILBoxTypeWithLayout then mangleSILBoxTypeWithLayout_old rec nd depth
      else other)"

definition old_remangle_cases_14 :: "remangle \<Rightarrow> node \<Rightarrow> nat \<Rightarrow> unit rm \<Rightarrow> unit rm" where
  "old_remangle_cases_14 rec nd depth other =
     (let k = getKind nd in
      if k = K_SILBoxLayout then mangleSILBoxLayout_old rec nd depth
      else if k = K_SILBoxMutableField then box_field_old rec nd depth ''m''
      else if k = K_SILBoxImmutableField then box_field_old rec nd depth ''i''
      else if k = K_AssocTypePath then failed_at UnsupportedNodeKind nd
      else if k = K_ModuleDescriptor then failed_at UnsupportedNodeKind nd
      else if k = K_ExtensionDescriptor then failed_at UnsupportedNodeKind nd
      else if k = K_AnonymousDescriptor then failed_at UnsupportedNodeKind nd
      else if k = K_AssociatedTypeGenericParamRef then failed_at UnsupportedNodeKind nd
      else if k = K_OpaqueTypeDescriptorSymbolicReference then failed_at UnsupportedNodeKind nd
      else if k = K_SugaredOptional then failed_at UnsupportedNodeKind nd
      else if k = K_SugaredArray then failed_at UnsupportedNodeKind nd
      else if k = K_SugaredDictionary then failed_at UnsupportedNodeKind nd
      else if k = K_SugaredParen then failed_at UnsupportedNodeKind nd
      else if k = K_OpaqueReturnType then put ''Qu''
      else if k = K_OpaqueType then failed_at UnsupportedNodeKind nd
      else if k = K_OpaqueTypeDescriptor then failed_at UnsupportedNodeKind nd
      else if k = K_OpaqueTypeDescriptorRecord then failed_at UnsupportedNodeKind nd
      else if k = K_OpaqueTypeDescriptorAccessor then failed_at UnsupportedNodeKind nd
      else if k = K_OpaqueTypeDescriptorAccessorImpl then failed_at UnsupportedNodeKind nd
      else if k = K_OpaqueTypeDescriptorAccessorKey then failed_at UnsupportedNodeKind nd
      else if k = K_OpaqueTypeDescriptorAccessorVar then failed_at UnsupportedNodeKind nd
      else if k = K_AccessorFunctionReference then failed_at UnsupportedNodeKind nd
      else if k = K_MetadataInstantiationCache then failed_at UnsupportedNodeKind nd
      else if k = K_GlobalVariableOnceToken then failed_at UnsupportedNodeKind nd
      else if k = K_GlobalVariableOnceFunction then failed_at UnsupportedNodeKind nd
      else if k = K_GlobalVariableOnceDeclList then failed_at UnsupportedNodeKind nd
      else if k = K_PredefinedObjCAsyncCompletionHandlerImpl then failed_at UnsupportedNodeKind nd
      else if k = K_ObjCAsyncCompletionHandlerImpl then failed_at UnsupportedNodeKind nd
      else other)"

definition old_remangle_cases_15 :: "remangle \<Rightarrow> node \<Rightarrow> nat \<Rightarrow> unit rm \<Rightarrow> unit rm" where
  "old_remangle_cases_15 rec nd depth other =
     (let k = getKind nd in
      if k = K_CanonicalSpecializedGenericMetaclass then single_then rec nd depth ''MM''
      else if k = K_CanonicalSpecializedGenericTypeMetadataAccessFunction then single_then rec nd depth ''Mb''
      else if k = K_NoncanonicalSpecializedGenericTypeMetadata then single_then rec nd depth ''MN''
      else if k = K_NoncanonicalSpecializedGenericTypeMetadataCache then single_then rec nd depth ''MJ''
      else if k = K_CanonicalPrespecializedGenericTypeCachingOnceToken then single_then rec nd depth ''Mz''
      else if k = K_AccessibleFunctionRecord then put ''HF''
      else other)"

text \<open>Contexts start with a context of their own. A kind without a case is an error.\<close>

definition old_remangle_node :: "remangle \<Rightarrow> node \<Rightarrow> nat \<Rightarrow> unit rm" where
  "old_remangle_node rec nd depth =
     (if isContext (getKind nd) then mangle_by_itself rec nd depth
      else
        old_remangle_cases_1 rec nd depth (
        old_remangle_cases_2 rec nd depth (
        old_remangle_cases_3 rec nd depth (
        old_remangle_cases_4 rec nd depth (
        old_remangle_cases_5 rec nd depth (
        old_remangle_cases_6 rec nd depth (
        old_remangle_cases_7 rec nd depth (
        old_remangle_cases_8 rec nd depth (
        old_remangle_cases_9 rec nd depth (
        old_remangle_cases_10 rec nd depth (
        old_remangle_cases_11 rec nd depth (
        old_remangle_cases_12 rec nd depth (
        old_remangle_cases_13 rec nd depth (
        old_remangle_cases_14 rec nd depth (
        old_remangle_cases_15 rec nd depth
        (failed_at BadNodeKind nd))))))))))))))))"

section \<open>The remangler\<close>

fun mangle_old :: "nat \<Rightarrow> remangle" where
  "mangle_old 0 nd depth = failed Out_Of_Fuel"
| "mangle_old (Suc n) nd depth =
     (if depth > Remangler_MaxDepth then failed_at TooComplex nd else old_remangle_node (mangle_old n) nd depth)"

definition run_remangler_old :: "node \<Rightarrow> remangler \<Rightarrow> remangle_error + string" where
  "run_remangler_old nd s =
     (case mangle_old (Remangler_MaxDepth + 2) nd 0 s of
        Inl e \<Rightarrow> Inl e
      | Inr (_, s) \<Rightarrow> Inr (Buffer (Out s)))"

text \<open>A null node is the empty name.\<close>

definition mangleNodeOld :: "node option \<Rightarrow> remangle_error + string" where
  "mangleNodeOld nd = (case nd of None \<Rightarrow> Inr [] | Some nd \<Rightarrow> run_remangler_old nd new_remangler)"

text \<open>The string up to its first null character, which the code appends after the underscore.\<close>

definition mangleNodeAsObjcCString :: "node option \<Rightarrow> remangle_error + string" where
  "mangleNodeAsObjcCString nd =
     (case nd of
        None \<Rightarrow> Inl Undefined
      | Some nd \<Rightarrow>
          (case run_remangler_old nd (new_remangler\<lparr>Out := (Out new_remangler)\<lparr>Buffer := ''_Tt''\<rparr>\<rparr>) of
             Inl e \<Rightarrow> Inl e
           | Inr out \<Rightarrow> Inr (takeWhile (\<lambda>c. c \<noteq> CHR 0x00) (out @ ''_''))))"

end
