(* ===== verification/Old_Remangler_Roundtrip.thy ===== *)
theory Old_Remangler_Roundtrip
  imports Old_Remangler Remangler_Roundtrip
begin

text \<open>
  What the remangler to the old mangling writes for the names of nested types: exactly the names that
  \<open>Class_Names\<close> reads. Contexts are written before what they hold, so that the table of substitutions is empty
  when a type is looked up, and nothing is substituted. A type that others are nested in takes five levels of
  \<open>MaxDepth\<close>.
\<close>

section \<open>The cases of the switch\<close>

lemma old_not_contexts:
  "\<not> isContext K_Identifier" "\<not> isContext K_Type" "\<not> isContext K_TypeMangling" "\<not> isContext K_Global" "isContext K_Module"
  by code_simp+

lemma old_identifier:
  "depth \<le> Remangler_MaxDepth \<Longrightarrow> mangle_old (Suc f) (TextNode K_Identifier n) depth = put_name n"
  by (simp add: old_remangle_node_def old_not_contexts old_remangle_cases_1_def with_text_def)

lemma old_global:
  "depth \<le> Remangler_MaxDepth \<Longrightarrow>
    mangle_old (Suc f) (Node K_Global [n]) depth = steps [put ''_T'', mangle_old f n (depth + 1)]"
  by (simp add: old_remangle_node_def old_not_contexts old_remangle_cases_1_def then_children_def mangleChildNodes_def
      after_yields)

lemma old_type_mangling:
  "depth \<le> Remangler_MaxDepth \<Longrightarrow>
    mangle_old (Suc f) (Node K_TypeMangling [n]) depth = steps [put ''t'', mangle_old f n (depth + 1)]"
  by (simp add: old_remangle_node_def old_not_contexts old_remangle_cases_1_def old_remangle_cases_2_def
      old_remangle_cases_3_def old_remangle_cases_4_def old_remangle_cases_5_def old_remangle_cases_6_def
      old_remangle_cases_7_def then_single_def mangleSingleChildNode_def getNumChildren_def with_child_def getChild_def
      with_node_def after_yields)

lemma old_type:
  "depth \<le> Remangler_MaxDepth \<Longrightarrow> mangle_old (Suc f) (Node K_Type [n]) depth = mangle_old f n (depth + 1)"
  by (simp add: old_remangle_node_def old_not_contexts old_remangle_cases_1_def old_remangle_cases_2_def
      old_remangle_cases_3_def old_remangle_cases_4_def old_remangle_cases_5_def old_remangle_cases_6_def
      old_remangle_cases_7_def mangleType_def mangleSingleChildNode_def getNumChildren_def with_child_def getChild_def
      with_node_def)

lemma old_context:
  "depth \<le> Remangler_MaxDepth \<Longrightarrow> isContext (getKind nd) \<Longrightarrow>
    mangle_old (Suc f) nd depth = mangle_by_itself (mangle_old f) nd depth"
  by (simp add: old_remangle_node_def)

section \<open>Contexts\<close>

text \<open>
  What is known after a context is written: its text is added to the output, and the entries of the table are
  not larger than it.
\<close>

definition old_written :: "remangler \<Rightarrow> remangler \<Rightarrow> string \<Rightarrow> nat \<Rightarrow> bool" where
  "old_written s s' out n \<longleftrightarrow> Buffer (Out s') = Buffer (Out s) @ out \<and> table_ok s'
     \<and> (\<forall>(t, b) \<in> set (table s'). \<not> b \<and> size t \<le> n)"

lemma old_write:
  assumes "table_ok s" and "\<forall>(t, b) \<in> set (table s). \<not> b \<and> size t < size nd"
  shows "\<exists>s'. Remangler_State.addSubstitution (nd, False) s = Inr ((), s') \<and> Out s' = Out s \<and> table_ok s'
    \<and> (\<forall>(t, b) \<in> set (table s'). \<not> b \<and> size t \<le> size nd)"
proof -
  have "findSubstitution (nd, False) s = None"
    using assms by (fastforce simp: findSubstitution_position position_None same_entry_def)
  with addSubstitution_table [OF assms(1), of "(nd, False)"] assms(2) show ?thesis by fastforce
qed

lemma old_lookup:
  assumes "table s = []" and "table_ok s" and "mangleStandardSubstitution_old nd s = Inr (False, s)"
  shows "substituted_old nd x m s = after m (\<lambda>x. after (Remangler_State.addSubstitution (nd, False)) (\<lambda>_. yields x)) s"
  using assms
  by (simp add: substituted_old_def trySubstitution_old_def after_def findSubstitution_position)

lemma old_standard_module:
  "md \<notin> {STDLIB_NAME, MANGLING_MODULE_OBJC, MANGLING_MODULE_CLANG_IMPORTER} \<Longrightarrow>
    mangleStandardSubstitution_old (TextNode K_Module md) s = Inr (False, s)"
  by (simp add: mangleStandardSubstitution_old_def put_known_def with_text_def module_substs_def yields_def)

lemma old_standard_nominal:
  assumes "md \<noteq> STDLIB_NAME" and "k \<in> {K_Class, K_Structure, K_Enum}" and "nominal_types ts"
  shows "mangleStandardSubstitution_old (Node k [nested_tree md ts, TextNode K_Identifier n]) s = Inr (False, s)"
proof (cases ts rule: rev_cases)
  case Nil
  then show ?thesis
    using assms(1,2)
    by (auto simp: mangleStandardSubstitution_old_def put_known_type_def isInSwiftModule_def nested_tree_def with_node_def
        with_text_def after_def yields_def)
next
  case (snoc us x)
  then have "getKind (nested_tree md ts) \<noteq> K_Module"
    by (cases x) (simp add: nested_snoc nominalTypeMarkerToNodeKind_def)
  then show ?thesis
    using assms(2)
    by (auto simp: mangleStandardSubstitution_old_def put_known_type_def isInSwiftModule_def with_node_def after_def yields_def)
qed

lemma old_module_written:
  assumes "table s = []" and "table_ok s"
    and "md \<notin> {STDLIB_NAME, MANGLING_MODULE_OBJC, MANGLING_MODULE_CLANG_IMPORTER}" and "AsContext ctx"
  shows "\<exists>s'. mangleModule_old (TextNode K_Module md) ctx s = Inr (ctx, s')
    \<and> old_written s s' (sized md) (size (TextNode K_Module md))"
proof -
  let ?s = "s\<lparr>Out := (Out s)\<lparr>Buffer := Buffer (Out s) @ sized md\<rparr>\<rparr>"
  have "table_ok ?s" "table ?s = []" using assms by (simp_all add: table_ok_def table_def)
  then obtain s' where "Remangler_State.addSubstitution (TextNode K_Module md, False) ?s = Inr ((), s')" "Out s' = Out ?s"
    "table_ok s'" "\<forall>(t, b) \<in> set (table s'). \<not> b \<and> size t \<le> size (TextNode K_Module md)"
    using old_write [of ?s "TextNode K_Module md"] by auto
  then show ?thesis
    using assms
    by (simp add: mangleModule_old_def old_lookup old_standard_module old_written_def after_def unless_def yields_def
        with_text_def put_name_def put_def sized_def)
qed

lemma old_nominal_written:
  assumes names: "\<And>n d. d \<le> Remangler_MaxDepth \<Longrightarrow> rec (TextNode K_Identifier n) d = put_name n"
    and ctx: "AnonymousContextDiscriminator ctx = []"
    and md: "md \<noteq> STDLIB_NAME" and ts: "nominal_types (ts @ [(c, n)])"
    and s: "table s = []" "table_ok s" and depth: "depth + 3 \<le> Remangler_MaxDepth"
    and inner: "\<And>s. table s = [] \<Longrightarrow> table_ok s \<Longrightarrow> \<exists>s'. ec (nested_tree md ts) ctx (depth + 3) s = Inr (ctx, s')
      \<and> old_written s s' (nested_text md ts) (size (nested_tree md ts))"
  shows "\<exists>s'. mangleAnyNominalType_old ec rec (nested_tree md (ts @ [(c, n)])) ctx depth s = Inr (ctx, s')
    \<and> old_written s s' (nested_text md (ts @ [(c, n)])) (size (nested_tree md (ts @ [(c, n)])))"
proof -
  define k where "k = nominalTypeMarkerToNodeKind c"
  define nd where "nd = Node k [nested_tree md ts, TextNode K_Identifier n]"
  have c: "c = CHR ''C'' \<or> c = CHR ''V'' \<or> c = CHR ''O''" and ts': "nominal_types ts"
    using ts by (auto simp: nominal_types_def)
  have k: "k \<in> {K_Class, K_Structure, K_Enum}" "map_of nominal_letters k = Some ([c], [])"
    using c by (auto simp: k_def nominalTypeMarkerToNodeKind_def nominal_letters_def)
  have "\<not> isSpecialized nd" using not_specialized [OF ts, of md] by (simp add: nested_snoc nd_def k_def)
  then have any: "mangleAnyNominalType_old ec rec nd ctx depth = mangleNominalType ec rec nd [c] ctx (depth + 1) []"
    using depth k by (subst mangleAnyNominalType_old.simps) (auto simp: nd_def simp del: isSpecialized.simps)
  let ?s = "s\<lparr>Out := (Out s)\<lparr>Buffer := Buffer (Out s) @ [c]\<rparr>\<rparr>"
  have "table ?s = []" "table_ok ?s" using s by (simp_all add: table_def table_ok_def)
  from inner [OF this] obtain s1 where s1: "ec (nested_tree md ts) ctx (depth + 3) ?s = Inr (ctx, s1)"
    "Buffer (Out s1) = Buffer (Out s) @ c # nested_text md ts" "table_ok s1"
    "\<forall>(t, b) \<in> set (table s1). \<not> b \<and> size t \<le> size (nested_tree md ts)"
    by (auto simp: old_written_def)
  let ?s2 = "s1\<lparr>Out := (Out s1)\<lparr>Buffer := Buffer (Out s1) @ sized n\<rparr>\<rparr>"
  have "mangleNamedEntity ec rec nd [c] [] ctx (depth + 2) [] s = Inr (ctx, ?s2)"
    using s1(1) ctx depth names [of "depth + 3" n]
    by (simp add: mangleNamedEntity_def asserted_def unless_def nd_def getNumChildren_def after_def yields_def put_def
        context_child_def with_child_def getChild_def with_node_def private_discriminator_def provided_def put_name_def
        sized_def eval_nat_numeral Let_def)
  moreover have t2: "table ?s2 = table s1" and ok2: "table_ok ?s2" using s1(3) by (simp_all add: table_def table_ok_def)
  have "\<forall>(t, b) \<in> set (table ?s2). \<not> b \<and> size t < size nd" using s1(4) unfolding t2 by (fastforce simp: nd_def)
  with ok2 obtain s' where "Remangler_State.addSubstitution (nd, False) ?s2 = Inr ((), s')" "Out s' = Out ?s2" "table_ok s'"
    "\<forall>(t, b) \<in> set (table s'). \<not> b \<and> size t \<le> size nd"
    using old_write [of ?s2 nd] by blast
  ultimately have "mangleNominalType ec rec nd [c] ctx (depth + 1) [] s = Inr (ctx, s')
      \<and> old_written s s' (nested_text md (ts @ [(c, n)])) (size nd)"
    using old_standard_nominal [OF md k(1) ts'] s1(2) k(1) s
    by (auto simp: mangleNominalType_def with_node_def old_lookup nd_def old_written_def nested_snoc after_def yields_def)
  moreover have "nested_tree md (ts @ [(c, n)]) = nd" by (simp add: nested_snoc nd_def k_def)
  ultimately show ?thesis using any by metis
qed

lemma old_context_kinds:
  "nominal_types (ts @ [(c, n)]) \<Longrightarrow> mangle_context ec rec (nested_tree md (ts @ [(c, n)])) ctx depth
    = mangleAnyNominalType_old ec rec (nested_tree md (ts @ [(c, n)])) ctx (depth + 1)"
  by (auto simp: mangle_context_def nested_snoc nominal_types_def nominalTypeMarkerToNodeKind_def)

lemma old_nested_written:
  assumes names: "\<And>n d. d \<le> Remangler_MaxDepth \<Longrightarrow> rec (TextNode K_Identifier n) d = put_name n"
    and md: "md \<notin> {STDLIB_NAME, MANGLING_MODULE_OBJC, MANGLING_MODULE_CLANG_IMPORTER}"
  shows "AnonymousContextDiscriminator ctx = [] \<Longrightarrow> nominal_types ts \<Longrightarrow> size (nested_tree md ts) < k \<Longrightarrow>
    depth + 5 * length ts \<le> Remangler_MaxDepth \<Longrightarrow> table s = [] \<Longrightarrow> table_ok s \<Longrightarrow>
    \<exists>s'. context_rec k rec (nested_tree md ts) ctx depth s = Inr (ctx, s')
      \<and> old_written s s' (nested_text md ts) (size (nested_tree md ts))"
proof (induction ts arbitrary: ctx k depth s rule: rev_induct)
  case Nil
  then obtain j where j: "k = Suc j" by (cases k) auto
  obtain s' where "mangleModule_old (TextNode K_Module md) (ctx\<lparr>AsContext := True\<rparr>) s = Inr (ctx\<lparr>AsContext := True\<rparr>, s')"
    "old_written s s' (sized md) (size (TextNode K_Module md))"
    using old_module_written [OF Nil(5,6) md, of "ctx\<lparr>AsContext := True\<rparr>"] by auto
  then show ?case
    using old_not_contexts(5)
    by (simp add: j context_rec.simps nested_tree_def nested_text_def bound_contexts_def mangle_context_def as_context_def
        after_def yields_def)
next
  case (snoc x ts)
  obtain c n where x: "x = (c, n)" by fastforce
  obtain j where j: "k = Suc j" using snoc.prems(3) by (cases k) auto
  let ?nd = "nested_tree md (ts @ [(c, n)])" and ?ctx = "ctx\<lparr>AsContext := True\<rparr>"
  have kind: "getKind ?nd \<notin> set bound_contexts" "isContext (getKind ?nd)"
    using snoc.prems(2) x nominal_contexts
    by (auto simp: nested_snoc nominal_types_def nominalTypeMarkerToNodeKind_def bound_contexts_def)
  have ts: "nominal_types ts" "size (nested_tree md ts) < j"
    using snoc.prems(2,3) x j size_nested_snoc [of md ts x] by (auto simp: nominal_types_def)
  have "\<exists>s'. mangleAnyNominalType_old (context_rec j rec) rec ?nd ?ctx (depth + 2) s = Inr (?ctx, s')
    \<and> old_written s s' (nested_text md (ts @ [(c, n)])) (size ?nd)"
  proof (rule old_nominal_written)
    show "\<exists>s'. context_rec j rec (nested_tree md ts) ?ctx (depth + 2 + 3) s = Inr (?ctx, s')
      \<and> old_written s s' (nested_text md ts) (size (nested_tree md ts))" if "table s = []" "table_ok s" for s
      using snoc.prems(1,4) ts that by (intro snoc.IH) auto
  qed (use names md snoc.prems x in auto)
  then show ?case
    using kind snoc.prems(2) x
    by (auto simp: j context_rec.simps as_context_def old_context_kinds after_def yields_def)
qed

section \<open>Boxes\<close>

text \<open>The layout of a box is never written if it has a field: the code looks for the kind of a field at the layout.\<close>

lemma box_fields_fail:
  "getKind nd = K_SILBoxLayout \<Longrightarrow> getChildren nd \<noteq> [] \<Longrightarrow>
    mangleSILBoxLayout_old rec nd depth s = Inl (Mangling_Error AssertionFailed_error nd)"
  by (cases "getChildren nd")
    (simp_all add: mangleSILBoxLayout_old_def asserted_def unless_def after_def yields_def failed_def)

section \<open>The name of a type\<close>

lemma old_starts: "table new_remangler = []" "table_ok new_remangler"
  by (simp_all add: new_remangler_def table_def table_ok_def)

lemma old_type_written:
  assumes md: "md \<notin> {STDLIB_NAME, MANGLING_MODULE_OBJC, MANGLING_MODULE_CLANG_IMPORTER}"
    and ts: "nominal_types ts" "ts \<noteq> []" "length ts \<le> 204"
    and s: "table s = []" "table_ok s" and depth: "depth \<le> 2"
  shows "\<exists>s'. mangle_old (Suc (Suc (Suc f))) (Node K_Type [nested_tree md ts]) depth s = Inr ((), s')
    \<and> Buffer (Out s') = Buffer (Out s) @ nested_text md ts"
proof -
  obtain us c n where us: "ts = us @ [(c, n)]" using ts(2) by (cases ts rule: rev_cases) auto
  let ?nd = "nested_tree md (us @ [(c, n)])" and ?rec = "mangle_old (Suc f)"
  have names: "?rec (TextNode K_Identifier n) d = put_name n" if "d \<le> Remangler_MaxDepth" for n d
    using old_identifier [OF that, of f n] .
  have "\<exists>s'. mangleAnyNominalType_old (context_rec (size ?nd + 1) ?rec) ?rec ?nd new_context (depth + 2) s
      = Inr (new_context, s') \<and> old_written s s' (nested_text md (us @ [(c, n)])) (size ?nd)"
  proof (rule old_nominal_written)
    show "\<exists>s'. context_rec (size ?nd + 1) ?rec (nested_tree md us) new_context (depth + 2 + 3) s = Inr (new_context, s')
      \<and> old_written s s' (nested_text md us) (size (nested_tree md us))" if "table s = []" "table_ok s" for s
      using ts us that depth size_nested_snoc [of md us "(c, n)"]
      by (intro old_nested_written names md) (auto simp: new_context_def nominal_types_def)
  qed (use names md ts us s depth in \<open>auto simp: new_context_def\<close>)
  then obtain s' where s': "mangle_by_itself ?rec ?nd (depth + 1) s = Inr ((), s')"
    "Buffer (Out s') = Buffer (Out s) @ nested_text md ts"
    using ts(1) us
    by (auto simp: mangle_by_itself_def with_new_context_def old_context_kinds after_def yields_def old_written_def
        simp del: context_rec.simps)
  have "isContext (getKind ?nd)"
    using ts(1) us nominal_contexts by (auto simp: nested_snoc nominal_types_def nominalTypeMarkerToNodeKind_def)
  then have "mangle_old (Suc (Suc f)) ?nd (depth + 1) = mangle_by_itself ?rec ?nd (depth + 1)"
    using depth by (intro old_context) auto
  then show ?thesis
    using s' depth old_type [of depth "Suc (Suc f)" ?nd] by (simp add: us del: mangle_old.simps)
qed

lemma no_null_character:
  assumes "nominal_types ts" and "\<forall>n \<in> set (md # map snd ts). CHR 0x00 \<notin> set n"
  shows "CHR 0x00 \<notin> set (nested_text md ts)"
proof -
  have "CHR 0x00 \<notin> set (sized n)" if "CHR 0x00 \<notin> set n" for n
    using that show_nat_digits [of "CHR 0x00" "length n"] by (auto simp: sized_def is_digit_def)
  then show ?thesis using assms by (force simp: nested_text_def nominal_types_def list_all_iff)
qed

text \<open>
  C9: For a class, structure or enum nested in up to 203 others, the remangler to the old mangling writes exactly
  the old name of the type: \<open>_Tt\<close>, the letters of the kinds from the innermost outwards, and the names from the
  module inwards, each with its length in front. The old demangler reads it as the same tree. The name for the
  Objective-C runtime is the same with an underscore at the end, if no name has a null character.
\<close>

theorem old_remangled_names:
  assumes "plain_name md" and "md \<notin> {STDLIB_NAME, MANGLING_MODULE_OBJC, MANGLING_MODULE_CLANG_IMPORTER}"
    and "nominal_types ts" and "ts \<noteq> []" and "length ts \<le> 204"
  shows "let name = ''_Tt'' @ rev (map fst ts) @ concat (map (\<lambda>n. show_nat (length n) @ n) (md # map snd ts)) in
      mangleNodeOld (Some (type_tree md ts)) = Inr name
      \<and> demangleOldSymbolAsNode name = Some (type_tree md ts)
      \<and> ((\<forall>n \<in> set (md # map snd ts). CHR 0x00 \<notin> set n) \<longrightarrow>
          mangleNodeAsObjcCString (Some (Node K_Type [nested_tree md ts])) = Inr (name @ ''_''))"
proof -
  have name: "''_Tt'' @ rev (map fst ts) @ concat (map (\<lambda>n. show_nat (length n) @ n) (md # map snd ts))
      = ''_Tt'' @ nested_text md ts"
    by (simp add: nested_text_def sized_def comp_def)
  let ?s = "new_remangler\<lparr>Out := (Out new_remangler)\<lparr>Buffer := ''_Tt''\<rparr>\<rparr>" and ?type = "Node K_Type [nested_tree md ts]"
  have s: "table ?s = []" "table_ok ?s" using old_starts by (simp_all add: table_def table_ok_def)
  note type = old_type_written [OF assms(2-5) s]
  obtain s1 where s1: "mangle_old 1024 ?type 2 ?s = Inr ((), s1)" "Buffer (Out s1) = ''_Tt'' @ nested_text md ts"
    using type [of 2 1021] by auto
  have "mangle_old 1026 (type_tree md ts) 0 = steps [put ''_T'', steps [put ''t'', mangle_old 1024 ?type 2]]"
    using old_global [of 0 1025] old_type_mangling [of 1 1024] by (simp add: type_tree_def flip: numeral_2_eq_2)
  then have "mangle_old 1026 (type_tree md ts) 0 new_remangler = Inr ((), s1)"
    using s1(1) by (simp add: after_def put_def yields_def new_remangler_def)
  then have "mangleNodeOld (Some (type_tree md ts)) = Inr (''_Tt'' @ nested_text md ts)"
    using s1(2) by (simp add: mangleNodeOld_def run_remangler_old_def)
  moreover have "demangleOldSymbolAsNode (''_Tt'' @ nested_text md ts) = Some (type_tree md ts)"
  proof -
    obtain us c n where "ts = us @ [(c, n)]" using assms(4) by (cases ts rule: rev_cases) auto
    then show ?thesis using read_class_name [of md us c n] assms by (simp add: OldMaxDepth_def)
  qed
  moreover have "mangleNodeAsObjcCString (Some ?type) = Inr ((''_Tt'' @ nested_text md ts) @ ''_'')"
    if "\<forall>n \<in> set (md # map snd ts). CHR 0x00 \<notin> set n"
  proof -
    obtain s2 where s2: "mangle_old 1026 ?type 0 ?s = Inr ((), s2)" "Buffer (Out s2) = ''_Tt'' @ nested_text md ts"
      using type [of 0 1023] by auto
    have "c \<noteq> CHR 0x00" if "c \<in> set (''_Tt'' @ nested_text md ts @ ''_'')" for c
      using no_null_character [OF assms(3) \<open>\<forall>n \<in> set (md # map snd ts). CHR 0x00 \<notin> set n\<close>] that by auto
    then have "takeWhile (\<lambda>c. c \<noteq> CHR 0x00) (''_Tt'' @ nested_text md ts @ ''_'') = ''_Tt'' @ nested_text md ts @ ''_''"
      by (simp only: takeWhile_eq_all_conv) blast
    then show ?thesis using s2 by (simp add: mangleNodeAsObjcCString_def run_remangler_old_def del: append.simps takeWhile.simps)
  qed
  ultimately show ?thesis unfolding Let_def name by blast
qed

theorem old_remangled_names_witness:
  "mangleNodeOld (Some (type_tree ''Main'' [(CHR ''V'', ''Outer''), (CHR ''C'', ''Foo'')])) = Inr ''_TtCV4Main5Outer3Foo''
    \<and> demangleOldSymbolAsNode ''_TtCV4Main5Outer3Foo'' = Some (type_tree ''Main'' [(CHR ''V'', ''Outer''), (CHR ''C'', ''Foo'')])
    \<and> mangleNodeAsObjcCString (Some (Node K_Type [nested_tree ''Main'' [(CHR ''V'', ''Outer''), (CHR ''C'', ''Foo'')]]))
      = Inr ''_TtCV4Main5Outer3Foo_''"
proof -
  have sizes: "show_nat (length ''Main'') = ''4''" "show_nat (length ''Outer'') = ''5''" "show_nat (length ''Foo'') = ''3''"
    by code_simp+
  show ?thesis
    using old_remangled_names [of "''Main''" "[(CHR ''V'', ''Outer''), (CHR ''C'', ''Foo'')]"] sizes
    by (simp add: plain_name_def nominal_types_def isDigit_def STDLIB_NAME_def MANGLING_MODULE_OBJC_def
        MANGLING_MODULE_CLANG_IMPORTER_def Let_def)
qed

end
