(* ===== verification/Node_Dumper.thy ===== *)
theory Node_Dumper
  imports Printer_Monad
begin

text \<open>The dump of a tree for debugging (\<open>lib/Demangling/NodeDumper.cpp\<close>): a line per node, indented by its depth.\<close>

definition getNodeKindString :: "Kind \<Rightarrow> string" where
  "getNodeKindString k =
     (if kind_number k < length node_kinds then fst (node_kinds ! kind_number k)
      else ''Demangle::Node::Kind::???'')"

definition printNode_head :: "nat \<Rightarrow> Kind \<Rightarrow> string \<Rightarrow> string" where
  "printNode_head depth k payload =
     replicate (depth * 2) (CHR '' '') @ ''kind='' @ getNodeKindString k @ payload @ [CHR 0x0A]"

fun printNode :: "nat \<Rightarrow> node \<Rightarrow> string" where
  "printNode depth (TextNode k t) = printNode_head depth k ('', text=\"'' @ t @ ''\"'')"
| "printNode depth (IndexNode k i) = printNode_head depth k ('', index='' @ show_u64 i)"
| "printNode depth (Node k ns) = printNode_head depth k [] @ concat (map (printNode (depth + 1)) ns)"

definition getNodeTreeAsString :: "node option \<Rightarrow> string" where
  "getNodeTreeAsString Root = (case Root of None \<Rightarrow> ''<<NULL>>'' | Some n \<Rightarrow> printNode 0 n)"

end
