(* ===== verification/Spec2Isabelle.thy ===== *)
theory Spec2Isabelle
  imports Objc_Metadata Demangler_Steps Demangler_Jobs Demangler_Numbers Identifier_Roundtrip Old_Progress
    Context_Facts Printer_Cases AST_Facts Class_Names Remangler_Roundtrip Old_Remangler_Roundtrip Node_Dumper
begin

text \<open>
  \<^bold>\<open>iCDump: reading Objective-C metadata, and the Swift name mangling it comes with.\<close>

  iCDump reads the Objective-C runtime structures of a Mach-O binary (\<open>src/\<close>, \<open>include/iCDump/\<close>) and prints
  them as declarations. The names of Swift classes it demangles with a copy of the demangling library of the
  Swift compiler (\<open>src/llvm-swift/swift/lib/Demangling/\<close>, \<open>include/swift/Demangling/\<close>). The development has
  two halves, which meet in \<open>Class::demangled_name\<close> (\<open>Demangling_Context\<close>).

  \<^bold>\<open>Conventions.\<close> A C++ structure is a record with its fields, an enum or a class hierarchy a datatype, an
  address a 64-bit word. \<open>llvm::Expected\<close>, a null pointer and \<open>false\<close> are \<open>None\<close>; errors with a code are the
  left side of a sum. Mutable state is passed explicitly: the position of a stream, the tables of the parser,
  and for the demangler a state monad (\<open>HOL-Library.State_Monad\<close>) over the record \<open>dem\<close>. Log messages and the
  allocation of memory are left out. What is not in the repository is an argument of the definitions: LIEF's
  stream, the chained fixups of a binary, the resolver of symbolic references.

  \<^bold>\<open>Objective-C.\<close>
  \<^item> \<open>Prelude\<close>: words, decimal numerals, collections of simplification rules.
  \<^item> \<open>Types_Encoding\<close> (\<open>TypesEncoding.cpp\<close>): the types and \<open>decode_type\<close>. The readers share a state of the
    text and a position; the loops have as fuel the length of the text, which C1 shows to be enough: every
    round moves the position or ends. C2 is the round trip with a printer of encodings, up to the last digit of
    numbers; C3 compares the switch with the table in the header, in both directions; C4 says what opaque
    aggregates do.
  \<^item> \<open>Objc_Types\<close> (\<open>Types.hpp\<close>): layouts, flags and pointer unions of the runtime structures.
  \<^item> \<open>Lief_Stream\<close> (\<open>MachOStream.cpp\<close>): the stream as a record of operations, the locale of its laws, and
    \<open>MachOStream\<close>, which is shown to satisfy them.
  \<^item> \<open>Objc_Entities\<close> (\<open>Method.cpp\<close>, \<open>Property.cpp\<close>, \<open>IVar.cpp\<close>, \<open>Protocol.cpp\<close>): how each entity is read, with
    the position put back by the scoped stream. C15 compares \<open>Protocol::create\<close>, which moves the stream, with a
    view of the protocol that reads each part at its address; decoded pointers (C14), prototypes (C13).
  \<^item> \<open>Objc_Parser\<close>, \<open>Objc_Metadata\<close> (\<open>Class.cpp\<close>, \<open>Parser.cpp\<close>, \<open>Metadata.cpp\<close>, \<open>iCDump.cpp\<close>): classes with their
    super classes. The recursion over super classes has fuel, and \<open>None\<close> stands for a run that has not come to an
    end with it: a cycle of super classes never ends, and C8 says exactly when some fuel is enough. The parser
    with its tables, and an abstract view of an image that the parser refines (C5, C6, C7, C10, C11); C12 says
    which methods a class has, with those taken over from its super classes.

  \<^item> \<open>AST_Gen\<close>, \<open>AST_Facts\<close> (\<open>ASTGen.cpp\<close>, \<open>ClangAST/utils.cpp\<close>): the declarations of classes and protocols.
    Clang is not in the repository: the functions of its AST that the generator calls are the fields of the
    record \<open>clang\<close>, and what is relied on of them is \<open>clang_view\<close>: creating a declaration changes no other, and
    adding one appends it to its context. C36 and C37 say which declarations are printed, in which order, C38
    that a structure is declared anew for each use. \<open>store_clang\<close> is an AST that satisfies the laws.

  \<^bold>\<open>Swift.\<close>
  \<^item> \<open>Mangling_Chars\<close> (\<open>ManglingUtils.h\<close>, \<open>ManglingUtils.cpp\<close>, \<open>StandardTypesMangling.def\<close>): character classes,
    operators, standard types.
  \<^item> \<open>Punycode\<close> (\<open>Punycode.cpp\<close>): code points and \<open>int\<close> values as natural numbers, with the overflow checks of
    the code as failure branches; C16 and C17 hold for identifiers of up to 1649 code points, below which no
    check of the encoder fails. The outer loop of the encoder has as fuel the number of code points: every
    round encodes at least one.
  \<^item> \<open>Demangle_Nodes\<close> (\<open>Demangle.h\<close>, \<open>DemangleNodes.def\<close>, the head of \<open>Demangler.cpp\<close>): kinds, the tree, predicates,
    the mangling prefixes.
  \<^item> \<open>Demangler_Monad\<close>, \<open>Demangler_Text\<close>, \<open>Demangler_Types\<close>, \<open>Demangler_Generics\<close>, \<open>Demangler_Dependent\<close>,
    \<open>Demangler_Entities\<close>, \<open>Demangler_Thunks\<close>, \<open>Demangler\<close> (\<open>Demangler.h\<close>, \<open>Demangler.cpp\<close>): one definition per
    member function, in the order of the file, up to \<open>demangleOperator\<close>, \<open>parseAndPushNodes\<close>, \<open>demangleSymbol\<close>
    and \<open>demangleType\<close>. Characters, stack, substitutions and words are the fields of \<open>dem\<close>. An index past the
    end of the words gives null as in the code. Nodes are values: the code changes a node that something else
    may point to in one place only, \<open>demangleBoundGenericType\<close> with an empty list of arguments and retroactive
    conformances, and there the run is stuck (\<open>returns_nominal\<close>, \<open>shared_nominal_stuck\<close>).
  \<^item> \<open>Demangler_Frame\<close>, \<open>Demangler_Progress\<close>, \<open>Demangler_Loops\<close>: what every operation leaves alone; that an
    operator which succeeds moves forward; and the locale \<open>fuel_loop\<close>, interpreted for each of the loops: their
    fuel is one more than the characters left, or than the nodes on the stack, and one round needs one of them.
  \<^item> \<open>Demangler_Steps\<close>: the demangler as a step relation (C18, C19, C20). \<open>Demangler_Jobs\<close>: the entry points
    (C21, C22, C23).
  \<^item> \<open>Mangling_Utils\<close> (\<open>ManglingUtils.h\<close>, parts of \<open>Remangler.cpp\<close>): \<open>mangleIdentifier\<close> and merged substitutions.
    \<open>Demangler_Numbers\<close>: numbers, standard types and operators are read as written (C24 to C27).
    \<open>Mangling_Words\<close>, \<open>Identifier_Reading\<close>, \<open>Identifier_Writing\<close>, \<open>Identifier_Roundtrip\<close>: an identifier is cut
    into words; the runs between words that are substituted are the abstract view that the two passes of the
    mangler and the loop of the demangler both implement, which gives the round trip (C28, C29).

  \<^item> \<open>Old_Demangler\<close>, \<open>Old_Demangler_Types\<close>, \<open>Old_Demangler_Top\<close> (\<open>OldDemangler.cpp\<close>): the mangling before
    Swift 4, over the text that is left and the substitutions. The functions that call each other take \<open>rec\<close>, and
    \<open>old_rec\<close> ties the knot with the length of the text as fuel: every round of calls takes a character. A child
    that the code uses without a check and that is missing makes the run stuck. \<open>Old_Triples\<close> says which trees are
    well formed and has the triples, \<open>Old_Productions\<close> and \<open>Old_Progress\<close> prove them for each function: the
    demangler returns (C30), with well-formed trees (C31).
  \<^item> \<open>Printer_Monad\<close>, \<open>Printer_Types\<close>, \<open>Printer_Print\<close> (\<open>NodePrinter.cpp\<close>, the options in \<open>Demangle.h\<close>): the printer
    of trees. The big switch of \<open>print\<close> is cut into \<open>print_cases_1\<close> to \<open>print_cases_15\<close> in the order of the code;
    cases of more than a few lines have definitions of their own. A child, text or index that is missing where
    the code uses it breaks the run. The fuel is the number of nodes and two more. \<open>Printer_Rules\<close> has the locale
    \<open>printing\<close> with the contract of the calls of \<open>print\<close>, \<open>Printer_Facts\<close> and \<open>Printer_Cases\<close> its lemmas for every
    case and the interpretation on \<open>print\<close>: printing ends (C34) and only appends (C35).
  \<^item> \<open>Demangling_Context\<close>, \<open>Context_Facts\<close> (\<open>Context.cpp\<close>, the end of \<open>Remangler.cpp\<close>, \<open>Class::demangled_name\<close>): the
    entry points, which put the demanglers and the printer together. Symbols that are payloads of nodes are
    demangled and printed in turn, to a depth that is an argument. Targets of thunks (C32), trees without their
    generic arguments (C33), names of modules. \<open>Class_Names\<close> follows the name of a Swift type from the mangled
    text over the tree to what is printed (C39).

  \<^item> \<open>Remangler_State\<close>, \<open>Remangler_Nodes\<close>, \<open>Remangler_Types\<close>, \<open>Remangler_Signatures\<close>, \<open>Remangler_Thunks\<close>,
    \<open>Remangler\<close> (\<open>Remangler.cpp\<close>, \<open>RemanglerBase.h\<close>): from trees back to mangled names, over a state of output,
    words and substitutions. The switch is cut into \<open>remangle_cases_1\<close> to \<open>remangle_cases_19\<close> in the order of the
    code, each taking \<open>rec\<close> for \<open>mangle\<close>. \<open>mangle\<close> stops at a depth of 1024 and every call is at least one level
    deeper, so that 1026 is enough fuel; the functions over conformances go to children, with the size of the
    tree as fuel. \<open>Remangler_Facts\<close> has the table of substitutions as a list and the views of remangler and
    demangler that agree; \<open>Remangler_Roundtrip\<close> the round trip of names of nested types (C40).
  \<^item> \<open>Old_Remangler_Entities\<close>, \<open>Old_Remangler_Types\<close>, \<open>Old_Remangler\<close> (\<open>OldRemangler.cpp\<close>): from trees back to names
    in the mangling before Swift 4, over the same state. The switch is cut into \<open>old_remangle_cases_1\<close> to
    \<open>old_remangle_cases_15\<close>; \<open>mangle_old\<close> has the same limit on the depth and the same fuel. The functions for
    contexts, which are not limited, take \<open>ec\<close> for \<open>mangleEntityContext\<close>; \<open>context_rec\<close> ties that knot with the
    size of the node as fuel, since it goes from a context to a smaller one. \<open>Old_Remangler_Roundtrip\<close>: the names
    of nested types are written exactly as \<open>Class_Names\<close> reads them (C9).
  \<^item> \<open>Node_Dumper\<close> (\<open>NodeDumper.cpp\<close>): the dump of a tree.

  \<^bold>\<open>Not modelled.\<close> Clang itself and the set-up of its compiler instance, logging and the Python bindings; of
  the Swift part the allocator of nodes and the headers of the Swift compiler that the library does not need.
\<close>

end
